(* ===== verification/Par6_Prelude.thy ===== *)
theory Par6_Prelude
  imports Main "HOL-Library.Word"
begin

text \<open>
  The shared vocabulary of the development: the machine integers of the Rust sources, the
  \<open>Result\<close> type with its \<open>?\<close> operator, big-endian byte strings, and the
  generic lemmas on lists, options and words the component theories use.

  \<^item> A Rust \<open>u8\<close>, \<open>u16\<close>, \<open>u32\<close>, \<open>u64\<close> is a word of that width; an \<open>i64\<close> is a
    64-bit word read by \<^const>\<open>sint\<close>. A \<open>usize\<close> that only counts elements of an existing
    collection is a \<open>nat\<close>.
  \<^item> \<open>Result<T, E>\<close> is the sum \<open>E + T\<close>: \<^const>\<open>Inl\<close> is \<open>Err\<close>, \<^const>\<open>Inr\<close> is \<open>Ok\<close>.
\<close>

unbundle bit_operations_syntax

named_theorems result_simps
  \<open>Rewrite rules that run a computation in the Result type.\<close>

named_theorems codec_simps
  \<open>Rewrite rules of the form: a reader placed in front of what a writer produced returns
   the value written and stands behind it.\<close>

named_theorems validation_simps
  \<open>Rewrite rules that turn a validation's acceptance into the conditions it checks.\<close>

type_synonym u8 = "8 word"
type_synonym u16 = "16 word"
type_synonym u32 = "32 word"
type_synonym u64 = "64 word"
type_synonym i64 = "64 word"
type_synonym bytes = "u8 list"

section \<open>Results\<close>

text \<open>
  \<open>bind_result m f\<close> is \<open>let x = m?; f(x)\<close>: an error returns at once, a value goes on.
\<close>

definition bind_result :: "'e + 'a \<Rightarrow> ('a \<Rightarrow> 'e + 'b) \<Rightarrow> 'e + 'b" where
  "bind_result m f = (case m of Inl e \<Rightarrow> Inl e | Inr x \<Rightarrow> f x)"

lemma bind_result_simps [simp, result_simps]:
  "bind_result (Inl e) f = Inl e"
  "bind_result (Inr x) f = f x"
  by (simp_all add: bind_result_def)

lemma bind_result_assoc:
  "bind_result (bind_result m f) g = bind_result m (\<lambda>x. bind_result (f x) g)"
  by (cases m) simp_all

lemma bind_result_eq_Inr [result_simps]:
  "bind_result m f = Inr y \<longleftrightarrow> (\<exists>x. m = Inr x \<and> f x = Inr y)"
  by (cases m) simp_all

text \<open>
  \<open>for v in vs { f(v)?; }\<close>: the first error ends the loop.
\<close>

fun for_all_result :: "('a \<Rightarrow> 'e + unit) \<Rightarrow> 'a list \<Rightarrow> 'e + unit" where
  "for_all_result f [] = Inr ()"
| "for_all_result f (v # vs) = bind_result (f v) (\<lambda>_. for_all_result f vs)"

lemma for_all_result_Inr [validation_simps]:
  "for_all_result f vs = Inr u \<longleftrightarrow> (\<forall>v\<in>set vs. f v = Inr ())"
  by (induction vs) (auto simp: bind_result_eq_Inr)

section \<open>Words\<close>

lemma unat_lt2p: "unat (w :: 'a::len word) < 2 ^ LENGTH('a)"
  by (rule unsigned_less)

text \<open>A bound on a word's unsigned reading, in the shape the case analyses need.\<close>

lemma u8_cases_bound: "unat (b :: u8) < 256"
  using unat_lt2p [of b] by simp

lemma unat_u32_bound: "unat (w :: u32) < 2 ^ 32"
  using unat_lt2p [of w] by simp

lemma unat_u16_bound: "unat (w :: u16) < 2 ^ 16"
  using unat_lt2p [of w] by simp

lemma unat_u64_bound: "unat (w :: u64) < 2 ^ 64"
  using unat_lt2p [of w] by simp

section \<open>Big-endian integers\<close>

text \<open>
  \<open>to_be k v\<close> is \<open>v.to_be_bytes()\<close> of a \<open>k\<close>-byte integer, most significant byte first;
  \<open>from_be\<close> is \<open>from_be_bytes\<close>. Both go through \<open>nat\<close>, so a value too large for
  \<open>k\<close> bytes loses its upper bytes, as Rust's \<open>as\<close> casts do.
\<close>

fun to_be :: "nat \<Rightarrow> nat \<Rightarrow> bytes" where
  "to_be 0 v = []"
| "to_be (Suc k) v = to_be k (v div 256) @ [of_nat v]"

definition from_be :: "bytes \<Rightarrow> nat" where
  "from_be bs = foldl (\<lambda>acc b. acc * 256 + unat b) 0 bs"

lemma length_to_be [simp]: "length (to_be k v) = k"
  by (induction k arbitrary: v) auto

lemma from_be_snoc: "from_be (bs @ [b]) = from_be bs * 256 + unat b"
  by (simp add: from_be_def)

lemma unat_of_nat_u8 [simp]: "unat (of_nat v :: u8) = v mod 256"
  by (simp add: unat_of_nat take_bit_eq_mod)

lemma from_be_to_be: "from_be (to_be k v) = v mod 256 ^ k"
proof (induction k arbitrary: v)
  case 0
  then show ?case by (simp add: from_be_def)
next
  case (Suc k)
  have "v mod (256 * 256 ^ k) = 256 * (v div 256 mod 256 ^ k) + v mod 256"
    by (rule mod_mult2_eq)
  with Suc show ?case by (simp add: from_be_snoc)
qed

lemma from_be_bound: "from_be bs < 256 ^ length bs"
proof (induction bs rule: rev_induct)
  case Nil
  then show ?case by (simp add: from_be_def)
next
  case (snoc b bs)
  have "unat b < 256" using unat_lt2p [of b] by simp
  with snoc show ?case by (simp add: from_be_snoc)
qed

lemma to_be_from_be: "to_be (length bs) (from_be bs) = bs"
proof (induction bs rule: rev_induct)
  case Nil
  then show ?case by simp
next
  case (snoc b bs)
  have b: "unat b < 256" using unat_lt2p [of b] by simp
  then have "(from_be bs * 256 + unat b) div 256 = from_be bs" by simp
  moreover have "(of_nat (from_be bs * 256 + unat b) :: u8) = b"
  proof -
    have "unat (of_nat (from_be bs * 256 + unat b) :: u8) = unat b"
      using b by (simp only: unat_of_nat_u8) simp
    then show ?thesis by (simp only: word_unat_eq_iff)
  qed
  ultimately show ?case using snoc by (simp add: from_be_snoc)
qed

text \<open>The four widths, as values of the word type that has them.\<close>

lemma from_be_to_be_u16: "v < 2 ^ 16 \<Longrightarrow> from_be (to_be 2 v) = v"
  by (simp add: from_be_to_be)

lemma from_be_to_be_u32: "v < 2 ^ 32 \<Longrightarrow> from_be (to_be 4 v) = v"
  by (simp add: from_be_to_be)

lemma from_be_to_be_unat:
  fixes v :: u64
  shows "from_be (to_be 8 (unat v)) = unat v"
  using unat_lt2p [of v] by (simp add: from_be_to_be)


end
