(* ===== verification/F64.thy ===== *)
theory F64
  imports Par6_Prelude
begin

text \<open>
  IEEE 754 binary64, as Rust's \<open>f64\<close> has it: a value is its 64-bit pattern
  (\<open>f64::to_bits\<close>), so infinities, NaNs and both zeros are present and equality of the
  HOL values is equality of patterns.

  The comparisons (\<open>f64_lt\<close>, \<open>f64_le\<close>, \<open>f64_eq\<close>) are the IEEE predicates, exact and false
  on NaN. The arithmetic is exact too: every operation is computed over the integers and
  rounded once, to nearest, ties to even (\<open>f64_round\<close>). The units are the least subnormal
  \<open>2^-1074\<close>, in which every finite value is an integer (\<open>f64_units\<close>).
\<close>

type_synonym f64 = "64 word"

section \<open>Fields and classes of a pattern\<close>

definition f64_mag :: "f64 \<Rightarrow> nat" where
  "f64_mag x = unat x mod 2 ^ 63"

definition f64_neg_sign :: "f64 \<Rightarrow> bool" where
  "f64_neg_sign x \<longleftrightarrow> 2 ^ 63 \<le> unat x"

definition f64_exp :: "f64 \<Rightarrow> nat" where
  "f64_exp x = f64_mag x div 2 ^ 52"

definition f64_mant :: "f64 \<Rightarrow> nat" where
  "f64_mant x = f64_mag x mod 2 ^ 52"

definition is_nan :: "f64 \<Rightarrow> bool" where
  "is_nan x \<longleftrightarrow> f64_exp x = 2047 \<and> f64_mant x \<noteq> 0"

definition is_finite :: "f64 \<Rightarrow> bool" where
  "is_finite x \<longleftrightarrow> f64_exp x \<noteq> 2047"

definition f64_zero :: f64 where "f64_zero = 0"
definition f64_one :: f64 where "f64_one = 0x3FF0000000000000"
definition f64_minus_one :: f64 where "f64_minus_one = 0xBFF0000000000000"
definition f64_inf :: f64 where "f64_inf = 0x7FF0000000000000"
definition f64_nan :: f64 where "f64_nan = 0x7FF8000000000000"

lemmas f64_field_defs = f64_mag_def f64_neg_sign_def f64_exp_def f64_mant_def
lemmas f64_const_defs = f64_zero_def f64_one_def f64_minus_one_def f64_inf_def f64_nan_def

section \<open>Comparison\<close>

text \<open>
  Patterns of one sign are ordered like their magnitudes; the key folds the sign in and
  sends both zeros to \<open>0\<close>.
\<close>

definition f64_key :: "f64 \<Rightarrow> int" where
  "f64_key x = (if f64_neg_sign x then - int (f64_mag x) else int (f64_mag x))"

definition f64_lt :: "f64 \<Rightarrow> f64 \<Rightarrow> bool" where
  "f64_lt x y \<longleftrightarrow> \<not> is_nan x \<and> \<not> is_nan y \<and> f64_key x < f64_key y"

definition f64_le :: "f64 \<Rightarrow> f64 \<Rightarrow> bool" where
  "f64_le x y \<longleftrightarrow> \<not> is_nan x \<and> \<not> is_nan y \<and> f64_key x \<le> f64_key y"

definition f64_eq :: "f64 \<Rightarrow> f64 \<Rightarrow> bool" where
  "f64_eq x y \<longleftrightarrow> \<not> is_nan x \<and> \<not> is_nan y \<and> f64_key x = f64_key y"

lemmas f64_cmp_defs = f64_lt_def f64_le_def f64_eq_def

lemma finite_not_nan: "is_finite x \<Longrightarrow> \<not> is_nan x"
  by (simp add: is_finite_def is_nan_def)

lemma f64_lt_trans: "f64_lt x y \<Longrightarrow> f64_lt y z \<Longrightarrow> f64_lt x z"
  by (auto simp: f64_lt_def)

lemma f64_lt_le_trans: "f64_lt x y \<Longrightarrow> f64_le y z \<Longrightarrow> f64_lt x z"
  by (auto simp: f64_cmp_defs)

lemma f64_not_lt: "\<not> is_nan x \<Longrightarrow> \<not> is_nan y \<Longrightarrow> \<not> f64_lt x y \<longleftrightarrow> f64_le y x"
  by (auto simp: f64_cmp_defs)

section \<open>Values\<close>

text \<open>
  The integer a finite pattern stands for, in units of \<open>2^-1074\<close>: a subnormal is its
  mantissa, a normal has the implicit bit and is scaled by its exponent.
\<close>

definition units_of_mag :: "nat \<Rightarrow> nat" where
  "units_of_mag m =
     (if m < 2 ^ 52 then m else (m mod 2 ^ 52 + 2 ^ 52) * 2 ^ (m div 2 ^ 52 - 1))"

definition f64_units :: "f64 \<Rightarrow> int" where
  "f64_units x = (if f64_neg_sign x then - int (units_of_mag (f64_mag x))
                  else int (units_of_mag (f64_mag x)))"

lemma units_of_mag_step: "units_of_mag m < units_of_mag (Suc m)"
proof -
  consider "Suc m < 2 ^ 52" | "Suc m = 2 ^ 52" | "2 ^ 52 \<le> m" by linarith
  then show ?thesis
  proof cases
    case 1
    then show ?thesis by (simp add: units_of_mag_def)
  next
    case 2
    then have "m = 2 ^ 52 - 1" by simp
    then show ?thesis by (simp add: units_of_mag_def)
  next
    case 3
    define q r where "q = m div 2 ^ 52" and "r = m mod (2 ^ 52 :: nat)"
    have m: "m = q * 2 ^ 52 + r" and r: "r < 2 ^ 52" and q: "1 \<le> q"
      using 3 by (simp_all add: q_def r_def div_greater_zero_iff)
    show ?thesis
    proof (cases "Suc r < 2 ^ 52")
      case True
      have "Suc m div 2 ^ 52 = q" "Suc m mod 2 ^ 52 = Suc r"
        using m True by simp_all
      then show ?thesis using 3 q_def r_def by (simp add: units_of_mag_def)
    next
      case False
      with r have r': "Suc r = 2 ^ 52" by simp
      have "Suc m = (q + 1) * 2 ^ 52" using m r' by simp
      then have s: "Suc m div 2 ^ 52 = q + 1" "Suc m mod 2 ^ 52 = 0" by simp_all
      have "(r + 2 ^ 52) * 2 ^ (q - 1) < (2 * 2 ^ 52) * 2 ^ (q - 1)"
        using r by simp
      also have "\<dots> = 2 ^ 52 * 2 ^ q"
        using q by (cases q) simp_all
      finally show ?thesis using 3 s q_def r_def by (simp add: units_of_mag_def)
    qed
  qed
qed

lemma units_of_mag_less: "units_of_mag m < units_of_mag n \<longleftrightarrow> m < n"
proof -
  have "strict_mono units_of_mag"
    by (simp add: strict_mono_Suc_iff units_of_mag_step)
  then show ?thesis by (rule strict_mono_less)
qed

lemma units_of_mag_0 [simp]: "units_of_mag 0 = 0"
  by (simp add: units_of_mag_def)

lemma units_of_mag_pos: "0 < units_of_mag m \<longleftrightarrow> 0 < m"
  using units_of_mag_less [of 0 m] by simp

lemma f64_units_less_iff: "f64_units x < f64_units y \<longleftrightarrow> f64_key x < f64_key y"
  using units_of_mag_less [of "f64_mag x" "f64_mag y"]
    units_of_mag_less [of "f64_mag y" "f64_mag x"]
    units_of_mag_pos [of "f64_mag x"] units_of_mag_pos [of "f64_mag y"]
  by (auto simp: f64_units_def f64_key_def)

text \<open>
  The comparison on patterns is the comparison of the numbers they stand for: what the
  range checks of the sources mean by \<open><\<close> and \<open><=\<close>.
\<close>

lemma f64_lt_value:
  "is_finite x \<Longrightarrow> is_finite y \<Longrightarrow> f64_lt x y \<longleftrightarrow> f64_units x < f64_units y"
  by (simp add: f64_lt_def finite_not_nan f64_units_less_iff)

lemma f64_le_value:
  "is_finite x \<Longrightarrow> is_finite y \<Longrightarrow> f64_le x y \<longleftrightarrow> f64_units x \<le> f64_units y"
  using f64_units_less_iff [of y x]
  by (auto simp: f64_le_def finite_not_nan not_less [symmetric])

section \<open>Arithmetic\<close>

text \<open>
  \<open>round_half_even n d\<close> is the integer nearest to \<open>n / d\<close>, the even one on a tie.
\<close>

definition round_half_even :: "nat \<Rightarrow> nat \<Rightarrow> nat" where
  "round_half_even n d =
     (let q = n div d; r = n mod d
      in if 2 * r < d then q else if d < 2 * r then q + 1 else if even q then q else q + 1)"

text \<open>Position of the leading bit.\<close>

fun floor_log2 :: "nat \<Rightarrow> nat" where
  "floor_log2 n = (if n < 2 then 0 else Suc (floor_log2 (n div 2)))"

declare floor_log2.simps [simp del]

text \<open>
  Rounding \<open>n / d\<close> units to a magnitude: with \<open>e\<close> the excess of its leading bit over 53
  significant bits, the rounded significand plus \<open>e * 2^52\<close> is the magnitude, since a
  carry out of the significand moves into the exponent field. Beyond the largest finite
  magnitude the result is infinite.
\<close>

definition mag_of_units :: "nat \<Rightarrow> nat \<Rightarrow> nat" where
  "mag_of_units n d =
     (let e = floor_log2 (n div d) - 52
      in min (e * 2 ^ 52 + round_half_even n (d * 2 ^ e)) (2047 * 2 ^ 52))"

definition f64_of_sign_mag :: "bool \<Rightarrow> nat \<Rightarrow> f64" where
  "f64_of_sign_mag s m = of_nat (m + (if s then 2 ^ 63 else 0))"

definition f64_round :: "bool \<Rightarrow> nat \<Rightarrow> nat \<Rightarrow> f64" where
  "f64_round s n d = f64_of_sign_mag s (mag_of_units n d)"

definition f64_neg :: "f64 \<Rightarrow> f64" where
  "f64_neg x = x XOR 0x8000000000000000"

definition f64_abs :: "f64 \<Rightarrow> f64" where
  "f64_abs x = f64_of_sign_mag False (f64_mag x)"

definition f64_add :: "f64 \<Rightarrow> f64 \<Rightarrow> f64" where
  "f64_add x y =
     (if is_nan x \<or> is_nan y then f64_nan
      else if \<not> is_finite x then
        (if \<not> is_finite y \<and> f64_neg_sign x \<noteq> f64_neg_sign y then f64_nan else x)
      else if \<not> is_finite y then y
      else let s = f64_units x + f64_units y
           in if s = 0 then f64_of_sign_mag (f64_neg_sign x \<and> f64_neg_sign y) 0
              else f64_round (s < 0) (nat \<bar>s\<bar>) 1)"

definition f64_sub :: "f64 \<Rightarrow> f64 \<Rightarrow> f64" where
  "f64_sub x y = f64_add x (f64_neg y)"

definition f64_mul :: "f64 \<Rightarrow> f64 \<Rightarrow> f64" where
  "f64_mul x y =
     (let s = (f64_neg_sign x \<noteq> f64_neg_sign y)
      in if is_nan x \<or> is_nan y then f64_nan
         else if \<not> is_finite x \<or> \<not> is_finite y then
           (if f64_mag x = 0 \<or> f64_mag y = 0 then f64_nan
            else f64_of_sign_mag s (2047 * 2 ^ 52))
         else f64_round s (units_of_mag (f64_mag x) * units_of_mag (f64_mag y)) (2 ^ 1074))"

definition f64_div :: "f64 \<Rightarrow> f64 \<Rightarrow> f64" where
  "f64_div x y =
     (let s = (f64_neg_sign x \<noteq> f64_neg_sign y)
      in if is_nan x \<or> is_nan y then f64_nan
         else if \<not> is_finite x then
           (if is_finite y then f64_of_sign_mag s (2047 * 2 ^ 52) else f64_nan)
         else if \<not> is_finite y then f64_of_sign_mag s 0
         else if f64_mag y = 0 then
           (if f64_mag x = 0 then f64_nan else f64_of_sign_mag s (2047 * 2 ^ 52))
         else f64_round s (units_of_mag (f64_mag x) * 2 ^ 1074) (units_of_mag (f64_mag y)))"

text \<open>\<open>f64::max\<close> and \<open>f64::min\<close>: a NaN operand is ignored.\<close>

definition f64_max :: "f64 \<Rightarrow> f64 \<Rightarrow> f64" where
  "f64_max x y = (if is_nan x then y else if is_nan y then x else if f64_lt x y then y else x)"

definition f64_min :: "f64 \<Rightarrow> f64 \<Rightarrow> f64" where
  "f64_min x y = (if is_nan x then y else if is_nan y then x else if f64_lt y x then y else x)"

text \<open>
  \<open>x.round() as uN\<close>: nearest integer, halves away from zero, then the saturating cast
  (NaN to \<open>0\<close>, negatives to \<open>0\<close>, large values to the maximum).
\<close>

definition f64_round_to_nat :: "f64 \<Rightarrow> nat \<Rightarrow> nat" where
  "f64_round_to_nat x cap =
     (if is_nan x \<or> f64_neg_sign x then 0
      else if \<not> is_finite x then cap
      else min ((2 * units_of_mag (f64_mag x) + 2 ^ 1074) div (2 * 2 ^ 1074)) cap)"

end
