(* ===== verification/Wire.thy ===== *)
theory Wire
  imports F64
begin

text \<open>
  The msgpack primitives of \<open>par6-proto/src/wire.rs\<close> and the decode errors of
  \<open>par6-proto/src/lib.rs\<close>: the writers, the positional reader with its typed accessors, and
  the skipper for values the schema does not know.

  A writer appends to a caller's buffer; here it is the function from the value to the bytes
  it appends. The reader is the source's pair of a slice and a position. The human-readable
  \<open>why\<close> of \<open>DecodeError::Validation\<close> is left out: the model keeps which field was refused.

  The interface \<open>wire_codec\<close> states what a writer and a reader owe each other; the
  interpretations discharge it for every pair, and its lemmas give loops and optional values.
\<close>

section \<open>Errors and the reader\<close>

datatype decode_error =
    Truncated
  | TypeErr string u8 nat
  | Arity string nat nat
  | UnknownTag i64
  | InvalidEnum string i64
  | Utf8
  | Validation string
  | TrailingBytes

record reader =
  rdata :: bytes
  rpos :: nat

type_synonym 'a parser = "reader \<Rightarrow> decode_error + 'a \<times> reader"

definition new_reader :: "bytes \<Rightarrow> reader" where
  "new_reader bs = \<lparr>rdata = bs, rpos = 0\<rparr>"

text \<open>Sequencing of reads, \<open>let x = r.m()?; ...\<close>.\<close>

definition p_return :: "'a \<Rightarrow> 'a parser" where
  "p_return x r = Inr (x, r)"

definition p_fail :: "decode_error \<Rightarrow> 'a parser" where
  "p_fail e r = Inl e"

definition p_bind :: "'a parser \<Rightarrow> ('a \<Rightarrow> 'b parser) \<Rightarrow> 'b parser" where
  "p_bind m f r = bind_result (m r) (\<lambda>(x, r'). f x r')"

definition p_lift :: "decode_error + 'a \<Rightarrow> 'a parser" where
  "p_lift m r = bind_result m (\<lambda>x. Inr (x, r))"

lemma p_return_run [simp, codec_simps]: "p_return x r = Inr (x, r)"
  by (simp add: p_return_def)

lemma p_fail_run [simp]: "p_fail e r = Inl e"
  by (simp add: p_fail_def)

lemma p_lift_run [simp, codec_simps]: "p_lift (Inr x) r = Inr (x, r)" "p_lift (Inl e) r = Inl e"
  by (simp_all add: p_lift_def)

lemma p_bind_Inr [codec_simps]: "m r = Inr (x, r') \<Longrightarrow> p_bind m f r = f x r'"
  by (simp add: p_bind_def)

lemma p_bind_eq_Inr:
  "p_bind m f r = Inr (y, r'') \<longleftrightarrow> (\<exists>x r'. m r = Inr (x, r') \<and> f x r' = Inr (y, r''))"
  by (auto simp: p_bind_def bind_result_eq_Inr)

text \<open>\<open>type_err\<close>: the marker has been consumed, so its offset is one back.\<close>

definition type_err :: "reader \<Rightarrow> string \<Rightarrow> u8 \<Rightarrow> decode_error" where
  "type_err r expected found = TypeErr expected found (rpos r - 1)"

definition r_byte :: "u8 parser" where
  "r_byte r = (if rpos r < length (rdata r)
               then Inr (rdata r ! rpos r, r\<lparr>rpos := rpos r + 1\<rparr>) else Inl Truncated)"

definition r_take :: "nat \<Rightarrow> bytes parser" where
  "r_take n r = (if rpos r + n \<le> length (rdata r)
                 then Inr (take n (drop (rpos r) (rdata r)), r\<lparr>rpos := rpos r + n\<rparr>)
                 else Inl Truncated)"

text \<open>\<open>be_u16\<close>, \<open>be_u32\<close>, \<open>be_u64\<close>: the unsigned value of 2, 4, 8 bytes.\<close>

definition be_uint :: "nat \<Rightarrow> nat parser" where
  "be_uint k = p_bind (r_take k) (\<lambda>b. p_return (from_be b))"

definition in_range :: "u8 \<Rightarrow> u8 \<Rightarrow> u8 \<Rightarrow> bool" where
  "in_range m lo hi \<longleftrightarrow> lo \<le> m \<and> m \<le> hi"

section \<open>Writers\<close>

definition w_array :: "nat \<Rightarrow> bytes" where
  "w_array n =
     (if n < 16 then [0x90 OR of_nat n]
      else if n \<le> 0xFFFF then 0xDC # to_be 2 n
      else 0xDD # to_be 4 n)"

definition w_uint :: "u64 \<Rightarrow> bytes" where
  "w_uint v =
     (if unat v < 0x80 then [ucast v]
      else if unat v \<le> 0xFF then [0xCC, ucast v]
      else if unat v \<le> 0xFFFF then 0xCD # to_be 2 (unat v)
      else if unat v \<le> 0xFFFFFFFF then 0xCE # to_be 4 (unat v)
      else 0xCF # to_be 8 (unat v))"

definition w_int :: "i64 \<Rightarrow> bytes" where
  "w_int v =
     (if 0 \<le> sint v then w_uint v
      else if - 32 \<le> sint v then [ucast v]
      else if - (2 ^ 7) \<le> sint v then [0xD0, ucast v]
      else if - (2 ^ 15) \<le> sint v then 0xD1 # to_be 2 (unat v)
      else if - (2 ^ 31) \<le> sint v then 0xD2 # to_be 4 (unat v)
      else 0xD3 # to_be 8 (unat v))"

definition w_f64 :: "f64 \<Rightarrow> bytes" where
  "w_f64 v = 0xCB # to_be 8 (unat v)"

definition w_str :: "bytes \<Rightarrow> bytes" where
  "w_str s =
     (let n = length s in
      (if n < 32 then [0xA0 OR of_nat n]
       else if n \<le> 0xFF then [0xD9, of_nat n]
       else if n \<le> 0xFFFF then 0xDA # to_be 2 n
       else 0xDB # to_be 4 n) @ s)"

definition w_bin :: "bytes \<Rightarrow> bytes" where
  "w_bin b =
     (let n = length b in
      (if n \<le> 0xFF then [0xC4, of_nat n]
       else if n \<le> 0xFFFF then 0xC5 # to_be 2 n
       else 0xC6 # to_be 4 n) @ b)"

definition w_bool :: "bool \<Rightarrow> bytes" where
  "w_bool v = [if v then 0xC3 else 0xC2]"

definition w_nil :: bytes where
  "w_nil = [0xC0]"

section \<open>Typed accessors\<close>

definition r_array_len :: "nat parser" where
  "r_array_len = p_bind r_byte (\<lambda>m r.
     if in_range m 0x90 0x9F then Inr (unat (m AND 0x0F), r)
     else if m = 0xDC then be_uint 2 r
     else if m = 0xDD then be_uint 4 r
     else Inl (type_err r ''array'' m))"

definition r_uint :: "u64 parser" where
  "r_uint = p_bind r_byte (\<lambda>m r.
     if in_range m 0x00 0x7F then Inr (ucast m, r)
     else if m = 0xCC then p_bind r_byte (\<lambda>b. p_return (ucast b)) r
     else if m = 0xCD then p_bind (be_uint 2) (\<lambda>n. p_return (of_nat n)) r
     else if m = 0xCE then p_bind (be_uint 4) (\<lambda>n. p_return (of_nat n)) r
     else if m = 0xCF then p_bind (be_uint 8) (\<lambda>n. p_return (of_nat n)) r
     else Inl (type_err r ''unsigned int'' m))"

definition r_int :: "i64 parser" where
  "r_int = p_bind r_byte (\<lambda>m r.
     if in_range m 0x00 0x7F then Inr (ucast m, r)
     else if in_range m 0xE0 0xFF then Inr (scast m, r)
     else if m = 0xCC then p_bind r_byte (\<lambda>b. p_return (ucast b)) r
     else if m = 0xCD then p_bind (be_uint 2) (\<lambda>n. p_return (of_nat n)) r
     else if m = 0xCE then p_bind (be_uint 4) (\<lambda>n. p_return (of_nat n)) r
     else if m = 0xCF then p_bind (be_uint 8) (\<lambda>n r'.
       if n < 2 ^ 63 then Inr (of_nat n, r') else Inl (type_err r' ''int (fits i64)'' 0xCF)) r
     else if m = 0xD0 then p_bind r_byte (\<lambda>b. p_return (scast b)) r
     else if m = 0xD1 then p_bind (be_uint 2) (\<lambda>n. p_return (scast (of_nat n :: u16))) r
     else if m = 0xD2 then p_bind (be_uint 4) (\<lambda>n. p_return (scast (of_nat n :: u32))) r
     else if m = 0xD3 then p_bind (be_uint 8) (\<lambda>n. p_return (of_nat n)) r
     else Inl (type_err r ''int'' m))"

definition r_f64 :: "f64 parser" where
  "r_f64 = p_bind r_byte (\<lambda>m r.
     if m \<noteq> 0xCB then Inl (type_err r ''float64'' m)
     else p_bind (be_uint 8) (\<lambda>n. p_return (of_nat n)) r)"

text \<open>\<open>std::str::from_utf8\<close>: the well-formed byte sequences of the Unicode standard.\<close>

definition utf8_cont :: "u8 \<Rightarrow> bool" where
  "utf8_cont b \<longleftrightarrow> in_range b 0x80 0xBF"

fun utf8_valid :: "bytes \<Rightarrow> bool" where
  "utf8_valid [] = True"
| "utf8_valid [a] = in_range a 0x00 0x7F"
| "utf8_valid [a, b] =
     (if in_range a 0x00 0x7F then utf8_valid [b]
      else in_range a 0xC2 0xDF \<and> utf8_cont b)"
| "utf8_valid [a, b, c] =
     (if in_range a 0x00 0x7F then utf8_valid [b, c]
      else if in_range a 0xC2 0xDF then utf8_cont b \<and> utf8_valid [c]
      else utf8_cont c \<and>
        (if a = 0xE0 then in_range b 0xA0 0xBF
         else if a = 0xED then in_range b 0x80 0x9F
         else in_range a 0xE1 0xEF \<and> utf8_cont b))"
| "utf8_valid (a # b # c # d # bs) =
     (if in_range a 0x00 0x7F then utf8_valid (b # c # d # bs)
      else if in_range a 0xC2 0xDF then utf8_cont b \<and> utf8_valid (c # d # bs)
      else if a = 0xE0 then in_range b 0xA0 0xBF \<and> utf8_cont c \<and> utf8_valid (d # bs)
      else if a = 0xED then in_range b 0x80 0x9F \<and> utf8_cont c \<and> utf8_valid (d # bs)
      else if in_range a 0xE1 0xEF then utf8_cont b \<and> utf8_cont c \<and> utf8_valid (d # bs)
      else utf8_cont c \<and> utf8_cont d \<and> utf8_valid bs \<and>
        (if a = 0xF0 then in_range b 0x90 0xBF
         else if a = 0xF4 then in_range b 0x80 0x8F
         else in_range a 0xF1 0xF3 \<and> utf8_cont b))"

definition r_str :: "bytes parser" where
  "r_str = p_bind r_byte (\<lambda>m.
     p_bind (\<lambda>r. if in_range m 0xA0 0xBF then Inr (unat (m AND 0x1F), r)
        else if m = 0xD9 then be_uint 1 r
        else if m = 0xDA then be_uint 2 r
        else if m = 0xDB then be_uint 4 r
        else Inl (type_err r ''str'' m)) (\<lambda>n.
     p_bind (r_take n) (\<lambda>s r. if utf8_valid s then Inr (s, r) else Inl Utf8)))"

definition r_bin :: "bytes parser" where
  "r_bin = p_bind r_byte (\<lambda>m.
     p_bind (\<lambda>r. if m = 0xC4 then be_uint 1 r
        else if m = 0xC5 then be_uint 2 r
        else if m = 0xC6 then be_uint 4 r
        else Inl (type_err r ''bin'' m)) r_take)"

definition r_bool :: "bool parser" where
  "r_bool = p_bind r_byte (\<lambda>m r.
     if m = 0xC2 then Inr (False, r) else if m = 0xC3 then Inr (True, r)
     else Inl (type_err r ''bool'' m))"

definition peek_nil :: "reader \<Rightarrow> bool" where
  "peek_nil r \<longleftrightarrow> rpos r < length (rdata r) \<and> rdata r ! rpos r = 0xC0"

definition peek_marker :: "u8 parser" where
  "peek_marker r = (if rpos r < length (rdata r) then Inr (rdata r ! rpos r, r) else Inl Truncated)"

definition r_nil :: "unit parser" where
  "r_nil = p_bind r_byte (\<lambda>m r. if m \<noteq> 0xC0 then Inl (type_err r ''nil'' m) else Inr ((), r))"

text \<open>
  \<open>if r.peek_nil() { r.nil()?; None } else { Some(...) }\<close>, the one encoding of an
  unspecified value, and its float instance.
\<close>

definition r_opt :: "'a parser \<Rightarrow> 'a option parser" where
  "r_opt p r = (if peek_nil r then p_bind r_nil (\<lambda>_. p_return None) r
                else p_bind p (\<lambda>v. p_return (Some v)) r)"

definition r_opt_f64 :: "f64 option parser" where
  "r_opt_f64 = r_opt r_f64"

text \<open>\<open>for _ in 0..n { out.push(p(r)?) }\<close>.\<close>

fun r_times :: "nat \<Rightarrow> 'a parser \<Rightarrow> 'a list parser" where
  "r_times 0 p = p_return []"
| "r_times (Suc n) p = p_bind p (\<lambda>v. p_bind (r_times n p) (\<lambda>vs. p_return (v # vs)))"

definition r_finish :: "unit parser" where
  "r_finish r = (if rpos r \<noteq> length (rdata r) then Inl TrailingBytes else Inr ((), r))"

definition w_opt :: "('a \<Rightarrow> bytes) \<Rightarrow> 'a option \<Rightarrow> bytes" where
  "w_opt w v = (case v of Some x \<Rightarrow> w x | None \<Rightarrow> w_nil)"


section \<open>Skipping a value of any type\<close>

text \<open>
  \<open>skip_value_at\<close> walks a value whose shape the sender chooses, refusing to nest past
  \<open>MAX_SKIP_DEPTH\<close>. The depth guard is what makes the recursion terminate: a container's
  elements are skipped one level deeper, and only levels up to 8 are entered.
\<close>

definition MAX_SKIP_DEPTH :: nat where
  "MAX_SKIP_DEPTH = 8"

definition skip_take :: "nat \<Rightarrow> unit parser" where
  "skip_take n = p_bind (r_take n) (\<lambda>_. p_return ())"

text \<open>
  A marker either has no further bytes or a counted run of them (\<open>Plain\<close>, the run read from
  the input where the marker says so), or a number of nested values (\<open>Nested\<close>).
\<close>

datatype skip_shape = Plain nat | Nested nat

definition skip_shape_of :: "u8 \<Rightarrow> skip_shape parser" where
  "skip_shape_of m r =
     (if in_range m 0x00 0x7F \<or> in_range m 0xE0 0xFF \<or> m = 0xC0 \<or> m = 0xC2 \<or> m = 0xC3
        then Inr (Plain 0, r)
      else if in_range m 0xA0 0xBF then Inr (Plain (unat (m AND 0x1F)), r)
      else if in_range m 0x90 0x9F then Inr (Nested (unat (m AND 0x0F)), r)
      else if in_range m 0x80 0x8F then Inr (Nested (2 * unat (m AND 0x0F)), r)
      else if m = 0xCC \<or> m = 0xD0 then Inr (Plain 1, r)
      else if m = 0xCD \<or> m = 0xD1 then Inr (Plain 2, r)
      else if m = 0xCE \<or> m = 0xD2 \<or> m = 0xCA then Inr (Plain 4, r)
      else if m = 0xCF \<or> m = 0xD3 \<or> m = 0xCB then Inr (Plain 8, r)
      else if m = 0xC4 \<or> m = 0xD9 then p_bind (be_uint 1) (\<lambda>n. p_return (Plain n)) r
      else if m = 0xC5 \<or> m = 0xDA then p_bind (be_uint 2) (\<lambda>n. p_return (Plain n)) r
      else if m = 0xC6 \<or> m = 0xDB then p_bind (be_uint 4) (\<lambda>n. p_return (Plain n)) r
      else if m = 0xDC then p_bind (be_uint 2) (\<lambda>n. p_return (Nested n)) r
      else if m = 0xDD then p_bind (be_uint 4) (\<lambda>n. p_return (Nested n)) r
      else if m = 0xDE then p_bind (be_uint 2) (\<lambda>n. p_return (Nested (2 * n))) r
      else if m = 0xDF then p_bind (be_uint 4) (\<lambda>n. p_return (Nested (2 * n))) r
      else if in_range m 0xD4 0xD8 then Inr (Plain (2 ^ unat (m - 0xD4) + 1), r)
      else if m = 0xC7 then p_bind (be_uint 1) (\<lambda>n. p_return (Plain (n + 1))) r
      else if m = 0xC8 then p_bind (be_uint 2) (\<lambda>n. p_return (Plain (n + 1))) r
      else if m = 0xC9 then p_bind (be_uint 4) (\<lambda>n. p_return (Plain (n + 1))) r
      else Inl (type_err r ''value'' m))"

function skip_value_at :: "nat \<Rightarrow> unit parser"
  and skip_values :: "nat \<Rightarrow> nat \<Rightarrow> unit parser" where
  "skip_value_at depth r =
     (if MAX_SKIP_DEPTH < depth then Inl (Validation ''nesting depth'')
      else case p_bind r_byte skip_shape_of r of
          Inl e \<Rightarrow> Inl e
        | Inr (Plain n, r') \<Rightarrow> skip_take n r'
        | Inr (Nested n, r') \<Rightarrow> skip_values (depth + 1) n r')"
| "skip_values depth 0 r = Inr ((), r)"
| "skip_values depth (Suc n) r =
     (case skip_value_at depth r of Inl e \<Rightarrow> Inl e | Inr (_, r') \<Rightarrow> skip_values depth n r')"
  by pat_completeness auto
termination
  by (relation "measures
       [\<lambda>x. case x of Inl (d, _) \<Rightarrow> 10 - d | Inr (d, _, _) \<Rightarrow> 10 - d,
        \<lambda>x. case x of Inl _ \<Rightarrow> 0 | Inr (_, n, _) \<Rightarrow> Suc n]")
    (auto simp: MAX_SKIP_DEPTH_def)

declare skip_value_at.simps [simp del]

definition skip_value :: "unit parser" where
  "skip_value = skip_value_at 0"

section \<open>Peeking at a datagram\<close>

text \<open>\<open>peek_tag\<close> of \<open>lib.rs\<close>: the integer in slot 0 of the envelope.\<close>

definition peek_tag :: "bytes \<Rightarrow> decode_error + i64" where
  "peek_tag bs =
     bind_result (r_array_len (new_reader bs)) (\<lambda>(n, r).
       if n = 0 then Inl (Arity ''envelope'' 1 0)
       else bind_result (r_int r) (\<lambda>(t, _). Inr t))"

text \<open>
  \<open>peek_req_id\<close>: the hand-rolled salvage of a request id from a datagram that failed to
  decode. \<open>salvage_uint\<close> is its local function \<open>uint\<close>.
\<close>

definition salvage_be :: "bytes \<Rightarrow> nat \<Rightarrow> nat \<Rightarrow> (nat \<times> nat) option" where
  "salvage_be bs k pos =
     (if pos + k \<le> length bs then Some (from_be (take k (drop pos bs)), pos + k) else None)"

definition salvage_uint :: "bytes \<Rightarrow> nat \<Rightarrow> (nat \<times> nat) option" where
  "salvage_uint bs pos =
     (if pos < length bs then
        let b = bs ! pos in
        if in_range b 0x00 0x7F then Some (unat b, pos + 1)
        else if b = 0xCC then salvage_be bs 1 (pos + 1)
        else if b = 0xCD then salvage_be bs 2 (pos + 1)
        else if b = 0xCE then salvage_be bs 4 (pos + 1)
        else if b = 0xCF then salvage_be bs 8 (pos + 1)
        else None
      else None)"

definition peek_req_id :: "bytes \<Rightarrow> u32 option" where
  "peek_req_id bs =
     (case bs of [] \<Rightarrow> None | b # _ \<Rightarrow>
        let start = (if in_range b 0x90 0x9F then Some 1 else if b = 0xDC then Some 3
                     else if b = 0xDD then Some 5 else None)
        in case start of None \<Rightarrow> None | Some pos \<Rightarrow>
          (case salvage_uint bs pos of None \<Rightarrow> None | Some (_, pos') \<Rightarrow>
             (case salvage_uint bs pos' of None \<Rightarrow> None | Some (v, _) \<Rightarrow>
                if v < 2 ^ 32 then Some (of_nat v) else None)))"

section \<open>A reader in front of a suffix\<close>

text \<open>
  \<open>reader_at pre post\<close> has consumed \<open>pre\<close> and has \<open>post\<close> before it. The facts below, and
  those of the interface, are oriented so that the simplifier runs a reader over what a
  writer produced.
\<close>

definition reader_at :: "bytes \<Rightarrow> bytes \<Rightarrow> reader" where
  "reader_at pre post = \<lparr>rdata = pre @ post, rpos = length pre\<rparr>"

lemma new_reader_at: "new_reader bs = reader_at [] bs"
  by (simp add: new_reader_def reader_at_def)

lemma r_byte_at [codec_simps]:
  "r_byte (reader_at pre (b # post)) = Inr (b, reader_at (pre @ [b]) post)"
  by (simp add: r_byte_def reader_at_def)

lemma r_byte_at_end: "r_byte (reader_at pre []) = Inl Truncated"
  by (simp add: r_byte_def reader_at_def)

lemma r_take_at [codec_simps]:
  "length s = n \<Longrightarrow> r_take n (reader_at pre (s @ post)) = Inr (s, reader_at (pre @ s) post)"
  by (simp add: r_take_def reader_at_def)

lemma be_uint_at [codec_simps]:
  "be_uint k (reader_at pre (to_be k v @ post)) =
     Inr (v mod 256 ^ k, reader_at (pre @ to_be k v) post)"
  by (simp add: be_uint_def codec_simps from_be_to_be)

lemma be_uint_1_at [codec_simps]:
  "be_uint 1 (reader_at pre (b # post)) = Inr (unat b, reader_at (pre @ [b]) post)"
proof -
  have "r_take 1 (reader_at pre ([b] @ post)) = Inr ([b], reader_at (pre @ [b]) post)"
    by (rule r_take_at) simp
  then show ?thesis by (simp add: be_uint_def p_bind_def from_be_def)
qed

lemma r_finish_at [codec_simps]: "r_finish (reader_at pre []) = Inr ((), reader_at pre [])"
  by (simp add: r_finish_def reader_at_def)

lemma peek_nil_at [codec_simps]: "peek_nil (reader_at pre (b # post)) \<longleftrightarrow> b = 0xC0"
  by (simp add: peek_nil_def reader_at_def)

lemma peek_marker_at [codec_simps]:
  "peek_marker (reader_at pre (b # post)) = Inr (b, reader_at pre (b # post))"
  by (simp add: peek_marker_def reader_at_def)

lemma r_nil_at [codec_simps]:
  "r_nil (reader_at pre (w_nil @ post)) = Inr ((), reader_at (pre @ w_nil) post)"
  by (simp add: r_nil_def w_nil_def codec_simps)

section \<open>The codec interface\<close>

text \<open>
  What a writer and a reader owe each other: on the values \<open>ok\<close> admits, the reader placed
  in front of the written bytes returns the value and stands right behind them, whatever
  precedes and follows. The interface gives sequences for free.
\<close>

locale wire_codec =
  fixes wr :: "'a \<Rightarrow> bytes" and rd :: "'a parser" and ok :: "'a \<Rightarrow> bool"
  assumes rd_wr: "ok v \<Longrightarrow> rd (reader_at pre (wr v @ post)) = Inr (v, reader_at (pre @ wr v) post)"
begin

lemma rd_times:
  "list_all ok vs \<Longrightarrow> n = length vs \<Longrightarrow>
   r_times n rd (reader_at pre (concat (map wr vs) @ post)) =
     Inr (vs, reader_at (pre @ concat (map wr vs)) post)"
proof (induction vs arbitrary: pre n)
  case Nil
  then show ?case by simp
next
  case (Cons v vs)
  from Cons.prems(1) have "rd (reader_at pre (wr v @ concat (map wr vs) @ post)) =
      Inr (v, reader_at (pre @ wr v) (concat (map wr vs) @ post))"
    by (simp add: rd_wr)
  moreover from Cons have "r_times (length vs) rd (reader_at (pre @ wr v) (concat (map wr vs) @ post)) =
      Inr (vs, reader_at ((pre @ wr v) @ concat (map wr vs)) post)"
    by simp
  ultimately show ?case using Cons.prems(2) by (simp add: p_bind_Inr)
qed

end

text \<open>
  A codec whose encodings never begin with the nil marker can be made optional.
\<close>

locale nonnil_codec = wire_codec +
  assumes wr_head: "ok v \<Longrightarrow> \<exists>b bs. wr v = b # bs \<and> b \<noteq> 0xC0"
begin

lemma rd_opt:
  "pred_option ok v \<Longrightarrow>
   r_opt rd (reader_at pre (w_opt wr v @ post)) = Inr (v, reader_at (pre @ w_opt wr v) post)"
proof (cases v)
  case None
  then show ?thesis
    by (simp add: r_opt_def w_opt_def w_nil_def codec_simps)
       (simp add: p_bind_def r_nil_at [unfolded w_nil_def, simplified])
next
  case (Some x)
  assume "pred_option ok v"
  with Some have ok: "ok x" by simp
  then obtain b bs where "wr x = b # bs" "b \<noteq> 0xC0" using wr_head by blast
  then have "\<not> peek_nil (reader_at pre (wr x @ post))" by (simp add: codec_simps)
  then show ?thesis using Some ok
    by (simp add: r_opt_def w_opt_def p_bind_def rd_wr)
qed

end


section \<open>The primitive codecs\<close>

text \<open>A fixed-size header keeps its count in the low bits of the marker.\<close>

lemma fixarray_marker:
  assumes "n < 16"
  shows "in_range (0x90 OR of_nat n) 0x90 0x9F" and "unat ((0x90 OR of_nat n :: u8) AND 0x0F) = n"
    and "(0x90 OR of_nat n :: u8) \<noteq> 0xC0"
proof -
  from assms have n: "n \<in> set [0..<16]" by simp
  show "in_range (0x90 OR of_nat n) 0x90 0x9F"
    using n by (simp add: upt_rec in_range_def) (elim disjE; simp)
  show "unat ((0x90 OR of_nat n :: u8) AND 0x0F) = n"
    using n by (simp add: upt_rec) (elim disjE; simp)
  show "(0x90 OR of_nat n :: u8) \<noteq> 0xC0"
    using n by (simp add: upt_rec) (elim disjE; simp)
qed

lemma fixstr_marker:
  assumes "n < 32"
  shows "in_range (0xA0 OR of_nat n) 0xA0 0xBF" and "unat ((0xA0 OR of_nat n :: u8) AND 0x1F) = n"
    and "(0xA0 OR of_nat n :: u8) \<noteq> 0xC0"
proof -
  from assms have n: "n \<in> set [0..<32]" by simp
  show "in_range (0xA0 OR of_nat n) 0xA0 0xBF"
    using n by (simp add: upt_rec in_range_def) (elim disjE; simp)
  show "unat ((0xA0 OR of_nat n :: u8) AND 0x1F) = n"
    using n by (simp add: upt_rec) (elim disjE; simp)
  show "(0xA0 OR of_nat n :: u8) \<noteq> 0xC0"
    using n by (simp add: upt_rec) (elim disjE; simp)
qed

interpretation array_codec: nonnil_codec w_array r_array_len "\<lambda>n. n < 2 ^ 32"
proof
  fix n :: nat and pre post :: bytes
  assume n: "n < 2 ^ 32"
  consider "n < 16" | "16 \<le> n" "n \<le> 0xFFFF" | "0xFFFF < n" by linarith
  then show "r_array_len (reader_at pre (w_array n @ post)) = Inr (n, reader_at (pre @ w_array n) post)"
  proof cases
    case 1
    then show ?thesis
      by (simp add: w_array_def r_array_len_def p_bind_def r_byte_at fixarray_marker)
  next
    case 2
    then show ?thesis
      by (simp add: w_array_def r_array_len_def p_bind_def r_byte_at in_range_def be_uint_at)
  next
    case 3
    then show ?thesis using n
      by (simp add: w_array_def r_array_len_def p_bind_def r_byte_at in_range_def be_uint_at)
  qed
next
  fix n :: nat
  show "\<exists>b bs. w_array n = b # bs \<and> b \<noteq> 0xC0"
    by (auto simp: w_array_def fixarray_marker)
qed

text \<open>Reading an unsigned value back from the width its size class chose.\<close>

lemma unat_ucast_down_u8: "unat (ucast (v :: u64) :: u8) = unat v mod 256"
  by (simp add: unsigned_ucast_eq unsigned_take_bit_eq take_bit_eq_mod)

lemma unat_ucast_up_u8: "unat (ucast (b :: u8) :: u64) = unat b"
  by (simp add: unsigned_ucast_eq unsigned_take_bit_eq take_bit_eq_mod) (use unat_lt2p [of b] in simp)

lemma ucast_u8_roundtrip: "unat (v :: u64) < 256 \<Longrightarrow> ucast (ucast v :: u8) = v"
  by (simp add: word_unat_eq_iff unat_ucast_down_u8 unat_ucast_up_u8)

lemma ucast_u8_le: "unat (v :: u64) < 0x80 \<Longrightarrow> (ucast v :: u8) \<le> 0x7F"
  by (simp add: word_le_nat_alt unat_ucast_down_u8)

lemma of_nat_unat_mod: "unat (v :: u64) < 256 ^ k \<Longrightarrow> of_nat (unat v mod 256 ^ k) = v"
  by simp

interpretation uint_codec: nonnil_codec w_uint r_uint "\<lambda>_. True"
proof
  fix v :: u64 and pre post :: bytes
  consider "unat v < 0x80" | "0x80 \<le> unat v" "unat v \<le> 0xFF" | "0xFF < unat v" "unat v \<le> 0xFFFF"
    | "0xFFFF < unat v" "unat v \<le> 0xFFFFFFFF" | "0xFFFFFFFF < unat v" by linarith
  then show "r_uint (reader_at pre (w_uint v @ post)) = Inr (v, reader_at (pre @ w_uint v) post)"
  proof cases
    case 1
    then show ?thesis
      by (simp add: w_uint_def r_uint_def p_bind_def r_byte_at in_range_def ucast_u8_le ucast_u8_roundtrip)
  next
    case 2
    then show ?thesis
      by (simp add: w_uint_def r_uint_def p_bind_def r_byte_at in_range_def ucast_u8_roundtrip)
  next
    case 3
    then show ?thesis
      by (simp add: w_uint_def r_uint_def p_bind_def r_byte_at be_uint_at in_range_def)
  next
    case 4
    then show ?thesis
      by (simp add: w_uint_def r_uint_def p_bind_def r_byte_at be_uint_at in_range_def)
  next
    case 5
    then show ?thesis using unat_u64_bound [of v]
      by (simp add: w_uint_def r_uint_def p_bind_def r_byte_at be_uint_at in_range_def)
  qed
next
  fix v :: u64
  have "unat v < 0x80 \<Longrightarrow> (ucast v :: u8) \<noteq> 0xC0"
    by (drule ucast_u8_le) auto
  then show "\<exists>b bs. w_uint v = b # bs \<and> b \<noteq> 0xC0"
    by (auto simp: w_uint_def)
qed

interpretation f64_codec: nonnil_codec w_f64 r_f64 "\<lambda>_. True"
proof
  fix v :: f64 and pre post :: bytes
  show "r_f64 (reader_at pre (w_f64 v @ post)) = Inr (v, reader_at (pre @ w_f64 v) post)"
    using unat_u64_bound [of v]
    by (simp add: w_f64_def r_f64_def p_bind_def r_byte_at be_uint_at)
next
  fix v :: f64
  show "\<exists>b bs. w_f64 v = b # bs \<and> b \<noteq> 0xC0"
    by (simp add: w_f64_def)
qed

interpretation bool_codec: nonnil_codec w_bool r_bool "\<lambda>_. True"
  by unfold_locales (simp_all add: w_bool_def r_bool_def p_bind_def r_byte_at)

text \<open>A Rust string is valid UTF-8 and, being in memory, shorter than \<open>2^32\<close> on the wire.\<close>

definition str_ok :: "bytes \<Rightarrow> bool" where
  "str_ok s \<longleftrightarrow> utf8_valid s \<and> length s < 2 ^ 32"

interpretation str_codec: nonnil_codec w_str r_str str_ok
proof
  fix s pre post :: bytes
  assume s: "str_ok s"
  consider "length s < 32" | "32 \<le> length s" "length s \<le> 0xFF" | "0xFF < length s" "length s \<le> 0xFFFF"
    | "0xFFFF < length s" by linarith
  then show "r_str (reader_at pre (w_str s @ post)) = Inr (s, reader_at (pre @ w_str s) post)"
  proof cases
    case 1
    then show ?thesis using s
      by (simp add: w_str_def r_str_def p_bind_def r_byte_at fixstr_marker r_take_at str_ok_def)
  next
    case 2
    then show ?thesis using s
      by (simp add: w_str_def r_str_def p_bind_def r_byte_at in_range_def r_take_at be_uint_1_at [unfolded One_nat_def] str_ok_def)
  next
    case 3
    then show ?thesis using s
      by (simp add: w_str_def r_str_def p_bind_def r_byte_at in_range_def r_take_at be_uint_at str_ok_def)
  next
    case 4
    then show ?thesis using s
      by (simp add: w_str_def r_str_def p_bind_def r_byte_at in_range_def r_take_at be_uint_at str_ok_def)
  qed
next
  fix s :: bytes
  show "\<exists>b bs. w_str s = b # bs \<and> b \<noteq> 0xC0"
    by (auto simp: w_str_def Let_def fixstr_marker)
qed

interpretation bin_codec: nonnil_codec w_bin r_bin "\<lambda>b. length b < 2 ^ 32"
proof
  fix s pre post :: bytes
  assume s: "length s < 2 ^ 32"
  consider "length s \<le> 0xFF" | "0xFF < length s" "length s \<le> 0xFFFF" | "0xFFFF < length s" by linarith
  then show "r_bin (reader_at pre (w_bin s @ post)) = Inr (s, reader_at (pre @ w_bin s) post)"
  proof cases
    case 1
    then show ?thesis
      by (simp add: w_bin_def r_bin_def p_bind_def r_byte_at r_take_at be_uint_1_at [unfolded One_nat_def])
  next
    case 2
    then show ?thesis
      by (simp add: w_bin_def r_bin_def p_bind_def r_byte_at r_take_at be_uint_at)
  next
    case 3
    then show ?thesis using s
      by (simp add: w_bin_def r_bin_def p_bind_def r_byte_at r_take_at be_uint_at)
  qed
next
  fix s :: bytes
  show "\<exists>b bs. w_bin s = b # bs \<and> b \<noteq> 0xC0"
    by (auto simp: w_bin_def Let_def)
qed

text \<open>Sign extension undoes truncation for values the narrower width can hold.\<close>

lemma scast_narrow:
  fixes v :: i64 and w :: "'b::len word"
  assumes "w = of_nat (unat v)" "LENGTH('b) = Suc n" "n \<le> 63"
    and "- (2 ^ n) \<le> sint v" "sint v < 2 ^ n"
  shows "scast w = v"
proof -
  have "w = word_of_int (uint v)" using assms(1) by simp
  then have "sint w = signed_take_bit n (uint v)"
    using assms(2) by (simp only: sint_sbintrunc') simp
  also have "\<dots> = signed_take_bit n (signed_take_bit 63 (uint v))"
    using assms(3) by (simp add: min_def)
  also have "signed_take_bit 63 (uint v) = sint v"
    by (simp add: sint_uint)
  also have "signed_take_bit n (sint v) = sint v"
    using assms(4,5) by (rule signed_take_bit_int_eq_self)
  finally show ?thesis by (simp add: scast_eq)
qed

lemma ucast_u8_of_nat: "(ucast (v :: u64) :: u8) = of_nat (unat v)"
  by (simp add: word_unat_eq_iff unat_ucast_down_u8)

lemma of_nat_mod_u16: "(of_nat (n mod 65536) :: u16) = of_nat n"
  by (simp add: word_of_nat_eq_iff take_bit_eq_mod)

lemma of_nat_mod_u32: "(of_nat (n mod 4294967296) :: u32) = of_nat n"
  by (simp add: word_of_nat_eq_iff take_bit_eq_mod)

lemma uint_of_sint_i64: "uint (v :: i64) = sint v mod 2 ^ 64"
  using uint_sint [of v] by (simp add: take_bit_eq_mod)

lemma unat_of_neg_sint:
  fixes v :: i64
  assumes "sint v < 0"
  shows "int (unat v) = sint v + 2 ^ 64"
proof -
  have lo: "- (2 ^ 63) \<le> sint v" using sint_ge [of v] by simp
  have "sint v mod 2 ^ 64 = (sint v + 2 ^ 64) mod 2 ^ 64" by simp
  also have "\<dots> = sint v + 2 ^ 64"
    by (rule mod_pos_pos_trivial) (use lo assms in simp_all)
  finally show ?thesis using uint_of_sint_i64 [of v] by simp
qed

lemma sint_nonneg_unat:
  fixes v :: i64
  assumes "0 \<le> sint v"
  shows "int (unat v) = sint v" and "unat v < 2 ^ 63"
proof -
  have hi: "sint v < 2 ^ 63" using sint_lt [of v] by simp
  have "sint v mod 2 ^ 64 = sint v"
    by (rule mod_pos_pos_trivial) (use hi assms in simp_all)
  then show eq: "int (unat v) = sint v"
    using uint_of_sint_i64 [of v] by simp
  have "int (unat v) < int (2 ^ 63)" using hi eq by simp
  then show "unat v < 2 ^ 63" by (simp only: of_nat_less_iff)
qed

lemma neg_fixint_marker:
  fixes v :: i64
  assumes "sint v < 0" "- 32 \<le> sint v"
  shows "in_range (ucast v) 0xE0 0xFF" and "\<not> in_range (ucast v) 0x00 0x7F"
proof -
  have "int (unat v mod 256) = (sint v + 256 * 2 ^ 56) mod 256"
    using unat_of_neg_sint [OF assms(1)] by (simp add: zmod_int)
  also have "\<dots> = (sint v + 256) mod 256"
    by (simp only: mod_mult_self2 mod_add_self2)
  also have "\<dots> = sint v + 256" by (rule mod_pos_pos_trivial) (use assms in simp_all)
  finally have "int (unat v mod 256) = sint v + 256" .
  then have "224 \<le> unat v mod 256" using assms(2) by linarith
  then show "in_range (ucast v) 0xE0 0xFF" and "\<not> in_range (ucast v) 0x00 0x7F"
    by (auto simp: in_range_def word_le_nat_alt unat_ucast_down_u8)
qed

lemma r_int_nonneg:
  fixes v :: i64
  assumes "0 \<le> sint v"
  shows "r_int (reader_at pre (w_uint v @ post)) = Inr (v, reader_at (pre @ w_uint v) post)"
proof -
  note top = sint_nonneg_unat(2) [OF assms]
  consider "unat v < 0x80" | "0x80 \<le> unat v" "unat v \<le> 0xFF" | "0xFF < unat v" "unat v \<le> 0xFFFF"
    | "0xFFFF < unat v" "unat v \<le> 0xFFFFFFFF" | "0xFFFFFFFF < unat v" by linarith
  then show ?thesis
  proof cases
    case 1
    then show ?thesis
      by (simp add: w_uint_def r_int_def p_bind_def r_byte_at in_range_def ucast_u8_le ucast_u8_roundtrip)
  next
    case 2
    then show ?thesis
      by (simp add: w_uint_def r_int_def p_bind_def r_byte_at in_range_def ucast_u8_roundtrip)
  next
    case 3
    then show ?thesis
      by (simp add: w_uint_def r_int_def p_bind_def r_byte_at be_uint_at in_range_def)
  next
    case 4
    then show ?thesis
      by (simp add: w_uint_def r_int_def p_bind_def r_byte_at be_uint_at in_range_def)
  next
    case 5
    then show ?thesis using top
      by (simp add: w_uint_def r_int_def p_bind_def r_byte_at be_uint_at in_range_def)
  qed
qed

interpretation int_codec: nonnil_codec w_int r_int "\<lambda>_. True"
proof
  fix v :: i64 and pre post :: bytes
  consider "0 \<le> sint v" | "sint v < 0" "- 32 \<le> sint v" | "sint v < - 32" "- (2 ^ 7) \<le> sint v"
    | "sint v < - (2 ^ 7)" "- (2 ^ 15) \<le> sint v" | "sint v < - (2 ^ 15)" "- (2 ^ 31) \<le> sint v"
    | "sint v < - (2 ^ 31)" by linarith
  then show "r_int (reader_at pre (w_int v @ post)) = Inr (v, reader_at (pre @ w_int v) post)"
  proof cases
    case 1
    then show ?thesis by (simp add: w_int_def r_int_nonneg)
  next
    case 2
    then have "scast (ucast v :: u8) = v"
      by (intro scast_narrow [OF ucast_u8_of_nat, of 7]) simp_all
    with 2 show ?thesis
      by (simp add: w_int_def r_int_def p_bind_def r_byte_at neg_fixint_marker)
  next
    case 3
    then have "scast (ucast v :: u8) = v"
      by (intro scast_narrow [OF ucast_u8_of_nat, of 7]) simp_all
    with 3 show ?thesis
      by (simp add: w_int_def r_int_def p_bind_def r_byte_at in_range_def)
  next
    case 4
    then have "scast (of_nat (unat v) :: u16) = v"
      by (intro scast_narrow [OF refl, of 15]) simp_all
    then show ?thesis using 4
      by (simp add: of_nat_mod_u16 w_int_def r_int_def p_bind_def r_byte_at be_uint_at in_range_def)
  next
    case 5
    then have "scast (of_nat (unat v) :: u32) = v"
      by (intro scast_narrow [OF refl, of 31]) simp_all
    then show ?thesis using 5
      by (simp add: of_nat_mod_u32 w_int_def r_int_def p_bind_def r_byte_at be_uint_at in_range_def)
  next
    case 6
    then show ?thesis using unat_u64_bound [of v]
      by (simp add: w_int_def r_int_def p_bind_def r_byte_at be_uint_at in_range_def)
  qed
next
  fix v :: i64
  have "(ucast v :: u8) \<noteq> 0xC0" if "sint v < 0" "- 32 \<le> sint v"
    using neg_fixint_marker [OF that] by (auto simp: in_range_def)
  then show "\<exists>b bs. w_int v = b # bs \<and> b \<noteq> 0xC0"
    using uint_codec.wr_head [of v] by (auto simp: w_int_def)
qed

end
