(* ===== verification/Enums.thy ===== *)
theory Enums
  imports Wire
begin

text \<open>
  The wire enums of \<open>par6-proto/src/enums.rs\<close>, the reflection the macro \<open>wire_enum!\<close> gives each
  of them (\<open>ALL\<close>, the wire value and \<open>from_wire\<close>, \<open>par6-proto/src/macros.rs\<close>), and the ack
  taxonomy \<open>command_class\<close>.

  The macro's contract is the interface \<open>wire_enum\<close>: the values are pairwise different and
  \<open>ALL\<close> lists every variant. Each enum interprets it, and its \<open>from_wire\<close> inverts its values.
\<close>

section \<open>The reflection of an enum\<close>

text \<open>
  \<open>from_wire\<close> compares the integer with the variants' values in declaration order and
  returns the first that matches.
\<close>

definition enum_from_wire :: "'a list \<Rightarrow> ('a \<Rightarrow> i64) \<Rightarrow> i64 \<Rightarrow> 'a option" where
  "enum_from_wire vs val v = find (\<lambda>c. v = val c) vs"

locale wire_enum =
  fixes vs :: "'a list" and val :: "'a \<Rightarrow> i64"
  assumes distinct_vals: "distinct (map val vs)"
    and complete: "c \<in> set vs"
begin

lemma val_inj: "val c = val d \<Longrightarrow> c = d"
  using distinct_vals complete by (metis distinct_map inj_on_contraD)

lemma from_wire_val: "enum_from_wire vs val (val c) = Some c"
proof -
  have "enum_from_wire vs val (val c) \<noteq> None"
    using complete [of c] by (auto simp: enum_from_wire_def find_None_iff)
  then obtain d where d: "enum_from_wire vs val (val c) = Some d" by blast
  then have "val c = val d" by (auto simp: enum_from_wire_def find_Some_iff)
  with d val_inj show ?thesis by metis
qed

lemma from_wire_Some: "enum_from_wire vs val v = Some c \<longleftrightarrow> v = val c"
  using from_wire_val by (auto simp: enum_from_wire_def find_Some_iff)

lemma from_wire_None: "enum_from_wire vs val v = None \<longleftrightarrow> (\<forall>c. v \<noteq> val c)"
  using complete by (auto simp: enum_from_wire_def find_None_iff)

end

section \<open>The enums\<close>

datatype msg_type
  = Msg_Ok | Msg_Error | Msg_Status | Msg_Response | Msg_Complete
  | Msg_Chunk

primrec msg_type_val :: "msg_type \<Rightarrow> i64" where
  "msg_type_val Msg_Ok = 1"
| "msg_type_val Msg_Error = 2"
| "msg_type_val Msg_Status = 3"
| "msg_type_val Msg_Response = 4"
| "msg_type_val Msg_Complete = 5"
| "msg_type_val Msg_Chunk = 6"

definition msg_type_all :: "msg_type list" where
  "msg_type_all =
    [Msg_Ok, Msg_Error, Msg_Status, Msg_Response, Msg_Complete,
     Msg_Chunk]"

definition msg_type_from_wire :: "i64 \<Rightarrow> msg_type option" where
  "msg_type_from_wire = enum_from_wire msg_type_all msg_type_val"

datatype controller_mode
  = Mode_Booting | Mode_Idle | Mode_ActiveError | Mode_Homing | Mode_Jog
  | Mode_Stream | Mode_Exec | Mode_HandGuiding | Mode_Impedance | Mode_SafetyStop
  | Mode_Flashing

primrec controller_mode_val :: "controller_mode \<Rightarrow> i64" where
  "controller_mode_val Mode_Booting = 0"
| "controller_mode_val Mode_Idle = 1"
| "controller_mode_val Mode_ActiveError = 2"
| "controller_mode_val Mode_Homing = 3"
| "controller_mode_val Mode_Jog = 4"
| "controller_mode_val Mode_Stream = 5"
| "controller_mode_val Mode_Exec = 6"
| "controller_mode_val Mode_HandGuiding = 7"
| "controller_mode_val Mode_Impedance = 8"
| "controller_mode_val Mode_SafetyStop = 9"
| "controller_mode_val Mode_Flashing = 10"

definition controller_mode_all :: "controller_mode list" where
  "controller_mode_all =
    [Mode_Booting, Mode_Idle, Mode_ActiveError, Mode_Homing, Mode_Jog,
     Mode_Stream, Mode_Exec, Mode_HandGuiding, Mode_Impedance, Mode_SafetyStop,
     Mode_Flashing]"

definition controller_mode_from_wire :: "i64 \<Rightarrow> controller_mode option" where
  "controller_mode_from_wire = enum_from_wire controller_mode_all controller_mode_val"

datatype (plugins only: code size) cmd_type
  = T_Reset | T_Estop | T_Stop | T_WriteIo | T_Simulator
  | T_SelectProfile | T_ResetState | T_ConnectHardware | T_SetTcpOffset | T_SetShapes
  | T_SetCompletionPolicy | T_SetGravityComp | T_Pause | T_SetPayload | T_EnterFlashing
  | T_ExitFlashing | T_SetPidGains | T_SetCanId | T_SaveConfig | T_SetStatusRate
  | T_SetExecutionSpeed | T_SetToolId | T_Ping | T_Status | T_Angles
  | T_Pose | T_Io | T_Speeds | T_Tools | T_Queue
  | T_Activity | T_LoopStats | T_Profile | T_Reachable | T_Error
  | T_TcpSpeed | T_TcpOffset | T_ToolStatus | T_IsSimulator | T_Shapes
  | T_ConfigInfo | T_Payload | T_ConfigBundle | T_BusScan | T_StatusRate
  | T_ExecutionSpeed | T_ServoJ | T_ServoJPose | T_ServoL | T_JogJ
  | T_JogL | T_Teleport | T_ResetLoopStats | T_Home | T_MoveJ
  | T_MoveJPose | T_MoveL | T_MoveC | T_MoveS | T_MoveP
  | T_SelectTool | T_Delay | T_Checkpoint | T_ToolAction | T_SetTcpTransform
  | T_TcpTransform | T_CommandCompletion

primrec cmd_type_val :: "cmd_type \<Rightarrow> i64" where
  "cmd_type_val T_Reset = 10"
| "cmd_type_val T_Estop = 11"
| "cmd_type_val T_Stop = 12"
| "cmd_type_val T_WriteIo = 13"
| "cmd_type_val T_Simulator = 14"
| "cmd_type_val T_SelectProfile = 15"
| "cmd_type_val T_ResetState = 16"
| "cmd_type_val T_ConnectHardware = 17"
| "cmd_type_val T_SetTcpOffset = 18"
| "cmd_type_val T_SetShapes = 19"
| "cmd_type_val T_SetCompletionPolicy = 20"
| "cmd_type_val T_SetGravityComp = 23"
| "cmd_type_val T_Pause = 24"
| "cmd_type_val T_SetPayload = 25"
| "cmd_type_val T_EnterFlashing = 26"
| "cmd_type_val T_ExitFlashing = 27"
| "cmd_type_val T_SetPidGains = 28"
| "cmd_type_val T_SetCanId = 29"
| "cmd_type_val T_SaveConfig = 30"
| "cmd_type_val T_SetStatusRate = 31"
| "cmd_type_val T_SetExecutionSpeed = 32"
| "cmd_type_val T_SetToolId = 33"
| "cmd_type_val T_Ping = 40"
| "cmd_type_val T_Status = 41"
| "cmd_type_val T_Angles = 42"
| "cmd_type_val T_Pose = 43"
| "cmd_type_val T_Io = 44"
| "cmd_type_val T_Speeds = 45"
| "cmd_type_val T_Tools = 46"
| "cmd_type_val T_Queue = 47"
| "cmd_type_val T_Activity = 48"
| "cmd_type_val T_LoopStats = 49"
| "cmd_type_val T_Profile = 50"
| "cmd_type_val T_Reachable = 51"
| "cmd_type_val T_Error = 52"
| "cmd_type_val T_TcpSpeed = 53"
| "cmd_type_val T_TcpOffset = 54"
| "cmd_type_val T_ToolStatus = 55"
| "cmd_type_val T_IsSimulator = 56"
| "cmd_type_val T_Shapes = 57"
| "cmd_type_val T_ConfigInfo = 58"
| "cmd_type_val T_Payload = 59"
| "cmd_type_val T_ConfigBundle = 60"
| "cmd_type_val T_BusScan = 61"
| "cmd_type_val T_StatusRate = 62"
| "cmd_type_val T_ExecutionSpeed = 63"
| "cmd_type_val T_ServoJ = 80"
| "cmd_type_val T_ServoJPose = 81"
| "cmd_type_val T_ServoL = 82"
| "cmd_type_val T_JogJ = 83"
| "cmd_type_val T_JogL = 84"
| "cmd_type_val T_Teleport = 85"
| "cmd_type_val T_ResetLoopStats = 86"
| "cmd_type_val T_Home = 100"
| "cmd_type_val T_MoveJ = 101"
| "cmd_type_val T_MoveJPose = 102"
| "cmd_type_val T_MoveL = 103"
| "cmd_type_val T_MoveC = 104"
| "cmd_type_val T_MoveS = 105"
| "cmd_type_val T_MoveP = 106"
| "cmd_type_val T_SelectTool = 107"
| "cmd_type_val T_Delay = 108"
| "cmd_type_val T_Checkpoint = 109"
| "cmd_type_val T_ToolAction = 110"
| "cmd_type_val T_SetTcpTransform = 111"
| "cmd_type_val T_TcpTransform = 112"
| "cmd_type_val T_CommandCompletion = 113"

definition cmd_type_all :: "cmd_type list" where
  "cmd_type_all =
    [T_Reset, T_Estop, T_Stop, T_WriteIo, T_Simulator,
     T_SelectProfile, T_ResetState, T_ConnectHardware, T_SetTcpOffset, T_SetShapes,
     T_SetCompletionPolicy, T_SetGravityComp, T_Pause, T_SetPayload, T_EnterFlashing,
     T_ExitFlashing, T_SetPidGains, T_SetCanId, T_SaveConfig, T_SetStatusRate,
     T_SetExecutionSpeed, T_SetToolId, T_Ping, T_Status, T_Angles,
     T_Pose, T_Io, T_Speeds, T_Tools, T_Queue,
     T_Activity, T_LoopStats, T_Profile, T_Reachable, T_Error,
     T_TcpSpeed, T_TcpOffset, T_ToolStatus, T_IsSimulator, T_Shapes,
     T_ConfigInfo, T_Payload, T_ConfigBundle, T_BusScan, T_StatusRate,
     T_ExecutionSpeed, T_ServoJ, T_ServoJPose, T_ServoL, T_JogJ,
     T_JogL, T_Teleport, T_ResetLoopStats, T_Home, T_MoveJ,
     T_MoveJPose, T_MoveL, T_MoveC, T_MoveS, T_MoveP,
     T_SelectTool, T_Delay, T_Checkpoint, T_ToolAction, T_SetTcpTransform,
     T_TcpTransform, T_CommandCompletion]"

definition cmd_type_from_wire :: "i64 \<Rightarrow> cmd_type option" where
  "cmd_type_from_wire = enum_from_wire cmd_type_all cmd_type_val"

datatype query_type
  = Q_Ping | Q_Status | Q_Angles | Q_Pose | Q_Io
  | Q_Speeds | Q_Tools | Q_Queue | Q_Activity | Q_LoopStats
  | Q_Profile | Q_Reachable | Q_Error | Q_TcpSpeed | Q_TcpOffset
  | Q_ToolStatus | Q_IsSimulator | Q_Shapes | Q_ConfigInfo | Q_Payload
  | Q_ConfigBundle | Q_BusScan | Q_StatusRate | Q_TcpTransform | Q_ExecutionSpeed
  | Q_CommandCompletion

primrec query_type_val :: "query_type \<Rightarrow> i64" where
  "query_type_val Q_Ping = 1"
| "query_type_val Q_Status = 2"
| "query_type_val Q_Angles = 3"
| "query_type_val Q_Pose = 4"
| "query_type_val Q_Io = 5"
| "query_type_val Q_Speeds = 6"
| "query_type_val Q_Tools = 7"
| "query_type_val Q_Queue = 8"
| "query_type_val Q_Activity = 9"
| "query_type_val Q_LoopStats = 10"
| "query_type_val Q_Profile = 11"
| "query_type_val Q_Reachable = 12"
| "query_type_val Q_Error = 13"
| "query_type_val Q_TcpSpeed = 14"
| "query_type_val Q_TcpOffset = 15"
| "query_type_val Q_ToolStatus = 16"
| "query_type_val Q_IsSimulator = 17"
| "query_type_val Q_Shapes = 18"
| "query_type_val Q_ConfigInfo = 19"
| "query_type_val Q_Payload = 20"
| "query_type_val Q_ConfigBundle = 21"
| "query_type_val Q_BusScan = 22"
| "query_type_val Q_StatusRate = 23"
| "query_type_val Q_TcpTransform = 24"
| "query_type_val Q_ExecutionSpeed = 25"
| "query_type_val Q_CommandCompletion = 26"

definition query_type_all :: "query_type list" where
  "query_type_all =
    [Q_Ping, Q_Status, Q_Angles, Q_Pose, Q_Io,
     Q_Speeds, Q_Tools, Q_Queue, Q_Activity, Q_LoopStats,
     Q_Profile, Q_Reachable, Q_Error, Q_TcpSpeed, Q_TcpOffset,
     Q_ToolStatus, Q_IsSimulator, Q_Shapes, Q_ConfigInfo, Q_Payload,
     Q_ConfigBundle, Q_BusScan, Q_StatusRate, Q_TcpTransform, Q_ExecutionSpeed,
     Q_CommandCompletion]"

definition query_type_from_wire :: "i64 \<Rightarrow> query_type option" where
  "query_type_from_wire = enum_from_wire query_type_all query_type_val"

datatype cmd_class
  = Class_System | Class_Query | Class_FireAndForget | Class_Queued

primrec cmd_class_val :: "cmd_class \<Rightarrow> i64" where
  "cmd_class_val Class_System = 0"
| "cmd_class_val Class_Query = 1"
| "cmd_class_val Class_FireAndForget = 2"
| "cmd_class_val Class_Queued = 3"

definition cmd_class_all :: "cmd_class list" where
  "cmd_class_all =
    [Class_System, Class_Query, Class_FireAndForget, Class_Queued]"

definition cmd_class_from_wire :: "i64 \<Rightarrow> cmd_class option" where
  "cmd_class_from_wire = enum_from_wire cmd_class_all cmd_class_val"

datatype action_state
  = Action_Idle | Action_Executing | Action_Error

primrec action_state_val :: "action_state \<Rightarrow> i64" where
  "action_state_val Action_Idle = 0"
| "action_state_val Action_Executing = 1"
| "action_state_val Action_Error = 2"

definition action_state_all :: "action_state list" where
  "action_state_all =
    [Action_Idle, Action_Executing, Action_Error]"

definition action_state_from_wire :: "i64 \<Rightarrow> action_state option" where
  "action_state_from_wire = enum_from_wire action_state_all action_state_val"

datatype completion_policy
  = Policy_Commanded | Policy_Settled | Policy_Strict

primrec completion_policy_val :: "completion_policy \<Rightarrow> i64" where
  "completion_policy_val Policy_Commanded = 0"
| "completion_policy_val Policy_Settled = 1"
| "completion_policy_val Policy_Strict = 2"

definition completion_policy_all :: "completion_policy list" where
  "completion_policy_all =
    [Policy_Commanded, Policy_Settled, Policy_Strict]"

definition completion_policy_from_wire :: "i64 \<Rightarrow> completion_policy option" where
  "completion_policy_from_wire = enum_from_wire completion_policy_all completion_policy_val"

datatype frame
  = Frame_Wrf | Frame_Trf

primrec frame_val :: "frame \<Rightarrow> i64" where
  "frame_val Frame_Wrf = 0"
| "frame_val Frame_Trf = 1"

definition frame_all :: "frame list" where
  "frame_all =
    [Frame_Wrf, Frame_Trf]"

definition frame_from_wire :: "i64 \<Rightarrow> frame option" where
  "frame_from_wire = enum_from_wire frame_all frame_val"

datatype flashing_assertion
  = Assert_Parked | Assert_Force

primrec flashing_assertion_val :: "flashing_assertion \<Rightarrow> i64" where
  "flashing_assertion_val Assert_Parked = 1"
| "flashing_assertion_val Assert_Force = 2"

definition flashing_assertion_all :: "flashing_assertion list" where
  "flashing_assertion_all =
    [Assert_Parked, Assert_Force]"

definition flashing_assertion_from_wire :: "i64 \<Rightarrow> flashing_assertion option" where
  "flashing_assertion_from_wire = enum_from_wire flashing_assertion_all flashing_assertion_val"

datatype tool_state
  = Tool_Off | Tool_Idle | Tool_Active | Tool_Error

primrec tool_state_val :: "tool_state \<Rightarrow> i64" where
  "tool_state_val Tool_Off = 0"
| "tool_state_val Tool_Idle = 1"
| "tool_state_val Tool_Active = 2"
| "tool_state_val Tool_Error = 3"

definition tool_state_all :: "tool_state list" where
  "tool_state_all =
    [Tool_Off, Tool_Idle, Tool_Active, Tool_Error]"

definition tool_state_from_wire :: "i64 \<Rightarrow> tool_state option" where
  "tool_state_from_wire = enum_from_wire tool_state_all tool_state_val"

datatype link_state
  = Link_Unknown | Link_Up | Link_ErrorPassive | Link_BusOff

primrec link_state_val :: "link_state \<Rightarrow> i64" where
  "link_state_val Link_Unknown = 0"
| "link_state_val Link_Up = 1"
| "link_state_val Link_ErrorPassive = 2"
| "link_state_val Link_BusOff = 3"

definition link_state_all :: "link_state list" where
  "link_state_all =
    [Link_Unknown, Link_Up, Link_ErrorPassive, Link_BusOff]"

definition link_state_from_wire :: "i64 \<Rightarrow> link_state option" where
  "link_state_from_wire = enum_from_wire link_state_all link_state_val"

datatype homing_joint_state
  = HState_Idle | HState_Running | HState_Done | HState_Failed

primrec homing_joint_state_val :: "homing_joint_state \<Rightarrow> i64" where
  "homing_joint_state_val HState_Idle = 0"
| "homing_joint_state_val HState_Running = 1"
| "homing_joint_state_val HState_Done = 2"
| "homing_joint_state_val HState_Failed = 3"

definition homing_joint_state_all :: "homing_joint_state list" where
  "homing_joint_state_all =
    [HState_Idle, HState_Running, HState_Done, HState_Failed]"

definition homing_joint_state_from_wire :: "i64 \<Rightarrow> homing_joint_state option" where
  "homing_joint_state_from_wire = enum_from_wire homing_joint_state_all homing_joint_state_val"

datatype homing_phase
  = Phase_Idle | Phase_Approach | Phase_Dwell | Phase_Backoff | Phase_Pause
  | Phase_Release | Phase_Settle | Phase_PostMove | Phase_Finished

primrec homing_phase_val :: "homing_phase \<Rightarrow> i64" where
  "homing_phase_val Phase_Idle = 0"
| "homing_phase_val Phase_Approach = 1"
| "homing_phase_val Phase_Dwell = 2"
| "homing_phase_val Phase_Backoff = 3"
| "homing_phase_val Phase_Pause = 4"
| "homing_phase_val Phase_Release = 5"
| "homing_phase_val Phase_Settle = 6"
| "homing_phase_val Phase_PostMove = 7"
| "homing_phase_val Phase_Finished = 8"

definition homing_phase_all :: "homing_phase list" where
  "homing_phase_all =
    [Phase_Idle, Phase_Approach, Phase_Dwell, Phase_Backoff, Phase_Pause,
     Phase_Release, Phase_Settle, Phase_PostMove, Phase_Finished]"

definition homing_phase_from_wire :: "i64 \<Rightarrow> homing_phase option" where
  "homing_phase_from_wire = enum_from_wire homing_phase_all homing_phase_val"

section \<open>The ack taxonomy\<close>

primrec command_class :: "cmd_type \<Rightarrow> cmd_class" where
  "command_class T_Reset = Class_System"
| "command_class T_Estop = Class_System"
| "command_class T_Stop = Class_System"
| "command_class T_WriteIo = Class_Queued"
| "command_class T_Simulator = Class_System"
| "command_class T_SelectProfile = Class_System"
| "command_class T_ResetState = Class_System"
| "command_class T_ConnectHardware = Class_System"
| "command_class T_SetTcpOffset = Class_Queued"
| "command_class T_SetShapes = Class_System"
| "command_class T_SetCompletionPolicy = Class_System"
| "command_class T_SetGravityComp = Class_System"
| "command_class T_Pause = Class_System"
| "command_class T_SetPayload = Class_System"
| "command_class T_EnterFlashing = Class_System"
| "command_class T_ExitFlashing = Class_System"
| "command_class T_SetPidGains = Class_System"
| "command_class T_SetCanId = Class_System"
| "command_class T_SaveConfig = Class_System"
| "command_class T_SetStatusRate = Class_System"
| "command_class T_SetExecutionSpeed = Class_System"
| "command_class T_SetToolId = Class_System"
| "command_class T_Ping = Class_Query"
| "command_class T_Status = Class_Query"
| "command_class T_Angles = Class_Query"
| "command_class T_Pose = Class_Query"
| "command_class T_Io = Class_Query"
| "command_class T_Speeds = Class_Query"
| "command_class T_Tools = Class_Query"
| "command_class T_Queue = Class_Query"
| "command_class T_Activity = Class_Query"
| "command_class T_LoopStats = Class_Query"
| "command_class T_Profile = Class_Query"
| "command_class T_Reachable = Class_Query"
| "command_class T_Error = Class_Query"
| "command_class T_TcpSpeed = Class_Query"
| "command_class T_TcpOffset = Class_Query"
| "command_class T_ToolStatus = Class_Query"
| "command_class T_IsSimulator = Class_Query"
| "command_class T_Shapes = Class_Query"
| "command_class T_ConfigInfo = Class_Query"
| "command_class T_Payload = Class_Query"
| "command_class T_ConfigBundle = Class_Query"
| "command_class T_BusScan = Class_Query"
| "command_class T_StatusRate = Class_Query"
| "command_class T_ExecutionSpeed = Class_Query"
| "command_class T_ServoJ = Class_FireAndForget"
| "command_class T_ServoJPose = Class_FireAndForget"
| "command_class T_ServoL = Class_FireAndForget"
| "command_class T_JogJ = Class_FireAndForget"
| "command_class T_JogL = Class_FireAndForget"
| "command_class T_Teleport = Class_System"
| "command_class T_ResetLoopStats = Class_FireAndForget"
| "command_class T_Home = Class_Queued"
| "command_class T_MoveJ = Class_Queued"
| "command_class T_MoveJPose = Class_Queued"
| "command_class T_MoveL = Class_Queued"
| "command_class T_MoveC = Class_Queued"
| "command_class T_MoveS = Class_Queued"
| "command_class T_MoveP = Class_Queued"
| "command_class T_SelectTool = Class_Queued"
| "command_class T_Delay = Class_Queued"
| "command_class T_Checkpoint = Class_Queued"
| "command_class T_ToolAction = Class_Queued"
| "command_class T_SetTcpTransform = Class_Queued"
| "command_class T_TcpTransform = Class_Query"
| "command_class T_CommandCompletion = Class_Query"

section \<open>Every enum has the reflection's contract\<close>

interpretation msg_type_wire: wire_enum msg_type_all msg_type_val
proof
  show "distinct (map msg_type_val msg_type_all)" by (simp add: msg_type_all_def)
  show "c \<in> set msg_type_all" for c by (cases c) (simp_all add: msg_type_all_def)
qed

interpretation controller_mode_wire: wire_enum controller_mode_all controller_mode_val
proof
  show "distinct (map controller_mode_val controller_mode_all)" by (simp add: controller_mode_all_def)
  show "c \<in> set controller_mode_all" for c by (cases c) (simp_all add: controller_mode_all_def)
qed

interpretation cmd_type_wire: wire_enum cmd_type_all cmd_type_val
proof
  show "distinct (map cmd_type_val cmd_type_all)" by (simp add: cmd_type_all_def)
  show "c \<in> set cmd_type_all" for c by (cases c) (simp_all add: cmd_type_all_def)
qed

interpretation query_type_wire: wire_enum query_type_all query_type_val
proof
  show "distinct (map query_type_val query_type_all)" by (simp add: query_type_all_def)
  show "c \<in> set query_type_all" for c by (cases c) (simp_all add: query_type_all_def)
qed

interpretation cmd_class_wire: wire_enum cmd_class_all cmd_class_val
proof
  show "distinct (map cmd_class_val cmd_class_all)" by (simp add: cmd_class_all_def)
  show "c \<in> set cmd_class_all" for c by (cases c) (simp_all add: cmd_class_all_def)
qed

interpretation action_state_wire: wire_enum action_state_all action_state_val
proof
  show "distinct (map action_state_val action_state_all)" by (simp add: action_state_all_def)
  show "c \<in> set action_state_all" for c by (cases c) (simp_all add: action_state_all_def)
qed

interpretation completion_policy_wire: wire_enum completion_policy_all completion_policy_val
proof
  show "distinct (map completion_policy_val completion_policy_all)" by (simp add: completion_policy_all_def)
  show "c \<in> set completion_policy_all" for c by (cases c) (simp_all add: completion_policy_all_def)
qed

interpretation frame_wire: wire_enum frame_all frame_val
proof
  show "distinct (map frame_val frame_all)" by (simp add: frame_all_def)
  show "c \<in> set frame_all" for c by (cases c) (simp_all add: frame_all_def)
qed

interpretation flashing_assertion_wire: wire_enum flashing_assertion_all flashing_assertion_val
proof
  show "distinct (map flashing_assertion_val flashing_assertion_all)" by (simp add: flashing_assertion_all_def)
  show "c \<in> set flashing_assertion_all" for c by (cases c) (simp_all add: flashing_assertion_all_def)
qed

interpretation tool_state_wire: wire_enum tool_state_all tool_state_val
proof
  show "distinct (map tool_state_val tool_state_all)" by (simp add: tool_state_all_def)
  show "c \<in> set tool_state_all" for c by (cases c) (simp_all add: tool_state_all_def)
qed

interpretation link_state_wire: wire_enum link_state_all link_state_val
proof
  show "distinct (map link_state_val link_state_all)" by (simp add: link_state_all_def)
  show "c \<in> set link_state_all" for c by (cases c) (simp_all add: link_state_all_def)
qed

interpretation homing_joint_state_wire: wire_enum homing_joint_state_all homing_joint_state_val
proof
  show "distinct (map homing_joint_state_val homing_joint_state_all)" by (simp add: homing_joint_state_all_def)
  show "c \<in> set homing_joint_state_all" for c by (cases c) (simp_all add: homing_joint_state_all_def)
qed

interpretation homing_phase_wire: wire_enum homing_phase_all homing_phase_val
proof
  show "distinct (map homing_phase_val homing_phase_all)" by (simp add: homing_phase_all_def)
  show "c \<in> set homing_phase_all" for c by (cases c) (simp_all add: homing_phase_all_def)
qed

end
