(* ===== verification/Command_Types.thy ===== *)
theory Command_Types
  imports Enums
begin

text \<open>
  The commands a client sends (\<open>par6-proto/src/command.rs\<close>): the parameter structs, the enum
  \<open>Command\<close>, its wire tag and its idempotency key.

  A struct of several fields is a record whose fields carry a prefix of the struct's name; a
  struct of one field is that field. A fixed array \<open>[f64; N]\<close> is a list, a \<open>String\<close> its UTF-8
  bytes: the predicate \<open>command_wf\<close> says what the Rust types enforce of them, the lengths and
  the encoding.
\<close>

section \<open>Shapes\<close>

record physical =
  ph_mass :: "f64 option"
  ph_friction :: "f64 list"

record attachment =
  at_epoch :: u64
  at_allowed_contacts :: "bytes list"

record shape =
  sh_kind :: bytes
  sh_params :: "f64 list"
  sh_pose :: "f64 list"
  sh_collision :: bool
  sh_margin :: "f64 option"
  sh_name :: bytes
  sh_physics :: "physical option"
  sh_attachment :: "attachment option"

datatype tool_param = PBool bool | PInt i64 | PFloat f64 | PStr bytes

section \<open>Parameter structs\<close>

record write_io =
  wio_key :: u64
  wio_port :: u8
  wio_value :: u8

record set_tcp_offset =
  sto_key :: u64
  sto_x :: f64
  sto_y :: f64
  sto_z :: f64

record set_tcp_transform =
  stt_key :: u64
  stt_x :: f64
  stt_y :: f64
  stt_z :: f64
  stt_roll :: f64
  stt_pitch :: f64
  stt_yaw :: f64

record set_payload =
  spl_mass :: f64
  spl_com :: "f64 list"
  spl_inertia :: "f64 list option"

record set_can_id =
  sci_node :: u8
  sci_new_id :: u8
  sci_force :: bool

record save_config =
  svc_node :: u8
  svc_force :: bool

record set_tool_id =
  sti_node :: u8
  sti_tool_id :: u8
  sti_force :: bool

record set_pid_gains =
  spg_node :: u8
  spg_kpp :: f64
  spg_kpv :: f64
  spg_kiv :: f64
  spg_kpiq :: f64
  spg_kiiq :: f64
  spg_kp :: f64
  spg_kd :: f64
  spg_ilim_ma :: f64
  spg_velocity_limit_ticks_s :: f64
  spg_voltage_limit_mv :: u32

record servo_j =
  sj_angles :: "f64 list"
  sj_speed :: "f64 option"
  sj_accel :: "f64 option"

record servo_j_pose =
  sjp_pose :: "f64 list"
  sjp_speed :: "f64 option"
  sjp_accel :: "f64 option"

record servo_l =
  sl_pose :: "f64 list"
  sl_speed :: "f64 option"
  sl_accel :: "f64 option"

record jog_j =
  jj_speeds :: "f64 list"
  jj_duration :: f64
  jj_accel :: "f64 option"

record jog_l =
  jl_velocities :: "f64 list"
  jl_duration :: f64
  jl_frame :: frame
  jl_accel :: "f64 option"

record teleport =
  tp_angles :: "f64 list"
  tp_tool_positions :: "f64 list option"

record home_params =
  hm_key :: u64
  hm_calibrate :: bool

record move_j =
  mj_key :: u64
  mj_angles :: "f64 list"
  mj_duration :: "f64 option"
  mj_speed :: "f64 option"
  mj_accel :: "f64 option"
  mj_blend_radius :: "f64 option"
  mj_rel :: bool

record move_j_pose =
  mjp_key :: u64
  mjp_pose :: "f64 list"
  mjp_duration :: "f64 option"
  mjp_speed :: "f64 option"
  mjp_accel :: "f64 option"
  mjp_blend_radius :: "f64 option"

record move_l =
  ml_key :: u64
  ml_pose :: "f64 list"
  ml_frame :: frame
  ml_duration :: "f64 option"
  ml_speed :: "f64 option"
  ml_accel :: "f64 option"
  ml_blend_radius :: "f64 option"
  ml_rel :: bool

record move_c =
  mc_key :: u64
  mc_via :: "f64 list"
  mc_end :: "f64 list"
  mc_frame :: frame
  mc_duration :: "f64 option"
  mc_speed :: "f64 option"
  mc_accel :: "f64 option"
  mc_blend_radius :: "f64 option"
  mc_rel :: bool

record move_s =
  ms_key :: u64
  ms_waypoints :: "f64 list list"
  ms_frame :: frame
  ms_duration :: "f64 option"
  ms_speed :: "f64 option"
  ms_accel :: "f64 option"
  ms_rel :: bool

record move_p =
  mp_key :: u64
  mp_waypoints :: "f64 list list"
  mp_frame :: frame
  mp_duration :: "f64 option"
  mp_speed :: "f64 option"
  mp_accel :: "f64 option"
  mp_rel :: bool

record select_tool =
  slt_key :: u64
  slt_tool_name :: bytes
  slt_variant_key :: "bytes option"

record delay_params =
  dl_key :: u64
  dl_seconds :: f64

record checkpoint_params =
  cp_key :: u64
  cp_label :: bytes

record tool_action =
  ta_key :: u64
  ta_tool_key :: bytes
  ta_action :: bytes
  ta_params :: "tool_param list"

section \<open>The command enum\<close>

datatype (plugins only: code size) command =
    C_Reset
  | C_Estop
  | C_SetGravityComp bool
  | C_Pause bool
  | C_SetExecutionSpeed f64
  | C_Stop bool
  | C_WriteIo write_io
  | C_Simulator bool
  | C_SelectProfile bytes
  | C_ResetState
  | C_ConnectHardware bytes
  | C_SetTcpOffset set_tcp_offset
  | C_SetTcpTransform set_tcp_transform
  | C_SetPayload set_payload
  | C_SetShapes "shape list"
  | C_SetCompletionPolicy completion_policy
  | C_EnterFlashing flashing_assertion
  | C_ExitFlashing
  | C_SetPidGains set_pid_gains
  | C_SetCanId set_can_id
  | C_SaveConfig save_config
  | C_SetToolId set_tool_id
  | C_SetStatusRate f64
  | C_Ping
  | C_Status
  | C_Angles
  | C_Pose "frame option"
  | C_Io
  | C_Speeds
  | C_Tools
  | C_Queue
  | C_Activity
  | C_LoopStats
  | C_Profile
  | C_Reachable
  | C_Error
  | C_TcpSpeed
  | C_TcpOffset
  | C_TcpTransform
  | C_ExecutionSpeed
  | C_CommandCompletion u64
  | C_ToolStatus
  | C_IsSimulator
  | C_Shapes
  | C_ConfigInfo
  | C_Payload
  | C_ConfigBundle
  | C_BusScan
  | C_StatusRate
  | C_ServoJ servo_j
  | C_ServoJPose servo_j_pose
  | C_ServoL servo_l
  | C_JogJ jog_j
  | C_JogL jog_l
  | C_Teleport teleport
  | C_ResetLoopStats
  | C_Home home_params
  | C_MoveJ move_j
  | C_MoveJPose move_j_pose
  | C_MoveL move_l
  | C_MoveC move_c
  | C_MoveS move_s
  | C_MoveP move_p
  | C_SelectTool select_tool
  | C_Delay delay_params
  | C_Checkpoint checkpoint_params
  | C_ToolAction tool_action

primrec command_tag :: "command \<Rightarrow> cmd_type" where
  "command_tag C_Reset = T_Reset"
| "command_tag C_Estop = T_Estop"
| "command_tag (C_SetGravityComp p) = T_SetGravityComp"
| "command_tag (C_Pause p) = T_Pause"
| "command_tag (C_SetExecutionSpeed p) = T_SetExecutionSpeed"
| "command_tag (C_Stop p) = T_Stop"
| "command_tag (C_WriteIo p) = T_WriteIo"
| "command_tag (C_Simulator p) = T_Simulator"
| "command_tag (C_SelectProfile p) = T_SelectProfile"
| "command_tag C_ResetState = T_ResetState"
| "command_tag (C_ConnectHardware p) = T_ConnectHardware"
| "command_tag (C_SetTcpOffset p) = T_SetTcpOffset"
| "command_tag (C_SetTcpTransform p) = T_SetTcpTransform"
| "command_tag (C_SetPayload p) = T_SetPayload"
| "command_tag (C_SetShapes p) = T_SetShapes"
| "command_tag (C_SetCompletionPolicy p) = T_SetCompletionPolicy"
| "command_tag (C_EnterFlashing p) = T_EnterFlashing"
| "command_tag C_ExitFlashing = T_ExitFlashing"
| "command_tag (C_SetPidGains p) = T_SetPidGains"
| "command_tag (C_SetCanId p) = T_SetCanId"
| "command_tag (C_SaveConfig p) = T_SaveConfig"
| "command_tag (C_SetToolId p) = T_SetToolId"
| "command_tag (C_SetStatusRate p) = T_SetStatusRate"
| "command_tag C_Ping = T_Ping"
| "command_tag C_Status = T_Status"
| "command_tag C_Angles = T_Angles"
| "command_tag (C_Pose p) = T_Pose"
| "command_tag C_Io = T_Io"
| "command_tag C_Speeds = T_Speeds"
| "command_tag C_Tools = T_Tools"
| "command_tag C_Queue = T_Queue"
| "command_tag C_Activity = T_Activity"
| "command_tag C_LoopStats = T_LoopStats"
| "command_tag C_Profile = T_Profile"
| "command_tag C_Reachable = T_Reachable"
| "command_tag C_Error = T_Error"
| "command_tag C_TcpSpeed = T_TcpSpeed"
| "command_tag C_TcpOffset = T_TcpOffset"
| "command_tag C_TcpTransform = T_TcpTransform"
| "command_tag C_ExecutionSpeed = T_ExecutionSpeed"
| "command_tag (C_CommandCompletion p) = T_CommandCompletion"
| "command_tag C_ToolStatus = T_ToolStatus"
| "command_tag C_IsSimulator = T_IsSimulator"
| "command_tag C_Shapes = T_Shapes"
| "command_tag C_ConfigInfo = T_ConfigInfo"
| "command_tag C_Payload = T_Payload"
| "command_tag C_ConfigBundle = T_ConfigBundle"
| "command_tag C_BusScan = T_BusScan"
| "command_tag C_StatusRate = T_StatusRate"
| "command_tag (C_ServoJ p) = T_ServoJ"
| "command_tag (C_ServoJPose p) = T_ServoJPose"
| "command_tag (C_ServoL p) = T_ServoL"
| "command_tag (C_JogJ p) = T_JogJ"
| "command_tag (C_JogL p) = T_JogL"
| "command_tag (C_Teleport p) = T_Teleport"
| "command_tag C_ResetLoopStats = T_ResetLoopStats"
| "command_tag (C_Home p) = T_Home"
| "command_tag (C_MoveJ p) = T_MoveJ"
| "command_tag (C_MoveJPose p) = T_MoveJPose"
| "command_tag (C_MoveL p) = T_MoveL"
| "command_tag (C_MoveC p) = T_MoveC"
| "command_tag (C_MoveS p) = T_MoveS"
| "command_tag (C_MoveP p) = T_MoveP"
| "command_tag (C_SelectTool p) = T_SelectTool"
| "command_tag (C_Delay p) = T_Delay"
| "command_tag (C_Checkpoint p) = T_Checkpoint"
| "command_tag (C_ToolAction p) = T_ToolAction"

primrec idempotency_key :: "command \<Rightarrow> u64 option" where
  "idempotency_key C_Reset = None"
| "idempotency_key C_Estop = None"
| "idempotency_key (C_SetGravityComp p) = None"
| "idempotency_key (C_Pause p) = None"
| "idempotency_key (C_SetExecutionSpeed p) = None"
| "idempotency_key (C_Stop p) = None"
| "idempotency_key (C_WriteIo p) = Some (wio_key p)"
| "idempotency_key (C_Simulator p) = None"
| "idempotency_key (C_SelectProfile p) = None"
| "idempotency_key C_ResetState = None"
| "idempotency_key (C_ConnectHardware p) = None"
| "idempotency_key (C_SetTcpOffset p) = Some (sto_key p)"
| "idempotency_key (C_SetTcpTransform p) = Some (stt_key p)"
| "idempotency_key (C_SetPayload p) = None"
| "idempotency_key (C_SetShapes p) = None"
| "idempotency_key (C_SetCompletionPolicy p) = None"
| "idempotency_key (C_EnterFlashing p) = None"
| "idempotency_key C_ExitFlashing = None"
| "idempotency_key (C_SetPidGains p) = None"
| "idempotency_key (C_SetCanId p) = None"
| "idempotency_key (C_SaveConfig p) = None"
| "idempotency_key (C_SetToolId p) = None"
| "idempotency_key (C_SetStatusRate p) = None"
| "idempotency_key C_Ping = None"
| "idempotency_key C_Status = None"
| "idempotency_key C_Angles = None"
| "idempotency_key (C_Pose p) = None"
| "idempotency_key C_Io = None"
| "idempotency_key C_Speeds = None"
| "idempotency_key C_Tools = None"
| "idempotency_key C_Queue = None"
| "idempotency_key C_Activity = None"
| "idempotency_key C_LoopStats = None"
| "idempotency_key C_Profile = None"
| "idempotency_key C_Reachable = None"
| "idempotency_key C_Error = None"
| "idempotency_key C_TcpSpeed = None"
| "idempotency_key C_TcpOffset = None"
| "idempotency_key C_TcpTransform = None"
| "idempotency_key C_ExecutionSpeed = None"
| "idempotency_key (C_CommandCompletion p) = None"
| "idempotency_key C_ToolStatus = None"
| "idempotency_key C_IsSimulator = None"
| "idempotency_key C_Shapes = None"
| "idempotency_key C_ConfigInfo = None"
| "idempotency_key C_Payload = None"
| "idempotency_key C_ConfigBundle = None"
| "idempotency_key C_BusScan = None"
| "idempotency_key C_StatusRate = None"
| "idempotency_key (C_ServoJ p) = None"
| "idempotency_key (C_ServoJPose p) = None"
| "idempotency_key (C_ServoL p) = None"
| "idempotency_key (C_JogJ p) = None"
| "idempotency_key (C_JogL p) = None"
| "idempotency_key (C_Teleport p) = None"
| "idempotency_key C_ResetLoopStats = None"
| "idempotency_key (C_Home p) = Some (hm_key p)"
| "idempotency_key (C_MoveJ p) = Some (mj_key p)"
| "idempotency_key (C_MoveJPose p) = Some (mjp_key p)"
| "idempotency_key (C_MoveL p) = Some (ml_key p)"
| "idempotency_key (C_MoveC p) = Some (mc_key p)"
| "idempotency_key (C_MoveS p) = Some (ms_key p)"
| "idempotency_key (C_MoveP p) = Some (mp_key p)"
| "idempotency_key (C_SelectTool p) = Some (slt_key p)"
| "idempotency_key (C_Delay p) = Some (dl_key p)"
| "idempotency_key (C_Checkpoint p) = Some (cp_key p)"
| "idempotency_key (C_ToolAction p) = Some (ta_key p)"

end
