(* ===== verification/Command_Validate.thy ===== *)
theory Command_Validate
  imports Command_Types
begin

text \<open>
  The range and shape rules of \<open>par6-proto/src/command.rs\<close>: \<open>validate_shape\<close>, \<open>Command::validate\<close>
  and the checks they are built from. Floats are IEEE patterns, so "finite" and the bounds mean
  what the source's comparisons mean, NaN included.
\<close>

section \<open>Constants\<close>

definition MAX_DURATION_S :: f64 where "MAX_DURATION_S = 0x40AC200000000000"  \<comment> \<open>3600.0\<close>
definition MAX_JOG_DURATION_S :: f64 where "MAX_JOG_DURATION_S = 0x404E000000000000"  \<comment> \<open>60.0\<close>
definition MAX_WAYPOINTS :: nat where "MAX_WAYPOINTS = 10000"
definition MAX_SHAPES :: nat where "MAX_SHAPES = 256"
definition MAX_VEC_ELEMS :: nat where "MAX_VEC_ELEMS = 16"
definition f64_tenth :: f64 where "f64_tenth = 0x3FB999999999999A"  \<comment> \<open>0.1\<close>

lemmas limit_defs = MAX_DURATION_S_def MAX_JOG_DURATION_S_def MAX_WAYPOINTS_def MAX_SHAPES_def
  MAX_VEC_ELEMS_def f64_tenth_def

section \<open>Checks\<close>

definition check :: "bool \<Rightarrow> string \<Rightarrow> decode_error + unit" where
  "check ok what = (if ok then Inr () else Inl (Validation what))"

definition finite_check :: "string \<Rightarrow> f64 \<Rightarrow> decode_error + unit" where
  "finite_check what v = check (is_finite v) what"

definition finite_all :: "string \<Rightarrow> f64 list \<Rightarrow> decode_error + unit" where
  "finite_all what vs = for_all_result (finite_check what) vs"

text \<open>
  \<open>symmetric3_is_psd\<close>: all principal minors of \<open>(Ixx, Ixy, Iyy, Ixz, Iyz, Izz)\<close> are
  non-negative up to a tolerance that scales with the matrix; \<open>0x3E112E0BE826D695\<close> is \<open>1e-9\<close>.
  The argument is a \<open>[f64; 6]\<close>.
\<close>

definition symmetric3_is_psd :: "f64 list \<Rightarrow> bool" where
  "symmetric3_is_psd i =
     (let ixx = i ! 0; ixy = i ! 1; iyy = i ! 2; ixz = i ! 3; iyz = i ! 4; izz = i ! 5;
          scale = foldl (\<lambda>m v. f64_max m (f64_abs v)) f64_zero i;
          eps1 = f64_mul 0x3E112E0BE826D695 scale;
          eps2 = f64_mul eps1 scale;
          eps3 = f64_mul eps2 scale;
          minor = (\<lambda>a b c. f64_sub (f64_mul a b) (f64_mul c c));
          det = f64_add
            (f64_sub (f64_mul ixx (minor iyy izz iyz))
                     (f64_mul ixy (f64_sub (f64_mul ixy izz) (f64_mul iyz ixz))))
            (f64_mul ixz (f64_sub (f64_mul ixy iyz) (f64_mul iyy ixz)))
      in f64_le (f64_neg eps1) ixx \<and> f64_le (f64_neg eps1) iyy \<and> f64_le (f64_neg eps1) izz
         \<and> f64_le (f64_neg eps2) (minor ixx iyy ixy)
         \<and> f64_le (f64_neg eps2) (minor ixx izz ixz)
         \<and> f64_le (f64_neg eps2) (minor iyy izz iyz)
         \<and> f64_le (f64_neg eps3) det)"

definition frac :: "string \<Rightarrow> f64 \<Rightarrow> decode_error + unit" where
  "frac what v = bind_result (finite_check what v)
     (\<lambda>_. check (f64_lt f64_zero v \<and> f64_le v f64_one) what)"

definition opt_frac :: "string \<Rightarrow> f64 option \<Rightarrow> decode_error + unit" where
  "opt_frac what v = (case v of Some x \<Rightarrow> frac what x | None \<Rightarrow> Inr ())"

definition signed_fracs :: "string \<Rightarrow> f64 list \<Rightarrow> decode_error + unit" where
  "signed_fracs what vs = for_all_result (\<lambda>v. bind_result (finite_check what v)
     (\<lambda>_. check (f64_le f64_minus_one v \<and> f64_le v f64_one) what)) vs"

definition bounded_duration :: "string \<Rightarrow> f64 \<Rightarrow> f64 \<Rightarrow> decode_error + unit" where
  "bounded_duration what v mx = bind_result (finite_check what v)
     (\<lambda>_. check (f64_lt f64_zero v \<and> f64_le v mx) what)"

definition duration_check :: "string \<Rightarrow> f64 \<Rightarrow> decode_error + unit" where
  "duration_check what v = bounded_duration what v MAX_DURATION_S"

definition blend :: "string \<Rightarrow> f64 option \<Rightarrow> decode_error + unit" where
  "blend what v = (case v of
       Some x \<Rightarrow> bind_result (finite_check what x) (\<lambda>_. check (f64_le f64_zero x) what)
     | None \<Rightarrow> Inr ())"

definition motion_timing ::
  "string \<Rightarrow> f64 option \<Rightarrow> f64 option \<Rightarrow> f64 option \<Rightarrow> decode_error + unit" where
  "motion_timing what dur speed accel =
     bind_result
       (case (dur, speed) of
          (Some d, None) \<Rightarrow> duration_check what d
        | (None, Some s) \<Rightarrow> frac what s
        | (None, None) \<Rightarrow> Inl (Validation what)
        | (Some _, Some _) \<Rightarrow> Inl (Validation what))
       (\<lambda>_. opt_frac what accel)"

definition str_len :: "string \<Rightarrow> bytes \<Rightarrow> nat \<Rightarrow> nat \<Rightarrow> decode_error + unit" where
  "str_len what s lo hi = check (lo \<le> length s \<and> length s \<le> hi) what"

definition waypoints :: "string \<Rightarrow> f64 list list \<Rightarrow> decode_error + unit" where
  "waypoints what wps =
     bind_result (check (2 \<le> length wps) what) (\<lambda>_.
     bind_result (check (length wps \<le> MAX_WAYPOINTS) what) (\<lambda>_.
     for_all_result (finite_all what) wps))"

section \<open>Shapes\<close>

text \<open>
  \<open>validate_shape\<close> reports the field it refuses. \<open>0x2A 0x3F 0x5B 0x5D 0x00\<close> are the
  characters \<open>* ? [ ]\<close> and NUL; the prefix is \<open>"shape:"\<close>.
\<close>

definition shape_prefix :: bytes where
  "shape_prefix = [0x73, 0x68, 0x61, 0x70, 0x65, 0x3A]"

definition contact_refused :: "bytes \<Rightarrow> bytes list \<Rightarrow> nat \<Rightarrow> bool" where
  "contact_refused shape_name contacts i =
     (let name = contacts ! i
      in name = [] \<or> 128 < length name
         \<or> (\<exists>b\<in>set name. b \<in> set [0x2A, 0x3F, 0x5B, 0x5D, 0x00])
         \<or> name = shape_prefix @ shape_name
         \<or> name \<in> set (take i contacts))"

definition validate_attachment :: "shape \<Rightarrow> attachment \<Rightarrow> string + unit" where
  "validate_attachment s a =
     (let refuse = Inl ''shape.attachment'' in
      if \<not> sh_collision s \<or> sh_physics s \<noteq> None then refuse
      else if at_epoch a = 0 \<or> sh_name s = [] \<or> 128 < length (sh_name s) then refuse
      else if 32 < length (at_allowed_contacts a) then refuse
      else for_all_result
        (\<lambda>i. if contact_refused (sh_name s) (at_allowed_contacts a) i then refuse else Inr ())
        [0..<length (at_allowed_contacts a)])"

definition validate_physics :: "shape \<Rightarrow> physical \<Rightarrow> string + unit" where
  "validate_physics s ph =
     (if \<not> sh_collision s then Inl ''shape.physics''
      else bind_result
        (case ph_mass ph of None \<Rightarrow> Inr ()
         | Some m \<Rightarrow> if \<not> (is_finite m \<and> f64_lt f64_zero m) then Inl ''shape.physics.mass'' else Inr ())
        (\<lambda>_. if find (\<lambda>f. \<not> is_finite f) (ph_friction ph) \<noteq> None then Inl ''shape.physics.friction''
             else if list_ex (\<lambda>f. f64_lt f f64_zero) (ph_friction ph) then Inl ''shape.physics.friction''
             else Inr ()))"

definition validate_shape :: "shape \<Rightarrow> string + unit" where
  "validate_shape s =
     (if length (sh_pose s) \<noteq> 6 then Inl ''shape.pose''
      else bind_result
        (for_all_result
           (\<lambda>(what, vs). if find (\<lambda>v. \<not> is_finite v) vs \<noteq> None then Inl what else Inr ())
           [(''shape.params'', sh_params s), (''shape.pose'', sh_pose s)]) (\<lambda>_.
        bind_result
        (case sh_margin s of None \<Rightarrow> Inr ()
         | Some m \<Rightarrow> if \<not> (is_finite m \<and> f64_le f64_zero m) then Inl ''shape.margin'' else Inr ()) (\<lambda>_.
        bind_result
        (case sh_attachment s of None \<Rightarrow> Inr () | Some a \<Rightarrow> validate_attachment s a) (\<lambda>_.
        case sh_physics s of None \<Rightarrow> Inr () | Some ph \<Rightarrow> validate_physics s ph))))"

text \<open>\<open>validate_shape(s).map_err(|(what, why)| DecodeError::Validation { what, why })\<close>.\<close>

definition shape_result :: "shape \<Rightarrow> decode_error + unit" where
  "shape_result s = (case validate_shape s of Inl what \<Rightarrow> Inl (Validation what) | Inr u \<Rightarrow> Inr u)"

section \<open>Commands\<close>

primrec validate :: "command \<Rightarrow> decode_error + unit" where
  "validate C_Reset = Inr ()"
| "validate C_Estop = Inr ()"
| "validate (C_SetGravityComp p) = Inr ()"
| "validate (C_Pause p) = Inr ()"
| "validate (C_SetExecutionSpeed p) = 
     check (is_finite p \<and> f64_le f64_tenth p \<and> f64_le p f64_one) ''set_execution_speed.scale''"
| "validate (C_Stop p) = Inr ()"
| "validate (C_WriteIo p) = 
     bind_result (check (unat (wio_port p) \<le> 7) ''write_io.port'') (\<lambda>_.
     check (unat (wio_value p) \<le> 1) ''write_io.value'')"
| "validate (C_Simulator p) = Inr ()"
| "validate (C_SelectProfile p) = str_len ''select_profile.profile'' p 1 32"
| "validate C_ResetState = Inr ()"
| "validate (C_ConnectHardware p) = str_len ''connect_hardware.port'' p 1 256"
| "validate (C_SetTcpOffset p) = 
     bind_result (finite_check ''set_tcp_offset.x'' (sto_x p)) (\<lambda>_.
     bind_result (finite_check ''set_tcp_offset.y'' (sto_y p)) (\<lambda>_.
     finite_check ''set_tcp_offset.z'' (sto_z p)))"
| "validate (C_SetTcpTransform p) = 
     for_all_result (finite_check ''set_tcp_transform'')
       [stt_x p, stt_y p, stt_z p, stt_roll p, stt_pitch p, stt_yaw p]"
| "validate (C_SetPayload p) = 
     bind_result (finite_check ''set_payload.mass'' (spl_mass p)) (\<lambda>_.
     bind_result (check (f64_le f64_zero (spl_mass p)) ''set_payload.mass'') (\<lambda>_.
     bind_result (finite_all ''set_payload.com'' (spl_com p)) (\<lambda>_.
     case spl_inertia p of None \<Rightarrow> Inr ()
       | Some i \<Rightarrow> bind_result (finite_all ''set_payload.inertia'' i)
           (\<lambda>_. check (symmetric3_is_psd i) ''set_payload.inertia''))))"
| "validate (C_SetShapes p) = 
     bind_result (check (length p \<le> MAX_SHAPES) ''set_shapes.shapes'') (\<lambda>_.
     for_all_result (\<lambda>s. bind_result (str_len ''shape.kind'' (sh_kind s) 1 32) (\<lambda>_.
         bind_result (str_len ''shape.name'' (sh_name s) 0 128) (\<lambda>_.
         shape_result s))) p)"
| "validate (C_SetCompletionPolicy p) = Inr ()"
| "validate (C_EnterFlashing p) = Inr ()"
| "validate C_ExitFlashing = Inr ()"
| "validate (C_SetPidGains p) = 
     bind_result (for_all_result (\<lambda>(what, v). bind_result (finite_check what v) (\<lambda>_. check (f64_le f64_zero v) what))
       [(''set_pid_gains.kpp'', spg_kpp p),
        (''set_pid_gains.kpv'', spg_kpv p),
        (''set_pid_gains.kiv'', spg_kiv p),
        (''set_pid_gains.kpiq'', spg_kpiq p),
        (''set_pid_gains.kiiq'', spg_kiiq p),
        (''set_pid_gains.kp'', spg_kp p),
        (''set_pid_gains.kd'', spg_kd p)]) (\<lambda>_.
     bind_result (finite_check ''set_pid_gains.ilim_ma'' (spg_ilim_ma p)) (\<lambda>_.
     bind_result (check (f64_lt f64_zero (spg_ilim_ma p)) ''set_pid_gains.ilim_ma'') (\<lambda>_.
     bind_result (finite_check ''set_pid_gains.velocity_limit_ticks_s'' (spg_velocity_limit_ticks_s p)) (\<lambda>_.
     check (f64_lt f64_zero (spg_velocity_limit_ticks_s p)) ''set_pid_gains.velocity_limit_ticks_s''))))"
| "validate (C_SetCanId p) = 
     bind_result (check (unat (sci_node p) \<le> 15) ''set_can_id.node'') (\<lambda>_.
     bind_result (check (unat (sci_new_id p) \<le> 15) ''set_can_id.new_id'') (\<lambda>_.
     check (sci_new_id p \<noteq> sci_node p) ''set_can_id.new_id''))"
| "validate (C_SaveConfig p) = check (unat (svc_node p) \<le> 15) ''save_config.node''"
| "validate (C_SetToolId p) = check (unat (sti_node p) \<le> 15) ''set_tool_id.node''"
| "validate (C_SetStatusRate p) = 
     check (is_finite p \<and> f64_lt f64_zero p) ''set_status_rate.hz''"
| "validate C_Ping = Inr ()"
| "validate C_Status = Inr ()"
| "validate C_Angles = Inr ()"
| "validate (C_Pose p) = Inr ()"
| "validate C_Io = Inr ()"
| "validate C_Speeds = Inr ()"
| "validate C_Tools = Inr ()"
| "validate C_Queue = Inr ()"
| "validate C_Activity = Inr ()"
| "validate C_LoopStats = Inr ()"
| "validate C_Profile = Inr ()"
| "validate C_Reachable = Inr ()"
| "validate C_Error = Inr ()"
| "validate C_TcpSpeed = Inr ()"
| "validate C_TcpOffset = Inr ()"
| "validate C_TcpTransform = Inr ()"
| "validate C_ExecutionSpeed = Inr ()"
| "validate (C_CommandCompletion p) = Inr ()"
| "validate C_ToolStatus = Inr ()"
| "validate C_IsSimulator = Inr ()"
| "validate C_Shapes = Inr ()"
| "validate C_ConfigInfo = Inr ()"
| "validate C_Payload = Inr ()"
| "validate C_ConfigBundle = Inr ()"
| "validate C_BusScan = Inr ()"
| "validate C_StatusRate = Inr ()"
| "validate (C_ServoJ p) = 
     bind_result (finite_all ''servo_j.angles'' (sj_angles p)) (\<lambda>_.
     bind_result (opt_frac ''servo_j.speed'' (sj_speed p)) (\<lambda>_.
     opt_frac ''servo_j.accel'' (sj_accel p)))"
| "validate (C_ServoJPose p) = 
     bind_result (finite_all ''servo_j_pose.pose'' (sjp_pose p)) (\<lambda>_.
     bind_result (opt_frac ''servo_j_pose.speed'' (sjp_speed p)) (\<lambda>_.
     opt_frac ''servo_j_pose.accel'' (sjp_accel p)))"
| "validate (C_ServoL p) = 
     bind_result (finite_all ''servo_l.pose'' (sl_pose p)) (\<lambda>_.
     bind_result (opt_frac ''servo_l.speed'' (sl_speed p)) (\<lambda>_.
     opt_frac ''servo_l.accel'' (sl_accel p)))"
| "validate (C_JogJ p) = 
     bind_result (signed_fracs ''jog_j.speeds'' (jj_speeds p)) (\<lambda>_.
     bind_result (bounded_duration ''jog_j.duration'' (jj_duration p) MAX_JOG_DURATION_S) (\<lambda>_.
     opt_frac ''jog_j.accel'' (jj_accel p)))"
| "validate (C_JogL p) = 
     bind_result (signed_fracs ''jog_l.velocities'' (jl_velocities p)) (\<lambda>_.
     bind_result (bounded_duration ''jog_l.duration'' (jl_duration p) MAX_JOG_DURATION_S) (\<lambda>_.
     opt_frac ''jog_l.accel'' (jl_accel p)))"
| "validate (C_Teleport p) = 
     bind_result (finite_all ''teleport.angles'' (tp_angles p)) (\<lambda>_.
     case tp_tool_positions p of None \<Rightarrow> Inr ()
       | Some tp \<Rightarrow> bind_result (check (length tp \<le> 16) ''teleport.tool_positions'')
           (\<lambda>_. finite_all ''teleport.tool_positions'' tp))"
| "validate C_ResetLoopStats = Inr ()"
| "validate (C_Home p) = Inr ()"
| "validate (C_MoveJ p) = 
     bind_result (finite_all ''move_j.angles'' (mj_angles p)) (\<lambda>_.
     bind_result (motion_timing ''move_j'' (mj_duration p) (mj_speed p) (mj_accel p)) (\<lambda>_.
     blend ''move_j.r'' (mj_blend_radius p)))"
| "validate (C_MoveJPose p) = 
     bind_result (finite_all ''move_j_pose.pose'' (mjp_pose p)) (\<lambda>_.
     bind_result (motion_timing ''move_j_pose'' (mjp_duration p) (mjp_speed p) (mjp_accel p)) (\<lambda>_.
     blend ''move_j_pose.r'' (mjp_blend_radius p)))"
| "validate (C_MoveL p) = 
     bind_result (finite_all ''move_l.pose'' (ml_pose p)) (\<lambda>_.
     bind_result (motion_timing ''move_l'' (ml_duration p) (ml_speed p) (ml_accel p)) (\<lambda>_.
     blend ''move_l.r'' (ml_blend_radius p)))"
| "validate (C_MoveC p) = 
     bind_result (finite_all ''move_c.via'' (mc_via p)) (\<lambda>_.
     bind_result (finite_all ''move_c.end'' (mc_end p)) (\<lambda>_.
     bind_result (motion_timing ''move_c'' (mc_duration p) (mc_speed p) (mc_accel p)) (\<lambda>_.
     blend ''move_c.r'' (mc_blend_radius p))))"
| "validate (C_MoveS p) = 
     bind_result (waypoints ''move_s.waypoints'' (ms_waypoints p)) (\<lambda>_.
     motion_timing ''move_s'' (ms_duration p) (ms_speed p) (ms_accel p))"
| "validate (C_MoveP p) = 
     bind_result (waypoints ''move_p.waypoints'' (mp_waypoints p)) (\<lambda>_.
     motion_timing ''move_p'' (mp_duration p) (mp_speed p) (mp_accel p))"
| "validate (C_SelectTool p) = 
     bind_result (str_len ''select_tool.tool_name'' (slt_tool_name p) 1 64) (\<lambda>_.
     case slt_variant_key p of Some v \<Rightarrow> str_len ''select_tool.variant_key'' v 1 64 | None \<Rightarrow> Inr ())"
| "validate (C_Delay p) = duration_check ''delay.seconds'' (dl_seconds p)"
| "validate (C_Checkpoint p) = str_len ''checkpoint.label'' (cp_label p) 1 128"
| "validate (C_ToolAction p) = 
     bind_result (str_len ''tool_action.tool_key'' (ta_tool_key p) 1 64) (\<lambda>_.
     bind_result (str_len ''tool_action.action'' (ta_action p) 1 64) (\<lambda>_.
     bind_result (check (length (ta_params p) \<le> 16) ''tool_action.params'') (\<lambda>_.
     for_all_result (\<lambda>tp. case tp of PFloat v \<Rightarrow> finite_check ''tool_action.params'' v | _ \<Rightarrow> Inr ()) (ta_params p))))"

end
