(* ===== verification/Command_Codec.thy ===== *)
theory Command_Codec
  imports Command_Validate
begin

text \<open>
  \<open>encode_command\<close> and \<open>decode_command\<close> of \<open>par6-proto/src/command.rs\<close>: the arity table, the
  writers and readers of the structured parameters, and one equation per command for its
  parameters on either side.
\<close>

section \<open>Arity\<close>

primrec arity :: "cmd_type \<Rightarrow> nat" where
  "arity T_Reset = 2"
| "arity T_Estop = 2"
| "arity T_Stop = 3"
| "arity T_WriteIo = 5"
| "arity T_Simulator = 3"
| "arity T_SelectProfile = 3"
| "arity T_ResetState = 2"
| "arity T_ConnectHardware = 3"
| "arity T_SetTcpOffset = 6"
| "arity T_SetShapes = 3"
| "arity T_SetCompletionPolicy = 3"
| "arity T_SetGravityComp = 3"
| "arity T_Pause = 3"
| "arity T_SetPayload = 5"
| "arity T_EnterFlashing = 3"
| "arity T_ExitFlashing = 2"
| "arity T_SetPidGains = 13"
| "arity T_SetCanId = 5"
| "arity T_SaveConfig = 4"
| "arity T_SetStatusRate = 3"
| "arity T_SetExecutionSpeed = 3"
| "arity T_SetToolId = 5"
| "arity T_Ping = 2"
| "arity T_Status = 2"
| "arity T_Angles = 2"
| "arity T_Pose = 3"
| "arity T_Io = 2"
| "arity T_Speeds = 2"
| "arity T_Tools = 2"
| "arity T_Queue = 2"
| "arity T_Activity = 2"
| "arity T_LoopStats = 2"
| "arity T_Profile = 2"
| "arity T_Reachable = 2"
| "arity T_Error = 2"
| "arity T_TcpSpeed = 2"
| "arity T_TcpOffset = 2"
| "arity T_ToolStatus = 2"
| "arity T_IsSimulator = 2"
| "arity T_Shapes = 2"
| "arity T_ConfigInfo = 2"
| "arity T_Payload = 2"
| "arity T_ConfigBundle = 2"
| "arity T_BusScan = 2"
| "arity T_StatusRate = 2"
| "arity T_ExecutionSpeed = 2"
| "arity T_ServoJ = 5"
| "arity T_ServoJPose = 5"
| "arity T_ServoL = 5"
| "arity T_JogJ = 5"
| "arity T_JogL = 6"
| "arity T_Teleport = 4"
| "arity T_ResetLoopStats = 2"
| "arity T_Home = 4"
| "arity T_MoveJ = 9"
| "arity T_MoveJPose = 8"
| "arity T_MoveL = 10"
| "arity T_MoveC = 11"
| "arity T_MoveS = 9"
| "arity T_MoveP = 9"
| "arity T_SelectTool = 5"
| "arity T_Delay = 4"
| "arity T_Checkpoint = 4"
| "arity T_ToolAction = 6"
| "arity T_SetTcpTransform = 9"
| "arity T_TcpTransform = 2"
| "arity T_CommandCompletion = 3"

section \<open>Writers of parameters\<close>

definition w_fixed :: "f64 list \<Rightarrow> bytes" where
  "w_fixed vs = w_array (length vs) @ concat (map w_f64 vs)"

definition w_opt_f64 :: "f64 option \<Rightarrow> bytes" where
  "w_opt_f64 v = w_opt w_f64 v"

definition w_frame :: "frame \<Rightarrow> bytes" where
  "w_frame f = w_uint (frame_val f)"

definition w_waypoints :: "f64 list list \<Rightarrow> bytes" where
  "w_waypoints wps = w_array (length wps) @ concat (map w_fixed wps)"

definition w_physical :: "physical \<Rightarrow> bytes" where
  "w_physical p = w_array 2 @ w_opt_f64 (ph_mass p) @ w_fixed (ph_friction p)"

definition w_attachment :: "attachment \<Rightarrow> bytes" where
  "w_attachment a = w_array 2 @ w_uint (at_epoch a)
     @ w_array (length (at_allowed_contacts a)) @ concat (map w_str (at_allowed_contacts a))"

definition w_shape :: "shape \<Rightarrow> bytes" where
  "w_shape s = w_array 8 @ w_str (sh_kind s) @ w_fixed (sh_params s) @ w_fixed (sh_pose s)
     @ w_bool (sh_collision s) @ w_opt_f64 (sh_margin s) @ w_str (sh_name s)
     @ w_opt w_physical (sh_physics s) @ w_opt w_attachment (sh_attachment s)"

primrec w_tool_param :: "tool_param \<Rightarrow> bytes" where
  "w_tool_param (PBool v) = w_bool v"
| "w_tool_param (PInt v) = w_int v"
| "w_tool_param (PFloat v) = w_f64 v"
| "w_tool_param (PStr v) = w_str v"

text \<open>The match of \<open>encode_command\<close>: what follows the tag and the request id.\<close>

primrec encode_params :: "command \<Rightarrow> bytes" where
  "encode_params C_Reset = []"
| "encode_params C_Estop = []"
| "encode_params (C_SetGravityComp p) = w_bool p"
| "encode_params (C_Pause p) = w_bool p"
| "encode_params (C_SetExecutionSpeed p) = w_f64 p"
| "encode_params (C_Stop p) = w_bool p"
| "encode_params (C_WriteIo p) =
     w_uint (wio_key p) @ w_uint (ucast (wio_port p)) @ w_uint (ucast (wio_value p))"
| "encode_params (C_Simulator p) = w_bool p"
| "encode_params (C_SelectProfile p) = w_str p"
| "encode_params C_ResetState = []"
| "encode_params (C_ConnectHardware p) = w_str p"
| "encode_params (C_SetTcpOffset p) =
     w_uint (sto_key p) @ w_f64 (sto_x p) @ w_f64 (sto_y p) @
     w_f64 (sto_z p)"
| "encode_params (C_SetTcpTransform p) =
     w_uint (stt_key p) @ w_f64 (stt_x p) @ w_f64 (stt_y p) @
     w_f64 (stt_z p) @ w_f64 (stt_roll p) @ w_f64 (stt_pitch p) @
     w_f64 (stt_yaw p)"
| "encode_params (C_SetPayload p) =
     w_f64 (spl_mass p) @ w_fixed (spl_com p) @ w_opt w_fixed (spl_inertia p)"
| "encode_params (C_SetShapes p) = w_array (length p) @ concat (map w_shape p)"
| "encode_params (C_SetCompletionPolicy p) = w_uint (completion_policy_val p)"
| "encode_params (C_EnterFlashing p) = w_uint (flashing_assertion_val p)"
| "encode_params C_ExitFlashing = []"
| "encode_params (C_SetPidGains p) =
     w_uint (ucast (spg_node p)) @ w_f64 (spg_kpp p) @ w_f64 (spg_kpv p) @
     w_f64 (spg_kiv p) @ w_f64 (spg_kpiq p) @ w_f64 (spg_kiiq p) @
     w_f64 (spg_kp p) @ w_f64 (spg_kd p) @ w_f64 (spg_ilim_ma p) @
     w_f64 (spg_velocity_limit_ticks_s p) @ w_uint (ucast (spg_voltage_limit_mv p))"
| "encode_params (C_SetCanId p) =
     w_uint (ucast (sci_node p)) @ w_uint (ucast (sci_new_id p)) @ w_bool (sci_force p)"
| "encode_params (C_SaveConfig p) =
     w_uint (ucast (svc_node p)) @ w_bool (svc_force p)"
| "encode_params (C_SetToolId p) =
     w_uint (ucast (sti_node p)) @ w_uint (ucast (sti_tool_id p)) @ w_bool (sti_force p)"
| "encode_params (C_SetStatusRate p) = w_f64 p"
| "encode_params C_Ping = []"
| "encode_params C_Status = []"
| "encode_params C_Angles = []"
| "encode_params (C_Pose p) = w_opt w_frame p"
| "encode_params C_Io = []"
| "encode_params C_Speeds = []"
| "encode_params C_Tools = []"
| "encode_params C_Queue = []"
| "encode_params C_Activity = []"
| "encode_params C_LoopStats = []"
| "encode_params C_Profile = []"
| "encode_params C_Reachable = []"
| "encode_params C_Error = []"
| "encode_params C_TcpSpeed = []"
| "encode_params C_TcpOffset = []"
| "encode_params C_TcpTransform = []"
| "encode_params C_ExecutionSpeed = []"
| "encode_params (C_CommandCompletion p) = w_uint p"
| "encode_params C_ToolStatus = []"
| "encode_params C_IsSimulator = []"
| "encode_params C_Shapes = []"
| "encode_params C_ConfigInfo = []"
| "encode_params C_Payload = []"
| "encode_params C_ConfigBundle = []"
| "encode_params C_BusScan = []"
| "encode_params C_StatusRate = []"
| "encode_params (C_ServoJ p) =
     w_fixed (sj_angles p) @ w_opt_f64 (sj_speed p) @ w_opt_f64 (sj_accel p)"
| "encode_params (C_ServoJPose p) =
     w_fixed (sjp_pose p) @ w_opt_f64 (sjp_speed p) @ w_opt_f64 (sjp_accel p)"
| "encode_params (C_ServoL p) =
     w_fixed (sl_pose p) @ w_opt_f64 (sl_speed p) @ w_opt_f64 (sl_accel p)"
| "encode_params (C_JogJ p) =
     w_fixed (jj_speeds p) @ w_f64 (jj_duration p) @ w_opt_f64 (jj_accel p)"
| "encode_params (C_JogL p) =
     w_fixed (jl_velocities p) @ w_f64 (jl_duration p) @ w_frame (jl_frame p) @
     w_opt_f64 (jl_accel p)"
| "encode_params (C_Teleport p) =
     w_fixed (tp_angles p) @ w_opt w_fixed (tp_tool_positions p)"
| "encode_params C_ResetLoopStats = []"
| "encode_params (C_Home p) =
     w_uint (hm_key p) @ w_bool (hm_calibrate p)"
| "encode_params (C_MoveJ p) =
     w_uint (mj_key p) @ w_fixed (mj_angles p) @ w_opt_f64 (mj_duration p) @
     w_opt_f64 (mj_speed p) @ w_opt_f64 (mj_accel p) @ w_opt_f64 (mj_blend_radius p) @
     w_bool (mj_rel p)"
| "encode_params (C_MoveJPose p) =
     w_uint (mjp_key p) @ w_fixed (mjp_pose p) @ w_opt_f64 (mjp_duration p) @
     w_opt_f64 (mjp_speed p) @ w_opt_f64 (mjp_accel p) @ w_opt_f64 (mjp_blend_radius p)"
| "encode_params (C_MoveL p) =
     w_uint (ml_key p) @ w_fixed (ml_pose p) @ w_frame (ml_frame p) @
     w_opt_f64 (ml_duration p) @ w_opt_f64 (ml_speed p) @ w_opt_f64 (ml_accel p) @
     w_opt_f64 (ml_blend_radius p) @ w_bool (ml_rel p)"
| "encode_params (C_MoveC p) =
     w_uint (mc_key p) @ w_fixed (mc_via p) @ w_fixed (mc_end p) @
     w_frame (mc_frame p) @ w_opt_f64 (mc_duration p) @ w_opt_f64 (mc_speed p) @
     w_opt_f64 (mc_accel p) @ w_opt_f64 (mc_blend_radius p) @ w_bool (mc_rel p)"
| "encode_params (C_MoveS p) =
     w_uint (ms_key p) @ w_waypoints (ms_waypoints p) @ w_frame (ms_frame p) @
     w_opt_f64 (ms_duration p) @ w_opt_f64 (ms_speed p) @ w_opt_f64 (ms_accel p) @
     w_bool (ms_rel p)"
| "encode_params (C_MoveP p) =
     w_uint (mp_key p) @ w_waypoints (mp_waypoints p) @ w_frame (mp_frame p) @
     w_opt_f64 (mp_duration p) @ w_opt_f64 (mp_speed p) @ w_opt_f64 (mp_accel p) @
     w_bool (mp_rel p)"
| "encode_params (C_SelectTool p) =
     w_uint (slt_key p) @ w_str (slt_tool_name p) @ w_opt w_str (slt_variant_key p)"
| "encode_params (C_Delay p) =
     w_uint (dl_key p) @ w_f64 (dl_seconds p)"
| "encode_params (C_Checkpoint p) =
     w_uint (cp_key p) @ w_str (cp_label p)"
| "encode_params (C_ToolAction p) =
     w_uint (ta_key p) @ w_str (ta_tool_key p) @ w_str (ta_action p) @
     w_array (length (ta_params p)) @ concat (map w_tool_param (ta_params p))"

definition encode_command :: "command \<Rightarrow> u32 \<Rightarrow> decode_error + bytes" where
  "encode_command cmd req_id =
     bind_result (validate cmd) (\<lambda>_.
       let tag = command_tag cmd
       in Inr (w_array (arity tag) @ w_uint (cmd_type_val tag) @ w_uint (ucast req_id) @ encode_params cmd))"

section \<open>Readers of parameters\<close>

text \<open>\<open>u8::try_from\<close> and \<open>u32::try_from\<close> of a wire integer, refused under the field's name.\<close>

definition u8_try_from :: "string \<Rightarrow> u64 \<Rightarrow> u8 parser" where
  "u8_try_from what v = p_lift (if unat v < 256 then Inr (ucast v) else Inl (Validation what))"

definition u32_try_from :: "string \<Rightarrow> u64 \<Rightarrow> u32 parser" where
  "u32_try_from what v = p_lift (if unat v < 2 ^ 32 then Inr (ucast v) else Inl (Validation what))"

definition r_u8 :: "string \<Rightarrow> u8 parser" where
  "r_u8 what = p_bind r_uint (u8_try_from what)"

definition r_u32 :: "string \<Rightarrow> u32 parser" where
  "r_u32 what = p_bind r_uint (u32_try_from what)"

definition r_fixed :: "nat \<Rightarrow> string \<Rightarrow> f64 list parser" where
  "r_fixed k what = p_bind r_array_len (\<lambda>n.
     if n \<noteq> k then p_fail (Arity what k n) else r_times k r_f64)"

definition r_fixed3 :: "string \<Rightarrow> f64 list parser" where
  "r_fixed3 what = r_fixed 3 what"

definition r_fixed6 :: "string \<Rightarrow> f64 list parser" where
  "r_fixed6 what = r_fixed 6 what"

definition r_node_id :: "string \<Rightarrow> u8 parser" where
  "r_node_id what = p_bind r_uint (\<lambda>v.
     if unat v \<le> 15 then p_return (ucast v) else p_fail (Validation what))"

definition r_len :: "string \<Rightarrow> nat \<Rightarrow> nat parser" where
  "r_len what mx = p_bind r_array_len (\<lambda>n.
     p_bind (p_lift (check (n \<le> mx) what)) (\<lambda>_. p_return n))"

text \<open>\<open>let n = r_len(...)?; for _ in 0..n { out.push(p(r)?) }\<close>.\<close>

definition r_list :: "string \<Rightarrow> nat \<Rightarrow> 'a parser \<Rightarrow> 'a list parser" where
  "r_list what mx p = p_bind (r_len what mx) (\<lambda>n. r_times n p)"

definition r_vec_f64 :: "string \<Rightarrow> f64 list parser" where
  "r_vec_f64 what = r_list what MAX_VEC_ELEMS r_f64"

text \<open>\<open>from_wire(v as i64)\<close> of an enum-valued field.\<close>

definition r_enum :: "string \<Rightarrow> (i64 \<Rightarrow> 'a option) \<Rightarrow> 'a parser" where
  "r_enum what from_wire = p_bind r_uint (\<lambda>v.
     case from_wire v of Some x \<Rightarrow> p_return x | None \<Rightarrow> p_fail (InvalidEnum what v))"

definition r_frame :: "frame parser" where
  "r_frame = r_enum ''frame'' frame_from_wire"

definition r_waypoints :: "string \<Rightarrow> f64 list list parser" where
  "r_waypoints what = r_list what MAX_WAYPOINTS (r_fixed6 ''waypoint'')"

definition r_physics :: "physical option parser" where
  "r_physics = r_opt (p_bind r_array_len (\<lambda>n.
     if n \<noteq> 2 then p_fail (Arity ''shape.physics'' 2 n)
     else p_bind r_opt_f64 (\<lambda>m. p_bind (r_fixed3 ''shape.physics.friction'') (\<lambda>f.
       p_return \<lparr>ph_mass = m, ph_friction = f\<rparr>))))"

definition r_attachment :: "attachment parser" where
  "r_attachment = p_bind r_array_len (\<lambda>n.
     if n \<noteq> 2 then p_fail (Arity ''shape.attachment'' 2 n)
     else p_bind r_uint (\<lambda>epoch.
       p_bind (r_list ''shape.attachment.allowed_contacts'' 32 r_str) (\<lambda>cs.
       p_return \<lparr>at_epoch = epoch, at_allowed_contacts = cs\<rparr>)))"

definition r_shape :: "shape parser" where
  "r_shape = p_bind r_array_len (\<lambda>n.
     if \<not> (6 \<le> n \<and> n \<le> 8) then p_fail (Arity ''shape'' 8 n)
     else p_bind r_str (\<lambda>kind. p_bind (r_vec_f64 ''shape.params'') (\<lambda>params.
       p_bind (r_vec_f64 ''shape.pose'') (\<lambda>pose. p_bind r_bool (\<lambda>collision.
       p_bind r_opt_f64 (\<lambda>margin. p_bind r_str (\<lambda>name.
       p_bind (if 7 \<le> n then r_physics else p_return None) (\<lambda>physics.
       p_bind (if n = 8 then r_opt r_attachment else p_return None) (\<lambda>att.
       let s = \<lparr>sh_kind = kind, sh_params = params, sh_pose = pose, sh_collision = collision,
                sh_margin = margin, sh_name = name, sh_physics = physics, sh_attachment = att\<rparr>
       in p_bind (p_lift (shape_result s)) (\<lambda>_. p_return s))))))))))"

definition r_tool_param :: "tool_param parser" where
  "r_tool_param = p_bind peek_marker (\<lambda>m.
     if m = 0xC2 \<or> m = 0xC3 then p_bind r_bool (\<lambda>v. p_return (PBool v))
     else if m = 0xCB then p_bind r_f64 (\<lambda>v. p_return (PFloat v))
     else if in_range m 0xA0 0xBF \<or> in_range m 0xD9 0xDB then p_bind r_str (\<lambda>v. p_return (PStr v))
     else if in_range m 0x00 0x7F \<or> in_range m 0xE0 0xFF \<or> in_range m 0xCC 0xCF \<or> in_range m 0xD0 0xD3
       then p_bind r_int (\<lambda>v. p_return (PInt v))
     else p_fail (Validation ''tool_action.params''))"

text \<open>The match of \<open>decode_command\<close>: the parameters of each tag, in wire order.\<close>

primrec decode_params :: "cmd_type \<Rightarrow> command parser" where
  "decode_params T_Reset = p_return C_Reset"
| "decode_params T_Estop = p_return C_Estop"
| "decode_params T_Stop = p_bind r_bool (\<lambda>v. p_return (C_Stop v))"
| "decode_params T_WriteIo =
     p_bind r_uint (\<lambda>key. p_bind r_uint (\<lambda>port. p_bind r_uint (\<lambda>v.
     p_bind (u8_try_from ''write_io.port'' port) (\<lambda>port'. p_bind (u8_try_from ''write_io.value'' v) (\<lambda>v'.
     p_return (C_WriteIo \<lparr>wio_key = key, wio_port = port', wio_value = v'\<rparr>))))))"
| "decode_params T_Simulator = p_bind r_bool (\<lambda>v. p_return (C_Simulator v))"
| "decode_params T_SelectProfile = p_bind r_str (\<lambda>v. p_return (C_SelectProfile v))"
| "decode_params T_ResetState = p_return C_ResetState"
| "decode_params T_ConnectHardware = p_bind r_str (\<lambda>v. p_return (C_ConnectHardware v))"
| "decode_params T_SetTcpOffset =
     p_bind r_uint (\<lambda>key. p_bind r_f64 (\<lambda>x. p_bind r_f64 (\<lambda>y.
     p_bind r_f64 (\<lambda>z.
     p_return (C_SetTcpOffset \<lparr>sto_key = key, sto_x = x, sto_y = y, sto_z = z\<rparr>)))))"
| "decode_params T_SetShapes =
     p_bind (r_list ''set_shapes.shapes'' MAX_SHAPES r_shape) (\<lambda>v. p_return (C_SetShapes v))"
| "decode_params T_SetCompletionPolicy =
     p_bind (r_enum ''completion policy'' completion_policy_from_wire) (\<lambda>v. p_return (C_SetCompletionPolicy v))"
| "decode_params T_SetGravityComp = p_bind r_bool (\<lambda>v. p_return (C_SetGravityComp v))"
| "decode_params T_Pause = p_bind r_bool (\<lambda>v. p_return (C_Pause v))"
| "decode_params T_SetPayload =
     p_bind r_f64 (\<lambda>mass. p_bind (r_fixed3 ''set_payload.com'') (\<lambda>com. p_bind (r_opt (r_fixed6 ''set_payload.inertia'')) (\<lambda>inertia.
     p_return (C_SetPayload \<lparr>spl_mass = mass, spl_com = com, spl_inertia = inertia\<rparr>))))"
| "decode_params T_EnterFlashing =
     p_bind (r_enum ''flashing assertion'' flashing_assertion_from_wire) (\<lambda>v. p_return (C_EnterFlashing v))"
| "decode_params T_ExitFlashing = p_return C_ExitFlashing"
| "decode_params T_SetPidGains =
     p_bind (r_u8 ''set_pid_gains.node'') (\<lambda>node. p_bind r_f64 (\<lambda>kpp. p_bind r_f64 (\<lambda>kpv.
     p_bind r_f64 (\<lambda>kiv. p_bind r_f64 (\<lambda>kpiq. p_bind r_f64 (\<lambda>kiiq.
     p_bind r_f64 (\<lambda>kp. p_bind r_f64 (\<lambda>kd. p_bind r_f64 (\<lambda>ilim_ma.
     p_bind r_f64 (\<lambda>velocity_limit_ticks_s. p_bind (r_u32 ''set_pid_gains.voltage_limit_mv'') (\<lambda>voltage_limit_mv.
     p_return (C_SetPidGains \<lparr>spg_node = node, spg_kpp = kpp, spg_kpv = kpv, spg_kiv = kiv,
       spg_kpiq = kpiq, spg_kiiq = kiiq, spg_kp = kp, spg_kd = kd,
       spg_ilim_ma = ilim_ma, spg_velocity_limit_ticks_s = velocity_limit_ticks_s, spg_voltage_limit_mv = voltage_limit_mv\<rparr>))))))))))))"
| "decode_params T_SetCanId =
     p_bind (r_node_id ''set_can_id.node'') (\<lambda>node. p_bind (r_node_id ''set_can_id.new_id'') (\<lambda>new_id. p_bind r_bool (\<lambda>force.
     p_return (C_SetCanId \<lparr>sci_node = node, sci_new_id = new_id, sci_force = force\<rparr>))))"
| "decode_params T_SaveConfig =
     p_bind (r_node_id ''save_config.node'') (\<lambda>node. p_bind r_bool (\<lambda>force.
     p_return (C_SaveConfig \<lparr>svc_node = node, svc_force = force\<rparr>)))"
| "decode_params T_SetStatusRate = p_bind r_f64 (\<lambda>v. p_return (C_SetStatusRate v))"
| "decode_params T_SetExecutionSpeed = p_bind r_f64 (\<lambda>v. p_return (C_SetExecutionSpeed v))"
| "decode_params T_SetToolId =
     p_bind (r_node_id ''set_tool_id.node'') (\<lambda>node. p_bind (r_u8 ''set_tool_id.tool_id'') (\<lambda>tool_id. p_bind r_bool (\<lambda>force.
     p_return (C_SetToolId \<lparr>sti_node = node, sti_tool_id = tool_id, sti_force = force\<rparr>))))"
| "decode_params T_Ping = p_return C_Ping"
| "decode_params T_Status = p_return C_Status"
| "decode_params T_Angles = p_return C_Angles"
| "decode_params T_Pose = p_bind (r_opt r_frame) (\<lambda>v. p_return (C_Pose v))"
| "decode_params T_Io = p_return C_Io"
| "decode_params T_Speeds = p_return C_Speeds"
| "decode_params T_Tools = p_return C_Tools"
| "decode_params T_Queue = p_return C_Queue"
| "decode_params T_Activity = p_return C_Activity"
| "decode_params T_LoopStats = p_return C_LoopStats"
| "decode_params T_Profile = p_return C_Profile"
| "decode_params T_Reachable = p_return C_Reachable"
| "decode_params T_Error = p_return C_Error"
| "decode_params T_TcpSpeed = p_return C_TcpSpeed"
| "decode_params T_TcpOffset = p_return C_TcpOffset"
| "decode_params T_ToolStatus = p_return C_ToolStatus"
| "decode_params T_IsSimulator = p_return C_IsSimulator"
| "decode_params T_Shapes = p_return C_Shapes"
| "decode_params T_ConfigInfo = p_return C_ConfigInfo"
| "decode_params T_Payload = p_return C_Payload"
| "decode_params T_ConfigBundle = p_return C_ConfigBundle"
| "decode_params T_BusScan = p_return C_BusScan"
| "decode_params T_StatusRate = p_return C_StatusRate"
| "decode_params T_ExecutionSpeed = p_return C_ExecutionSpeed"
| "decode_params T_ServoJ =
     p_bind (r_fixed6 ''servo_j.angles'') (\<lambda>angles. p_bind r_opt_f64 (\<lambda>speed. p_bind r_opt_f64 (\<lambda>accel.
     p_return (C_ServoJ \<lparr>sj_angles = angles, sj_speed = speed, sj_accel = accel\<rparr>))))"
| "decode_params T_ServoJPose =
     p_bind (r_fixed6 ''servo_j_pose.pose'') (\<lambda>pose. p_bind r_opt_f64 (\<lambda>speed. p_bind r_opt_f64 (\<lambda>accel.
     p_return (C_ServoJPose \<lparr>sjp_pose = pose, sjp_speed = speed, sjp_accel = accel\<rparr>))))"
| "decode_params T_ServoL =
     p_bind (r_fixed6 ''servo_l.pose'') (\<lambda>pose. p_bind r_opt_f64 (\<lambda>speed. p_bind r_opt_f64 (\<lambda>accel.
     p_return (C_ServoL \<lparr>sl_pose = pose, sl_speed = speed, sl_accel = accel\<rparr>))))"
| "decode_params T_JogJ =
     p_bind (r_fixed6 ''jog_j.speeds'') (\<lambda>speeds. p_bind r_f64 (\<lambda>duration. p_bind r_opt_f64 (\<lambda>accel.
     p_return (C_JogJ \<lparr>jj_speeds = speeds, jj_duration = duration, jj_accel = accel\<rparr>))))"
| "decode_params T_JogL =
     p_bind (r_fixed6 ''jog_l.velocities'') (\<lambda>velocities. p_bind r_f64 (\<lambda>duration. p_bind r_frame (\<lambda>frame.
     p_bind r_opt_f64 (\<lambda>accel.
     p_return (C_JogL \<lparr>jl_velocities = velocities, jl_duration = duration, jl_frame = frame, jl_accel = accel\<rparr>)))))"
| "decode_params T_Teleport =
     p_bind (r_fixed6 ''teleport.angles'') (\<lambda>angles. p_bind (r_opt (r_vec_f64 ''teleport.tool_positions'')) (\<lambda>tool_positions.
     p_return (C_Teleport \<lparr>tp_angles = angles, tp_tool_positions = tool_positions\<rparr>)))"
| "decode_params T_ResetLoopStats = p_return C_ResetLoopStats"
| "decode_params T_Home =
     p_bind r_uint (\<lambda>key. p_bind r_bool (\<lambda>calibrate.
     p_return (C_Home \<lparr>hm_key = key, hm_calibrate = calibrate\<rparr>)))"
| "decode_params T_MoveJ =
     p_bind r_uint (\<lambda>key. p_bind (r_fixed6 ''move_j.angles'') (\<lambda>angles. p_bind r_opt_f64 (\<lambda>duration.
     p_bind r_opt_f64 (\<lambda>speed. p_bind r_opt_f64 (\<lambda>accel. p_bind r_opt_f64 (\<lambda>blend_radius.
     p_bind r_bool (\<lambda>rel.
     p_return (C_MoveJ \<lparr>mj_key = key, mj_angles = angles, mj_duration = duration, mj_speed = speed,
       mj_accel = accel, mj_blend_radius = blend_radius, mj_rel = rel\<rparr>))))))))"
| "decode_params T_MoveJPose =
     p_bind r_uint (\<lambda>key. p_bind (r_fixed6 ''move_j_pose.pose'') (\<lambda>pose. p_bind r_opt_f64 (\<lambda>duration.
     p_bind r_opt_f64 (\<lambda>speed. p_bind r_opt_f64 (\<lambda>accel. p_bind r_opt_f64 (\<lambda>blend_radius.
     p_return (C_MoveJPose \<lparr>mjp_key = key, mjp_pose = pose, mjp_duration = duration, mjp_speed = speed,
       mjp_accel = accel, mjp_blend_radius = blend_radius\<rparr>)))))))"
| "decode_params T_MoveL =
     p_bind r_uint (\<lambda>key. p_bind (r_fixed6 ''move_l.pose'') (\<lambda>pose. p_bind r_frame (\<lambda>frame.
     p_bind r_opt_f64 (\<lambda>duration. p_bind r_opt_f64 (\<lambda>speed. p_bind r_opt_f64 (\<lambda>accel.
     p_bind r_opt_f64 (\<lambda>blend_radius. p_bind r_bool (\<lambda>rel.
     p_return (C_MoveL \<lparr>ml_key = key, ml_pose = pose, ml_frame = frame, ml_duration = duration,
       ml_speed = speed, ml_accel = accel, ml_blend_radius = blend_radius, ml_rel = rel\<rparr>)))))))))"
| "decode_params T_MoveC =
     p_bind r_uint (\<lambda>key. p_bind (r_fixed6 ''move_c.via'') (\<lambda>via. p_bind (r_fixed6 ''move_c.end'') (\<lambda>end.
     p_bind r_frame (\<lambda>frame. p_bind r_opt_f64 (\<lambda>duration. p_bind r_opt_f64 (\<lambda>speed.
     p_bind r_opt_f64 (\<lambda>accel. p_bind r_opt_f64 (\<lambda>blend_radius. p_bind r_bool (\<lambda>rel.
     p_return (C_MoveC \<lparr>mc_key = key, mc_via = via, mc_end = end, mc_frame = frame,
       mc_duration = duration, mc_speed = speed, mc_accel = accel, mc_blend_radius = blend_radius,
       mc_rel = rel\<rparr>))))))))))"
| "decode_params T_MoveS =
     p_bind r_uint (\<lambda>key. p_bind (r_waypoints ''move_s.waypoints'') (\<lambda>waypoints. p_bind r_frame (\<lambda>frame.
     p_bind r_opt_f64 (\<lambda>duration. p_bind r_opt_f64 (\<lambda>speed. p_bind r_opt_f64 (\<lambda>accel.
     p_bind r_bool (\<lambda>rel.
     p_return (C_MoveS \<lparr>ms_key = key, ms_waypoints = waypoints, ms_frame = frame, ms_duration = duration,
       ms_speed = speed, ms_accel = accel, ms_rel = rel\<rparr>))))))))"
| "decode_params T_MoveP =
     p_bind r_uint (\<lambda>key. p_bind (r_waypoints ''move_p.waypoints'') (\<lambda>waypoints. p_bind r_frame (\<lambda>frame.
     p_bind r_opt_f64 (\<lambda>duration. p_bind r_opt_f64 (\<lambda>speed. p_bind r_opt_f64 (\<lambda>accel.
     p_bind r_bool (\<lambda>rel.
     p_return (C_MoveP \<lparr>mp_key = key, mp_waypoints = waypoints, mp_frame = frame, mp_duration = duration,
       mp_speed = speed, mp_accel = accel, mp_rel = rel\<rparr>))))))))"
| "decode_params T_SelectTool =
     p_bind r_uint (\<lambda>key. p_bind r_str (\<lambda>tool_name. p_bind (r_opt r_str) (\<lambda>variant_key.
     p_return (C_SelectTool \<lparr>slt_key = key, slt_tool_name = tool_name, slt_variant_key = variant_key\<rparr>))))"
| "decode_params T_Delay =
     p_bind r_uint (\<lambda>key. p_bind r_f64 (\<lambda>seconds.
     p_return (C_Delay \<lparr>dl_key = key, dl_seconds = seconds\<rparr>)))"
| "decode_params T_Checkpoint =
     p_bind r_uint (\<lambda>key. p_bind r_str (\<lambda>label.
     p_return (C_Checkpoint \<lparr>cp_key = key, cp_label = label\<rparr>)))"
| "decode_params T_ToolAction =
     p_bind r_uint (\<lambda>key. p_bind r_str (\<lambda>tool_key. p_bind r_str (\<lambda>action.
     p_bind (r_list ''tool_action.params'' MAX_VEC_ELEMS r_tool_param) (\<lambda>params.
     p_return (C_ToolAction \<lparr>ta_key = key, ta_tool_key = tool_key, ta_action = action, ta_params = params\<rparr>)))))"
| "decode_params T_SetTcpTransform =
     p_bind r_uint (\<lambda>key. p_bind r_f64 (\<lambda>x. p_bind r_f64 (\<lambda>y.
     p_bind r_f64 (\<lambda>z. p_bind r_f64 (\<lambda>roll. p_bind r_f64 (\<lambda>pitch.
     p_bind r_f64 (\<lambda>yaw.
     p_return (C_SetTcpTransform \<lparr>stt_key = key, stt_x = x, stt_y = y, stt_z = z,
       stt_roll = roll, stt_pitch = pitch, stt_yaw = yaw\<rparr>))))))))"
| "decode_params T_TcpTransform = p_return C_TcpTransform"
| "decode_params T_CommandCompletion = p_bind r_uint (\<lambda>v. p_return (C_CommandCompletion v))"

definition decode_command :: "bytes \<Rightarrow> decode_error + u32 \<times> command" where
  "decode_command bs =
     bind_result (r_array_len (new_reader bs)) (\<lambda>(n, r).
       if n < 2 then Inl (Arity ''command envelope'' 2 n)
       else bind_result (r_int r) (\<lambda>(raw_tag, r).
         case cmd_type_from_wire raw_tag of
           None \<Rightarrow> Inl (UnknownTag raw_tag)
         | Some tag \<Rightarrow>
             if n \<noteq> arity tag then Inl (Arity ''command'' (arity tag) n)
             else bind_result (p_bind r_uint (u32_try_from ''req_id'') r) (\<lambda>(req_id, r).
               bind_result (decode_params tag r) (\<lambda>(cmd, r).
               bind_result (r_finish r) (\<lambda>_.
               bind_result (validate cmd) (\<lambda>_. Inr (req_id, cmd)))))))"

end
