(* ===== verification/Command_Roundtrip.thy ===== *)
theory Command_Roundtrip
  imports Command_Codec
begin

text \<open>
  Correctness of the command codec: every writer and reader of a parameter satisfies the codec
  interface, so the decoder recovers exactly the command that was encoded; and whatever the
  decoder accepts has passed the range checks, read here as facts about numbers.
\<close>

section \<open>What the Rust types enforce\<close>

primrec tool_param_wf :: "tool_param \<Rightarrow> bool" where
  "tool_param_wf (PBool b) \<longleftrightarrow> True"
| "tool_param_wf (PInt i) \<longleftrightarrow> True"
| "tool_param_wf (PFloat f) \<longleftrightarrow> True"
| "tool_param_wf (PStr s) \<longleftrightarrow> str_ok s"

definition shape_wf :: "shape \<Rightarrow> bool" where
  "shape_wf s \<longleftrightarrow> str_ok (sh_kind s) \<and> str_ok (sh_name s)
     \<and> pred_option (\<lambda>p. length (ph_friction p) = 3) (sh_physics s)
     \<and> pred_option (\<lambda>a. list_all str_ok (at_allowed_contacts a)) (sh_attachment s)"

primrec command_wf :: "command \<Rightarrow> bool" where
  "command_wf C_Reset \<longleftrightarrow> True"
| "command_wf C_Estop \<longleftrightarrow> True"
| "command_wf (C_SetGravityComp p) \<longleftrightarrow> True"
| "command_wf (C_Pause p) \<longleftrightarrow> True"
| "command_wf (C_SetExecutionSpeed p) \<longleftrightarrow> True"
| "command_wf (C_Stop p) \<longleftrightarrow> True"
| "command_wf (C_WriteIo p) \<longleftrightarrow> True"
| "command_wf (C_Simulator p) \<longleftrightarrow> True"
| "command_wf (C_SelectProfile p) \<longleftrightarrow> str_ok p"
| "command_wf C_ResetState \<longleftrightarrow> True"
| "command_wf (C_ConnectHardware p) \<longleftrightarrow> str_ok p"
| "command_wf (C_SetTcpOffset p) \<longleftrightarrow> True"
| "command_wf (C_SetTcpTransform p) \<longleftrightarrow> True"
| "command_wf (C_SetPayload p) \<longleftrightarrow> length (spl_com p) = 3 \<and> pred_option (\<lambda>i. length i = 6) (spl_inertia p)"
| "command_wf (C_SetShapes p) \<longleftrightarrow> list_all shape_wf p"
| "command_wf (C_SetCompletionPolicy p) \<longleftrightarrow> True"
| "command_wf (C_EnterFlashing p) \<longleftrightarrow> True"
| "command_wf C_ExitFlashing \<longleftrightarrow> True"
| "command_wf (C_SetPidGains p) \<longleftrightarrow> True"
| "command_wf (C_SetCanId p) \<longleftrightarrow> True"
| "command_wf (C_SaveConfig p) \<longleftrightarrow> True"
| "command_wf (C_SetToolId p) \<longleftrightarrow> True"
| "command_wf (C_SetStatusRate p) \<longleftrightarrow> True"
| "command_wf C_Ping \<longleftrightarrow> True"
| "command_wf C_Status \<longleftrightarrow> True"
| "command_wf C_Angles \<longleftrightarrow> True"
| "command_wf (C_Pose p) \<longleftrightarrow> True"
| "command_wf C_Io \<longleftrightarrow> True"
| "command_wf C_Speeds \<longleftrightarrow> True"
| "command_wf C_Tools \<longleftrightarrow> True"
| "command_wf C_Queue \<longleftrightarrow> True"
| "command_wf C_Activity \<longleftrightarrow> True"
| "command_wf C_LoopStats \<longleftrightarrow> True"
| "command_wf C_Profile \<longleftrightarrow> True"
| "command_wf C_Reachable \<longleftrightarrow> True"
| "command_wf C_Error \<longleftrightarrow> True"
| "command_wf C_TcpSpeed \<longleftrightarrow> True"
| "command_wf C_TcpOffset \<longleftrightarrow> True"
| "command_wf C_TcpTransform \<longleftrightarrow> True"
| "command_wf C_ExecutionSpeed \<longleftrightarrow> True"
| "command_wf (C_CommandCompletion p) \<longleftrightarrow> True"
| "command_wf C_ToolStatus \<longleftrightarrow> True"
| "command_wf C_IsSimulator \<longleftrightarrow> True"
| "command_wf C_Shapes \<longleftrightarrow> True"
| "command_wf C_ConfigInfo \<longleftrightarrow> True"
| "command_wf C_Payload \<longleftrightarrow> True"
| "command_wf C_ConfigBundle \<longleftrightarrow> True"
| "command_wf C_BusScan \<longleftrightarrow> True"
| "command_wf C_StatusRate \<longleftrightarrow> True"
| "command_wf (C_ServoJ p) \<longleftrightarrow> length (sj_angles p) = 6"
| "command_wf (C_ServoJPose p) \<longleftrightarrow> length (sjp_pose p) = 6"
| "command_wf (C_ServoL p) \<longleftrightarrow> length (sl_pose p) = 6"
| "command_wf (C_JogJ p) \<longleftrightarrow> length (jj_speeds p) = 6"
| "command_wf (C_JogL p) \<longleftrightarrow> length (jl_velocities p) = 6"
| "command_wf (C_Teleport p) \<longleftrightarrow> length (tp_angles p) = 6"
| "command_wf C_ResetLoopStats \<longleftrightarrow> True"
| "command_wf (C_Home p) \<longleftrightarrow> True"
| "command_wf (C_MoveJ p) \<longleftrightarrow> length (mj_angles p) = 6"
| "command_wf (C_MoveJPose p) \<longleftrightarrow> length (mjp_pose p) = 6"
| "command_wf (C_MoveL p) \<longleftrightarrow> length (ml_pose p) = 6"
| "command_wf (C_MoveC p) \<longleftrightarrow> length (mc_via p) = 6 \<and> length (mc_end p) = 6"
| "command_wf (C_MoveS p) \<longleftrightarrow> list_all (\<lambda>w. length w = 6) (ms_waypoints p)"
| "command_wf (C_MoveP p) \<longleftrightarrow> list_all (\<lambda>w. length w = 6) (mp_waypoints p)"
| "command_wf (C_SelectTool p) \<longleftrightarrow> str_ok (slt_tool_name p) \<and> pred_option str_ok (slt_variant_key p)"
| "command_wf (C_Delay p) \<longleftrightarrow> True"
| "command_wf (C_Checkpoint p) \<longleftrightarrow> str_ok (cp_label p)"
| "command_wf (C_ToolAction p) \<longleftrightarrow> str_ok (ta_tool_key p) \<and> str_ok (ta_action p) \<and> list_all tool_param_wf (ta_params p)"

text \<open>
  The one bound of the decoder that \<open>validate\<close> does not check: a shape's parameter vector.
\<close>

primrec shape_params_fit :: "command \<Rightarrow> bool" where
  "shape_params_fit C_Reset \<longleftrightarrow> True"
| "shape_params_fit C_Estop \<longleftrightarrow> True"
| "shape_params_fit (C_SetGravityComp p) \<longleftrightarrow> True"
| "shape_params_fit (C_Pause p) \<longleftrightarrow> True"
| "shape_params_fit (C_SetExecutionSpeed p) \<longleftrightarrow> True"
| "shape_params_fit (C_Stop p) \<longleftrightarrow> True"
| "shape_params_fit (C_WriteIo p) \<longleftrightarrow> True"
| "shape_params_fit (C_Simulator p) \<longleftrightarrow> True"
| "shape_params_fit (C_SelectProfile p) \<longleftrightarrow> True"
| "shape_params_fit C_ResetState \<longleftrightarrow> True"
| "shape_params_fit (C_ConnectHardware p) \<longleftrightarrow> True"
| "shape_params_fit (C_SetTcpOffset p) \<longleftrightarrow> True"
| "shape_params_fit (C_SetTcpTransform p) \<longleftrightarrow> True"
| "shape_params_fit (C_SetPayload p) \<longleftrightarrow> True"
| "shape_params_fit (C_SetShapes p) \<longleftrightarrow> list_all (\<lambda>s. length (sh_params s) \<le> MAX_VEC_ELEMS) p"
| "shape_params_fit (C_SetCompletionPolicy p) \<longleftrightarrow> True"
| "shape_params_fit (C_EnterFlashing p) \<longleftrightarrow> True"
| "shape_params_fit C_ExitFlashing \<longleftrightarrow> True"
| "shape_params_fit (C_SetPidGains p) \<longleftrightarrow> True"
| "shape_params_fit (C_SetCanId p) \<longleftrightarrow> True"
| "shape_params_fit (C_SaveConfig p) \<longleftrightarrow> True"
| "shape_params_fit (C_SetToolId p) \<longleftrightarrow> True"
| "shape_params_fit (C_SetStatusRate p) \<longleftrightarrow> True"
| "shape_params_fit C_Ping \<longleftrightarrow> True"
| "shape_params_fit C_Status \<longleftrightarrow> True"
| "shape_params_fit C_Angles \<longleftrightarrow> True"
| "shape_params_fit (C_Pose p) \<longleftrightarrow> True"
| "shape_params_fit C_Io \<longleftrightarrow> True"
| "shape_params_fit C_Speeds \<longleftrightarrow> True"
| "shape_params_fit C_Tools \<longleftrightarrow> True"
| "shape_params_fit C_Queue \<longleftrightarrow> True"
| "shape_params_fit C_Activity \<longleftrightarrow> True"
| "shape_params_fit C_LoopStats \<longleftrightarrow> True"
| "shape_params_fit C_Profile \<longleftrightarrow> True"
| "shape_params_fit C_Reachable \<longleftrightarrow> True"
| "shape_params_fit C_Error \<longleftrightarrow> True"
| "shape_params_fit C_TcpSpeed \<longleftrightarrow> True"
| "shape_params_fit C_TcpOffset \<longleftrightarrow> True"
| "shape_params_fit C_TcpTransform \<longleftrightarrow> True"
| "shape_params_fit C_ExecutionSpeed \<longleftrightarrow> True"
| "shape_params_fit (C_CommandCompletion p) \<longleftrightarrow> True"
| "shape_params_fit C_ToolStatus \<longleftrightarrow> True"
| "shape_params_fit C_IsSimulator \<longleftrightarrow> True"
| "shape_params_fit C_Shapes \<longleftrightarrow> True"
| "shape_params_fit C_ConfigInfo \<longleftrightarrow> True"
| "shape_params_fit C_Payload \<longleftrightarrow> True"
| "shape_params_fit C_ConfigBundle \<longleftrightarrow> True"
| "shape_params_fit C_BusScan \<longleftrightarrow> True"
| "shape_params_fit C_StatusRate \<longleftrightarrow> True"
| "shape_params_fit (C_ServoJ p) \<longleftrightarrow> True"
| "shape_params_fit (C_ServoJPose p) \<longleftrightarrow> True"
| "shape_params_fit (C_ServoL p) \<longleftrightarrow> True"
| "shape_params_fit (C_JogJ p) \<longleftrightarrow> True"
| "shape_params_fit (C_JogL p) \<longleftrightarrow> True"
| "shape_params_fit (C_Teleport p) \<longleftrightarrow> True"
| "shape_params_fit C_ResetLoopStats \<longleftrightarrow> True"
| "shape_params_fit (C_Home p) \<longleftrightarrow> True"
| "shape_params_fit (C_MoveJ p) \<longleftrightarrow> True"
| "shape_params_fit (C_MoveJPose p) \<longleftrightarrow> True"
| "shape_params_fit (C_MoveL p) \<longleftrightarrow> True"
| "shape_params_fit (C_MoveC p) \<longleftrightarrow> True"
| "shape_params_fit (C_MoveS p) \<longleftrightarrow> True"
| "shape_params_fit (C_MoveP p) \<longleftrightarrow> True"
| "shape_params_fit (C_SelectTool p) \<longleftrightarrow> True"
| "shape_params_fit (C_Delay p) \<longleftrightarrow> True"
| "shape_params_fit (C_Checkpoint p) \<longleftrightarrow> True"
| "shape_params_fit (C_ToolAction p) \<longleftrightarrow> True"

section \<open>Validation as conditions\<close>

lemma check_Inr [validation_simps]: "check ok what = Inr u \<longleftrightarrow> ok"
  by (simp add: check_def)

lemma finite_check_Inr [validation_simps]: "finite_check what v = Inr u \<longleftrightarrow> is_finite v"
  by (simp add: finite_check_def check_Inr)

lemma finite_all_Inr [validation_simps]:
  "finite_all what vs = Inr u \<longleftrightarrow> (\<forall>v\<in>set vs. is_finite v)"
  by (simp add: finite_all_def validation_simps)

lemma str_len_Inr [validation_simps]:
  "str_len what s lo hi = Inr u \<longleftrightarrow> lo \<le> length s \<and> length s \<le> hi"
  by (simp add: str_len_def check_Inr)

lemma waypoints_Inr [validation_simps]:
  "waypoints what wps = Inr u \<longleftrightarrow> 2 \<le> length wps \<and> length wps \<le> MAX_WAYPOINTS
     \<and> (\<forall>w\<in>set wps. \<forall>v\<in>set w. is_finite v)"
  by (auto simp: waypoints_def bind_result_eq_Inr validation_simps)

lemma shape_result_Inr [validation_simps]: "shape_result s = Inr u \<longleftrightarrow> validate_shape s = Inr ()"
  by (simp add: shape_result_def split: sum.splits)

lemma validate_shape_pose: "validate_shape s = Inr () \<Longrightarrow> length (sh_pose s) = 6"
  by (simp add: validate_shape_def split: if_splits)

lemma validate_shape_contacts:
  "validate_shape s = Inr () \<Longrightarrow> sh_attachment s = Some a \<Longrightarrow> length (at_allowed_contacts a) \<le> 32"
  by (auto simp: validate_shape_def validate_attachment_def bind_result_eq_Inr Let_def split: if_splits)

section \<open>Parameter codecs\<close>

lemmas primitive_rd_wr [codec_simps] =
  array_codec.rd_wr uint_codec.rd_wr int_codec.rd_wr f64_codec.rd_wr bool_codec.rd_wr
  str_codec.rd_wr bin_codec.rd_wr

lemma r_opt_f64_at [codec_simps]:
  "r_opt_f64 (reader_at pre (w_opt_f64 v @ post)) = Inr (v, reader_at (pre @ w_opt_f64 v) post)"
  unfolding r_opt_f64_def w_opt_f64_def
  by (rule f64_codec.rd_opt) (cases v; simp)

lemma unat_ucast_up_u32: "unat (ucast (w :: u32) :: u64) = unat w"
  by transfer (simp add: take_bit_eq_mod)

lemma unat_ucast_down_u32: "unat (ucast (v :: u64) :: u32) = unat v mod 2 ^ 32"
  by (simp add: unsigned_ucast_eq unsigned_take_bit_eq take_bit_eq_mod)

lemma ucast_u32_roundtrip: "(ucast (ucast (w :: u32) :: u64) :: u32) = w"
  using unat_u32_bound [of w] by (simp add: word_unat_eq_iff unat_ucast_up_u32 unat_ucast_down_u32)

lemma ucast_u8_u64_roundtrip: "(ucast (ucast (w :: u8) :: u64) :: u8) = w"
  using u8_cases_bound [of w] by (simp add: word_unat_eq_iff unat_ucast_down_u8 unat_ucast_up_u8)

lemma r_u8_at [codec_simps]:
  "r_u8 what (reader_at pre (w_uint (ucast v) @ post)) =
     Inr (v, reader_at (pre @ w_uint (ucast v)) post)"
  using u8_cases_bound [of v]
  by (simp add: r_u8_def p_bind_def codec_simps u8_try_from_def unat_ucast_up_u8 ucast_u8_u64_roundtrip)

lemma u8_try_from_at [codec_simps]: "u8_try_from what (ucast v) r = Inr (v, r)"
  using u8_cases_bound [of v]
  by (simp add: u8_try_from_def unat_ucast_up_u8 ucast_u8_u64_roundtrip)

lemma u32_try_from_at [codec_simps]: "u32_try_from what (ucast v) r = Inr (v, r)"
  using unat_u32_bound [of v]
  by (simp add: u32_try_from_def unat_ucast_up_u32 ucast_u32_roundtrip)

lemma r_u32_at [codec_simps]:
  "r_u32 what (reader_at pre (w_uint (ucast v) @ post)) =
     Inr (v, reader_at (pre @ w_uint (ucast v)) post)"
  by (simp add: r_u32_def p_bind_def codec_simps)

lemma r_node_id_at [codec_simps]:
  "unat v \<le> 15 \<Longrightarrow> r_node_id what (reader_at pre (w_uint (ucast v) @ post)) =
     Inr (v, reader_at (pre @ w_uint (ucast v)) post)"
  by (simp add: r_node_id_def p_bind_def codec_simps unat_ucast_up_u8 ucast_u8_u64_roundtrip)

interpretation fixed_codec: nonnil_codec w_fixed "r_fixed k what" "\<lambda>vs. length vs = k \<and> k < 2 ^ 32"
  for k what
proof
  fix vs :: "f64 list" and pre post :: bytes
  assume "length vs = k \<and> k < 2 ^ 32"
  then show "r_fixed k what (reader_at pre (w_fixed vs @ post)) = Inr (vs, reader_at (pre @ w_fixed vs) post)"
    by (auto simp: w_fixed_def r_fixed_def p_bind_def codec_simps f64_codec.rd_times list_all_iff)
next
  fix vs :: "f64 list"
  assume "length vs = k \<and> k < 2 ^ 32"
  then show "\<exists>b bs. w_fixed vs = b # bs \<and> b \<noteq> 0xC0"
    using array_codec.wr_head [of k] by (auto simp: w_fixed_def)
qed

text \<open>A bounded list: its header within the reader's limit, its elements by their own codec.\<close>

context wire_codec
begin

lemma rd_list:
  "list_all ok vs \<Longrightarrow> length vs \<le> mx \<Longrightarrow> mx < 2 ^ 32 \<Longrightarrow>
   r_list what mx rd (reader_at pre (w_array (length vs) @ concat (map wr vs) @ post)) =
     Inr (vs, reader_at (pre @ w_array (length vs) @ concat (map wr vs)) post)"
  by (simp add: r_list_def r_len_def p_bind_def check_def array_codec.rd_wr rd_times)

end

lemma r_fixed6_at [codec_simps]:
  "length vs = 6 \<Longrightarrow> r_fixed6 what (reader_at pre (w_fixed vs @ post)) = Inr (vs, reader_at (pre @ w_fixed vs) post)"
  by (simp add: r_fixed6_def fixed_codec.rd_wr)

lemma r_fixed3_at [codec_simps]:
  "length vs = 3 \<Longrightarrow> r_fixed3 what (reader_at pre (w_fixed vs @ post)) = Inr (vs, reader_at (pre @ w_fixed vs) post)"
  by (simp add: r_fixed3_def fixed_codec.rd_wr)

lemma r_opt_fixed6_at [codec_simps]:
  "pred_option (\<lambda>i. length i = 6) v \<Longrightarrow>
   r_opt (r_fixed6 what) (reader_at pre (w_opt w_fixed v @ post)) = Inr (v, reader_at (pre @ w_opt w_fixed v) post)"
  unfolding r_fixed6_def by (rule fixed_codec.rd_opt) (cases v; simp)

interpretation vec_codec: nonnil_codec w_fixed "r_vec_f64 what" "\<lambda>vs. length vs \<le> MAX_VEC_ELEMS"
  for what
proof
  fix vs :: "f64 list" and pre post :: bytes
  assume "length vs \<le> MAX_VEC_ELEMS"
  then show "r_vec_f64 what (reader_at pre (w_fixed vs @ post)) = Inr (vs, reader_at (pre @ w_fixed vs) post)"
    by (simp add: w_fixed_def r_vec_f64_def MAX_VEC_ELEMS_def f64_codec.rd_list list_all_iff)
next
  fix vs :: "f64 list"
  assume "length vs \<le> MAX_VEC_ELEMS"
  then show "\<exists>b bs. w_fixed vs = b # bs \<and> b \<noteq> 0xC0"
    using array_codec.wr_head [of "length vs"] by (auto simp: w_fixed_def MAX_VEC_ELEMS_def)
qed

lemma r_enum_at:
  "from_wire (val x) = Some x \<Longrightarrow>
   r_enum what from_wire (reader_at pre (w_uint (val x) @ post)) = Inr (x, reader_at (pre @ w_uint (val x)) post)"
  by (simp add: r_enum_def p_bind_def codec_simps)

lemma r_completion_policy_at [codec_simps]:
  "r_enum what completion_policy_from_wire (reader_at pre (w_uint (completion_policy_val x) @ post)) =
     Inr (x, reader_at (pre @ w_uint (completion_policy_val x)) post)"
  by (rule r_enum_at) (simp add: completion_policy_from_wire_def completion_policy_wire.from_wire_val)

lemma r_flashing_assertion_at [codec_simps]:
  "r_enum what flashing_assertion_from_wire (reader_at pre (w_uint (flashing_assertion_val x) @ post)) =
     Inr (x, reader_at (pre @ w_uint (flashing_assertion_val x)) post)"
  by (rule r_enum_at) (simp add: flashing_assertion_from_wire_def flashing_assertion_wire.from_wire_val)

interpretation frame_codec: nonnil_codec w_frame r_frame "\<lambda>_. True"
proof
  fix f :: frame and pre post :: bytes
  show "r_frame (reader_at pre (w_frame f @ post)) = Inr (f, reader_at (pre @ w_frame f) post)"
    unfolding r_frame_def w_frame_def
    by (rule r_enum_at) (simp add: frame_from_wire_def frame_wire.from_wire_val)
next
  fix f :: frame
  show "\<exists>b bs. w_frame f = b # bs \<and> b \<noteq> 0xC0"
    using uint_codec.wr_head by (simp add: w_frame_def)
qed

lemma r_waypoints_at [codec_simps]:
  "list_all (\<lambda>w. length w = 6) wps \<Longrightarrow> length wps \<le> MAX_WAYPOINTS \<Longrightarrow>
   r_waypoints what (reader_at pre (w_waypoints wps @ post)) = Inr (wps, reader_at (pre @ w_waypoints wps) post)"
  unfolding r_waypoints_def w_waypoints_def r_fixed6_def
  by (simp add: fixed_codec.rd_list MAX_WAYPOINTS_def)

interpretation physical_codec: nonnil_codec w_physical
  "p_bind r_array_len (\<lambda>n.
     if n \<noteq> 2 then p_fail (Arity ''shape.physics'' 2 n)
     else p_bind r_opt_f64 (\<lambda>m. p_bind (r_fixed3 ''shape.physics.friction'') (\<lambda>f.
       p_return \<lparr>ph_mass = m, ph_friction = f\<rparr>)))"
  "\<lambda>p. length (ph_friction p) = 3"
proof
  show "\<exists>b bs. w_physical p = b # bs \<and> b \<noteq> 0xC0" for p
    using array_codec.wr_head [of 2] by (auto simp: w_physical_def)
qed (simp add: w_physical_def p_bind_def codec_simps)

interpretation attachment_codec: nonnil_codec w_attachment r_attachment
  "\<lambda>a. list_all str_ok (at_allowed_contacts a) \<and> length (at_allowed_contacts a) \<le> 32"
proof
  show "\<exists>b bs. w_attachment a = b # bs \<and> b \<noteq> 0xC0" for a
    using array_codec.wr_head [of 2] by (auto simp: w_attachment_def)
qed (simp add: w_attachment_def r_attachment_def p_bind_def codec_simps str_codec.rd_list)

interpretation shape_codec: wire_codec w_shape r_shape
  "\<lambda>s. shape_wf s \<and> validate_shape s = Inr () \<and> length (sh_params s) \<le> MAX_VEC_ELEMS"
proof
  fix s :: shape and pre post :: bytes
  assume s: "shape_wf s \<and> validate_shape s = Inr () \<and> length (sh_params s) \<le> MAX_VEC_ELEMS"
  have pose: "length (sh_pose s) \<le> MAX_VEC_ELEMS"
    using s validate_shape_pose [of s] by (simp add: MAX_VEC_ELEMS_def)
  have att: "pred_option (\<lambda>a. list_all str_ok (at_allowed_contacts a) \<and> length (at_allowed_contacts a) \<le> 32)
      (sh_attachment s)"
    using s validate_shape_contacts [of s] by (cases "sh_attachment s") (auto simp: shape_wf_def)
  have phys: "pred_option (\<lambda>p. length (ph_friction p) = 3) (sh_physics s)"
    using s by (simp add: shape_wf_def)
  have result: "shape_result s = Inr ()" using s by (simp add: shape_result_Inr)
  show "r_shape (reader_at pre (w_shape s @ post)) = Inr (s, reader_at (pre @ w_shape s) post)"
    using s pose result phys att
    by (cases s) (simp add: r_shape_def w_shape_def p_bind_def codec_simps shape_wf_def vec_codec.rd_wr r_physics_def
        physical_codec.rd_opt attachment_codec.rd_opt Let_def)
qed

text \<open>The first byte of a tool parameter tells its type.\<close>

lemma uint_marker: "\<exists>b bs. w_uint v = b # bs \<and> (in_range b 0x00 0x7F \<or> in_range b 0xCC 0xCF)"
  by (auto simp: w_uint_def in_range_def ucast_u8_le)

lemma int_marker:
  "\<exists>b bs. w_int v = b # bs \<and>
     (in_range b 0x00 0x7F \<or> in_range b 0xE0 0xFF \<or> in_range b 0xCC 0xCF \<or> in_range b 0xD0 0xD3)"
  using uint_marker [of v] neg_fixint_marker(1) [of v] by (auto simp: w_int_def in_range_def)

lemma str_marker: "\<exists>b bs. w_str s = b # bs \<and> (in_range b 0xA0 0xBF \<or> in_range b 0xD9 0xDB)"
  using fixstr_marker(1) [of "length s"] by (auto simp: w_str_def Let_def in_range_def)

lemma r_tool_param_int:
  "r_tool_param (reader_at pre (w_int v @ post)) = Inr (PInt v, reader_at (pre @ w_int v) post)"
proof -
  obtain b bs where b: "w_int v = b # bs" and
    "in_range b 0x00 0x7F \<or> in_range b 0xE0 0xFF \<or> in_range b 0xCC 0xCF \<or> in_range b 0xD0 0xD3"
    using int_marker by blast
  note range = this(2)
  then have "b \<noteq> 0xC2" "b \<noteq> 0xC3" "\<not> in_range b 0xA0 0xBF" "\<not> in_range b 0xD9 0xDB" "b \<noteq> 0xCB"
    by (auto simp: in_range_def word_le_nat_alt)
  moreover have "peek_marker (reader_at pre (w_int v @ post)) = Inr (b, reader_at pre (w_int v @ post))"
    by (simp add: b peek_marker_at)
  ultimately show ?thesis
    using range by (simp add: r_tool_param_def p_bind_def int_codec.rd_wr)
qed

lemma r_tool_param_str:
  assumes "str_ok s"
  shows "r_tool_param (reader_at pre (w_str s @ post)) = Inr (PStr s, reader_at (pre @ w_str s) post)"
proof -
  obtain b bs where b: "w_str s = b # bs" and range: "in_range b 0xA0 0xBF \<or> in_range b 0xD9 0xDB"
    using str_marker by blast
  then have "b \<noteq> 0xC2" "b \<noteq> 0xC3" "b \<noteq> 0xCB"
    by (auto simp: in_range_def)
  moreover have "peek_marker (reader_at pre (w_str s @ post)) = Inr (b, reader_at pre (w_str s @ post))"
    by (simp add: b peek_marker_at)
  ultimately show ?thesis
    using range assms by (simp add: r_tool_param_def p_bind_def str_codec.rd_wr)
qed

interpretation tool_param_codec: wire_codec w_tool_param r_tool_param tool_param_wf
proof
  fix v :: tool_param and pre post :: bytes
  assume "tool_param_wf v"
  then show "r_tool_param (reader_at pre (w_tool_param v @ post)) =
      Inr (v, reader_at (pre @ w_tool_param v) post)"
  proof (cases v)
    case (PBool b)
    then show ?thesis
      using bool_codec.rd_wr [where v = b and pre = pre and post = post]
      by (simp add: r_tool_param_def p_bind_def w_bool_def peek_marker_at)
  next
    case (PFloat x)
    then show ?thesis
      using f64_codec.rd_wr [where v = x and pre = pre and post = post]
      by (simp add: r_tool_param_def p_bind_def w_f64_def peek_marker_at)
  qed (simp_all add: r_tool_param_int r_tool_param_str)
qed

lemma r_tool_params_at [codec_simps]:
  "list_all tool_param_wf ps \<Longrightarrow> length ps \<le> 16 \<Longrightarrow>
   r_list what MAX_VEC_ELEMS r_tool_param
     (reader_at pre (w_array (length ps) @ concat (map w_tool_param ps) @ post)) =
   Inr (ps, reader_at (pre @ w_array (length ps) @ concat (map w_tool_param ps)) post)"
  by (simp add: tool_param_codec.rd_list MAX_VEC_ELEMS_def)

lemma r_shapes_at [codec_simps]:
  "list_all shape_wf ss \<Longrightarrow> list_all (\<lambda>s. length (sh_params s) \<le> MAX_VEC_ELEMS) ss \<Longrightarrow>
   \<forall>s\<in>set ss. validate_shape s = Inr () \<Longrightarrow> length ss \<le> MAX_SHAPES \<Longrightarrow>
   r_list what MAX_SHAPES r_shape (reader_at pre (w_array (length ss) @ concat (map w_shape ss) @ post)) =
   Inr (ss, reader_at (pre @ w_array (length ss) @ concat (map w_shape ss)) post)"
  by (rule shape_codec.rd_list) (auto simp: list_all_iff MAX_SHAPES_def)

lemma r_opt_str_at [codec_simps]:
  "pred_option str_ok v \<Longrightarrow>
   r_opt r_str (reader_at pre (w_opt w_str v @ post)) = Inr (v, reader_at (pre @ w_opt w_str v) post)"
  by (rule str_codec.rd_opt)

lemma r_opt_frame_at [codec_simps]:
  "r_opt r_frame (reader_at pre (w_opt w_frame v @ post)) = Inr (v, reader_at (pre @ w_opt w_frame v) post)"
  by (rule frame_codec.rd_opt) (cases v; simp)

lemma r_opt_vec_at [codec_simps]:
  "pred_option (\<lambda>vs. length vs \<le> MAX_VEC_ELEMS) v \<Longrightarrow>
   r_opt (r_vec_f64 what) (reader_at pre (w_opt w_fixed v @ post)) = Inr (v, reader_at (pre @ w_opt w_fixed v) post)"
  by (rule vec_codec.rd_opt)

lemmas frame_rd_wr [codec_simps] = frame_codec.rd_wr

section \<open>The round trip\<close>

text \<open>What acceptance of a command says of the lengths its encoding carries.\<close>

lemma validate_lengths:
  assumes "validate c = Inr ()"
  shows "c = C_MoveS p1 \<Longrightarrow> length (ms_waypoints p1) \<le> MAX_WAYPOINTS"
    and "c = C_MoveP p2 \<Longrightarrow> length (mp_waypoints p2) \<le> MAX_WAYPOINTS"
    and "c = C_ToolAction p3 \<Longrightarrow> length (ta_params p3) \<le> 16"
    and "c = C_SetShapes ss \<Longrightarrow> length ss \<le> MAX_SHAPES \<and> (\<forall>s\<in>set ss. validate_shape s = Inr ())"
    and "c = C_Teleport p4 \<Longrightarrow> pred_option (\<lambda>vs. length vs \<le> MAX_VEC_ELEMS) (tp_tool_positions p4)"
    and "c = C_SetCanId p5 \<Longrightarrow> unat (sci_node p5) \<le> 15 \<and> unat (sci_new_id p5) \<le> 15"
    and "c = C_SaveConfig p6 \<Longrightarrow> unat (svc_node p6) \<le> 15"
    and "c = C_SetToolId p7 \<Longrightarrow> unat (sti_node p7) \<le> 15"
  using assms
  by (auto simp: bind_result_eq_Inr validation_simps MAX_VEC_ELEMS_def split: option.splits)

lemma decode_encode_params:
  assumes "command_wf c" "validate c = Inr ()" "shape_params_fit c"
  shows "decode_params (command_tag c) (reader_at pre (encode_params c @ post)) =
    Inr (c, reader_at (pre @ encode_params c) post)"
  using assms(1,3) validate_lengths [OF assms(2)]
  by (cases c) (simp_all add: p_bind_def codec_simps)

section \<open>The whole frame\<close>

lemma cmd_type_val_from_wire: "cmd_type_from_wire (cmd_type_val t) = Some t"
  by (simp add: cmd_type_from_wire_def cmd_type_wire.from_wire_val)

lemma cmd_type_val_nonneg: "0 \<le> sint (cmd_type_val t)"
  by (cases t) simp_all

lemma arity_bounds: "2 \<le> arity t \<and> arity t < 16"
  by (cases t) simp_all

lemma decode_envelope:
  "decode_command (w_array (arity t) @ w_uint (cmd_type_val t) @ w_uint (ucast req_id) @ ps) =
     bind_result (decode_params t
        (reader_at (w_array (arity t) @ w_uint (cmd_type_val t) @ w_uint (ucast req_id)) ps)) (\<lambda>(cmd, r).
     bind_result (r_finish r) (\<lambda>_. bind_result (validate cmd) (\<lambda>_. Inr (req_id, cmd))))"
  using arity_bounds [of t] cmd_type_val_nonneg [of t]
    array_codec.rd_wr [where v = "arity t" and pre = "[]"]
  by (simp add: decode_command_def new_reader_at codec_simps r_int_nonneg cmd_type_val_from_wire p_bind_def)

lemma decode_encode_command:
  assumes "command_wf c" and "shape_params_fit c" and "encode_command c req_id = Inr bs"
  shows "decode_command bs = Inr (req_id, c)"
proof -
  from assms(3) have valid: "validate c = Inr ()"
    and bs: "bs = w_array (arity (command_tag c)) @ w_uint (cmd_type_val (command_tag c))
       @ w_uint (ucast req_id) @ encode_params c"
    by (auto simp: encode_command_def bind_result_eq_Inr Let_def)
  show ?thesis
    using valid decode_encode_params [OF assms(1) valid assms(2), of _ "[]"]
    by (simp add: bs decode_envelope codec_simps)
qed

section \<open>What the decoder accepts\<close>

lemma r_times_length: "r_times n p r = Inr (vs, r') \<Longrightarrow> length vs = n"
  by (induction n arbitrary: r vs) (auto simp: p_bind_eq_Inr)

lemma r_fixed_length: "r_fixed k what r = Inr (vs, r') \<Longrightarrow> length vs = k"
  by (auto simp: r_fixed_def p_bind_eq_Inr split: if_splits dest: r_times_length)

lemma r_fixed6_length: "r_fixed6 what r = Inr (vs, r') \<Longrightarrow> length vs = 6"
  by (simp add: r_fixed6_def r_fixed_length)

lemma r_fixed3_length: "r_fixed3 what r = Inr (vs, r') \<Longrightarrow> length vs = 3"
  by (simp add: r_fixed3_def r_fixed_length)

lemma r_times_all:
  "r_times n p r = Inr (vs, r') \<Longrightarrow> (\<And>r v r'. p r = Inr (v, r') \<Longrightarrow> P v) \<Longrightarrow> list_all P vs"
  by (induction n arbitrary: r vs) (auto simp: p_bind_eq_Inr)

lemma r_list_all:
  assumes "r_list what mx p r = Inr (vs, r')" and "\<And>r v r'. p r = Inr (v, r') \<Longrightarrow> P v"
  shows "list_all P vs" and "length vs \<le> mx"
  using assms r_times_length
  by (auto simp: r_list_def r_len_def p_bind_eq_Inr p_lift_def bind_result_eq_Inr check_Inr
      intro: r_times_all dest: r_times_length)

lemma r_opt_pred:
  assumes "r_opt p r = Inr (v, r')" and "\<And>r v r'. p r = Inr (v, r') \<Longrightarrow> P v"
  shows "pred_option P v"
  using assms by (auto simp: r_opt_def p_bind_eq_Inr split: if_splits)

lemma r_take_length: "r_take n r = Inr (s, r') \<Longrightarrow> length s = n"
  by (auto simp: r_take_def split: if_splits)

lemma be_uint_bound: "be_uint k r = Inr (n, r') \<Longrightarrow> n < 256 ^ k"
  using from_be_bound by (auto simp: be_uint_def p_bind_eq_Inr dest!: r_take_length)

lemma low_bits_u8: "unat ((m :: u8) AND 0x1F) < 4294967296"
proof -
  have "unat (m AND 0x1F) \<le> unat (0x1F :: u8)"
    by (rule word_and_le1 [THEN word_le_nat_alt [THEN iffD1]])
  then show ?thesis by simp
qed

lemma r_str_ok: "r_str r = Inr (s, r') \<Longrightarrow> str_ok s"
  by (auto simp: r_str_def p_bind_eq_Inr str_ok_def low_bits_u8 split: if_splits
      dest!: be_uint_bound r_take_length)

lemma r_tool_param_wf: "r_tool_param r = Inr (v, r') \<Longrightarrow> tool_param_wf v"
  by (auto simp: r_tool_param_def p_bind_eq_Inr split: if_splits dest: r_str_ok)

lemma r_waypoints_wf: "r_waypoints what r = Inr (wps, r') \<Longrightarrow> list_all (\<lambda>w. length w = 6) wps"
  unfolding r_waypoints_def by (erule r_list_all) (rule r_fixed6_length)

lemma r_physics_wf: "r_physics r = Inr (v, r') \<Longrightarrow> pred_option (\<lambda>p. length (ph_friction p) = 3) v"
  unfolding r_physics_def
  by (erule r_opt_pred) (auto simp: p_bind_eq_Inr split: if_splits dest: r_fixed3_length)

lemma r_attachment_wf: "r_attachment r = Inr (a, r') \<Longrightarrow> list_all str_ok (at_allowed_contacts a)"
  by (auto simp: r_attachment_def p_bind_eq_Inr split: if_splits elim: r_list_all(1) [OF _ r_str_ok])

lemma r_vec_f64_length: "r_vec_f64 what r = Inr (vs, r') \<Longrightarrow> length vs \<le> MAX_VEC_ELEMS"
  unfolding r_vec_f64_def by (erule r_list_all(2) [where P = "\<lambda>_. True"]) simp

lemma r_shape_wf:
  assumes "r_shape r = Inr (s, r')"
  shows "shape_wf s" and "length (sh_params s) \<le> MAX_VEC_ELEMS"
  using assms
  by (auto simp: r_shape_def p_bind_eq_Inr Let_def shape_wf_def split: if_splits
      dest: r_str_ok r_vec_f64_length r_physics_wf r_opt_pred [OF _ r_attachment_wf])

lemmas accepted_param = r_fixed6_length r_fixed3_length r_str_ok r_waypoints_wf
  r_opt_pred [OF _ r_str_ok] r_opt_pred [OF _ r_fixed6_length]
  r_list_all(1) [OF _ r_tool_param_wf] r_list_all(1) [OF _ r_shape_wf(1)] r_list_all(1) [OF _ r_shape_wf(2)]

lemma decode_params_wf:
  assumes "decode_params t r = Inr (c, r')"
  shows "command_tag c = t \<and> command_wf c \<and> shape_params_fit c"
  using assms
  by (cases t) (auto simp: p_bind_eq_Inr dest: accepted_param)

section \<open>Accepted numbers\<close>

text \<open>One second, one full fraction: \<open>1.0\<close> in the units of \<^const>\<open>f64_units\<close>.\<close>

definition one_unit :: int where
  "one_unit = 2 ^ 1074"

lemma f64_const_units:
  "f64_units f64_zero = 0" "f64_units f64_one = one_unit" "f64_units f64_minus_one = - one_unit"
  "f64_units MAX_DURATION_S = 3600 * one_unit" "f64_units MAX_JOG_DURATION_S = 60 * one_unit"
  by (simp_all add: f64_units_def f64_field_defs f64_const_defs limit_defs units_of_mag_def one_unit_def)

lemma f64_const_finite:
  "is_finite f64_zero" "is_finite f64_one" "is_finite f64_minus_one"
  "is_finite MAX_DURATION_S" "is_finite MAX_JOG_DURATION_S"
  by (simp_all add: is_finite_def f64_field_defs f64_const_defs limit_defs)

lemma frac_Inr [validation_simps]:
  "frac what v = Inr u \<longleftrightarrow> is_finite v \<and> 0 < f64_units v \<and> f64_units v \<le> one_unit"
  by (auto simp: frac_def bind_result_eq_Inr finite_check_Inr check_Inr f64_lt_value f64_le_value f64_const_finite f64_const_units)

lemma bounded_duration_Inr:
  "is_finite mx \<Longrightarrow> bounded_duration what v mx = Inr u \<longleftrightarrow>
     is_finite v \<and> 0 < f64_units v \<and> f64_units v \<le> f64_units mx"
  by (auto simp: bounded_duration_def bind_result_eq_Inr finite_check_Inr check_Inr f64_lt_value f64_le_value f64_const_finite f64_const_units)

lemma signed_fracs_Inr [validation_simps]:
  "signed_fracs what vs = Inr u \<longleftrightarrow> (\<forall>v\<in>set vs. is_finite v \<and> \<bar>f64_units v\<bar> \<le> one_unit)"
  by (auto simp: signed_fracs_def bind_result_eq_Inr validation_simps f64_le_value f64_const_finite f64_const_units abs_le_iff)

lemma opt_frac_Inr [validation_simps]:
  "opt_frac what v = Inr u \<longleftrightarrow>
     pred_option (\<lambda>x. is_finite x \<and> 0 < f64_units x \<and> f64_units x \<le> one_unit) v"
  by (cases v) (simp_all add: opt_frac_def validation_simps)

text \<open>
  A motion's timing is accepted exactly when one of duration and speed is given, within its
  range, and the acceleration, if given, is a fraction.
\<close>

lemma motion_timing_Inr [validation_simps]:
  "motion_timing what d s a = Inr u \<longleftrightarrow>
     (d = None) \<noteq> (s = None)
     \<and> pred_option (\<lambda>x. is_finite x \<and> 0 < f64_units x \<and> f64_units x \<le> 3600 * one_unit) d
     \<and> pred_option (\<lambda>x. is_finite x \<and> 0 < f64_units x \<and> f64_units x \<le> one_unit) s
     \<and> pred_option (\<lambda>x. is_finite x \<and> 0 < f64_units x \<and> f64_units x \<le> one_unit) a"
  by (cases d; cases s)
     (auto simp: motion_timing_def duration_check_def bounded_duration_Inr bind_result_eq_Inr validation_simps
      f64_const_finite f64_const_units)

end
