(* ===== verification/Command_Props.thy ===== *)
theory Command_Props
  imports Command_Roundtrip
begin

text \<open>
  The properties of the command protocol: what a sender encodes is what the receiver decodes,
  what the receiver accepts is bounded, and where the two sides disagree.
\<close>

section \<open>Shared facts\<close>

lemma decode_command_accepts:
  assumes "decode_command bs = Inr (req_id, c)"
  shows "command_wf c \<and> shape_params_fit c \<and> validate c = Inr ()"
  using assms
  by (auto simp: decode_command_def bind_result_eq_Inr split: if_splits option.splits dest: decode_params_wf)

lemma encode_command_valid:
  "validate c = Inr () \<Longrightarrow> encode_command c req_id =
     Inr (w_array (arity (command_tag c)) @ w_uint (cmd_type_val (command_tag c))
       @ w_uint (ucast req_id) @ encode_params c)"
  by (simp add: encode_command_def Let_def)

lemma encode_command_Inr:
  assumes "encode_command c req_id = Inr bs"
  shows "validate c = Inr ()"
    and "bs = w_array (arity (command_tag c)) @ w_uint (cmd_type_val (command_tag c))
       @ w_uint (ucast req_id) @ encode_params c"
  using assms by (auto simp: encode_command_def bind_result_eq_Inr Let_def)

lemma r_finish_left [codec_simps]: "r_finish (reader_at pre (b # post)) = Inl TrailingBytes"
  by (simp add: r_finish_def reader_at_def)

lemma r_vec_f64_too_long:
  assumes "MAX_VEC_ELEMS < length vs" and "length vs < 2 ^ 32"
  shows "r_vec_f64 what (reader_at pre (w_fixed vs @ post)) = Inl (Validation what)"
  using assms by (simp add: r_vec_f64_def r_list_def r_len_def w_fixed_def p_bind_def check_def codec_simps)

lemma r_shape_too_long:
  assumes "str_ok (sh_kind s)" and "MAX_VEC_ELEMS < length (sh_params s)" and "length (sh_params s) < 2 ^ 32"
  shows "r_shape (reader_at pre (w_shape s @ post)) = Inl (Validation ''shape.params'')"
  using assms by (simp add: r_shape_def w_shape_def p_bind_def r_vec_f64_too_long codec_simps)

text \<open>The commands the examples below send: a jog, a Cartesian move and a world of one shape.\<close>

definition sample_jog :: jog_j where
  "sample_jog = \<lparr>jj_speeds = [f64_one, f64_zero, f64_minus_one, 0, 0, 0],
     jj_duration = 0x4000000000000000, jj_accel = Some f64_one\<rparr>"

definition sample_move :: move_l where
  "sample_move = \<lparr>ml_key = 5, ml_pose = [f64_one, 0, 0, 0, 0, 0], ml_frame = Frame_Wrf, ml_duration = None,
     ml_speed = Some f64_one, ml_accel = None, ml_blend_radius = None, ml_rel = False\<rparr>"

definition sample_shape :: shape where
  "sample_shape = \<lparr>sh_kind = [0x62], sh_params = replicate 17 f64_one, sh_pose = replicate 6 0,
     sh_collision = True, sh_margin = None, sh_name = [], sh_physics = None, sh_attachment = None\<rparr>"

lemmas float_eval = is_finite_def f64_lt_def f64_le_def f64_key_def is_nan_def f64_field_defs
  f64_const_defs limit_defs

lemmas check_eval = signed_fracs_def frac_def opt_frac_def bounded_duration_def finite_check_def
  finite_all_def check_def motion_timing_def blend_def

lemma sample_jog_ok: "command_wf (C_JogJ sample_jog)" "shape_params_fit (C_JogJ sample_jog)"
  "validate (C_JogJ sample_jog) = Inr ()"
  by (simp_all add: sample_jog_def check_eval float_eval result_simps)

lemma sample_move_ok: "command_wf (C_MoveL sample_move)" "shape_params_fit (C_MoveL sample_move)"
  "validate (C_MoveL sample_move) = Inr ()"
  by (simp_all add: sample_move_def check_eval float_eval result_simps)

lemma sample_shape_ok: "str_ok (sh_kind sample_shape)" "length (sh_params sample_shape) = 17"
  "validate (C_SetShapes [sample_shape]) = Inr ()"
  by (simp_all add: sample_shape_def str_ok_def str_len_def validate_shape_def shape_result_def check_eval
      float_eval result_simps find_None_iff in_range_def)

section \<open>Properties\<close>



text \<open>
  C35. Whatever bytes arrive, a command the decoder returns satisfies the type invariants and
  the range checks, and encoding it again is accepted and decodes to the same command: the
  decoder has no output that the sender could not have meant.
\<close>

theorem decode_command_sound:
  assumes "decode_command bs = Inr (req_id, c)"
  shows "command_wf c \<and> validate c = Inr ()
    \<and> (\<exists>canonical. encode_command c req_id = Inr canonical \<and> decode_command canonical = Inr (req_id, c))"
  using decode_command_accepts [OF assms] decode_encode_command [of c req_id] encode_command_valid
  by auto

theorem decode_command_sound_witness:
  "command_wf (C_JogJ sample_jog) \<and> validate (C_JogJ sample_jog) = Inr ()"
  using decode_command_sound [OF decode_encode_command
      [OF sample_jog_ok(1,2) encode_command_valid [OF sample_jog_ok(3)], of 7]] by blast

text \<open>
  No encoded command is a proper prefix of another: anything behind a complete command is
  refused as trailing bytes, whatever it is.
\<close>

lemma command_trailing_refused:
  assumes "command_wf c" and "shape_params_fit c" and "encode_command c req_id = Inr bs" and "extra \<noteq> []"
  shows "decode_command (bs @ extra) = Inl TrailingBytes"
proof -
  note enc = encode_command_Inr [OF assms(3)]
  obtain b rest where "extra = b # rest" using assms(4) by (cases extra) auto
  then show ?thesis
    using decode_encode_params [OF assms(1) enc(1) assms(2), of _ extra]
    by (simp add: enc(2) decode_envelope codec_simps)
qed

text \<open>
  A joint jog that reaches the controller names six joints, each at most full speed in
  either direction, for a finite time of more than zero and at most sixty seconds: no value
  that decoding lets through can run the arm unattended for longer.
\<close>

lemma decoded_jog_bounded:
  assumes "decode_command bs = Inr (req_id, C_JogJ p)"
  shows "length (jj_speeds p) = 6 \<and> (\<forall>v\<in>set (jj_speeds p). is_finite v \<and> \<bar>f64_units v\<bar> \<le> one_unit)
    \<and> is_finite (jj_duration p) \<and> 0 < f64_units (jj_duration p)
    \<and> f64_units (jj_duration p) \<le> 60 * one_unit"
  using decode_command_accepts [OF assms]
  by (auto simp: bind_result_eq_Inr validation_simps bounded_duration_Inr f64_const_finite f64_const_units)

text \<open>
  A linear move that is accepted is timed in exactly one way: a duration in
  (0, 3600] seconds or a speed fraction in (0, 1], never both and never neither; its
  acceleration is a fraction too and its target is finite.
\<close>

lemma decoded_move_timing:
  assumes "decode_command bs = Inr (req_id, C_MoveL p)"
  shows "(ml_duration p = None) \<noteq> (ml_speed p = None)
     \<and> pred_option (\<lambda>x. is_finite x \<and> 0 < f64_units x \<and> f64_units x \<le> 3600 * one_unit) (ml_duration p)
     \<and> pred_option (\<lambda>x. is_finite x \<and> 0 < f64_units x \<and> f64_units x \<le> one_unit) (ml_speed p)
     \<and> pred_option (\<lambda>x. is_finite x \<and> 0 < f64_units x \<and> f64_units x \<le> one_unit) (ml_accel p)
     \<and> length (ml_pose p) = 6 \<and> list_all is_finite (ml_pose p)"
  using decode_command_accepts [OF assms]
  by (auto simp: bind_result_eq_Inr validation_simps f64_const_finite f64_const_units list_all_iff)

text \<open>
  The commands that carry an idempotency key are exactly the queued ones: the class table
  and the key accessor of the source agree on every one of the 67 commands.
\<close>

lemma idempotency_key_queued:
  "idempotency_key c \<noteq> None \<longleftrightarrow> command_class (command_tag c) = Class_Queued"
  by (cases c) simp_all

text \<open>
  A shape with more than sixteen parameters is accepted by the sender's checks and refused
  by the receiver: \<open>validate_shape\<close> has no bound on \<open>params\<close> while \<open>r_vec_f64\<close> has one, so
  the encoder emits a datagram that its own decoder rejects.
\<close>

lemma shape_params_unbounded_at_sender:
  assumes "str_ok (sh_kind s)" and "MAX_VEC_ELEMS < length (sh_params s)" and "length (sh_params s) < 2 ^ 32"
    and "encode_command (C_SetShapes [s]) req_id = Inr bs"
  shows "decode_command bs = Inl (Validation ''shape.params'')"
  using r_shape_too_long [OF assms(1-3), where post = "[]"] decode_envelope [of T_SetShapes req_id "encode_params (C_SetShapes [s])"]
  by (simp add: encode_command_Inr(2) [OF assms(4)] p_bind_def r_list_def r_len_def check_def MAX_SHAPES_def
      array_codec.rd_wr)

end
