(* ===== verification/Chunk.thy ===== *)
theory Chunk
  imports Reachability Command_Codec "HOL-Library.AList"
begin

text \<open>
  The bulk transfer of \<open>par6-proto/src/chunk.rs\<close>: the chunk envelope, the splitter and the
  reassembler, which collects the chunks of up to eight transfers in any order.

  The two maps of the reassembler are association lists: the \<open>HashMap\<close> of transfers in an
  order that nothing depends on, the \<open>BTreeMap\<close> of parts sorted by index. An \<open>Instant\<close> is a
  natural number of nanoseconds, and \<open>duration_since\<close> saturates at zero as the subtraction of
  naturals does.
\<close>

section \<open>The chunk envelope\<close>

definition MAX_TRANSFER_BYTES :: nat where "MAX_TRANSFER_BYTES = 4 * 1024 * 1024"
definition MAX_TRANSFERS_IN_FLIGHT :: nat where "MAX_TRANSFERS_IN_FLIGHT = 8"

record chunk =
  ck_req_id :: u32
  ck_transfer_id :: u32
  ck_index :: u16
  ck_total :: u16
  ck_data :: bytes

definition encode_chunk :: "chunk \<Rightarrow> bytes" where
  "encode_chunk c = w_array 6 @ w_uint (msg_type_val Msg_Chunk) @ w_uint (ucast (ck_req_id c))
     @ w_uint (ucast (ck_transfer_id c)) @ w_uint (ucast (ck_index c)) @ w_uint (ucast (ck_total c))
     @ w_bin (ck_data c)"

definition u16_try_from :: "string \<Rightarrow> u64 \<Rightarrow> u16 parser" where
  "u16_try_from what v = p_lift (if unat v < 2 ^ 16 then Inr (ucast v) else Inl (Validation what))"

definition decode_chunk_fields :: "chunk parser" where
  "decode_chunk_fields =
     p_bind (p_bind r_uint (u32_try_from ''chunk.req_id'')) (\<lambda>req_id.
     p_bind (p_bind r_uint (u32_try_from ''chunk.transfer_id'')) (\<lambda>transfer_id.
     p_bind (p_bind r_uint (u16_try_from ''chunk.index'')) (\<lambda>index.
     p_bind (p_bind r_uint (u16_try_from ''chunk.total'')) (\<lambda>total.
     p_bind r_bin (\<lambda>payload. p_bind r_finish (\<lambda>_.
     if total = 0 then p_fail (Validation ''chunk.total'')
     else if index \<ge> total then p_fail (Validation ''chunk.index'')
     else p_return \<lparr>ck_req_id = req_id, ck_transfer_id = transfer_id, ck_index = index,
                    ck_total = total, ck_data = payload\<rparr>))))))"

definition decode_chunk :: "bytes \<Rightarrow> decode_error + chunk" where
  "decode_chunk bs =
     bind_result (r_array_len (new_reader bs)) (\<lambda>(n, r).
       if n \<noteq> 6 then Inl (Arity ''chunk envelope'' 6 n)
       else bind_result (r_int r) (\<lambda>(raw, r).
         if raw \<noteq> msg_type_val Msg_Chunk then Inl (UnknownTag raw)
         else bind_result (decode_chunk_fields r) (\<lambda>(c, _). Inr c)))"

section \<open>The reassembler\<close>

datatype chunk_error =
    TotalMismatch u16 u16
  | TooManyTransfers nat
  | ReqIdMismatch u32 u32
  | TooLarge

record assembled =
  as_req_id :: u32
  as_transfer_id :: u32
  as_payload :: bytes

record expired =
  ex_req_id :: u32
  ex_transfer_id :: u32
  ex_received :: u16
  ex_total :: u16

record transfer =
  tf_req_id :: u32
  tf_total :: u16
  tf_bytes :: nat
  tf_parts :: "(u16 \<times> bytes) list"
  tf_last_activity :: nat

record reassembler =
  ra_timeout :: nat
  ra_transfers :: "(u32 \<times> transfer) list"

definition new_reassembler :: "nat \<Rightarrow> reassembler" where
  "new_reassembler timeout = \<lparr>ra_timeout = timeout, ra_transfers = []\<rparr>"

definition new_transfer :: "chunk \<Rightarrow> nat \<Rightarrow> transfer" where
  "new_transfer c now = \<lparr>tf_req_id = ck_req_id c, tf_total = ck_total c, tf_bytes = 0,
     tf_parts = [], tf_last_activity = now\<rparr>"

definition drop_transfer :: "reassembler \<Rightarrow> u32 \<Rightarrow> reassembler" where
  "drop_transfer r i = r\<lparr>ra_transfers := AList.delete i (ra_transfers r)\<rparr>"

text \<open>\<open>self.transfers.entry(..).or_insert_with(..)\<close>.\<close>

definition entry_transfer :: "reassembler \<Rightarrow> chunk \<Rightarrow> nat \<Rightarrow> transfer" where
  "entry_transfer r c now =
     (case map_of (ra_transfers r) (ck_transfer_id c) of Some t \<Rightarrow> t | None \<Rightarrow> new_transfer c now)"

definition seen_part :: "transfer \<Rightarrow> chunk \<Rightarrow> bool" where
  "seen_part t c \<longleftrightarrow> ck_index c \<in> fst ` set (tf_parts t)"

text \<open>The transfer after a chunk that fits: its activity, and its part unless it is a duplicate.\<close>

definition accept_part :: "transfer \<Rightarrow> chunk \<Rightarrow> nat \<Rightarrow> transfer" where
  "accept_part t c now =
     (let t = t\<lparr>tf_last_activity := now\<rparr> in
      if seen_part t c then t
      else t\<lparr>tf_bytes := tf_bytes t + length (ck_data c),
             tf_parts := insort_key fst (ck_index c, ck_data c) (tf_parts t)\<rparr>)"

definition push :: "reassembler \<Rightarrow> chunk \<Rightarrow> nat \<Rightarrow> (chunk_error + assembled option) \<times> reassembler" where
  "push r c now =
     (let ts = ra_transfers r; i = ck_transfer_id c in
      if map_of ts i = None \<and> MAX_TRANSFERS_IN_FLIGHT \<le> length ts
      then (Inl (TooManyTransfers (length ts)), r)
      else let t = entry_transfer r c now in
      if tf_total t \<noteq> ck_total c then (Inl (TotalMismatch (tf_total t) (ck_total c)), drop_transfer r i)
      else if tf_req_id t \<noteq> ck_req_id c then (Inl (ReqIdMismatch (tf_req_id t) (ck_req_id c)), drop_transfer r i)
      else if \<not> seen_part t c \<and> MAX_TRANSFER_BYTES < tf_bytes t + length (ck_data c)
      then (Inl TooLarge, drop_transfer r i)
      else let t = accept_part t c now in
      if length (tf_parts t) = unat (tf_total t)
      then (Inr (Some \<lparr>as_req_id = tf_req_id t, as_transfer_id = i,
                       as_payload = concat (map snd (tf_parts t))\<rparr>), drop_transfer r i)
      else (Inr None, r\<lparr>ra_transfers := AList.update i t ts\<rparr>))"

definition is_expired :: "nat \<Rightarrow> nat \<Rightarrow> transfer \<Rightarrow> bool" where
  "is_expired timeout now t \<longleftrightarrow> timeout \<le> now - tf_last_activity t"

definition expire :: "reassembler \<Rightarrow> nat \<Rightarrow> expired list \<times> reassembler" where
  "expire r now =
     (let gone = filter (\<lambda>(i, t). is_expired (ra_timeout r) now t) (ra_transfers r) in
      (map (\<lambda>(i, t). \<lparr>ex_req_id = tf_req_id t, ex_transfer_id = i,
              ex_received = of_nat (length (tf_parts t)), ex_total = tf_total t\<rparr>) gone,
       r\<lparr>ra_transfers := filter (\<lambda>(i, t). \<not> is_expired (ra_timeout r) now t) (ra_transfers r)\<rparr>))"

definition in_flight :: "reassembler \<Rightarrow> nat" where
  "in_flight r = length (ra_transfers r)"

section \<open>The splitter\<close>

text \<open>\<open>slice::chunks\<close>, for a positive size.\<close>

function chunks_of :: "nat \<Rightarrow> bytes \<Rightarrow> bytes list" where
  "chunks_of n bs = (if bs = [] \<or> n = 0 then [] else take n bs # chunks_of n (drop n bs))"
  by pat_completeness auto
termination
  by (relation "measure (\<lambda>(n, bs). length bs)") auto

declare chunks_of.simps [simp del]

text \<open>\<open>None\<close> is the panic of the assertion on the chunk size.\<close>

definition split_into_chunks :: "u32 \<Rightarrow> u32 \<Rightarrow> bytes \<Rightarrow> nat \<Rightarrow> chunk list option" where
  "split_into_chunks req_id transfer_id payload chunk_size =
     (if chunk_size = 0 then None else
      let parts = (if payload = [] then [[]] else chunks_of chunk_size payload);
          total = of_nat (length parts)
      in Some (map (\<lambda>(i, p). \<lparr>ck_req_id = req_id, ck_transfer_id = transfer_id,
                 ck_index = of_nat i, ck_total = total, ck_data = p\<rparr>) (enumerate 0 parts)))"

end
