(* ===== verification/Chunk_Props.thy ===== *)
theory Chunk_Props
  imports Chunk Command_Roundtrip
begin

text \<open>
  Correctness of the bulk transfer: the envelope's round trip, the reassembler's bounds as an
  invariant of its reachable states, the reassembly of a split payload from deliveries in any
  order, and the expiry of idle transfers.
\<close>

section \<open>The envelope\<close>

lemma unat_ucast_up_u16: "unat (ucast (v :: u16) :: u64) = unat v"
  by transfer (simp add: take_bit_eq_mod)

lemma ucast_u16_roundtrip: "ucast (ucast (v :: u16) :: u64) = v"
  by transfer (simp add: take_bit_eq_mod)

lemma u16_try_from_at [codec_simps]: "u16_try_from what (ucast v) r = Inr (v, r)"
  using unat_u16_bound [of v]
  by (simp add: u16_try_from_def unat_ucast_up_u16 ucast_u16_roundtrip)

definition chunk_ok :: "chunk \<Rightarrow> bool" where
  "chunk_ok c \<longleftrightarrow> ck_index c < ck_total c"

lemma decode_chunk_ok: "decode_chunk bs = Inr c \<Longrightarrow> chunk_ok c"
  by (auto simp: decode_chunk_def decode_chunk_fields_def chunk_ok_def bind_result_eq_Inr p_bind_eq_Inr
      split: if_splits)

lemma decode_encode_chunk:
  assumes "chunk_ok c" and "length (ck_data c) < 2 ^ 32"
  shows "decode_chunk (encode_chunk c) = Inr c"
proof -
  have "ck_total c \<noteq> 0" "\<not> ck_total c \<le> ck_index c" using assms(1) by (auto simp: chunk_ok_def)
  then show ?thesis
    using assms(2) bin_codec.rd_wr [of "ck_data c" _ "[]"]
    by (simp add: decode_chunk_def decode_chunk_fields_def encode_chunk_def new_reader_at p_bind_def
        codec_simps r_int_nonneg array_codec.rd_wr)
qed

section \<open>The invariant\<close>

definition transfer_ok :: "transfer \<Rightarrow> bool" where
  "transfer_ok t \<longleftrightarrow> sorted (map fst (tf_parts t)) \<and> distinct (map fst (tf_parts t))
     \<and> tf_bytes t = sum_list (map (length \<circ> snd) (tf_parts t))
     \<and> tf_bytes t \<le> MAX_TRANSFER_BYTES
     \<and> (\<forall>k \<in> fst ` set (tf_parts t). k < tf_total t)
     \<and> length (tf_parts t) < unat (tf_total t)"

definition reassembler_ok :: "reassembler \<Rightarrow> bool" where
  "reassembler_ok r \<longleftrightarrow> distinct (map fst (ra_transfers r))
     \<and> length (ra_transfers r) \<le> MAX_TRANSFERS_IN_FLIGHT
     \<and> (\<forall>t \<in> snd ` set (ra_transfers r). transfer_ok t)"

lemma set_update_alist: "set (AList.update k v al) \<subseteq> insert (k, v) (set al)"
  by (induction al) auto

lemma length_update_alist:
  "length (AList.update k v al) = (if k \<in> fst ` set al then length al else Suc (length al))"
  by (induction al) auto

lemma reassembler_ok_update:
  assumes "reassembler_ok r" and "transfer_ok t"
    and "map_of (ra_transfers r) i = None \<Longrightarrow> length (ra_transfers r) < MAX_TRANSFERS_IN_FLIGHT"
  shows "reassembler_ok (r\<lparr>ra_transfers := AList.update i t (ra_transfers r)\<rparr>)"
  using assms set_update_alist [of i t "ra_transfers r"]
  by (auto simp: reassembler_ok_def length_update_alist distinct_update map_of_eq_None_iff)

lemma set_delete_alist: "set (AList.delete k al) \<subseteq> set al"
  by (auto simp: AList.delete_eq)

lemma sum_list_insort: "sum_list (map g (insort_key f x xs)) = g x + (sum_list (map g xs) :: nat)"
  by (induction xs) simp_all

lemma reassembler_ok_drop: "reassembler_ok r \<Longrightarrow> reassembler_ok (drop_transfer r i)"
  using length_delete_le [of i "ra_transfers r"] distinct_delete [of "ra_transfers r" i] set_delete_alist [of i "ra_transfers r"]
  by (auto simp: reassembler_ok_def drop_transfer_def)

lemma inj_unat: "inj (unat :: u16 \<Rightarrow> nat)"
  using word_unat_eq_iff by (auto simp: inj_def)

lemma keys_below_total:
  assumes "distinct (ks :: u16 list)" and "\<forall>k \<in> set ks. k < n"
  shows "length ks \<le> unat n"
proof -
  have "unat ` set ks \<subseteq> {..<unat n}" using assms(2) by (auto simp: word_less_nat_alt)
  then have "card (unat ` set ks) \<le> unat n" using card_mono [of "{..<unat n}"] by fastforce
  moreover have "card (unat ` set ks) = length ks"
    using assms(1) by (simp add: card_image [OF inj_on_subset [OF inj_unat subset_UNIV]] distinct_card)
  ultimately show ?thesis by simp
qed


lemma accept_part_ok:
  assumes "transfer_ok t \<or> (tf_parts t = [] \<and> tf_bytes t = 0)"
    and "ck_index c < tf_total t"
    and "seen_part t c \<or> tf_bytes t + length (ck_data c) \<le> MAX_TRANSFER_BYTES"
    and "length (tf_parts (accept_part t c now)) \<noteq> unat (tf_total (accept_part t c now))"
  shows "transfer_ok (accept_part t c now)"
proof (cases "seen_part t c")
  case True
  with assms(1) have "transfer_ok t" by (auto simp: seen_part_def)
  with True show ?thesis by (simp add: accept_part_def seen_part_def transfer_ok_def)
next
  case False
  define t' where "t' = accept_part t c now"
  have d: "distinct (map fst (tf_parts t'))" and s: "sorted (map fst (tf_parts t'))"
    and b: "tf_bytes t' = sum_list (map (length \<circ> snd) (tf_parts t'))" "tf_bytes t' \<le> MAX_TRANSFER_BYTES"
    and k: "\<forall>k \<in> fst ` set (tf_parts t'). k < tf_total t'"
    using assms False
    by (auto simp: t'_def accept_part_def seen_part_def transfer_ok_def distinct_insort_key
        set_insort_key sorted_insort_key sum_list_insort)
  have "length (tf_parts t') \<le> unat (tf_total t')"
    using keys_below_total [OF d] k by simp
  then show ?thesis
    using d s b k assms(4) by (simp add: t'_def transfer_ok_def)
qed

lemma push_ok:
  assumes "reassembler_ok r" and "chunk_ok c"
  shows "reassembler_ok (snd (push r c now))"
proof -
  have t: "transfer_ok (entry_transfer r c now)
      \<or> (tf_parts (entry_transfer r c now) = [] \<and> tf_bytes (entry_transfer r c now) = 0)"
    using assms(1)
    by (auto simp: entry_transfer_def new_transfer_def reassembler_ok_def split: option.splits dest: map_of_SomeD)
  show ?thesis
    using assms
    by (auto simp: push_def Let_def reassembler_ok_drop not_le not_less chunk_ok_def
        intro!: reassembler_ok_update accept_part_ok [OF t])
qed

lemma expire_ok: "reassembler_ok r \<Longrightarrow> reassembler_ok (snd (expire r now))"
  by (auto simp: reassembler_ok_def expire_def distinct_map inj_on_def intro: order_trans [OF length_filter_le])

inductive reassembler_step :: "reassembler \<Rightarrow> reassembler \<Rightarrow> bool" where
  receive: "decode_chunk bs = Inr c \<Longrightarrow> reassembler_step r (snd (push r c now))"
| sweep: "reassembler_step r (snd (expire r now))"

definition reassembler_initial :: "reassembler \<Rightarrow> bool" where
  "reassembler_initial r \<longleftrightarrow> ra_transfers r = []"

interpretation reassembler_inv: inductive_invariant reassembler_initial reassembler_step reassembler_ok
proof
  show "reassembler_ok r" if "reassembler_initial r" for r
    using that by (simp add: reassembler_initial_def reassembler_ok_def MAX_TRANSFERS_IN_FLIGHT_def)
  show "reassembler_ok r'" if "reassembler_ok r" "reassembler_step r r'" for r r'
    using that(2,1) by cases (auto intro: push_ok expire_ok decode_chunk_ok)
qed

definition buffered :: "reassembler \<Rightarrow> nat" where
  "buffered r = sum_list (map (\<lambda>(i, t). sum_list (map (length \<circ> snd) (tf_parts t))) (ra_transfers r))"

lemma buffered_bound:
  assumes "reassembler_ok r"
  shows "buffered r \<le> MAX_TRANSFERS_IN_FLIGHT * MAX_TRANSFER_BYTES"
proof -
  have "\<forall>x \<in> set (map (\<lambda>(i, t). sum_list (map (length \<circ> snd) (tf_parts t))) (ra_transfers r)). x \<le> MAX_TRANSFER_BYTES"
    using assms by (auto simp: reassembler_ok_def transfer_ok_def)
  then have "buffered r \<le> length (ra_transfers r) * MAX_TRANSFER_BYTES"
    unfolding buffered_def
    using sum_list_mono [of "ra_transfers r" "\<lambda>(i, t). sum_list (map (length \<circ> snd) (tf_parts t))" "\<lambda>_. MAX_TRANSFER_BYTES"]
    by (auto simp: sum_list_triv)
  also have "\<dots> \<le> MAX_TRANSFERS_IN_FLIGHT * MAX_TRANSFER_BYTES"
    using assms by (simp add: reassembler_ok_def)
  finally show ?thesis .
qed

section \<open>Collecting the parts of a payload\<close>

definition part_chunk :: "u32 \<Rightarrow> u32 \<Rightarrow> bytes list \<Rightarrow> nat \<Rightarrow> chunk" where
  "part_chunk req_id tid ps i = \<lparr>ck_req_id = req_id, ck_transfer_id = tid, ck_index = of_nat i,
     ck_total = of_nat (length ps), ck_data = ps ! i\<rparr>"

definition collects :: "u32 \<Rightarrow> bytes list \<Rightarrow> nat set \<Rightarrow> transfer \<Rightarrow> bool" where
  "collects req_id ps S t \<longleftrightarrow> tf_req_id t = req_id \<and> tf_total t = of_nat (length ps)
     \<and> tf_parts t = map (\<lambda>i. (of_nat i, ps ! i)) (sorted_list_of_set S)
     \<and> tf_bytes t = (\<Sum>i\<in>S. length (ps ! i))"

lemma of_nat_u16_le: "i < 2 ^ 16 \<Longrightarrow> j < 2 ^ 16 \<Longrightarrow> (of_nat i :: u16) \<le> of_nat j \<longleftrightarrow> i \<le> j"
  by (simp add: word_le_nat_alt unat_of_nat take_bit_eq_mod)

lemma of_nat_u16_inj: "i < 2 ^ 16 \<Longrightarrow> j < 2 ^ 16 \<Longrightarrow> (of_nat i :: u16) = of_nat j \<longleftrightarrow> i = j"
  by (simp add: word_unat_eq_iff unat_of_nat take_bit_eq_mod)

lemma insort_of_nat:
  "\<forall>j \<in> insert i (set xs). j < 2 ^ 16 \<Longrightarrow>
   insort_key fst (of_nat i :: u16, ps ! i) (map (\<lambda>i. (of_nat i, ps ! i)) xs) =
     map (\<lambda>i. (of_nat i, ps ! i)) (insort i xs)"
  by (induction xs) (auto simp: of_nat_u16_le)

lemma seen_part_collects:
  assumes "collects req_id ps S t" and "S \<subseteq> {..<length ps}" and "i < length ps" and "length ps < 2 ^ 16"
  shows "seen_part t (part_chunk req_id tid ps i) \<longleftrightarrow> i \<in> S"
proof -
  have "finite S" using assms(2) finite_subset by blast
  then show ?thesis
    using assms by (auto simp: collects_def seen_part_def part_chunk_def of_nat_u16_inj image_iff subset_iff
        intro: bexI [where x = i])
qed

lemma accept_part_collects:
  assumes "collects req_id ps S t" and "S \<subseteq> {..<length ps}" and "i < length ps" and "length ps < 2 ^ 16"
  shows "collects req_id ps (insert i S) (accept_part t (part_chunk req_id tid ps i) now)"
proof -
  have fin: "finite S" using assms(2) finite_subset by blast
  have le: "\<forall>j \<in> insert i (set (sorted_list_of_set S)). j < 2 ^ 16"
    using assms(2-4) fin by auto
  note seen = seen_part_collects [OF assms, of tid]
  show ?thesis
  proof (cases "i \<in> S")
    case True
    with seen assms(1) show ?thesis
      by (simp add: accept_part_def collects_def seen_part_def insert_absorb)
  next
    case False
    with seen assms(1) fin insort_of_nat [OF le, of ps] show ?thesis
      by (simp add: accept_part_def collects_def seen_part_def part_chunk_def)
  qed
qed

lemma collects_complete:
  assumes "collects req_id ps S t" and "S \<subseteq> {..<length ps}" and "length ps < 2 ^ 16"
  shows "length (tf_parts t) = unat (tf_total t) \<longleftrightarrow> S = {..<length ps}"
proof -
  have "finite S" using assms(2) finite_subset by blast
  then have "card S = length ps \<longleftrightarrow> S = {..<length ps}"
    using assms(2) card_subset_eq [of "{..<length ps}" S] by auto
  moreover have "unat (of_nat (length ps) :: u16) = length ps"
    using assms(3) by (simp add: unat_of_nat take_bit_eq_mod)
  ultimately show ?thesis
    using assms(1) by (simp add: collects_def)
qed

lemma collects_payload:
  "collects req_id ps {..<length ps} t \<Longrightarrow> concat (map snd (tf_parts t)) = concat ps"
  by (simp add: collects_def comp_def lessThan_atLeast0 map_nth)

text \<open>
  The state of one transfer within the reassembler: untouched with a slot free, or collecting
  the parts \<open>S\<close>.
\<close>

definition in_progress :: "u32 \<Rightarrow> u32 \<Rightarrow> bytes list \<Rightarrow> nat set \<Rightarrow> reassembler \<Rightarrow> bool" where
  "in_progress req_id tid ps S r \<longleftrightarrow>
     (case map_of (ra_transfers r) tid of
        None \<Rightarrow> S = {} \<and> in_flight r < MAX_TRANSFERS_IN_FLIGHT
      | Some t \<Rightarrow> collects req_id ps S t)"

lemma collects_fits:
  assumes "collects req_id ps S t" and "S \<subseteq> {..<length ps}" and "i < length ps" and "i \<notin> S"
  shows "tf_bytes t + length (ps ! i) \<le> length (concat ps)"
proof -
  have "finite S" using assms(2) finite_subset by blast
  then have "tf_bytes t + length (ps ! i) = (\<Sum>j\<in>insert i S. length (ps ! j))"
    using assms(1,4) by (simp add: collects_def)
  also have "\<dots> \<le> (\<Sum>j<length ps. length (ps ! j))"
    using assms(2,3) by (intro sum_mono2) auto
  also have "\<dots> = length (concat ps)"
    by (simp add: length_concat sum_list_sum_nth lessThan_atLeast0)
  finally show ?thesis .
qed

lemma push_accepts:
  assumes "map_of (ra_transfers r) (ck_transfer_id c) = None \<Longrightarrow> in_flight r < MAX_TRANSFERS_IN_FLIGHT"
    and "tf_total (entry_transfer r c now) = ck_total c" and "tf_req_id (entry_transfer r c now) = ck_req_id c"
    and "seen_part (entry_transfer r c now) c
      \<or> tf_bytes (entry_transfer r c now) + length (ck_data c) \<le> MAX_TRANSFER_BYTES"
    and "t = accept_part (entry_transfer r c now) c now"
  shows "push r c now =
     (if length (tf_parts t) = unat (tf_total t)
      then (Inr (Some \<lparr>as_req_id = tf_req_id t, as_transfer_id = ck_transfer_id c,
                       as_payload = concat (map snd (tf_parts t))\<rparr>), drop_transfer r (ck_transfer_id c))
      else (Inr None, r\<lparr>ra_transfers := AList.update (ck_transfer_id c) t (ra_transfers r)\<rparr>))"
  using assms by (auto simp: push_def Let_def in_flight_def)

lemma push_part:
  assumes prog: "in_progress req_id tid ps S r" and S: "S \<subseteq> {..<length ps}" and i: "i < length ps"
    and len: "length ps < 2 ^ 16" and size: "length (concat ps) \<le> MAX_TRANSFER_BYTES"
  shows "insert i S \<noteq> {..<length ps} \<Longrightarrow>
      \<exists>r'. push r (part_chunk req_id tid ps i) now = (Inr None, r') \<and> in_progress req_id tid ps (insert i S) r'
        \<and> map_of (ra_transfers r') tid \<noteq> None"
    and "insert i S = {..<length ps} \<Longrightarrow>
      push r (part_chunk req_id tid ps i) now =
        (Inr (Some \<lparr>as_req_id = req_id, as_transfer_id = tid, as_payload = concat ps\<rparr>), drop_transfer r tid)"
proof -
  let ?c = "part_chunk req_id tid ps i"
  let ?t = "entry_transfer r ?c now"
  define t' where "t' = accept_part ?t ?c now"
  have ck: "ck_transfer_id ?c = tid" "ck_req_id ?c = req_id" "ck_total ?c = of_nat (length ps)" "ck_data ?c = ps ! i"
    by (simp_all add: part_chunk_def)
  have t: "collects req_id ps S ?t" and room: "map_of (ra_transfers r) tid = None \<Longrightarrow> in_flight r < MAX_TRANSFERS_IN_FLIGHT"
    using prog by (auto simp: entry_transfer_def ck in_progress_def new_transfer_def collects_def
        split: option.splits)
  have t': "collects req_id ps (insert i S) t'"
    unfolding t'_def by (rule accept_part_collects [OF t S i len])
  have run: "push r ?c now =
     (if length (tf_parts t') = unat (tf_total t')
      then (Inr (Some \<lparr>as_req_id = tf_req_id t', as_transfer_id = tid,
                       as_payload = concat (map snd (tf_parts t'))\<rparr>), drop_transfer r tid)
      else (Inr None, r\<lparr>ra_transfers := AList.update tid t' (ra_transfers r)\<rparr>))"
    using push_accepts [of r ?c now t'] room t size collects_fits [OF t S i] seen_part_collects [OF t S i len, of tid]
    by (auto simp: ck collects_def t'_def)
  have "insert i S \<subseteq> {..<length ps}" using S i by simp
  note complete = collects_complete [OF t' this len]
  show "\<exists>r'. push r ?c now = (Inr None, r') \<and> in_progress req_id tid ps (insert i S) r'
        \<and> map_of (ra_transfers r') tid \<noteq> None" if "insert i S \<noteq> {..<length ps}"
    using that t' complete by (simp add: run in_progress_def update_conv')
  show "push r ?c now = (Inr (Some \<lparr>as_req_id = req_id, as_transfer_id = tid, as_payload = concat ps\<rparr>), drop_transfer r tid)"
    if "insert i S = {..<length ps}"
    using that t' complete collects_payload [of req_id ps t'] by (simp add: run collects_def)
qed

section \<open>A sequence of deliveries\<close>

fun push_all :: "reassembler \<Rightarrow> (chunk \<times> nat) list \<Rightarrow> reassembler" where
  "push_all r [] = r"
| "push_all r ((c, now) # ds) = push_all (snd (push r c now)) ds"

lemma push_other:
  "ck_transfer_id c \<noteq> tid \<Longrightarrow>
   map_of (ra_transfers (snd (push r c now))) tid = map_of (ra_transfers r) tid"
  by (auto simp: push_def Let_def drop_transfer_def delete_conv' update_conv')

definition delivered :: "u32 \<Rightarrow> u32 \<Rightarrow> bytes list \<Rightarrow> (chunk \<times> nat) list \<Rightarrow> nat set" where
  "delivered req_id tid ps ds = {i. i < length ps \<and> part_chunk req_id tid ps i \<in> fst ` set ds}"

lemma delivered_subset: "delivered req_id tid ps ds \<subseteq> {..<length ps}"
  by (auto simp: delivered_def)

lemma part_chunk_inj:
  "length ps < 2 ^ 16 \<Longrightarrow> i < length ps \<Longrightarrow> j < length ps \<Longrightarrow>
   part_chunk req_id tid ps i = part_chunk req_id tid ps j \<longleftrightarrow> i = j"
  by (auto simp: part_chunk_def of_nat_u16_inj)

lemma push_all_progress:
  assumes "in_progress req_id tid ps S r" and "map_of (ra_transfers r) tid \<noteq> None" and "S \<subseteq> {..<length ps}"
    and len: "length ps < 2 ^ 16" and size: "length (concat ps) \<le> MAX_TRANSFER_BYTES"
    and "\<forall>(d, now) \<in> set ds. ck_transfer_id d = tid \<longrightarrow> d \<in> part_chunk req_id tid ps ` {..<length ps}"
    and "S \<union> delivered req_id tid ps ds \<noteq> {..<length ps}"
  shows "in_progress req_id tid ps (S \<union> delivered req_id tid ps ds) (push_all r ds)
    \<and> map_of (ra_transfers (push_all r ds)) tid \<noteq> None"
  using assms(1-3,6,7)
proof (induction ds arbitrary: r S)
  case Nil
  then show ?case by (simp add: delivered_def)
next
  case (Cons d ds)
  obtain c now where d: "d = (c, now)" by (cases d)
  show ?case
  proof (cases "ck_transfer_id c = tid")
    case False
    then have del: "delivered req_id tid ps (d # ds) = delivered req_id tid ps ds"
      by (auto simp: delivered_def d part_chunk_def)
    have other: "map_of (ra_transfers (snd (push r c now))) tid = map_of (ra_transfers r) tid"
      using False by (rule push_other)
    then have "in_progress req_id tid ps S (snd (push r c now))"
      using Cons.prems(1,2) by (auto simp: in_progress_def)
    from Cons.IH [OF this] other Cons.prems(2-5) show ?thesis
      by (simp add: d del [unfolded d])
  next
    case True
    with Cons.prems(4) obtain i where i: "i < length ps" and c: "c = part_chunk req_id tid ps i"
      by (auto simp: d)
    have del: "delivered req_id tid ps (d # ds) = insert i (delivered req_id tid ps ds)"
      using i by (auto simp: delivered_def d c part_chunk_inj [OF len])
    then have "insert i S \<noteq> {..<length ps}"
      using Cons.prems(5) by (auto simp: delivered_def)
    from push_part(1) [OF Cons.prems(1,3) i len size this, of now] c
    obtain r' where r': "push r c now = (Inr None, r')" "in_progress req_id tid ps (insert i S) r'"
      "map_of (ra_transfers r') tid \<noteq> None" by auto
    show ?thesis
      using Cons.IH [OF r'(2,3)] Cons.prems(3,4,5) i by (simp add: d r' del [unfolded d])
  qed
qed


section \<open>The splitter\<close>

lemma concat_chunks_of: "0 < n \<Longrightarrow> concat (chunks_of n bs) = bs"
  by (induction n bs rule: chunks_of.induct) (subst chunks_of.simps, auto)

lemma split_chunks:
  assumes "split_into_chunks req_id tid payload sz = Some cs"
  obtains ps where "cs = map (part_chunk req_id tid ps) [0..<length ps]" "concat ps = payload" "ps \<noteq> []"
proof -
  define ps where "ps = (if payload = [] then [[]] else chunks_of sz payload)"
  have "cs = map (part_chunk req_id tid ps) [0..<length ps]"
    using assms
    by (auto simp: split_into_chunks_def Let_def ps_def [symmetric] part_chunk_def enumerate_eq_zip
        intro!: nth_equalityI split: if_splits)
  moreover have "concat ps = payload" "ps \<noteq> []"
    using assms concat_chunks_of [of sz payload]
    by (auto simp: ps_def split_into_chunks_def chunks_of.simps [of sz payload] split: if_splits)
  ultimately show thesis by (rule that)
qed


lemma push_all_fresh:
  assumes start: "in_progress req_id tid ps {} r"
    and len: "length ps < 2 ^ 16" and sz: "length (concat ps) \<le> MAX_TRANSFER_BYTES"
    and first: "ds = [] \<or> fst (hd ds) \<in> part_chunk req_id tid ps ` {..<length ps}"
    and ours: "\<forall>(d, now) \<in> set ds. ck_transfer_id d = tid \<longrightarrow> d \<in> part_chunk req_id tid ps ` {..<length ps}"
    and some: "delivered req_id tid ps ds \<noteq> {..<length ps}"
  shows "in_progress req_id tid ps (delivered req_id tid ps ds) (push_all r ds)"
proof (cases ds)
  case Nil
  then show ?thesis using start by (simp add: delivered_def)
next
  case (Cons d ds')
  then obtain j now0 where d: "d = (part_chunk req_id tid ps j, now0)" and j: "j < length ps"
    using first by (cases d) auto
  have del: "delivered req_id tid ps ds = insert j (delivered req_id tid ps ds')"
    using j by (auto simp: Cons d delivered_def part_chunk_inj [OF len])
  have "{j} \<noteq> {..<length ps}" using some del delivered_subset [of req_id tid ps ds'] by auto
  from push_part(1) [OF start _ j len sz this, of now0] obtain r' where
    "push r (part_chunk req_id tid ps j) now0 = (Inr None, r')" "in_progress req_id tid ps {j} r'"
    "map_of (ra_transfers r') tid \<noteq> None" by auto
  with push_all_progress [of req_id tid ps "{j}" r' ds'] j len sz ours some show ?thesis
    by (simp add: Cons d del [unfolded Cons d])
qed

section \<open>Expiry\<close>

lemma map_of_filter_values:
  "distinct (map fst xs) \<Longrightarrow>
   map_of (filter (\<lambda>(k, v). P v) xs) i = (case map_of xs i of Some v \<Rightarrow> if P v then Some v else None | None \<Rightarrow> None)"
  by (induction xs) (auto split: option.splits dest: map_of_SomeD simp: map_of_eq_None_iff rev_image_eqI)

lemma expired_ids:
  "ex_transfer_id ` set (fst (expire r now)) =
     fst ` {(i, t) \<in> set (ra_transfers r). is_expired (ra_timeout r) now t}"
  by (force simp: expire_def Let_def image_iff)

lemma push_open_transfer:
  assumes "push r c now = (Inr None, r')"
  shows "ra_timeout r' = ra_timeout r"
    and "\<exists>t. map_of (ra_transfers r') (ck_transfer_id c) = Some t \<and> tf_last_activity t = now"
  using assms
  by (auto simp: push_def Let_def update_conv' accept_part_def split: if_splits)

section \<open>Properties\<close>

text \<open>
  Whatever datagrams arrive, in whatever order and however the sweeper runs, at most eight
  transfers are open and at most 32 MiB are buffered.
\<close>

lemma reassembler_bounded:
  assumes "reachable reassembler_initial reassembler_step r"
  shows "in_flight r \<le> 8 \<and> buffered r \<le> 8 * (4 * 1024 * 1024)"
  using reassembler_inv.reachable_inv [OF assms] buffered_bound [of r]
  by (simp add: reassembler_ok_def in_flight_def MAX_TRANSFERS_IN_FLIGHT_def MAX_TRANSFER_BYTES_def)

text \<open>
  C36. A payload that was split is put together again exactly when its last missing chunk
  arrives: in any order, with any duplicates, and interleaved with any chunks of other transfers.
\<close>

theorem reassembly_any_order:
  assumes split: "split_into_chunks req_id tid payload sz = Some cs" and "length cs < 2 ^ 16"
    and "length payload \<le> MAX_TRANSFER_BYTES"
    and fresh: "map_of (ra_transfers r) tid = None" and slot: "in_flight r < MAX_TRANSFERS_IN_FLIGHT"
    and first: "ds = [] \<or> fst (hd ds) \<in> set cs"
    and ours: "\<forall>(d, now) \<in> set ds. ck_transfer_id d = tid \<longrightarrow> d \<in> set cs"
    and missing: "\<not> set cs \<subseteq> fst ` set ds" and last: "c \<in> set cs" "set cs \<subseteq> insert c (fst ` set ds)"
  shows "fst (push (push_all r ds) c now) =
    Inr (Some \<lparr>as_req_id = req_id, as_transfer_id = tid, as_payload = payload\<rparr>)"
proof -
  obtain ps where cs: "cs = map (part_chunk req_id tid ps) [0..<length ps]" and ps: "concat ps = payload"
    by (rule split_chunks [OF split])
  have len: "length ps < 2 ^ 16" and sz: "length (concat ps) \<le> MAX_TRANSFER_BYTES"
    using assms(2,3) by (simp_all add: cs ps)
  have set_cs: "set cs = part_chunk req_id tid ps ` {..<length ps}" by (auto simp: cs)
  let ?S = "delivered req_id tid ps ds"
  have some: "?S \<noteq> {..<length ps}" using missing by (auto simp: delivered_def set_cs)
  obtain i where i: "i < length ps" and c: "c = part_chunk req_id tid ps i" using last(1) by (auto simp: set_cs)
  have all: "insert i ?S = {..<length ps}"
    using last(2) i by (auto simp: delivered_def set_cs c part_chunk_inj [OF len])
  have "in_progress req_id tid ps {} r" using fresh slot by (simp add: in_progress_def)
  from push_all_fresh [OF this len sz first [unfolded set_cs] ours [unfolded set_cs] some]
  have "in_progress req_id tid ps ?S (push_all r ds)" .
  from push_part(2) [OF this delivered_subset i len sz all, of now] show ?thesis
    by (simp add: c ps)
qed

theorem reassembly_any_order_witness:
  "let c = (\<lambda>i d. \<lparr>ck_req_id = 9, ck_transfer_id = 4, ck_index = i, ck_total = 2, ck_data = d\<rparr>);
       other = \<lparr>ck_req_id = 8, ck_transfer_id = 5, ck_index = 0, ck_total = 3, ck_data = [7]\<rparr>
   in fst (push (push_all (new_reassembler 100) [(c 1 [3], 0), (other, 1), (c 1 [3], 2)]) (c 0 [1, 2]) 3)
      = Inr (Some \<lparr>as_req_id = 9, as_transfer_id = 4, as_payload = [1, 2, 3]\<rparr>)"
proof -
  define c where "c = (\<lambda>i d. \<lparr>ck_req_id = (9 :: u32), ck_transfer_id = (4 :: u32), ck_index = (i :: u16), ck_total = (2 :: u16), ck_data = (d :: bytes)\<rparr>)"
  define other where "other = \<lparr>ck_req_id = (8 :: u32), ck_transfer_id = (5 :: u32), ck_index = (0 :: u16), ck_total = (3 :: u16), ck_data = ([7] :: bytes)\<rparr>"
  have split: "split_into_chunks 9 4 [1, 2, 3] 2 = Some [c 0 [1, 2], c 1 [3]]"
    by (simp add: split_into_chunks_def c_def chunks_of.simps Let_def)
  have "fst (push (push_all (new_reassembler 100) [(c 1 [3], 0), (other, 1), (c 1 [3], 2)]) (c 0 [1, 2]) 3)
      = Inr (Some \<lparr>as_req_id = 9, as_transfer_id = 4, as_payload = [1, 2, 3]\<rparr>)"
    by (rule reassembly_any_order [OF split])
       (simp_all add: c_def other_def new_reassembler_def in_flight_def MAX_TRANSFER_BYTES_def MAX_TRANSFERS_IN_FLIGHT_def)
  then show ?thesis by (simp add: c_def other_def)
qed

text \<open>
  A transfer is dropped and reported by the sweep exactly when nothing has arrived for it
  for the timeout: a chunk that leaves it open at \<open>t0\<close> keeps it alive at every sweep before
  \<open>t0 + timeout\<close> and no longer.
\<close>

lemma expiry_exact:
  assumes "reachable reassembler_initial reassembler_step r" and "decode_chunk bs = Inr c"
    and "push r c t0 = (Inr None, r')"
  shows "(ck_transfer_id c \<in> ex_transfer_id ` set (fst (expire r' t1)) \<longleftrightarrow> ra_timeout r \<le> t1 - t0)
    \<and> (map_of (ra_transfers (snd (expire r' t1))) (ck_transfer_id c) = None \<longleftrightarrow> ra_timeout r \<le> t1 - t0)"
proof -
  have "reassembler_ok r'"
    using push_ok [OF reassembler_inv.reachable_inv [OF assms(1)] decode_chunk_ok [OF assms(2)], of t0] assms(3) by simp
  then have dist: "distinct (map fst (ra_transfers r'))" by (simp add: reassembler_ok_def)
  obtain t where t: "map_of (ra_transfers r') (ck_transfer_id c) = Some t" "tf_last_activity t = t0"
    using push_open_transfer(2) [OF assms(3)] by blast
  have "(ck_transfer_id c, u) \<in> set (ra_transfers r') \<longleftrightarrow> u = t" for u
    using t(1) map_of_eq_Some_iff [OF dist] by (metis option.inject)
  then have "ck_transfer_id c \<in> ex_transfer_id ` set (fst (expire r' t1)) \<longleftrightarrow> is_expired (ra_timeout r') t1 t"
    by (auto simp: expired_ids image_iff)
  moreover have "map_of (ra_transfers (snd (expire r' t1))) (ck_transfer_id c) = None \<longleftrightarrow> is_expired (ra_timeout r') t1 t"
    using t(1) map_of_filter_values [OF dist, of "\<lambda>t. \<not> is_expired (ra_timeout r') t1 t"]
    by (simp add: expire_def Let_def)
  ultimately show ?thesis
    using t(2) push_open_transfer(1) [OF assms(3)] by (simp add: is_expired_def)
qed


end
