(* ===== verification/Error_Latch.thy ===== *)
theory Error_Latch
  imports F64 Reachability
begin

text \<open>
  The error latch of the control loop: \<open>ErrorCode\<close>, \<open>ErrorEntry\<close> and the fixed-capacity
  \<open>ErrorList\<close> of \<open>par6-rt/src/state.rs\<close>, and the \<open>ErrorManager\<close> with its clear countdown of
  \<open>par6-rt/src/errors.rs\<close>.

  The list keeps the source's array of 32 slots and its length byte. The interface
  \<open>bounded_set\<close> states what an insertion, a removal and a wipe do to the entries a reader
  sees; the manager's lemmas rest on it.
\<close>

section \<open>Codes and entries\<close>

datatype error_code =
    E_Estop | E_SwEstop | E_ExecLinkLost | E_ExecSettleTimeout | E_RtiLinkLost | E_StreamFault
  | E_LoopDegraded | E_LoopCritical | E_NotHomed | E_Temperature | E_Encoder | E_Vbus | E_Driver
  | E_Velocity | E_Current | E_EstopMotor | E_Watchdog | E_CanLost | E_CanStale | E_HomingFailed
  | E_GripperFault | E_GripperCalibrationFailed | E_BusOff | E_LinkErrorPassive | E_TorqueEnvelope

definition is_warning :: "error_code \<Rightarrow> bool" where
  "is_warning c \<longleftrightarrow> c \<in> {E_CanStale, E_HomingFailed, E_NotHomed, E_LoopDegraded, E_LinkErrorPassive}"

record error_entry =
  ee_code :: error_code
  ee_joint :: "u8 option"

definition MAX_ERRORS :: nat where "MAX_ERRORS = 32"

section \<open>The list\<close>

record error_list =
  el_entries :: "error_entry list"
  el_len :: u8

definition new_error_list :: error_list where
  "new_error_list = \<lparr>el_entries = replicate MAX_ERRORS \<lparr>ee_code = E_Estop, ee_joint = None\<rparr>, el_len = 0\<rparr>"

definition as_slice :: "error_list \<Rightarrow> error_entry list" where
  "as_slice l = take (unat (el_len l)) (el_entries l)"

definition el_contains :: "error_list \<Rightarrow> error_entry \<Rightarrow> bool" where
  "el_contains l e \<longleftrightarrow> e \<in> set (as_slice l)"

definition el_insert :: "error_list \<Rightarrow> error_entry \<Rightarrow> bool \<times> error_list" where
  "el_insert l e =
     (if el_contains l e then (True, l)
      else let len = unat (el_len l) in
      if MAX_ERRORS \<le> len then (False, l)
      else (True, l\<lparr>el_entries := (el_entries l)[len := e], el_len := el_len l + 1\<rparr>))"

text \<open>\<open>iter().position(|e| *e == entry)\<close> and \<open>copy_within(src, dest)\<close>.\<close>

fun position :: "'a \<Rightarrow> 'a list \<Rightarrow> nat option" where
  "position x [] = None"
| "position x (y # ys) = (if y = x then Some 0 else map_option Suc (position x ys))"

definition copy_within :: "'a list \<Rightarrow> nat \<Rightarrow> nat \<Rightarrow> nat \<Rightarrow> 'a list" where
  "copy_within xs start stop dest =
     (let src = take (stop - start) (drop start xs) in take dest xs @ src @ drop (dest + length src) xs)"

definition el_remove :: "error_list \<Rightarrow> error_entry \<Rightarrow> bool \<times> error_list" where
  "el_remove l e =
     (let len = unat (el_len l) in
      case position e (take len (el_entries l)) of
        None \<Rightarrow> (False, l)
      | Some pos \<Rightarrow> (True, l\<lparr>el_entries := copy_within (el_entries l) (pos + 1) len pos, el_len := el_len l - 1\<rparr>))"

definition list_any_hard :: "error_list \<Rightarrow> bool" where
  "list_any_hard l \<longleftrightarrow> list_ex (\<lambda>e. \<not> is_warning (ee_code e)) (as_slice l)"

definition el_clear :: "error_list \<Rightarrow> error_list" where
  "el_clear l = l\<lparr>el_len := 0\<rparr>"

section \<open>The manager\<close>

definition CLEAR_SETTLE_S :: f64 where "CLEAR_SETTLE_S = 0x3FC374BC6A7EF9DB"  \<comment> \<open>0.152\<close>

record error_manager =
  em_list :: error_list
  em_settle_ticks :: u32
  em_settle_left :: u32

definition new_error_manager :: "f64 \<Rightarrow> error_manager" where
  "new_error_manager dt = \<lparr>em_list = new_error_list,
     em_settle_ticks = max (of_nat (f64_round_to_nat (f64_div CLEAR_SETTLE_S dt) (2 ^ 32 - 1))) 1,
     em_settle_left = 0\<rparr>"

definition latch :: "error_manager \<Rightarrow> error_code \<Rightarrow> u8 option \<Rightarrow> error_manager" where
  "latch m code joint =
     (let entry = \<lparr>ee_code = code, ee_joint = joint\<rparr> in
      if \<not> el_contains (em_list m) entry then m\<lparr>em_list := snd (el_insert (em_list m) entry)\<rparr> else m)"

text \<open>\<open>debug_assert!(code.is_warning())\<close> is not part of a release build; the loop only passes warnings.\<close>

definition condition :: "error_manager \<Rightarrow> error_code \<Rightarrow> u8 option \<Rightarrow> bool \<Rightarrow> error_manager" where
  "condition m code joint active =
     (let entry = \<lparr>ee_code = code, ee_joint = joint\<rparr> in
      if active
      then if \<not> el_contains (em_list m) entry then m\<lparr>em_list := snd (el_insert (em_list m) entry)\<rparr> else m
      else m\<lparr>em_list := snd (el_remove (em_list m) entry)\<rparr>)"

definition begin_clear :: "error_manager \<Rightarrow> error_manager" where
  "begin_clear m = m\<lparr>em_settle_left := em_settle_ticks m\<rparr>"

definition em_tick :: "error_manager \<Rightarrow> bool \<times> error_manager" where
  "em_tick m =
     (if em_settle_left m = 0 then (False, m)
      else let m = m\<lparr>em_settle_left := em_settle_left m - 1\<rparr> in
      if em_settle_left m = 0 then (True, m\<lparr>em_list := el_clear (em_list m)\<rparr>) else (False, m))"

definition clearing :: "error_manager \<Rightarrow> bool" where
  "clearing m \<longleftrightarrow> 0 < em_settle_left m"

definition any_hard :: "error_manager \<Rightarrow> bool" where
  "any_hard m \<longleftrightarrow> list_any_hard (em_list m)"

section \<open>The list as a bounded set\<close>

locale bounded_set =
  fixes ok :: "'s \<Rightarrow> bool" and entries :: "'s \<Rightarrow> 'e list" and cap :: nat
    and ins :: "'s \<Rightarrow> 'e \<Rightarrow> bool \<times> 's" and rem :: "'s \<Rightarrow> 'e \<Rightarrow> bool \<times> 's" and wipe :: "'s \<Rightarrow> 's"
  assumes bounded: "ok s \<Longrightarrow> distinct (entries s) \<and> length (entries s) \<le> cap"
    and ins_ok: "ok s \<Longrightarrow> ok (snd (ins s e))"
    and ins_entries: "ok s \<Longrightarrow> entries (snd (ins s e)) =
      (if e \<in> set (entries s) \<or> length (entries s) = cap then entries s else entries s @ [e])"
    and ins_result: "ok s \<Longrightarrow> fst (ins s e) \<longleftrightarrow> e \<in> set (entries (snd (ins s e)))"
    and rem_ok: "ok s \<Longrightarrow> ok (snd (rem s e))"
    and rem_entries: "ok s \<Longrightarrow> entries (snd (rem s e)) = remove1 e (entries s)"
    and rem_result: "ok s \<Longrightarrow> fst (rem s e) \<longleftrightarrow> e \<in> set (entries s)"
    and wipe_ok: "ok s \<Longrightarrow> ok (wipe s)"
    and wipe_entries: "entries (wipe s) = []"
begin

lemma ins_keeps: "ok s \<Longrightarrow> x \<in> set (entries s) \<Longrightarrow> x \<in> set (entries (snd (ins s e)))"
  by (simp add: ins_entries)

lemma rem_other: "ok s \<Longrightarrow> x \<noteq> e \<Longrightarrow> x \<in> set (entries s) \<Longrightarrow> x \<in> set (entries (snd (rem s e)))"
  by (simp add: rem_entries)

lemma rem_gone: "ok s \<Longrightarrow> e \<notin> set (entries (snd (rem s e)))"
  using bounded [of s] by (simp add: rem_entries)

lemma ins_dropped: "ok s \<Longrightarrow> e \<notin> set (entries (snd (ins s e))) \<Longrightarrow> length (entries s) = cap"
  by (simp add: ins_entries split: if_splits)

end

definition error_list_ok :: "error_list \<Rightarrow> bool" where
  "error_list_ok l \<longleftrightarrow> length (el_entries l) = MAX_ERRORS \<and> unat (el_len l) \<le> MAX_ERRORS \<and> distinct (as_slice l)"

lemma position_remove1:
  "position x xs = Some p \<Longrightarrow> p < length xs \<and> remove1 x xs = take p xs @ drop (Suc p) xs"
  by (induction xs arbitrary: p) (auto split: if_splits)

lemma position_None: "position x xs = None \<longleftrightarrow> x \<notin> set xs"
  by (induction xs) auto

lemma unat_u8_inc: "unat (n :: u8) < 255 \<Longrightarrow> unat (n + 1) = Suc (unat n)"
  by (simp add: unat_word_ariths)

lemma unat_u8_dec: "0 < unat (n :: u8) \<Longrightarrow> unat (n - 1) = unat n - 1"
  by (simp add: unat_sub word_le_nat_alt)


lemma as_slice_insert:
  assumes "error_list_ok l" and "\<not> el_contains l e" and "unat (el_len l) < MAX_ERRORS"
  shows "as_slice (l\<lparr>el_entries := (el_entries l)[unat (el_len l) := e], el_len := el_len l + 1\<rparr>) = as_slice l @ [e]"
  using assms
  by (simp add: as_slice_def error_list_ok_def MAX_ERRORS_def unat_u8_inc take_Suc_conv_app_nth)

lemma as_slice_remove:
  assumes "error_list_ok l" and "position e (take (unat (el_len l)) (el_entries l)) = Some p"
  shows "as_slice (l\<lparr>el_entries := copy_within (el_entries l) (p + 1) (unat (el_len l)) p, el_len := el_len l - 1\<rparr>)
    = remove1 e (as_slice l)"
proof -
  let ?n = "unat (el_len l)" and ?es = "el_entries l"
  have n: "?n \<le> length ?es" using assms(1) by (simp add: error_list_ok_def)
  from position_remove1 [OF assms(2)] n have p: "p < ?n"
    and r: "remove1 e (as_slice l) = take p ?es @ take (?n - Suc p) (drop (Suc p) ?es)"
    by (auto simp: as_slice_def min_def drop_take split: if_splits)
  have "unat (el_len l - 1) = ?n - 1" using p by (intro unat_u8_dec) simp
  with p n show ?thesis
    unfolding r by (simp add: copy_within_def as_slice_def Let_def)
qed

lemma length_copy_within:
  "start \<le> stop \<Longrightarrow> stop \<le> length xs \<Longrightarrow> dest \<le> start \<Longrightarrow> length (copy_within xs start stop dest) = length xs"
  by (simp add: copy_within_def Let_def)

interpretation error_set: bounded_set error_list_ok as_slice MAX_ERRORS el_insert el_remove el_clear
proof
  fix l :: error_list and e :: error_entry
  assume ok: "error_list_ok l"
  then have len: "length (as_slice l) = unat (el_len l)" by (simp add: error_list_ok_def as_slice_def)
  show "distinct (as_slice l) \<and> length (as_slice l) \<le> MAX_ERRORS"
    using ok len by (simp add: error_list_ok_def)
  show ins: "as_slice (snd (el_insert l e)) =
      (if e \<in> set (as_slice l) \<or> length (as_slice l) = MAX_ERRORS then as_slice l else as_slice l @ [e])"
    using ok len as_slice_insert [OF ok, of e]
    by (auto simp: el_insert_def Let_def el_contains_def error_list_ok_def)
  show "error_list_ok (snd (el_insert l e))"
    using ok ins by (auto simp: el_insert_def Let_def error_list_ok_def el_contains_def MAX_ERRORS_def unat_u8_inc split: if_splits)
  show "fst (el_insert l e) \<longleftrightarrow> e \<in> set (as_slice (snd (el_insert l e)))"
    using ok len ins by (auto simp: el_insert_def Let_def el_contains_def error_list_ok_def)
  show rem: "as_slice (snd (el_remove l e)) = remove1 e (as_slice l)"
    using as_slice_remove [OF ok]
    by (auto simp: el_remove_def Let_def as_slice_def position_None remove1_idem split: option.splits)
  show "error_list_ok (snd (el_remove l e))"
    using ok rem position_remove1 [of e "take (unat (el_len l)) (el_entries l)"] unat_u8_dec [of "el_len l"]
    by (auto simp: el_remove_def Let_def error_list_ok_def length_copy_within split: option.splits)
  show "fst (el_remove l e) \<longleftrightarrow> e \<in> set (as_slice l)"
    using position_None [of e "take (unat (el_len l)) (el_entries l)"]
    by (auto simp: el_remove_def Let_def as_slice_def split: option.splits)
  show "error_list_ok (el_clear l)" using ok by (simp add: error_list_ok_def el_clear_def as_slice_def)
qed (simp add: el_clear_def as_slice_def)


section \<open>The manager's laws\<close>

text \<open>
  What the loop latches: warnings carry no joint or, for the two per-joint warnings, one of the
  seven nodes.
\<close>

definition NUM_NODES :: nat where "NUM_NODES = 7"

definition entry_ok :: "error_entry \<Rightarrow> bool" where
  "entry_ok e \<longleftrightarrow>
     (ee_code e \<in> {E_NotHomed, E_LoopDegraded, E_LinkErrorPassive} \<longrightarrow> ee_joint e = None)
     \<and> (ee_code e \<in> {E_CanStale, E_HomingFailed} \<longrightarrow> (\<exists>j. ee_joint e = Some j \<and> unat j < NUM_NODES))"

definition manager_ok :: "error_manager \<Rightarrow> bool" where
  "manager_ok m \<longleftrightarrow> error_list_ok (em_list m) \<and> list_all entry_ok (as_slice (em_list m))
     \<and> 0 < em_settle_ticks m \<and> em_settle_left m \<le> em_settle_ticks m"

definition em_entries :: "error_manager \<Rightarrow> error_entry set" where
  "em_entries m = set (as_slice (em_list m))"

inductive manager_step :: "error_manager \<Rightarrow> error_manager \<Rightarrow> bool" where
  step_latch: "entry_ok \<lparr>ee_code = code, ee_joint = joint\<rparr> \<Longrightarrow> manager_step m (latch m code joint)"
| step_condition: "is_warning code \<Longrightarrow> entry_ok \<lparr>ee_code = code, ee_joint = joint\<rparr> \<Longrightarrow>
    manager_step m (condition m code joint active)"
| step_begin_clear: "manager_step m (begin_clear m)"
| step_tick: "manager_step m (snd (em_tick m))"

definition manager_initial :: "error_manager \<Rightarrow> bool" where
  "manager_initial m \<longleftrightarrow> (\<exists>dt. m = new_error_manager dt)"

lemma entry_set_remove: "set (remove1 x xs) \<subseteq> set xs" by (rule set_remove1_subset)

lemma latch_list:
  "em_list (latch m code joint) = (if el_contains (em_list m) \<lparr>ee_code = code, ee_joint = joint\<rparr> then em_list m
     else snd (el_insert (em_list m) \<lparr>ee_code = code, ee_joint = joint\<rparr>))"
  by (simp add: latch_def Let_def)

lemma latch_ok:
  "manager_ok m \<Longrightarrow> entry_ok \<lparr>ee_code = code, ee_joint = joint\<rparr> \<Longrightarrow> manager_ok (latch m code joint)"
  by (auto simp: manager_ok_def latch_def Let_def error_set.ins_ok error_set.ins_entries list_all_iff)

lemma condition_ok:
  "manager_ok m \<Longrightarrow> entry_ok \<lparr>ee_code = code, ee_joint = joint\<rparr> \<Longrightarrow> manager_ok (condition m code joint active)"
  using entry_set_remove
  by (auto simp: manager_ok_def condition_def Let_def error_set.ins_ok error_set.ins_entries error_set.rem_ok
      error_set.rem_entries list_all_iff dest!: notin_set_remove1 [THEN notE, rotated])

lemma unat_u32_dec: "(n :: u32) \<noteq> 0 \<Longrightarrow> unat (n - 1) = unat n - 1"
  by (simp add: unat_sub word_le_nat_alt unat_gt_0 Suc_le_eq)

lemma tick_ok: "manager_ok m \<Longrightarrow> manager_ok (snd (em_tick m))"
  by (auto simp: manager_ok_def em_tick_def Let_def error_set.wipe_ok error_set.wipe_entries word_le_nat_alt
      unat_u32_dec)

interpretation manager_inv: inductive_invariant manager_initial manager_step manager_ok
proof
  show "manager_ok m" if "manager_initial m" for m
    using that
    by (auto simp: manager_initial_def new_error_manager_def manager_ok_def error_list_ok_def new_error_list_def
        as_slice_def max_def word_le_nat_alt word_less_nat_alt)
  show "manager_ok m'" if "manager_ok m" "manager_step m m'" for m m'
    using that(2,1)
    by cases (auto simp: latch_ok condition_ok tick_ok, simp add: manager_ok_def begin_clear_def)
qed


text \<open>Only three bare and fourteen per-node warnings exist, so a full list holds a hard error.\<close>

definition warning_entries :: "error_entry list" where
  "warning_entries = map (\<lambda>c. \<lparr>ee_code = c, ee_joint = None\<rparr>) [E_NotHomed, E_LoopDegraded, E_LinkErrorPassive]
     @ concat (map (\<lambda>c. map (\<lambda>j. \<lparr>ee_code = c, ee_joint = Some (of_nat j)\<rparr>) [0..<NUM_NODES]) [E_CanStale, E_HomingFailed])"

lemma warning_entry_in:
  assumes "entry_ok e" and "is_warning (ee_code e)"
  shows "e \<in> set warning_entries"
proof -
  have "j \<in> of_nat ` {0..<NUM_NODES}" if "unat j < NUM_NODES" for j :: u8
    using that by (intro image_eqI [where x = "unat j"]) simp_all
  then show ?thesis
    using assms by (cases e) (auto simp: entry_ok_def is_warning_def warning_entries_def image_iff)
qed

lemma full_list_hard:
  assumes "manager_ok m" and "length (as_slice (em_list m)) = MAX_ERRORS"
  shows "any_hard m"
proof (rule ccontr)
  assume "\<not> any_hard m"
  then have "set (as_slice (em_list m)) \<subseteq> set warning_entries"
    using assms(1) warning_entry_in by (auto simp: any_hard_def list_any_hard_def list_ex_iff manager_ok_def list_all_iff)
  then have "card (set (as_slice (em_list m))) \<le> length warning_entries"
    using card_mono [OF finite_set] card_length order_trans by blast
  moreover have "card (set (as_slice (em_list m))) = MAX_ERRORS"
    using assms error_set.bounded [of "em_list m"] by (simp add: manager_ok_def distinct_card)
  ultimately show False
    by (simp add: warning_entries_def NUM_NODES_def MAX_ERRORS_def)
qed

section \<open>The clear countdown\<close>

definition em_ticks :: "nat \<Rightarrow> error_manager \<Rightarrow> error_manager" where
  "em_ticks n = (\<lambda>m. snd (em_tick m)) ^^ n"

lemma em_ticks_Suc: "em_ticks (Suc n) m = snd (em_tick (em_ticks n m))"
  by (simp add: em_ticks_def)

lemma em_ticks_counting:
  "n < unat (em_settle_left m) \<Longrightarrow>
   unat (em_settle_left (em_ticks n m)) = unat (em_settle_left m) - n \<and> em_list (em_ticks n m) = em_list m"
proof (induction n)
  case 0
  then show ?case by (simp add: em_ticks_def)
next
  case (Suc n)
  let ?m = "em_ticks n m"
  from Suc have left: "unat (em_settle_left ?m) = unat (em_settle_left m) - n" and l: "em_list ?m = em_list m" by auto
  then have "em_settle_left ?m \<noteq> 0" using Suc.prems by auto
  moreover have dec: "unat (em_settle_left ?m - 1) = unat (em_settle_left m) - Suc n"
    using unat_u32_dec [OF \<open>em_settle_left ?m \<noteq> 0\<close>] left by simp
  moreover have "em_settle_left ?m - 1 \<noteq> 0" using dec Suc.prems by (metis unat_0 zero_less_diff less_irrefl)
  ultimately show ?case using l by (simp add: em_ticks_Suc em_tick_def Let_def)
qed

lemma em_tick_last:
  assumes "unat (em_settle_left m) = 1"
  shows "fst (em_tick m)" and "em_entries (snd (em_tick m)) = {}" and "\<not> clearing (snd (em_tick m))"
proof -
  have "em_settle_left m = 1" using assms by (metis unat_1 word_unat_eq_iff)
  then show "fst (em_tick m)" "em_entries (snd (em_tick m)) = {}" "\<not> clearing (snd (em_tick m))"
    by (simp_all add: em_tick_def Let_def em_entries_def error_set.wipe_entries clearing_def)
qed

lemma begin_clear_left:
  "em_settle_left (begin_clear m) = em_settle_ticks m" "em_list (begin_clear m) = em_list m"
  by (simp_all add: begin_clear_def)

lemma em_entries_begin_clear: "em_entries (begin_clear m) = em_entries m"
  by (simp add: em_entries_def begin_clear_left)

lemma manager_start: "reachable manager_initial manager_step (new_error_manager dt)"
  by (rule reachable_init) (auto simp: manager_initial_def)

lemma first_latch: "em_entries (latch (new_error_manager dt) code joint) = {\<lparr>ee_code = code, ee_joint = joint\<rparr>}"
proof -
  have empty: "as_slice (em_list (new_error_manager dt)) = []"
    by (simp add: new_error_manager_def new_error_list_def as_slice_def)
  have "error_list_ok (em_list (new_error_manager dt))"
    using manager_inv.reachable_inv [OF manager_start, of dt] by (simp add: manager_ok_def)
  from error_set.ins_entries [OF this] show ?thesis
    by (simp add: em_entries_def latch_list el_contains_def empty MAX_ERRORS_def)
qed

lemma latch_raises:
  assumes "manager_ok m" and "\<not> is_warning code"
  shows "any_hard (latch m code joint)"
proof -
  note ok = assms(1)
  let ?e = "\<lparr>ee_code = code, ee_joint = joint\<rparr>"
  show ?thesis
  proof (cases "?e \<in> set (as_slice (em_list (latch m code joint)))")
    case True
    with assms(2) show ?thesis by (force simp: any_hard_def list_any_hard_def list_ex_iff)
  next
    case False
    then have "length (as_slice (em_list m)) = MAX_ERRORS"
      using ok error_set.ins_dropped [of "em_list m" ?e] by (auto simp: latch_list manager_ok_def el_contains_def split: if_splits)
    then have "any_hard m" by (rule full_list_hard [OF ok])
    then show ?thesis
      using ok error_set.ins_keeps [of "em_list m"]
      by (auto simp: any_hard_def list_any_hard_def list_ex_iff latch_list manager_ok_def)
  qed
qed

lemma hard_stays:
  assumes "manager_ok m" and "any_hard m"
  shows "any_hard (latch m code joint)" and "is_warning code \<Longrightarrow> any_hard (condition m code joint active)"
proof -
  have ok: "error_list_ok (em_list m)" using assms(1) by (simp add: manager_ok_def)
  from assms(2) obtain e where e: "e \<in> set (as_slice (em_list m))" "\<not> is_warning (ee_code e)"
    by (auto simp: any_hard_def list_any_hard_def list_ex_iff)
  show "any_hard (latch m code joint)"
    using e error_set.ins_keeps [OF ok] by (auto simp: any_hard_def list_any_hard_def list_ex_iff latch_list)
  show "any_hard (condition m code joint active)" if "is_warning code"
  proof -
    have "e \<noteq> \<lparr>ee_code = code, ee_joint = joint\<rparr>" using e(2) that by auto
    with e error_set.ins_keeps [OF ok] error_set.rem_other [OF ok] show ?thesis
      by (auto simp: any_hard_def list_any_hard_def list_ex_iff condition_def Let_def)
  qed
qed

section \<open>Properties\<close>

text \<open>
  A hard error is never lost: in every reachable state, latching a hard code leaves the
  hard-error condition raised, even when all 32 slots are taken and the entry is dropped.
\<close>

lemma hard_latch_raises:
  assumes "reachable manager_initial manager_step m" and "\<not> is_warning code"
  shows "any_hard (latch m code joint)"
  by (rule latch_raises [OF manager_inv.reachable_inv [OF assms(1)] assms(2)])

text \<open>
  C29. A hard entry stays latched: no further latch, no warning that comes or goes, no start of a
  clear and no tick removes it, except the one tick on which the settle countdown ends.
\<close>

theorem hard_entry_persists:
  assumes "reachable manager_initial manager_step m" and "e \<in> em_entries m" and "\<not> is_warning (ee_code e)"
    and "manager_step m m'" and "m' \<noteq> snd (em_tick m) \<or> \<not> fst (em_tick m)"
  shows "e \<in> em_entries m'"
proof -
  have ok: "error_list_ok (em_list m)" using manager_inv.reachable_inv [OF assms(1)] by (simp add: manager_ok_def)
  note facts = error_set.ins_keeps [OF ok] error_set.rem_other [OF ok]
  show ?thesis using assms(4)
  proof cases
    case (step_latch code joint)
    with assms(2) facts show ?thesis by (simp add: em_entries_def latch_list)
  next
    case (step_condition code joint active)
    then have "e \<noteq> \<lparr>ee_code = code, ee_joint = joint\<rparr>" using assms(3) by auto
    with step_condition assms(2) facts show ?thesis by (simp add: em_entries_def condition_def Let_def)
  next
    case step_begin_clear
    with assms(2) show ?thesis by (simp add: em_entries_def begin_clear_def)
  next
    case step_tick
    with assms(2,5) show ?thesis by (auto simp: em_entries_def em_tick_def Let_def split: if_splits)
  qed
qed


text \<open>
  C30. Clearing takes exactly the settle window: after a clear begins, every entry is kept for
  the ticks of the window but the last, and the last wipes the latch and ends the countdown.
\<close>

theorem clear_settles:
  assumes "reachable manager_initial manager_step m"
  shows "(\<forall>k < unat (em_settle_ticks m). em_entries (em_ticks k (begin_clear m)) = em_entries m
       \<and> clearing (em_ticks k (begin_clear m)))
    \<and> em_entries (em_ticks (unat (em_settle_ticks m)) (begin_clear m)) = {}
    \<and> \<not> clearing (em_ticks (unat (em_settle_ticks m)) (begin_clear m))"
proof -
  let ?n = "unat (em_settle_ticks m)" and ?m = "begin_clear m"
  have pos: "0 < ?n"
    using manager_inv.reachable_inv [OF assms] by (simp add: manager_ok_def word_less_nat_alt)
  have run: "unat (em_settle_left (em_ticks k ?m)) = ?n - k \<and> em_list (em_ticks k ?m) = em_list m" if "k < ?n" for k
    using em_ticks_counting [of k ?m] that by (simp add: begin_clear_left)
  have "unat (em_settle_left (em_ticks (?n - 1) ?m)) = 1" using run [of "?n - 1"] pos by simp
  from em_tick_last [OF this] have "em_entries (em_ticks ?n ?m) = {} \<and> \<not> clearing (em_ticks ?n ?m)"
    using em_ticks_Suc [of "?n - 1" ?m] pos by simp
  with run show ?thesis
    by (auto simp: em_entries_def clearing_def word_less_nat_alt)
qed

theorem hard_entry_persists_witness:
  "\<lparr>ee_code = E_Estop, ee_joint = None\<rparr> \<in>
     em_entries (condition (latch (new_error_manager 0x3F70624DD2F1A9FC) E_Estop None) E_CanStale (Some 2) False)"
proof (rule hard_entry_persists)
  let ?m = "latch (new_error_manager 0x3F70624DD2F1A9FC) E_Estop None"
  show "reachable manager_initial manager_step ?m"
    by (rule reachable_step [OF manager_start step_latch]) (simp add: entry_ok_def)
  show "\<lparr>ee_code = E_Estop, ee_joint = None\<rparr> \<in> em_entries ?m"
    by (simp add: first_latch)
  show "manager_step ?m (condition ?m E_CanStale (Some 2) False)"
    by (rule step_condition) (simp_all add: is_warning_def entry_ok_def NUM_NODES_def)
  show "condition ?m E_CanStale (Some 2) False \<noteq> snd (em_tick ?m) \<or> \<not> fst (em_tick ?m)"
    by (simp add: em_tick_def latch_def Let_def new_error_manager_def)
qed (simp add: is_warning_def)

theorem clear_settles_witness:
  "let m = latch (new_error_manager 0x3F70624DD2F1A9FC) E_Estop None
   in em_entries (begin_clear m) \<noteq> {} \<and> em_entries (em_ticks (unat (em_settle_ticks m)) (begin_clear m)) = {}"
proof -
  let ?m = "latch (new_error_manager 0x3F70624DD2F1A9FC) E_Estop None"
  have "reachable manager_initial manager_step ?m"
    by (rule reachable_step [OF manager_start step_latch]) (simp add: entry_ok_def)
  from clear_settles [OF this] show ?thesis
    by (simp add: Let_def em_entries_begin_clear first_latch)
qed

end
