(* ===== verification/Ring.thy ===== *)
theory Ring
  imports F64 Reachability
begin

text \<open>
  The planner-to-loop sample ring of \<open>par6-rt/src/ring.rs\<close>: the shared state, the operations of
  the producer, the consumer and the flush marker.

  The shared state keeps the source's 64-bit counters: \<open>head\<close> and \<open>tail\<close> count samples ever
  popped and pushed. The operations are those of one thread at a time; \<open>Ring_Concurrent\<close> takes
  them apart into their atomic accesses. The interface \<open>bounded_queue\<close> is the contract of the
  ring as the planner and the loop use it.
\<close>

section \<open>Samples\<close>

type_synonym f32 = "32 word"

record sample_meta =
  mt_command_index :: u32
  mt_checkpoint_id :: u32
  mt_is_last :: bool

record sample_start =
  st_q :: "f64 list"
  st_tau_ff :: "f32 list"

record sample =
  sm_q :: "f64 list"
  sm_qd :: "f64 list"
  sm_tau_ff :: "f32 list"
  sm_inertia_velocity :: "f32 list"
  sm_start :: "sample_start option"
  sm_meta :: sample_meta

definition MAX_JOINTS :: nat where "MAX_JOINTS = 6"

definition default_sample :: sample where
  "default_sample = \<lparr>sm_q = replicate MAX_JOINTS 0, sm_qd = replicate MAX_JOINTS 0,
     sm_tau_ff = replicate MAX_JOINTS 0, sm_inertia_velocity = replicate MAX_JOINTS 0, sm_start = None,
     sm_meta = \<lparr>mt_command_index = 0, mt_checkpoint_id = 0, mt_is_last = False\<rparr>\<rparr>"

section \<open>The shared state\<close>

record slot =
  sl_sample :: sample
  sl_generation :: u64

record ring_shared =
  rg_buf :: "slot list"
  rg_head :: u64
  rg_tail :: u64
  rg_fill_generation :: u64
  rg_flush_generation :: u64

text \<open>\<open>None\<close> is the panic on a zero capacity.\<close>

definition sample_ring :: "nat \<Rightarrow> ring_shared option" where
  "sample_ring capacity =
     (if capacity = 0 then None
      else Some \<lparr>rg_buf = replicate capacity \<lparr>sl_sample = default_sample, sl_generation = 0\<rparr>,
                 rg_head = 0, rg_tail = 0, rg_fill_generation = 1, rg_flush_generation = 0\<rparr>)"

definition ring_len :: "ring_shared \<Rightarrow> nat" where
  "ring_len r = unat (rg_tail r - rg_head r)"

definition capacity :: "ring_shared \<Rightarrow> nat" where
  "capacity r = length (rg_buf r)"

definition slot_index :: "ring_shared \<Rightarrow> u64 \<Rightarrow> nat" where
  "slot_index r n = unat n mod length (rg_buf r)"

definition slot_at :: "ring_shared \<Rightarrow> u64 \<Rightarrow> slot" where
  "slot_at r n = rg_buf r ! slot_index r n"

section \<open>The producer\<close>

definition try_push :: "ring_shared \<Rightarrow> sample \<Rightarrow> bool \<times> ring_shared" where
  "try_push r s =
     (if length (rg_buf r) \<le> unat (rg_tail r - rg_head r) then (False, r)
      else (True, r\<lparr>rg_buf := (rg_buf r)[slot_index r (rg_tail r) :=
                       \<lparr>sl_sample = s, sl_generation = rg_fill_generation r\<rparr>],
                    rg_tail := rg_tail r + 1\<rparr>))"

definition begin_generation :: "ring_shared \<Rightarrow> u64 \<times> ring_shared" where
  "begin_generation r = (let next = rg_fill_generation r + 1 in (next, r\<lparr>rg_fill_generation := next\<rparr>))"

definition free_slots :: "ring_shared \<Rightarrow> nat" where
  "free_slots r = length (rg_buf r) - ring_len r"

definition samples_remaining :: "ring_shared \<Rightarrow> nat" where
  "samples_remaining r = ring_len r"

section \<open>The consumer\<close>

definition pop :: "ring_shared \<Rightarrow> sample option \<times> ring_shared" where
  "pop r =
     (if rg_head r = rg_tail r then (None, r)
      else (Some (sl_sample (slot_at r (rg_head r))), r\<lparr>rg_head := rg_head r + 1\<rparr>))"

definition peek_offset :: "ring_shared \<Rightarrow> nat \<Rightarrow> sample option" where
  "peek_offset r offset =
     (if rg_tail r - rg_head r \<le> of_nat offset then None
      else Some (sl_sample (slot_at r (rg_head r + of_nat offset))))"

definition peek :: "ring_shared \<Rightarrow> sample option" where
  "peek r = peek_offset r 0"

definition clear_ring :: "ring_shared \<Rightarrow> nat \<times> ring_shared" where
  "clear_ring r = (unat (rg_tail r - rg_head r), r\<lparr>rg_head := rg_tail r\<rparr>)"

text \<open>The loop of \<open>clear_marked\<close>: the first counter whose generation is past the bound.\<close>

function marked_end :: "ring_shared \<Rightarrow> u64 \<Rightarrow> u64 \<Rightarrow> u64" where
  "marked_end r bound head =
     (if head < rg_tail r then
        if bound < sl_generation (slot_at r head) then head else marked_end r bound (head + 1)
      else head)"
  by pat_completeness auto
termination
proof (relation "measure (\<lambda>(r, bound, head). unat (rg_tail r) - unat head)")
  fix r :: ring_shared and bound head :: u64
  assume less: "head < rg_tail r"
  then have "unat (head + 1) = Suc (unat head)"
    using unat_lt2p [of "rg_tail r"] by (simp add: word_less_nat_alt unat_word_ariths)
  with less show "((r, bound, head + 1), r, bound, head) \<in> measure (\<lambda>(r, bound, head). unat (rg_tail r) - unat head)"
    by (simp add: word_less_nat_alt)
qed simp

declare marked_end.simps [simp del]

definition clear_marked :: "ring_shared \<Rightarrow> nat \<times> ring_shared" where
  "clear_marked r =
     (let head = marked_end r (rg_flush_generation r) (rg_head r)
      in (unat (head - rg_head r), r\<lparr>rg_head := head\<rparr>))"

section \<open>The flush marker\<close>

definition mark :: "ring_shared \<Rightarrow> u64 \<times> ring_shared" where
  "mark r = (rg_fill_generation r,
     r\<lparr>rg_flush_generation := max (rg_flush_generation r) (rg_fill_generation r)\<rparr>)"

end
