(* ===== verification/Ring_Props.thy ===== *)
theory Ring_Props
  imports Ring
begin

text \<open>
  The ring refines a bounded first-in first-out queue of stamped samples, and a flush discards
  exactly the samples at or below the marked generation.

  The 64-bit counters never wrap in the lifetime of a controller (at one push per 4 ms it takes
  two billion years); the step relation makes that explicit by its guards.
\<close>

section \<open>The contract\<close>

locale bounded_queue =
  fixes ok :: "'q \<Rightarrow> bool" and items :: "'q \<Rightarrow> 'i list" and cap :: "'q \<Rightarrow> nat"
    and live :: "'q \<Rightarrow> bool" and stamp :: "'q \<Rightarrow> 'x \<Rightarrow> 'i" and payload :: "'i \<Rightarrow> 'x"
    and enq :: "'q \<Rightarrow> 'x \<Rightarrow> bool \<times> 'q" and deq :: "'q \<Rightarrow> 'x option \<times> 'q"
  assumes bounded: "ok q \<Longrightarrow> length (items q) \<le> cap q"
    and stamp_payload: "payload (stamp q x) = x"
    and enq_full: "ok q \<Longrightarrow> length (items q) = cap q \<Longrightarrow> enq q x = (False, q)"
    and enq_room: "ok q \<Longrightarrow> live q \<Longrightarrow> length (items q) < cap q \<Longrightarrow>
      fst (enq q x) \<and> items (snd (enq q x)) = items q @ [stamp q x] \<and> cap (snd (enq q x)) = cap q
      \<and> ok (snd (enq q x))"
    and deq_empty: "ok q \<Longrightarrow> items q = [] \<Longrightarrow> deq q = (None, q)"
    and deq_head: "ok q \<Longrightarrow> items q \<noteq> [] \<Longrightarrow>
      fst (deq q) = Some (payload (hd (items q))) \<and> items (snd (deq q)) = tl (items q)
      \<and> cap (snd (deq q)) = cap q \<and> ok (snd (deq q))"
begin

lemma enq_accepts: "ok q \<Longrightarrow> live q \<Longrightarrow> fst (enq q x) \<longleftrightarrow> length (items q) < cap q"
  using bounded [of q] enq_full [of q x] enq_room [of q x] by (cases "length (items q) = cap q") auto

lemma enq_ok: "ok q \<Longrightarrow> live q \<Longrightarrow> ok (snd (enq q x))"
  using bounded [of q] enq_full [of q x] enq_room [of q x] by (cases "length (items q) = cap q") auto

lemma deq_ok: "ok q \<Longrightarrow> ok (snd (deq q))"
  using deq_empty deq_head by (cases "items q = []") auto

text \<open>One operation moves payloads from the accepted to the returned ones without loss.\<close>

lemma enq_payloads:
  "ok q \<Longrightarrow> live q \<Longrightarrow> map payload (items (snd (enq q x))) = map payload (items q) @ (if fst (enq q x) then [x] else [])"
  using bounded [of q] enq_full [of q x] enq_room [of q x] stamp_payload
  by (cases "length (items q) = cap q") auto

lemma deq_payloads:
  "ok q \<Longrightarrow> map payload (items q) = (case fst (deq q) of None \<Rightarrow> [] | Some x \<Rightarrow> [x]) @ map payload (items (snd (deq q)))"
  using deq_empty deq_head by (cases "items q") auto

end

section \<open>The queued slots\<close>

definition queued :: "ring_shared \<Rightarrow> slot list" where
  "queued r = map (\<lambda>n. rg_buf r ! (n mod length (rg_buf r))) [unat (rg_head r)..<unat (rg_tail r)]"

definition window_ok :: "ring_shared \<Rightarrow> bool" where
  "window_ok r \<longleftrightarrow> rg_buf r \<noteq> [] \<and> rg_head r \<le> rg_tail r
     \<and> unat (rg_tail r) - unat (rg_head r) \<le> length (rg_buf r)"

definition counter_live :: "ring_shared \<Rightarrow> bool" where
  "counter_live r \<longleftrightarrow> unat (rg_tail r) < 2 ^ 64 - 1"

definition stamped :: "ring_shared \<Rightarrow> sample \<Rightarrow> slot" where
  "stamped r s = \<lparr>sl_sample = s, sl_generation = rg_fill_generation r\<rparr>"

lemma unat_diff_window: "window_ok r \<Longrightarrow> unat (rg_tail r - rg_head r) = unat (rg_tail r) - unat (rg_head r)"
  by (simp add: window_ok_def unat_sub)

lemma length_queued: "length (queued r) = unat (rg_tail r) - unat (rg_head r)"
  by (simp add: queued_def)

lemma unat_u64_inc: "unat (n :: u64) < 2 ^ 64 - 1 \<Longrightarrow> unat (n + 1) = Suc (unat n)"
  by (simp add: unat_word_ariths)

lemma mod_window: "(a :: nat) < b \<Longrightarrow> b - a < m \<Longrightarrow> a mod m \<noteq> b mod m"
  by (metis diff_is_0_eq' dvd_imp_le mod_eq_dvd_iff_nat nat_less_le not_less zero_less_diff)

lemma queued_push:
  assumes "window_ok r" and "counter_live r" and "length (queued r) < length (rg_buf r)"
  shows "queued (snd (try_push r s)) = queued r @ [stamped r s]"
proof -
  let ?h = "unat (rg_head r)" and ?t = "unat (rg_tail r)" and ?m = "length (rg_buf r)"
  have le: "?h \<le> ?t" using assms(1) by (simp add: window_ok_def word_le_nat_alt)
  have "?t mod ?m \<noteq> n mod ?m" if "?h \<le> n" "n < ?t" for n
    using that assms(3) by (intro mod_window [symmetric]) (auto simp: length_queued)
  then have keep: "map (\<lambda>n. (rg_buf r)[?t mod ?m := x] ! (n mod ?m)) [?h..<?t] = queued r" for x
    by (auto simp: queued_def)
  have "?t mod ?m < ?m" using assms(3) by (intro mod_less_divisor) (rule le_less_trans [OF le0])
  with assms(1,3) le show ?thesis
    by (simp add: try_push_def unat_diff_window length_queued slot_index_def queued_def [of "_\<lparr>rg_buf := _, rg_tail := _\<rparr>"]
        unat_u64_inc [OF assms(2) [unfolded counter_live_def]] keep stamped_def)
qed


lemma window_push:
  assumes "window_ok r" and "counter_live r" and "length (queued r) < length (rg_buf r)"
  shows "window_ok (snd (try_push r s)) \<and> fst (try_push r s)"
  using assms unat_u64_inc [OF assms(2) [unfolded counter_live_def]]
  by (auto simp: try_push_def unat_diff_window length_queued window_ok_def word_le_nat_alt)

lemma push_full: "window_ok r \<Longrightarrow> length (queued r) = length (rg_buf r) \<Longrightarrow> try_push r s = (False, r)"
  by (simp add: try_push_def unat_diff_window length_queued)

lemma head_step:
  assumes "window_ok r" and "queued r \<noteq> []"
  shows "unat (rg_head r + 1) = Suc (unat (rg_head r))" and "rg_head r \<noteq> rg_tail r"
    and "unat (rg_head r) < unat (rg_tail r)"
proof -
  show less: "unat (rg_head r) < unat (rg_tail r)" using assms(2) by (simp add: queued_def)
  then show "rg_head r \<noteq> rg_tail r" by auto
  show "unat (rg_head r + 1) = Suc (unat (rg_head r))"
    using less unat_lt2p [of "rg_tail r"] by (intro unat_u64_inc) simp
qed

lemma queued_Cons:
  assumes "window_ok r" and "queued r \<noteq> []"
  shows "queued r = slot_at r (rg_head r) # queued (r\<lparr>rg_head := rg_head r + 1\<rparr>)"
  using head_step [OF assms]
  by (simp add: queued_def slot_at_def slot_index_def upt_conv_Cons)

interpretation ring_queue: bounded_queue window_ok queued capacity counter_live stamped sl_sample try_push pop
proof
  fix r :: ring_shared and s :: sample
  show "sl_sample (stamped r s) = s" by (simp add: stamped_def)
  assume ok: "window_ok r"
  show "length (queued r) \<le> capacity r" using ok by (simp add: window_ok_def length_queued capacity_def)
  show "try_push r s = (False, r)" if "length (queued r) = capacity r"
    using ok that by (simp add: push_full capacity_def)
  show "fst (try_push r s) \<and> queued (snd (try_push r s)) = queued r @ [stamped r s]
      \<and> capacity (snd (try_push r s)) = capacity r \<and> window_ok (snd (try_push r s))"
    if "counter_live r" "length (queued r) < capacity r"
    using that window_push [OF ok, of s] queued_push [OF ok, of s]
    by (simp add: capacity_def) (simp add: try_push_def)
  show "pop r = (None, r)" if "queued r = []"
    using ok that by (auto simp: pop_def queued_def window_ok_def word_le_nat_alt word_unat_eq_iff)
  show "fst (pop r) = Some (sl_sample (hd (queued r))) \<and> queued (snd (pop r)) = tl (queued r)
      \<and> capacity (snd (pop r)) = capacity r \<and> window_ok (snd (pop r))" if "queued r \<noteq> []"
    using ok that head_step [OF ok that] queued_Cons [OF ok that]
    by (auto simp: pop_def capacity_def window_ok_def word_le_nat_alt)
qed

section \<open>Traces\<close>

text \<open>
  What the two threads do to the ring, whole operations at a time. A run collects the samples
  accepted and the samples handed out.
\<close>

datatype ring_op = Op_push sample | Op_pop | Op_begin_generation | Op_mark

fun run_op :: "ring_op \<Rightarrow> ring_shared \<Rightarrow> sample list \<times> sample list \<times> ring_shared" where
  "run_op (Op_push s) r = (let (b, r') = try_push r s in (if b then [s] else [], [], r'))"
| "run_op Op_pop r = (let (v, r') = pop r in ([], case v of Some s \<Rightarrow> [s] | None \<Rightarrow> [], r'))"
| "run_op Op_begin_generation r = ([], [], snd (begin_generation r))"
| "run_op Op_mark r = ([], [], snd (mark r))"

fun run_ops :: "ring_op list \<Rightarrow> ring_shared \<Rightarrow> sample list \<times> sample list \<times> ring_shared" where
  "run_ops [] r = ([], [], r)"
| "run_ops (x # xs) r = (let (a, p, r') = run_op x r; (a', p', r'') = run_ops xs r' in (a @ a', p @ p', r''))"

lemma window_generation: "window_ok (r\<lparr>rg_fill_generation := g\<rparr>) = window_ok r"
  "window_ok (r\<lparr>rg_flush_generation := g\<rparr>) = window_ok r"
  "queued (r\<lparr>rg_fill_generation := g\<rparr>) = queued r" "queued (r\<lparr>rg_flush_generation := g\<rparr>) = queued r"
  by (simp_all add: window_ok_def queued_def)

lemma tail_push: "counter_live r \<Longrightarrow> unat (rg_tail (snd (try_push r s))) \<le> Suc (unat (rg_tail r))"
  by (simp add: try_push_def counter_live_def unat_u64_inc)

lemma tail_pop: "rg_tail (snd (pop r)) = rg_tail r"
  by (simp add: pop_def)

lemma run_op_fifo:
  assumes "window_ok r" and "counter_live r" and "run_op x r = (a, p, r')"
  shows "p @ map sl_sample (queued r') = map sl_sample (queued r) @ a" and "window_ok r'"
    and "unat (rg_tail r') \<le> Suc (unat (rg_tail r))"
proof -
  have "p @ map sl_sample (queued r') = map sl_sample (queued r) @ a \<and> window_ok r'
      \<and> unat (rg_tail r') \<le> Suc (unat (rg_tail r))"
  proof (cases x)
    case (Op_push s)
    with assms(3) have "p = []" "r' = snd (try_push r s)" "a = (if fst (try_push r s) then [s] else [])"
      by (simp_all add: split_def Let_def)
    then show ?thesis
      using ring_queue.enq_payloads [OF assms(1,2), of s] ring_queue.enq_ok [OF assms(1,2), of s] tail_push [OF assms(2)]
      by simp
  next
    case Op_pop
    with assms(3) have "a = []" "r' = snd (pop r)" "p = (case fst (pop r) of Some s \<Rightarrow> [s] | None \<Rightarrow> [])"
      by (simp_all add: split_def Let_def)
    then show ?thesis
      using ring_queue.deq_payloads [OF assms(1)] ring_queue.deq_ok [OF assms(1)] by (simp add: tail_pop)
  next
    case Op_begin_generation
    with assms show ?thesis by (auto simp: begin_generation_def Let_def window_generation)
  next
    case Op_mark
    with assms show ?thesis by (auto simp: mark_def window_generation)
  qed
  then show "p @ map sl_sample (queued r') = map sl_sample (queued r) @ a" "window_ok r'"
    "unat (rg_tail r') \<le> Suc (unat (rg_tail r))" by auto
qed

lemma run_ops_fifo:
  "window_ok r \<Longrightarrow> unat (rg_tail r) + length xs < 2 ^ 64 \<Longrightarrow> run_ops xs r = (a, p, r') \<Longrightarrow>
   p @ map sl_sample (queued r') = map sl_sample (queued r) @ a \<and> window_ok r'"
proof (induction xs arbitrary: r a p)
  case Nil
  then show ?case by simp
next
  case (Cons x xs)
  obtain a1 p1 r1 where x: "run_op x r = (a1, p1, r1)" by (cases "run_op x r")
  obtain a2 p2 where xs: "run_ops xs r1 = (a2, p2, r')" "a = a1 @ a2" "p = p1 @ p2"
    using Cons.prems(3) x by (auto simp: split_def Let_def prod_eq_iff)
  have "counter_live r" using Cons.prems(2) by (simp add: counter_live_def)
  note step = run_op_fifo [OF Cons.prems(1) this x]
  have "p2 @ map sl_sample (queued r') = map sl_sample (queued r1) @ a2 \<and> window_ok r'"
    using Cons.IH [OF step(2) _ xs(1)] step(3) Cons.prems(2) by simp
  with step(1) xs(2,3) show ?case by simp
qed

lemma sample_ring_ok: "sample_ring n = Some r \<Longrightarrow> window_ok r \<and> queued r = [] \<and> rg_tail r = 0 \<and> capacity r = n"
  by (auto simp: sample_ring_def window_ok_def queued_def capacity_def split: if_splits)


section \<open>Generations\<close>

definition ring_ok :: "ring_shared \<Rightarrow> bool" where
  "ring_ok r \<longleftrightarrow> window_ok r \<and> sorted (map sl_generation (queued r))
     \<and> (\<forall>x \<in> set (queued r). 0 < sl_generation x \<and> sl_generation x \<le> rg_fill_generation r)
     \<and> rg_flush_generation r \<le> rg_fill_generation r \<and> 0 < rg_fill_generation r"

lemma ring_ok_push:
  assumes "ring_ok r" and "counter_live r"
  shows "ring_ok (snd (try_push r s))"
proof (cases "length (queued r) < capacity r")
  case True
  have ok: "window_ok r" using assms(1) by (simp add: ring_ok_def)
  have gens: "rg_fill_generation (snd (try_push r s)) = rg_fill_generation r"
    "rg_flush_generation (snd (try_push r s)) = rg_flush_generation r" by (simp_all add: try_push_def)
  from ring_queue.enq_room [OF ok assms(2) True, of s] assms(1) show ?thesis
    by (auto simp: ring_ok_def gens sorted_append stamped_def)
next
  case False
  then have "length (queued r) = capacity r"
    using ring_queue.bounded [of r] assms(1) by (simp add: ring_ok_def)
  with assms(1) show ?thesis by (simp add: ring_queue.enq_full ring_ok_def)
qed

lemma ring_ok_suffix:
  assumes "ring_ok r" and "window_ok (r\<lparr>rg_head := h\<rparr>)" and "queued r = xs @ queued (r\<lparr>rg_head := h\<rparr>)"
  shows "ring_ok (r\<lparr>rg_head := h\<rparr>)"
  using assms by (auto simp: ring_ok_def sorted_append)

lemma pop_update: "snd (pop r) = r\<lparr>rg_head := (if rg_head r = rg_tail r then rg_head r else rg_head r + 1)\<rparr>"
  by (simp add: pop_def)

lemma ring_ok_pop: "ring_ok r \<Longrightarrow> ring_ok (snd (pop r))"
proof (cases "queued r = []")
  case False
  assume ok: "ring_ok r"
  then have w: "window_ok r" by (simp add: ring_ok_def)
  have eq: "snd (pop r) = r\<lparr>rg_head := rg_head r + 1\<rparr>"
    using head_step(2) [OF w False] by (simp add: pop_def)
  show ?thesis
    unfolding eq using queued_Cons [OF w False] ring_queue.deq_ok [OF w]
    by (intro ring_ok_suffix [OF ok, where xs = "[slot_at r (rg_head r)]"]) (simp_all add: eq)
qed (simp add: ring_queue.deq_empty ring_ok_def)

text \<open>The loop of \<open>clear_marked\<close> stops at the first sample past the bound.\<close>

lemma marked_end_window:
  "window_ok (r\<lparr>rg_head := h\<rparr>) \<Longrightarrow>
   window_ok (r\<lparr>rg_head := marked_end r bound h\<rparr>)
   \<and> queued (r\<lparr>rg_head := marked_end r bound h\<rparr>) =
       dropWhile (\<lambda>x. sl_generation x \<le> bound) (queued (r\<lparr>rg_head := h\<rparr>))
   \<and> h \<le> marked_end r bound h"
proof (induction r bound h rule: marked_end.induct)
  case (1 r bound h)
  let ?r = "r\<lparr>rg_head := h\<rparr>"
  show ?case
  proof (cases "h < rg_tail r")
    case False
    with 1 show ?thesis
      by (auto simp: marked_end.simps [of r bound h] queued_def window_ok_def word_le_nat_alt word_less_nat_alt)
  next
    case True
    then have ne: "queued ?r \<noteq> []" by (simp add: queued_def word_less_nat_alt)
    note cons = queued_Cons [OF 1(2) ne, simplified]
    have at: "slot_at ?r h = slot_at r h" by (simp add: slot_at_def slot_index_def)
    show ?thesis
    proof (cases "bound < sl_generation (slot_at r h)")
      case stop: True
      with True 1(2) cons at show ?thesis by (simp add: marked_end.simps [of r bound h])
    next
      case go: False
      have "window_ok (r\<lparr>rg_head := h + 1\<rparr>)"
        using ring_queue.deq_ok [OF 1(2)] True by (auto simp: pop_update split: if_splits)
      from 1(1) [OF True go this] go True cons at head_step(1) [OF 1(2) ne] show ?thesis
        by (auto simp: marked_end.simps [of r bound h] word_le_nat_alt word_less_nat_alt)
    qed
  qed
qed

lemma dropWhile_sorted:
  "sorted (map f xs) \<Longrightarrow> dropWhile (\<lambda>x. f x \<le> b) xs = filter (\<lambda>x. b < f x) xs" for f :: "'a \<Rightarrow> 'b::linorder"
proof (induction xs)
  case (Cons x xs)
  then show ?case
  proof (cases "f x \<le> b")
    case False
    then have "\<forall>y \<in> set xs. b < f y" using Cons.prems by (auto intro: less_le_trans)
    with False show ?thesis by simp
  qed (use Cons in auto)
qed simp

lemma clear_marked_queued:
  assumes "ring_ok r"
  shows "queued (snd (clear_marked r)) = filter (\<lambda>x. rg_flush_generation r < sl_generation x) (queued r)"
    and "ring_ok (snd (clear_marked r))"
    and "fst (clear_marked r) = length (queued r) - length (queued (snd (clear_marked r)))"
proof -
  let ?h = "marked_end r (rg_flush_generation r) (rg_head r)"
  have w: "window_ok (r\<lparr>rg_head := rg_head r\<rparr>)" using assms by (simp add: ring_ok_def)
  note run = marked_end_window [OF w, of "rg_flush_generation r"]
  have snd: "snd (clear_marked r) = r\<lparr>rg_head := ?h\<rparr>" by (simp add: clear_marked_def Let_def)
  have drop: "queued (r\<lparr>rg_head := ?h\<rparr>) = dropWhile (\<lambda>x. sl_generation x \<le> rg_flush_generation r) (queued r)"
    using run by simp
  then show "queued (snd (clear_marked r)) = filter (\<lambda>x. rg_flush_generation r < sl_generation x) (queued r)"
    using assms by (simp add: snd dropWhile_sorted ring_ok_def)
  show "ring_ok (snd (clear_marked r))"
    unfolding snd using run drop takeWhile_dropWhile_id [of _ "queued r"]
    by (intro ring_ok_suffix [OF assms, where xs = "takeWhile (\<lambda>x. sl_generation x \<le> rg_flush_generation r) (queued r)"]) auto
  show "fst (clear_marked r) = length (queued r) - length (queued (snd (clear_marked r)))"
    unfolding snd length_queued
    using run w by (auto simp: clear_marked_def Let_def unat_sub window_ok_def word_le_nat_alt)
qed


section \<open>Reachable rings\<close>

inductive ring_step :: "ring_shared \<Rightarrow> ring_shared \<Rightarrow> bool" where
  ring_push: "counter_live r \<Longrightarrow> ring_step r (snd (try_push r s))"
| ring_pop: "ring_step r (snd (pop r))"
| ring_begin: "unat (rg_fill_generation r) < 2 ^ 64 - 1 \<Longrightarrow> ring_step r (snd (begin_generation r))"
| ring_mark: "ring_step r (snd (mark r))"
| ring_clear: "ring_step r (snd (clear_ring r))"
| ring_clear_marked: "ring_step r (snd (clear_marked r))"

definition ring_initial :: "ring_shared \<Rightarrow> bool" where
  "ring_initial r \<longleftrightarrow> (\<exists>n. sample_ring n = Some r)"

lemma ring_ok_begin:
  assumes "ring_ok r" and "unat (rg_fill_generation r) < 2 ^ 64 - 1"
  shows "ring_ok (snd (begin_generation r))"
proof -
  have "rg_fill_generation r < rg_fill_generation r + 1"
    using unat_u64_inc [OF assms(2)] by (simp add: word_less_nat_alt)
  then show ?thesis
    using assms(1) by (force simp: ring_ok_def begin_generation_def Let_def window_generation)
qed

lemma ring_ok_clear: "ring_ok r \<Longrightarrow> ring_ok (snd (clear_ring r))"
  by (auto simp: clear_ring_def queued_def window_ok_def
      intro!: ring_ok_suffix [where xs = "queued r"] simp: ring_ok_def)

interpretation ring_inv: inductive_invariant ring_initial ring_step ring_ok
proof
  show "ring_ok r" if "ring_initial r" for r
    using that sample_ring_ok
    by (auto simp: ring_initial_def ring_ok_def) (auto simp: sample_ring_def split: if_splits)
  show "ring_ok r'" if "ring_ok r" "ring_step r r'" for r r'
    using that(2,1)
    by cases (auto simp: ring_ok_push ring_ok_pop ring_ok_begin ring_ok_clear clear_marked_queued(2),
        auto simp: mark_def ring_ok_def window_generation max_def)
qed

lemma new_ring_reachable: "sample_ring n = Some r \<Longrightarrow> reachable ring_initial ring_step r"
  by (auto intro!: reachable_init simp: ring_initial_def)

text \<open>A fill: one push after the other.\<close>

fun push_samples :: "ring_shared \<Rightarrow> sample list \<Rightarrow> ring_shared" where
  "push_samples r [] = r"
| "push_samples r (s # ss) = push_samples (snd (try_push r s)) ss"

lemma push_generations:
  "rg_fill_generation (snd (try_push r s)) = rg_fill_generation r"
  "rg_flush_generation (snd (try_push r s)) = rg_flush_generation r"
  by (simp_all add: try_push_def)

lemma push_samples_queued:
  "ring_ok r \<Longrightarrow> length (queued r) + length ss \<le> capacity r \<Longrightarrow> unat (rg_tail r) + length ss < 2 ^ 64 \<Longrightarrow>
   ring_ok (push_samples r ss) \<and> queued (push_samples r ss) = queued r @ map (stamped r) ss
   \<and> rg_flush_generation (push_samples r ss) = rg_flush_generation r"
proof (induction ss arbitrary: r)
  case (Cons s ss)
  have w: "window_ok r" using Cons.prems(1) by (simp add: ring_ok_def)
  have live: "counter_live r" using Cons.prems(3) by (simp add: counter_live_def)
  have "length (queued r) < capacity r" using Cons.prems(2) by simp
  note push = ring_queue.enq_room [OF w live this, of s]
  have "stamped (snd (try_push r s)) = stamped r" by (simp add: stamped_def push_generations fun_eq_iff)
  with Cons.IH [OF ring_ok_push [OF Cons.prems(1) live, of s]] push tail_push [OF live, of s] Cons.prems(2,3) show ?case
    by (simp add: push_generations)
qed simp

section \<open>Properties\<close>

text \<open>
  The ring is first in, first out and loses nothing: over any sequence of pushes, pops,
  generation starts and marks on a new ring, the samples popped followed by the samples still
  queued are the samples accepted, in order.
\<close>

lemma ring_fifo:
  assumes "sample_ring n = Some r" and "length xs < 2 ^ 64" and "run_ops xs r = (accepted, popped, r')"
  shows "popped @ map sl_sample (queued r') = accepted"
  using run_ops_fifo [of r xs] sample_ring_ok [OF assms(1)] assms(2,3) by auto

text \<open>
  A push is refused exactly when the ring holds its capacity, a refused push changes nothing
  and a pop returns nothing exactly when the ring is empty.
\<close>

lemma ring_backpressure:
  assumes "reachable ring_initial ring_step r" and "counter_live r"
  shows "(fst (try_push r s) \<longleftrightarrow> samples_remaining r < capacity r)
    \<and> (\<not> fst (try_push r s) \<longrightarrow> snd (try_push r s) = r)
    \<and> (fst (pop r) = None \<longleftrightarrow> samples_remaining r = 0)
    \<and> free_slots r + samples_remaining r = capacity r"
proof -
  have ok: "window_ok r" using ring_inv.reachable_inv [OF assms(1)] by (simp add: ring_ok_def)
  have len: "samples_remaining r = length (queued r)"
    using ok by (simp add: samples_remaining_def ring_len_def unat_diff_window length_queued)
  have "snd (try_push r s) = r" if "\<not> fst (try_push r s)" using that by (simp add: try_push_def split: if_splits)
  moreover have "fst (pop r) = None \<longleftrightarrow> queued r = []"
    using ring_queue.deq_empty [OF ok] ring_queue.deq_head [OF ok] by (cases "queued r = []") simp_all
  ultimately show ?thesis
    using ring_queue.enq_accepts [OF ok assms(2)] ring_queue.bounded [OF ok] len
    by (simp add: free_slots_def samples_remaining_def capacity_def)
qed

text \<open>
  A flush is bounded by its mark: whenever the loop gets to it, it drops the queued samples
  whose generation is at or below the newest mark and keeps every other one, in order, and
  reports how many it dropped.
\<close>

lemma clear_marked_exact:
  assumes "reachable ring_initial ring_step r"
  shows "queued (snd (clear_marked r)) = filter (\<lambda>x. rg_flush_generation r < sl_generation x) (queued r)
    \<and> fst (clear_marked r) = length (filter (\<lambda>x. sl_generation x \<le> rg_flush_generation r) (queued r))"
  using clear_marked_queued [OF ring_inv.reachable_inv [OF assms]]
    sum_length_filter_compl [of "\<lambda>x. rg_flush_generation r < sl_generation x" "queued r"]
  by (simp add: not_less)

text \<open>
  C21. A stop never eats the next command: after a mark and the start of the next generation, a
  flush that lands only after the next command's samples have been queued discards everything
  older and exactly the new samples remain.
\<close>

theorem stop_spares_next_command:
  assumes "reachable ring_initial ring_step r" and "unat (rg_fill_generation r) < 2 ^ 64 - 1"
    and "r' = snd (begin_generation (snd (mark r)))"
    and "samples_remaining r + length ss \<le> capacity r" and "unat (rg_tail r) + length ss < 2 ^ 64"
  shows "map sl_sample (queued (snd (clear_marked (push_samples r' ss)))) = ss
    \<and> fst (clear_marked (push_samples r' ss)) = samples_remaining r"
proof -
  have ok: "ring_ok r" by (rule ring_inv.reachable_inv [OF assms(1)])
  then have w: "window_ok r" by (simp add: ring_ok_def)
  have len: "samples_remaining r = length (queued r)"
    using w by (simp add: samples_remaining_def ring_len_def unat_diff_window length_queued)
  have r': "reachable ring_initial ring_step r'"
    unfolding assms(3) using assms(2)
    by (intro reachable_step [OF reachable_step [OF assms(1) ring_mark] ring_begin]) (simp add: mark_def)
  have same: "queued r' = queued r" "rg_flush_generation r' = rg_fill_generation r"
    "rg_fill_generation r' = rg_fill_generation r + 1" "capacity r' = capacity r" "rg_tail r' = rg_tail r"
    using ok by (simp_all add: assms(3) begin_generation_def mark_def Let_def window_generation ring_ok_def max_def capacity_def)
  have newer: "rg_fill_generation r < rg_fill_generation r + 1"
    using unat_u64_inc [OF assms(2)] by (simp add: word_less_nat_alt)
  from push_samples_queued [OF ring_inv.reachable_inv [OF r'], of ss] assms(4,5) len
  have p: "ring_ok (push_samples r' ss)" "queued (push_samples r' ss) = queued r @ map (stamped r') ss"
    "rg_flush_generation (push_samples r' ss) = rg_fill_generation r" by (simp_all add: same)
  have old: "filter (\<lambda>x. rg_fill_generation r < sl_generation x) (queued r) = []"
    using ok by (auto simp: filter_empty_conv ring_ok_def not_less)
  have new: "filter (\<lambda>x. rg_fill_generation r < sl_generation x) (map (stamped r') ss) = map (stamped r') ss"
    using newer by (auto simp: filter_id_conv stamped_def same)
  have sl: "sl_sample \<circ> stamped r' = id" by (simp add: stamped_def fun_eq_iff)
  show ?thesis
    using clear_marked_queued [OF p(1)] by (simp add: p old new len sl)
qed

theorem stop_spares_next_command_witness:
  "\<exists>r. sample_ring 3 = Some r
    \<and> map sl_sample (queued (snd (clear_marked (push_samples (snd (begin_generation (snd (mark r)))) [default_sample]))))
        = [default_sample]"
proof -
  obtain r where r: "sample_ring 3 = Some r" by (simp add: sample_ring_def)
  have "unat (rg_fill_generation r) < 2 ^ 64 - 1" "samples_remaining r = 0" "unat (rg_tail r) = 0" "capacity r = 3"
    using r by (auto simp: sample_ring_def samples_remaining_def ring_len_def capacity_def)
  with stop_spares_next_command [OF new_ring_reachable [OF r], of _ "[default_sample]"] r show ?thesis by simp
qed

end
