(* ===== verification/Ring_Concurrent.thy ===== *)
theory Ring_Concurrent
  imports Ring_Props
begin

text \<open>
  The sample ring under concurrency: the planner's thread and the loop's thread take turns one
  atomic access at a time, in any interleaving. The producer's \<open>try_push\<close> loads its counters,
  writes a slot and publishes it with the store of \<open>tail\<close>; the consumer's \<open>pop\<close>, \<open>clear\<close> and
  \<open>clear_marked\<close> load their counters, read slots and release them with the store of \<open>head\<close>.
  Marks and generation starts are single atomic accesses.

  Accesses are sequentially consistent here: the acquire and release orderings of the source
  make each thread see the other's counter and, with it, the slots it covers. Two fields that
  exist only in the model record the samples published and the samples released.
\<close>

section \<open>The two threads\<close>

datatype producer =
    P_idle
  | P_loaded sample u64 u64  \<comment> \<open>the sample, \<open>tail\<close>, \<open>head\<close> as loaded\<close>
  | P_ready sample u64  \<comment> \<open>room was found: about to write the slot of \<open>tail\<close>\<close>
  | P_written sample u64  \<comment> \<open>about to publish\<close>

datatype consumer =
    C_idle
  | C_loaded u64 u64  \<comment> \<open>\<open>pop\<close>: \<open>head\<close>, \<open>tail\<close> as loaded\<close>
  | C_read u64 sample  \<comment> \<open>\<open>pop\<close>: the slot was read, about to release it\<close>
  | C_clearing u64  \<comment> \<open>\<open>clear\<close>: \<open>tail\<close> as loaded\<close>
  | C_marked u64  \<comment> \<open>\<open>clear_marked\<close>: bound as loaded\<close>
  | C_scanning u64 u64 u64  \<comment> \<open>\<open>clear_marked\<close>: bound, \<open>tail\<close> as loaded, position\<close>

record conc =
  cr_ring :: ring_shared
  cr_producer :: producer
  cr_consumer :: consumer
  cr_published :: "sample list"
  cr_released :: "sample list"

definition samples_between :: "ring_shared \<Rightarrow> u64 \<Rightarrow> u64 \<Rightarrow> sample list" where
  "samples_between r a b =
     map (\<lambda>n. sl_sample (rg_buf r ! (n mod length (rg_buf r)))) [unat a..<unat b]"

text \<open>One atomic access of the producer.\<close>

inductive producer_step :: "conc \<Rightarrow> conc \<Rightarrow> bool" where
  push_load: "cr_producer c = P_idle \<Longrightarrow>
    producer_step c (c\<lparr>cr_producer := P_loaded s (rg_tail (cr_ring c)) (rg_head (cr_ring c))\<rparr>)"
| push_full: "cr_producer c = P_loaded s t h \<Longrightarrow> capacity (cr_ring c) \<le> unat (t - h) \<Longrightarrow>
    producer_step c (c\<lparr>cr_producer := P_idle\<rparr>)"
| push_room: "cr_producer c = P_loaded s t h \<Longrightarrow> unat (t - h) < capacity (cr_ring c) \<Longrightarrow>
    producer_step c (c\<lparr>cr_producer := P_ready s t\<rparr>)"
| push_write: "cr_producer c = P_ready s t \<Longrightarrow> r = cr_ring c \<Longrightarrow>
    producer_step c (c\<lparr>cr_producer := P_written s t,
      cr_ring := r\<lparr>rg_buf := (rg_buf r)[slot_index r t := stamped r s]\<rparr>\<rparr>)"
| push_publish: "cr_producer c = P_written s t \<Longrightarrow> unat t < 2 ^ 64 - 1 \<Longrightarrow>
    producer_step c (c\<lparr>cr_producer := P_idle, cr_ring := (cr_ring c)\<lparr>rg_tail := t + 1\<rparr>,
      cr_published := cr_published c @ [s]\<rparr>)"
| gen_begin: "cr_producer c = P_idle \<Longrightarrow>
    producer_step c (c\<lparr>cr_ring := snd (begin_generation (cr_ring c))\<rparr>)"
| gen_mark: "producer_step c (c\<lparr>cr_ring := snd (mark (cr_ring c))\<rparr>)"

text \<open>One atomic access of the consumer.\<close>

inductive consumer_step :: "conc \<Rightarrow> conc \<Rightarrow> bool" where
  pop_load: "cr_consumer c = C_idle \<Longrightarrow>
    consumer_step c (c\<lparr>cr_consumer := C_loaded (rg_head (cr_ring c)) (rg_tail (cr_ring c))\<rparr>)"
| pop_empty: "cr_consumer c = C_loaded h t \<Longrightarrow> h = t \<Longrightarrow> consumer_step c (c\<lparr>cr_consumer := C_idle\<rparr>)"
| pop_read: "cr_consumer c = C_loaded h t \<Longrightarrow> h \<noteq> t \<Longrightarrow>
    consumer_step c (c\<lparr>cr_consumer := C_read h (sl_sample (slot_at (cr_ring c) h))\<rparr>)"
| pop_release: "cr_consumer c = C_read h s \<Longrightarrow>
    consumer_step c (c\<lparr>cr_consumer := C_idle, cr_ring := (cr_ring c)\<lparr>rg_head := h + 1\<rparr>,
      cr_released := cr_released c @ [s]\<rparr>)"
| clear_load: "cr_consumer c = C_idle \<Longrightarrow>
    consumer_step c (c\<lparr>cr_consumer := C_clearing (rg_tail (cr_ring c))\<rparr>)"
| clear_release: "cr_consumer c = C_clearing t \<Longrightarrow> r = cr_ring c \<Longrightarrow>
    consumer_step c (c\<lparr>cr_consumer := C_idle, cr_ring := r\<lparr>rg_head := t\<rparr>,
      cr_released := cr_released c @ samples_between r (rg_head r) t\<rparr>)"
| scan_load: "cr_consumer c = C_idle \<Longrightarrow> r = cr_ring c \<Longrightarrow>
    consumer_step c (c\<lparr>cr_consumer := C_marked (rg_flush_generation r)\<rparr>)"
| scan_window: "cr_consumer c = C_marked b \<Longrightarrow> r = cr_ring c \<Longrightarrow>
    consumer_step c (c\<lparr>cr_consumer := C_scanning b (rg_tail r) (rg_head r)\<rparr>)"
| scan_next: "cr_consumer c = C_scanning b t h \<Longrightarrow> h < t \<Longrightarrow> \<not> b < sl_generation (slot_at (cr_ring c) h) \<Longrightarrow>
    consumer_step c (c\<lparr>cr_consumer := C_scanning b t (h + 1)\<rparr>)"
| scan_release: "cr_consumer c = C_scanning b t h \<Longrightarrow> r = cr_ring c \<Longrightarrow>
    h < t \<longrightarrow> b < sl_generation (slot_at r h) \<Longrightarrow>
    consumer_step c (c\<lparr>cr_consumer := C_idle, cr_ring := r\<lparr>rg_head := h\<rparr>,
      cr_released := cr_released c @ samples_between r (rg_head r) h\<rparr>)"

definition conc_step :: "conc \<Rightarrow> conc \<Rightarrow> bool" where
  "conc_step c c' \<longleftrightarrow> producer_step c c' \<or> consumer_step c c'"

definition conc_initial :: "conc \<Rightarrow> bool" where
  "conc_initial c \<longleftrightarrow> (\<exists>n. sample_ring n = Some (cr_ring c)) \<and> cr_producer c = P_idle \<and> cr_consumer c = C_idle
     \<and> cr_published c = [] \<and> cr_released c = []"

section \<open>The invariant\<close>

definition producer_ok :: "ring_shared \<Rightarrow> producer \<Rightarrow> bool" where
  "producer_ok r p = (case p of
       P_idle \<Rightarrow> True
     | P_loaded s t h \<Rightarrow> t = rg_tail r \<and> h \<le> rg_head r
     | P_ready s t \<Rightarrow> t = rg_tail r \<and> unat (rg_tail r) - unat (rg_head r) < length (rg_buf r)
     | P_written s t \<Rightarrow> t = rg_tail r \<and> unat (rg_tail r) - unat (rg_head r) < length (rg_buf r)
         \<and> sl_sample (slot_at r t) = s)"

definition consumer_ok :: "ring_shared \<Rightarrow> consumer \<Rightarrow> bool" where
  "consumer_ok r k = (case k of
       C_idle \<Rightarrow> True
     | C_loaded h t \<Rightarrow> h = rg_head r \<and> h \<le> t \<and> t \<le> rg_tail r
     | C_read h s \<Rightarrow> h = rg_head r \<and> h < rg_tail r \<and> s = sl_sample (slot_at r h)
     | C_marked b \<Rightarrow> True
     | C_clearing t \<Rightarrow> rg_head r \<le> t \<and> t \<le> rg_tail r
     | C_scanning b t h \<Rightarrow> rg_head r \<le> h \<and> h \<le> t \<and> t \<le> rg_tail r)"

definition conc_ok :: "conc \<Rightarrow> bool" where
  "conc_ok c \<longleftrightarrow> window_ok (cr_ring c) \<and> producer_ok (cr_ring c) (cr_producer c)
     \<and> consumer_ok (cr_ring c) (cr_consumer c)
     \<and> cr_published c = cr_released c @ samples_between (cr_ring c) (rg_head (cr_ring c)) (rg_tail (cr_ring c))"

lemma samples_between_queued: "samples_between r (rg_head r) (rg_tail r) = map sl_sample (queued r)"
  by (simp add: samples_between_def queued_def)

lemma samples_between_split:
  "a \<le> b \<Longrightarrow> b \<le> c \<Longrightarrow> samples_between r a c = samples_between r a b @ samples_between r b c"
  using upt_add_eq_append [of "unat a" "unat b" "unat c - unat b"]
  by (simp add: samples_between_def word_le_nat_alt flip: map_append)

text \<open>The slot the producer writes lies outside the slots the consumer may read.\<close>

lemma slot_index_distinct:
  assumes "rg_head r \<le> n" and "n < rg_tail r" and "unat (rg_tail r) - unat (rg_head r) < length (rg_buf r)"
  shows "slot_index r (rg_tail r) \<noteq> slot_index r n"
  using assms unfolding slot_index_def
  by (intro mod_window [symmetric]) (auto simp: word_le_nat_alt word_less_nat_alt)


lemma samples_between_write:
  assumes "rg_head r \<le> a" and "b \<le> rg_tail r" and "unat (rg_tail r) - unat (rg_head r) < length (rg_buf r)"
  shows "samples_between (r\<lparr>rg_buf := (rg_buf r)[slot_index r (rg_tail r) := x]\<rparr>) a b = samples_between r a b"
proof -
  have "slot_index r (rg_tail r) \<noteq> n mod length (rg_buf r)" if "unat a \<le> n" "n < unat b" for n
    using that assms unfolding slot_index_def
    by (intro mod_window [symmetric]) (auto simp: word_le_nat_alt)
  then show ?thesis by (auto simp: samples_between_def)
qed

lemma slot_at_write:
  assumes "rg_head r \<le> h" and "h < rg_tail r" and "unat (rg_tail r) - unat (rg_head r) < length (rg_buf r)"
  shows "slot_at (r\<lparr>rg_buf := (rg_buf r)[slot_index r (rg_tail r) := x]\<rparr>) h = slot_at r h"
  using slot_index_distinct [OF assms] by (simp add: slot_at_def slot_index_def)

lemma samples_between_cong:
  "rg_buf r' = rg_buf r \<Longrightarrow> samples_between r' a b = samples_between r a b"
  by (simp add: samples_between_def)

lemma slot_at_cong: "rg_buf r' = rg_buf r \<Longrightarrow> slot_at r' n = slot_at r n"
  by (simp add: slot_at_def slot_index_def)

lemma consumer_ok_tail: "consumer_ok r k \<Longrightarrow> rg_tail r \<le> t \<Longrightarrow> consumer_ok (r\<lparr>rg_tail := t\<rparr>) k"
  by (cases k) (simp_all add: consumer_ok_def slot_at_cong [of "r\<lparr>rg_tail := t\<rparr>" r] word_le_nat_alt word_less_nat_alt)

lemma producer_ok_head:
  "producer_ok r p \<Longrightarrow> rg_head r \<le> h \<Longrightarrow> producer_ok (r\<lparr>rg_head := h\<rparr>) p"
  by (cases p) (auto simp: producer_ok_def slot_at_cong [of "r\<lparr>rg_head := h\<rparr>" r] word_le_nat_alt)

lemma producer_step_ok:
  assumes "producer_step c c'" and "conc_ok c"
  shows "conc_ok c'"
  using assms
proof cases
  case (push_room s t h)
  then have "h \<le> rg_head (cr_ring c)" "t = rg_tail (cr_ring c)" "rg_head (cr_ring c) \<le> rg_tail (cr_ring c)"
    using assms(2) by (auto simp: conc_ok_def producer_ok_def window_ok_def)
  then have "unat (rg_tail (cr_ring c)) - unat (rg_head (cr_ring c)) \<le> unat (t - h)"
    by (auto simp: unat_sub word_le_nat_alt)
  with push_room assms(2) show ?thesis
    by (auto simp: conc_ok_def producer_ok_def capacity_def)
next
  case (push_write s t r)
  then have r: "window_ok r" "t = rg_tail r" "unat (rg_tail r) - unat (rg_head r) < length (rg_buf r)"
    and k: "consumer_ok r (cr_consumer c)"
    and pub: "cr_published c = cr_released c @ samples_between r (rg_head r) (rg_tail r)"
    using assms(2) by (auto simp: conc_ok_def producer_ok_def)
  let ?r = "r\<lparr>rg_buf := (rg_buf r)[slot_index r t := stamped r s]\<rparr>"
  have "slot_index r t < length (rg_buf r)" using r(1) by (simp add: slot_index_def window_ok_def)
  then have "sl_sample (slot_at ?r t) = s" by (simp add: slot_at_def slot_index_def stamped_def)
  moreover have "consumer_ok ?r (cr_consumer c)"
    using k slot_at_write [OF _ _ r(3)] r(2) by (auto simp: consumer_ok_def split: consumer.splits)
  moreover have "samples_between ?r (rg_head r) (rg_tail r) = samples_between r (rg_head r) (rg_tail r)"
    using samples_between_write [OF _ _ r(3), of "rg_head r" "rg_tail r"] r(2) by simp
  ultimately show ?thesis
    using r pub push_write by (simp add: conc_ok_def producer_ok_def window_ok_def)
next
  case (push_publish s t)
  let ?r = "cr_ring c"
  have r: "window_ok ?r" "t = rg_tail ?r" "unat (rg_tail ?r) - unat (rg_head ?r) < length (rg_buf ?r)"
    "sl_sample (slot_at ?r t) = s"
    using push_publish assms(2) by (auto simp: conc_ok_def producer_ok_def)
  note inc = unat_u64_inc [OF push_publish(3)]
  have le: "rg_head ?r \<le> t" "t \<le> t + 1" using r inc by (auto simp: window_ok_def word_le_nat_alt)
  have "samples_between ?r t (t + 1) = [s]"
    using r(4) by (simp add: samples_between_def inc slot_at_def slot_index_def)
  with samples_between_split [OF le] have "samples_between ?r (rg_head ?r) (t + 1) = samples_between ?r (rg_head ?r) t @ [s]" by simp
  moreover have "consumer_ok (?r\<lparr>rg_tail := t + 1\<rparr>) (cr_consumer c)"
    using assms(2) le(2) r(2) by (simp add: conc_ok_def consumer_ok_tail)
  moreover have "window_ok (?r\<lparr>rg_tail := t + 1\<rparr>)"
    using r le inc by (auto simp: window_ok_def)
  ultimately show ?thesis
    using push_publish assms(2) r(2) by (simp add: conc_ok_def producer_ok_def samples_between_cong [of "_\<lparr>rg_tail := _\<rparr>" ?r])
qed (auto simp: conc_ok_def producer_ok_def consumer_ok_def window_ok_def begin_generation_def mark_def Let_def
      samples_between_def slot_at_def slot_index_def split: producer.splits consumer.splits)


text \<open>Every release of the consumer hands over a prefix of the queued samples.\<close>

lemma release_ok:
  assumes "conc_ok c" and "r = cr_ring c" and "rg_head r \<le> h" and "h \<le> rg_tail r"
    and "xs = samples_between r (rg_head r) h"
  shows "conc_ok (c\<lparr>cr_consumer := C_idle, cr_ring := r\<lparr>rg_head := h\<rparr>, cr_released := cr_released c @ xs\<rparr>)"
proof -
  have "window_ok (r\<lparr>rg_head := h\<rparr>)"
    using assms(1-4) by (auto simp: conc_ok_def window_ok_def word_le_nat_alt)
  moreover have "samples_between r (rg_head r) (rg_tail r) = xs @ samples_between r h (rg_tail r)"
    using samples_between_split [OF assms(3,4)] assms(5) by simp
  ultimately show ?thesis
    using assms(1-3)
    by (simp add: conc_ok_def consumer_ok_def producer_ok_head samples_between_cong [of "_\<lparr>rg_head := _\<rparr>" r])
qed

lemma consumer_step_ok:
  assumes "consumer_step c c'" and "conc_ok c"
  shows "conc_ok c'"
  using assms
proof cases
  case (pop_release h s)
  let ?r = "cr_ring c"
  have k: "h = rg_head ?r" "h < rg_tail ?r" "s = sl_sample (slot_at ?r h)"
    using pop_release assms(2) by (auto simp: conc_ok_def consumer_ok_def)
  have "unat h < 2 ^ 64 - 1" using k(2) unat_u64_bound [of "rg_tail ?r"] by (simp add: word_less_nat_alt)
  note inc = unat_u64_inc [OF this]
  have "samples_between ?r (rg_head ?r) (h + 1) = [s]"
    using k by (simp add: samples_between_def inc [unfolded k(1)] slot_at_def slot_index_def)
  with pop_release k inc show ?thesis
    using release_ok [OF assms(2) refl, of "h + 1" "[s]"] by (simp add: word_le_nat_alt word_less_nat_alt)
next
  case (clear_release t r)
  then show ?thesis using release_ok [OF assms(2) clear_release(3), of t] assms(2) by (auto simp: conc_ok_def consumer_ok_def)
next
  case (scan_next b t h)
  then have "h < t" by simp
  then have "unat (h + 1) = Suc (unat h)"
    using unat_u64_bound [of t] by (intro unat_u64_inc) (simp add: word_less_nat_alt)
  with scan_next assms(2) show ?thesis by (auto simp: conc_ok_def consumer_ok_def word_le_nat_alt word_less_nat_alt)
next
  case (scan_release b t h r)
  then show ?thesis using release_ok [OF assms(2) scan_release(3), of h] assms(2)
    by (auto simp: conc_ok_def consumer_ok_def intro: order_trans)
next
  case (pop_read h t)
  then show ?thesis using assms(2) by (auto simp: conc_ok_def consumer_ok_def word_le_nat_alt word_less_nat_alt
        word_unat_eq_iff)
qed (auto simp: conc_ok_def consumer_ok_def window_ok_def)

interpretation conc_inv: inductive_invariant conc_initial conc_step conc_ok
proof
  show "conc_ok c" if "conc_initial c" for c
    using that sample_ring_ok
    by (auto simp: conc_initial_def conc_ok_def producer_ok_def consumer_ok_def samples_between_queued)
  show "conc_ok c'" if "conc_ok c" "conc_step c c'" for c c'
    using that by (auto simp: conc_step_def intro: producer_step_ok consumer_step_ok)
qed

section \<open>Properties\<close>

text \<open>
  C19. Under every interleaving of the two threads' atomic accesses the ring is a queue: what was
  released (popped or flushed) followed by what is still queued is what was published, in order.
\<close>

theorem ring_linearizable:
  assumes "reachable conc_initial conc_step c"
  shows "cr_released c @ map sl_sample (queued (cr_ring c)) = cr_published c"
  using conc_inv.reachable_inv [OF assms] by (simp add: conc_ok_def samples_between_queued)

definition conc_start :: "nat \<Rightarrow> conc option" where
  "conc_start n = map_option (\<lambda>r. \<lparr>cr_ring = r, cr_producer = P_idle, cr_consumer = C_idle,
     cr_published = [], cr_released = []\<rparr>) (sample_ring n)"

lemma conc_start_reachable: "conc_start n = Some c \<Longrightarrow> reachable conc_initial conc_step c"
  by (rule reachable_init) (auto simp: conc_start_def conc_initial_def)

theorem ring_linearizable_witness:
  "\<exists>c. conc_start 2 = Some c \<and> cr_released c @ map sl_sample (queued (cr_ring c)) = cr_published c"
proof -
  obtain c where c: "conc_start 2 = Some c" by (simp add: conc_start_def sample_ring_def)
  with ring_linearizable [OF conc_start_reachable [OF c]] show ?thesis by blast
qed



text \<open>
  A state in which both threads are about to touch the buffer: one sample published, a second
  push past its check, a pop past its loads.
\<close>

definition race_state :: "slot list \<Rightarrow> conc" where
  "race_state buf = \<lparr>cr_ring = \<lparr>rg_buf = buf, rg_head = 0, rg_tail = 1, rg_fill_generation = 1, rg_flush_generation = 0\<rparr>,
     cr_producer = P_ready default_sample 1, cr_consumer = C_loaded 0 1,
     cr_published = [default_sample], cr_released = []\<rparr>"

lemma producer_reach: "reachable conc_initial conc_step c \<Longrightarrow> producer_step c c' \<Longrightarrow> reachable conc_initial conc_step c'"
  by (erule reachable_step) (simp add: conc_step_def)

lemma consumer_reach: "reachable conc_initial conc_step c \<Longrightarrow> consumer_step c c' \<Longrightarrow> reachable conc_initial conc_step c'"
  by (erule reachable_step) (simp add: conc_step_def)

lemma race_state_reachable: "\<exists>buf. reachable conc_initial conc_step (race_state buf)"
proof -
  let ?buf = "replicate 2 \<lparr>sl_sample = default_sample, sl_generation = 0\<rparr>"
  define r where "r = \<lparr>rg_buf = ?buf, rg_head = 0, rg_tail = 0, rg_fill_generation = 1, rg_flush_generation = 0\<rparr>"
  define c where "c = \<lparr>cr_ring = r, cr_producer = P_idle, cr_consumer = C_idle, cr_published = [], cr_released = []\<rparr>"
  let ?w = "r\<lparr>rg_buf := ?buf[0 := stamped r default_sample]\<rparr>"
  have 0: "reachable conc_initial conc_step c"
    by (rule conc_start_reachable [of 2]) (simp add: conc_start_def sample_ring_def c_def r_def)
  have 1: "reachable conc_initial conc_step (c\<lparr>cr_producer := P_loaded default_sample 0 0\<rparr>)"
    using producer_reach [OF 0 push_load [of c default_sample]] by (simp add: c_def r_def)
  have 2: "reachable conc_initial conc_step (c\<lparr>cr_producer := P_ready default_sample 0\<rparr>)"
    using producer_reach [OF 1 push_room] by (simp add: c_def r_def capacity_def)
  have 3: "reachable conc_initial conc_step (c\<lparr>cr_producer := P_written default_sample 0, cr_ring := ?w\<rparr>)"
    using producer_reach [OF 2 push_write [OF _ refl]] by (simp add: c_def r_def slot_index_def stamped_def)
  have 4: "reachable conc_initial conc_step (c\<lparr>cr_ring := ?w\<lparr>rg_tail := 1\<rparr>, cr_published := [default_sample]\<rparr>)"
    using producer_reach [OF 3 push_publish] by (simp add: c_def r_def)
  have 5: "reachable conc_initial conc_step (c\<lparr>cr_ring := ?w\<lparr>rg_tail := 1\<rparr>, cr_published := [default_sample],
      cr_consumer := C_loaded 0 1\<rparr>)"
    using consumer_reach [OF 4 pop_load] by (simp add: c_def r_def)
  have 6: "reachable conc_initial conc_step (c\<lparr>cr_ring := ?w\<lparr>rg_tail := 1\<rparr>, cr_published := [default_sample],
      cr_consumer := C_loaded 0 1, cr_producer := P_loaded default_sample 1 0\<rparr>)"
    using producer_reach [OF 5 push_load [of _ default_sample]] by (simp add: c_def r_def)
  have "reachable conc_initial conc_step (c\<lparr>cr_ring := ?w\<lparr>rg_tail := 1\<rparr>, cr_published := [default_sample],
      cr_consumer := C_loaded 0 1, cr_producer := P_ready default_sample 1\<rparr>)"
    using producer_reach [OF 6 push_room] by (simp add: c_def r_def capacity_def)
  then show ?thesis
    by (intro exI [of _ "rg_buf ?w"]) (simp add: race_state_def c_def r_def)
qed


end
