(* ===== verification/Snapshot.thy ===== *)
theory Snapshot
  imports Reachability
begin

text \<open>
  The snapshot channel of \<open>par6-rt/src/snapshot.rs\<close>: a triple buffer between one writer and one
  reader. The first part has the operations as the source runs them when nothing interferes;
  the second part has the two threads, one memory access at a time, in any interleaving.

  A payload is a list of machine words of one fixed words, because \<open>*slot = *value\<close> copies it
  word by word: a reader that overlapped such a copy would see words of two publishes. The
  \<open>swap\<close> and the \<open>load\<close> of \<open>latest\<close> are single steps and sequentially consistent, which is
  what their acquire and release orderings give for one location.
\<close>

section \<open>The operations\<close>

definition IDX_MASK :: u8 where "IDX_MASK = 3"

definition FRESH :: u8 where "FRESH = 4"

record 'w snap_shared =
  sh_slots :: "'w list list"
  sh_latest :: u8

text \<open>The two halves hold one index each: \<open>write_idx\<close> and \<open>read_idx\<close>.\<close>

definition snapshot_channel :: "'w list \<Rightarrow> 'w snap_shared \<times> u8 \<times> u8" where
  "snapshot_channel d = (\<lparr>sh_slots = [d, d, d], sh_latest = 0\<rparr>, 1, 2)"

definition snap_publish :: "'w snap_shared \<Rightarrow> u8 \<Rightarrow> 'w list \<Rightarrow> 'w snap_shared \<times> u8" where
  "snap_publish s write_idx value =
     (let s = s\<lparr>sh_slots := (sh_slots s)[unat write_idx := value]\<rparr>; old = sh_latest s
      in (s\<lparr>sh_latest := write_idx OR FRESH\<rparr>, old AND IDX_MASK))"

definition snap_take :: "'w snap_shared \<Rightarrow> u8 \<Rightarrow> 'w list option \<times> 'w snap_shared \<times> u8" where
  "snap_take s read_idx =
     (if sh_latest s AND FRESH = 0 then (None, s, read_idx)
      else let old = sh_latest s; s = s\<lparr>sh_latest := read_idx\<rparr>; read_idx = old AND IDX_MASK
           in (Some (sh_slots s ! unat read_idx), s, read_idx))"

definition snap_latest :: "'w snap_shared \<Rightarrow> u8 \<Rightarrow> 'w list \<times> 'w snap_shared \<times> u8" where
  "snap_latest s read_idx =
     (case snap_take s read_idx of
        (Some v, s, read_idx) \<Rightarrow> (v, s, read_idx)
      | (None, s, read_idx) \<Rightarrow> (sh_slots s ! unat read_idx, s, read_idx))"

section \<open>The two threads\<close>

text \<open>
  \<open>R_copy newest acc\<close> is a reader in the middle of its copy: \<open>newest\<close> counts the publishes that
  had happened when it looked at \<open>latest\<close>, and exists only in the model, as do the fields
  \<open>sn_published\<close> (every value published), \<open>sn_seen\<close> (the number of the publish the reader
  last took) and \<open>sn_log\<close> (every finished call: \<open>newest\<close> and \<open>sn_seen\<close> at its look, and what
  it returned).
\<close>

datatype 'w snap_writer = W_idle | W_copy "'w list" nat

datatype 'w snap_reader = R_idle | R_swap | R_copy nat "'w list"

record 'w snap_sys =
  sn_shared :: "'w snap_shared"
  sn_write_idx :: u8
  sn_read_idx :: u8
  sn_writer :: "'w snap_writer"
  sn_reader :: "'w snap_reader"
  sn_published :: "'w list list"
  sn_seen :: nat
  sn_log :: "(nat \<times> nat \<times> 'w list option) list"

inductive snap_write_step :: "nat \<Rightarrow> 'w snap_sys \<Rightarrow> 'w snap_sys \<Rightarrow> bool" for words :: nat where
  pub_call: "sn_writer s = W_idle \<Longrightarrow> length v = words \<Longrightarrow> snap_write_step words s (s\<lparr>sn_writer := W_copy v 0\<rparr>)"
| pub_word: "sn_writer s = W_copy v i \<Longrightarrow> i < words \<Longrightarrow> h = sn_shared s \<Longrightarrow> w = unat (sn_write_idx s) \<Longrightarrow>
    snap_write_step words s (s\<lparr>sn_writer := W_copy v (Suc i),
      sn_shared := h\<lparr>sh_slots := (sh_slots h)[w := (sh_slots h ! w)[i := v ! i]]\<rparr>\<rparr>)"
| pub_swap: "sn_writer s = W_copy v words \<Longrightarrow> h = sn_shared s \<Longrightarrow>
    snap_write_step words s (s\<lparr>sn_writer := W_idle, sn_write_idx := sh_latest h AND IDX_MASK,
      sn_shared := h\<lparr>sh_latest := sn_write_idx s OR FRESH\<rparr>, sn_published := sn_published s @ [v]\<rparr>)"

inductive snap_read_step :: "nat \<Rightarrow> 'w snap_sys \<Rightarrow> 'w snap_sys \<Rightarrow> bool" for words :: nat where
  take_none: "sn_reader s = R_idle \<Longrightarrow> sh_latest (sn_shared s) AND FRESH = 0 \<Longrightarrow>
    snap_read_step words s (s\<lparr>sn_log := sn_log s @ [(length (sn_published s), sn_seen s, None)]\<rparr>)"
| latest_stands: "sn_reader s = R_idle \<Longrightarrow> sh_latest (sn_shared s) AND FRESH = 0 \<Longrightarrow>
    snap_read_step words s (s\<lparr>sn_reader := R_copy (length (sn_published s)) []\<rparr>)"
| read_fresh: "sn_reader s = R_idle \<Longrightarrow> sh_latest (sn_shared s) AND FRESH \<noteq> 0 \<Longrightarrow>
    snap_read_step words s (s\<lparr>sn_reader := R_swap\<rparr>)"
| read_swap: "sn_reader s = R_swap \<Longrightarrow> h = sn_shared s \<Longrightarrow> n = length (sn_published s) \<Longrightarrow>
    snap_read_step words s (s\<lparr>sn_reader := R_copy n [], sn_seen := n, sn_read_idx := sh_latest h AND IDX_MASK,
      sn_shared := h\<lparr>sh_latest := sn_read_idx s\<rparr>\<rparr>)"
| read_word: "sn_reader s = R_copy n acc \<Longrightarrow> length acc < words \<Longrightarrow>
    snap_read_step words s (s\<lparr>sn_reader := R_copy n
      (acc @ [sh_slots (sn_shared s) ! unat (sn_read_idx s) ! length acc])\<rparr>)"
| read_done: "sn_reader s = R_copy n acc \<Longrightarrow> length acc = words \<Longrightarrow>
    snap_read_step words s (s\<lparr>sn_reader := R_idle, sn_log := sn_log s @ [(n, sn_seen s, Some acc)]\<rparr>)"

definition snap_step :: "nat \<Rightarrow> 'w snap_sys \<Rightarrow> 'w snap_sys \<Rightarrow> bool" where
  "snap_step words s s' \<longleftrightarrow> snap_write_step words s s' \<or> snap_read_step words s s'"

definition snap_start :: "'w list \<Rightarrow> 'w snap_sys" where
  "snap_start d = (case snapshot_channel d of (h, w, r) \<Rightarrow>
     \<lparr>sn_shared = h, sn_write_idx = w, sn_read_idx = r, sn_writer = W_idle, sn_reader = R_idle,
      sn_published = [], sn_seen = 0, sn_log = []\<rparr>)"

section \<open>The threads run the operations\<close>

text \<open>Without interference, the steps of a call add up to the operation.\<close>

lemma copy_in_words:
  assumes "sn_writer s = W_copy v 0" and "length v = words" and "i \<le> words"
    and "slot = sh_slots (sn_shared s) ! unat (sn_write_idx s)" and "length slot = words"
    and "unat (sn_write_idx s) < length (sh_slots (sn_shared s))"
  shows "(snap_write_step words)\<^sup>*\<^sup>* s (s\<lparr>sn_writer := W_copy v i,
    sn_shared := (sn_shared s)\<lparr>sh_slots := (sh_slots (sn_shared s))[unat (sn_write_idx s) := take i v @ drop i slot]\<rparr>\<rparr>)"
  using assms(3)
proof (induction i)
  case 0
  have "s\<lparr>sn_writer := W_copy v 0, sn_shared := sn_shared s\<rparr> = s" using assms(1) by simp
  with assms(4) show ?case by simp
next
  case (Suc i)
  let ?s = "s\<lparr>sn_writer := W_copy v i,
    sn_shared := (sn_shared s)\<lparr>sh_slots := (sh_slots (sn_shared s))[unat (sn_write_idx s) := take i v @ drop i slot]\<rparr>\<rparr>"
  have "(take i v @ drop i slot)[i := v ! i] = take (Suc i) v @ drop (Suc i) slot"
    using Suc.prems assms(2,5) by (simp add: list_update_append take_Suc_conv_app_nth flip: Cons_nth_drop_Suc)
  with pub_word [of ?s v i words "sn_shared ?s" "unat (sn_write_idx s)"] Suc.prems assms(6)
  have "snap_write_step words ?s (s\<lparr>sn_writer := W_copy v (Suc i), sn_shared := (sn_shared s)\<lparr>sh_slots :=
      (sh_slots (sn_shared s))[unat (sn_write_idx s) := take (Suc i) v @ drop (Suc i) slot]\<rparr>\<rparr>)"
    by simp
  moreover have "(snap_write_step words)\<^sup>*\<^sup>* s ?s" using Suc.IH Suc.prems by simp
  ultimately show ?case by (rule rtranclp.rtrancl_into_rtrancl [rotated])
qed

lemma publish_steps:
  assumes "sn_writer s = W_idle" and "length v = words"
    and "length (sh_slots (sn_shared s) ! unat (sn_write_idx s)) = words"
    and "unat (sn_write_idx s) < length (sh_slots (sn_shared s))"
    and "snap_publish (sn_shared s) (sn_write_idx s) v = (h, w)"
  shows "(snap_write_step words)\<^sup>*\<^sup>* s
    (s\<lparr>sn_writer := W_idle, sn_write_idx := w, sn_shared := h, sn_published := sn_published s @ [v]\<rparr>)"
proof -
  let ?a = "s\<lparr>sn_writer := W_copy v 0\<rparr>"
  let ?b = "s\<lparr>sn_writer := W_copy v words,
    sn_shared := (sn_shared s)\<lparr>sh_slots := (sh_slots (sn_shared s))[unat (sn_write_idx s) := v]\<rparr>\<rparr>"
  have "snap_write_step words s ?a" using assms(1,2) by (rule pub_call)
  moreover have "(snap_write_step words)\<^sup>*\<^sup>* ?a ?b"
    using copy_in_words [of ?a v words words] assms(2-4) by simp
  moreover have "snap_write_step words ?b
      (s\<lparr>sn_writer := W_idle, sn_write_idx := w, sn_shared := h, sn_published := sn_published s @ [v]\<rparr>)"
    using pub_swap [of ?b v words] assms(5) by (auto simp: snap_publish_def Let_def)
  ultimately show ?thesis by (meson converse_rtranclp_into_rtranclp rtranclp.rtrancl_into_rtrancl)
qed

lemma copy_out_words:
  assumes "sn_reader s = R_copy n []" and "slot = sh_slots (sn_shared s) ! unat (sn_read_idx s)"
    and "length slot = words" and "i \<le> words"
  shows "(snap_read_step words)\<^sup>*\<^sup>* s (s\<lparr>sn_reader := R_copy n (take i slot)\<rparr>)"
  using assms(4)
proof (induction i)
  case 0
  have "s\<lparr>sn_reader := R_copy n []\<rparr> = s" using assms(1) by simp
  then show ?case by simp
next
  case (Suc i)
  let ?s = "s\<lparr>sn_reader := R_copy n (take i slot)\<rparr>"
  have "take (Suc i) slot = take i slot @ [slot ! i]" "length (take i slot) = i"
    using Suc.prems assms(3) by (simp_all add: take_Suc_conv_app_nth)
  with read_word [of ?s n "take i slot" words] Suc.prems assms(2)
  have "snap_read_step words ?s (s\<lparr>sn_reader := R_copy n (take (Suc i) slot)\<rparr>)" by simp
  moreover have "(snap_read_step words)\<^sup>*\<^sup>* s ?s" using Suc.IH Suc.prems by simp
  ultimately show ?case by (rule rtranclp.rtrancl_into_rtrancl [rotated])
qed

lemma take_steps:
  assumes "sn_reader s = R_idle" and "snap_take (sn_shared s) (sn_read_idx s) = (Some v, h, r)" and "length v = words"
  shows "(snap_read_step words)\<^sup>*\<^sup>* s (s\<lparr>sn_seen := length (sn_published s), sn_read_idx := r, sn_shared := h, sn_reader := R_idle,
    sn_log := sn_log s @ [(length (sn_published s), length (sn_published s), Some v)]\<rparr>)"
proof -
  let ?n = "length (sn_published s)"
  let ?a = "s\<lparr>sn_reader := R_swap\<rparr>"
  let ?b = "s\<lparr>sn_reader := R_copy ?n [], sn_seen := ?n, sn_read_idx := r, sn_shared := h\<rparr>"
  let ?c = "?b\<lparr>sn_reader := R_copy ?n v\<rparr>"
  have fresh: "sh_latest (sn_shared s) AND FRESH \<noteq> 0" and r: "r = sh_latest (sn_shared s) AND IDX_MASK"
    and h: "h = (sn_shared s)\<lparr>sh_latest := sn_read_idx s\<rparr>" and v: "v = sh_slots h ! unat r"
    using assms(2) by (auto simp: snap_take_def Let_def split: if_splits)
  have "snap_read_step words s ?a" using assms(1) fresh by (rule read_fresh)
  moreover have "snap_read_step words ?a ?b" using read_swap [of ?a "sn_shared s" ?n words] r h by simp
  moreover have "(snap_read_step words)\<^sup>*\<^sup>* ?b ?c" using copy_out_words [of ?b ?n v words words] v assms(3) by simp
  moreover have "snap_read_step words ?c (s\<lparr>sn_seen := ?n, sn_read_idx := r, sn_shared := h,
    sn_reader := R_idle, sn_log := sn_log s @ [(?n, ?n, Some v)]\<rparr>)"
    using read_done [of ?c ?n v words] assms(3) by simp
  ultimately show ?thesis by (meson converse_rtranclp_into_rtranclp rtranclp.rtrancl_into_rtrancl)
qed

section \<open>The invariant\<close>

text \<open>Each of the three slots has one owner, so the two threads never meet in one.\<close>

definition slots_ok :: "nat \<Rightarrow> 'w snap_shared \<Rightarrow> u8 \<Rightarrow> u8 \<Rightarrow> bool" where
  "slots_ok words h w r \<longleftrightarrow> length (sh_slots h) = 3 \<and> (\<forall>x\<in>set (sh_slots h). length x = words)
     \<and> w \<in> {0, 1, 2} \<and> r \<in> {0, 1, 2} \<and> sh_latest h AND IDX_MASK \<in> {0, 1, 2} \<and> distinct [w, r, sh_latest h AND IDX_MASK]"

definition slot_of :: "'w snap_shared \<Rightarrow> u8 \<Rightarrow> 'w list" where
  "slot_of h i = sh_slots h ! unat i"

definition snap_writer_ok :: "nat \<Rightarrow> 'w list \<Rightarrow> 'w snap_writer \<Rightarrow> bool" where
  "snap_writer_ok words slot w = (case w of W_idle \<Rightarrow> True
     | W_copy v i \<Rightarrow> length v = words \<and> i \<le> words \<and> take i slot = take i v)"

definition snap_reader_ok :: "nat \<Rightarrow> bool \<Rightarrow> 'w list \<Rightarrow> nat \<Rightarrow> 'w snap_reader \<Rightarrow> bool" where
  "snap_reader_ok words fresh slot seen r = (case r of R_idle \<Rightarrow> True | R_swap \<Rightarrow> fresh
     | R_copy n acc \<Rightarrow> n = seen \<and> length acc \<le> words \<and> acc = take (length acc) slot)"

text \<open>
  What every finished call returned. With the default in front, \<open>values ! n\<close> is what a reader
  should see once \<open>n\<close> publishes have happened.
\<close>

definition snap_log_ok :: "'w list list \<Rightarrow> nat \<Rightarrow> (nat \<times> nat \<times> 'w list option) list \<Rightarrow> bool" where
  "snap_log_ok values seen log \<longleftrightarrow> sorted (map fst log)
     \<and> (\<forall>(newest, at, r)\<in>set log. at = newest \<and> newest \<le> seen \<and> (\<forall>v. r = Some v \<longrightarrow> v = values ! newest))"

definition snap_newest_ok :: "'w list list \<Rightarrow> 'w snap_shared \<Rightarrow> u8 \<Rightarrow> nat \<Rightarrow> bool" where
  "snap_newest_ok values h r seen \<longleftrightarrow> seen < length values \<and> slot_of h r = values ! seen
     \<and> (sh_latest h AND FRESH = 0 \<longrightarrow> Suc seen = length values)
     \<and> (sh_latest h AND FRESH \<noteq> 0 \<longrightarrow> slot_of h (sh_latest h AND IDX_MASK) = last values)"

definition snap_ok :: "'w list \<Rightarrow> 'w snap_sys \<Rightarrow> bool" where
  "snap_ok d s \<longleftrightarrow> (let h = sn_shared s; values = d # sn_published s in
       slots_ok (length d) h (sn_write_idx s) (sn_read_idx s)
     \<and> snap_writer_ok (length d) (slot_of h (sn_write_idx s)) (sn_writer s)
     \<and> snap_reader_ok (length d) (sh_latest h AND FRESH \<noteq> 0) (slot_of h (sn_read_idx s)) (sn_seen s) (sn_reader s)
     \<and> snap_newest_ok values h (sn_read_idx s) (sn_seen s) \<and> snap_log_ok values (sn_seen s) (sn_log s))"

lemma index_bits:
  assumes "i \<in> {0, 1, 2}"
  shows "(i OR FRESH) AND IDX_MASK = i" "i AND IDX_MASK = i" "(i OR FRESH) AND FRESH \<noteq> 0" "i AND FRESH = 0" "unat i < 3"
  using assms by (auto simp: FRESH_def IDX_MASK_def)

lemma index_distinct: "i \<in> {0, 1, 2} \<Longrightarrow> j \<in> {0, 1, 2} \<Longrightarrow> unat (i :: u8) = unat j \<longleftrightarrow> i = j"
  by auto

lemma take_Suc_update:
  "i < length x \<Longrightarrow> i < length v \<Longrightarrow> take i x = take i v \<Longrightarrow> take (Suc i) (x[i := v ! i]) = take (Suc i) v"
  by (simp add: take_Suc_conv_app_nth)

lemma slots_okD:
  assumes "slots_ok words h w r" and "i \<in> {0, 1, 2}"
  shows "length (slot_of h i) = words"
  using assms index_bits(5) [OF assms(2)] by (simp add: slots_ok_def slot_of_def)

lemma slot_of_update:
  assumes "slots_ok words h w r" and "i \<in> {0, 1, 2}" and "i \<noteq> w"
  shows "slot_of (h\<lparr>sh_slots := (sh_slots h)[unat w := x]\<rparr>) i = slot_of h i"
  using assms by (simp add: slots_ok_def slot_of_def index_distinct)

lemma slot_of_update_same:
  assumes "slots_ok words h w r"
  shows "slot_of (h\<lparr>sh_slots := (sh_slots h)[unat w := x]\<rparr>) w = x"
  using assms index_bits(5) [of w] by (simp add: slots_ok_def slot_of_def)

lemma slot_of_latest [simp]: "slot_of (h\<lparr>sh_latest := l\<rparr>) i = slot_of h i"
  by (simp add: slot_of_def)

lemma slots_ok_update:
  assumes "slots_ok words h w r" and "length x = words"
  shows "slots_ok words (h\<lparr>sh_slots := (sh_slots h)[unat w := x]\<rparr>) w r"
proof -
  have "\<forall>y\<in>set ((sh_slots h)[unat w := x]). length y = words"
    using assms set_update_subset_insert [of "sh_slots h" "unat w" x] by (auto simp: slots_ok_def)
  with assms(1) show ?thesis by (simp add: slots_ok_def)
qed

text \<open>A publish and a take hand slots over: the owners are permuted.\<close>

lemma slots_ok_publish:
  assumes "slots_ok words h w r"
  shows "slots_ok words (h\<lparr>sh_latest := w OR FRESH\<rparr>) (sh_latest h AND IDX_MASK) r"
  using assms index_bits(1) [of w] by (auto simp: slots_ok_def)

lemma slots_ok_take:
  assumes "slots_ok words h w r"
  shows "slots_ok words (h\<lparr>sh_latest := r\<rparr>) w (sh_latest h AND IDX_MASK)"
  using assms index_bits(2) [of r] by (auto simp: slots_ok_def)

lemma snap_log_ok_mono:
  assumes "snap_log_ok values seen log" and "seen < length values" and "seen \<le> seen'"
  shows "snap_log_ok (values @ extra) seen' log"
  using assms by (fastforce simp: snap_log_ok_def nth_append)

lemma snap_log_ok_snoc:
  assumes "snap_log_ok values seen log" and "\<And>v. r = Some v \<Longrightarrow> v = values ! seen"
  shows "snap_log_ok values seen (log @ [(seen, seen, r)])"
  using assms by (fastforce simp: snap_log_ok_def sorted_append)

lemmas snap_ok_defs = snap_ok_def Let_def snap_writer_ok_def snap_reader_ok_def snap_newest_ok_def

lemma snap_ok_start: "snap_ok d (snap_start d)"
  by (simp add: snap_ok_defs snap_log_ok_def slots_ok_def slot_of_def snap_start_def snapshot_channel_def IDX_MASK_def FRESH_def)

lemma snap_ok_write:
  assumes "snap_ok d s" and "snap_write_step (length d) s s'"
  shows "snap_ok d s'"
  using assms(2)
proof cases
  case (pub_call v)
  with assms(1) show ?thesis by (simp add: snap_ok_defs)
next
  case (pub_word v i h w)
  let ?x = "(slot_of h (sn_write_idx s))[i := v ! i]"
  have ok: "slots_ok (length d) h (sn_write_idx s) (sn_read_idx s)" using assms(1) pub_word by (simp add: snap_ok_def Let_def)
  then have idx: "sn_write_idx s \<in> {0, 1, 2}" "sn_read_idx s \<in> {0, 1, 2}" "sh_latest h AND IDX_MASK \<in> {0, 1, 2}"
    "sn_read_idx s \<noteq> sn_write_idx s" "sh_latest h AND IDX_MASK \<noteq> sn_write_idx s" by (auto simp: slots_ok_def)
  have len: "length ?x = length d" using slots_okD [OF ok idx(1)] by simp
  note facts = slots_ok_update [OF ok len] slot_of_update [OF ok idx(2,4)] slot_of_update [OF ok idx(3,5)]
    slot_of_update_same [OF ok] slots_okD [OF ok idx(1)]
  have "s' = s\<lparr>sn_writer := W_copy v (Suc i), sn_shared := h\<lparr>sh_slots := (sh_slots h)[unat (sn_write_idx s) := ?x]\<rparr>\<rparr>"
    using pub_word by (simp add: slot_of_def)
  with assms(1) pub_word(2-4) facts show ?thesis
    by (simp add: snap_ok_def Let_def snap_writer_ok_def snap_newest_ok_def take_Suc_update) metis
next
  case (pub_swap v h)
  have ok: "slots_ok (length d) h (sn_write_idx s) (sn_read_idx s)" using assms(1) pub_swap by (simp add: snap_ok_def Let_def)
  then have "sn_write_idx s \<in> {0, 1, 2}" by (simp add: slots_ok_def)
  note bits = index_bits [OF this]
  have slot: "slot_of h (sn_write_idx s) = v"
    using assms(1) pub_swap slots_okD [OF ok \<open>sn_write_idx s \<in> {0, 1, 2}\<close>] by (simp add: snap_ok_defs)
  have log: "snap_log_ok ((d # sn_published s) @ [v]) (sn_seen s) (sn_log s)"
    using assms(1) by (intro snap_log_ok_mono [of _ "sn_seen s"]) (simp_all add: snap_ok_defs)
  show ?thesis
    using assms(1) pub_swap slots_ok_publish [OF ok] bits slot log
    by (auto simp: snap_ok_defs nth_append nth_Cons split: snap_reader.splits nat.splits)
qed

lemma snap_ok_read:
  assumes "snap_ok d s" and "snap_read_step (length d) s s'"
  shows "snap_ok d s'"
  using assms(2)
proof cases
  case take_none
  have "snap_log_ok (d # sn_published s) (sn_seen s) (sn_log s @ [(sn_seen s, sn_seen s, None)])"
    using assms(1) by (intro snap_log_ok_snoc) (simp_all add: snap_ok_def Let_def)
  with assms(1) take_none show ?thesis by (simp add: snap_ok_defs)
next
  case latest_stands
  with assms(1) show ?thesis by (auto simp: snap_ok_defs)
next
  case read_fresh
  with assms(1) show ?thesis by (simp add: snap_ok_defs)
next
  case (read_swap h n)
  have ok: "slots_ok (length d) h (sn_write_idx s) (sn_read_idx s)" using assms(1) read_swap by (simp add: snap_ok_def Let_def)
  then have "sn_read_idx s \<in> {0, 1, 2}" by (simp add: slots_ok_def)
  note bits = index_bits [OF this]
  have log: "snap_log_ok ((d # sn_published s) @ []) n (sn_log s)"
    using assms(1) read_swap by (intro snap_log_ok_mono [of _ "sn_seen s"]) (simp_all add: snap_ok_defs)
  show ?thesis
    using assms(1) read_swap slots_ok_take [OF ok] bits log
    by (simp add: snap_ok_def Let_def snap_reader_ok_def snap_newest_ok_def last_conv_nth)
next
  case (read_word n acc)
  let ?slot = "slot_of (sn_shared s) (sn_read_idx s)"
  have len: "length ?slot = length d"
    using assms(1) slots_okD [of "length d" "sn_shared s" "sn_write_idx s" "sn_read_idx s"] by (auto simp: snap_ok_def Let_def slots_ok_def)
  then have "acc @ [?slot ! length acc] = take (Suc (length acc)) ?slot"
    using len assms(1) read_word by (simp add: snap_ok_def Let_def snap_reader_ok_def take_Suc_conv_app_nth)
  with assms(1) read_word len show ?thesis
    by (simp add: snap_ok_def Let_def snap_reader_ok_def slot_of_def)
next
  case (read_done n acc)
  have "length (slot_of (sn_shared s) (sn_read_idx s)) = length d"
    using assms(1) slots_okD [of "length d" "sn_shared s" "sn_write_idx s" "sn_read_idx s"] by (auto simp: snap_ok_def Let_def slots_ok_def)
  with assms(1) read_done have "snap_log_ok (d # sn_published s) (sn_seen s) (sn_log s @ [(sn_seen s, sn_seen s, Some acc)])"
    by (intro snap_log_ok_snoc) (simp_all add: snap_ok_defs)
  with assms(1) read_done show ?thesis by (simp add: snap_ok_defs)
qed

interpretation snap_inv: inductive_invariant "\<lambda>s. s = snap_start d" "snap_step (length d)" "snap_ok d"
  by unfold_locales (auto simp: snap_ok_start snap_step_def intro: snap_ok_write snap_ok_read)

section \<open>Properties\<close>

text \<open>
  C22. In every interleaving of the memory accesses of the two threads, every call of the reader
  returns exactly the value of the newest publish at the moment it looked, complete and never
  mixed from two publishes; \<open>None\<close> is answered only when that publish has been taken already;
  what the reader sees never goes back; and the threads never own the same slot.
\<close>

theorem snapshot_reads_newest:
  assumes "reachable (\<lambda>s. s = snap_start d) (snap_step (length d)) s"
  shows "sn_write_idx s \<noteq> sn_read_idx s \<and> sorted (map fst (sn_log s))
    \<and> (\<forall>(newest, seen, r)\<in>set (sn_log s). seen = newest \<and> newest \<le> length (sn_published s)
         \<and> (\<forall>v. r = Some v \<longrightarrow> v = (d # sn_published s) ! newest))"
proof -
  have ok: "snap_ok d s" by (rule snap_inv.reachable_inv [OF assms])
  then have "sn_write_idx s \<noteq> sn_read_idx s" by (auto simp: snap_ok_def slots_ok_def Let_def)
  moreover from ok have "snap_log_ok (d # sn_published s) (sn_seen s) (sn_log s)" by (simp add: snap_ok_def Let_def)
  moreover from ok have "sn_seen s \<le> length (sn_published s)" by (auto simp: snap_ok_def snap_newest_ok_def Let_def)
  ultimately show ?thesis by (force simp: snap_log_ok_def)
qed

text \<open>One publish of one word, taken by the reader.\<close>

definition snap_state :: "nat list list \<Rightarrow> u8 \<Rightarrow> u8 \<Rightarrow> u8 \<Rightarrow> nat snap_writer \<Rightarrow> nat snap_reader \<Rightarrow> nat snap_sys" where
  "snap_state slots l w r wr rd = \<lparr>sn_shared = \<lparr>sh_slots = slots, sh_latest = l\<rparr>, sn_write_idx = w, sn_read_idx = r,
     sn_writer = wr, sn_reader = rd, sn_published = [], sn_seen = 0, sn_log = []\<rparr>"

lemma snap_reach:
  "reachable I (snap_step n) s \<Longrightarrow> snap_write_step n s s' \<Longrightarrow> reachable I (snap_step n) s'"
  "reachable I (snap_step n) s \<Longrightarrow> snap_read_step n s s' \<Longrightarrow> reachable I (snap_step n) s'"
  by (auto simp: snap_step_def intro: reachable_step)

lemma snap_example:
  defines "s \<equiv> (snap_state [[0], [5], [0]] 2 0 1 W_idle R_idle)\<lparr>sn_published := [[5]], sn_seen := 1, sn_log := [(1, 1, Some [5])]\<rparr>"
  shows "reachable (\<lambda>s. s = snap_start [0]) (snap_step 1) s"
proof -
  let ?R = "reachable (\<lambda>s. s = snap_start [0]) (snap_step 1)"
  let ?p = "\<lambda>t. t\<lparr>sn_published := [[5]]\<rparr>" and ?q = "\<lambda>t. t\<lparr>sn_published := [[5]], sn_seen := 1\<rparr>"
  have "?R (snap_state [[0], [0], [0]] 0 1 2 W_idle R_idle)"
    by (rule reachable_init) (simp add: snap_start_def snapshot_channel_def snap_state_def)
  then have "?R (snap_state [[0], [0], [0]] 0 1 2 (W_copy [5] 0) R_idle)"
    by (rule snap_reach(1)) (simp add: snap_state_def snap_write_step.simps)
  then have "?R (snap_state [[0], [5], [0]] 0 1 2 (W_copy [5] 1) R_idle)"
    by (rule snap_reach(1)) (simp add: snap_state_def snap_write_step.simps)
  then have "?R (?p (snap_state [[0], [5], [0]] 5 0 2 W_idle R_idle))"
    by (rule snap_reach(1)) (simp add: snap_state_def snap_write_step.simps FRESH_def IDX_MASK_def)
  then have "?R (?p (snap_state [[0], [5], [0]] 5 0 2 W_idle R_swap))"
    by (rule snap_reach(2)) (simp add: snap_state_def snap_read_step.simps FRESH_def)
  then have "?R (?q (snap_state [[0], [5], [0]] 2 0 1 W_idle (R_copy 1 [])))"
    by (rule snap_reach(2)) (simp add: snap_state_def snap_read_step.simps IDX_MASK_def)
  then have "?R (?q (snap_state [[0], [5], [0]] 2 0 1 W_idle (R_copy 1 [5])))"
    by (rule snap_reach(2)) (simp add: snap_state_def snap_read_step.simps)
  then show ?thesis unfolding s_def
    by (rule snap_reach(2)) (simp add: snap_state_def snap_read_step.simps)
qed

theorem snapshot_reads_newest_witness:
  "\<exists>s. reachable (\<lambda>s. s = snap_start [0]) (snap_step 1) s \<and> sn_log s = [(1, 1, Some [5])]
     \<and> (\<forall>(newest, seen, r)\<in>set (sn_log s). \<forall>v. r = Some v \<longrightarrow> v = ([0 :: nat] # sn_published s) ! newest)"
  by (rule exI, rule conjI, rule snap_example)
    (use snapshot_reads_newest [of "[0 :: nat]"] snap_example in \<open>force simp: snap_state_def\<close>)

end
