(* ===== verification/Gripper.thy ===== *)
theory Gripper
  imports F64 Reachability
begin

text \<open>
  The firmware gripper: the send gate of \<open>par6-rt/src/gripper_gate.rs\<close>, which decides what the
  tick's gripper slot carries, and the completion detection of \<open>par6-rt/src/gripper_settle.rs\<close>,
  with the bus types of \<open>par6-bus/src/types.rs\<close> they exchange.
\<close>

unbundle bit_operations_syntax

section \<open>Bus types\<close>

type_synonym i16 = "16 word"
type_synonym i32 = "32 word"

datatype pack = Pack_Pid | Pack_Pd | Pack_Hall u8 | Pack_Idle | Pack_EncoderPoll

record joint_command =
  jc_pos :: "i32 option"
  jc_vel :: "i32 option"
  jc_cur_ma :: "i16 option"
  jc_pack :: pack

record firmware_gripper_command =
  fg_position :: u8
  fg_speed :: u8
  fg_current_ma :: i16
  fg_activate :: bool
  fg_action :: bool
  fg_estop :: bool
  fg_release_dir :: bool

definition default_firmware :: firmware_gripper_command where
  "default_firmware = \<lparr>fg_position = 0, fg_speed = 0, fg_current_ma = 0, fg_activate = False,
     fg_action = False, fg_estop = False, fg_release_dir = False\<rparr>"

datatype gripper_command =
    GC_NoGripper | GC_Motor joint_command | GC_Firmware firmware_gripper_command | GC_FirmwarePoll | GC_Calibrate

datatype object_detection = Det_Moving | Det_Closing | Det_Opening | Det_Reached

record gripper_reply =
  gr_position :: u8
  gr_current_ma :: i16
  gr_activated :: bool
  gr_action_status :: bool
  gr_object_detection :: object_detection
  gr_temperature_error :: bool
  gr_timeout_error :: bool
  gr_estop_error :: bool
  gr_calibrated :: bool

section \<open>The send gate\<close>

definition IDLE_PACK_REPEATS :: u8 where "IDLE_PACK_REPEATS = 3"

record gripper_gate =
  gg_standing :: "firmware_gripper_command option"
  gg_idle_repeats :: u8

definition default_gate :: gripper_gate where
  "default_gate = \<lparr>gg_standing = None, gg_idle_repeats = 0\<rparr>"

definition gate_set :: "gripper_gate \<Rightarrow> firmware_gripper_command \<Rightarrow> gripper_gate" where
  "gate_set g fw = g\<lparr>gg_standing := Some fw\<rparr>"

definition has_standing :: "gripper_gate \<Rightarrow> bool" where
  "has_standing g \<longleftrightarrow> gg_standing g \<noteq> None"

definition holding :: "gripper_gate \<Rightarrow> bool" where
  "holding g \<longleftrightarrow> (case gg_standing g of Some c \<Rightarrow> fg_action c | None \<Rightarrow> False)"

definition stop_at :: "gripper_gate \<Rightarrow> u8 \<Rightarrow> gripper_gate" where
  "stop_at g jaw_byte = g\<lparr>gg_standing := map_option (\<lambda>c. c\<lparr>fg_position := jaw_byte, fg_action := True\<rparr>) (gg_standing g)\<rparr>"

definition gate_idle :: "gripper_gate \<Rightarrow> gripper_gate" where
  "gate_idle g = g\<lparr>gg_standing := map_option (\<lambda>c. c\<lparr>fg_action := False, fg_activate := True, fg_estop := False\<rparr>) (gg_standing g),
     gg_idle_repeats := IDLE_PACK_REPEATS\<rparr>"

definition announcement :: "gripper_gate \<Rightarrow> firmware_gripper_command" where
  "announcement g =
     (let f = (case gg_standing g of Some c \<Rightarrow> c | None \<Rightarrow> default_firmware)
      in f\<lparr>fg_action := False, fg_activate := True, fg_estop := False\<rparr>)"

definition force_idle :: "gripper_gate \<Rightarrow> firmware_gripper_command option \<Rightarrow> gripper_gate" where
  "force_idle g prev = gate_idle (case prev of Some f \<Rightarrow> g\<lparr>gg_standing := Some f\<rparr> | None \<Rightarrow> g)"

definition reset_to_poll :: "gripper_gate \<Rightarrow> gripper_gate" where
  "reset_to_poll g = g\<lparr>gg_standing := None, gg_idle_repeats := 0\<rparr>"

definition gate_tick :: "gripper_gate \<Rightarrow> bool \<Rightarrow> gripper_command \<times> gripper_gate" where
  "gate_tick g calibrated =
     (let active = (case gg_standing g of Some c \<Rightarrow> fg_action c | None \<Rightarrow> False) \<and> calibrated in
      if active then
        (GC_Firmware (case gg_standing g of Some c \<Rightarrow> c | None \<Rightarrow> default_firmware), g\<lparr>gg_idle_repeats := IDLE_PACK_REPEATS\<rparr>)
      else if 0 < gg_idle_repeats g then
        (let g = g\<lparr>gg_idle_repeats := gg_idle_repeats g - 1\<rparr> in (GC_Firmware (announcement g), g))
      else (GC_FirmwarePoll, g))"

section \<open>Completion detection\<close>

datatype tool_wait = Wait_Move | Wait_Calibrate | Wait_Hold | Wait_Idle

datatype tool_settle =
    TS_Unarmed | TS_Running | TS_Done | TS_Settled object_detection | TS_Timeout tool_wait | TS_Fault u8

record tool_status =
  ts_verdict :: tool_settle
  ts_epoch :: u32

record settle_timings =
  sg_command_grace_s :: f64
  sg_detect_debounce_s :: f64
  sg_move_timeout_s :: f64
  sg_calibrate_timeout_s :: f64
  sg_calibrate_min_wait_s :: f64

record settle_ticks =
  sk_grace :: u64
  sk_debounce :: u32
  sk_move_timeout :: u64
  sk_calibrate_timeout :: u64
  sk_calibrate_min :: u64

definition new_settle_ticks :: "f64 \<Rightarrow> settle_timings \<Rightarrow> settle_ticks" where
  "new_settle_ticks dt t =
     (let ticks = (\<lambda>s. of_nat (f64_round_to_nat (f64_div s dt) (2 ^ 64 - 1)) :: u64) in
      \<lparr>sk_grace = max (ticks (sg_command_grace_s t)) 2,
       sk_debounce = ucast (max (ticks (sg_detect_debounce_s t)) 1),
       sk_move_timeout = ticks (sg_move_timeout_s t),
       sk_calibrate_timeout = ticks (sg_calibrate_timeout_s t),
       sk_calibrate_min = ticks (sg_calibrate_min_wait_s t)\<rparr>)"

record gripper_settle =
  gs_ticks :: settle_ticks
  gs_wait :: "tool_wait option"
  gs_armed_tick :: u64
  gs_closing :: bool
  gs_detect_streak :: u32
  gs_status :: tool_status

definition new_gripper_settle :: "f64 \<Rightarrow> settle_timings \<Rightarrow> gripper_settle" where
  "new_gripper_settle dt timings = \<lparr>gs_ticks = new_settle_ticks dt timings, gs_wait = None, gs_armed_tick = 0,
     gs_closing = False, gs_detect_streak = 0, gs_status = \<lparr>ts_verdict = TS_Unarmed, ts_epoch = 0\<rparr>\<rparr>"

definition set_verdict :: "gripper_settle \<Rightarrow> tool_settle \<Rightarrow> gripper_settle" where
  "set_verdict m v = m\<lparr>gs_status := (gs_status m)\<lparr>ts_verdict := v\<rparr>\<rparr>"

definition verdict :: "gripper_settle \<Rightarrow> tool_settle" where
  "verdict m = ts_verdict (gs_status m)"

definition arm :: "gripper_settle \<Rightarrow> u64 \<Rightarrow> tool_wait \<Rightarrow> gripper_settle" where
  "arm m tick wait = m\<lparr>gs_wait := Some wait, gs_armed_tick := tick, gs_detect_streak := 0,
     gs_status := \<lparr>ts_verdict = TS_Running, ts_epoch = ts_epoch (gs_status m) + 1\<rparr>\<rparr>"

definition arm_move :: "gripper_settle \<Rightarrow> u64 \<Rightarrow> u8 \<Rightarrow> u8 \<Rightarrow> gripper_settle" where
  "arm_move m tick target position = arm (m\<lparr>gs_closing := position < target\<rparr>) tick Wait_Move"

definition arm_calibrate :: "gripper_settle \<Rightarrow> u64 \<Rightarrow> gripper_settle" where
  "arm_calibrate m tick = arm m tick Wait_Calibrate"

definition arm_hold :: "gripper_settle \<Rightarrow> u64 \<Rightarrow> gripper_settle" where
  "arm_hold m tick = arm m tick Wait_Hold"

definition arm_idle :: "gripper_settle \<Rightarrow> u64 \<Rightarrow> gripper_settle" where
  "arm_idle m tick = arm m tick Wait_Idle"

definition disarm :: "gripper_settle \<Rightarrow> gripper_settle" where
  "disarm m = m\<lparr>gs_wait := None, gs_detect_streak := 0,
     gs_status := \<lparr>ts_verdict = TS_Unarmed, ts_epoch = ts_epoch (gs_status m) + 1\<rparr>\<rparr>"

definition wait_timeout :: "gripper_settle \<Rightarrow> tool_wait \<Rightarrow> u64" where
  "wait_timeout m wait = (case wait of
       Wait_Calibrate \<Rightarrow> sk_calibrate_timeout (gs_ticks m)
     | _ \<Rightarrow> sk_move_timeout (gs_ticks m))"

definition tick_move :: "gripper_settle \<Rightarrow> gripper_reply \<Rightarrow> gripper_settle" where
  "tick_move m r = (case gr_object_detection r of
       Det_Reached \<Rightarrow> set_verdict m (TS_Settled Det_Reached)
     | Det_Moving \<Rightarrow> m\<lparr>gs_detect_streak := 0\<rparr>
     | d \<Rightarrow> if (d = Det_Closing) = gs_closing m then
              (let m = m\<lparr>gs_detect_streak := gs_detect_streak m + 1\<rparr>
               in if sk_debounce (gs_ticks m) \<le> gs_detect_streak m then set_verdict m (TS_Settled d) else m)
            else m\<lparr>gs_detect_streak := 0\<rparr>)"

definition reply_fault :: "gripper_reply \<Rightarrow> bool \<Rightarrow> u8" where
  "reply_fault r live_error_bit =
     (of_bool (gr_temperature_error r) :: u8) OR push_bit 1 (of_bool (gr_timeout_error r))
       OR push_bit 2 (of_bool (gr_estop_error r)) OR push_bit 3 (of_bool live_error_bit)"

definition tick_wait :: "gripper_settle \<Rightarrow> u64 \<Rightarrow> gripper_reply \<Rightarrow> tool_wait \<Rightarrow> gripper_settle" where
  "tick_wait m elapsed r wait = (case wait of
       Wait_Move \<Rightarrow> tick_move m r
     | Wait_Calibrate \<Rightarrow> if sk_calibrate_min (gs_ticks m) \<le> elapsed \<and> gr_calibrated r then set_verdict m TS_Done else m
     | Wait_Hold \<Rightarrow> if gr_object_detection r \<noteq> Det_Moving then set_verdict m TS_Done else m
     | Wait_Idle \<Rightarrow> if \<not> gr_action_status r then set_verdict m TS_Done else m)"

text \<open>\<open>u64::saturating_sub\<close>.\<close>

definition saturating_sub :: "u64 \<Rightarrow> u64 \<Rightarrow> u64" where
  "saturating_sub a b = (if b \<le> a then a - b else 0)"

definition settle_tick :: "gripper_settle \<Rightarrow> u64 \<Rightarrow> gripper_reply option \<Rightarrow> bool \<Rightarrow> gripper_settle" where
  "settle_tick m tick reply live_error_bit =
     (case gs_wait m of None \<Rightarrow> m | Some wait \<Rightarrow>
      if verdict m \<noteq> TS_Running then m
      else let elapsed = saturating_sub tick (gs_armed_tick m);
               fault = (case reply of Some r \<Rightarrow> reply_fault r live_error_bit | None \<Rightarrow> 0) in
      if sk_grace (gs_ticks m) \<le> elapsed \<and> reply \<noteq> None \<and> fault \<noteq> 0 then set_verdict m (TS_Fault fault)
      else let m = (if sk_grace (gs_ticks m) \<le> elapsed
                    then case reply of Some r \<Rightarrow> tick_wait m elapsed r wait | None \<Rightarrow> m else m) in
      if verdict m = TS_Running \<and> wait_timeout m wait \<le> elapsed then set_verdict m (TS_Timeout wait) else m)"


section \<open>The frames of a run\<close>

text \<open>
  The gate's operations as the loop interleaves them, and the frames its ticks put on the bus.
  \<open>reset_to_poll\<close> is the one operation that gives up the announcement on purpose.
\<close>

datatype gate_op =
    Gate_set firmware_gripper_command | Gate_stop_at u8 | Gate_idle
  | Gate_force_idle "firmware_gripper_command option" | Gate_tick bool

fun run_gate_op :: "gate_op \<Rightarrow> gripper_gate \<Rightarrow> gripper_command list \<times> gripper_gate" where
  "run_gate_op (Gate_set fw) g = ([], gate_set g fw)"
| "run_gate_op (Gate_stop_at b) g = ([], stop_at g b)"
| "run_gate_op Gate_idle g = ([], gate_idle g)"
| "run_gate_op (Gate_force_idle l) g = ([], force_idle g l)"
| "run_gate_op (Gate_tick c) g = (let (f, g') = gate_tick g c in ([f], g'))"

fun run_gate :: "gate_op list \<Rightarrow> gripper_gate \<Rightarrow> gripper_command list \<times> gripper_gate" where
  "run_gate [] g = ([], g)"
| "run_gate (x # xs) g = (let (fs, g') = run_gate_op x g; (fs', g'') = run_gate xs g' in (fs @ fs', g''))"

definition action_frame :: "gripper_command \<Rightarrow> bool" where
  "action_frame f \<longleftrightarrow> (case f of GC_Firmware c \<Rightarrow> fg_action c | _ \<Rightarrow> False)"

definition idle_frame :: "gripper_command \<Rightarrow> bool" where
  "idle_frame f \<longleftrightarrow> (case f of GC_Firmware c \<Rightarrow> \<not> fg_action c \<and> fg_activate c \<and> \<not> fg_estop c | _ \<Rightarrow> False)"

text \<open>
  \<open>pays n fs\<close>: with \<open>n\<close> idle announcements owed, the frames \<open>fs\<close> pay before they poll: an
  action frame owes three, an announcement pays one, a poll is only allowed without debt.
\<close>

fun pays :: "nat \<Rightarrow> gripper_command list \<Rightarrow> bool" where
  "pays n [] \<longleftrightarrow> True"
| "pays n (f # fs) \<longleftrightarrow>
     (if action_frame f then pays 3 fs else if idle_frame f then pays (n - 1) fs else n = 0 \<and> pays n fs)"

lemma announcement_idle: "idle_frame (GC_Firmware (announcement g))" "\<not> action_frame (GC_Firmware (announcement g))"
  by (simp_all add: idle_frame_def action_frame_def announcement_def Let_def)

lemma gate_tick_frame:
  assumes "gate_tick g c = (f, g')" and "n \<le> unat (gg_idle_repeats g)"
  shows "action_frame f \<and> 3 \<le> unat (gg_idle_repeats g')
    \<or> \<not> action_frame f \<and> idle_frame f \<and> n - 1 \<le> unat (gg_idle_repeats g')
    \<or> f = GC_FirmwarePoll \<and> n = 0"
proof -
  have dec: "unat (x - 1) = unat x - 1" if "0 < x" for x :: u8
    using that by (simp add: unat_sub word_le_nat_alt word_less_nat_alt)
  show ?thesis
    using assms announcement_idle
    by (auto simp: gate_tick_def Let_def action_frame_def IDLE_PACK_REPEATS_def dec word_gt_0 split: if_splits option.splits)
qed

lemma run_gate_pays:
  "run_gate xs g = (fs, g') \<Longrightarrow> n \<le> unat (gg_idle_repeats g) \<Longrightarrow> n \<le> 3 \<Longrightarrow> pays n fs"
proof (induction xs arbitrary: g fs n)
  case (Cons x xs)
  obtain f1 g1 where x: "run_gate_op x g = (f1, g1)" by (cases "run_gate_op x g")
  obtain f2 where xs: "run_gate xs g1 = (f2, g')" and fs: "fs = f1 @ f2"
    using Cons.prems(1) x by (auto simp: split_def Let_def prod_eq_iff)
  note IH = Cons.IH [OF xs]
  show ?case
  proof (cases x)
    case (Gate_tick c)
    then obtain f where f: "gate_tick g c = (f, g1)" "f1 = [f]" using x by (cases "gate_tick g c") auto
    from gate_tick_frame [OF f(1) Cons.prems(2)] show ?thesis
      using IH [of 3] IH [of "n - 1"] IH [of 0] Cons.prems(3)
      by (auto simp: fs f(2) action_frame_def idle_frame_def)
  qed (use x Cons.prems IH [of n] in \<open>auto simp: fs gate_set_def stop_at_def gate_idle_def force_idle_def
      IDLE_PACK_REPEATS_def split: option.splits\<close>)
qed simp


lemma pays_poll:
  "pays n (ys @ GC_FirmwarePoll # zs) \<Longrightarrow> list_all (\<lambda>f. \<not> action_frame f) ys \<Longrightarrow> n \<le> length (filter idle_frame ys)"
proof (induction ys arbitrary: n)
  case (Cons f ys)
  then show ?case by (cases "idle_frame f") fastforce+
qed (simp add: action_frame_def idle_frame_def)

lemma pays_suffix: "pays n (xs @ f # ys) \<Longrightarrow> action_frame f \<Longrightarrow> pays 3 ys"
  by (induction xs arbitrary: n) (auto split: if_splits)

section \<open>Detection\<close>

text \<open>
  What a move has seen since it was armed: the replies that counted (past the grace window),
  newest first, and how many of them agree with the commanded direction without interruption.
\<close>

definition agrees :: "bool \<Rightarrow> gripper_reply \<Rightarrow> bool" where
  "agrees closing r \<longleftrightarrow> gr_object_detection r = (if closing then Det_Closing else Det_Opening)"

record settle_input =
  si_tick :: u64
  si_reply :: "gripper_reply option"
  si_live_error :: bool

definition settle_run :: "gripper_settle \<Rightarrow> settle_input list \<Rightarrow> gripper_settle" where
  "settle_run m is = fold (\<lambda>i m. settle_tick m (si_tick i) (si_reply i) (si_live_error i)) is m"

definition counted :: "gripper_settle \<Rightarrow> settle_input list \<Rightarrow> gripper_reply list" where
  "counted m is = map (the \<circ> si_reply)
     (filter (\<lambda>i. si_reply i \<noteq> None \<and> sk_grace (gs_ticks m) \<le> saturating_sub (si_tick i) (gs_armed_tick m)) is)"

definition agreeing :: "bool \<Rightarrow> gripper_reply list \<Rightarrow> nat" where
  "agreeing closing rs = length (takeWhile (agrees closing) (rev rs))"

lemma settle_run_snoc: "settle_run m (is @ [i]) = settle_tick (settle_run m is) (si_tick i) (si_reply i) (si_live_error i)"
  by (simp add: settle_run_def)

lemma verdict_set [simp]: "verdict (set_verdict m v) = v"
  by (simp add: verdict_def set_verdict_def)

lemma set_verdict_frame [simp]:
  "gs_ticks (set_verdict m v) = gs_ticks m" "gs_armed_tick (set_verdict m v) = gs_armed_tick m"
  "gs_closing (set_verdict m v) = gs_closing m" "gs_wait (set_verdict m v) = gs_wait m"
  "gs_detect_streak (set_verdict m v) = gs_detect_streak m"
  by (simp_all add: set_verdict_def)

lemma verdict_streak [simp]: "verdict (m\<lparr>gs_detect_streak := n\<rparr>) = verdict m"
  by (simp add: verdict_def)

lemma tick_wait_frame [simp]:
  "gs_ticks (tick_wait m e r w) = gs_ticks m" "gs_armed_tick (tick_wait m e r w) = gs_armed_tick m"
  "gs_closing (tick_wait m e r w) = gs_closing m" "gs_wait (tick_wait m e r w) = gs_wait m"
  by (cases w; cases "gr_object_detection r"; simp add: tick_wait_def tick_move_def Let_def)+

lemma settle_tick_frame:
  "gs_ticks (settle_tick m t r e) = gs_ticks m \<and> gs_armed_tick (settle_tick m t r e) = gs_armed_tick m
   \<and> gs_closing (settle_tick m t r e) = gs_closing m \<and> gs_wait (settle_tick m t r e) = gs_wait m"
  by (cases "gs_wait m"; cases r) (simp_all add: settle_tick_def Let_def)

lemma settle_run_frame:
  "gs_ticks (settle_run m is) = gs_ticks m \<and> gs_armed_tick (settle_run m is) = gs_armed_tick m
   \<and> gs_closing (settle_run m is) = gs_closing m \<and> gs_wait (settle_run m is) = gs_wait m"
  by (induction "is" rule: rev_induct) (simp_all add: settle_run_snoc settle_tick_frame, simp add: settle_run_def)

text \<open>A verdict, once given, stands: ticks change nothing until the next arm.\<close>

lemma verdict_stands: "verdict m \<noteq> TS_Running \<Longrightarrow> settle_tick m t r e = m"
  by (simp add: settle_tick_def split: option.splits)


text \<open>The tick of a running wait, its reply counted or not.\<close>

lemma settle_tick_running:
  assumes "gs_wait m = Some w" and "verdict m = TS_Running" and "el = saturating_sub t (gs_armed_tick m)"
  shows "settle_tick m t r e =
    (case r of Some q \<Rightarrow>
       if sk_grace (gs_ticks m) \<le> el then
         if reply_fault q e \<noteq> 0 then set_verdict m (TS_Fault (reply_fault q e))
         else let m' = tick_wait m el q w in
              if verdict m' = TS_Running \<and> wait_timeout m w \<le> el then set_verdict m' (TS_Timeout w) else m'
       else if wait_timeout m w \<le> el then set_verdict m (TS_Timeout w) else m
     | None \<Rightarrow> if wait_timeout m w \<le> el then set_verdict m (TS_Timeout w) else m)"
  using assms by (cases r) (auto simp: settle_tick_def Let_def wait_timeout_def split: tool_wait.split)

lemma settle_timeout:
  assumes "gs_wait m = Some w" and "wait_timeout m w \<le> saturating_sub t (gs_armed_tick m)"
  shows "verdict (settle_tick m t r e) \<noteq> TS_Running"
proof (cases "verdict m = TS_Running")
  case True
  with assms show ?thesis
    by (simp add: settle_tick_running [OF assms(1) True refl] Let_def split: option.split)
qed (simp add: verdict_stands)

lemma settle_run_stands: "verdict m \<noteq> TS_Running \<Longrightarrow> settle_run m is = m"
  by (induction "is") (simp_all add: settle_run_def verdict_stands)

lemma agreeing_snoc: "agreeing c (rs @ [r]) = (if agrees c r then Suc (agreeing c rs) else 0)"
  by (simp add: agreeing_def)

lemma counted_snoc:
  "counted m (is @ [i]) = counted m is @
     (case si_reply i of Some r \<Rightarrow>
        if sk_grace (gs_ticks m) \<le> saturating_sub (si_tick i) (gs_armed_tick m) then [r] else []
      | None \<Rightarrow> [])"
  by (simp add: counted_def split: option.split)

text \<open>One counted reply of a move: the streak follows the agreement, and contact settles it.\<close>

lemma tick_move_cases:
  assumes "verdict m = TS_Running" and "unat (gs_detect_streak m) < unat (sk_debounce (gs_ticks m)) \<or> gs_detect_streak m = 0"
  shows "verdict (tick_move m r) = TS_Running \<and>
      unat (gs_detect_streak (tick_move m r)) = (if agrees (gs_closing m) r then Suc (unat (gs_detect_streak m)) else 0)
      \<and> (unat (gs_detect_streak (tick_move m r)) < unat (sk_debounce (gs_ticks m)) \<or> gs_detect_streak (tick_move m r) = 0)
    \<or> verdict (tick_move m r) = TS_Settled Det_Reached
    \<or> verdict (tick_move m r) = TS_Settled (if gs_closing m then Det_Closing else Det_Opening)
      \<and> agrees (gs_closing m) r \<and> unat (sk_debounce (gs_ticks m)) \<le> Suc (unat (gs_detect_streak m))"
proof -
  have inc: "unat (gs_detect_streak m + 1) = Suc (unat (gs_detect_streak m))"
    using assms(2) unat_u32_bound [of "sk_debounce (gs_ticks m)"] by (auto simp: unat_word_ariths)
  show ?thesis
    using assms inc
    by (cases "gr_object_detection r"; cases "gs_closing m")
       (simp_all add: tick_move_def agrees_def Let_def word_le_nat_alt)
qed


definition debounced :: "gripper_settle \<Rightarrow> settle_input list \<Rightarrow> bool" where
  "debounced m is \<longleftrightarrow> (\<exists>seen later. is = seen @ later
     \<and> unat (sk_debounce (gs_ticks m)) \<le> agreeing (gs_closing m) (counted m seen))"

lemma debounced_snoc: "debounced m is \<Longrightarrow> debounced m (is @ [i])"
  by (force simp: debounced_def)

lemma debounced_now: "unat (sk_debounce (gs_ticks m)) \<le> agreeing (gs_closing m) (counted m is) \<Longrightarrow> debounced m is"
  by (force simp: debounced_def)

definition move_seen :: "gripper_settle \<Rightarrow> settle_input list \<Rightarrow> bool" where
  "move_seen m is \<longleftrightarrow> (let m' = settle_run m is in
     (verdict m' = TS_Running \<longrightarrow>
        unat (gs_detect_streak m') = agreeing (gs_closing m) (counted m is)
        \<and> (unat (gs_detect_streak m') < unat (sk_debounce (gs_ticks m)) \<or> gs_detect_streak m' = 0))
     \<and> (\<forall>d. verdict m' = TS_Settled d \<longrightarrow> d = Det_Reached \<or>
          d = (if gs_closing m then Det_Closing else Det_Opening)
          \<and> debounced m is))"

lemma move_seen_run:
  assumes "gs_wait m = Some Wait_Move" and "verdict m = TS_Running" and "gs_detect_streak m = 0"
  shows "move_seen m is"
proof (induction "is" rule: rev_induct)
  case Nil
  then show ?case using assms by (simp add: move_seen_def settle_run_def counted_def agreeing_def)
next
  case (snoc i xs)
  let ?m = "settle_run m xs" and ?n = "settle_run m (xs @ [i])"
  have frame: "gs_ticks ?m = gs_ticks m" "gs_closing ?m = gs_closing m" "gs_wait ?m = Some Wait_Move"
    "gs_armed_tick ?m = gs_armed_tick m" using settle_run_frame [of m xs] assms(1) by simp_all
  show ?case
  proof (cases "verdict ?m = TS_Running")
    case False
    then have "?n = ?m" by (simp add: settle_run_snoc verdict_stands)
    with snoc False show ?thesis
      by (auto simp: move_seen_def Let_def debounced_snoc split: if_splits)
  next
    case True
    with snoc have streak: "unat (gs_detect_streak ?m) = agreeing (gs_closing m) (counted m xs)"
      and small: "unat (gs_detect_streak ?m) < unat (sk_debounce (gs_ticks ?m)) \<or> gs_detect_streak ?m = 0"
      by (auto simp: move_seen_def Let_def frame)
    let ?el = "saturating_sub (si_tick i) (gs_armed_tick m)"
    note run = settle_tick_running [OF frame(3) True, of "saturating_sub (si_tick i) (gs_armed_tick ?m)" "si_tick i" "si_reply i" "si_live_error i", OF refl,
      folded settle_run_snoc, unfolded frame]
    show ?thesis
    proof (cases "si_reply i")
      case None
      then show ?thesis using streak small True
        by (auto simp: move_seen_def Let_def run counted_snoc frame)
    next
      case (Some r)
      show ?thesis
      proof (cases "sk_grace (gs_ticks m) \<le> ?el \<and> reply_fault r (si_live_error i) = 0")
        case False
        then show ?thesis using streak small True Some
          by (auto simp: move_seen_def Let_def run counted_snoc frame)
      next
        case counts: True
        let ?t = "tick_move ?m r"
        have n: "?n = (if verdict ?t = TS_Running \<and> wait_timeout ?m Wait_Move \<le> ?el then set_verdict ?t (TS_Timeout Wait_Move) else ?t)"
          using counts Some by (simp add: run tick_wait_def Let_def)
        have ag: "agreeing (gs_closing m) (counted m (xs @ [i])) =
            (if agrees (gs_closing m) r then Suc (unat (gs_detect_streak ?m)) else 0)"
          using counts Some streak by (simp add: counted_snoc agreeing_snoc)
        from tick_move_cases [OF True small, of r, unfolded frame] show ?thesis
        proof (elim disjE conjE)
          assume "verdict ?t = TS_Settled (if gs_closing m then Det_Closing else Det_Opening)"
            "agrees (gs_closing m) r" "unat (sk_debounce (gs_ticks m)) \<le> Suc (unat (gs_detect_streak ?m))"
          then show ?thesis
            by (simp add: move_seen_def Let_def n ag debounced_now)
        qed (simp_all add: move_seen_def n ag Let_def split: if_splits)
      qed
    qed
  qed
qed


section \<open>Properties\<close>

text \<open>
  The jaws are never left holding by a lost frame: in every run of the gate, once a frame that
  asks for action was sent, at least three frames that drop the action are sent before the first
  bare poll.
\<close>

lemma gripper_idle_announced:
  assumes "run_gate ops default_gate = (before @ act @ between @ GC_FirmwarePoll # rest, g)"
    and "act = [f]" and "action_frame f" and "list_all (\<lambda>x. \<not> action_frame x) between"
  shows "3 \<le> length (filter idle_frame between)"
proof -
  have "pays 0 (before @ f # between @ GC_FirmwarePoll # rest)"
    using run_gate_pays [OF assms(1), of 0] assms(2) by simp
  from pays_suffix [OF this assms(3)] show ?thesis
    by (rule pays_poll [OF _ assms(4)])
qed


text \<open>
  A move settles on contact only in the direction it was commanded, and only after the
  configured number of consecutive ticks whose reply reports that contact, none of them within
  the grace window.
\<close>

lemma move_contact_debounced:
  assumes "m = arm_move m0 tick target position" and "verdict (settle_run m is) = TS_Settled d" and "d \<noteq> Det_Reached"
  shows "d = (if position < target then Det_Closing else Det_Opening)
    \<and> (\<exists>seen later. is = seen @ later \<and>
         unat (sk_debounce (gs_ticks m)) \<le> agreeing (position < target) (counted m seen))"
proof -
  have "gs_wait m = Some Wait_Move" "verdict m = TS_Running" "gs_detect_streak m = 0" "gs_closing m = (position < target)"
    by (simp_all add: assms(1) arm_move_def arm_def verdict_def)
  with move_seen_run [of m "is"] assms(2,3) show ?thesis
    by (simp add: move_seen_def Let_def debounced_def)
qed

text \<open>
  Every armed action ends: the first tick at or past its window leaves a verdict, whatever the
  replies were, and a verdict once given stands.
\<close>

lemma gripper_wait_ends:
  assumes "gs_wait m = Some w" and "i \<in> set is" and "wait_timeout m w \<le> saturating_sub (si_tick i) (gs_armed_tick m)"
  shows "verdict (settle_run m is) \<noteq> TS_Running \<and> settle_run m (is @ later) = settle_run m is"
proof -
  obtain xs ys where "is": "is = xs @ i # ys" using assms(2) by (meson split_list)
  let ?m = "settle_run m xs"
  have "gs_wait ?m = Some w" "wait_timeout ?m w = wait_timeout m w" "gs_armed_tick ?m = gs_armed_tick m"
    using settle_run_frame [of m xs] assms(1) by (simp_all add: wait_timeout_def split: tool_wait.split)
  then have "verdict (settle_run m (xs @ [i])) \<noteq> TS_Running"
    using settle_timeout [of ?m w "si_tick i"] assms(3) by (simp add: settle_run_snoc)
  then have "verdict (settle_run m is) \<noteq> TS_Running"
    using settle_run_stands [of "settle_run m (xs @ [i])" ys] by (simp add: "is" settle_run_def)
  with settle_run_stands [of "settle_run m is" later] show ?thesis by (simp add: settle_run_def)
qed

text \<open>
  The detection counts ticks, not replies: one received reply that reports contact, read again
  on each of the following ticks while no newer reply arrives, settles the move by itself.
\<close>

lemma stale_reply_settles:
  assumes "m = arm_move m0 0 200 10" and "sk_debounce (gs_ticks m) = 2" and "sk_move_timeout (gs_ticks m) = 1000"
    and "sk_grace (gs_ticks m) = 2"
    and "agrees True r" and "reply_fault r False = 0"
  shows "verdict (settle_run m [\<lparr>si_tick = 2, si_reply = Some r, si_live_error = False\<rparr>,
                               \<lparr>si_tick = 3, si_reply = Some r, si_live_error = False\<rparr>]) = TS_Settled Det_Closing"
  using assms
  by (simp add: settle_run_def settle_tick_def arm_move_def arm_def tick_wait_def tick_move_def saturating_sub_def
      agrees_def verdict_def set_verdict_def Let_def wait_timeout_def)


section \<open>Examples\<close>

definition sample_grip :: firmware_gripper_command where
  "sample_grip = \<lparr>fg_position = 200, fg_speed = 50, fg_current_ma = 400, fg_activate = True, fg_action = True,
     fg_estop = False, fg_release_dir = False\<rparr>"

definition sample_contact :: gripper_reply where
  "sample_contact = \<lparr>gr_position = 150, gr_current_ma = 300, gr_activated = True, gr_action_status = True,
     gr_object_detection = Det_Closing, gr_temperature_error = False, gr_timeout_error = False,
     gr_estop_error = False, gr_calibrated = True\<rparr>"

definition sample_settle :: gripper_settle where
  "sample_settle = \<lparr>gs_ticks = \<lparr>sk_grace = 2, sk_debounce = 2, sk_move_timeout = 1000, sk_calibrate_timeout = 3000,
       sk_calibrate_min = 500\<rparr>, gs_wait = None, gs_armed_tick = 0, gs_closing = False, gs_detect_streak = 0,
     gs_status = \<lparr>ts_verdict = TS_Unarmed, ts_epoch = 0\<rparr>\<rparr>"

definition contact_at :: "u64 \<Rightarrow> settle_input" where
  "contact_at t = \<lparr>si_tick = t, si_reply = Some sample_contact, si_live_error = False\<rparr>"

lemmas settle_eval = settle_run_def settle_tick_def arm_move_def arm_def tick_wait_def tick_move_def saturating_sub_def
  verdict_def set_verdict_def Let_def wait_timeout_def sample_settle_def contact_at_def sample_contact_def reply_fault_def


end
