(* ===== verification/Exec.thy ===== *)
theory Exec
  imports Ring_Props
begin

text \<open>
  EXEC playback: \<open>par6-rt/src/exec.rs\<close>, the engine that advances a fractional clock through the
  planner's samples, and the completion policy \<open>SpecSettle\<close> of \<open>par6-rt/src/hooks.rs\<close> it runs at
  command boundaries.

  The arithmetic is IEEE double arithmetic on bit patterns, operation by operation as the source
  writes it. The engine owns the consumer half of the sample ring, modelled by \<open>ring_shared\<close>.
\<close>

section \<open>Numbers\<close>

definition f64_half :: f64 where "f64_half = 0x3FE0000000000000"
definition f64_two :: f64 where "f64_two = 0x4000000000000000"
definition f64_three :: f64 where "f64_three = 0x4008000000000000"
definition f64_four :: f64 where "f64_four = 0x4010000000000000"
definition f64_six :: f64 where "f64_six = 0x4018000000000000"
definition f64_eight :: f64 where "f64_eight = 0x4020000000000000"
definition f64_1em12 :: f64 where "f64_1em12 = 0x3D719799812DEA11"
definition f64_1em6 :: f64 where "f64_1em6 = 0x3EB0C6F7A0B5ED8D"
definition f64_0_1 :: f64 where "f64_0_1 = 0x3FB999999999999A"

text \<open>\<open>f64::clamp\<close> for bounds in order: a NaN passes through.\<close>

definition f64_clamp :: "f64 \<Rightarrow> f64 \<Rightarrow> f64 \<Rightarrow> f64" where
  "f64_clamp x lo hi = (if f64_lt x lo then lo else if f64_lt hi x then hi else x)"

text \<open>\<open>f64::from(f32)\<close>, which is exact.\<close>

definition f64_of_f32 :: "f32 \<Rightarrow> f64" where
  "f64_of_f32 x =
     (let s = bit x 31; e = unat (take_bit 8 (drop_bit 23 x)); m = unat (take_bit 23 x)
      in if e = 255 then (if m = 0 then f64_of_sign_mag s (2047 * 2 ^ 52) else f64_nan)
         else f64_round s ((if e = 0 then m else (2 ^ 23 + m) * 2 ^ (e - 1)) * 2 ^ 925) 1)"

text \<open>Joint-wise operations on \<open>[f64; MAX_JOINTS]\<close>.\<close>

abbreviation joints :: "nat list" where
  "joints \<equiv> [0..<MAX_JOINTS]"

section \<open>The completion policy\<close>

datatype settle_verdict = SV_Settling | SV_Complete | SV_Fault u8 f64

datatype settle_kind = Commanded | Settled | Strict

record spec_settle =
  sp_policy :: settle_kind
  sp_tolerance_rad :: f64
  sp_timeout_ticks :: u32
  sp_elapsed :: u32
  sp_best_err :: f64

definition new_spec_settle :: "settle_kind \<Rightarrow> f64 \<Rightarrow> f64 \<Rightarrow> f64 \<Rightarrow> spec_settle" where
  "new_spec_settle policy dt settle_tolerance_rad settle_timeout_s =
     \<lparr>sp_policy = policy, sp_tolerance_rad = settle_tolerance_rad,
      sp_timeout_ticks = max (of_nat (f64_round_to_nat (f64_div settle_timeout_s dt) (2 ^ 32 - 1))) 1,
      sp_elapsed = 0, sp_best_err = f64_inf\<rparr>"

definition settle_arm :: "spec_settle \<Rightarrow> bool \<times> spec_settle" where
  "settle_arm p = (sp_policy p = Commanded, p\<lparr>sp_elapsed := 0, sp_best_err := f64_inf\<rparr>)"

definition worst_error :: "f64 list \<Rightarrow> f64 list \<Rightarrow> nat \<times> f64" where
  "worst_error q_meas q_target =
     foldl (\<lambda>acc (j, e). if f64_lt (snd acc) e then (j, e) else acc) (0, f64_zero)
       (enumerate 0 (map2 (\<lambda>m t. f64_abs (f64_sub m t)) q_meas q_target))"

definition settle_policy_tick :: "spec_settle \<Rightarrow> f64 list \<Rightarrow> f64 list \<Rightarrow> settle_verdict \<times> spec_settle" where
  "settle_policy_tick p q_meas q_target =
     (let (worst, max_err) = worst_error q_meas q_target in
      if f64_le max_err (sp_tolerance_rad p) then (SV_Complete, p)
      else let p = (if f64_le (f64_add max_err (f64_mul (sp_tolerance_rad p) f64_0_1)) (sp_best_err p)
                    then p\<lparr>sp_best_err := max_err, sp_elapsed := 0\<rparr> else p);
               p = p\<lparr>sp_elapsed := sp_elapsed p + 1\<rparr> in
      if sp_timeout_ticks p \<le> sp_elapsed p
      then (case sp_policy p of Strict \<Rightarrow> SV_Fault (of_nat worst) max_err | _ \<Rightarrow> SV_Complete, p)
      else (SV_Settling, p))"

section \<open>The interpolant\<close>

record sample_interval =
  si_origin :: "f64 list"
  si_c1 :: "f64 list"
  si_c2 :: "f64 list"
  si_c3 :: "f64 list"
  si_dt :: f64

definition new_sample_interval :: "sample \<Rightarrow> sample \<Rightarrow> f64 \<Rightarrow> sample_interval" where
  "new_sample_interval left right dt =
     (let delta = (\<lambda>i. f64_sub (sm_q right ! i) (sm_q left ! i)) in
      \<lparr>si_origin = sm_q left,
       si_c1 = map (\<lambda>i. f64_mul (sm_qd left ! i) dt) joints,
       si_c2 = map (\<lambda>i. f64_sub (f64_mul f64_three (delta i))
          (f64_mul (f64_add (f64_mul f64_two (sm_qd left ! i)) (sm_qd right ! i)) dt)) joints,
       si_c3 = map (\<lambda>i. f64_add (f64_mul (f64_neg f64_two) (delta i))
          (f64_mul (f64_add (sm_qd left ! i) (sm_qd right ! i)) dt)) joints,
       si_dt = dt\<rparr>)"

definition sample_at :: "sample_interval \<Rightarrow> f64 \<Rightarrow> f64 list \<times> f64 list \<times> f64 list" where
  "sample_at s phase =
     (let b = (\<lambda>i. si_c1 s ! i); c = (\<lambda>i. si_c2 s ! i); d = (\<lambda>i. si_c3 s ! i) in
      (map (\<lambda>i. f64_add (si_origin s ! i)
         (f64_mul phase (f64_add (b i) (f64_mul phase (f64_add (c i) (f64_mul phase (d i))))))) joints,
       map (\<lambda>i. f64_div (f64_add (b i)
         (f64_mul phase (f64_add (f64_mul f64_two (c i)) (f64_mul (f64_mul f64_three phase) (d i))))) (si_dt s)) joints,
       map (\<lambda>i. f64_div (f64_add (f64_mul f64_two (c i)) (f64_mul (f64_mul f64_six phase) (d i)))
         (f64_mul (si_dt s) (si_dt s))) joints))"

definition interpolate :: "sample \<Rightarrow> sample \<Rightarrow> f64 \<Rightarrow> f64 \<Rightarrow> f64 list \<times> f64 list \<times> f64 list" where
  "interpolate left right phase dt = sample_at (new_sample_interval left right dt) phase"

section \<open>The engine\<close>

datatype exec_tick_result = Exec_Ok | Exec_Fault u8 f64

record exec_playback =
  xp_ring :: ring_shared
  xp_policy :: spec_settle
  xp_hold_q :: "f64 list"
  xp_last_meta :: "sample_meta option"
  xp_owe_boundary :: "sample_meta option"
  xp_settling :: bool
  xp_armed_cmd :: u32
  xp_active_cmd :: u32
  xp_completed :: u32
  xp_paused :: bool
  xp_paused_ticks :: u64
  xp_stopping :: bool
  xp_faulted :: bool
  xp_dt :: f64
  xp_scale_rate_limit :: f64
  xp_scale_acceleration_limit :: f64
  xp_scale_rate :: f64
  xp_acceleration_limits :: "f64 list"
  xp_requested_scale :: f64
  xp_applied_scale :: f64
  xp_phase :: f64
  xp_left :: sample

text \<open>\<open>None\<close> is the panic of the assertions on \<open>dt\<close> and the transition time.\<close>

definition new_exec :: "ring_shared \<Rightarrow> spec_settle \<Rightarrow> f64 \<Rightarrow> f64 \<Rightarrow> f64 list \<Rightarrow> exec_playback option" where
  "new_exec ring policy dt transition_s limits =
     (if is_finite dt \<and> f64_lt f64_zero dt \<and> is_finite transition_s \<and> f64_lt f64_zero transition_s then
        Some \<lparr>xp_ring = ring, xp_policy = policy, xp_hold_q = replicate MAX_JOINTS f64_zero,
          xp_last_meta = None, xp_owe_boundary = None, xp_settling = False, xp_armed_cmd = 0, xp_active_cmd = 0,
          xp_completed = 0, xp_paused = False, xp_paused_ticks = 0, xp_stopping = False, xp_faulted = False,
          xp_dt = dt, xp_scale_rate_limit = f64_div f64_one transition_s,
          xp_scale_acceleration_limit = f64_div f64_four (f64_mul transition_s transition_s),
          xp_scale_rate = f64_zero, xp_acceleration_limits = limits, xp_requested_scale = f64_one,
          xp_applied_scale = f64_one, xp_phase = f64_zero, xp_left = default_sample\<rparr>
      else None)"

definition requested_target :: "exec_playback \<Rightarrow> f64" where
  "requested_target x = (if xp_paused x then f64_zero else xp_requested_scale x)"

definition target_scale :: "exec_playback \<Rightarrow> f64" where
  "target_scale x = (if xp_stopping x then f64_zero else requested_target x)"

definition exec_activate :: "exec_playback \<Rightarrow> f64 list \<Rightarrow> exec_playback" where
  "exec_activate x q_meas =
     (let x = x\<lparr>xp_hold_q := q_meas, xp_last_meta := None, xp_owe_boundary := None, xp_settling := False,
        xp_active_cmd := 0, xp_completed := 0, xp_stopping := False, xp_faulted := False, xp_phase := f64_zero,
        xp_left := default_sample\<lparr>sm_q := q_meas\<rparr>\<rparr>
      in x\<lparr>xp_applied_scale := target_scale x, xp_scale_rate := f64_zero\<rparr>)"

definition set_paused :: "exec_playback \<Rightarrow> bool \<Rightarrow> exec_playback" where
  "set_paused x paused = x\<lparr>xp_paused := paused\<rparr>"

definition clock_tick :: "exec_playback \<Rightarrow> exec_playback" where
  "clock_tick x = (if xp_paused x then x\<lparr>xp_paused_ticks := xp_paused_ticks x + 1\<rparr> else x)"

definition set_speed_scale :: "exec_playback \<Rightarrow> f64 \<Rightarrow> bool \<times> exec_playback" where
  "set_speed_scale x scale =
     (if \<not> is_finite scale \<or> \<not> (f64_le f64_0_1 scale \<and> f64_le scale f64_one) then (False, x)
      else (True, x\<lparr>xp_requested_scale := scale\<rparr>))"

definition begin_stop :: "exec_playback \<Rightarrow> exec_playback" where
  "begin_stop x = x\<lparr>xp_stopping := True\<rparr>"

definition exec_flush :: "exec_playback \<Rightarrow> nat \<times> exec_playback" where
  "exec_flush x =
     (let (dropped, r) = clear_marked (xp_ring x);
          x = x\<lparr>xp_owe_boundary := None, xp_last_meta := None, xp_settling := False, xp_ring := r\<rparr>
      in (dropped, if 0 < dropped then x\<lparr>xp_left := default_sample\<lparr>sm_q := xp_hold_q x\<rparr>, xp_phase := f64_zero\<rparr> else x))"

definition finish_stop :: "exec_playback \<Rightarrow> exec_playback" where
  "finish_stop x = snd (exec_flush (x\<lparr>xp_stopping := False\<rparr>))"

definition at_rest :: "exec_playback \<Rightarrow> exec_playback" where
  "at_rest x = x\<lparr>xp_applied_scale := target_scale x, xp_scale_rate := f64_zero\<rparr>"

definition reseed_hold :: "exec_playback \<Rightarrow> f64 list \<Rightarrow> exec_playback" where
  "reseed_hold x q = x\<lparr>xp_hold_q := q, xp_left := default_sample\<lparr>sm_q := q\<rparr>, xp_phase := f64_zero\<rparr>"

definition set_policy :: "exec_playback \<Rightarrow> spec_settle \<Rightarrow> exec_playback" where
  "set_policy x p = x\<lparr>xp_policy := p\<rparr>"

definition is_holding_after_completion :: "exec_playback \<Rightarrow> bool" where
  "is_holding_after_completion x \<longleftrightarrow> \<not> xp_paused x \<and> \<not> xp_faulted x \<and> \<not> xp_settling x
     \<and> xp_owe_boundary x = None \<and> samples_remaining (xp_ring x) = 0"


section \<open>One tick\<close>

text \<open>
  \<open>tick\<close> in the stages of the source: what ends or freezes playback this tick, the clock's new
  scale, the advance through the ring, and the setpoint. A setpoint is the triple of positions,
  velocities and feedforward torques.
\<close>

type_synonym setpoint = "f64 list \<times> f64 list \<times> f64 list"

definition hold_setpoint :: "exec_playback \<Rightarrow> setpoint" where
  "hold_setpoint x = (xp_hold_q x, replicate MAX_JOINTS f64_zero, replicate MAX_JOINTS f64_zero)"

definition end_stop :: "exec_playback \<Rightarrow> exec_playback" where
  "end_stop x =
     (if xp_stopping x \<and> (f64_eq (xp_applied_scale x) f64_zero \<or> xp_faulted x \<or> xp_settling x
          \<or> (xp_owe_boundary x = None \<and> peek (xp_ring x) = None))
      then finish_stop x else x)"

text \<open>The settling branch: \<open>Inl\<close> returns from the tick, \<open>Inr\<close> falls through.\<close>

definition settling_stage :: "exec_playback \<Rightarrow> f64 list \<Rightarrow> (exec_tick_result \<times> exec_playback) + exec_playback" where
  "settling_stage x q_meas =
     (if xp_settling x then
        (let (v, p) = settle_policy_tick (xp_policy x) q_meas (xp_hold_q x); x = x\<lparr>xp_policy := p\<rparr>
         in case v of
              SV_Settling \<Rightarrow> Inl (Exec_Ok, at_rest x)
            | SV_Complete \<Rightarrow> Inr (x\<lparr>xp_settling := False, xp_completed := xp_armed_cmd x\<rparr>)
            | SV_Fault joint residual \<Rightarrow>
                Inl (Exec_Fault joint residual, x\<lparr>xp_faulted := True, xp_settling := False\<rparr>))
      else Inr x)"

definition late_boundary :: "exec_playback \<Rightarrow> exec_playback" where
  "late_boundary x =
     (if xp_owe_boundary x = None then
        (case (xp_last_meta x, peek (xp_ring x)) of
           (Some prev, Some next) \<Rightarrow>
             if mt_command_index (sm_meta next) \<noteq> mt_command_index prev then x\<lparr>xp_owe_boundary := Some prev\<rparr> else x
         | _ \<Rightarrow> x)
      else x)"

definition boundary_stage :: "exec_playback \<Rightarrow> (exec_tick_result \<times> exec_playback) + exec_playback" where
  "boundary_stage x =
     (let x = late_boundary x in
      case xp_owe_boundary x of
        None \<Rightarrow> Inr x
      | Some boundary \<Rightarrow>
          (let (immediate, p) = settle_arm (xp_policy x);
               x = x\<lparr>xp_owe_boundary := None, xp_last_meta := None, xp_policy := p\<rparr>
           in if immediate then Inr (x\<lparr>xp_completed := mt_command_index boundary\<rparr>)
              else Inl (Exec_Ok, x\<lparr>xp_settling := True, xp_armed_cmd := mt_command_index boundary\<rparr>)))"

definition start_path :: "exec_playback \<Rightarrow> sample \<Rightarrow> exec_playback" where
  "start_path x next =
     (if mt_command_index (sm_meta next) \<noteq> mt_command_index (sm_meta (xp_left x)) then
        x\<lparr>xp_left := (case sm_start next of
             Some start \<Rightarrow> default_sample\<lparr>sm_q := st_q start, sm_tau_ff := st_tau_ff start, sm_meta := sm_meta next\<rparr>
           | None \<Rightarrow> next), xp_phase := f64_zero\<rparr>
      else x)"

definition rate_is_admissible ::
  "exec_playback \<Rightarrow> f64 \<Rightarrow> f64 \<Rightarrow> f64 list \<Rightarrow> sample \<Rightarrow> sample option \<Rightarrow> bool" where
  "rate_is_admissible x old_scale scale old_velocity next following =
     (let phase = f64_add (xp_phase x) (f64_mul f64_half (f64_add old_scale scale));
          (left, right, phase) =
            (if f64_le f64_one phase then
               (case following of
                  Some right \<Rightarrow>
                    if \<not> mt_is_last (sm_meta next) \<and> mt_command_index (sm_meta right) = mt_command_index (sm_meta next)
                    then (next, right, f64_sub phase f64_one) else (next, next, f64_zero)
                | None \<Rightarrow> (next, next, f64_zero))
             else (xp_left x, next, phase));
          (_, velocity, acceleration) = interpolate left right phase (xp_dt x);
          rate = f64_div (f64_sub scale old_scale) (xp_dt x)
      in list_all (\<lambda>i.
           let sampled = f64_div (f64_sub (f64_mul scale (velocity ! i)) (f64_mul old_scale (old_velocity ! i))) (xp_dt x);
               instantaneous = f64_add (f64_mul (f64_mul scale scale) (acceleration ! i)) (f64_mul rate (velocity ! i))
           in f64_le (f64_abs sampled) (xp_acceleration_limits x ! i)
              \<and> f64_le (f64_abs instantaneous) (xp_acceleration_limits x ! i)) joints)"

text \<open>The rate of the clock's scale that the joints' acceleration limits leave open.\<close>

definition rate_window :: "exec_playback \<Rightarrow> f64 \<Rightarrow> f64 list \<Rightarrow> f64 list \<Rightarrow> f64 \<times> f64" where
  "rate_window x rate_limit velocity acceleration =
     foldl (\<lambda>(low, high) i.
        if f64_lt f64_1em12 (f64_abs (velocity ! i)) then
          (let base = f64_mul (f64_mul (xp_applied_scale x) (xp_applied_scale x)) (acceleration ! i);
               a = f64_div (f64_sub (f64_neg (xp_acceleration_limits x ! i)) base) (velocity ! i);
               b = f64_div (f64_sub (xp_acceleration_limits x ! i) base) (velocity ! i)
           in (f64_max low (f64_min a b), f64_min high (f64_max a b)))
        else (low, high)) (f64_neg rate_limit, rate_limit) joints"

definition clock_rate :: "exec_playback \<Rightarrow> f64 \<Rightarrow> f64 \<Rightarrow> f64 \<Rightarrow> f64 \<Rightarrow> f64 \<Rightarrow> f64" where
  "clock_rate x target rate_limit acc_limit low high =
     (let old_scale = xp_applied_scale x;
          frequency = f64_min (f64_mul f64_eight rate_limit) (f64_div f64_half (xp_dt x));
          clock_acceleration = f64_clamp
            (f64_sub (f64_mul (f64_mul frequency frequency) (f64_sub target old_scale))
                     (f64_mul (f64_mul f64_two frequency) (xp_scale_rate x))) (f64_neg acc_limit) acc_limit;
          requested = f64_add (xp_scale_rate x) (f64_mul clock_acceleration (xp_dt x));
          rate = (if f64_eq requested f64_zero then f64_zero
                  else if f64_le low high then f64_clamp requested low high else f64_zero)
      in if f64_lt (f64_mul rate requested) f64_zero then f64_zero else rate)"

text \<open>The sixteen bisections for the largest admissible step towards the candidate.\<close>

fun bisect :: "nat \<Rightarrow> (f64 \<Rightarrow> bool) \<Rightarrow> f64 \<Rightarrow> f64 \<Rightarrow> f64" where
  "bisect 0 ok allowed refused = allowed"
| "bisect (Suc n) ok allowed refused =
     (let fraction = f64_mul f64_half (f64_add allowed refused)
      in if ok fraction then bisect n ok fraction refused else bisect n ok allowed fraction)"

definition clock_stage :: "exec_playback \<Rightarrow> sample \<Rightarrow> exec_playback" where
  "clock_stage x next =
     (let (_, velocity, acceleration) = interpolate (xp_left x) next (xp_phase x) (xp_dt x);
          x = (if list_all (\<lambda>v. f64_lt (f64_abs v) f64_1em12) velocity
                  \<and> list_all (\<lambda>a. f64_lt (f64_abs a) f64_1em12) acceleration then at_rest x else x);
          target = target_scale x;
          old_scale = xp_applied_scale x;
          (rate_limit, acc_limit) = (if xp_stopping x then (f64_inf, f64_inf)
                                     else (xp_scale_rate_limit x, xp_scale_acceleration_limit x));
          (low, high) = rate_window x rate_limit velocity acceleration;
          rate = clock_rate x target rate_limit acc_limit low high;
          candidate = f64_clamp (f64_add old_scale (f64_mul rate (xp_dt x))) f64_zero f64_one;
          following = peek_offset (xp_ring x) 1;
          admissible = (\<lambda>scale. rate_is_admissible x old_scale scale velocity next following);
          toward = (\<lambda>fraction. f64_add old_scale (f64_mul fraction (f64_sub candidate old_scale)));
          applied = (if \<not> f64_eq candidate old_scale \<and> \<not> admissible candidate
                     then toward (bisect 16 (\<lambda>fraction. admissible (toward fraction)) f64_zero f64_one)
                     else candidate);
          applied = (if xp_stopping x \<and> \<not> f64_eq applied f64_zero \<and> admissible f64_zero then f64_zero else applied);
          applied = (if f64_lt (f64_abs (f64_sub applied target)) f64_1em6
                        \<and> f64_le (f64_abs (f64_sub target old_scale)) (f64_mul rate_limit (xp_dt x))
                        \<and> admissible target then target else applied)
      in x\<lparr>xp_applied_scale := applied, xp_scale_rate := f64_div (f64_sub applied old_scale) (xp_dt x),
           xp_phase := f64_add (xp_phase x) (f64_mul f64_half (f64_add old_scale applied))\<rparr>)"

text \<open>
  Crossing into the next interval pops its left sample and looks for a command boundary. The
  source expects the pop to succeed: the tick has peeked a sample before, and only this consumer
  removes samples (\<open>peek_then_pop\<close> below).
\<close>

definition advance_stage :: "exec_playback \<Rightarrow> exec_playback" where
  "advance_stage x =
     (if f64_le f64_one (xp_phase x) then
        (case pop (xp_ring x) of
           (None, _) \<Rightarrow> x
         | (Some left, r) \<Rightarrow>
             (let x = x\<lparr>xp_phase := f64_sub (xp_phase x) f64_one, xp_left := left, xp_ring := r,
                        xp_active_cmd := mt_command_index (sm_meta left)\<rparr>
              in if mt_is_last (sm_meta left)
                 then x\<lparr>xp_owe_boundary := Some (sm_meta left), xp_last_meta := None, xp_phase := f64_zero\<rparr>
                 else (let x = x\<lparr>xp_last_meta := Some (sm_meta left)\<rparr>
                       in case peek r of
                            Some next \<Rightarrow>
                              if mt_command_index (sm_meta next) \<noteq> mt_command_index (sm_meta left)
                              then x\<lparr>xp_owe_boundary := Some (sm_meta left), xp_last_meta := None, xp_phase := f64_zero\<rparr>
                              else x
                          | None \<Rightarrow> x)))
      else x)"

definition output_stage :: "exec_playback \<Rightarrow> setpoint \<times> exec_playback" where
  "output_stage x =
     (let (right, x) = (case peek (xp_ring x) of Some right \<Rightarrow> (right, x) | None \<Rightarrow> (xp_left x, x\<lparr>xp_phase := f64_zero\<rparr>));
          (position, velocity, _) = interpolate (xp_left x) right (xp_phase x) (xp_dt x);
          square = f64_mul (xp_applied_scale x) (xp_applied_scale x);
          blend = (\<lambda>a b. f64_add (f64_mul (f64_of_f32 a) (f64_sub f64_one (xp_phase x))) (f64_mul (f64_of_f32 b) (xp_phase x)))
      in ((position, map (\<lambda>i. f64_mul (velocity ! i) (xp_applied_scale x)) joints,
           map (\<lambda>i. f64_add (f64_mul square (blend (sm_tau_ff (xp_left x) ! i) (sm_tau_ff right ! i)))
              (f64_mul (xp_scale_rate x) (blend (sm_inertia_velocity (xp_left x) ! i) (sm_inertia_velocity right ! i)))) joints),
          x\<lparr>xp_hold_q := position\<rparr>))"

definition exec_tick :: "exec_playback \<Rightarrow> f64 list \<Rightarrow> exec_tick_result \<times> setpoint \<times> exec_playback" where
  "exec_tick x0 q_meas =
     (let hold = hold_setpoint x0; x = end_stop x0 in
      if xp_faulted x then (Exec_Ok, hold, x)
      else if xp_paused x \<and> f64_eq (xp_applied_scale x) f64_zero then (Exec_Ok, hold, x)
      else case settling_stage x q_meas of Inl (v, x) \<Rightarrow> (v, hold, x) | Inr x \<Rightarrow>
      (case boundary_stage x of Inl (v, x) \<Rightarrow> (v, hold, x) | Inr x \<Rightarrow>
      (case peek (xp_ring x) of None \<Rightarrow> (Exec_Ok, hold, at_rest x) | Some next \<Rightarrow>
        (let (sp, x) = output_stage (advance_stage (clock_stage (start_path x next) next)) in (Exec_Ok, sp, x)))))"


end
