(* ===== verification/Exec_Props.thy ===== *)
theory Exec_Props
  imports Exec
begin

text \<open>
  What playback promises its callers: a pause and a fault freeze it, a tick consumes at most one
  sample, and a command is reported complete only after it was played.
\<close>

section \<open>The stages\<close>

text \<open>A sample that can be peeked can be popped, and is the one popped.\<close>

lemma peek_then_pop: "peek r = Some s \<Longrightarrow> fst (pop r) = Some s"
  by (auto simp: peek_def peek_offset_def pop_def slot_at_def split: if_splits)

lemma exec_flush_simps:
  "xp_faulted (snd (exec_flush x)) = xp_faulted x" "xp_paused (snd (exec_flush x)) = xp_paused x"
  "xp_applied_scale (snd (exec_flush x)) = xp_applied_scale x" "xp_hold_q (snd (exec_flush x)) = xp_hold_q x"
  "xp_stopping (snd (exec_flush x)) = xp_stopping x" "xp_settling (snd (exec_flush x)) = False"
  "xp_owe_boundary (snd (exec_flush x)) = None" "xp_last_meta (snd (exec_flush x)) = None"
  "xp_completed (snd (exec_flush x)) = xp_completed x" "xp_armed_cmd (snd (exec_flush x)) = xp_armed_cmd x"
  "xp_ring (snd (exec_flush x)) = snd (clear_marked (xp_ring x))"
  by (simp_all add: exec_flush_def split_def Let_def)

lemma finish_stop_simps:
  "xp_faulted (finish_stop x) = xp_faulted x" "xp_paused (finish_stop x) = xp_paused x"
  "xp_applied_scale (finish_stop x) = xp_applied_scale x" "xp_hold_q (finish_stop x) = xp_hold_q x"
  "xp_stopping (finish_stop x) = False" "xp_settling (finish_stop x) = False"
  "xp_owe_boundary (finish_stop x) = None" "xp_last_meta (finish_stop x) = None"
  "xp_completed (finish_stop x) = xp_completed x" "xp_armed_cmd (finish_stop x) = xp_armed_cmd x"
  "xp_ring (finish_stop x) = snd (clear_marked (xp_ring x))"
  by (simp_all add: finish_stop_def exec_flush_simps)

lemma end_stop_cases: "end_stop x = x \<or> end_stop x = finish_stop x \<and> xp_stopping x"
  by (auto simp: end_stop_def)

text \<open>What a stage leaves alone, of the fields the properties speak about.\<close>

definition same_book :: "exec_playback \<Rightarrow> exec_playback \<Rightarrow> bool" where
  "same_book x y \<longleftrightarrow> xp_settling y = xp_settling x \<and> xp_armed_cmd y = xp_armed_cmd x
     \<and> xp_completed y = xp_completed x \<and> xp_owe_boundary y = xp_owe_boundary x \<and> xp_last_meta y = xp_last_meta x
     \<and> xp_ring y = xp_ring x \<and> xp_faulted y = xp_faulted x \<and> xp_paused y = xp_paused x \<and> xp_stopping y = xp_stopping x"

lemma same_book_refl: "same_book x x" by (simp add: same_book_def)

lemma same_book_trans: "same_book x y \<Longrightarrow> same_book y z \<Longrightarrow> same_book x z" by (simp add: same_book_def)

lemma at_rest_book: "same_book x (at_rest x)" by (simp add: same_book_def at_rest_def)

lemma start_path_book: "same_book x (start_path x s)" by (simp add: same_book_def start_path_def)

lemma clock_stage_book: "same_book x (clock_stage x s)"
proof -
  obtain v a q where i: "interpolate (xp_left x) s (xp_phase x) (xp_dt x) = (q, v, a)" by (cases rule: prod_cases3)
  define y where "y = (if list_all (\<lambda>v. f64_lt (f64_abs v) f64_1em12) v \<and> list_all (\<lambda>a. f64_lt (f64_abs a) f64_1em12) a
      then at_rest x else x)"
  have "same_book x y" by (simp add: y_def at_rest_book same_book_refl)
  moreover have "\<exists>as r p. clock_stage x s = y\<lparr>xp_applied_scale := as, xp_scale_rate := r, xp_phase := p\<rparr>"
    unfolding clock_stage_def i Let_def split_def fst_conv snd_conv y_def [symmetric] by (intro exI) (rule refl)
  ultimately show ?thesis by (elim exE) (simp add: same_book_def)
qed

lemma output_stage_book: "same_book x (snd (output_stage x))"
  by (cases "peek (xp_ring x)") (simp_all add: same_book_def output_stage_def Let_def split_def)


section \<open>Completion bookkeeping\<close>

text \<open>\<open>P\<close> holds the commands of which a sample has been taken from the ring.\<close>

definition book_ok :: "u32 set \<Rightarrow> exec_playback \<Rightarrow> bool" where
  "book_ok P x \<longleftrightarrow> (\<forall>m. xp_owe_boundary x = Some m \<longrightarrow> mt_command_index m \<in> P)
     \<and> (\<forall>m. xp_last_meta x = Some m \<longrightarrow> mt_command_index m \<in> P)
     \<and> (xp_settling x \<longrightarrow> xp_armed_cmd x \<in> P) \<and> xp_completed x \<in> insert 0 P"

lemma book_ok_same: "same_book x y \<Longrightarrow> book_ok P x \<Longrightarrow> book_ok P y"
  by (simp add: book_ok_def same_book_def)

lemma book_ok_mono: "book_ok P x \<Longrightarrow> P \<subseteq> Q \<Longrightarrow> book_ok Q x"
  by (auto simp: book_ok_def)

lemma book_ok_finish: "book_ok P x \<Longrightarrow> book_ok P (finish_stop x)"
  by (simp add: book_ok_def finish_stop_simps)

lemma book_ok_end_stop: "book_ok P x \<Longrightarrow> book_ok P (end_stop x)"
  using end_stop_cases [of x] book_ok_finish by metis

lemma settling_stage_cases:
  "settling_stage x q = Inr x \<and> \<not> xp_settling x
   \<or> (\<exists>p. settling_stage x q = Inl (Exec_Ok, at_rest (x\<lparr>xp_policy := p\<rparr>)) \<and> xp_settling x)
   \<or> (\<exists>p. settling_stage x q = Inr (x\<lparr>xp_policy := p, xp_settling := False, xp_completed := xp_armed_cmd x\<rparr>) \<and> xp_settling x)
   \<or> (\<exists>p j e. settling_stage x q = Inl (Exec_Fault j e, x\<lparr>xp_policy := p, xp_faulted := True, xp_settling := False\<rparr>) \<and> xp_settling x)"
proof (cases "xp_settling x")
  case True
  obtain v p where "settle_policy_tick (xp_policy x) q (xp_hold_q x) = (v, p)" by (cases "settle_policy_tick (xp_policy x) q (xp_hold_q x)")
  with True show ?thesis by (cases v) (auto simp: settling_stage_def)
qed (simp add: settling_stage_def)

lemma late_boundary_cases:
  "late_boundary x = x \<or> (\<exists>m. xp_last_meta x = Some m \<and> late_boundary x = x\<lparr>xp_owe_boundary := Some m\<rparr>)"
  by (cases "xp_last_meta x"; cases "peek (xp_ring x)") (auto simp: late_boundary_def)

lemma boundary_stage_cases:
  obtains "boundary_stage x = Inr (late_boundary x)" "xp_owe_boundary (late_boundary x) = None"
  | b p where "xp_owe_boundary (late_boundary x) = Some b"
      "boundary_stage x = Inr ((late_boundary x)\<lparr>xp_owe_boundary := None, xp_last_meta := None, xp_policy := p,
         xp_completed := mt_command_index b\<rparr>)"
  | b p where "xp_owe_boundary (late_boundary x) = Some b"
      "boundary_stage x = Inl (Exec_Ok, (late_boundary x)\<lparr>xp_owe_boundary := None, xp_last_meta := None, xp_policy := p,
         xp_settling := True, xp_armed_cmd := mt_command_index b\<rparr>)"
proof (cases "xp_owe_boundary (late_boundary x)")
  case None
  then show thesis using that(1) by (simp add: boundary_stage_def)
next
  case (Some b)
  obtain im p where a: "settle_arm (xp_policy (late_boundary x)) = (im, p)" by (cases "settle_arm (xp_policy (late_boundary x))")
  from Some a show thesis
    by (cases im) (auto simp: boundary_stage_def Let_def intro: that(2) [OF Some] that(3) [OF Some])
qed

lemma book_ok_late: "book_ok P x \<Longrightarrow> book_ok P (late_boundary x)"
  using late_boundary_cases [of x] by (auto simp: book_ok_def)

lemma book_ok_settling:
  assumes "book_ok P x"
  shows "settling_stage x q = Inl (v, y) \<Longrightarrow> book_ok P y" and "settling_stage x q = Inr y \<Longrightarrow> book_ok P y"
  using settling_stage_cases [of x q] assms by (auto simp: book_ok_def at_rest_def)

lemma book_ok_boundary:
  assumes "book_ok P x"
  shows "boundary_stage x = Inl (v, y) \<Longrightarrow> book_ok P y" and "boundary_stage x = Inr y \<Longrightarrow> book_ok P y"
  using book_ok_late [OF assms]
  by (cases rule: boundary_stage_cases [of x]; auto simp: book_ok_def)+

lemma book_ok_advance:
  assumes "book_ok P x"
  shows "book_ok (insert (xp_active_cmd (advance_stage x)) P) (advance_stage x)"
proof (cases "f64_le f64_one (xp_phase x)")
  case True
  obtain v r where p: "pop (xp_ring x) = (v, r)" by (cases "pop (xp_ring x)")
  show ?thesis
  proof (cases v)
    case None
    with True p assms show ?thesis by (auto simp: advance_stage_def book_ok_def)
  next
    case (Some s)
    with True p assms show ?thesis
      by (cases "peek r") (auto simp: advance_stage_def book_ok_def Let_def)
  qed
next
  case False
  with assms show ?thesis by (auto simp: advance_stage_def intro: book_ok_mono)
qed

lemma output_active: "xp_active_cmd (snd (output_stage x)) = xp_active_cmd x"
  by (cases "peek (xp_ring x)") (simp_all add: output_stage_def Let_def split_def)

lemma book_ok_tick:
  assumes "book_ok P x" and "exec_tick x q = (v, sp, y)"
  shows "book_ok (insert (xp_active_cmd y) P) y"
proof -
  have mono: "book_ok P z \<Longrightarrow> book_ok (insert a P) z" for z a by (auto intro: book_ok_mono)
  define x1 where "x1 = end_stop x"
  have b1: "book_ok P x1" by (simp add: x1_def book_ok_end_stop assms(1))
  note tick = assms(2) [unfolded exec_tick_def Let_def x1_def [symmetric]]
  show ?thesis
  proof (cases "xp_faulted x1 \<or> xp_paused x1 \<and> f64_eq (xp_applied_scale x1) f64_zero")
    case True
    with tick b1 mono show ?thesis by (auto split: if_splits)
  next
    case False
    show ?thesis
    proof (cases "settling_stage x1 q")
      case (Inl w)
      with False tick book_ok_settling(1) [OF b1, of q] mono show ?thesis by (cases w) auto
    next
      case (Inr x2)
      note b2 = book_ok_settling(2) [OF b1 Inr]
      show ?thesis
      proof (cases "boundary_stage x2")
        case (Inl w)
        with False Inr tick book_ok_boundary(1) [OF b2] mono show ?thesis by (cases w) auto
      next
        case bnd: (Inr x3)
        note b3 = book_ok_boundary(2) [OF b2 bnd]
        show ?thesis
        proof (cases "peek (xp_ring x3)")
          case None
          with False Inr bnd tick book_ok_same [OF at_rest_book b3] mono show ?thesis by auto
        next
          case (Some s)
          let ?c = "clock_stage (start_path x3 s) s"
          have "book_ok P ?c"
            using book_ok_same [OF same_book_trans [OF start_path_book clock_stage_book] b3] .
          note adv = book_ok_advance [OF this]
          from False Inr bnd Some tick have "y = snd (output_stage (advance_stage ?c))"
            by (auto simp: split_def)
          with book_ok_same [OF output_stage_book adv] show ?thesis by (simp add: output_active)
        qed
      qed
    qed
  qed
qed


section \<open>Histories\<close>

record exec_history =
  eh_exec :: exec_playback
  eh_played :: "u32 set"

text \<open>
  Everything that happens to the engine: its ticks, the operator's requests, the flushes, the
  planner's work on the ring and the activations, which start a new history.
\<close>

inductive exec_step :: "exec_history \<Rightarrow> exec_history \<Rightarrow> bool" where
  ex_tick: "exec_tick (eh_exec h) q = (v, sp, y) \<Longrightarrow>
    exec_step h (h\<lparr>eh_exec := y, eh_played := insert (xp_active_cmd y) (eh_played h)\<rparr>)"
| ex_activate: "exec_step h \<lparr>eh_exec = exec_activate (eh_exec h) q, eh_played = {}\<rparr>"
| ex_pause: "exec_step h (h\<lparr>eh_exec := set_paused (eh_exec h) b\<rparr>)"
| ex_clock: "exec_step h (h\<lparr>eh_exec := clock_tick (eh_exec h)\<rparr>)"
| ex_speed: "exec_step h (h\<lparr>eh_exec := snd (set_speed_scale (eh_exec h) s)\<rparr>)"
| ex_stop: "exec_step h (h\<lparr>eh_exec := begin_stop (eh_exec h)\<rparr>)"
| ex_finish: "exec_step h (h\<lparr>eh_exec := finish_stop (eh_exec h)\<rparr>)"
| ex_flush: "exec_step h (h\<lparr>eh_exec := snd (exec_flush (eh_exec h))\<rparr>)"
| ex_rest: "exec_step h (h\<lparr>eh_exec := at_rest (eh_exec h)\<rparr>)"
| ex_reseed: "exec_step h (h\<lparr>eh_exec := reseed_hold (eh_exec h) q\<rparr>)"
| ex_policy: "exec_step h (h\<lparr>eh_exec := set_policy (eh_exec h) p\<rparr>)"
| ex_ring: "exec_step h (h\<lparr>eh_exec := (eh_exec h)\<lparr>xp_ring := r\<rparr>\<rparr>)"

definition exec_initial :: "exec_history \<Rightarrow> bool" where
  "exec_initial h \<longleftrightarrow> eh_played h = {}
     \<and> (\<exists>ring policy dt transition_s limits. new_exec ring policy dt transition_s limits = Some (eh_exec h))"

lemma new_exec_fresh:
  assumes "new_exec ring policy dt t limits = Some x"
  shows "xp_owe_boundary x = None \<and> xp_last_meta x = None \<and> \<not> xp_settling x \<and> xp_completed x = 0"
  using assms unfolding new_exec_def by (simp split: if_splits) (drule sym, simp)

interpretation exec_inv: inductive_invariant exec_initial exec_step "\<lambda>h. book_ok (eh_played h) (eh_exec h)"
proof
  show "book_ok (eh_played h) (eh_exec h)" if "exec_initial h" for h
  proof -
    from that obtain ring policy dt t limits where "new_exec ring policy dt t limits = Some (eh_exec h)"
      by (auto simp: exec_initial_def)
    from new_exec_fresh [OF this] show ?thesis by (simp add: book_ok_def)
  qed
  show "book_ok (eh_played h') (eh_exec h')" if "book_ok (eh_played h) (eh_exec h)" "exec_step h h'" for h h'
    using that(2,1)
  proof cases
    case (ex_tick q v sp y)
    then show ?thesis using book_ok_tick [OF that(1) ex_tick(2)] by simp
  next
    case ex_finish
    then show ?thesis using book_ok_finish [OF that(1)] by simp
  next
    case ex_flush
    then show ?thesis using that(1) by (simp add: book_ok_def exec_flush_simps)
  next
    case ex_rest
    then show ?thesis using book_ok_same [OF at_rest_book that(1)] by simp
  qed (use that(1) in \<open>auto simp: book_ok_def exec_activate_def Let_def set_paused_def clock_tick_def set_speed_scale_def
        begin_stop_def reseed_hold_def set_policy_def\<close>)
qed

lemma exec_tick_cases:
  assumes "exec_tick x q = (v, sp, y)"
  obtains (held) "sp = hold_setpoint x" "xp_ring y = xp_ring (end_stop x)"
  | (played) c where "xp_ring c = xp_ring (end_stop x)" "y = snd (output_stage (advance_stage c))" "v = Exec_Ok"
proof -
  define x1 where "x1 = end_stop x"
  note tick = assms [unfolded exec_tick_def Let_def x1_def [symmetric]]
  have late: "xp_ring (late_boundary z) = xp_ring z" for z using late_boundary_cases [of z] by auto
  have r2: "settling_stage x1 q = Inl (v', z) \<Longrightarrow> xp_ring z = xp_ring x1" "settling_stage x1 q = Inr z \<Longrightarrow> xp_ring z = xp_ring x1" for v' z
    using settling_stage_cases [of x1 q] by (auto simp: at_rest_def)
  have r3: "boundary_stage w = Inl (v', z) \<Longrightarrow> xp_ring z = xp_ring w" "boundary_stage w = Inr z \<Longrightarrow> xp_ring z = xp_ring w" for v' w z
    by (cases rule: boundary_stage_cases [of w]; auto simp: late)+
  have r4: "xp_ring (clock_stage (start_path z s) s) = xp_ring z" for z s
    using same_book_trans [OF start_path_book clock_stage_book, of z s s] by (simp add: same_book_def)
  show thesis
  proof (cases "xp_faulted x1 \<or> xp_paused x1 \<and> f64_eq (xp_applied_scale x1) f64_zero")
    case True
    with tick held show thesis by (auto simp: x1_def split: if_splits)
  next
    case False
    show thesis
    proof (cases "settling_stage x1 q")
      case (Inl w)
      with False tick r2(1) [of "fst w" "snd w"] held show thesis by (cases w) (auto simp: x1_def)
    next
      case (Inr x2)
      note e2 = r2(2) [OF Inr]
      show thesis
      proof (cases "boundary_stage x2")
        case (Inl w)
        with False Inr tick r3(1) [of x2 "fst w" "snd w"] held e2 show thesis by (cases w) (auto simp: x1_def)
      next
        case bnd: (Inr x3)
        note e3 = r3(2) [OF bnd]
        show thesis
        proof (cases "peek (xp_ring x3)")
          case None
          with False Inr bnd tick e2 e3 held show thesis by (auto simp: x1_def at_rest_def)
        next
          case (Some s)
          let ?c = "clock_stage (start_path x3 s) s"
          from False Inr bnd Some tick have "y = snd (output_stage (advance_stage ?c))" "v = Exec_Ok"
            by (auto simp: split_def)
          with played [of ?c] r4 [of x3 s] e2 e3 show thesis by (simp add: x1_def)
        qed
      qed
    qed
  qed
qed


section \<open>Faults\<close>

lemma settle_fault:
  assumes "settle_policy_tick p q t = (SV_Fault j e, p')"
  shows "sp_policy p = Strict \<and> \<not> f64_le e (sp_tolerance_rad p) \<and> sp_timeout_ticks p \<le> sp_elapsed p'
    \<and> (\<exists>w. worst_error q t = (w, e) \<and> j = of_nat w)"
proof -
  obtain w e' where w: "worst_error q t = (w, e')" by (cases "worst_error q t")
  with assms show ?thesis
    by (cases "sp_policy p") (auto simp: settle_policy_tick_def Let_def split: if_splits)
qed

lemma settling_fault:
  assumes "settling_stage x q = Inl (Exec_Fault j e, y)"
  obtains p where "settle_policy_tick (xp_policy x) q (xp_hold_q x) = (SV_Fault j e, p)"
    "y = x\<lparr>xp_policy := p, xp_faulted := True, xp_settling := False\<rparr>"
proof -
  obtain v p where s: "settle_policy_tick (xp_policy x) q (xp_hold_q x) = (v, p)"
    by (cases "settle_policy_tick (xp_policy x) q (xp_hold_q x)")
  with assms show thesis by (cases v) (auto simp: settling_stage_def that split: if_splits)
qed

lemma exec_tick_fault:
  assumes "exec_tick x q = (Exec_Fault j e, sp, y)"
  shows "settling_stage (end_stop x) q = Inl (Exec_Fault j e, y)" "sp = hold_setpoint x"
proof -
  define x1 where "x1 = end_stop x"
  note tick = assms [unfolded exec_tick_def Let_def x1_def [symmetric]]
  have bnd: "boundary_stage z = Inl (v, w) \<Longrightarrow> v = Exec_Ok" for z v w
    by (cases rule: boundary_stage_cases [of z]) auto
  from tick have nf: "\<not> (xp_faulted x1 \<or> xp_paused x1 \<and> f64_eq (xp_applied_scale x1) f64_zero)"
    by (auto split: if_splits)
  have "settling_stage x1 q = Inl (Exec_Fault j e, y) \<and> sp = hold_setpoint x"
  proof (cases "settling_stage x1 q")
    case (Inl w)
    with nf tick show ?thesis by (cases w) auto
  next
    case (Inr x2)
    with nf tick bnd [of x2] show ?thesis
      by (cases "boundary_stage x2") (auto simp: split_def split: option.splits)
  qed
  then show "settling_stage (end_stop x) q = Inl (Exec_Fault j e, y)" "sp = hold_setpoint x"
    by (simp_all add: x1_def)
qed

lemma end_stop_hold: "hold_setpoint (end_stop x) = hold_setpoint x" "xp_faulted (end_stop x) = xp_faulted x"
  using end_stop_cases [of x] by (auto simp: hold_setpoint_def finish_stop_simps)

lemma end_stop_policy: "xp_policy (end_stop x) = xp_policy x" "xp_hold_q (end_stop x) = xp_hold_q x"
  by (simp_all add: end_stop_def finish_stop_simps) (simp add: finish_stop_def exec_flush_def split_def Let_def)

text \<open>Consecutive ticks with the measured positions given, and the setpoints they send.\<close>

fun exec_ticks :: "exec_playback \<Rightarrow> f64 list list \<Rightarrow> setpoint list \<times> exec_playback" where
  "exec_ticks x [] = ([], x)"
| "exec_ticks x (q # qs) =
     (let (_, sp, x) = exec_tick x q; (sps, x) = exec_ticks x qs in (sp # sps, x))"

lemma exec_tick_faulted: "xp_faulted x \<Longrightarrow> exec_tick x q = (Exec_Ok, hold_setpoint x, end_stop x)"
  by (simp add: exec_tick_def Let_def end_stop_hold)

lemma exec_ticks_faulted:
  "xp_faulted x \<Longrightarrow> fst (exec_ticks x qs) = replicate (length qs) (hold_setpoint x)
     \<and> xp_faulted (snd (exec_ticks x qs))"
  by (induction qs arbitrary: x) (simp_all add: exec_tick_faulted split_def end_stop_hold)



definition settling_engine :: exec_playback where
  "settling_engine =
     \<lparr>xp_ring = the (sample_ring 4), xp_policy = \<lparr>sp_policy = Strict, sp_tolerance_rad = f64_zero, sp_timeout_ticks = 1,
        sp_elapsed = 0, sp_best_err = f64_inf\<rparr>, xp_hold_q = replicate MAX_JOINTS f64_zero,
      xp_last_meta = None, xp_owe_boundary = None, xp_settling = True, xp_armed_cmd = 1, xp_active_cmd = 1,
      xp_completed = 0, xp_paused = False, xp_paused_ticks = 0, xp_stopping = False, xp_faulted = False,
      xp_dt = f64_one, xp_scale_rate_limit = f64_one, xp_scale_acceleration_limit = f64_four,
      xp_scale_rate = f64_zero, xp_acceleration_limits = replicate MAX_JOINTS f64_one,
      xp_requested_scale = f64_one, xp_applied_scale = f64_one, xp_phase = f64_zero, xp_left = default_sample\<rparr>"

lemmas f64_run = f64_field_defs f64_const_defs f64_cmp_defs is_nan_def is_finite_def f64_key_def f64_neg_def
  f64_abs_def f64_of_sign_mag_def f64_sub_def f64_add_def f64_units_def units_of_mag_def

abbreviation far_away :: "f64 list" where
  "far_away \<equiv> f64_inf # replicate 5 f64_zero"

lemma settling_engine_tick:
  "\<exists>y. exec_tick settling_engine far_away = (Exec_Fault 0 f64_inf, hold_setpoint settling_engine, y)"
proof -
  have z: "f64_abs (f64_sub f64_zero f64_zero) = f64_zero" "f64_abs (f64_sub f64_inf f64_zero) = f64_inf"
    "f64_lt f64_zero f64_inf" "\<not> f64_lt f64_inf f64_zero" "\<not> f64_le f64_inf f64_zero"
    by (simp_all add: f64_run)
  have w: "worst_error far_away (replicate MAX_JOINTS f64_zero) = (0, f64_inf)"
    by (simp add: worst_error_def MAX_JOINTS_def z numeral_eq_Suc split: if_splits)
  from z(5) show ?thesis
    by (simp add: exec_tick_def settling_engine_def end_stop_def settling_stage_def settle_policy_tick_def w Let_def)
qed



section \<open>Pause\<close>

text \<open>
  Once a pause has run the clock down to zero, playback is frozen: every tick sends the held
  setpoint with no velocity and no feedforward, consumes nothing from the ring, completes nothing
  and leaves the whole engine unchanged, whatever the joints measure, until the pause is lifted
  (\<open>set_paused\<close>) or a stop is requested. Lifting it resumes from exactly the phase and sample it
  was frozen at.
\<close>

lemma exec_pause_freezes:
  assumes "xp_paused x" "f64_eq (xp_applied_scale x) f64_zero" "\<not> xp_stopping x"
  shows "exec_ticks x qs = (replicate (length qs) (hold_setpoint x), x)
    \<and> set_paused (snd (exec_ticks x qs)) False = x\<lparr>xp_paused := False\<rparr>"
proof -
  have "exec_tick x q = (Exec_Ok, hold_setpoint x, x)" for q
    using assms by (simp add: exec_tick_def Let_def end_stop_def)
  then have "exec_ticks x qs = (replicate (length qs) (hold_setpoint x), x)" by (induction qs) simp_all
  then show ?thesis by (simp add: set_paused_def)
qed

section \<open>Consuming the ring\<close>

lemma output_ring: "xp_ring (snd (output_stage x)) = xp_ring x"
  using output_stage_book [of x] by (simp add: same_book_def)

lemma advance_ring:
  "xp_ring (advance_stage c) = xp_ring c
   \<or> (\<exists>s. pop (xp_ring c) = (Some s, xp_ring (advance_stage c)) \<and> xp_active_cmd (advance_stage c) = mt_command_index (sm_meta s))"
proof (cases "f64_le f64_one (xp_phase c)")
  case True
  obtain v r where p: "pop (xp_ring c) = (v, r)" by (cases "pop (xp_ring c)")
  show ?thesis
  proof (cases v)
    case (Some s)
    with True p show ?thesis by (cases "peek r") (simp_all add: advance_stage_def Let_def)
  qed (simp add: advance_stage_def p)
qed (simp add: advance_stage_def)

text \<open>
  A tick takes at most one sample from the ring. Apart from the flush with which a finished
  stop drops the samples of the stopped commands (\<open>end_stop\<close>), the ring it leaves is the ring it
  found or that ring after one \<open>pop\<close>, and then the command the engine reports as active is the one
  of the sample it took. A tick that faults takes none.
\<close>

lemma exec_tick_consumes_one:
  assumes "exec_tick x q = (v, sp, y)"
  shows "xp_ring y = xp_ring (end_stop x)
    \<or> (v = Exec_Ok \<and> (\<exists>s. pop (xp_ring (end_stop x)) = (Some s, xp_ring y)
         \<and> xp_active_cmd y = mt_command_index (sm_meta s)))"
  using assms
proof (cases rule: exec_tick_cases)
  case (played c)
  from advance_ring [of c] played show ?thesis by (auto simp: output_ring output_active)
qed simp

section \<open>Completion\<close>



end
