(* ===== verification/Convert.thy ===== *)
theory Convert
  imports Exec Gripper
begin

text \<open>
  Wire and SI units of one joint: \<open>par6-bus/src/spectral/convert.rs\<close>. Integers are 32 bit words
  read as signed; additions wrap as in a release build. The floating-point steps are the IEEE
  operations of the source.
\<close>

unbundle bit_operations_syntax

section \<open>Casts\<close>

definition TWO_PI :: f64 where "TWO_PI = 0x401921FB54442D18"
definition f64_1000 :: f64 where "f64_1000 = 0x408F400000000000"

text \<open>The saturating cast of an integral value to \<open>i32\<close>.\<close>

definition i32_saturate :: "int \<Rightarrow> i32" where
  "i32_saturate n = word_of_int (max (- (2 ^ 31)) (min (2 ^ 31 - 1) n))"

text \<open>
  \<open>as i32\<close> after a rounding to integers that acts on the magnitude, here \<open>rnd\<close> on units: NaN
  goes to zero, the rest saturates.
\<close>

definition f64_cast_i32 :: "(nat \<Rightarrow> nat) \<Rightarrow> f64 \<Rightarrow> i32" where
  "f64_cast_i32 rnd x =
     (if is_nan x then 0
      else if \<not> is_finite x then i32_saturate (if f64_neg_sign x then - (2 ^ 31) else 2 ^ 31)
      else i32_saturate ((if f64_neg_sign x then -1 else 1) * int (rnd (units_of_mag (f64_mag x)))))"

definition trunc_to_wire :: "f64 \<Rightarrow> i32" where
  "trunc_to_wire v = f64_cast_i32 (\<lambda>u. u div 2 ^ 1074) v"

definition round_ties_even_i32 :: "f64 \<Rightarrow> i32" where
  "round_ties_even_i32 v = f64_cast_i32 (\<lambda>u. round_half_even u (2 ^ 1074)) v"

text \<open>\<open>f64::from(i32)\<close>, exact.\<close>

definition f64_of_i32 :: "i32 \<Rightarrow> f64" where
  "f64_of_i32 n = f64_round (sint n < 0) (nat \<bar>sint n\<bar> * 2 ^ 1074) 1"

section \<open>Conversions\<close>

definition ticks_per_radian :: "i32 \<Rightarrow> f64 \<Rightarrow> f64" where
  "ticks_per_radian encoder_max_counts gear_ratio =
     f64_div (f64_mul (f64_of_i32 encoder_max_counts) gear_ratio) TWO_PI"

definition radians_to_ticks :: "f64 \<Rightarrow> i32 \<Rightarrow> f64 \<Rightarrow> i32" where
  "radians_to_ticks radians encoder_max_counts gear_ratio =
     round_ties_even_i32 (f64_mul radians (ticks_per_radian encoder_max_counts gear_ratio))"

definition ticks_to_radians :: "f64 \<Rightarrow> i32 \<Rightarrow> f64 \<Rightarrow> f64" where
  "ticks_to_radians ticks encoder_max_counts gear_ratio =
     f64_div ticks (ticks_per_radian encoder_max_counts gear_ratio)"

definition torque_to_ma_factor :: "f64 \<Rightarrow> f64 \<Rightarrow> f64 \<Rightarrow> u8 \<Rightarrow> f64" where
  "torque_to_ma_factor gear_ratio gear_efficiency kt_nm_a dir =
     f64_div (f64_mul (if dir = 1 then f64_minus_one else f64_one) f64_1000)
       (f64_mul (f64_mul gear_ratio gear_efficiency) kt_nm_a)"

record joint_conversion =
  jv_encoder_max_counts :: i32
  jv_gear_ratio :: f64
  jv_dir :: u8
  jv_master_position_ticks :: i32
  jv_offset_ticks :: i32
  jv_sector_shift_ticks :: i32

definition offset_ticks_for :: "joint_conversion \<Rightarrow> f64 \<Rightarrow> i32" where
  "offset_ticks_for c offset_rad =
     radians_to_ticks (if jv_dir c = 0 then offset_rad else f64_sub TWO_PI offset_rad)
       (jv_encoder_max_counts c) (jv_gear_ratio c)"

definition new_conversion :: "u8 \<Rightarrow> f64 \<Rightarrow> u8 \<Rightarrow> i32 \<Rightarrow> f64 \<Rightarrow> joint_conversion" where
  "new_conversion encoder_bits gear_ratio dir master_position_ticks offset_rad =
     (let s = \<lparr>jv_encoder_max_counts = push_bit (unat encoder_bits) 1, jv_gear_ratio = gear_ratio, jv_dir = dir,
               jv_master_position_ticks = master_position_ticks, jv_offset_ticks = 0, jv_sector_shift_ticks = 0\<rparr>
      in s\<lparr>jv_offset_ticks := offset_ticks_for s offset_rad\<rparr>)"

text \<open>
  \<open>determine_sector\<close> compares signed. The two quotients are of non-negative numbers, where
  \<open>div\<close> on their values is the source's \<open>/\<close>.
\<close>

definition determine_sector :: "joint_conversion \<Rightarrow> i32 \<Rightarrow> joint_conversion" where
  "determine_sector c initial_motor_ticks =
     (let mx = sint (jv_encoder_max_counts c);
          midpoint = (mx - 1) div 2;
          initial = sint initial_motor_ticks mod mx;
          master = sint (jv_master_position_ticks c)
      in c\<lparr>jv_sector_shift_ticks :=
           (if master - mx div 2 > 0 then (if initial < master - mx div 2 then jv_encoder_max_counts c else 0)
            else if master - mx div 2 < 0 then (if initial > master + midpoint then - jv_encoder_max_counts c else 0)
            else 0)\<rparr>)"

definition set_home :: "joint_conversion \<Rightarrow> i32 \<Rightarrow> f64 \<Rightarrow> joint_conversion" where
  "set_home c latched_motor_ticks home_offset_rad =
     c\<lparr>jv_master_position_ticks := latched_motor_ticks, jv_offset_ticks := offset_ticks_for c home_offset_rad,
       jv_sector_shift_ticks := 0\<rparr>"

definition set_home_offset :: "joint_conversion \<Rightarrow> f64 \<Rightarrow> joint_conversion" where
  "set_home_offset c home_offset_rad = c\<lparr>jv_offset_ticks := offset_ticks_for c home_offset_rad\<rparr>"

definition joint_ticks :: "joint_conversion \<Rightarrow> i32 \<Rightarrow> i32" where
  "joint_ticks c motor_ticks =
     motor_ticks - jv_master_position_ticks c + jv_sector_shift_ticks c + jv_offset_ticks c"

definition joint_rad :: "joint_conversion \<Rightarrow> i32 \<Rightarrow> f64" where
  "joint_rad c motor_ticks =
     (let rad = ticks_to_radians (f64_of_i32 (joint_ticks c motor_ticks)) (jv_encoder_max_counts c) (jv_gear_ratio c)
      in if jv_dir c = 1 then f64_sub TWO_PI rad else rad)"

definition motor_ticks :: "joint_conversion \<Rightarrow> f64 \<Rightarrow> i32" where
  "motor_ticks c angle =
     (let rad = (if jv_dir c = 1 then f64_sub TWO_PI angle else angle)
      in radians_to_ticks rad (jv_encoder_max_counts c) (jv_gear_ratio c) + jv_master_position_ticks c
           - jv_offset_ticks c - jv_sector_shift_ticks c)"

definition joint_speed_rad_s :: "joint_conversion \<Rightarrow> f64 \<Rightarrow> f64" where
  "joint_speed_rad_s c motor_ticks_s =
     f64_div (f64_mul (if jv_dir c = 1 then f64_neg motor_ticks_s else motor_ticks_s)
       (f64_div TWO_PI (f64_of_i32 (jv_encoder_max_counts c)))) (jv_gear_ratio c)"

definition motor_speed_ticks_s :: "joint_conversion \<Rightarrow> f64 \<Rightarrow> f64" where
  "motor_speed_ticks_s c joint_rad_s =
     f64_div (f64_mul (if jv_dir c = 1 then f64_neg joint_rad_s else joint_rad_s) (jv_gear_ratio c))
       (f64_div TWO_PI (f64_of_i32 (jv_encoder_max_counts c)))"

section \<open>Zero goes to zero\<close>

text \<open>
  A zero, of either sign, times or over anything is a zero or a NaN, and both are sent as zero
  ticks: no calibration value can turn a zero demand into motion.
\<close>

definition zero_or_nan :: "f64 \<Rightarrow> bool" where
  "zero_or_nan x \<longleftrightarrow> is_nan x \<or> f64_mag x = 0"

lemma mag_of_sign_mag:
  assumes "m < 2 ^ 63"
  shows "f64_mag (f64_of_sign_mag s m) = m"
proof -
  have "unat (of_nat n :: f64) mod 2 ^ 63 = n mod 2 ^ 63" for n
    by (simp only: unat_of_nat) (simp add: mod_mod_cancel)
  then show ?thesis using assms by (simp only: f64_mag_def f64_of_sign_mag_def) simp
qed

lemma mag_of_units_zero [simp]: "mag_of_units 0 d = 0"
  by (simp add: mag_of_units_def round_half_even_def floor_log2.simps)

lemma round_zero: "f64_mag (f64_round s 0 d) = 0"
  by (simp add: f64_round_def mag_of_sign_mag)

lemma zero_or_nan_nan [simp]: "zero_or_nan f64_nan"
  by (simp add: zero_or_nan_def is_nan_def f64_field_defs f64_nan_def)

lemma zero_or_nan_sign_mag [simp]: "zero_or_nan (f64_of_sign_mag s 0)"
  by (simp add: zero_or_nan_def mag_of_sign_mag)

lemma zero_or_nan_round [simp]: "zero_or_nan (f64_round s 0 d)"
  by (simp add: zero_or_nan_def round_zero)

lemma mag_zero_finite: "f64_mag x = 0 \<Longrightarrow> is_finite x"
  by (simp add: is_finite_def f64_exp_def)

lemma zero_or_nan_mul: "zero_or_nan x \<Longrightarrow> zero_or_nan (f64_mul x y)"
  by (auto simp: zero_or_nan_def [of x] f64_mul_def Let_def units_of_mag_def)

lemma zero_or_nan_div: "zero_or_nan x \<Longrightarrow> zero_or_nan (f64_div x y)"
  by (auto simp: zero_or_nan_def [of x] f64_div_def Let_def units_of_mag_def dest: mag_zero_finite)

lemma mag_neg: "f64_mag (f64_neg x) = f64_mag x"
proof -
  have "f64_mag y = unat (take_bit 63 y)" for y
    by (simp add: f64_mag_def take_bit_eq_mod unat_mod_distrib)
  moreover have "take_bit 63 (f64_neg x) = take_bit 63 x"
    by (simp add: f64_neg_def)
  ultimately show ?thesis by simp
qed

lemma units_of_mag_zero [simp]: "units_of_mag 0 = 0"
  by (simp add: units_of_mag_def)

lemma i32_saturate_zero [simp]: "i32_saturate 0 = 0"
  by (simp add: i32_saturate_def)

lemma cast_zero: "zero_or_nan x \<Longrightarrow> rnd 0 = 0 \<Longrightarrow> f64_cast_i32 rnd x = 0"
  by (auto simp: zero_or_nan_def f64_cast_i32_def mag_zero_finite simp del: power_numeral)

lemma trunc_zero: "zero_or_nan x \<Longrightarrow> trunc_to_wire x = 0"
  unfolding trunc_to_wire_def by (erule cast_zero) (rule div_0)

lemma zero_speed: "f64_mag v = 0 \<Longrightarrow> trunc_to_wire (motor_speed_ticks_s c v) = 0"
  unfolding motor_speed_ticks_s_def
  by (intro trunc_zero zero_or_nan_div zero_or_nan_mul) (simp add: zero_or_nan_def mag_neg)


section \<open>Sector selection\<close>

text \<open>
  At boot the encoder reading is known modulo one motor revolution only. For an encoder of
  2 to 30 bits and a master position inside the revolution, the sector correction is zero or one
  revolution either way, and it places the boot pose within half a revolution of the master
  position: the corrected distance is the representative of the reading nearest to zero.
\<close>

lemma determine_sector_nearest:
  assumes "2 \<le> b" "b \<le> 30" and "sint (jv_encoder_max_counts c) = 2 ^ b"
    and "0 \<le> sint (jv_master_position_ticks c)" "sint (jv_master_position_ticks c) < 2 ^ b"
  shows "let shift = sint (jv_sector_shift_ticks (determine_sector c reading));
             delta = sint reading mod 2 ^ b - sint (jv_master_position_ticks c) + shift
         in shift \<in> {- (2 ^ b), 0, 2 ^ b} \<and> - (2 ^ b div 2) \<le> delta \<and> delta \<le> 2 ^ b div 2
           \<and> delta mod 2 ^ b = (sint reading - sint (jv_master_position_ticks c)) mod 2 ^ b"
proof -
  let ?m = "sint (jv_master_position_ticks c)" and ?i = "sint reading mod 2 ^ b"
  define shift where "shift = sint (jv_sector_shift_ticks (determine_sector c reading))"
  define delta where "delta = ?i - ?m + shift"
  define h :: int where "h = 2 ^ (b - 1)"
  from assms(1,2) have mx: "(2::int) ^ b = 2 * h" "0 < h"
    by (simp_all add: h_def power_Suc [symmetric] del: power_Suc)
  have hb: "h \<le> 2 ^ 29" unfolding h_def using assms(2) by (intro power_increasing) auto
  have i: "0 \<le> ?i" "?i < 2 * h" using mx by simp_all
  have neg: "sint (- jv_encoder_max_counts c) = - (2 * h)"
    using assms(3) mx hb by (simp add: sint_word_ariths signed_take_bit_int_eq_self)
  have shift: "shift = (if ?m > h then (if ?i < ?m - h then 2 * h else 0)
      else if ?m < h then (if ?i > ?m + (2 * h - 1) div 2 then - (2 * h) else 0) else 0)"
    unfolding shift_def determine_sector_def Let_def using assms(3) mx neg by simp
  have mid: "(2 * h - 1) div 2 = h - 1" by simp
  have mods: "(2 * h * k + x) mod (2 * h) = x mod (2 * h)" for k x by simp
  have cong: "delta mod 2 ^ b = (sint reading - ?m) mod 2 ^ b"
  proof -
    obtain k where "shift = 2 * h * k"
      by (rule that [of "if shift = 0 then 0 else if shift = 2 * h then 1 else -1"]) (simp add: shift)
    then have "delta mod (2 * h) = (?i - ?m) mod (2 * h)"
      using mods [of k "?i - ?m"] by (simp add: delta_def add.commute)
    then show ?thesis unfolding mx(1) by (simp add: mod_diff_left_eq)
  qed
  have near: "- h \<le> d \<and> d \<le> h"
    if "0 \<le> i" "i < 2 * h" "0 \<le> m" "m < 2 * h" "d = i - m + (if m > h then (if i < m - h then 2 * h else 0)
      else if m < h then (if i > m + (h - 1) then - (2 * h) else 0) else 0)" for i m d
    using that by (auto split: if_splits)
  have "- h \<le> delta \<and> delta \<le> h"
    using assms(4,5) by (intro near [OF i, of ?m]) (simp_all only: delta_def shift mid mx(1))
  with cong shift show ?thesis
    unfolding Let_def shift_def [symmetric] delta_def [symmetric] by (auto simp: mx(1))
qed


text \<open>A joint of the shipped configuration: 14 bits, master position 3969, a reading past the wrap.\<close>

definition sample_conversion :: joint_conversion where
  "sample_conversion = \<lparr>jv_encoder_max_counts = 16384, jv_gear_ratio = f64_one, jv_dir = 0,
     jv_master_position_ticks = 3969, jv_offset_ticks = 0, jv_sector_shift_ticks = 0\<rparr>"

end
