(* ===== verification/Dispatch.thy ===== *)
theory Dispatch
  imports Convert
begin

text \<open>
  The output laws of the modes and the commit path: \<open>par6-rt/src/dispatch.rs\<close>. A law fills one
  setpoint per joint; \<open>commit\<close> converts them to wire commands, limits the rate of the torque and
  records what was sent.
\<close>

section \<open>Setpoints and laws\<close>

record joint_setpoint =
  js_pos_rad :: "f64 option"
  js_vel_rad_s :: "f64 option"
  js_torque_nm :: "f64 option"
  js_pack :: pack

definition zero_velocity :: joint_setpoint where
  "zero_velocity = \<lparr>js_pos_rad = None, js_vel_rad_s = Some f64_zero, js_torque_nm = Some f64_zero, js_pack = Pack_Pid\<rparr>"

definition torque_only :: "f64 \<Rightarrow> joint_setpoint" where
  "torque_only nm = \<lparr>js_pos_rad = None, js_vel_rad_s = None, js_torque_nm = Some nm, js_pack = Pack_Pid\<rparr>"

definition law_booting :: "joint_setpoint list" where
  "law_booting = replicate MAX_JOINTS zero_velocity"

definition law_idle :: "bool \<Rightarrow> f64 list \<Rightarrow> joint_setpoint list" where
  "law_idle gravity_hold g =
     (if gravity_hold then map (\<lambda>i. torque_only (g ! i)) joints else replicate MAX_JOINTS zero_velocity)"

definition law_active_error :: "joint_setpoint list" where
  "law_active_error = replicate MAX_JOINTS zero_velocity"

definition law_safety_stop :: "joint_setpoint list" where
  "law_safety_stop = replicate MAX_JOINTS (torque_only f64_zero)"

definition law_jog :: "f64 list \<Rightarrow> f64 list \<Rightarrow> bool \<Rightarrow> f64 list \<Rightarrow> pack \<Rightarrow> joint_setpoint list" where
  "law_jog q_target qd_target gravity_applied g pack =
     map (\<lambda>i. \<lparr>js_pos_rad = Some (q_target ! i), js_vel_rad_s = Some (qd_target ! i),
        js_torque_nm = Some (if gravity_applied then g ! i else f64_zero), js_pack = pack\<rparr>) joints"

definition law_exec :: "f64 list \<Rightarrow> f64 list \<Rightarrow> f64 list \<Rightarrow> bool \<Rightarrow> f64 list \<Rightarrow> joint_setpoint list" where
  "law_exec q qd tau_ff gravity_applied g =
     map (\<lambda>i. \<lparr>js_pos_rad = Some (q ! i), js_vel_rad_s = Some (qd ! i),
        js_torque_nm = Some (f64_add (tau_ff ! i) (if gravity_applied then g ! i else f64_zero)),
        js_pack = Pack_Pid\<rparr>) joints"

definition law_stream :: "f64 list \<Rightarrow> f64 list \<Rightarrow> bool \<Rightarrow> f64 list \<Rightarrow> joint_setpoint list" where
  "law_stream q qd gravity_applied g =
     map (\<lambda>i. \<lparr>js_pos_rad = Some (q ! i), js_vel_rad_s = Some (qd ! i),
        js_torque_nm = Some (if gravity_applied then g ! i else f64_zero), js_pack = Pack_Pid\<rparr>) joints"

section \<open>Mirrors and slew\<close>

record command_mirror =
  cm_q :: "f64 list"
  cm_qd :: "f64 list"
  cm_tau :: "f64 list"

definition default_mirror :: command_mirror where
  "default_mirror = \<lparr>cm_q = replicate MAX_JOINTS f64_nan, cm_qd = replicate MAX_JOINTS f64_nan,
     cm_tau = replicate MAX_JOINTS f64_zero\<rparr>"

record torque_slew =
  ts_applied :: "f64 list"
  ts_max_step :: "f64 list"

definition new_torque_slew :: "f64 list \<Rightarrow> torque_slew" where
  "new_torque_slew max_step = \<lparr>ts_applied = replicate MAX_JOINTS f64_zero, ts_max_step = max_step\<rparr>"

definition slew_reset :: "torque_slew \<Rightarrow> torque_slew" where
  "slew_reset s = s\<lparr>ts_applied := replicate MAX_JOINTS f64_zero\<rparr>"

definition slew_seed :: "torque_slew \<Rightarrow> f64 list \<Rightarrow> torque_slew" where
  "slew_seed s applied = s\<lparr>ts_applied := applied\<rparr>"

definition slew_step :: "torque_slew \<Rightarrow> nat \<Rightarrow> f64 \<Rightarrow> f64 \<times> torque_slew" where
  "slew_step s i want =
     (let prev = ts_applied s ! i;
          out = f64_add (f64_clamp (f64_sub want prev) (f64_neg (ts_max_step s ! i)) (ts_max_step s ! i)) prev
      in (out, s\<lparr>ts_applied := (ts_applied s)[i := out]\<rparr>))"

definition slew_snap :: "torque_slew \<Rightarrow> nat \<Rightarrow> f64 \<Rightarrow> f64 \<times> torque_slew" where
  "slew_snap s i want = (want, s\<lparr>ts_applied := (ts_applied s)[i := want]\<rparr>)"

section \<open>Commit\<close>

text \<open>The clamp to \<open>i16\<close> bounds and the narrowing cast.\<close>

definition i32_clamp_i16 :: "i32 \<Rightarrow> i16" where
  "i32_clamp_i16 n = word_of_int (max (- 32768) (min 32767 (sint n)))"

definition commit_torque :: "joint_setpoint \<Rightarrow> torque_slew \<Rightarrow> bool \<Rightarrow> nat \<Rightarrow> f64 option \<times> torque_slew" where
  "commit_torque sp s rate_limit i =
     (case js_torque_nm sp of
        Some t \<Rightarrow> (let (t, s) = (if rate_limit then slew_step s i t else slew_snap s i t) in (Some t, s))
      | None \<Rightarrow> (None, snd (slew_snap s i f64_zero)))"

definition commit_joint :: "joint_setpoint \<Rightarrow> joint_conversion \<Rightarrow> f64 \<Rightarrow> f64 option \<Rightarrow> joint_command" where
  "commit_joint sp c factor torque_nm =
     \<lparr>jc_pos = map_option (motor_ticks c) (js_pos_rad sp),
      jc_vel = map_option (\<lambda>v. trunc_to_wire (motor_speed_ticks_s c v)) (js_vel_rad_s sp),
      jc_cur_ma = map_option (\<lambda>t. i32_clamp_i16 (trunc_to_wire (f64_mul t factor))) torque_nm,
      jc_pack = js_pack sp\<rparr>"

fun commit_from ::
  "nat \<Rightarrow> joint_setpoint list \<Rightarrow> joint_conversion list \<Rightarrow> f64 list \<Rightarrow> torque_slew \<Rightarrow> bool
   \<Rightarrow> (joint_command \<times> f64 option) list \<times> torque_slew" where
  "commit_from i (sp # sps) (c # cs) (f # fs) s rate_limit =
     (let (torque_nm, s) = commit_torque sp s rate_limit i;
          (rest, s) = commit_from (Suc i) sps cs fs s rate_limit
      in ((commit_joint sp c f torque_nm, torque_nm) # rest, s))"
| "commit_from i _ _ _ s rate_limit = ([], s)"

abbreviation or_nan :: "f64 option \<Rightarrow> f64" where
  "or_nan \<equiv> case_option f64_nan id"

definition commit ::
  "joint_setpoint list \<Rightarrow> joint_conversion list \<Rightarrow> f64 list \<Rightarrow> torque_slew \<Rightarrow> bool
   \<Rightarrow> joint_command list \<times> command_mirror \<times> torque_slew" where
  "commit setpoints conv torque_ma_factor slew rate_limit =
     (let (out, slew) = commit_from 0 setpoints conv torque_ma_factor slew rate_limit
      in (map fst out,
          \<lparr>cm_q = map (or_nan \<circ> js_pos_rad) setpoints, cm_qd = map (or_nan \<circ> js_vel_rad_s) setpoints,
           cm_tau = map (or_nan \<circ> snd) out\<rparr>,
          slew))"

section \<open>What reaches the drives\<close>

lemma commit_from_length:
  "length cs = length sps \<Longrightarrow> length fs = length sps \<Longrightarrow> length (fst (commit_from i sps cs fs s l)) = length sps"
proof (induction i sps cs fs s l rule: commit_from.induct)
  case (1 i sp sps c cs f fs s l)
  obtain t s' where "commit_torque sp s l i = (t, s')" by (cases "commit_torque sp s l i")
  with 1 show ?case by (simp add: split_def Let_def)
qed simp_all

lemma commit_from_conv:
  "n < length (fst (commit_from i sps cs fs s l)) \<Longrightarrow>
   \<exists>t. fst (commit_from i sps cs fs s l) ! n = (commit_joint (sps ! n) (cs ! n) (fs ! n) t, t)
     \<and> (js_torque_nm (sps ! n) = None \<longrightarrow> t = None) \<and> (\<not> l \<longrightarrow> t = js_torque_nm (sps ! n))"
proof (induction i sps cs fs s l arbitrary: n rule: commit_from.induct)
  case (1 i sp sps c cs f fs s l)
  show ?case
  proof (cases n)
    case 0
    then show ?thesis
      by (auto simp: split_def Let_def commit_torque_def slew_snap_def split: option.splits)
  next
    case (Suc k)
    obtain t s' where "commit_torque sp s l i = (t, s')" by (cases "commit_torque sp s l i")
    with 1 Suc show ?thesis by (simp add: split_def Let_def)
  qed
qed simp_all

lemma clamp_i16_zero [simp]: "i32_clamp_i16 0 = 0"
  by (simp add: i32_clamp_i16_def)

lemma commit_still:
  assumes "length conv = MAX_JOINTS" "length factor = MAX_JOINTS"
    and "sp \<in> {zero_velocity, torque_only f64_zero}"
  shows "fst (commit (replicate MAX_JOINTS sp) conv factor slew False) =
    replicate MAX_JOINTS \<lparr>jc_pos = None, jc_vel = map_option (\<lambda>_. 0) (js_vel_rad_s sp), jc_cur_ma = Some 0, jc_pack = Pack_Pid\<rparr>"
proof -
  let ?out = "fst (commit_from 0 (replicate MAX_JOINTS sp) conv factor slew False)"
  have len: "length ?out = MAX_JOINTS" using assms(1,2) by (simp add: commit_from_length)
  have mag: "f64_mag f64_zero = 0" by (simp add: f64_mag_def f64_zero_def)
  then have cur: "trunc_to_wire (f64_mul f64_zero f) = 0" for f
    by (intro trunc_zero zero_or_nan_mul) (simp add: zero_or_nan_def)
  have "map fst ?out ! n = \<lparr>jc_pos = None, jc_vel = map_option (\<lambda>_. 0) (js_vel_rad_s sp), jc_cur_ma = Some 0, jc_pack = Pack_Pid\<rparr>"
    if "n < MAX_JOINTS" for n
  proof -
    from that len commit_from_conv [of n 0 "replicate MAX_JOINTS sp" conv factor slew False]
    have "map fst ?out ! n = commit_joint sp (conv ! n) (factor ! n) (js_torque_nm sp)" by auto
    then show ?thesis using assms(3) mag
      by (auto simp: commit_joint_def zero_velocity_def torque_only_def zero_speed cur)
  qed
  then have "map fst ?out = replicate MAX_JOINTS
      \<lparr>jc_pos = None, jc_vel = map_option (\<lambda>_. 0) (js_vel_rad_s sp), jc_cur_ma = Some 0, jc_pack = Pack_Pid\<rparr>"
    using len by (intro nth_equalityI) auto
  then show ?thesis by (simp add: commit_def split_def Let_def)
qed


text \<open>
  The protective frames. Whatever the calibration of the joints, the torque factors (even a
  factor that is infinite or not a number) and the state of the slew limiter, the law of
  ACTIVE_ERROR sends every joint zero velocity and zero current with no position channel, and the
  law of SAFETY_STOP sends every joint zero current and nothing else. They are never rate-limited,
  so this is what goes out in the very tick the mode is entered.
\<close>

lemma protective_frames:
  assumes "length conv = MAX_JOINTS" "length factor = MAX_JOINTS"
  shows "fst (commit law_active_error conv factor slew False)
      = replicate MAX_JOINTS \<lparr>jc_pos = None, jc_vel = Some 0, jc_cur_ma = Some 0, jc_pack = Pack_Pid\<rparr>
    \<and> fst (commit law_safety_stop conv factor slew False)
      = replicate MAX_JOINTS \<lparr>jc_pos = None, jc_vel = None, jc_cur_ma = Some 0, jc_pack = Pack_Pid\<rparr>"
  using commit_still [OF assms, of zero_velocity slew] commit_still [OF assms, of "torque_only f64_zero" slew]
  by (simp add: law_active_error_def law_safety_stop_def zero_velocity_def torque_only_def)

end
