(* ===== verification/Gpio.thy ===== *)
theory Gpio
  imports Reachability
begin

text \<open>
  Debounced inputs: \<open>Debouncer\<close> and \<open>EstopMonitor\<close> of \<open>par6-rt/src/gpio.rs\<close>. The raw level of a
  line is the argument of an update; \<open>True\<close> is electrically high. The number of lines is
  \<open>MAX_IO_LINES\<close> of \<open>par6-config/src/io.rs\<close>.
\<close>

definition MAX_IO_LINES :: nat where "MAX_IO_LINES = 63"
definition DEBOUNCE_READS :: u32 where "DEBOUNCE_READS = 5"

record debouncer =
  db_stable :: "bool option"
  db_candidate :: bool
  db_streak :: u32

definition new_debouncer :: debouncer where
  "new_debouncer = \<lparr>db_stable = None, db_candidate = False, db_streak = 0\<rparr>"

text \<open>\<open>u32::saturating_add(1)\<close>.\<close>

definition saturating_inc :: "u32 \<Rightarrow> u32" where
  "saturating_inc n = (if n = 0xFFFFFFFF then n else n + 1)"

definition db_update :: "debouncer \<Rightarrow> bool \<Rightarrow> bool \<times> debouncer" where
  "db_update d raw =
     (case db_stable d of
        None \<Rightarrow> (raw, d\<lparr>db_stable := Some raw, db_candidate := raw, db_streak := DEBOUNCE_READS\<rparr>)
      | Some level \<Rightarrow>
          (let d = (if raw = db_candidate d then d\<lparr>db_streak := saturating_inc (db_streak d)\<rparr>
                    else d\<lparr>db_candidate := raw, db_streak := 1\<rparr>)
           in if raw \<noteq> level \<and> DEBOUNCE_READS \<le> db_streak d then (raw, d\<lparr>db_stable := Some raw\<rparr>) else (level, d)))"

text \<open>\<open>EstopMonitor::pressed\<close> on the raw read of the line.\<close>

definition estop_pressed :: "debouncer \<Rightarrow> bool \<Rightarrow> bool \<times> debouncer" where
  "estop_pressed d raw = (let (level, d) = db_update d raw in (\<not> level, d))"

section \<open>The reference: the last level held for five reads\<close>

fun db_run :: "debouncer \<Rightarrow> bool list \<Rightarrow> debouncer" where
  "db_run d [] = d"
| "db_run d (r # rs) = db_run (snd (db_update d r)) rs"

lemma db_run_snoc: "db_run d (rs @ [r]) = snd (db_update (db_run d rs) r)"
  by (induction rs arbitrary: d) simp_all

text \<open>A history has the newest read first. Its leading run is the reads equal to the newest.\<close>

fun leading_run :: "bool list \<Rightarrow> nat" where
  "leading_run [] = 0"
| "leading_run [x] = 1"
| "leading_run (x # y # zs) = (if x = y then Suc (leading_run (y # zs)) else 1)"

fun settled_level :: "bool list \<Rightarrow> bool" where
  "settled_level [] = False"
| "settled_level (x # xs) = (if 5 \<le> leading_run (x # xs) then x else settled_level xs)"

text \<open>The seed read counts as five reads.\<close>

definition history :: "bool \<Rightarrow> bool list \<Rightarrow> bool list" where
  "history seed reads = rev reads @ replicate 5 seed"

lemma leading_run_pos: "xs \<noteq> [] \<Longrightarrow> 1 \<le> leading_run xs"
  by (cases xs rule: leading_run.cases) auto

lemma min_inc: "min 5 (unat (saturating_inc n)) = min 5 (Suc (min 5 (unat n)))"
proof (cases "n = 0xFFFFFFFF")
  case False
  then have "unat n \<noteq> 0xFFFFFFFF" by (auto simp: word_unat_eq_iff)
  then have "unat n + 1 < 2 ^ 32" using unat_lt2p [of n] by simp
  then show ?thesis using False by (simp add: saturating_inc_def unat_word_ariths)
qed (simp add: saturating_inc_def)

lemma debounce_streak: "DEBOUNCE_READS \<le> n \<longleftrightarrow> min 5 (unat n) = 5"
  by (auto simp: DEBOUNCE_READS_def word_le_nat_alt)

definition tracks :: "bool list \<Rightarrow> debouncer \<Rightarrow> bool" where
  "tracks h d \<longleftrightarrow> h \<noteq> [] \<and> db_candidate d = hd h \<and> min 5 (unat (db_streak d)) = min 5 (leading_run h)
     \<and> db_stable d = Some (settled_level h)"

lemma tracks_update:
  assumes "tracks h d"
  shows "tracks (raw # h) (snd (db_update d raw)) \<and> fst (db_update d raw) = settled_level (raw # h)"
proof -
  from assms obtain x xs where h: "h = x # xs" by (cases h) (auto simp: tracks_def)
  let ?d = "if raw = db_candidate d then d\<lparr>db_streak := saturating_inc (db_streak d)\<rparr>
    else d\<lparr>db_candidate := raw, db_streak := 1\<rparr>"
  have run: "leading_run (raw # h) = (if raw = hd h then Suc (leading_run h) else 1)" by (simp add: h)
  have streak: "min 5 (unat (db_streak ?d)) = min 5 (leading_run (raw # h))"
    using assms by (auto simp: tracks_def run min_inc)
  have cand: "db_candidate ?d = raw" by simp
  have stable: "db_stable ?d = Some (settled_level h)" using assms by (simp add: tracks_def)
  have upd: "db_update d raw = (if raw \<noteq> settled_level h \<and> DEBOUNCE_READS \<le> db_streak ?d
      then (raw, ?d\<lparr>db_stable := Some raw\<rparr>) else (settled_level h, ?d))"
    using assms by (cases "raw = db_candidate d") (simp_all add: tracks_def db_update_def Let_def)
  have lvl: "settled_level (raw # h) = (if DEBOUNCE_READS \<le> db_streak ?d then raw else settled_level h)"
    unfolding debounce_streak streak by (simp del: leading_run.simps)
  show ?thesis unfolding upd lvl
    using cand streak stable lvl by (auto simp: tracks_def simp del: leading_run.simps settled_level.simps)
qed

lemma tracks_run: "tracks (history seed reads) (db_run new_debouncer (seed # reads))"
proof (induction reads rule: rev_induct)
  case Nil
  have "replicate 5 seed = [seed, seed, seed, seed, seed]" by (simp add: numeral_eq_Suc)
  then show ?case
    by (simp add: history_def tracks_def new_debouncer_def db_update_def DEBOUNCE_READS_def)
next
  case (snoc r rs)
  from tracks_update [OF snoc, of r] db_run_snoc [of new_debouncer "seed # rs" r]
  show ?case by (simp add: history_def)
qed

text \<open>
  C40. The debounced e-stop follows its reference definition: after the seed read and any further
  reads, the monitor reports the line's last level that was held for five consecutive reads (the
  seed counting as held), and pressed means that level is low. In particular fewer than five
  consecutive reads never change it, and the fifth always does.
\<close>

theorem estop_debounce_reference:
  "fst (estop_pressed (db_run new_debouncer (seed # reads)) raw) = (\<not> settled_level (history seed (reads @ [raw])))
   \<and> fst (estop_pressed new_debouncer seed) = (\<not> seed)"
  using tracks_update [OF tracks_run [of seed reads], of raw]
  by (simp add: estop_pressed_def split_def history_def db_update_def new_debouncer_def)

end
