(* ===== verification/Bus_Types.thy ===== *)
theory Bus_Types
  imports Gripper Exec
begin

text \<open>
  What the runtime and a bus backend exchange: \<open>par6-bus/src/types.rs\<close> and the calls of the
  \<open>DriverBus\<close> trait in \<open>par6-bus/src/bus.rs\<close>.

  A backend is one of several implementations of the trait. The model of a caller records the
  calls that transmit or change the backend, in order, as a list of \<open>bus_call\<close>; what the backend
  answers is an input. The read-back cache of \<open>NodeState\<close>, which only the snapshot carries, and the
  calls and poll actions of commissioning and calibration (ripple tables, captures, configuration
  read-back), which the runtime loop never makes, are left out.
\<close>

section \<open>Numbers\<close>

text \<open>\<open>f64::from(u32)\<close>.\<close>

definition f64_of_nat :: "nat \<Rightarrow> f64" where
  "f64_of_nat n = f64_round False (n * 2 ^ 1074) 1"

text \<open>\<open>x.ceil() as u32\<close> and \<open>x as i64\<close> for a value that is not negative.\<close>

definition f64_ceil_to_nat :: "f64 \<Rightarrow> nat \<Rightarrow> nat" where
  "f64_ceil_to_nat x cap =
     (if is_nan x \<or> f64_neg_sign x then 0
      else if \<not> is_finite x then cap
      else min ((units_of_mag (f64_mag x) + (2 ^ 1074 - 1)) div 2 ^ 1074) cap)"

definition f64_trunc_to_nat :: "f64 \<Rightarrow> nat \<Rightarrow> nat" where
  "f64_trunc_to_nat x cap =
     (if is_nan x \<or> f64_neg_sign x then 0
      else if \<not> is_finite x then cap
      else min (units_of_mag (f64_mag x) div 2 ^ 1074) cap)"

text \<open>\<open>x.round() as i16\<close> and \<open>x as i16\<close>: saturating, NaN to zero.\<close>

definition i16_saturate :: "bool \<Rightarrow> nat \<Rightarrow> i16" where
  "i16_saturate negative m = (if negative then word_of_int (- int (min m 32768)) else word_of_int (int (min m 32767)))"

definition f64_round_i16 :: "f64 \<Rightarrow> i16" where
  "f64_round_i16 x =
     (if is_nan x then 0
      else i16_saturate (f64_neg_sign x) (f64_round_to_nat (f64_abs x) 40000))"

definition f64_trunc_i16 :: "f64 \<Rightarrow> i16" where
  "f64_trunc_i16 x =
     (if is_nan x then 0
      else i16_saturate (f64_neg_sign x) (f64_trunc_to_nat (f64_abs x) 40000))"

text \<open>\<open>x as f32\<close>: rounding to 24 significant bits, in units of \<open>2^-149\<close>.\<close>

definition f32_of_f64 :: "f64 \<Rightarrow> f32" where
  "f32_of_f64 x =
     (let s = (if f64_neg_sign x then 2 ^ 31 else 0)
      in if is_nan x then 0x7FC00000
         else if \<not> is_finite x then of_nat (255 * 2 ^ 23 + s)
         else let u = units_of_mag (f64_mag x); e = floor_log2 (u div 2 ^ 925) - 23
              in of_nat (min (e * 2 ^ 23 + round_half_even u (2 ^ 925 * 2 ^ e)) (255 * 2 ^ 23) + s))"

text \<open>\<open>u32\<close> counters of ticks are naturals; \<open>saturating_add\<close> keeps the bound of the width.\<close>

definition U32_MAX :: nat where "U32_MAX = 2 ^ 32 - 1"

definition sat_add :: "nat \<Rightarrow> nat \<Rightarrow> nat" where
  "sat_add a b = min U32_MAX (a + b)"

definition sat_mul :: "nat \<Rightarrow> nat \<Rightarrow> nat" where
  "sat_mul a b = min U32_MAX (a * b)"

section \<open>Commands\<close>

type_synonym node_id = u8

definition MAX_NODES :: nat where "MAX_NODES = 16"

definition jc_position :: "i32 \<Rightarrow> i32 \<Rightarrow> i16 \<Rightarrow> joint_command" where
  "jc_position p v c = \<lparr>jc_pos = Some p, jc_vel = Some v, jc_cur_ma = Some c, jc_pack = Pack_Pid\<rparr>"

definition jc_velocity :: "i32 \<Rightarrow> i16 \<Rightarrow> joint_command" where
  "jc_velocity v c = \<lparr>jc_pos = None, jc_vel = Some v, jc_cur_ma = Some c, jc_pack = Pack_Pid\<rparr>"

definition jc_current :: "i16 \<Rightarrow> joint_command" where
  "jc_current c = \<lparr>jc_pos = None, jc_vel = None, jc_cur_ma = Some c, jc_pack = Pack_Pid\<rparr>"

definition jc_idle :: joint_command where
  "jc_idle = jc_velocity 0 0"

definition jc_drop_to_idle :: joint_command where
  "jc_drop_to_idle = \<lparr>jc_pos = None, jc_vel = None, jc_cur_ma = None, jc_pack = Pack_Idle\<rparr>"

definition jc_encoder_poll :: joint_command where
  "jc_encoder_poll = \<lparr>jc_pos = None, jc_vel = None, jc_cur_ma = None, jc_pack = Pack_EncoderPoll\<rparr>"

definition jc_hall :: "i32 \<Rightarrow> u8 \<Rightarrow> joint_command" where
  "jc_hall v trigger_value = \<lparr>jc_pos = None, jc_vel = Some v, jc_cur_ma = None, jc_pack = Pack_Hall trigger_value\<rparr>"

section \<open>Decoded state\<close>

datatype fault = Flt_Temperature | Flt_Encoder | Flt_Vbus | Flt_Driver | Flt_Velocity | Flt_Current | Flt_EstopMotor | Flt_Watchdog

record error_flags =
  ef_error :: bool
  ef_temperature :: bool
  ef_encoder :: bool
  ef_vbus :: bool
  ef_driver :: bool
  ef_velocity :: bool
  ef_current :: bool
  ef_estop :: bool
  ef_calibrated :: bool
  ef_activated :: bool
  ef_watchdog :: bool

definition faults :: "error_flags \<Rightarrow> fault list" where
  "faults f = map snd (filter fst
     [(ef_temperature f, Flt_Temperature), (ef_encoder f, Flt_Encoder), (ef_vbus f, Flt_Vbus), (ef_driver f, Flt_Driver),
      (ef_velocity f, Flt_Velocity), (ef_current f, Flt_Current), (ef_estop f, Flt_EstopMotor), (ef_watchdog f, Flt_Watchdog)])"

record device_info =
  di_hw_ver :: u8
  di_batch :: u8
  di_sw_ver :: u8
  di_serial :: i32
  di_tool_id :: u8

record hall_state =
  hs_trigger :: bool
  hs_pin2 :: bool
  hs_edge :: bool

text \<open>The seven configuration frames of a drive, in boot order, and its answers to read requests.\<close>

datatype config_kind = K_Watchdog | K_Limits | K_VoltageLimit | K_PdGains | K_CurrentGains | K_VelocityGains | K_PositionGains

definition CONFIG_ORDER :: "config_kind list" where
  "CONFIG_ORDER = [K_Watchdog, K_Limits, K_VoltageLimit, K_PdGains, K_CurrentGains, K_VelocityGains, K_PositionGains]"

fun config_kind_index :: "config_kind \<Rightarrow> nat" where
  "config_kind_index K_Watchdog = 0"
| "config_kind_index K_Limits = 1"
| "config_kind_index K_VoltageLimit = 2"
| "config_kind_index K_PdGains = 3"
| "config_kind_index K_CurrentGains = 4"
| "config_kind_index K_VelocityGains = 5"
| "config_kind_index K_PositionGains = 6"

datatype readback =
    RB_Watchdog u32 u8
  | RB_Limits f32 f32
  | RB_VoltageLimit u32
  | RB_PdGains f32 f32
  | RB_CurrentGains f32 f32
  | RB_VelocityGains f32 f32
  | RB_PositionGains f32

fun readback_kind :: "readback \<Rightarrow> config_kind" where
  "readback_kind (RB_Watchdog _ _) = K_Watchdog"
| "readback_kind (RB_Limits _ _) = K_Limits"
| "readback_kind (RB_VoltageLimit _) = K_VoltageLimit"
| "readback_kind (RB_PdGains _ _) = K_PdGains"
| "readback_kind (RB_CurrentGains _ _) = K_CurrentGains"
| "readback_kind (RB_VelocityGains _ _) = K_VelocityGains"
| "readback_kind (RB_PositionGains _) = K_PositionGains"

record node_state =
  ns_position_ticks :: "i32 option"
  ns_position_generation :: u64
  ns_speed_ticks_s :: "i32 option"
  ns_current_ma :: "i16 option"
  ns_temperature_c :: "i16 option"
  ns_voltage_mv :: "i16 option"
  ns_error_flags :: "error_flags option"
  ns_kt_nm_a :: "f32 option"
  ns_device_info :: "device_info option"
  ns_combined_telemetry :: bool
  ns_hall :: "hall_state option"
  ns_live_error_bit :: bool
  ns_readback :: "readback option list"
  ns_data_age_ticks :: u64

definition default_node :: node_state where
  "default_node = \<lparr>ns_position_ticks = None, ns_position_generation = 0, ns_speed_ticks_s = None, ns_current_ma = None,
     ns_temperature_c = None, ns_voltage_mv = None, ns_error_flags = None, ns_kt_nm_a = None, ns_device_info = None,
     ns_combined_telemetry = False, ns_hall = None, ns_live_error_bit = False,
     ns_readback = replicate 7 None, ns_data_age_ticks = - 1\<rparr>"

record gripper_state =
  gs_reply :: "gripper_reply option"
  gs_live_error_bit :: bool
  gs_data_age_ticks :: u64

definition default_gripper_state :: gripper_state where
  "default_gripper_state = \<lparr>gs_reply = None, gs_live_error_bit = False, gs_data_age_ticks = - 1\<rparr>"

record bus_state =
  bs_nodes :: "node_state list"
  bs_gripper :: gripper_state
  bs_frames_last_drain :: u32
  bs_frame_age_max_ticks :: u64
  bs_frame_age_min_ticks :: u64
  bs_reconnected_mask :: u16

definition new_bus_state :: bus_state where
  "new_bus_state = \<lparr>bs_nodes = replicate MAX_NODES default_node, bs_gripper = default_gripper_state,
     bs_frames_last_drain = 0, bs_frame_age_max_ticks = 0, bs_frame_age_min_ticks = 0, bs_reconnected_mask = 0\<rparr>"

definition record_position :: "i32 \<Rightarrow> node_state \<Rightarrow> node_state" where
  "record_position p n = n\<lparr>ns_position_ticks := Some p, ns_position_generation := ns_position_generation n + 1\<rparr>"

definition bs_node :: "bus_state \<Rightarrow> node_id \<Rightarrow> node_state" where
  "bs_node s n = bs_nodes s ! unat n"

definition bs_set_node :: "bus_state \<Rightarrow> node_id \<Rightarrow> node_state \<Rightarrow> bus_state" where
  "bs_set_node s n v = s\<lparr>bs_nodes := (bs_nodes s)[unat n := v]\<rparr>"

datatype freshness = Fresh_Unknown | Fresh_Fresh | Fresh_Stale | Fresh_Lost

datatype bus_link_state = Link_Unknown | Link_Up | Link_ErrorPassive | Link_BusOff

record link_health =
  lh_state :: bus_link_state
  lh_restarts :: u32
  lh_bus_off_events :: u32
  lh_tx_errors :: u64
  lh_rx_frames :: u64

record gains =
  ga_kpp :: f64
  ga_kpv :: f64
  ga_kiv :: f64
  ga_kpiq :: f64
  ga_kiiq :: f64
  ga_kp :: f64
  ga_kd :: f64

record drive_tune =
  dt_gains :: gains
  dt_ilim_ma :: f64
  dt_velocity_limit_ticks_s :: f64
  dt_voltage_limit_mv :: u32

datatype poll_kind = Poll_Telemetry | Poll_Temperature | Poll_Voltage | Poll_Errors | Poll_DeviceInfo | Poll_Encoder | Poll_Kt | Poll_Ping

datatype poll_action =
    PA_Poll node_id poll_kind
  | PA_ClearError node_id
  | PA_ResendConfig node_id
  | PA_ConfigFrame node_id config_kind
  | PA_ConfigRead node_id config_kind
  | PA_CaptureRead node_id u8 u16

datatype bus_error = BE_Tx node_id | BE_TxQueueFull | BE_LinkDown | BE_NotConfigured | BE_InvalidCommand string

section \<open>Calls\<close>

datatype bus_call =
    Call_begin_tick u64
  | Call_drain_rx
  | Call_fit_tool
  | Call_send_joint_commands "joint_command list"
  | Call_send_gripper gripper_command
  | Call_poll_step
  | Call_queue_poll_override poll_action nat
  | Call_boot_configure
  | Call_recover_link
  | Call_resend_node_config node_id u8
  | Call_retune_node node_id drive_tune u8
  | Call_set_can_id node_id node_id
  | Call_save_config node_id
  | Call_set_tool_id node_id u8
  | Call_send_limits node_id f32 f32 u8
  | Call_send_clear_error node_id u8
  | Call_set_silent bool
  | Call_clear_lost_latch node_id
  | Call_rebase_freshness

end
