(* ===== verification/Homing.thy ===== *)
theory Homing
  imports Bus_Types Dispatch
begin

text \<open>
  Homing: \<open>par6-rt/src/homing.rs\<close>, the per-joint state machine (\<open>Homer\<close>) and the orchestrator of
  the configured sequence (\<open>HomingSystem\<close>), with the configuration records of
  \<open>par6-config/src/homing.rs\<close> they are built from.

  Tick counters are naturals. The source keeps them in \<open>u32\<close>: additions it writes as saturating
  are saturating here, and the unchecked increments cannot overflow before \<open>2^32\<close> ticks (200 days
  at the shipped rate). Positions are 32 bit words, widened to \<open>int\<close> where the source widens to
  \<open>i64\<close>.
\<close>

section \<open>Constants\<close>

definition REFERENCE_CHECK_S :: f64 where "REFERENCE_CHECK_S = 0x3FE0000000000000"  \<comment> \<open>0.5\<close>
definition SEQUENCE_SLACK_S :: f64 where "SEQUENCE_SLACK_S = 0x3FF0000000000000"  \<comment> \<open>1.0\<close>
definition PRE_POST_TIMEOUT_S :: f64 where "PRE_POST_TIMEOUT_S = 0x4010000000000000"  \<comment> \<open>4.0\<close>
definition MOVE_TO_EXTRA_S :: f64 where "MOVE_TO_EXTRA_S = 0x4000000000000000"  \<comment> \<open>2.0\<close>
definition DWELL_S :: f64 where "DWELL_S = 0x3FB47AE147AE147B"  \<comment> \<open>0.08\<close>
definition PAUSE_S :: f64 where "PAUSE_S = 0x3FC3333333333333"  \<comment> \<open>0.15\<close>
definition SETTLE_S :: f64 where "SETTLE_S = 0x3FB47AE147AE147B"  \<comment> \<open>0.08\<close>
definition RAMP_S :: f64 where "RAMP_S = 0x3FD0000000000000"  \<comment> \<open>0.25\<close>
definition DETECT_WINDOW_S :: f64 where "DETECT_WINDOW_S = 0x3FB47AE147AE147B"  \<comment> \<open>0.08\<close>
definition STARTUP_GUARD_S :: f64 where "STARTUP_GUARD_S = 0x3FC3333333333333"  \<comment> \<open>0.15\<close>
definition PRECLEAR_GUARD_S :: f64 where "PRECLEAR_GUARD_S = 0x3FE0000000000000"  \<comment> \<open>0.5\<close>
definition REHOME_SPEED_FACTOR :: f64 where "REHOME_SPEED_FACTOR = 0x3FD3333333333333"  \<comment> \<open>0.3\<close>
definition CURRENT_RATIO :: f64 where "CURRENT_RATIO = 0x3FE6666666666666"  \<comment> \<open>0.70\<close>
definition CURRENT_WINDOW_FRACTION :: f64 where "CURRENT_WINDOW_FRACTION = 0x3FE3333333333333"  \<comment> \<open>0.6\<close>
definition STALL_DISP_FACTOR :: f64 where "STALL_DISP_FACTOR = 0x3F947AE147AE147B"  \<comment> \<open>0.08 * 0.25\<close>
definition POS_TOL_TICKS :: int where "POS_TOL_TICKS = 50"
definition CAL_TIMEOUT_S :: f64 where "CAL_TIMEOUT_S = 0x4024000000000000"  \<comment> \<open>10.0\<close>
definition CAL_MIN_WAIT_S :: f64 where "CAL_MIN_WAIT_S = 0x4000000000000000"  \<comment> \<open>2.0\<close>
definition LIMIT_REPEATS :: u8 where "LIMIT_REPEATS = 4"
definition HALL_TRIGGER_VALUE :: u8 where "HALL_TRIGGER_VALUE = 2"
definition IDLE_CMD_REPEATS :: nat where "IDLE_CMD_REPEATS = 2"
definition GRIPPER_ENCODER_COUNTS :: f64 where "GRIPPER_ENCODER_COUNTS = 0x40D0000000000000"  \<comment> \<open>16384.0\<close>
definition F64_PI :: f64 where "F64_PI = 0x400921FB54442D18"
definition F64_1_5 :: f64 where "F64_1_5 = 0x3FF8000000000000"
definition F64_10 :: f64 where "F64_10 = 0x4024000000000000"
definition GRIPPER_SLOT :: nat where "GRIPPER_SLOT = MAX_JOINTS"

section \<open>Configuration\<close>

datatype homing_strategy = Strat_Stall | Strat_Hall

record release_config =
  rl_current_ma :: f64
  rl_duration_s :: f64
  rl_sample_pct :: f64

record post_home_config =
  ph_position_rad :: f64
  ph_speed_ticks_s :: f64

record joint_homing =
  jh_strategy :: homing_strategy
  jh_speed_ticks_s :: f64
  jh_direction :: u8
  jh_current_ma :: f64
  jh_timeout_s :: f64
  jh_backoff_s :: f64
  jh_two_pass :: bool
  jh_two_pass_max_diff_ticks :: u32
  jh_release :: "release_config option"
  jh_post_home :: "post_home_config option"
  jh_home_offset_rad :: f64
  jh_home_offset_gripper_dependent :: bool

datatype gripper_home_mode = GH_Motor | GH_Firmware

datatype pre_move =
    PM_Idle nat f64
  | PM_Nudge nat f64 f64
  | PM_Position nat f64 f64
  | PM_GripperMove firmware_gripper_command f64

record move_to_config =
  mt_joint :: nat
  mt_position_rad :: f64
  mt_duration_s :: f64

record home_group =
  hg_joints :: "nat list"
  hg_gripper :: "gripper_home_mode option"

record sequence_step =
  sq_pre_moves :: "pre_move list"
  sq_home :: "home_group option"
  sq_move_to :: "move_to_config list"
  sq_post_moves :: "pre_move list"

record homing_config =
  hc_joints :: "joint_homing list"
  hc_sequence :: "sequence_step list"
  hc_post_moves :: "pre_move list"
  hc_reference_check_nm :: "f64 list"

section \<open>Parameters of one joint\<close>

record release_plan =
  rp_current_ma :: i16
  rp_dur_ticks :: nat
  rp_sample_tick :: nat

record post_plan =
  pp_position_rad :: f64
  pp_speed :: f64

record homer_params =
  hp_node :: node_id
  hp_strategy :: homing_strategy
  hp_speed :: f64
  hp_current_ma :: f64
  hp_timeout_ticks :: nat
  hp_backoff_ticks :: nat
  hp_two_pass :: bool
  hp_max_diff_ticks :: int
  hp_release :: "release_plan option"
  hp_post :: "post_plan option"
  hp_stall_needed :: nat
  hp_startup_guard :: nat
  hp_cur_window :: nat
  hp_cur_needed :: nat
  hp_dwell_ticks :: nat
  hp_pause_ticks :: nat
  hp_ramp_ticks :: nat
  hp_settle_ticks :: nat
  hp_preclear_ticks :: nat
  hp_in_pos_streak :: nat
  hp_pre_post_timeout :: nat
  hp_post_ticks :: nat
  hp_normal_vel_limit :: f32
  hp_normal_ilim :: f32
  hp_dt :: f64

definition ticks_of :: "f64 \<Rightarrow> f64 \<Rightarrow> nat" where
  "ticks_of dt s = f64_round_to_nat (f64_div s dt) U32_MAX"

definition release_plan_of :: "f64 \<Rightarrow> release_config \<Rightarrow> release_plan" where
  "release_plan_of dt r =
     (let dur = max (ticks_of dt (rl_duration_s r)) 1
      in \<lparr>rp_current_ma = f64_trunc_i16 (rl_current_ma r), rp_dur_ticks = dur,
          rp_sample_tick = min dur (max 1 (f64_round_to_nat (f64_mul (f64_of_nat dur) (rl_sample_pct r)) U32_MAX))\<rparr>)"

definition homer_params_from_config ::
  "node_id \<Rightarrow> joint_homing \<Rightarrow> f64 \<Rightarrow> f64 \<Rightarrow> f64 \<Rightarrow> f64 \<Rightarrow> homer_params" where
  "homer_params_from_config node jh seek_timeout_s normal_vel_limit normal_ilim dt =
     (let dir_sign = (if jh_direction jh = 1 then f64_minus_one else f64_one);
          cur_window = max (ticks_of dt DETECT_WINDOW_S) 2;
          stall = (jh_strategy jh = Strat_Stall)
      in \<lparr>hp_node = node, hp_strategy = jh_strategy jh, hp_speed = f64_mul dir_sign (jh_speed_ticks_s jh),
          hp_current_ma = jh_current_ma jh, hp_timeout_ticks = max (ticks_of dt seek_timeout_s) 1,
          hp_backoff_ticks = ticks_of dt (jh_backoff_s jh), hp_two_pass = (jh_two_pass jh \<and> stall),
          hp_max_diff_ticks = uint (jh_two_pass_max_diff_ticks jh),
          hp_release = (if stall then map_option (release_plan_of dt) (jh_release jh) else None),
          hp_post = map_option (\<lambda>p. \<lparr>pp_position_rad = ph_position_rad p, pp_speed = ph_speed_ticks_s p\<rparr>) (jh_post_home jh),
          hp_stall_needed = max (ticks_of dt DETECT_WINDOW_S) 5, hp_startup_guard = ticks_of dt STARTUP_GUARD_S,
          hp_cur_window = cur_window,
          hp_cur_needed = max (f64_ceil_to_nat (f64_mul (f64_of_nat cur_window) CURRENT_WINDOW_FRACTION) U32_MAX) 1,
          hp_dwell_ticks = max (ticks_of dt DWELL_S) 1, hp_pause_ticks = max (ticks_of dt PAUSE_S) 1,
          hp_ramp_ticks = max (ticks_of dt RAMP_S) 1, hp_settle_ticks = max (ticks_of dt SETTLE_S) 1,
          hp_preclear_ticks = ticks_of dt PRECLEAR_GUARD_S, hp_in_pos_streak = max (ticks_of dt DETECT_WINDOW_S) 1,
          hp_pre_post_timeout = max (ticks_of dt PRE_POST_TIMEOUT_S) 1, hp_post_ticks = 0,
          hp_normal_vel_limit = f32_of_f64 normal_vel_limit, hp_normal_ilim = f32_of_f64 normal_ilim, hp_dt = dt\<rparr>)"

section \<open>The per-joint machine\<close>

datatype homing_joint_status = HJ_Idle | HJ_Running | HJ_Done | HJ_Failed

datatype rt_homing_phase =
    RHP_Idle | RHP_Approach | RHP_Dwell | RHP_Backoff | RHP_Pause | RHP_Release | RHP_Settle | RHP_PostMove | RHP_Finished

datatype hphase = H_Approach | H_Preclear | H_Dwell | H_Backoff | H_Pause | H_Release | H_Brake | H_Settle | H_PostMove | H_Finished | H_Failed

datatype homer_event = Ev_Reference i32 | Ev_Failed

record homer =
  ho_phase :: hphase
  ho_failed_in :: hphase
  ho_elapsed :: nat
  ho_pass :: nat
  ho_pass_hits :: "int list"
  ho_latched :: "i32 option"
  ho_ref_pos :: "i32 option"
  ho_still :: nat
  ho_cur_ring :: "bool list"
  ho_cur_idx :: nat
  ho_cur_filled :: nat
  ho_cur_hits :: nat
  ho_started_clear :: bool
  ho_spent :: nat
  ho_post_target_ticks :: i32
  ho_post_streak :: nat
  ho_post_start_ticks :: "i32 option"
  ho_post_dur_ticks :: nat
  ho_post_elapsed :: nat
  ho_hit_current :: f64

definition new_homer :: "homer_params \<Rightarrow> homer" where
  "new_homer p =
     \<lparr>ho_phase = H_Finished, ho_failed_in = H_Finished, ho_elapsed = 0, ho_pass = 1, ho_pass_hits = [0, 0], ho_latched = None,
      ho_ref_pos = None, ho_still = 0, ho_cur_ring = replicate (hp_cur_window p) False, ho_cur_idx = 0, ho_cur_filled = 0,
      ho_cur_hits = 0, ho_started_clear = False, ho_spent = 0, ho_post_target_ticks = 0, ho_post_streak = 0,
      ho_post_start_ticks = None, ho_post_dur_ticks = 0, ho_post_elapsed = 0, ho_hit_current = f64_zero\<rparr>"

definition reset_detectors :: "homer \<Rightarrow> homer" where
  "reset_detectors h = h\<lparr>ho_ref_pos := None, ho_still := 0, ho_cur_ring := replicate (length (ho_cur_ring h)) False,
     ho_cur_idx := 0, ho_cur_filled := 0, ho_cur_hits := 0\<rparr>"

definition homer_start :: "homer \<Rightarrow> homer" where
  "homer_start h = reset_detectors (h\<lparr>ho_phase := H_Approach, ho_elapsed := 0, ho_pass := 1, ho_pass_hits := [0, 0],
     ho_latched := None, ho_started_clear := False, ho_spent := 0, ho_post_streak := 0, ho_post_start_ticks := None,
     ho_post_dur_ticks := 0, ho_post_elapsed := 0\<rparr>)"

definition homer_running :: "homer \<Rightarrow> bool" where
  "homer_running h \<longleftrightarrow> ho_phase h \<notin> {H_Finished, H_Failed}"

definition homer_fail :: "homer \<Rightarrow> homer" where
  "homer_fail h = h\<lparr>ho_failed_in := ho_phase h, ho_phase := H_Failed\<rparr>"

fun phase_name :: "hphase \<Rightarrow> rt_homing_phase" where
  "phase_name H_Approach = RHP_Approach"
| "phase_name H_Preclear = RHP_Backoff"
| "phase_name H_Dwell = RHP_Dwell"
| "phase_name H_Release = RHP_Release"
| "phase_name H_Backoff = RHP_Backoff"
| "phase_name H_Pause = RHP_Pause"
| "phase_name H_Brake = RHP_Settle"
| "phase_name H_Settle = RHP_Settle"
| "phase_name H_PostMove = RHP_PostMove"
| "phase_name H_Finished = RHP_Finished"
| "phase_name H_Failed = RHP_Finished"

definition public_phase :: "homer \<Rightarrow> rt_homing_phase" where
  "public_phase h = phase_name (if ho_phase h = H_Failed then ho_failed_in h else ho_phase h)"

definition approach_speed :: "homer \<Rightarrow> homer_params \<Rightarrow> f64" where
  "approach_speed h p = (if ho_pass h = 2 then f64_mul (hp_speed p) REHOME_SPEED_FACTOR else hp_speed p)"

definition hermite :: "f64 \<Rightarrow> f64 \<Rightarrow> nat \<Rightarrow> nat \<Rightarrow> f64 \<Rightarrow> f64 \<times> f64" where
  "hermite start fin elapsed dur dt =
     (let s = f64_clamp (f64_div (f64_of_nat elapsed) (f64_of_nat (max dur 1))) f64_zero f64_one;
          d = f64_sub fin start;
          span_s = f64_mul (f64_of_nat (max dur 1)) dt
      in (f64_add start (f64_mul d (f64_sub (f64_mul (f64_mul f64_three s) s) (f64_mul (f64_mul (f64_mul f64_two s) s) s))),
          f64_div (f64_mul d (f64_sub (f64_mul f64_six s) (f64_mul (f64_mul f64_six s) s))) span_s))"


text \<open>
  The endstop detector: a plateau of the position against the speed commanded this tick, and the
  share of the current window above the threshold.
\<close>

definition detect_plateau :: "homer \<Rightarrow> homer_params \<Rightarrow> node_state \<Rightarrow> f64 \<Rightarrow> bool \<times> homer" where
  "detect_plateau h p node speed =
     (let disp_ticks = int (f64_trunc_to_nat (f64_max (f64_mul (f64_abs speed) STALL_DISP_FACTOR) F64_10) (2 ^ 63 - 1))
      in case ns_position_ticks node of
           None \<Rightarrow> (False, h)
         | Some pos \<Rightarrow>
             (if (case ho_ref_pos h of Some r \<Rightarrow> \<bar>sint pos - sint r\<bar> < disp_ticks | None \<Rightarrow> False)
              then (hp_stall_needed p \<le> Suc (ho_still h), h\<lparr>ho_still := Suc (ho_still h)\<rparr>)
              else (False, h\<lparr>ho_ref_pos := Some pos, ho_still := 0\<rparr>)))"

definition detect_current :: "homer \<Rightarrow> homer_params \<Rightarrow> node_state \<Rightarrow> bool \<times> homer" where
  "detect_current h p node =
     (if hp_startup_guard p < ho_elapsed h then
        (let above = (case ns_current_ma node of
                        Some c \<Rightarrow> f64_le (f64_mul CURRENT_RATIO (hp_current_ma p)) (f64_abs (f64_of_i32 (scast c)))
                      | None \<Rightarrow> False);
             old = ho_cur_ring h ! ho_cur_idx h;
             (filled, hits) = (if ho_cur_filled h < hp_cur_window p then (Suc (ho_cur_filled h), ho_cur_hits h)
                               else (ho_cur_filled h, if old then ho_cur_hits h - 1 else ho_cur_hits h));
             hits = (if above then Suc hits else hits)
         in (hp_cur_window p \<le> filled \<and> hp_cur_needed p \<le> hits,
             h\<lparr>ho_cur_ring := (ho_cur_ring h)[ho_cur_idx h := above],
               ho_cur_idx := Suc (ho_cur_idx h) mod length (ho_cur_ring h), ho_cur_filled := filled, ho_cur_hits := hits\<rparr>))
      else (False, h))"

definition detect_stall :: "homer \<Rightarrow> homer_params \<Rightarrow> node_state \<Rightarrow> f64 \<Rightarrow> bool \<times> homer" where
  "detect_stall h p node speed =
     (let (stalled, h) = detect_plateau h p node speed; (current_hit, h) = detect_current h p node
      in (stalled \<and> current_hit, h))"

text \<open>One phase each; the result is the command, an event and the new machine.\<close>

type_synonym homer_out = "joint_command \<times> homer_event option \<times> homer"

definition fail_out :: "homer \<Rightarrow> homer_out" where
  "fail_out h = (jc_idle, Some Ev_Failed, homer_fail h)"

definition tick_brake :: "homer \<Rightarrow> homer_params \<Rightarrow> homer_out" where
  "tick_brake h p =
     (let h = h\<lparr>ho_elapsed := Suc (ho_elapsed h)\<rparr>;
          speed = fst (hermite (approach_speed h p) f64_zero (ho_elapsed h) (hp_ramp_ticks p) (hp_dt p))
      in (jc_velocity (trunc_to_wire speed) 0, None,
          if hp_ramp_ticks p \<le> ho_elapsed h then h\<lparr>ho_elapsed := 0, ho_phase := H_Settle\<rparr> else h))"

definition tick_dwell :: "homer \<Rightarrow> homer_params \<Rightarrow> homer_out" where
  "tick_dwell h p =
     (let h = h\<lparr>ho_elapsed := Suc (ho_elapsed h)\<rparr>
      in (jc_idle, None, if hp_dwell_ticks p \<le> ho_elapsed h then h\<lparr>ho_phase := H_Backoff, ho_elapsed := 0\<rparr> else h))"

definition tick_preclear :: "homer \<Rightarrow> homer_params \<Rightarrow> node_state \<Rightarrow> homer_out" where
  "tick_preclear h p node =
     (let h = h\<lparr>ho_elapsed := Suc (ho_elapsed h)\<rparr>
      in if hp_timeout_ticks p < sat_add (ho_spent h) (ho_elapsed h) then fail_out h
         else if (case ns_hall node of Some hl \<Rightarrow> hs_trigger hl \<and> \<not> hs_edge hl | None \<Rightarrow> False)
         then (jc_idle, None, reset_detectors (h\<lparr>ho_spent := sat_add (ho_spent h) (ho_elapsed h), ho_elapsed := 0,
                 ho_started_clear := True, ho_phase := H_Approach\<rparr>))
         else (jc_hall (trunc_to_wire (f64_neg (hp_speed p))) HALL_TRIGGER_VALUE, None, h))"

definition tick_backoff :: "homer \<Rightarrow> homer_params \<Rightarrow> homer_out" where
  "tick_backoff h p =
     (let h = h\<lparr>ho_elapsed := Suc (ho_elapsed h)\<rparr>;
          ramp = max (min (hp_ramp_ticks p) (hp_backoff_ticks p)) 1;
          full = f64_neg (hp_speed p); e = ho_elapsed h;
          speed = (if e \<le> ramp then fst (hermite f64_zero full e ramp (hp_dt p))
                   else if e \<le> hp_backoff_ticks p then full
                   else fst (hermite full f64_zero (e - hp_backoff_ticks p) ramp (hp_dt p)))
      in (jc_velocity (trunc_to_wire speed) 0, None,
          if hp_backoff_ticks p + ramp \<le> e then h\<lparr>ho_elapsed := 0, ho_phase := H_Pause\<rparr> else h))"

definition tick_pause :: "homer \<Rightarrow> homer_params \<Rightarrow> homer_out" where
  "tick_pause h p =
     (let h = h\<lparr>ho_elapsed := Suc (ho_elapsed h)\<rparr>
      in (jc_idle, None,
          if hp_pause_ticks p \<le> ho_elapsed h
          then reset_detectors (h\<lparr>ho_phase := H_Approach, ho_elapsed := 0, ho_pass := 2\<rparr>) else h))"

text \<open>The phase is entered with a release plan only; without one the source panics.\<close>

definition tick_release :: "homer \<Rightarrow> homer_params \<Rightarrow> node_state \<Rightarrow> homer_out" where
  "tick_release h p node =
     (case hp_release p of
        None \<Rightarrow> fail_out h
      | Some r \<Rightarrow>
          (let h = h\<lparr>ho_elapsed := Suc (ho_elapsed h)\<rparr>;
               ramp = hp_ramp_ticks p; e = ho_elapsed h;
               target = f64_of_i32 (scast (rp_current_ma r));
               current = (if e \<le> ramp then fst (hermite (ho_hit_current h) target e ramp (hp_dt p))
                          else if e \<le> ramp + rp_dur_ticks r then target
                          else fst (hermite target f64_zero (e - ramp - rp_dur_ticks r) ramp (hp_dt p)));
               h = (if e = ramp + rp_sample_tick r
                    then (case ns_position_ticks node of Some pos \<Rightarrow> h\<lparr>ho_latched := Some pos\<rparr> | None \<Rightarrow> h) else h)
           in (jc_current (f64_round_i16 current), None,
               if 2 * ramp + rp_dur_ticks r \<le> e then h\<lparr>ho_phase := H_Settle, ho_elapsed := 0\<rparr> else h)))"

definition tick_settle :: "homer \<Rightarrow> homer_params \<Rightarrow> node_state \<Rightarrow> homer_out" where
  "tick_settle h p node =
     (let h = h\<lparr>ho_elapsed := Suc (ho_elapsed h)\<rparr>;
          h = (if ho_latched h = None then h\<lparr>ho_latched := ns_position_ticks node\<rparr> else h)
      in if hp_settle_ticks p \<le> ho_elapsed h then
           (case ho_latched h of
              None \<Rightarrow> (if ho_elapsed h < 2 * hp_settle_ticks p then (jc_idle, None, h) else fail_out h)
            | Some latched \<Rightarrow>
                (if hp_two_pass p \<and> hp_max_diff_ticks p < \<bar>ho_pass_hits h ! 1 - ho_pass_hits h ! 0\<bar> then fail_out h
                 else (jc_idle, Some (Ev_Reference latched),
                       h\<lparr>ho_phase := (if hp_post p = None then H_Finished else H_PostMove), ho_elapsed := 0\<rparr>)))
         else (jc_idle, None, h))"

definition post_begin :: "homer \<Rightarrow> homer_params \<Rightarrow> post_plan \<Rightarrow> node_state \<Rightarrow> homer" where
  "post_begin h p post node =
     (if ho_post_start_ticks h = None then
        (case ns_position_ticks node of
           None \<Rightarrow> h
         | Some start \<Rightarrow>
             (let d = f64_abs (f64_of_i32 (ho_post_target_ticks h - start));
                  speed = f64_max (f64_abs (pp_speed post)) f64_one
              in h\<lparr>ho_post_start_ticks := Some start,
                   ho_post_dur_ticks := max (f64_ceil_to_nat (f64_div (f64_div (f64_mul F64_1_5 d) speed) (hp_dt p)) U32_MAX) 1\<rparr>))
      else h)"

definition in_position :: "node_state \<Rightarrow> i32 \<Rightarrow> bool" where
  "in_position node target =
     (case ns_position_ticks node of Some pos \<Rightarrow> \<bar>sint pos - sint target\<bar> \<le> POS_TOL_TICKS | None \<Rightarrow> False)"

definition tick_post_move :: "homer \<Rightarrow> homer_params \<Rightarrow> node_state \<Rightarrow> homer_out" where
  "tick_post_move h p node =
     (case hp_post p of
        None \<Rightarrow> fail_out h
      | Some post \<Rightarrow>
          (let h = post_begin (h\<lparr>ho_elapsed := Suc (ho_elapsed h)\<rparr>) p post node;
               (cmd, h) = (case ho_post_start_ticks h of
                  Some start \<Rightarrow>
                    (let e = Suc (ho_post_elapsed h);
                         (pos, vel) = hermite (f64_of_i32 start) (f64_of_i32 (ho_post_target_ticks h)) e (ho_post_dur_ticks h) (hp_dt p)
                     in (jc_position (trunc_to_wire pos) (trunc_to_wire vel) 0, h\<lparr>ho_post_elapsed := e\<rparr>))
                | None \<Rightarrow> (jc_idle, h));
               h = h\<lparr>ho_post_streak := (if in_position node (ho_post_target_ticks h) then Suc (ho_post_streak h) else 0)\<rparr>
           in if ho_post_dur_ticks h \<le> ho_post_elapsed h \<and> hp_in_pos_streak p \<le> ho_post_streak h
              then (cmd, None, h\<lparr>ho_phase := H_Finished\<rparr>)
              else if sat_add (ho_post_dur_ticks h) (hp_pre_post_timeout p) < ho_elapsed h then fail_out h
              else (cmd, None, h)))"

text \<open>The phases other than the approach, which itself ends in one of them on the tick of the hit.\<close>

definition homer_tick_rest :: "homer \<Rightarrow> homer_params \<Rightarrow> node_state \<Rightarrow> homer_out" where
  "homer_tick_rest h p node =
     (case ho_phase h of
        H_Brake \<Rightarrow> tick_brake h p | H_Dwell \<Rightarrow> tick_dwell h p | H_Preclear \<Rightarrow> tick_preclear h p node
      | H_Backoff \<Rightarrow> tick_backoff h p | H_Pause \<Rightarrow> tick_pause h p | H_Release \<Rightarrow> tick_release h p node
      | H_Settle \<Rightarrow> tick_settle h p node | H_PostMove \<Rightarrow> tick_post_move h p node
      | _ \<Rightarrow> (jc_idle, None, h))"

definition approach_hit :: "homer \<Rightarrow> homer_params \<Rightarrow> node_state \<Rightarrow> homer" where
  "approach_hit h p node =
     (let hit_pos = (case ns_position_ticks node of Some pos \<Rightarrow> sint pos | None \<Rightarrow> 0); h = h\<lparr>ho_elapsed := 0\<rparr>
      in case hp_strategy p of
           Strat_Hall \<Rightarrow> h\<lparr>ho_latched := ns_position_ticks node, ho_phase := H_Brake\<rparr>
         | Strat_Stall \<Rightarrow>
             h\<lparr>ho_pass_hits := (ho_pass_hits h)[ho_pass h - 1 := hit_pos],
               ho_hit_current := f64_of_i32 (scast (case ns_current_ma node of Some c \<Rightarrow> c | None \<Rightarrow> 0)),
               ho_phase := (if ho_pass h = 1 \<and> hp_two_pass p then H_Dwell
                            else if hp_release p \<noteq> None then H_Release else H_Settle)\<rparr>)"

definition homer_tick :: "homer \<Rightarrow> homer_params \<Rightarrow> node_state \<Rightarrow> homer_out \<times> node_state" where
  "homer_tick h p node =
     (if ho_phase h = H_Approach then
        (let h = h\<lparr>ho_elapsed := Suc (ho_elapsed h)\<rparr> in
         if hp_timeout_ticks p < sat_add (ho_spent h) (ho_elapsed h) then (fail_out h, node)
         else
           (let node = (if ho_elapsed h = 1 then node\<lparr>ns_hall := None\<rparr> else node);
                speed = approach_speed h p;
                (cmd, hit, h) =
                  (case hp_strategy p of
                     Strat_Stall \<Rightarrow> (let (hit, h) = detect_stall h p node speed in (jc_velocity (trunc_to_wire speed) 0, hit, h))
                   | Strat_Hall \<Rightarrow> (jc_hall (trunc_to_wire speed) HALL_TRIGGER_VALUE,
                       (case ns_hall node of Some hl \<Rightarrow> \<not> hs_trigger hl \<or> hs_edge hl | None \<Rightarrow> False), h))
            in if \<not> hit then ((cmd, None, h), node)
               else if hp_strategy p = Strat_Hall \<and> ho_elapsed h \<le> hp_preclear_ticks p \<and> \<not> ho_started_clear h
               then ((jc_idle, None, h\<lparr>ho_spent := sat_add (ho_spent h) (ho_elapsed h), ho_elapsed := 0, ho_phase := H_Preclear\<rparr>),
                     node\<lparr>ns_hall := None\<rparr>)
               else (homer_tick_rest (approach_hit h p node) p node, node)))
      else (homer_tick_rest h p node, node))"

end
