(* ===== verification/Homing_Sequence.thy ===== *)
theory Homing_Sequence
  imports Homing Error_Latch
begin

text \<open>
  The orchestrator of the homing sequence: \<open>HomingSystem\<close> of \<open>par6-rt/src/homing.rs\<close>, and the seek
  budget of \<open>par6-config/src/homing.rs\<close>.
\<close>

section \<open>Plans\<close>

record move_state =
  ms_spec :: pre_move
  ms_dur_ticks :: nat
  ms_elapsed :: nat
  ms_done :: bool
  ms_start_ticks :: "i32 option"

record move_to_state =
  mv_joint :: nat
  mv_position_rad :: f64
  mv_dur_ticks :: nat
  mv_timeout_ticks :: nat
  mv_elapsed :: nat
  mv_done :: bool
  mv_start_ticks :: "i32 option"
  mv_target_ticks :: i32
  mv_streak :: nat

record step_plan =
  sp_pre :: "move_state list"
  sp_home_joints :: "bool list"
  sp_home_gripper :: "gripper_home_mode option"
  sp_move_to :: "move_to_state list"
  sp_post :: "move_state list"

datatype part = Part_Pre | Part_HomeStart | Part_Home | Part_MoveTo | Part_Post | Part_GlobalPost

record cal_run =
  cr_sent :: bool
  cr_elapsed :: nat

fun pre_move_duration :: "pre_move \<Rightarrow> f64" where
  "pre_move_duration (PM_Idle joint d) = d"
| "pre_move_duration (PM_Nudge joint speed d) = d"
| "pre_move_duration (PM_Position joint pos d) = d"
| "pre_move_duration (PM_GripperMove cmd d) = d"

definition plan_move :: "f64 \<Rightarrow> pre_move \<Rightarrow> move_state" where
  "plan_move dt m = \<lparr>ms_spec = m, ms_dur_ticks = max (ticks_of dt (pre_move_duration m)) 1, ms_elapsed = 0, ms_done = False,
     ms_start_ticks = None\<rparr>"

definition plan_move_to :: "f64 \<Rightarrow> move_to_config \<Rightarrow> move_to_state" where
  "plan_move_to dt m = \<lparr>mv_joint = mt_joint m, mv_position_rad = mt_position_rad m,
     mv_dur_ticks = max (ticks_of dt (mt_duration_s m)) 1, mv_timeout_ticks = ticks_of dt (f64_add (mt_duration_s m) MOVE_TO_EXTRA_S),
     mv_elapsed = 0, mv_done = False, mv_start_ticks = None, mv_target_ticks = 0, mv_streak = 0\<rparr>"

definition plan_step :: "f64 \<Rightarrow> sequence_step \<Rightarrow> step_plan" where
  "plan_step dt s =
     \<lparr>sp_pre = map (plan_move dt) (sq_pre_moves s),
      sp_home_joints = map (\<lambda>j. case sq_home s of Some h \<Rightarrow> j \<in> set (hg_joints h) | None \<Rightarrow> False) joints,
      sp_home_gripper = (case sq_home s of Some h \<Rightarrow> hg_gripper h | None \<Rightarrow> None),
      sp_move_to = map (plan_move_to dt) (sq_move_to s),
      sp_post = map (plan_move dt) (sq_post_moves s)\<rparr>"

definition plan_sequence :: "homing_config \<Rightarrow> f64 \<Rightarrow> step_plan list \<times> move_state list" where
  "plan_sequence homing dt = (map (plan_step dt) (hc_sequence homing), map (plan_move dt) (hc_post_moves homing))"

section \<open>The system\<close>

record homing_system =
  hy_dt :: f64
  hy_params :: "homer_params list"
  hy_gripper_homer_started :: bool
  hy_gripper_params :: "homer_params option"
  hy_homers :: "homer list"
  hy_steps :: "step_plan list"
  hy_global_post :: "move_state list"
  hy_eff_offset :: "f64 list"
  hy_node_of :: "node_id list"
  hy_gripper_node :: node_id
  hy_has_can_gripper :: bool
  hy_gripper_gear_r_m :: f64
  hy_cal_timeout :: nat
  hy_cal_min_wait :: nat
  hy_active :: bool
  hy_elapsed_ticks :: nat
  hy_sequence_timeout_ticks :: nat
  hy_step_idx :: nat
  hy_part :: part
  hy_statuses :: "homing_joint_status list"
  hy_seeking_limits :: "bool list"
  hy_last_fw_cmd :: "firmware_gripper_command option"
  hy_cal :: "cal_run option"
  hy_cal_failed :: bool
  hy_endstop_ticks :: "i32 option"
  hy_ticks_per_meter :: "f64 option"
  hy_check_ticks :: nat
  hy_check_left :: nat

text \<open>What the parameters of an arm joint read of its \<open>JointConfig\<close>.\<close>

record joint_config =
  jg_node_id :: node_id
  jg_encoder_bits :: nat
  jg_gear_ratio :: f64
  jg_hard_min_rad :: f64
  jg_hard_max_rad :: f64
  jg_velocity_limit_ticks_s :: f64
  jg_ilim_ma :: f64

definition SEEK_MARGIN :: f64 where "SEEK_MARGIN = 0x3FF4000000000000"  \<comment> \<open>1.25\<close>

definition config_ticks_per_rad :: "joint_config \<Rightarrow> f64" where
  "config_ticks_per_rad j = f64_mul (f64_div (f64_of_nat (2 ^ jg_encoder_bits j)) TWO_PI) (jg_gear_ratio j)"

definition seek_timeout_s :: "joint_homing \<Rightarrow> joint_config \<Rightarrow> f64" where
  "seek_timeout_s jh j =
     (let span_ticks = f64_mul (f64_sub (jg_hard_max_rad j) (jg_hard_min_rad j)) (config_ticks_per_rad j)
      in f64_max (jh_timeout_s jh) (f64_mul (f64_div span_ticks (jh_speed_ticks_s jh)) SEEK_MARGIN))"

definition joint_params :: "f64 \<Rightarrow> joint_config \<Rightarrow> joint_homing \<Rightarrow> homer_params" where
  "joint_params dt j jh =
     (let p = homer_params_from_config (jg_node_id j) jh (seek_timeout_s jh j) (jg_velocity_limit_ticks_s j) (jg_ilim_ma j) dt
      in case jh_post_home jh of
           None \<Rightarrow> p
         | Some post \<Rightarrow>
             (let range = f64_mul (f64_sub (jg_hard_max_rad j) (jg_hard_min_rad j)) (config_ticks_per_rad j)
              in p\<lparr>hp_post_ticks := f64_ceil_to_nat (f64_div (f64_div (f64_mul F64_1_5 range)
                     (f64_max (f64_abs (ph_speed_ticks_s post)) f64_one)) dt) U32_MAX\<rparr>))"

text \<open>The whole-sequence deadline.\<close>

definition moves_budget :: "nat \<Rightarrow> move_state list \<Rightarrow> nat" where
  "moves_budget pre_post ms = foldl sat_add 0 (map (\<lambda>m. sat_add (ms_dur_ticks m) pre_post) ms)"

definition homer_budget :: "homer_params \<Rightarrow> nat" where
  "homer_budget p = foldl sat_add 0
     [hp_timeout_ticks p, hp_backoff_ticks p, sat_mul (hp_ramp_ticks p) 4, hp_dwell_ticks p, hp_pause_ticks p, hp_settle_ticks p,
      (case hp_release p of Some r \<Rightarrow> rp_dur_ticks r | None \<Rightarrow> 0), hp_post_ticks p, hp_pre_post_timeout p]"

definition step_budget :: "homing_system \<Rightarrow> nat \<Rightarrow> step_plan \<Rightarrow> nat list" where
  "step_budget y pre_post step =
     (let home = foldl max 0 (map (\<lambda>j. homer_budget (hy_params y ! j)) (filter (\<lambda>j. sp_home_joints step ! j) joints));
          gripper = (case sp_home_gripper step of
                       Some GH_Motor \<Rightarrow> (case hy_gripper_params y of Some p \<Rightarrow> homer_budget p | None \<Rightarrow> 0)
                     | Some GH_Firmware \<Rightarrow> hy_cal_timeout y
                     | None \<Rightarrow> 0)
      in [moves_budget pre_post (sp_pre step), max home gripper,
          foldl sat_add 0 (map mv_timeout_ticks (sp_move_to step)), moves_budget pre_post (sp_post step)])"

definition sequence_budget_ticks :: "homing_system \<Rightarrow> nat" where
  "sequence_budget_ticks y =
     (let pre_post = ticks_of (hy_dt y) PRE_POST_TIMEOUT_S;
          total = sat_add (moves_budget pre_post (hy_global_post y)) (hy_check_ticks y)
      in sat_add (foldl (\<lambda>t step. foldl sat_add t (step_budget y pre_post step)) total (hy_steps y))
           (ticks_of (hy_dt y) SEQUENCE_SLACK_S))"

text \<open>
  \<open>new\<close> on what it reads of the configuration: the arm joints, their homing parameters, the
  sequence planned for the fitted tool, the gripper's parameters and geometry.
\<close>

definition new_homing_system ::
  "f64 \<Rightarrow> joint_config list \<Rightarrow> joint_homing list \<Rightarrow> homing_config \<Rightarrow> homer_params option \<Rightarrow> bool \<Rightarrow> f64 \<Rightarrow> f64 list \<Rightarrow> node_id
   \<Rightarrow> homing_system" where
  "new_homing_system dt js jhs homing gripper_params has_can_gripper gear_r_m eff_offset gripper_node =
     (let params = map2 (joint_params dt) js jhs;
          (steps, global_post) = plan_sequence homing dt;
          y = \<lparr>hy_dt = dt, hy_params = params, hy_gripper_homer_started = False, hy_gripper_params = gripper_params,
               hy_homers = map new_homer params @ [new_homer (case gripper_params of Some p \<Rightarrow> p | None \<Rightarrow> params ! 0)],
               hy_steps = steps, hy_global_post = global_post, hy_eff_offset = eff_offset, hy_node_of = map jg_node_id js,
               hy_gripper_node = gripper_node, hy_has_can_gripper = has_can_gripper, hy_gripper_gear_r_m = gear_r_m,
               hy_cal_timeout = max (ticks_of dt CAL_TIMEOUT_S) 1, hy_cal_min_wait = ticks_of dt CAL_MIN_WAIT_S,
               hy_active = False, hy_elapsed_ticks = 0, hy_sequence_timeout_ticks = 1, hy_step_idx = 0, hy_part = Part_Pre,
               hy_statuses = replicate NUM_NODES HJ_Idle, hy_seeking_limits = replicate NUM_NODES False, hy_last_fw_cmd = None,
               hy_cal = None, hy_cal_failed = False, hy_endstop_ticks = None, hy_ticks_per_meter = None,
               hy_check_ticks = (if hc_reference_check_nm homing = [] then 0 else max (ticks_of dt REFERENCE_CHECK_S) 1),
               hy_check_left = 0\<rparr>
      in y\<lparr>hy_sequence_timeout_ticks := sequence_budget_ticks y\<rparr>)"

definition hy_set_home_offset :: "homing_system \<Rightarrow> nat \<Rightarrow> f64 \<Rightarrow> homing_system" where
  "hy_set_home_offset y joint offset_rad = y\<lparr>hy_eff_offset := (hy_eff_offset y)[joint := offset_rad]\<rparr>"

definition fail_reference :: "homing_system \<Rightarrow> nat \<Rightarrow> homing_system" where
  "fail_reference y joint = y\<lparr>hy_statuses := (hy_statuses y)[joint := HJ_Failed]\<rparr>"

definition hy_retune :: "homing_system \<Rightarrow> node_id \<Rightarrow> drive_tune \<Rightarrow> homing_system" where
  "hy_retune y node tune = y\<lparr>hy_params := map (\<lambda>p. if hp_node p = node
     then p\<lparr>hp_normal_vel_limit := f32_of_f64 (dt_velocity_limit_ticks_s tune), hp_normal_ilim := f32_of_f64 (dt_ilim_ma tune)\<rparr>
     else p) (hy_params y)\<rparr>"

definition clear_faults :: "homing_system \<Rightarrow> homing_system" where
  "clear_faults y = y\<lparr>hy_cal_failed := False\<rparr>"

definition gripper_reference :: "homing_system \<Rightarrow> i32 option \<times> f64 option" where
  "gripper_reference y = (hy_endstop_ticks y, hy_ticks_per_meter y)"

definition all_params :: "homing_system \<Rightarrow> homer_params list" where
  "all_params y = hy_params y @ (case hy_gripper_params y of Some p \<Rightarrow> [p] | None \<Rightarrow> [])"

definition reset_move :: "move_state \<Rightarrow> move_state" where
  "reset_move m = m\<lparr>ms_elapsed := 0, ms_done := False, ms_start_ticks := None\<rparr>"

definition reset_step_states :: "homing_system \<Rightarrow> nat \<Rightarrow> homing_system" where
  "reset_step_states y idx =
     (if idx < length (hy_steps y) then
        (let step = hy_steps y ! idx
         in y\<lparr>hy_steps := (hy_steps y)[idx := step\<lparr>sp_pre := map reset_move (sp_pre step), sp_post := map reset_move (sp_post step),
              sp_move_to := map (\<lambda>m. m\<lparr>mv_elapsed := 0, mv_done := False, mv_start_ticks := None, mv_streak := 0\<rparr>) (sp_move_to step)\<rparr>]\<rparr>)
      else y)"

definition homing_start :: "homing_system \<Rightarrow> homing_system \<times> bus_call list" where
  "homing_start y =
     (let y = y\<lparr>hy_active := True, hy_elapsed_ticks := 0, hy_step_idx := 0, hy_part := Part_Pre,
            hy_statuses := replicate NUM_NODES HJ_Idle, hy_cal := None, hy_cal_failed := False, hy_last_fw_cmd := None,
            hy_gripper_homer_started := False, hy_check_left := hy_check_ticks y,
            hy_homers := map (\<lambda>h. h\<lparr>ho_phase := H_Finished\<rparr>) (hy_homers y)\<rparr>;
          y = (reset_step_states y 0)\<lparr>hy_seeking_limits := replicate NUM_NODES False\<rparr>
      in (y, map (\<lambda>p. Call_send_limits (hp_node p) (hp_normal_vel_limit p) (hp_normal_ilim p) LIMIT_REPEATS) (all_params y)))"

definition restore_all :: "homing_system \<Rightarrow> bus_call list" where
  "restore_all y = map (\<lambda>p. Call_resend_node_config (hp_node p) 1) (hy_params y)
     @ (if hy_has_can_gripper y then [Call_resend_node_config (hy_gripper_node y) 1] else [])"

definition homing_abort :: "homing_system \<Rightarrow> homing_system \<times> bus_call list" where
  "homing_abort y =
     (if \<not> hy_active y then (y, [])
      else (y\<lparr>hy_active := False, hy_statuses := replicate NUM_NODES HJ_Idle, hy_cal := None\<rparr>, restore_all y))"

text \<open>\<open>set_gripper\<close> on the fitted tool's homing parameters, its plan and its geometry.\<close>

definition hy_set_gripper :: "homing_system \<Rightarrow> homer_params option \<Rightarrow> bool \<Rightarrow> f64 \<Rightarrow> homing_config \<Rightarrow> f64 \<Rightarrow> homing_system" where
  "hy_set_gripper y gripper_params has_driver gear_r_m homing dt =
     (let (steps, global_post) = plan_sequence homing dt;
          y = y\<lparr>hy_has_can_gripper := has_driver, hy_gripper_gear_r_m := (if has_driver then gear_r_m else f64_zero),
            hy_gripper_params := gripper_params,
            hy_homers := (hy_homers y)[GRIPPER_SLOT := new_homer (case gripper_params of Some p \<Rightarrow> p | None \<Rightarrow> hy_params y ! 0)],
            hy_endstop_ticks := None, hy_ticks_per_meter := None, hy_statuses := (hy_statuses y)[GRIPPER_SLOT := HJ_Idle],
            hy_steps := steps, hy_global_post := global_post\<rparr>
      in y\<lparr>hy_sequence_timeout_ticks := sequence_budget_ticks y\<rparr>)"

record homing_status =
  hq_active :: bool
  hq_sequence_step :: nat
  hq_per_joint :: "homing_joint_status list"
  hq_phase :: "rt_homing_phase list"
  hq_effective_current_limit_ma :: "f32 list"

definition homing_status_of :: "homing_system \<Rightarrow> homing_status" where
  "homing_status_of y =
     (let eff = (\<lambda>i p. if hy_active y \<and> hy_seeking_limits y ! i then f32_of_f64 (hp_current_ma p) else hp_normal_ilim p)
      in \<lparr>hq_active = hy_active y, hq_sequence_step = min (hy_step_idx y) 255, hq_per_joint = hy_statuses y,
          hq_phase = map (\<lambda>i. if i = GRIPPER_SLOT \<and> \<not> hy_gripper_homer_started y \<or> hy_statuses y ! i = HJ_Idle then RHP_Idle
             else public_phase (hy_homers y ! i)) [0..<NUM_NODES],
          hq_effective_current_limit_ma = map (\<lambda>i. eff i (hy_params y ! i)) joints
            @ [case hy_gripper_params y of Some p \<Rightarrow> eff GRIPPER_SLOT p | None \<Rightarrow> 0]\<rparr>)"


section \<open>Limits of the phase\<close>

definition mark_moves :: "move_state list \<Rightarrow> bool list \<Rightarrow> bool list" where
  "mark_moves ms seeking = foldl (\<lambda>sk m. if ms_done m then sk else
     (case ms_spec m of PM_Nudge joint _ _ \<Rightarrow> sk[joint := True] | PM_Position joint _ _ \<Rightarrow> sk[joint := True] | _ \<Rightarrow> sk)) seeking ms"

definition seeking_wanted :: "homing_system \<Rightarrow> bool list" where
  "seeking_wanted y =
     (let none = replicate NUM_NODES False
      in if hy_step_idx y < length (hy_steps y) then
           (let step = hy_steps y ! hy_step_idx y in
            case hy_part y of
              Part_Pre \<Rightarrow> mark_moves (sp_pre step) none
            | Part_Post \<Rightarrow> mark_moves (sp_post step) none
            | Part_GlobalPost \<Rightarrow> mark_moves (hy_global_post y) none
            | Part_MoveTo \<Rightarrow> foldl (\<lambda>sk m. if mv_done m then sk else sk[mv_joint m := True]) none (sp_move_to step)
            | _ \<Rightarrow> sp_home_joints step @ [sp_home_gripper step \<noteq> None])
         else mark_moves (hy_global_post y) none)"

definition apply_phase_limits :: "homing_system \<Rightarrow> homing_system \<times> bus_call list" where
  "apply_phase_limits y =
     (let wanted = seeking_wanted y in
      foldl (\<lambda>(y, calls) (i, p).
         let seeking = wanted ! i \<and> hy_statuses y ! i \<noteq> HJ_Done
         in if seeking \<noteq> hy_seeking_limits y ! i
            then (y\<lparr>hy_seeking_limits := (hy_seeking_limits y)[i := seeking]\<rparr>,
                  calls @ [Call_send_limits (hp_node p) (hp_normal_vel_limit p)
                     (if seeking then f32_of_f64 (hp_current_ma p) else hp_normal_ilim p) LIMIT_REPEATS])
            else (y, calls)) (y, []) (enumerate 0 (all_params y)))"

section \<open>Moves\<close>

text \<open>
  What the parts of a tick write besides the system itself: the command of each joint, the
  gripper slot, and for the home part the decoded state, the conversions and the bus calls.
\<close>

record homing_io =
  hi_state :: bus_state
  hi_conv :: "joint_conversion list"
  hi_cmds :: "joint_command list"
  hi_gcmd :: gripper_command
  hi_calls :: "bus_call list"

definition set_cmd :: "homing_io \<Rightarrow> nat \<Rightarrow> joint_command \<Rightarrow> homing_io" where
  "set_cmd o1 j c = o1\<lparr>hi_cmds := (hi_cmds o1)[j := c]\<rparr>"

text \<open>\<open>Err(j)\<close> of \<open>tick_move\<close> is \<open>Inl j\<close>.\<close>

definition tick_seq_move ::
  "homing_system \<Rightarrow> move_state \<Rightarrow> homing_io \<Rightarrow> (nat + bool) \<times> move_state \<times> homing_io \<times> homing_system" where
  "tick_seq_move y m o1 =
     (if ms_done m then (Inr True, m, o1, y)
      else
        (let e = Suc (ms_elapsed m); m = m\<lparr>ms_elapsed := e\<rparr>; fin = (ms_dur_ticks m \<le> e) in
         case ms_spec m of
           PM_Idle joint _ \<Rightarrow>
             (Inr fin, m\<lparr>ms_done := fin\<rparr>, set_cmd o1 joint (if e \<le> IDLE_CMD_REPEATS then jc_drop_to_idle else jc_encoder_poll), y)
         | PM_Nudge joint speed_ticks_s _ \<Rightarrow>
             (Inr fin, m\<lparr>ms_done := fin\<rparr>,
              if e \<le> ms_dur_ticks m then set_cmd o1 joint (jc_velocity (trunc_to_wire speed_ticks_s) 0) else o1, y)
         | PM_Position joint position_rad _ \<Rightarrow>
             (let node = bs_node (hi_state o1) (hy_node_of y ! joint);
                  m = (if ms_start_ticks m = None then m\<lparr>ms_start_ticks := ns_position_ticks node\<rparr> else m);
                  target = motor_ticks (hi_conv o1 ! joint) position_rad;
                  (m, o1) = (case ms_start_ticks m of
                     Some start \<Rightarrow>
                       (let (pos, vel) = hermite (f64_of_i32 start) (f64_of_i32 target) e (ms_dur_ticks m) (hy_dt y)
                        in (m\<lparr>ms_done := (fin \<and> in_position node target)\<rparr>,
                            set_cmd o1 joint (jc_position (trunc_to_wire pos) (trunc_to_wire vel) 0)))
                   | None \<Rightarrow> (m, o1))
              in if \<not> ms_done m \<and> sat_add (ms_dur_ticks m) (hp_pre_post_timeout (hy_params y ! 0)) < e
                 then (Inl joint, m, o1, y) else (Inr (ms_done m), m, o1, y))
         | PM_GripperMove cmd _ \<Rightarrow>
             (Inr fin, m\<lparr>ms_done := fin\<rparr>, o1\<lparr>hi_gcmd := GC_Firmware cmd\<rparr>, y\<lparr>hy_last_fw_cmd := Some cmd\<rparr>)))"

text \<open>The loop over the moves of a part: whether all are done, and whether one failed.\<close>

fun run_moves ::
  "move_state list \<Rightarrow> homing_io \<Rightarrow> homing_system \<Rightarrow> bool \<Rightarrow> bool \<Rightarrow> move_state list \<times> bool \<times> bool \<times> homing_io \<times> homing_system" where
  "run_moves [] o1 y all_done failed = ([], all_done, failed, o1, y)"
| "run_moves (m # ms) o1 y all_done failed =
     (let (r, m, o1, y) = tick_seq_move y m o1;
          (all_done, failed, y) = (case r of
             Inr d \<Rightarrow> (all_done \<and> d, failed, y)
           | Inl j \<Rightarrow> (all_done, True, y\<lparr>hy_statuses := (hy_statuses y)[j := HJ_Failed]\<rparr>));
          (ms, all_done, failed, o1, y) = run_moves ms o1 y all_done failed
      in (m # ms, all_done, failed, o1, y))"

definition tick_move_to :: "homing_system \<Rightarrow> move_to_state \<Rightarrow> homing_io \<Rightarrow> bool option \<times> move_to_state \<times> homing_io" where
  "tick_move_to y m o1 =
     (if mv_done m then (Some True, m, o1)
      else
        (let e = Suc (mv_elapsed m); m = m\<lparr>mv_elapsed := e\<rparr>; j = mv_joint m;
             node = bs_node (hi_state o1) (hy_node_of y ! j);
             m = (if mv_start_ticks m = None
                  then m\<lparr>mv_start_ticks := ns_position_ticks node, mv_target_ticks := motor_ticks (hi_conv o1 ! j) (mv_position_rad m)\<rparr> else m);
             (m, o1) = (case mv_start_ticks m of
                Some start \<Rightarrow>
                  (let (pos, vel) = hermite (f64_of_i32 start) (f64_of_i32 (mv_target_ticks m)) e (mv_dur_ticks m) (hy_dt y);
                       streak = (if in_position node (mv_target_ticks m) then Suc (mv_streak m) else 0)
                   in (m\<lparr>mv_streak := streak, mv_done := (mv_dur_ticks m \<le> e \<and> hp_in_pos_streak (hy_params y ! j) \<le> streak)\<rparr>,
                       set_cmd o1 j (jc_position (trunc_to_wire pos) (trunc_to_wire vel) 0)))
              | None \<Rightarrow> (m, o1))
         in if \<not> mv_done m \<and> mv_timeout_ticks m < e then (None, m, o1) else (Some (mv_done m), m, o1)))"

fun run_move_tos ::
  "move_to_state list \<Rightarrow> homing_io \<Rightarrow> homing_system \<Rightarrow> bool \<Rightarrow> bool \<Rightarrow> move_to_state list \<times> bool \<times> bool \<times> homing_io \<times> homing_system" where
  "run_move_tos [] o1 y all_done failed = ([], all_done, failed, o1, y)"
| "run_move_tos (m # ms) o1 y all_done failed =
     (let (r, m, o1) = tick_move_to y m o1;
          (all_done, failed, y) = (case r of
             Some d \<Rightarrow> (all_done \<and> d, failed, y)
           | None \<Rightarrow> (all_done, True, y\<lparr>hy_statuses := (hy_statuses y)[mv_joint m := HJ_Failed]\<rparr>));
          (ms, all_done, failed, o1, y) = run_move_tos ms o1 y all_done failed
      in (m # ms, all_done, failed, o1, y))"

section \<open>The tick\<close>

datatype seq_status = Seq_Inactive | Seq_Running | Seq_Checking | Seq_Complete | Seq_Failed

type_synonym seq_out = "seq_status \<times> homing_io \<times> homing_system"

definition idle_gripper :: "homing_system \<Rightarrow> gripper_command" where
  "idle_gripper y = (if hy_has_can_gripper y then GC_Motor jc_idle else GC_NoGripper)"

definition seq_fail :: "homing_system \<Rightarrow> homing_io \<Rightarrow> seq_out" where
  "seq_fail y o1 = (Seq_Failed,
     o1\<lparr>hi_cmds := replicate MAX_JOINTS jc_idle, hi_gcmd := idle_gripper y, hi_calls := hi_calls o1 @ restore_all y\<rparr>,
     y\<lparr>hy_active := False\<rparr>)"

definition tick_global_post :: "homing_system \<Rightarrow> homing_io \<Rightarrow> seq_out" where
  "tick_global_post y o1 =
     (let (post, all_done, failed, o1, y) = run_moves (hy_global_post y) o1 y True False; y = y\<lparr>hy_global_post := post\<rparr>
      in if failed then seq_fail y o1
         else if all_done then
           (if 0 < hy_check_left y then (Seq_Checking, o1, y\<lparr>hy_check_left := hy_check_left y - 1\<rparr>)
            else (Seq_Complete, o1, y\<lparr>hy_active := False\<rparr>))
         else (Seq_Running, o1, y))"

definition home_joint :: "nat \<Rightarrow> bool \<times> homing_io \<times> homing_system \<Rightarrow> bool \<times> homing_io \<times> homing_system" where
  "home_joint j = (\<lambda>(failed, o1, y).
     if \<not> homer_running (hy_homers y ! j) then (failed, o1, y)
     else
       (let p = hy_params y ! j;
            ((cmd, event, h), node) = homer_tick (hy_homers y ! j) p (bs_node (hi_state o1) (hp_node p));
            o1 = (set_cmd o1 j cmd)\<lparr>hi_state := bs_set_node (hi_state o1) (hp_node p) node\<rparr>;
            y = y\<lparr>hy_homers := (hy_homers y)[j := h]\<rparr>
        in case event of
             Some (Ev_Reference latched) \<Rightarrow>
               (let c = set_home (hi_conv o1 ! j) latched (hy_eff_offset y ! j);
                    o1 = o1\<lparr>hi_conv := (hi_conv o1)[j := c],
                      hi_calls := hi_calls o1 @ [Call_send_limits (hp_node p) (hp_normal_vel_limit p) (hp_normal_ilim p) LIMIT_REPEATS]\<rparr>;
                    y = y\<lparr>hy_seeking_limits := (hy_seeking_limits y)[j := False], hy_statuses := (hy_statuses y)[j := HJ_Done]\<rparr>
                in (failed, o1, case hp_post p of
                      Some post \<Rightarrow> y\<lparr>hy_homers := (hy_homers y)[j := h\<lparr>ho_post_target_ticks := motor_ticks c (pp_position_rad post)\<rparr>]\<rparr>
                    | None \<Rightarrow> y))
           | Some Ev_Failed \<Rightarrow> (True, o1, y\<lparr>hy_statuses := (hy_statuses y)[j := HJ_Failed]\<rparr>)
           | None \<Rightarrow> (failed, o1, y)))"

definition home_gripper_motor :: "bool \<times> homing_io \<times> homing_system \<Rightarrow> bool \<times> homing_io \<times> homing_system" where
  "home_gripper_motor = (\<lambda>(failed, o1, y).
     case hy_gripper_params y of
       Some p \<Rightarrow>
         (if homer_running (hy_homers y ! GRIPPER_SLOT) then
            (let ((cmd, event, h), node) = homer_tick (hy_homers y ! GRIPPER_SLOT) p (bs_node (hi_state o1) (hp_node p));
                 o1 = o1\<lparr>hi_gcmd := GC_Motor cmd, hi_state := bs_set_node (hi_state o1) (hp_node p) node\<rparr>;
                 y = y\<lparr>hy_homers := (hy_homers y)[GRIPPER_SLOT := h]\<rparr>
             in case event of
                  Some (Ev_Reference latched) \<Rightarrow>
                    (failed,
                     o1\<lparr>hi_calls := hi_calls o1 @ [Call_send_limits (hp_node p) (hp_normal_vel_limit p) (hp_normal_ilim p) LIMIT_REPEATS]\<rparr>,
                     y\<lparr>hy_endstop_ticks := Some latched,
                       hy_ticks_per_meter := Some (f64_div GRIPPER_ENCODER_COUNTS (f64_mul (f64_mul f64_four F64_PI) (hy_gripper_gear_r_m y))),
                       hy_seeking_limits := (hy_seeking_limits y)[GRIPPER_SLOT := False],
                       hy_statuses := (hy_statuses y)[GRIPPER_SLOT := HJ_Done]\<rparr>)
                | Some Ev_Failed \<Rightarrow> (True, o1, y\<lparr>hy_statuses := (hy_statuses y)[GRIPPER_SLOT := HJ_Failed]\<rparr>)
                | None \<Rightarrow> (failed, o1, y))
          else (failed, o1, y))
     | None \<Rightarrow> (failed, o1, y))"

definition home_gripper_firmware :: "bool \<times> homing_io \<times> homing_system \<Rightarrow> bool \<times> homing_io \<times> homing_system" where
  "home_gripper_firmware = (\<lambda>(failed, o1, y).
     case hy_cal y of
       None \<Rightarrow> (failed, o1, y)
     | Some cal \<Rightarrow>
         (let e = Suc (cr_elapsed cal) in
          if \<not> cr_sent cal then (failed, o1\<lparr>hi_gcmd := GC_Calibrate\<rparr>, y\<lparr>hy_cal := Some \<lparr>cr_sent = True, cr_elapsed = e\<rparr>\<rparr>)
          else
            (let o1 = o1\<lparr>hi_gcmd := GC_FirmwarePoll\<rparr>;
                 calibrated = (case gs_reply (bs_gripper (hi_state o1)) of Some r \<Rightarrow> gr_calibrated r | None \<Rightarrow> False)
             in if hy_cal_min_wait y \<le> e \<and> calibrated
                then (failed, o1, y\<lparr>hy_statuses := (hy_statuses y)[GRIPPER_SLOT := HJ_Done], hy_cal := None\<rparr>)
                else if hy_cal_timeout y \<le> e
                then (True, o1, y\<lparr>hy_statuses := (hy_statuses y)[GRIPPER_SLOT := HJ_Failed], hy_cal_failed := True, hy_cal := None\<rparr>)
                else (failed, o1, y\<lparr>hy_cal := Some \<lparr>cr_sent = True, cr_elapsed = e\<rparr>\<rparr>))))"

definition tick_home :: "homing_system \<Rightarrow> homing_io \<Rightarrow> seq_out" where
  "tick_home y o1 =
     (let step = hy_steps y ! hy_step_idx y;
          group = filter (\<lambda>j. sp_home_joints step ! j) joints;
          s = fold home_joint group (False, o1, y);
          (failed, o1, y) = (case sp_home_gripper step of
             Some GH_Motor \<Rightarrow> home_gripper_motor s | Some GH_Firmware \<Rightarrow> home_gripper_firmware s | None \<Rightarrow> s);
          arm_done = list_all (\<lambda>j. \<not> homer_running (hy_homers y ! j)) group;
          gripper_done = (case sp_home_gripper step of
             Some GH_Motor \<Rightarrow> \<not> homer_running (hy_homers y ! GRIPPER_SLOT) | Some GH_Firmware \<Rightarrow> hy_cal y = None | None \<Rightarrow> True)
      in if failed then seq_fail y o1
         else (Seq_Running, o1, if arm_done \<and> gripper_done then y\<lparr>hy_part := Part_MoveTo\<rparr> else y))"

definition home_start :: "homing_system \<Rightarrow> homing_system" where
  "home_start y =
     (let step = hy_steps y ! hy_step_idx y;
          group = filter (\<lambda>j. sp_home_joints step ! j) joints;
          y = fold (\<lambda>j y. y\<lparr>hy_homers := (hy_homers y)[j := homer_start (hy_homers y ! j)],
                            hy_statuses := (hy_statuses y)[j := HJ_Running]\<rparr>) group y;
          y = (case sp_home_gripper step of
             Some GH_Motor \<Rightarrow>
               (if hy_gripper_params y \<noteq> None
                then y\<lparr>hy_homers := (hy_homers y)[GRIPPER_SLOT := homer_start (hy_homers y ! GRIPPER_SLOT)],
                       hy_gripper_homer_started := True, hy_statuses := (hy_statuses y)[GRIPPER_SLOT := HJ_Running]\<rparr> else y)
           | Some GH_Firmware \<Rightarrow> y\<lparr>hy_cal := Some \<lparr>cr_sent = False, cr_elapsed = 0\<rparr>, hy_statuses := (hy_statuses y)[GRIPPER_SLOT := HJ_Running]\<rparr>
           | None \<Rightarrow> y)
      in y\<lparr>hy_part := Part_Home\<rparr>)"

definition next_step :: "homing_system \<Rightarrow> homing_system" where
  "next_step y =
     (let y = y\<lparr>hy_step_idx := Suc (hy_step_idx y)\<rparr>
      in if hy_step_idx y < length (hy_steps y) then (reset_step_states y (hy_step_idx y))\<lparr>hy_part := Part_Pre\<rparr>
         else y\<lparr>hy_part := Part_GlobalPost, hy_global_post := map reset_move (hy_global_post y)\<rparr>)"

definition set_step :: "homing_system \<Rightarrow> (step_plan \<Rightarrow> step_plan) \<Rightarrow> homing_system" where
  "set_step y f = y\<lparr>hy_steps := (hy_steps y)[hy_step_idx y := f (hy_steps y ! hy_step_idx y)]\<rparr>"

definition tick_part :: "homing_system \<Rightarrow> homing_io \<Rightarrow> seq_out" where
  "tick_part y o1 =
     (case hy_part y of
        Part_Pre \<Rightarrow>
          (let (ms, all_done, failed, o1, y) = run_moves (sp_pre (hy_steps y ! hy_step_idx y)) o1 y True False;
               y = set_step y (sp_pre_update (\<lambda>_. ms))
           in if failed then seq_fail y o1 else (Seq_Running, o1, if all_done then y\<lparr>hy_part := Part_HomeStart\<rparr> else y))
      | Part_HomeStart \<Rightarrow> (Seq_Running, o1, home_start y)
      | Part_Home \<Rightarrow> tick_home y o1
      | Part_MoveTo \<Rightarrow>
          (let (ms, all_done, failed, o1, y) = run_move_tos (sp_move_to (hy_steps y ! hy_step_idx y)) o1 y True False;
               y = set_step y (sp_move_to_update (\<lambda>_. ms))
           in if failed then seq_fail y o1 else (Seq_Running, o1, if all_done then y\<lparr>hy_part := Part_Post\<rparr> else y))
      | Part_Post \<Rightarrow>
          (let (ms, all_done, failed, o1, y) = run_moves (sp_post (hy_steps y ! hy_step_idx y)) o1 y True False;
               y = set_step y (sp_post_update (\<lambda>_. ms))
           in if failed then seq_fail y o1 else (Seq_Running, o1, if all_done then next_step y else y))
      | Part_GlobalPost \<Rightarrow> tick_global_post y o1)"

definition deadline_fail :: "homing_system \<Rightarrow> homing_system" where
  "deadline_fail y =
     y\<lparr>hy_homers := map2 (\<lambda>h s. if s = HJ_Running then homer_fail h else h) (hy_homers y) (hy_statuses y),
       hy_statuses := map (\<lambda>s. if s = HJ_Running then HJ_Failed else s) (hy_statuses y)\<rparr>"

definition homing_tick :: "homing_system \<Rightarrow> bus_state \<Rightarrow> joint_conversion list \<Rightarrow> seq_out" where
  "homing_tick y state conv =
     (let o1 = \<lparr>hi_state = state, hi_conv = conv, hi_cmds = replicate MAX_JOINTS jc_idle,
            hi_gcmd = (if hy_has_can_gripper y
                       then (case hy_last_fw_cmd y of Some cmd \<Rightarrow> GC_Firmware cmd | None \<Rightarrow> GC_FirmwarePoll) else GC_NoGripper),
            hi_calls = []\<rparr>
      in if \<not> hy_active y then (Seq_Inactive, o1, y)
         else
           (let y = y\<lparr>hy_elapsed_ticks := Suc (hy_elapsed_ticks y)\<rparr> in
            if hy_sequence_timeout_ticks y \<le> hy_elapsed_ticks y then seq_fail (deadline_fail y) o1
            else
              (let (y, calls) = apply_phase_limits y; o1 = o1\<lparr>hi_calls := calls\<rparr>
               in if length (hy_steps y) \<le> hy_step_idx y then tick_global_post y o1 else tick_part y o1)))"

end
