(* ===== verification/Homing_Props.thy ===== *)
theory Homing_Props
  imports Homing_Sequence
begin

text \<open>
  What homing promises: the per-joint machine and the whole sequence end whatever the drives
  reply, a failure leaves every joint idle, and a reference is applied only after its checks.
\<close>

section \<open>The per-joint machine ends\<close>

text \<open>The phases before the reference is applied or refused.\<close>

definition referencing :: "homer \<Rightarrow> bool" where
  "referencing h \<longleftrightarrow> ho_phase h \<notin> {H_PostMove, H_Finished, H_Failed}"

text \<open>An upper bound on the ticks left in those phases.\<close>

definition settle_left :: "homer_params \<Rightarrow> nat \<Rightarrow> nat" where
  "settle_left p e = 2 * hp_settle_ticks p - e + 1"

definition release_ticks :: "homer_params \<Rightarrow> nat" where
  "release_ticks p = (case hp_release p of Some r \<Rightarrow> 2 * hp_ramp_ticks p + rp_dur_ticks r | None \<Rightarrow> 0)"

definition final_left :: "homer_params \<Rightarrow> nat" where
  "final_left p = release_ticks p + hp_ramp_ticks p + 1 + settle_left p 0"

definition pause_left :: "homer_params \<Rightarrow> nat \<Rightarrow> nat" where
  "pause_left p e = hp_pause_ticks p - e + 1 + (hp_timeout_ticks p + 2 + final_left p)"

definition backoff_left :: "homer_params \<Rightarrow> nat \<Rightarrow> nat" where
  "backoff_left p e = hp_backoff_ticks p + max (min (hp_ramp_ticks p) (hp_backoff_ticks p)) 1 - e + 1 + pause_left p 0"

definition dwell_left :: "homer_params \<Rightarrow> nat \<Rightarrow> nat" where
  "dwell_left p e = hp_dwell_ticks p - e + 1 + backoff_left p 0"

definition seek_left :: "homer_params \<Rightarrow> homer \<Rightarrow> nat" where
  "seek_left p h = hp_timeout_ticks p + 1 - (ho_spent h + ho_elapsed h) + 1 + final_left p
     + (if hp_two_pass p \<and> ho_pass h = 1 then dwell_left p 0 else 0)"

definition ticks_left :: "homer_params \<Rightarrow> homer \<Rightarrow> nat" where
  "ticks_left p h =
     (case ho_phase h of
        H_Approach \<Rightarrow> seek_left p h | H_Preclear \<Rightarrow> seek_left p h
      | H_Dwell \<Rightarrow> dwell_left p (ho_elapsed h) | H_Backoff \<Rightarrow> backoff_left p (ho_elapsed h)
      | H_Pause \<Rightarrow> pause_left p (ho_elapsed h)
      | H_Release \<Rightarrow> release_ticks p - ho_elapsed h + 1 + settle_left p 0
      | H_Brake \<Rightarrow> hp_ramp_ticks p - ho_elapsed h + 1 + settle_left p 0
      | H_Settle \<Rightarrow> settle_left p (ho_elapsed h)
      | _ \<Rightarrow> 0)"

lemmas left_defs = settle_left_def final_left_def pause_left_def backoff_left_def dwell_left_def seek_left_def

lemma fail_out_left: "ticks_left p (snd (snd (fail_out h))) = 0"
  by (simp add: fail_out_def homer_fail_def ticks_left_def)

lemma reset_detectors_simps [simp]:
  "ho_phase (reset_detectors h) = ho_phase h" "ho_elapsed (reset_detectors h) = ho_elapsed h"
  "ho_spent (reset_detectors h) = ho_spent h" "ho_pass (reset_detectors h) = ho_pass h"
  by (simp_all add: reset_detectors_def)

lemma brake_left: "ho_phase h = H_Brake \<Longrightarrow> ticks_left p (snd (snd (tick_brake h p))) < ticks_left p h"
  by (auto simp: tick_brake_def ticks_left_def Let_def left_defs)

lemma dwell_left_less: "ho_phase h = H_Dwell \<Longrightarrow> ticks_left p (snd (snd (tick_dwell h p))) < ticks_left p h"
  by (auto simp: tick_dwell_def ticks_left_def Let_def dwell_left_def)

lemma backoff_left_less: "ho_phase h = H_Backoff \<Longrightarrow> ticks_left p (snd (snd (tick_backoff h p))) < ticks_left p h"
  by (auto simp: tick_backoff_def ticks_left_def Let_def backoff_left_def)

lemma pause_left_less: "ho_phase h = H_Pause \<Longrightarrow> ticks_left p (snd (snd (tick_pause h p))) < ticks_left p h"
  by (auto simp: tick_pause_def ticks_left_def Let_def pause_left_def seek_left_def)

lemma release_left_less: "ho_phase h = H_Release \<Longrightarrow> ticks_left p (snd (snd (tick_release h p node))) < ticks_left p h"
  by (auto simp: tick_release_def ticks_left_def Let_def release_ticks_def settle_left_def fail_out_def homer_fail_def
      split: option.splits)

lemma settle_left_less: "ho_phase h = H_Settle \<Longrightarrow> ticks_left p (snd (snd (tick_settle h p node))) < ticks_left p h"
  by (auto simp: tick_settle_def ticks_left_def Let_def settle_left_def fail_out_def homer_fail_def split: option.splits)

lemma seek_expired: "hp_timeout_ticks p < U32_MAX \<Longrightarrow> \<not> hp_timeout_ticks p < sat_add a b \<Longrightarrow> a + b \<le> hp_timeout_ticks p"
  by (auto simp: sat_add_def)

lemma sat_add_within: "a + b \<le> U32_MAX \<Longrightarrow> sat_add a b = a + b"
  by (simp add: sat_add_def)

lemma preclear_left_less:
  assumes "ho_phase h = H_Preclear" "hp_timeout_ticks p < U32_MAX"
  shows "ticks_left p (snd (snd (tick_preclear h p node))) < ticks_left p h"
proof (cases "hp_timeout_ticks p < sat_add (ho_spent h) (Suc (ho_elapsed h))")
  case True
  then show ?thesis using assms(1) by (simp add: tick_preclear_def Let_def fail_out_left) (simp add: ticks_left_def seek_left_def)
next
  case False
  from seek_expired [OF assms(2) False] sat_add_within [of "ho_spent h" "Suc (ho_elapsed h)"] assms False show ?thesis
    by (auto simp: tick_preclear_def Let_def ticks_left_def seek_left_def split: option.splits)
qed

lemma rest_left_less:
  assumes "referencing h" "ho_phase h \<noteq> H_Approach" "hp_timeout_ticks p < U32_MAX"
  shows "ticks_left p (snd (snd (homer_tick_rest h p node))) < ticks_left p h"
  using assms brake_left [of h p] dwell_left_less [of h p] backoff_left_less [of h p] pause_left_less [of h p]
    release_left_less [of h p node] settle_left_less [of h p node] preclear_left_less [of h p node]
  by (cases "ho_phase h") (simp_all add: homer_tick_rest_def referencing_def)

lemma detect_stall_frame:
  "ho_phase (snd (detect_stall h p n v)) = ho_phase h" "ho_elapsed (snd (detect_stall h p n v)) = ho_elapsed h"
  "ho_spent (snd (detect_stall h p n v)) = ho_spent h" "ho_pass (snd (detect_stall h p n v)) = ho_pass h"
  by (simp_all add: detect_stall_def detect_plateau_def detect_current_def Let_def split_def split: option.split)


lemma approach_hit_left:
  "ticks_left p (approach_hit h p node) < seek_left p h"
  "ho_phase (approach_hit h p node) \<noteq> H_Approach" "referencing (approach_hit h p node)"
  by (cases "hp_strategy p"; simp add: approach_hit_def Let_def ticks_left_def left_defs release_ticks_def referencing_def)+

lemma homer_tick_left:
  assumes "referencing h" "hp_timeout_ticks p < U32_MAX"
  shows "ticks_left p (snd (snd (fst (homer_tick h p node)))) < ticks_left p h"
proof (cases "ho_phase h = H_Approach")
  case False
  with rest_left_less [OF assms(1) False assms(2)] show ?thesis by (simp add: homer_tick_def)
next
  case True
  define h1 where "h1 = h\<lparr>ho_elapsed := Suc (ho_elapsed h)\<rparr>"
  have left: "ticks_left p h = seek_left p h" using True by (simp add: ticks_left_def)
  show ?thesis
  proof (cases "hp_timeout_ticks p < sat_add (ho_spent h1) (ho_elapsed h1)")
    case T: True
    with True left show ?thesis
      by (simp add: homer_tick_def h1_def [symmetric] fail_out_left) (simp add: seek_left_def)
  next
    case F: False
    note within = seek_expired [OF assms(2) F]
    then have sum: "sat_add (ho_spent h1) (ho_elapsed h1) = ho_spent h1 + ho_elapsed h1"
      using assms(2) by (intro sat_add_within) simp
    define n1 where "n1 = (if ho_elapsed h1 = 1 then node\<lparr>ns_hall := None\<rparr> else node)"
    define r where "r = (case hp_strategy p of
        Strat_Stall \<Rightarrow> (let (hit, h) = detect_stall h1 p n1 (approach_speed h1 p)
                       in (jc_velocity (trunc_to_wire (approach_speed h1 p)) 0, hit, h))
      | Strat_Hall \<Rightarrow> (jc_hall (trunc_to_wire (approach_speed h1 p)) HALL_TRIGGER_VALUE,
          (case ns_hall n1 of Some hl \<Rightarrow> \<not> hs_trigger hl \<or> hs_edge hl | None \<Rightarrow> False), h1))"
    obtain cmd hit h2 where r2: "r = (cmd, hit, h2)" by (cases r rule: prod_cases3)
    have frame: "ho_phase h2 = H_Approach" "ho_elapsed h2 = ho_elapsed h1" "ho_spent h2 = ho_spent h1" "ho_pass h2 = ho_pass h1"
      using r2 True detect_stall_frame [of h1 p n1 "approach_speed h1 p"]
      by (auto simp: r_def h1_def split_def Let_def split: homing_strategy.splits)
    have less: "seek_left p h2 < seek_left p h"
      using within frame by (simp add: seek_left_def h1_def)
    have tick: "homer_tick h p node =
        (if \<not> hit then ((cmd, None, h2), n1)
         else if hp_strategy p = Strat_Hall \<and> ho_elapsed h2 \<le> hp_preclear_ticks p \<and> \<not> ho_started_clear h2
         then ((jc_idle, None, h2\<lparr>ho_spent := sat_add (ho_spent h2) (ho_elapsed h2), ho_elapsed := 0, ho_phase := H_Preclear\<rparr>),
               n1\<lparr>ns_hall := None\<rparr>)
         else (homer_tick_rest (approach_hit h2 p n1) p n1, n1))"
      unfolding homer_tick_def Let_def h1_def [symmetric]
      unfolding n1_def [symmetric] unfolding r_def [unfolded Let_def, symmetric] r2
      using True F by simp
    have rest: "ticks_left p (snd (snd (homer_tick_rest (approach_hit h2 p n1) p n1))) < seek_left p h"
      using rest_left_less [OF approach_hit_left(3) approach_hit_left(2) assms(2), of h2 p n1 n1] approach_hit_left(1) [of p h2 n1] less
      by simp
    have miss: "ticks_left p h2 < seek_left p h" using less frame(1) by (simp add: ticks_left_def)
    have pre: "ticks_left p (h2\<lparr>ho_spent := sat_add (ho_spent h2) (ho_elapsed h2), ho_elapsed := 0, ho_phase := H_Preclear\<rparr>)
        < seek_left p h"
      using less sum frame(2,3) by (simp add: ticks_left_def seek_left_def)
    show ?thesis unfolding tick left using miss pre rest by (simp only: fst_conv snd_conv split: if_split) simp
  qed
qed

fun homer_run :: "homer_params \<Rightarrow> homer \<Rightarrow> node_state list \<Rightarrow> homer" where
  "homer_run p h [] = h"
| "homer_run p h (n # ns) = homer_run p (snd (snd (fst (homer_tick h p n)))) ns"

lemma referencing_left: "referencing h \<longleftrightarrow> 0 < ticks_left p h"
  by (cases "ho_phase h") (simp_all add: referencing_def ticks_left_def left_defs)

lemma left_stays_zero: "ticks_left p h = 0 \<Longrightarrow> ticks_left p (snd (snd (fst (homer_tick h p n)))) = 0"
proof -
  assume "ticks_left p h = 0"
  then have "ho_phase h \<in> {H_PostMove, H_Finished, H_Failed}" using referencing_left [of h p] by (simp add: referencing_def)
  moreover have "ticks_left p (snd (snd (tick_post_move h p n))) = 0" if "ho_phase h = H_PostMove"
    using that by (auto simp: tick_post_move_def post_begin_def Let_def split_def ticks_left_def fail_out_def homer_fail_def
        split: option.splits)
  ultimately show ?thesis by (auto simp: homer_tick_def homer_tick_rest_def) (auto simp: ticks_left_def)
qed

lemma homer_run_left:
  assumes "hp_timeout_ticks p < U32_MAX"
  shows "ticks_left p (homer_run p h ns) \<le> ticks_left p h - length ns"
proof (induction ns arbitrary: h)
  case (Cons n ns)
  let ?h = "snd (snd (fst (homer_tick h p n)))"
  have "ticks_left p ?h \<le> ticks_left p h - 1"
    using homer_tick_left [OF _ assms, of h n] left_stays_zero [of p h n] referencing_left [of h p]
    by (cases "ticks_left p h = 0") auto
  with Cons.IH [of ?h] show ?case by simp
qed simp

text \<open>The bound spelled out: two seeks when homing in two passes, and every timed phase once.\<close>

definition homing_bound :: "homer_params \<Rightarrow> nat" where
  "homing_bound p =
     (hp_timeout_ticks p + 2 + final_left p)
     + (if hp_two_pass p then hp_dwell_ticks p + hp_backoff_ticks p + max (min (hp_ramp_ticks p) (hp_backoff_ticks p)) 1
          + hp_pause_ticks p + 3 + (hp_timeout_ticks p + 2 + final_left p) else 0)"

text \<open>
  C13. Homing one joint always ends. Whatever positions, currents and hall bits the drive reports, and
  also if it reports nothing, a started machine has applied or refused its reference after at most
  \<open>homing_bound\<close> ticks: it is in its post-home move, finished or failed. The seek timeout has to be
  below the largest \<open>u32\<close>, since the source compares a saturating sum with it.
\<close>

theorem homer_referencing_ends:
  assumes "hp_timeout_ticks p < U32_MAX" and "homing_bound p \<le> length replies"
  shows "ho_phase (homer_run p (homer_start h) replies) \<in> {H_PostMove, H_Finished, H_Failed}"
proof -
  have "ticks_left p (homer_start h) = homing_bound p"
    by (simp add: ticks_left_def homer_start_def homing_bound_def seek_left_def dwell_left_def backoff_left_def pause_left_def)
  with homer_run_left [OF assms(1), of "homer_start h" replies] assms(2)
  have "ticks_left p (homer_run p (homer_start h) replies) = 0" by simp
  with referencing_left [of "homer_run p (homer_start h) replies" p] show ?thesis by (simp add: referencing_def)
qed


definition sample_params :: homer_params where
  "sample_params = \<lparr>hp_node = 0, hp_strategy = Strat_Stall, hp_speed = f64_zero, hp_current_ma = f64_zero, hp_timeout_ticks = 10,
     hp_backoff_ticks = 0, hp_two_pass = True, hp_max_diff_ticks = 5, hp_release = None, hp_post = None, hp_stall_needed = 1,
     hp_startup_guard = 0, hp_cur_window = 1, hp_cur_needed = 1, hp_dwell_ticks = 1, hp_pause_ticks = 1, hp_ramp_ticks = 1,
     hp_settle_ticks = 1, hp_preclear_ticks = 0, hp_in_pos_streak = 1, hp_pre_post_timeout = 1, hp_post_ticks = 0,
     hp_normal_vel_limit = 0, hp_normal_ilim = 0, hp_dt = f64_one\<rparr>"

theorem homer_referencing_ends_witness:
  "ho_phase (homer_run sample_params (homer_start (new_homer sample_params)) (replicate 43 default_node))
     \<in> {H_PostMove, H_Finished, H_Failed}"
proof -
  have "hp_timeout_ticks sample_params < U32_MAX" "homing_bound sample_params \<le> length (replicate 43 default_node)"
    by (simp_all add: sample_params_def U32_MAX_def homing_bound_def final_left_def release_ticks_def settle_left_def)
  then show ?thesis by (rule homer_referencing_ends)
qed


section \<open>A reference is applied only after its checks\<close>

lemma rest_reference:
  assumes "homer_tick_rest h p node = (cmd, Some (Ev_Reference l), h')"
  shows "cmd = jc_idle \<and> ho_latched h' = Some l
    \<and> (hp_two_pass p \<longrightarrow> \<bar>ho_pass_hits h' ! 1 - ho_pass_hits h' ! 0\<bar> \<le> hp_max_diff_ticks p)
    \<and> ho_phase h' = (if hp_post p = None then H_Finished else H_PostMove) \<and> referencing h"
proof -
  have settle: "ho_phase h = H_Settle"
    using assms
    by (cases "ho_phase h")
      (auto simp: homer_tick_rest_def tick_brake_def tick_dwell_def tick_preclear_def tick_backoff_def tick_pause_def tick_release_def
        tick_post_move_def fail_out_def Let_def split_def split: if_splits option.splits)
  with assms have "tick_settle h p node = (cmd, Some (Ev_Reference l), h')" by (simp add: homer_tick_rest_def)
  with settle show ?thesis
    by (auto simp: tick_settle_def fail_out_def Let_def referencing_def split: if_splits option.splits)
qed

text \<open>
  A joint's reference is applied only after its checks. When a tick reports a reference, the
  machine was still referencing, the position it reports is the one it latched, a two-pass seek hit
  the stop twice within the configured difference, and the tick commands an idle frame; from then on
  the machine is in its post-home move or finished.
\<close>

lemma homer_reference_checked:
  assumes "fst (homer_tick h p node) = (cmd, Some (Ev_Reference l), h')"
  shows "referencing h \<and> cmd = jc_idle \<and> ho_latched h' = Some l
    \<and> (hp_two_pass p \<longrightarrow> \<bar>ho_pass_hits h' ! 1 - ho_pass_hits h' ! 0\<bar> \<le> hp_max_diff_ticks p)
    \<and> ho_phase h' = (if hp_post p = None then H_Finished else H_PostMove)"
proof (cases "ho_phase h = H_Approach")
  case True
  then have "\<exists>h2 n. homer_tick_rest h2 p n = (cmd, Some (Ev_Reference l), h')"
    using assms unfolding homer_tick_def
    by (auto simp: fail_out_def Let_def split_def split: if_splits)
  with rest_reference [of _ p _ cmd l h'] True show ?thesis by (auto simp: referencing_def)
next
  case False
  with assms rest_reference [of h p node cmd l h'] show ?thesis by (simp add: homer_tick_def)
qed

definition settling_homer :: homer where
  "settling_homer = (new_homer sample_params)\<lparr>ho_phase := H_Settle, ho_latched := Some 7, ho_pass := 2, ho_pass_hits := [3, 7]\<rparr>"

section \<open>The seek timeout bounds each pass\<close>

lemma zero_seek:
  "approach_speed h sample_params = f64_zero"
  "f64_trunc_to_nat (f64_max (f64_mul (f64_abs f64_zero) STALL_DISP_FACTOR) F64_10) cap = min 10 cap"
  "f64_le (f64_mul CURRENT_RATIO f64_zero) (f64_abs (f64_of_i32 (scast (0 :: i16))))"
proof -
  have z: "f64_mul f64_zero x = f64_zero" "f64_mul x f64_zero = f64_zero" if "is_finite x" "\<not> f64_neg_sign x" for x
    using that mag_of_units_zero
    by (simp_all add: f64_mul_def f64_zero_def Let_def f64_field_defs is_finite_def is_nan_def units_of_mag_def f64_round_def
        f64_of_sign_mag_def)
  have fin: "is_finite REHOME_SPEED_FACTOR" "is_finite STALL_DISP_FACTOR" "is_finite CURRENT_RATIO"
    "\<not> f64_neg_sign REHOME_SPEED_FACTOR" "\<not> f64_neg_sign STALL_DISP_FACTOR" "\<not> f64_neg_sign CURRENT_RATIO"
    by (simp_all add: REHOME_SPEED_FACTOR_def STALL_DISP_FACTOR_def CURRENT_RATIO_def is_finite_def f64_field_defs)
  show "approach_speed h sample_params = f64_zero"
    by (simp add: approach_speed_def sample_params_def z fin)
  have a: "f64_abs f64_zero = f64_zero" by (simp add: f64_abs_def f64_zero_def f64_mag_def f64_of_sign_mag_def)
  have mx: "f64_max f64_zero F64_10 = F64_10"
    by (simp add: f64_max_def f64_zero_def F64_10_def is_nan_def f64_field_defs f64_lt_def f64_key_def)
  show "f64_trunc_to_nat (f64_max (f64_mul (f64_abs f64_zero) STALL_DISP_FACTOR) F64_10) cap = min 10 cap"
    unfolding a z(1) [OF fin(2,5)] mx
    by (simp add: f64_trunc_to_nat_def F64_10_def is_nan_def is_finite_def f64_field_defs units_of_mag_def)
  show "f64_le (f64_mul CURRENT_RATIO f64_zero) (f64_abs (f64_of_i32 (scast (0 :: i16))))"
    unfolding z(2) [OF fin(3,6)]
    by (simp add: f64_of_i32_def f64_round_def f64_of_sign_mag_def f64_abs_def f64_mag_def f64_le_def is_nan_def f64_field_defs
        f64_zero_def f64_key_def)
qed

abbreviation seen :: node_state where
  "seen \<equiv> default_node\<lparr>ns_position_ticks := Some 0, ns_current_ma := Some 0\<rparr>"

definition pass_replies :: "node_state list" where
  "pass_replies = replicate 8 default_node @ [seen, seen]"

lemmas homer_eval = homer_tick_def homer_tick_rest_def approach_hit_def detect_stall_def detect_plateau_def detect_current_def
  tick_dwell_def tick_backoff_def tick_pause_def tick_settle_def reset_detectors_def fail_out_def Let_def sat_add_def U32_MAX_def

lemma homer_run_append: "homer_run p h (xs @ ys) = homer_run p (homer_run p h xs) ys"
  by (induction xs arbitrary: h) simp_all

text \<open>A seek of \<open>sample_params\<close> that has seen nothing for \<open>e\<close> ticks.\<close>

definition seeking_at :: "nat \<Rightarrow> int list \<Rightarrow> nat \<Rightarrow> homer \<Rightarrow> bool" where
  "seeking_at k hits e h \<longleftrightarrow> ho_phase h = H_Approach \<and> ho_spent h = 0 \<and> ho_elapsed h = e \<and> ho_cur_ring h = [False]
     \<and> ho_cur_idx h = 0 \<and> ho_cur_hits h = 0 \<and> ho_ref_pos h = None \<and> ho_still h = 0 \<and> ho_latched h = None
     \<and> ho_pass h = k \<and> ho_pass_hits h = hits"

lemma quiet_ticks:
  "seeking_at k hits e h \<Longrightarrow> e + n \<le> 10 \<Longrightarrow> seeking_at k hits (e + n) (homer_run sample_params h (replicate n default_node))"
proof (induction n arbitrary: h e)
  case (Suc n)
  let ?h = "snd (snd (fst (homer_tick h sample_params default_node)))"
  have "seeking_at k hits (Suc e) ?h"
    using Suc.prems by (auto simp: seeking_at_def homer_eval sample_params_def default_node_def)
  from Suc.IH [OF this] Suc.prems show ?case by simp
qed simp

lemma sample_sel:
  "hp_strategy sample_params = Strat_Stall" "hp_current_ma sample_params = f64_zero" "hp_timeout_ticks sample_params = 10"
  "hp_backoff_ticks sample_params = 0" "hp_two_pass sample_params" "hp_max_diff_ticks sample_params = 5"
  "hp_release sample_params = None" "hp_post sample_params = None" "hp_stall_needed sample_params = 1"
  "hp_startup_guard sample_params = 0" "hp_cur_window sample_params = 1" "hp_cur_needed sample_params = 1"
  "hp_dwell_ticks sample_params = 1" "hp_pause_ticks sample_params = 1" "hp_ramp_ticks sample_params = 1"
  "hp_settle_ticks sample_params = 1"
  by (simp_all add: sample_params_def)

lemma seen_sel: "ns_position_ticks seen = Some 0" "ns_current_ma seen = Some 0"
  by simp_all

lemma pass_end:
  assumes "seeking_at k [a, b] 8 h" "k = 1 \<or> k = 2"
  shows "let h' = homer_run sample_params h [seen] in homer_running h'
    \<and> (k = 1 \<longrightarrow> homer_running (homer_run sample_params h' [seen])
        \<and> seeking_at 2 [0, b] 0 (homer_run sample_params h' [seen, default_node, default_node]))
    \<and> (k = 2 \<longrightarrow> \<bar>a\<bar> \<le> 5 \<longrightarrow> ho_phase (homer_run sample_params h' [seen]) = H_Finished)"
proof -
  define h' where "h' = homer_run sample_params h [seen]"
  have h': "ho_phase h' = H_Approach \<and> ho_spent h' = 0 \<and> ho_elapsed h' = 9 \<and> ho_cur_ring h' = [True] \<and> ho_cur_idx h' = 0
    \<and> ho_cur_hits h' = 1 \<and> 1 \<le> ho_cur_filled h' \<and> ho_ref_pos h' = Some 0 \<and> ho_still h' = 0 \<and> ho_latched h' = None
    \<and> ho_pass h' = k \<and> ho_pass_hits h' = [a, b]"
    using assms(1) zero_seek(3)
    by (simp add: h'_def seeking_at_def homer_eval zero_seek(1,2) sample_sel)
  define h2 where "h2 = homer_run sample_params h' [seen]"
  have one: "k = 1 \<Longrightarrow> ho_phase h2 = H_Backoff \<and> ho_elapsed h2 = 0 \<and> ho_spent h2 = 0 \<and> length (ho_cur_ring h2) = 1
      \<and> ho_latched h2 = None \<and> ho_pass_hits h2 = [0, b]"
    using h' zero_seek(3)
    by (simp add: h2_def homer_eval zero_seek(1,2) sample_sel)
  have two: "k = 2 \<Longrightarrow> \<bar>a\<bar> \<le> 5 \<Longrightarrow> ho_phase h2 = H_Finished"
    using h' zero_seek(3)
    by (simp add: h2_def homer_eval zero_seek(1,2) sample_sel)
  have three: "k = 1 \<Longrightarrow> seeking_at 2 [0, b] 0 (homer_run sample_params h2 [default_node, default_node])"
    using one by (auto simp: seeking_at_def homer_eval sample_sel length_Suc_conv)
  have "homer_run sample_params h' [seen, default_node, default_node] = homer_run sample_params h2 [default_node, default_node]"
    by (simp add: h2_def)
  with h' one two three show ?thesis
    unfolding Let_def h'_def [symmetric] h2_def [symmetric] by (auto simp: homer_running_def)
qed


definition slow_replies :: "node_state list" where
  "slow_replies = pass_replies @ [default_node, default_node] @ pass_replies"

text \<open>
  A healthy two-pass seek can outlive the time the sequence budgets for it. A stop hit clears the
  elapsed ticks without adding them to those spent, so every pass has the whole timeout to itself,
  while \<open>homer_budget\<close> counts the timeout once. With a timeout of ten ticks and drives that answer
  late, the machine is still running after twenty-one ticks, three more than budgeted, and it
  finishes its reference on the next one.
\<close>

lemma homer_outlives_budget:
  "homer_budget sample_params = 18 \<and> length slow_replies = 22
   \<and> homer_running (homer_run sample_params (homer_start (new_homer sample_params)) (take 21 slow_replies))
   \<and> ho_phase (homer_run sample_params (homer_start (new_homer sample_params)) slow_replies) = H_Finished"
proof -
  let ?run = "homer_run sample_params"
  define h0 where "h0 = homer_start (new_homer sample_params)"
  have budget: "homer_budget sample_params = 18"
    by (simp add: homer_budget_def sample_params_def sat_add_def sat_mul_def U32_MAX_def)
  have "seeking_at 1 [0, 0] 0 h0"
    by (simp add: h0_def seeking_at_def homer_start_def new_homer_def reset_detectors_def sample_params_def)
  then have q1: "seeking_at 1 [0, 0] 8 (?run h0 (replicate 8 default_node))"
    using quiet_ticks [of 1 "[0, 0]" 0 h0 8] by simp
  define h2 where "h2 = ?run h0 (pass_replies @ [default_node, default_node])"
  have "h2 = ?run (?run (?run h0 (replicate 8 default_node)) [seen]) [seen, default_node, default_node]"
    by (simp add: h2_def pass_replies_def homer_run_append del: homer_run.simps replicate.simps)
       (simp add: homer_run_append [symmetric])
  with pass_end [OF q1] have "seeking_at 2 [0, 0] 0 h2" by (simp add: Let_def)
  then have q2: "seeking_at 2 [0, 0] 8 (?run h2 (replicate 8 default_node))"
    using quiet_ticks [of 2 "[0, 0]" 0 h2 8] by simp
  have cut: "take 21 slow_replies = (pass_replies @ [default_node, default_node]) @ replicate 8 default_node @ [seen]"
    "slow_replies = ((pass_replies @ [default_node, default_node]) @ replicate 8 default_node @ [seen]) @ [seen]"
    by (simp_all add: slow_replies_def pass_replies_def numeral_eq_Suc)
  have runs: "?run h0 (take 21 slow_replies) = ?run (?run h2 (replicate 8 default_node)) [seen]"
    "?run h0 slow_replies = ?run (?run (?run h2 (replicate 8 default_node)) [seen]) [seen]"
    unfolding cut(1) h2_def by (simp_all only: homer_run_append cut(2))
  have "homer_running (?run h0 (take 21 slow_replies)) \<and> ho_phase (?run h0 slow_replies) = H_Finished"
    using pass_end [OF q2] unfolding runs by (simp add: Let_def del: homer_run.simps)
  with budget show ?thesis unfolding h0_def by (simp add: slow_replies_def pass_replies_def)
qed



section \<open>The whole sequence ends\<close>

text \<open>
  What every part of a tick leaves alone: the clock, the deadline, the parameters and the gripper's
  address. The sequence is never switched on by a tick.
\<close>

definition keeps :: "homing_system \<Rightarrow> homing_system \<Rightarrow> bool" where
  "keeps y y' \<longleftrightarrow> hy_elapsed_ticks y' = hy_elapsed_ticks y \<and> hy_sequence_timeout_ticks y' = hy_sequence_timeout_ticks y
     \<and> (hy_active y' \<longrightarrow> hy_active y) \<and> hy_params y' = hy_params y \<and> hy_has_can_gripper y' = hy_has_can_gripper y
     \<and> hy_gripper_node y' = hy_gripper_node y"

lemma keeps_refl [simp]: "keeps y y"
  by (simp add: keeps_def)

lemma keeps_trans [trans]: "keeps x y \<Longrightarrow> keeps y z \<Longrightarrow> keeps x z"
  by (auto simp: keeps_def)

lemma keeps_updates [simp]:
  "keeps x (y\<lparr>hy_statuses := a\<rparr>) = keeps x y" "keeps x (y\<lparr>hy_homers := b\<rparr>) = keeps x y"
  "keeps x (y\<lparr>hy_part := c\<rparr>) = keeps x y" "keeps x (y\<lparr>hy_steps := d\<rparr>) = keeps x y"
  "keeps x (y\<lparr>hy_last_fw_cmd := e\<rparr>) = keeps x y" "keeps x (y\<lparr>hy_seeking_limits := f\<rparr>) = keeps x y"
  "keeps x (y\<lparr>hy_cal := g\<rparr>) = keeps x y" "keeps x (y\<lparr>hy_cal_failed := h\<rparr>) = keeps x y"
  "keeps x (y\<lparr>hy_global_post := i\<rparr>) = keeps x y" "keeps x (y\<lparr>hy_check_left := j\<rparr>) = keeps x y"
  "keeps x (y\<lparr>hy_endstop_ticks := k\<rparr>) = keeps x y" "keeps x (y\<lparr>hy_ticks_per_meter := l\<rparr>) = keeps x y"
  "keeps x (y\<lparr>hy_step_idx := m\<rparr>) = keeps x y" "keeps x (y\<lparr>hy_gripper_homer_started := n\<rparr>) = keeps x y"
  by (simp_all add: keeps_def)

lemma keeps_inactive: "keeps x y \<Longrightarrow> keeps x (y\<lparr>hy_active := False\<rparr>)"
  by (simp add: keeps_def)

lemma keeps_tick_move: "tick_seq_move y m o1 = (r, m', o2, y') \<Longrightarrow> keeps y y'"
  by (auto simp: tick_seq_move_def Let_def split_def split: if_splits pre_move.splits option.splits)

lemma keeps_run_moves: "run_moves ms o1 y d f = (ms', d', f', o2, y') \<Longrightarrow> keeps y y'"
proof (induction ms arbitrary: o1 y d f ms' d' f' o2 y')
  case (Cons m ms)
  obtain r m1 o3 y1 where t: "tick_seq_move y m o1 = (r, m1, o3, y1)" by (cases "tick_seq_move y m o1") auto
  define s where "s = (case r of Inr e \<Rightarrow> (d \<and> e, f, y1) | Inl j \<Rightarrow> (d, True, y1\<lparr>hy_statuses := (hy_statuses y1)[j := HJ_Failed]\<rparr>))"
  obtain d2 f2 y2 where s: "s = (d2, f2, y2)" by (cases s rule: prod_cases3)
  have "keeps y1 y2" using s by (auto simp: s_def split: sum.splits)
  moreover obtain ms3 d3 f3 o4 y3 where r: "run_moves ms o3 y2 d2 f2 = (ms3, d3, f3, o4, y3)" by (metis prod.exhaust)
  then have "y3 = y'" using Cons.prems by (simp add: t s_def [symmetric] s)
  with Cons.IH [OF r] have "keeps y2 y'" by simp
  ultimately show ?case using keeps_tick_move [OF t] by (metis keeps_trans)
qed simp

lemma keeps_run_move_tos: "run_move_tos ms o1 y d f = (ms', d', f', o2, y') \<Longrightarrow> keeps y y'"
proof (induction ms arbitrary: o1 y d f ms' d' f' o2 y')
  case (Cons m ms)
  obtain r m1 o3 where t: "tick_move_to y m o1 = (r, m1, o3)" by (cases "tick_move_to y m o1" rule: prod_cases3)
  define s where "s = (case r of Some e \<Rightarrow> (d \<and> e, f, y) | None \<Rightarrow> (d, True, y\<lparr>hy_statuses := (hy_statuses y)[mv_joint m1 := HJ_Failed]\<rparr>))"
  obtain d2 f2 y2 where s: "s = (d2, f2, y2)" by (cases s rule: prod_cases3)
  have "keeps y y2" using s by (auto simp: s_def split: option.splits)
  moreover obtain ms3 d3 f3 o4 y3 where r: "run_move_tos ms o3 y2 d2 f2 = (ms3, d3, f3, o4, y3)" by (metis prod.exhaust)
  then have "y3 = y'" using Cons.prems by (simp add: t s_def [symmetric] s)
  with Cons.IH [OF r] have "keeps y2 y'" by simp
  ultimately show ?case by (metis keeps_trans)
qed simp

lemma keeps_home_joint: "keeps y (snd (snd s)) \<Longrightarrow> keeps y (snd (snd (home_joint j s)))"
  by (cases s rule: prod_cases3) (auto simp: home_joint_def Let_def split_def split: option.splits homer_event.splits)

lemma keeps_home_joints: "keeps y (snd (snd s)) \<Longrightarrow> keeps y (snd (snd (fold home_joint js s)))"
  by (induction js arbitrary: s) (simp_all add: keeps_home_joint)

lemma keeps_home_gripper:
  "keeps y (snd (snd s)) \<Longrightarrow> keeps y (snd (snd (home_gripper_motor s)))"
  "keeps y (snd (snd s)) \<Longrightarrow> keeps y (snd (snd (home_gripper_firmware s)))"
  by (cases s rule: prod_cases3, auto simp: home_gripper_motor_def home_gripper_firmware_def Let_def split_def
      split: option.splits homer_event.splits)+

lemma keeps_reset_step: "keeps y (reset_step_states y i)"
  by (simp add: reset_step_states_def Let_def)

lemma keeps_next_step: "keeps y (next_step y)"
proof -
  have "keeps y (reset_step_states (y\<lparr>hy_step_idx := i\<rparr>) i)" for i
    by (rule keeps_trans [OF _ keeps_reset_step]) simp
  then show ?thesis by (simp add: next_step_def Let_def)
qed

lemma keeps_home_start: "keeps y (home_start y)"
proof -
  have f: "keeps x (fold (\<lambda>j y. y\<lparr>hy_homers := F j y, hy_statuses := G j y\<rparr>) js y)" if "keeps x y" for x y js F G
    using that by (induction js arbitrary: y) simp_all
  show ?thesis by (auto simp: home_start_def Let_def f split: option.splits gripper_home_mode.splits)
qed

lemma keeps_seq_fail: "keeps x y \<Longrightarrow> keeps x (snd (snd (seq_fail y o1)))"
  by (simp add: seq_fail_def keeps_inactive)

lemma keeps_tick_home: "keeps y (snd (snd (tick_home y o1)))"
proof -
  define step where "step = hy_steps y ! hy_step_idx y"
  define s where "s = fold home_joint (filter (\<lambda>j. sp_home_joints step ! j) joints) (False, o1, y)"
  define t where "t = (case sp_home_gripper step of
      Some GH_Motor \<Rightarrow> home_gripper_motor s | Some GH_Firmware \<Rightarrow> home_gripper_firmware s | None \<Rightarrow> s)"
  have "keeps y (snd (snd t))"
    using keeps_home_joints [of y "(False, o1, y)"] keeps_home_gripper [of y s]
    by (auto simp: t_def s_def split: option.split gripper_home_mode.split)
  moreover obtain failed o2 y2 where t: "t = (failed, o2, y2)" by (cases t rule: prod_cases3)
  ultimately show ?thesis
    unfolding tick_home_def Let_def step_def [symmetric] s_def [symmetric] t_def [symmetric] t
    by (simp add: keeps_seq_fail)
qed

lemma keeps_global_post: "keeps y (snd (snd (tick_global_post y o1)))"
proof -
  obtain ms d f o2 y2 where r: "run_moves (hy_global_post y) o1 y True False = (ms, d, f, o2, y2)" by (metis prod.exhaust)
  from keeps_run_moves [OF r] show ?thesis
    by (simp add: tick_global_post_def r Let_def keeps_seq_fail keeps_inactive)
qed

lemma keeps_tick_part: "keeps y (snd (snd (tick_part y o1)))"
proof -
  have nx: "keeps y z \<Longrightarrow> keeps y (next_step z)" for z by (rule keeps_trans [OF _ keeps_next_step])
  have moves: "keeps y (snd (snd (snd (snd (run_moves ms o1 y True False)))))" for ms
    by (cases "run_moves ms o1 y True False") (auto dest: keeps_run_moves)
  have tos: "keeps y (snd (snd (snd (snd (run_move_tos ms o1 y True False)))))" for ms
    by (cases "run_move_tos ms o1 y True False") (auto dest: keeps_run_move_tos)
  show ?thesis
    by (cases "hy_part y")
      (simp_all add: tick_part_def keeps_home_start keeps_tick_home keeps_global_post Let_def split_def set_step_def
        keeps_seq_fail moves tos nx)
qed

lemma keeps_apply_limits: "keeps y (fst (apply_phase_limits y))"
proof -
  have f: "keeps x (fst s) \<Longrightarrow> keeps x (fst (foldl (\<lambda>(y, calls) (i, p).
         let seeking = W ! i \<and> hy_statuses y ! i \<noteq> HJ_Done
         in if seeking \<noteq> hy_seeking_limits y ! i
            then (y\<lparr>hy_seeking_limits := (hy_seeking_limits y)[i := seeking]\<rparr>, calls @ [C p seeking]) else (y, calls)) s ips))"
    for x s ips W and C :: "homer_params \<Rightarrow> bool \<Rightarrow> bus_call"
    by (induction ips arbitrary: s) (auto simp: Let_def split_def)
  show ?thesis unfolding apply_phase_limits_def by (subst Let_def) (rule f, simp)
qed

text \<open>What a failing tick leaves behind, in terms of the system it started from.\<close>

definition failed_clean :: "homing_system \<Rightarrow> seq_out \<Rightarrow> bool" where
  "failed_clean y out \<longleftrightarrow> (fst out = Seq_Failed \<longrightarrow>
     (let (o1, y') = snd out
      in hi_cmds o1 = replicate MAX_JOINTS jc_idle \<and> hi_gcmd o1 = idle_gripper y \<and> \<not> hy_active y'
         \<and> (\<exists>calls. hi_calls o1 = calls @ restore_all y)))"

lemma clean_seq_fail: "keeps y z \<Longrightarrow> failed_clean y (seq_fail z o1)"
  by (simp add: failed_clean_def seq_fail_def keeps_def idle_gripper_def restore_all_def)

lemma clean_other: "st \<noteq> Seq_Failed \<Longrightarrow> failed_clean y (st, r)"
  by (simp add: failed_clean_def)

lemma clean_global_post: "failed_clean y (tick_global_post y o1)"
proof -
  obtain ms d f o2 y2 where r: "run_moves (hy_global_post y) o1 y True False = (ms, d, f, o2, y2)" by (metis prod.exhaust)
  from keeps_run_moves [OF r] show ?thesis
    by (simp add: tick_global_post_def r Let_def clean_seq_fail clean_other)
qed

lemma clean_tick_home: "failed_clean y (tick_home y o1)"
proof -
  define step where "step = hy_steps y ! hy_step_idx y"
  define s where "s = fold home_joint (filter (\<lambda>j. sp_home_joints step ! j) joints) (False, o1, y)"
  define t where "t = (case sp_home_gripper step of
      Some GH_Motor \<Rightarrow> home_gripper_motor s | Some GH_Firmware \<Rightarrow> home_gripper_firmware s | None \<Rightarrow> s)"
  have "keeps y (snd (snd t))"
    using keeps_home_joints [of y "(False, o1, y)"] keeps_home_gripper [of y s]
    by (auto simp: t_def s_def split: option.split gripper_home_mode.split)
  moreover obtain failed o2 y2 where t: "t = (failed, o2, y2)" by (cases t rule: prod_cases3)
  ultimately show ?thesis
    unfolding tick_home_def Let_def step_def [symmetric] s_def [symmetric] t_def [symmetric] t
    by (simp add: clean_seq_fail clean_other)
qed

lemma clean_tick_part: "failed_clean y (tick_part y o1)"
proof -
  have moves: "keeps y (snd (snd (snd (snd (run_moves ms o1 y True False)))))" for ms
    by (cases "run_moves ms o1 y True False") (auto dest: keeps_run_moves)
  have tos: "keeps y (snd (snd (snd (snd (run_move_tos ms o1 y True False)))))" for ms
    by (cases "run_move_tos ms o1 y True False") (auto dest: keeps_run_move_tos)
  show ?thesis
    by (cases "hy_part y")
      (simp_all add: tick_part_def clean_tick_home clean_global_post Let_def split_def set_step_def
        clean_seq_fail clean_other moves tos)
qed

lemma clean_keeps: "failed_clean z out \<Longrightarrow> keeps y z \<Longrightarrow> failed_clean y out"
  by (cases out rule: prod_cases3) (auto simp: failed_clean_def keeps_def idle_gripper_def restore_all_def)

lemma keeps_deadline_fail: "keeps y (deadline_fail y)"
  by (simp add: deadline_fail_def)

lemma homing_tick_cases:
  assumes "hy_active y"
  defines "y1 \<equiv> y\<lparr>hy_elapsed_ticks := Suc (hy_elapsed_ticks y)\<rparr>"
  shows "failed_clean y1 (homing_tick y state conv) \<and> keeps y1 (snd (snd (homing_tick y state conv)))
    \<and> (hy_sequence_timeout_ticks y \<le> Suc (hy_elapsed_ticks y) \<longrightarrow> fst (homing_tick y state conv) = Seq_Failed)"
proof (cases "hy_sequence_timeout_ticks y1 \<le> hy_elapsed_ticks y1")
  case True
  then show ?thesis using assms(1) keeps_deadline_fail [of y1]
    by (simp add: homing_tick_def y1_def [symmetric] clean_seq_fail keeps_seq_fail) (simp add: seq_fail_def)
next
  case False
  obtain y2 calls where a: "apply_phase_limits y1 = (y2, calls)" by (cases "apply_phase_limits y1")
  then have k: "keeps y1 y2" using keeps_apply_limits [of y1] by simp
  show ?thesis using False assms(1) k
      clean_keeps [OF clean_global_post k] clean_keeps [OF clean_tick_part k]
      keeps_trans [OF k keeps_global_post] keeps_trans [OF k keeps_tick_part]
    by (simp add: homing_tick_def y1_def [symmetric] a Let_def) (simp add: y1_def)
qed

lemma clock_sel [simp]:
  "restore_all (y\<lparr>hy_elapsed_ticks := e\<rparr>) = restore_all y" "idle_gripper (y\<lparr>hy_elapsed_ticks := e\<rparr>) = idle_gripper y"
  by (cases "hy_has_can_gripper y", simp_all add: restore_all_def idle_gripper_def)+

text \<open>
  C12. A failed homing leaves nothing moving. When a tick of the sequence reports failure, for a
  joint, a move, the calibration or the deadline, every joint slot of that tick is the idle command,
  the gripper is idled too, the sequence is off, and the last bus calls restore the drive
  configuration of every arm joint and of a fitted CAN gripper.
\<close>

theorem homing_failure_idles:
  assumes "homing_tick y state conv = (Seq_Failed, o1, y')"
  shows "hi_cmds o1 = replicate MAX_JOINTS jc_idle \<and> hi_gcmd o1 = idle_gripper y \<and> \<not> hy_active y'
    \<and> (\<exists>calls. hi_calls o1 = calls @ restore_all y)"
proof -
  have "hy_active y" using assms by (auto simp: homing_tick_def Let_def split: if_splits)
  from homing_tick_cases [OF this, of state conv] assms show ?thesis
    by (simp add: failed_clean_def)
qed

fun homing_run :: "homing_system \<Rightarrow> (bus_state \<times> joint_conversion list) list \<Rightarrow> homing_system" where
  "homing_run y [] = y"
| "homing_run y ((state, conv) # rest) = homing_run (snd (snd (homing_tick y state conv))) rest"

lemma homing_run_off: "\<not> hy_active y \<Longrightarrow> \<not> hy_active (homing_run y inputs)"
  by (induction y inputs rule: homing_run.induct) (auto simp: homing_tick_def)

lemma homing_run_deadline:
  "hy_sequence_timeout_ticks y \<le> hy_elapsed_ticks y + length inputs \<Longrightarrow> inputs \<noteq> [] \<Longrightarrow> \<not> hy_active (homing_run y inputs)"
proof (induction y inputs rule: homing_run.induct)
  case (2 y state conv rest)
  let ?y = "snd (snd (homing_tick y state conv))"
  show ?case
  proof (cases "hy_active y \<and> hy_active ?y")
    case False
    then show ?thesis using homing_run_off [of ?y rest] homing_run_off [of y "(state, conv) # rest"] by auto
  next
    case True
    note c = homing_tick_cases [of y state conv]
    with True have k: "hy_elapsed_ticks ?y = Suc (hy_elapsed_ticks y)" "hy_sequence_timeout_ticks ?y = hy_sequence_timeout_ticks y"
      by (simp_all add: keeps_def)
    from c True have "\<not> hy_sequence_timeout_ticks y \<le> Suc (hy_elapsed_ticks y)"
      by (cases "homing_tick y state conv" rule: prod_cases3) (auto simp: failed_clean_def)
    with "2.prems" have "rest \<noteq> []" by (cases rest) simp_all
    with 2 k show ?thesis by simp
  qed
qed simp

lemma homing_start_sel:
  "hy_elapsed_ticks (fst (homing_start y)) = 0" "hy_active (fst (homing_start y))"
  "hy_sequence_timeout_ticks (fst (homing_start y)) = hy_sequence_timeout_ticks y"
  by (simp_all add: homing_start_def Let_def reset_step_states_def)

text \<open>
  C11. Every homing run ends. From the start of the sequence, after as many ticks as the deadline
  computed for the planned sequence (at least one), whatever the drives report and whatever the
  conversions are, the sequence is off: it completed, or it failed and idled the arm.
\<close>

theorem homing_sequence_ends:
  assumes "hy_sequence_timeout_ticks y \<le> length inputs" and "inputs \<noteq> []"
  shows "\<not> hy_active (homing_run (fst (homing_start y)) inputs)"
  using homing_run_deadline [of "fst (homing_start y)" inputs] assms by (simp add: homing_start_sel)

text \<open>A system of one joint with an empty plan.\<close>

definition sample_system :: homing_system where
  "sample_system = \<lparr>hy_dt = f64_one, hy_params = [sample_params], hy_gripper_homer_started = False, hy_gripper_params = None,
     hy_homers = [new_homer sample_params, new_homer sample_params], hy_steps = [], hy_global_post = [], hy_eff_offset = [f64_zero],
     hy_node_of = [0], hy_gripper_node = 7, hy_has_can_gripper = False, hy_gripper_gear_r_m = f64_zero, hy_cal_timeout = 1,
     hy_cal_min_wait = 0, hy_active = False, hy_elapsed_ticks = 0, hy_sequence_timeout_ticks = 2, hy_step_idx = 0,
     hy_part = Part_Pre, hy_statuses = replicate NUM_NODES HJ_Idle, hy_seeking_limits = replicate NUM_NODES False,
     hy_last_fw_cmd = None, hy_cal = None, hy_cal_failed = False, hy_endstop_ticks = None, hy_ticks_per_meter = None,
     hy_check_ticks = 0, hy_check_left = 0\<rparr>"

theorem homing_sequence_ends_witness:
  "\<not> hy_active (homing_run (fst (homing_start sample_system)) [(new_bus_state, []), (new_bus_state, [])])"
  using homing_sequence_ends [of sample_system "[(new_bus_state, []), (new_bus_state, [])]"] by (simp add: sample_system_def)

definition expired_system :: homing_system where
  "expired_system = (fst (homing_start sample_system))\<lparr>hy_elapsed_ticks := 1\<rparr>"

theorem homing_failure_idles_witness:
  "\<exists>o1 y'. homing_tick expired_system new_bus_state [] = (Seq_Failed, o1, y')
     \<and> hi_cmds o1 = replicate MAX_JOINTS jc_idle \<and> \<not> hy_active y'"
proof -
  have "fst (homing_tick expired_system new_bus_state []) = Seq_Failed"
    using homing_tick_cases [of expired_system new_bus_state "[]"] homing_start_sel [of sample_system]
    by (simp add: expired_system_def) (simp add: sample_system_def)
  then obtain o1 y' where t: "homing_tick expired_system new_bus_state [] = (Seq_Failed, o1, y')"
    by (cases "homing_tick expired_system new_bus_state []" rule: prod_cases3) simp
  from homing_failure_idles [OF t] t show ?thesis by simp
qed

end
