(* ===== verification/Core_State.thy ===== *)
theory Core_State
  imports Dispatch Gpio Homing_Sequence
begin

text \<open>
  The state of the real-time core, \<open>RtCore\<close> of \<open>par6-rt/src/core.rs\<close>, with the vocabulary it shares
  with its callers: the modes of \<open>state.rs\<close>, the commands of \<open>hooks.rs\<close>, the refusals of a mode
  request.

  What the core never changes after construction is the record \<open>rt_config\<close>. What the world answers
  during a tick (the bus backend, the engines behind the hooks, the pins, the command queue) is the
  record \<open>env\<close>; the calls the core makes on them are recorded in order in \<open>rc_calls\<close>. A call that
  can be refused is answered by \<open>en_ok\<close> at its position in that record, so every call has an answer
  of its own. Logging, the tick profiler and the published snapshot are left out.
\<close>

section \<open>Vocabulary\<close>

datatype mode =
    M_Booting | M_Idle | M_ActiveError | M_Homing | M_Jog | M_Stream | M_Exec | M_HandGuiding | M_Impedance
  | M_SafetyStop | M_Flashing

datatype arm_state = Arm_Disabled | Arm_Enabled

datatype loop_health = Loop_Ok | Loop_Degraded | Loop_Critical

datatype rt_command =
    Rt_SetMode mode
  | Rt_Enable u64
  | Rt_Disable
  | Rt_ClearErrors
  | Rt_SetSoftEstop bool
  | Rt_AssertParked
  | Rt_Jog "f64 list" f64
  | Rt_JogRelease
  | Rt_StreamRelease
  | Rt_ExecSetPaused bool
  | Rt_ExecSetSpeedScale f64
  | Rt_ExecFlush
  | Rt_ExecStop
  | Rt_Hold
  | Rt_Gripper firmware_gripper_command
  | Rt_GripperCalibrate
  | Rt_GripperStop
  | Rt_GripperIdle
  | Rt_SetGravityComp bool
  | Rt_SetPayload f64 "f64 list" "f64 list option"
  | Rt_WriteIo u8 u8
  | Rt_RetuneNode node_id drive_tune
  | Rt_SetCanId node_id node_id
  | Rt_SaveConfig node_id
  | Rt_SetToolId node_id u8
  | Rt_RescanBus

datatype gate_refusal =
    InvalidTransition | NotEnabled | ErrorsActive | NotHomed | ParkAssertionRequired | NotImplemented

text \<open>Calls on the hooks. The flag of a stream call says which tracker: the clamp-only one for \<open>True\<close>.\<close>

datatype hook_call =
    Jog_activate "f64 list"
  | Jog_command "f64 list"
  | Jog_set_accel_scale f64
  | Jog_release
  | Jog_tick "f64 list"
  | Stream_activate bool "f64 list"
  | Stream_set_target bool "f64 list"
  | Stream_set_scale bool f64 f64
  | Stream_set_scale_per_joint "f64 list" f64
  | Stream_set_bounds "f64 list" "f64 list"
  | Stream_step bool
  | Stream_release bool
  | Gravity_set_payload f64 "f64 list" "f64 list option"
  | Io_write_outputs "u8 list"

datatype core_call = On_bus bus_call | On_hook hook_call

record stream_setpoint =
  ss_q :: "f64 list"
  ss_speed :: f64
  ss_accel :: f64
  ss_shaped :: bool

section \<open>Constants\<close>

definition STREAM_REST_RAD_S :: f64 where "STREAM_REST_RAD_S = 0x3E112E0BE826D695"  \<comment> \<open>1e-9\<close>
definition RELEASE_REST_BAND_RAD :: f64 where "RELEASE_REST_BAND_RAD = 0x3FA999999999999A"  \<comment> \<open>0.05\<close>
definition RELEASE_REST_WINDOW_S :: f64 where "RELEASE_REST_WINDOW_S = 0x3FC999999999999A"  \<comment> \<open>0.2\<close>
definition BOOT_SELFCHECK_S :: f64 where "BOOT_SELFCHECK_S = 0x3FA0624DD2F1A9FC"  \<comment> \<open>0.032\<close>
definition LINK_RECOVERY_SETTLE_S :: f64 where "LINK_RECOVERY_SETTLE_S = 0x3FE0000000000000"  \<comment> \<open>0.5\<close>
definition CLEAR_ERROR_REPEATS :: u8 where "CLEAR_ERROR_REPEATS = 3"
definition EXEC_HEARTBEAT_TIMEOUT_S :: f64 where "EXEC_HEARTBEAT_TIMEOUT_S = 0x3FE0000000000000"  \<comment> \<open>0.5\<close>
definition MEAS_FILTER_ALPHA :: f64 where "MEAS_FILTER_ALPHA = 0x3FC999999999999A"  \<comment> \<open>0.2\<close>
definition SHUTDOWN_REST_RAD_S :: f64 where "SHUTDOWN_REST_RAD_S = 0x3F947AE147AE147B"  \<comment> \<open>0.02\<close>
definition SCAN_SETTLE_S :: f64 where "SCAN_SETTLE_S = 0x3F90624DD2F1A9FC"  \<comment> \<open>0.016\<close>
definition GRIPPER_ERR_IDX :: u8 where "GRIPPER_ERR_IDX = 6"
definition KT_FAMILY_FACTOR :: f64 where "KT_FAMILY_FACTOR = f64_three"

section \<open>Configuration\<close>

record torque_cal =
  tc_gear_ratio :: f64
  tc_gear_efficiency :: f64
  tc_kt_nm_a :: f64
  tc_dir :: u8

definition cal_factor :: "torque_cal \<Rightarrow> f64 \<Rightarrow> f64" where
  "cal_factor t kt_nm_a = torque_to_ma_factor (tc_gear_ratio t) (tc_gear_efficiency t) kt_nm_a (tc_dir t)"

definition lowpass_alpha :: "f64 \<Rightarrow> f64 \<Rightarrow> f64" where
  "lowpass_alpha cutoff_hz dt =
     (if f64_le cutoff_hz f64_zero \<or> f64_le (f64_div f64_half dt) cutoff_hz then f64_zero
      else let tau = f64_div f64_one (f64_mul (f64_mul f64_two F64_PI) cutoff_hz) in f64_div dt (f64_add dt tau))"

text \<open>What the core reads of the robot's configuration.\<close>

record robot_config =
  rb_tick_dt_s :: f64
  rb_node_of :: "node_id list"
  rb_gripper_node :: node_id
  rb_jog_pack :: pack
  rb_gravity_scale :: "f64 list"
  rb_torque_cal :: "torque_cal list"
  rb_kt_auto :: bool
  rb_n_io_inputs :: nat
  rb_n_io_outputs :: nat
  rb_boot_config_repeats :: u8
  rb_config_resend_offsets_s :: "f64 list"
  rb_lost_s :: f64
  rb_tau_ext_margin_nm :: f64
  rb_tau_ext_window_s :: f64
  rb_command_timeout_s :: f64
  rb_success_window_s :: f64
  rb_lowpass_cutoff_hz :: f64
  rb_reference_check_nm :: "f64 list"

text \<open>The constants of the core, times resolved to ticks.\<close>

record rt_config =
  kf_dt :: f64
  kf_node_of :: "node_id list"
  kf_gripper_node :: node_id
  kf_jog_pack :: pack
  kf_gravity_scale :: "f64 list"
  kf_torque_cal :: "torque_cal list"
  kf_kt_auto :: bool
  kf_n_io_inputs :: nat
  kf_n_io_outputs :: nat
  kf_config_repeats :: u8
  kf_config_resend_ticks :: "u64 list"
  kf_tx_fault_latch_ticks :: nat
  kf_tau_env_margin_nm :: f64
  kf_tau_env_window_ticks :: nat
  kf_release_rest_needed :: nat
  kf_hb_timeout_ticks :: nat
  kf_stream_timeout_ticks :: nat
  kf_stream_window_ticks :: nat
  kf_stream_lp_alpha :: f64
  kf_scan_settle_ticks :: nat
  kf_boot_selfcheck_tick :: u64
  kf_link_settle_ticks :: u64
  kf_ref_check_nm :: "f64 list"

definition rt_config_of :: "robot_config \<Rightarrow> rt_config" where
  "rt_config_of r =
     (let dt = rb_tick_dt_s r; at_least = (\<lambda>n s. max (ticks_of dt s) n) in
      \<lparr>kf_dt = dt, kf_node_of = rb_node_of r, kf_gripper_node = rb_gripper_node r, kf_jog_pack = rb_jog_pack r,
       kf_gravity_scale = rb_gravity_scale r, kf_torque_cal = rb_torque_cal r, kf_kt_auto = rb_kt_auto r,
       kf_n_io_inputs = rb_n_io_inputs r, kf_n_io_outputs = rb_n_io_outputs r, kf_config_repeats = rb_boot_config_repeats r,
       kf_config_resend_ticks = map (of_nat \<circ> ticks_of dt) (rb_config_resend_offsets_s r),
       kf_tx_fault_latch_ticks = at_least 1 (rb_lost_s r), kf_tau_env_margin_nm = rb_tau_ext_margin_nm r,
       kf_tau_env_window_ticks = at_least 1 (rb_tau_ext_window_s r), kf_release_rest_needed = at_least 1 RELEASE_REST_WINDOW_S,
       kf_hb_timeout_ticks = at_least 1 EXEC_HEARTBEAT_TIMEOUT_S, kf_stream_timeout_ticks = at_least 2 (rb_command_timeout_s r),
       kf_stream_window_ticks = at_least 1 (rb_success_window_s r), kf_stream_lp_alpha = lowpass_alpha (rb_lowpass_cutoff_hz r) dt,
       kf_scan_settle_ticks = min (at_least 1 SCAN_SETTLE_S) 255, kf_boot_selfcheck_tick = of_nat (at_least 1 BOOT_SELFCHECK_S),
       kf_link_settle_ticks = of_nat (at_least 1 LINK_RECOVERY_SETTLE_S), kf_ref_check_nm = rb_reference_check_nm r\<rparr>)"

section \<open>The world's answers during a tick\<close>

record env =
  en_estop_level :: bool
  en_io_levels :: "u8 list"
  en_health :: loop_health
  en_command :: "rt_command option"
  en_drained :: bus_state
  en_drain_ok :: bool
  en_gravity :: "f64 list"
  en_describes_arm :: bool
  en_link :: link_health
  en_fresh :: "node_id \<Rightarrow> freshness"
  en_connected :: u16
  en_simulated :: bool
  en_recover :: bool
  en_ok :: "nat \<Rightarrow> bool"
  en_flashed :: bool
  en_jog :: "u16 \<times> f64 list \<times> f64 list"
  en_stream :: "f64 list \<times> f64 list"
  en_stream_faulted :: bool

section \<open>State\<close>

record boot_part =
  bt_bus_booted_at :: u64
  bt_config_repush_armed_at :: u64
  bt_link_recovered :: bool
  bt_tool_hold :: bool
  bt_tool_hold_until :: u64
  bt_rescan_at :: "u64 option"
  bt_rescan_configured :: bool
  bt_can_tool_id :: "u8 option"

record meas_part =
  me_sector_done :: "bool list"
  me_torque_ma_factor :: "f64 list"
  me_q :: "f64 list"
  me_qd :: "f64 list"
  me_tau :: "f64 list"
  me_q_filt :: "f64 list"
  me_qd_filt :: "f64 list"
  me_tau_filt :: "f64 list"
  me_tau_ext :: "f64 list"
  me_filters_seeded :: bool
  me_tau_env_over :: "nat list"
  me_g :: "f64 list"
  me_rest_ref :: "f64 list option"
  me_rest_streak :: nat
  me_rest_generation :: "u64 list"

record out_part =
  ou_setpoints :: "joint_setpoint list"
  ou_cmds :: "joint_command list"
  ou_mirror :: command_mirror
  ou_slew :: torque_slew
  ou_q_target :: "f64 list"
  ou_qd_target :: "f64 list"
  ou_q :: "f64 list"
  ou_qd :: "f64 list"
  ou_tau :: "f64 list"

record link_part =
  li_tx_failures :: nat
  li_rx_failures :: nat
  li_resend_failures :: nat
  li_resend_pending :: u16
  li_bus_off_seen :: u32
  li_tx_streak :: nat
  li_gripper_tx_streak :: nat
  li_self_heal_armed :: "bool list"
  li_settle_residual_rad :: f64

record jog_part =
  jo_active :: bool
  jo_released :: bool
  jo_joints :: u8
  jo_blocked :: u16
  jo_accel_scale :: f64

record stream_part =
  sr_slot :: "stream_setpoint option"
  sr_sent :: u64
  sr_released :: bool
  sr_is_shaped :: bool
  sr_commanded :: "f64 list"
  sr_scale :: "f64 \<times> f64"
  sr_last_rx_tick :: u64
  sr_window_pos :: nat
  sr_window_applied :: nat
  sr_sent_base :: u64
  sr_success :: f32
  sr_discard :: f32
  sr_filt :: "f64 list"

record scan_part =
  sc_next :: "u8 option"
  sc_settle :: nat
  sc_epoch :: u32

record io_part =
  io_lines :: "u8 list"
  io_debounce :: "debouncer list"
  io_out_dirty :: bool

record shutdown_park =
  pk_enabled :: bool
  pk_tolerance_rad :: f64
  pk_timeout_ticks :: nat
  pk_target :: "f64 list"
  pk_speed_fractions :: "f64 list"
  pk_saved_scale :: "f64 \<times> f64"
  pk_running :: bool
  pk_soft_bounds :: "f64 list \<times> f64 list"
  pk_hard_bounds :: "f64 list \<times> f64 list"

record rt_core =
  rc_tick :: u64
  rc_mode :: mode
  rc_state :: arm_state
  rc_enabled_request_id :: u64
  rc_homed :: bool
  rc_soft_estop :: bool
  rc_hw_estop :: bool
  rc_estop_standing :: bool
  rc_park_asserted :: bool
  rc_gravity_comp :: bool
  rc_not_homed_refused :: bool
  rc_silent :: bool
  rc_has_can_gripper :: bool
  rc_errors :: error_manager
  rc_exec :: exec_playback
  rc_homing :: homing_system
  rc_estop :: debouncer
  rc_gate :: gripper_gate
  rc_settle :: gripper_settle
  rc_calibrate_pending :: bool
  rc_homing_gcmd :: gripper_command
  rc_bus_state :: bus_state
  rc_conv :: "joint_conversion list"
  rc_ref_check :: "f64 list \<times> nat"
  rc_heartbeat :: bool
  rc_hb_silence :: nat
  rc_payload :: "f64 \<times> f64 list \<times> f64 list option"
  rc_boot :: boot_part
  rc_meas :: meas_part
  rc_out :: out_part
  rc_link :: link_part
  rc_jog :: jog_part
  rc_stream :: stream_part
  rc_scan :: scan_part
  rc_io :: io_part
  rc_park :: shutdown_park
  rc_calls :: "core_call list"

abbreviation zeros :: "f64 list" where
  "zeros \<equiv> replicate MAX_JOINTS f64_zero"

text \<open>
  \<open>RtCore::new\<close> after the configuration is read and the bus is configured: the conversions, the
  playback engine, the homing system, the gripper's settle tracker, the per-tick torque budgets and
  the shutdown retreat come built from it.
\<close>

definition new_core ::
  "rt_config \<Rightarrow> joint_conversion list \<Rightarrow> exec_playback \<Rightarrow> homing_system \<Rightarrow> gripper_settle \<Rightarrow> f64 list \<Rightarrow> shutdown_park
   \<Rightarrow> bool \<Rightarrow> u8 option \<Rightarrow> rt_core" where
  "new_core k conv exec homing settle max_step park has_can_gripper can_tool_id =
     \<lparr>rc_tick = 0, rc_mode = M_Booting, rc_state = Arm_Disabled, rc_enabled_request_id = 0, rc_homed = False,
      rc_soft_estop = False, rc_hw_estop = False, rc_estop_standing = False, rc_park_asserted = False, rc_gravity_comp = True,
      rc_not_homed_refused = False, rc_silent = False, rc_has_can_gripper = has_can_gripper,
      rc_errors = new_error_manager (kf_dt k), rc_exec = exec, rc_homing = homing, rc_estop = new_debouncer,
      rc_gate = default_gate, rc_settle = settle, rc_calibrate_pending = False,
      rc_homing_gcmd = (if has_can_gripper then GC_FirmwarePoll else GC_NoGripper), rc_bus_state = new_bus_state, rc_conv = conv,
      rc_ref_check = (zeros, 0), rc_heartbeat = False, rc_hb_silence = 0, rc_payload = (f64_zero, replicate 3 f64_zero, None),
      rc_boot = \<lparr>bt_bus_booted_at = 0, bt_config_repush_armed_at = 0, bt_link_recovered = False, bt_tool_hold = False,
        bt_tool_hold_until = 0, bt_rescan_at = None, bt_rescan_configured = False, bt_can_tool_id = can_tool_id\<rparr>,
      rc_meas = \<lparr>me_sector_done = replicate MAX_JOINTS False,
        me_torque_ma_factor = map (\<lambda>t. cal_factor t (tc_kt_nm_a t)) (kf_torque_cal k), me_q = zeros, me_qd = zeros, me_tau = zeros,
        me_q_filt = zeros, me_qd_filt = zeros, me_tau_filt = zeros, me_tau_ext = zeros, me_filters_seeded = False,
        me_tau_env_over = replicate MAX_JOINTS 0, me_g = zeros, me_rest_ref = None, me_rest_streak = 0,
        me_rest_generation = replicate MAX_JOINTS 0\<rparr>,
      rc_out = \<lparr>ou_setpoints = replicate MAX_JOINTS zero_velocity, ou_cmds = replicate MAX_JOINTS jc_idle,
        ou_mirror = default_mirror, ou_slew = new_torque_slew max_step, ou_q_target = zeros, ou_qd_target = zeros,
        ou_q = zeros, ou_qd = zeros, ou_tau = zeros\<rparr>,
      rc_link = \<lparr>li_tx_failures = 0, li_rx_failures = 0, li_resend_failures = 0, li_resend_pending = 0, li_bus_off_seen = 0,
        li_tx_streak = 0, li_gripper_tx_streak = 0, li_self_heal_armed = replicate NUM_NODES True,
        li_settle_residual_rad = f64_zero\<rparr>,
      rc_jog = \<lparr>jo_active = False, jo_released = False, jo_joints = 0, jo_blocked = 0, jo_accel_scale = f64_one\<rparr>,
      rc_stream = \<lparr>sr_slot = None, sr_sent = 0, sr_released = False, sr_is_shaped = False, sr_commanded = zeros,
        sr_scale = (f64_one, f64_one), sr_last_rx_tick = 0, sr_window_pos = 0, sr_window_applied = 0, sr_sent_base = 0,
        sr_success = 0, sr_discard = 0, sr_filt = zeros\<rparr>,
      rc_scan = \<lparr>sc_next = None, sc_settle = 0, sc_epoch = 0\<rparr>,
      rc_io = \<lparr>io_lines = replicate MAX_IO_LINES 0, io_debounce = replicate MAX_IO_LINES new_debouncer,
        io_out_dirty = (0 < kf_n_io_outputs k)\<rparr>,
      rc_park = park, rc_calls = []\<rparr>"

section \<open>Calls\<close>

definition on_bus :: "bus_call \<Rightarrow> rt_core \<Rightarrow> rt_core" where
  "on_bus b c = c\<lparr>rc_calls := rc_calls c @ [On_bus b]\<rparr>"

definition on_hook :: "hook_call \<Rightarrow> rt_core \<Rightarrow> rt_core" where
  "on_hook h c = c\<lparr>rc_calls := rc_calls c @ [On_hook h]\<rparr>"

definition on_buses :: "bus_call list \<Rightarrow> rt_core \<Rightarrow> rt_core" where
  "on_buses bs c = c\<lparr>rc_calls := rc_calls c @ map On_bus bs\<rparr>"

text \<open>The answer to the next call.\<close>

definition answer :: "env \<Rightarrow> rt_core \<Rightarrow> bool" where
  "answer en c = en_ok en (length (rc_calls c))"

definition core_latch :: "error_code \<Rightarrow> u8 option \<Rightarrow> rt_core \<Rightarrow> rt_core" where
  "core_latch code joint c = c\<lparr>rc_errors := latch (rc_errors c) code joint\<rparr>"

definition core_condition :: "error_code \<Rightarrow> u8 option \<Rightarrow> bool \<Rightarrow> rt_core \<Rightarrow> rt_core" where
  "core_condition code joint active c = c\<lparr>rc_errors := condition (rc_errors c) code joint active\<rparr>"

definition estop_condition :: "rt_core \<Rightarrow> bool" where
  "estop_condition c \<longleftrightarrow> rc_hw_estop c \<or> rc_soft_estop c"

definition gravity_applied :: "rt_core \<Rightarrow> bool" where
  "gravity_applied c \<longleftrightarrow> rc_homed c \<and> rc_state c = Arm_Enabled \<and> rc_gravity_comp c"

definition at_measured_rest :: "rt_config \<Rightarrow> rt_core \<Rightarrow> bool" where
  "at_measured_rest k c \<longleftrightarrow> kf_release_rest_needed k \<le> me_rest_streak (rc_meas c)"

definition latch_key :: "fault \<Rightarrow> error_code" where
  "latch_key f = (case f of
     Flt_Temperature \<Rightarrow> E_Temperature | Flt_Encoder \<Rightarrow> E_Encoder | Flt_Vbus \<Rightarrow> E_Vbus | Flt_Driver \<Rightarrow> E_Driver
   | Flt_Velocity \<Rightarrow> E_Velocity | Flt_Current \<Rightarrow> E_Current | Flt_EstopMotor \<Rightarrow> E_EstopMotor | Flt_Watchdog \<Rightarrow> E_Watchdog)"

definition joint_mask :: "f64 list \<Rightarrow> u8" where
  "joint_mask speeds = foldl (\<lambda>m (i, v). if \<not> f64_eq v f64_zero then m OR push_bit i 1 else m) 0 (enumerate 0 speeds)"

definition node_bit :: "node_id \<Rightarrow> u16" where
  "node_bit n = push_bit (unat n) 1"

end
