(* ===== verification/Core_Modes.thy ===== *)
theory Core_Modes
  imports Core_State
begin

text \<open>
  The mode machine of \<open>par6-rt/src/core.rs\<close>: the gates of a mode request, what entering and leaving
  a mode does, the external commands, and the paths outside a tick (shutdown, a bus swap, the
  simulator's teleport).
\<close>

section \<open>Configuration re-sends\<close>

definition resend_config :: "rt_config \<Rightarrow> env \<Rightarrow> node_id \<Rightarrow> rt_core \<Rightarrow> rt_core" where
  "resend_config k en node c =
     (let ok = answer en c; c = on_bus (Call_resend_node_config node (kf_config_repeats k)) c
      in if ok then rc_link_update (\<lambda>l. l\<lparr>li_resend_pending := li_resend_pending l AND NOT (node_bit node)\<rparr>) c
         else rc_link_update (\<lambda>l. l\<lparr>li_resend_failures := sat_add (li_resend_failures l) 1,
                li_resend_pending := li_resend_pending l OR node_bit node\<rparr>) c)"

definition config_repush :: "rt_config \<Rightarrow> env \<Rightarrow> rt_core \<Rightarrow> rt_core" where
  "config_repush k en c =
     (let c = fold (resend_config k en) (kf_node_of k) c
      in if rc_has_can_gripper c then resend_config k en (kf_gripper_node k) c else c)"

text \<open>\<open>trailing_zeros\<close> of a mask that is not zero: its lowest set bit.\<close>

fun lowest_bit :: "nat \<Rightarrow> nat \<Rightarrow> u16 \<Rightarrow> nat" where
  "lowest_bit 0 i w = i"
| "lowest_bit (Suc n) i w = (if bit w i then i else lowest_bit n (Suc i) w)"

definition trailing_zeros :: "u16 \<Rightarrow> nat" where
  "trailing_zeros w = lowest_bit 16 0 w"

definition drain_config_resends :: "rt_config \<Rightarrow> env \<Rightarrow> rt_core \<Rightarrow> rt_core" where
  "drain_config_resends k en c =
     (if li_resend_pending (rc_link c) = 0 \<or> rc_silent c then c
      else resend_config k en (of_nat (trailing_zeros (li_resend_pending (rc_link c)))) c)"

section \<open>Leaving and entering a mode\<close>

definition leave_mode :: "rt_config \<Rightarrow> env \<Rightarrow> rt_core \<Rightarrow> rt_core" where
  "leave_mode k en c =
     (let c = (case rc_mode c of
        M_Homing \<Rightarrow>
          (if hy_active (rc_homing c) then
             (let (y, calls) = homing_abort (rc_homing c);
                  c = (on_buses calls c)\<lparr>rc_homing := y, rc_homed := False\<rparr>
              in if rc_has_can_gripper c
                 then c\<lparr>rc_gate := force_idle (rc_gate c) (hy_last_fw_cmd (rc_homing c)), rc_settle := disarm (rc_settle c)\<rparr> else c)
           else c)
      | M_Flashing \<Rightarrow>
          (let c = (on_buses [Call_set_silent False, Call_rebase_freshness] c)\<lparr>rc_silent := False\<rparr>;
               c = config_repush k en c;
               c = rc_boot_update (\<lambda>b. b\<lparr>bt_config_repush_armed_at := rc_tick c\<rparr>) c;
               c = (if en_flashed en then c\<lparr>rc_homed := False\<rparr> else c)
           in if rc_has_can_gripper c
              then c\<lparr>rc_gate := force_idle (rc_gate c) None, rc_settle := disarm (rc_settle c)\<rparr> else c)
      | M_Exec \<Rightarrow> (if xp_stopping (rc_exec c) then c\<lparr>rc_exec := finish_stop (rc_exec c)\<rparr> else c)
      | M_Stream \<Rightarrow> rc_stream_update (\<lambda>s. s\<lparr>sr_slot := None\<rparr>) c
      | _ \<Rightarrow> c)
      in c\<lparr>rc_park_asserted := False\<rparr>)"

definition enter_mode :: "rt_config \<Rightarrow> env \<Rightarrow> mode \<Rightarrow> rt_core \<Rightarrow> rt_core" where
  "enter_mode k en target c =
     (let c = leave_mode k en c; q = me_q (rc_meas c);
          c = (case target of
             M_Homing \<Rightarrow>
               (let (y, calls) = homing_start (rc_homing c)
                in on_buses calls (c\<lparr>rc_homed := False, rc_ref_check := (zeros, 0), rc_homing := y\<rparr>))
           | M_Jog \<Rightarrow> rc_jog_update (\<lambda>j. j\<lparr>jo_active := False, jo_released := False, jo_joints := 0, jo_blocked := 0\<rparr>)
               (on_hook (Jog_activate q) c)
           | M_Exec \<Rightarrow> c\<lparr>rc_exec := exec_activate (rc_exec c) q, rc_hb_silence := 0\<rparr>
           | M_Stream \<Rightarrow>
               rc_out_update (\<lambda>u. u\<lparr>ou_q_target := q\<rparr>)
                 (rc_stream_update (\<lambda>s. s\<lparr>sr_commanded := q, sr_is_shaped := False, sr_released := False,
                    sr_last_rx_tick := rc_tick c, sr_window_pos := 0, sr_window_applied := 0, sr_sent_base := sr_sent s,
                    sr_success := 0, sr_discard := 0, sr_filt := q\<rparr>)
                   (on_hook (Stream_activate True q) (on_hook (Stream_activate False q) c)))
           | M_Flashing \<Rightarrow> (on_bus (Call_set_silent True) c)\<lparr>rc_silent := True\<rparr>
           | _ \<Rightarrow> c)
      in c\<lparr>rc_mode := target\<rparr>)"

text \<open>The transition table, and the gates of a request in the order of the source.\<close>

definition transition_allowed :: "mode \<Rightarrow> mode \<Rightarrow> bool" where
  "transition_allowed m target =
     (case m of
        M_Booting \<Rightarrow> target = M_Idle \<or> target = M_SafetyStop
      | M_Idle \<Rightarrow> True
      | M_ActiveError \<Rightarrow> target = M_Idle \<or> target = M_Flashing \<or> target = M_SafetyStop
      | M_SafetyStop \<Rightarrow> target = M_Idle
      | _ \<Rightarrow> target = M_Idle \<or> target = M_SafetyStop)"

definition request_mode :: "rt_config \<Rightarrow> env \<Rightarrow> mode \<Rightarrow> rt_core \<Rightarrow> gate_refusal option \<times> rt_core" where
  "request_mode k en target c =
     (if target = rc_mode c then
        (None, if target = M_Stream \<and> sr_released (rc_stream c)
               then rc_stream_update (\<lambda>s. s\<lparr>sr_released := False, sr_last_rx_tick := rc_tick c\<rparr>) c else c)
      else if target = M_Booting \<or> target = M_ActiveError then (Some InvalidTransition, c)
      else if target = M_HandGuiding \<or> target = M_Impedance then (Some NotImplemented, c)
      else if \<not> transition_allowed (rc_mode c) target then (Some InvalidTransition, c)
      else if target = M_Idle \<or> target = M_SafetyStop then (None, enter_mode k en target c)
      else if target = M_Flashing then
        (if \<not> rc_park_asserted c then (Some ParkAssertionRequired, c) else (None, enter_mode k en target c))
      else if rc_state c \<noteq> Arm_Enabled then (Some NotEnabled, c)
      else if any_hard (rc_errors c) then (Some ErrorsActive, c)
      else if (target = M_Stream \<or> target = M_Exec) \<and> \<not> rc_homed c
        then (Some NotHomed, c\<lparr>rc_not_homed_refused := True\<rparr>)
      else (None, enter_mode k en target c))"

definition rest_into_hold :: "rt_config \<Rightarrow> env \<Rightarrow> f64 list \<Rightarrow> rt_core \<Rightarrow> rt_core" where
  "rest_into_hold k en at c =
     (if \<not> (rc_homed c \<and> rc_state c = Arm_Enabled \<and> \<not> any_hard (rc_errors c)) then enter_mode k en M_Idle c
      else
        (let c = leave_mode k en c
         in c\<lparr>rc_exec := exec_activate (rc_exec c) at, rc_hb_silence := 0, rc_mode := M_Exec\<rparr>))"

section \<open>Clearing errors\<close>

definition entry_node :: "rt_config \<Rightarrow> u8 \<Rightarrow> node_id" where
  "entry_node k j = (if unat j < MAX_JOINTS then kf_node_of k ! unat j else kf_gripper_node k)"

fun clear_nodes :: "rt_config \<Rightarrow> error_entry list \<Rightarrow> node_id set \<Rightarrow> rt_core \<Rightarrow> node_id set \<times> rt_core" where
  "clear_nodes k [] cleared c = (cleared, c)"
| "clear_nodes k (e # es) cleared c =
     (case ee_joint e of
        None \<Rightarrow> clear_nodes k es cleared c
      | Some j \<Rightarrow>
          (let node = entry_node k j in
           if node \<in> cleared then clear_nodes k es cleared c
           else clear_nodes k es (insert node cleared)
                  (on_buses [Call_send_clear_error node CLEAR_ERROR_REPEATS, Call_clear_lost_latch node] c)))"

definition core_begin_clear :: "rt_config \<Rightarrow> rt_core \<Rightarrow> rt_core" where
  "core_begin_clear k c =
     (let (cleared, c) = clear_nodes k (as_slice (em_list (rc_errors c))) {} c;
          c = (if rc_has_can_gripper c \<and> kf_gripper_node k \<notin> cleared
               then on_bus (Call_send_clear_error (kf_gripper_node k) CLEAR_ERROR_REPEATS) c else c);
          c = rc_bus_state_update (\<lambda>s. s\<lparr>bs_nodes := map (\<lambda>n. n\<lparr>ns_error_flags := None\<rparr>) (bs_nodes s)\<rparr>) c
      in c\<lparr>rc_not_homed_refused := False, rc_homing := clear_faults (rc_homing c), rc_errors := begin_clear (rc_errors c)\<rparr>)"

section \<open>The gripper, the outputs\<close>

definition gripper_halt_in_place :: "rt_core \<Rightarrow> rt_core" where
  "gripper_halt_in_place c =
     (let release = c\<lparr>rc_gate := gate_idle (rc_gate c), rc_settle := arm_idle (rc_settle c) (rc_tick c)\<rparr>
      in case gs_reply (bs_gripper (rc_bus_state c)) of
           Some r \<Rightarrow> (if gr_calibrated r \<and> has_standing (rc_gate c)
                      then c\<lparr>rc_gate := stop_at (rc_gate c) (gr_position r), rc_settle := arm_hold (rc_settle c) (rc_tick c)\<rparr>
                      else release)
         | None \<Rightarrow> release)"

definition set_io_output :: "rt_config \<Rightarrow> u8 \<Rightarrow> u8 \<Rightarrow> rt_core \<Rightarrow> rt_core" where
  "set_io_output k port v c =
     (if kf_n_io_outputs k \<le> unat port then c
      else
        (let slot = kf_n_io_inputs k + unat port; level = (if v \<noteq> 0 then 1 else 0)
         in if io_lines (rc_io c) ! slot \<noteq> level
            then rc_io_update (\<lambda>i. i\<lparr>io_lines := (io_lines i)[slot := level], io_out_dirty := True\<rparr>) c else c))"

definition drive_io_outputs :: "rt_config \<Rightarrow> rt_core \<Rightarrow> rt_core" where
  "drive_io_outputs k c =
     (if \<not> io_out_dirty (rc_io c) then c
      else rc_io_update (\<lambda>i. i\<lparr>io_out_dirty := False\<rparr>)
             (on_hook (Io_write_outputs (take (kf_n_io_outputs k) (drop (kf_n_io_inputs k) (io_lines (rc_io c))))) c))"

fun read_levels :: "u8 list \<Rightarrow> nat \<Rightarrow> io_part \<Rightarrow> io_part" where
  "read_levels [] i io = io"
| "read_levels (raw # rest) i io =
     (let (level, d) = db_update (io_debounce io ! i) (raw \<noteq> 0)
      in read_levels rest (Suc i) (io\<lparr>io_lines := (io_lines io)[i := if level then 1 else 0],
           io_debounce := (io_debounce io)[i := d]\<rparr>))"

definition read_io_inputs :: "rt_config \<Rightarrow> env \<Rightarrow> rt_core \<Rightarrow> rt_core" where
  "read_io_inputs k en c =
     (if kf_n_io_inputs k = 0 then c
      else rc_io_update (read_levels (take (kf_n_io_inputs k) (en_io_levels en)) 0) c)"

section \<open>External commands\<close>

definition stop_command :: "rt_config \<Rightarrow> env \<Rightarrow> rt_core \<Rightarrow> rt_core" where
  "stop_command k en c =
     (case rc_mode c of
        M_Exec \<Rightarrow> c\<lparr>rc_exec := begin_stop (rc_exec c)\<rparr>
      | M_Homing \<Rightarrow> (let c = snd (request_mode k en M_Idle c) in c\<lparr>rc_exec := snd (exec_flush (rc_exec c))\<rparr>)
      | _ \<Rightarrow> c\<lparr>rc_exec := snd (exec_flush (rc_exec c))\<rparr>)"

definition jog_command :: "f64 list \<Rightarrow> f64 \<Rightarrow> rt_core \<Rightarrow> rt_core" where
  "jog_command speeds accel c =
     (if rc_mode c = M_Jog then
        (let c = (if \<not> f64_eq (jo_accel_scale (rc_jog c)) accel
                  then rc_jog_update (\<lambda>j. j\<lparr>jo_accel_scale := accel\<rparr>) (on_hook (Jog_set_accel_scale accel) c) else c)
         in rc_jog_update (\<lambda>j. j\<lparr>jo_active := True, jo_released := False, jo_joints := joint_mask speeds\<rparr>)
              (on_hook (Jog_command speeds) c))
      else c)"

definition enable_command :: "u64 \<Rightarrow> rt_core \<Rightarrow> rt_core" where
  "enable_command request_id c =
     (if rc_mode c = M_Booting then c
      else if estop_condition c \<or> any_hard (rc_errors c) then c
      else if clearing (rc_errors c) then c
      else c\<lparr>rc_state := Arm_Enabled, rc_enabled_request_id := request_id\<rparr>)"

definition gripper_command_in :: "rt_core \<Rightarrow> firmware_gripper_command \<Rightarrow> rt_core" where
  "gripper_command_in c fw =
     (if rc_has_can_gripper c then
        (let at = (case gs_reply (bs_gripper (rc_bus_state c)) of Some r \<Rightarrow> gr_position r | None \<Rightarrow> 0)
         in c\<lparr>rc_gate := gate_set (rc_gate c) fw, rc_settle := arm_move (rc_settle c) (rc_tick c) (fg_position fw) at\<rparr>)
      else c)"

definition apply_command :: "rt_config \<Rightarrow> env \<Rightarrow> rt_command \<Rightarrow> rt_core \<Rightarrow> rt_core" where
  "apply_command k en cmd c =
     (case cmd of
        Rt_SetMode target \<Rightarrow> (if target = M_Idle \<and> bt_tool_hold (rc_boot c) then c else snd (request_mode k en target c))
      | Rt_Enable request_id \<Rightarrow> enable_command request_id c
      | Rt_Disable \<Rightarrow> c\<lparr>rc_state := Arm_Disabled\<rparr>
      | Rt_ClearErrors \<Rightarrow> core_begin_clear k c
      | Rt_SetSoftEstop on \<Rightarrow> c\<lparr>rc_soft_estop := on\<rparr>
      | Rt_AssertParked \<Rightarrow> c\<lparr>rc_park_asserted := True\<rparr>
      | Rt_Jog speeds accel \<Rightarrow> jog_command speeds accel c
      | Rt_JogRelease \<Rightarrow> rc_jog_update (\<lambda>j. j\<lparr>jo_active := False, jo_released := True, jo_joints := 0\<rparr>) (on_hook Jog_release c)
      | Rt_StreamRelease \<Rightarrow>
          (if rc_mode c = M_Stream
           then rc_stream_update (\<lambda>s. s\<lparr>sr_released := True\<rparr>) (on_hook (Stream_release (sr_is_shaped (rc_stream c))) c) else c)
      | Rt_ExecSetPaused paused \<Rightarrow> c\<lparr>rc_exec := set_paused (rc_exec c) paused\<rparr>
      | Rt_ExecSetSpeedScale scale \<Rightarrow> c\<lparr>rc_exec := snd (set_speed_scale (rc_exec c) scale)\<rparr>
      | Rt_ExecFlush \<Rightarrow> c\<lparr>rc_exec := snd (exec_flush (rc_exec c))\<rparr>
      | Rt_ExecStop \<Rightarrow> stop_command k en c
      | Rt_Hold \<Rightarrow>
          (case rc_mode c of
             M_Jog \<Rightarrow> rest_into_hold k en (ou_q_target (rc_out c)) c
           | M_Stream \<Rightarrow> rest_into_hold k en (sr_commanded (rc_stream c)) c
           | _ \<Rightarrow> c)
      | Rt_Gripper fw \<Rightarrow> gripper_command_in c fw
      | Rt_GripperCalibrate \<Rightarrow>
          (if rc_has_can_gripper c
           then c\<lparr>rc_gate := reset_to_poll (rc_gate c), rc_calibrate_pending := True,
                  rc_settle := arm_calibrate (rc_settle c) (rc_tick c)\<rparr> else c)
      | Rt_GripperStop \<Rightarrow> (if rc_has_can_gripper c then gripper_halt_in_place c else c)
      | Rt_GripperIdle \<Rightarrow>
          (if rc_has_can_gripper c
           then c\<lparr>rc_gate := gate_idle (rc_gate c), rc_settle := arm_idle (rc_settle c) (rc_tick c)\<rparr> else c)
      | Rt_SetGravityComp on \<Rightarrow>
          (let c = c\<lparr>rc_gravity_comp := on\<rparr>
           in if on \<and> rc_mode c = M_Exec \<and> is_holding_after_completion (rc_exec c) then snd (request_mode k en M_Idle c) else c)
      | Rt_SetPayload mass com inertia \<Rightarrow>
          on_hook (Gravity_set_payload mass com inertia) (c\<lparr>rc_payload := (mass, com, inertia)\<rparr>)
      | Rt_WriteIo port v \<Rightarrow> set_io_output k port v c
      | Rt_SetCanId node new_id \<Rightarrow> on_bus (Call_set_can_id node new_id) c
      | Rt_SaveConfig node \<Rightarrow> on_bus (Call_save_config node) c
      | Rt_SetToolId node tool_id \<Rightarrow>
          (if answer en c then on_bus (Call_save_config node) (on_bus (Call_set_tool_id node tool_id) c)
           else on_bus (Call_set_tool_id node tool_id) c)
      | Rt_RescanBus \<Rightarrow> (if rc_silent c then c else rc_scan_update (\<lambda>s. s\<lparr>sc_next := Some 0, sc_settle := 0\<rparr>) c)
      | Rt_RetuneNode node tune \<Rightarrow>
          (if answer en c then (on_bus (Call_retune_node node tune (kf_config_repeats k)) c)\<lparr>rc_homing := hy_retune (rc_homing c) node tune\<rparr>
           else on_bus (Call_retune_node node tune (kf_config_repeats k)) c))"

end
