(* ===== verification/Core_Tick.thy ===== *)
theory Core_Tick
  imports Core_Modes
begin

text \<open>
  One tick of the core, \<open>RtCore::tick\<close> of \<open>par6-rt/src/core.rs\<close>, in the phases of the source:
  pins, boot one-shots, at most one command, the drain and the measured state, the error checks and
  their reaction, the mode's law and the frames it sends, the clear countdown.
\<close>

section \<open>Boot\<close>

definition unfitted_drive_tool :: "rt_config \<Rightarrow> env \<Rightarrow> rt_core \<Rightarrow> u8 option" where
  "unfitted_drive_tool k en c =
     (if en_simulated en then None
      else case ns_device_info (bs_node (rc_bus_state c) (kf_gripper_node k)) of
             None \<Rightarrow> None
           | Some d \<Rightarrow> (if di_tool_id d = 0 then None
                        else if bt_can_tool_id (rc_boot c) \<noteq> Some (di_tool_id d) then Some (di_tool_id d) else None))"

definition gripper_present :: "rt_config \<Rightarrow> env \<Rightarrow> bool" where
  "gripper_present k en \<longleftrightarrow> en_connected en AND node_bit (kf_gripper_node k) \<noteq> 0"

definition release_tool_hold :: "rt_config \<Rightarrow> env \<Rightarrow> rt_core \<Rightarrow> rt_core" where
  "release_tool_hold k en c =
     (if rc_mode c \<noteq> M_Booting then rc_boot_update (\<lambda>b. b\<lparr>bt_tool_hold := False\<rparr>) c
      else
        (let unheard = \<not> en_simulated en \<and> gripper_present k en
               \<and> ns_device_info (bs_node (rc_bus_state c) (kf_gripper_node k)) = None
         in if unheard \<and> rc_tick c < bt_tool_hold_until (rc_boot c) then c
            else case unfitted_drive_tool k en c of
                   Some _ \<Rightarrow> c
                 | None \<Rightarrow> snd (request_mode k en M_Idle (rc_boot_update (\<lambda>b. b\<lparr>bt_tool_hold := False\<rparr>) c))))"

definition adopt_kt :: "rt_config \<Rightarrow> rt_core \<Rightarrow> nat \<Rightarrow> f64 option" where
  "adopt_kt k c i =
     (case ns_kt_nm_a (bs_node (rc_bus_state c) (kf_node_of k ! i)) of
        None \<Rightarrow> None
      | Some reply \<Rightarrow>
          (let kt = f64_of_f32 reply; own = tc_kt_nm_a (kf_torque_cal k ! i)
           in if is_finite kt \<and> f64_lt f64_zero kt
                 \<and> f64_le kt (f64_mul own KT_FAMILY_FACTOR) \<and> f64_le (f64_div own KT_FAMILY_FACTOR) kt
              then Some kt else None))"

definition adopt_driver_kt :: "rt_config \<Rightarrow> rt_core \<Rightarrow> rt_core" where
  "adopt_driver_kt k c =
     rc_meas_update (\<lambda>m. m\<lparr>me_torque_ma_factor := map (\<lambda>i. case adopt_kt k c i of
        Some kt \<Rightarrow> cal_factor (kf_torque_cal k ! i) kt | None \<Rightarrow> me_torque_ma_factor m ! i) joints\<rparr>) c"

definition latch_missing :: "rt_config \<Rightarrow> env \<Rightarrow> rt_core \<Rightarrow> rt_core" where
  "latch_missing k en c =
     (let c = fold (\<lambda>i c. if en_connected en AND node_bit (kf_node_of k ! i) = 0
                          then core_latch E_CanLost (Some (of_nat i)) c else c) joints c
      in if rc_has_can_gripper c \<and> \<not> gripper_present k en then core_latch E_CanLost (Some GRIPPER_ERR_IDX) c else c)"

text \<open>\<open>Inl\<close> is the early return after a link cycle.\<close>

definition selfcheck :: "rt_config \<Rightarrow> env \<Rightarrow> rt_core \<Rightarrow> rt_core + rt_core" where
  "selfcheck k en c =
     (let c = rc_boot_update (\<lambda>b. b\<lparr>bt_rescan_at := None\<rparr>) c;
          arm_mask = foldl (\<lambda>m node. m OR node_bit node) 0 (kf_node_of k);
          deaf = (en_connected en AND arm_mask = 0 \<and> \<not> bt_link_recovered (rc_boot c));
          c = (if deaf then on_bus Call_recover_link c else c)
      in if deaf \<and> en_recover en
         then Inl (rc_boot_update (\<lambda>b. b\<lparr>bt_link_recovered := True, bt_config_repush_armed_at := rc_tick c,
                     bt_rescan_at := Some (rc_tick c + kf_link_settle_ticks k)\<rparr>) c)
         else
           (let c = latch_missing k en c;
                c = (if kf_kt_auto k then adopt_driver_kt k c else c)
            in Inr (if rc_mode c = M_Booting
                    then (let c = rc_boot_update (\<lambda>b. b\<lparr>bt_tool_hold := True,
                                bt_tool_hold_until := rc_tick c + of_nat (kf_tx_fault_latch_ticks k)\<rparr>) c
                          in if \<not> en_simulated en \<and> gripper_present k en
                             then on_bus (Call_queue_poll_override (PA_Poll (kf_gripper_node k) Poll_DeviceInfo) 1) c else c)
                    else c)))"

definition boot_oneshots :: "rt_config \<Rightarrow> env \<Rightarrow> rt_core \<Rightarrow> rt_core" where
  "boot_oneshots k en c =
     (let rescan = (bt_rescan_at (rc_boot c) = Some (rc_tick c)) in
      if rescan \<and> \<not> bt_rescan_configured (rc_boot c)
      then rc_boot_update (\<lambda>b. b\<lparr>bt_rescan_configured := True, bt_rescan_at := Some (rc_tick c + 1)\<rparr>) (on_bus Call_boot_configure c)
      else
        (case (if rc_tick c - bt_bus_booted_at (rc_boot c) = kf_boot_selfcheck_tick k \<or> rescan then selfcheck k en c else Inr c) of
           Inl c \<Rightarrow> c
         | Inr c \<Rightarrow>
             (let c = (if bt_tool_hold (rc_boot c) then release_tool_hold k en c else c);
                  since_armed = rc_tick c - bt_config_repush_armed_at (rc_boot c);
                  c = (if since_armed \<in> set (kf_config_resend_ticks k) \<and> \<not> rc_silent c then config_repush k en c else c)
              in drain_config_resends k en c)))"

section \<open>The measured state\<close>

definition derive_joint :: "rt_config \<Rightarrow> nat \<Rightarrow> rt_core \<Rightarrow> rt_core" where
  "derive_joint k i c =
     (let node = bs_node (rc_bus_state c) (kf_node_of k ! i);
          c = (case ns_position_ticks node of
             None \<Rightarrow> c
           | Some pos \<Rightarrow>
               (let c = (if \<not> me_sector_done (rc_meas c) ! i
                         then rc_meas_update (\<lambda>m. m\<lparr>me_sector_done := (me_sector_done m)[i := True]\<rparr>)
                                (c\<lparr>rc_conv := (rc_conv c)[i := determine_sector (rc_conv c ! i) pos]\<rparr>) else c)
                in rc_meas_update (\<lambda>m. m\<lparr>me_q := (me_q m)[i := joint_rad (rc_conv c ! i) pos]\<rparr>) c));
          c = (case ns_speed_ticks_s node of
             None \<Rightarrow> c
           | Some spd \<Rightarrow> rc_meas_update (\<lambda>m. m\<lparr>me_qd := (me_qd m)[i := joint_speed_rad_s (rc_conv c ! i) (f64_of_i32 spd)]\<rparr>) c)
      in case ns_current_ma node of
           None \<Rightarrow> c
         | Some cur \<Rightarrow> rc_meas_update (\<lambda>m. m\<lparr>me_tau := (me_tau m)[i := f64_div (f64_of_i32 (scast cur)) (me_torque_ma_factor m ! i)]\<rparr>) c)"

definition smooth :: "f64 list \<Rightarrow> f64 list \<Rightarrow> f64 list" where
  "smooth filt x = map2 (\<lambda>f v. f64_add f (f64_mul MEAS_FILTER_ALPHA (f64_sub v f))) filt x"

definition update_filters :: "meas_part \<Rightarrow> meas_part" where
  "update_filters m =
     (if \<not> me_filters_seeded m then
        (if list_all id (me_sector_done m)
         then m\<lparr>me_q_filt := me_q m, me_qd_filt := me_qd m, me_tau_filt := me_tau m, me_filters_seeded := True\<rparr> else m)
      else m\<lparr>me_q_filt := smooth (me_q_filt m) (me_q m), me_qd_filt := smooth (me_qd_filt m) (me_qd m),
             me_tau_filt := smooth (me_tau_filt m) (me_tau m)\<rparr>)"

definition update_rest :: "rt_config \<Rightarrow> bus_state \<Rightarrow> meas_part \<Rightarrow> meas_part" where
  "update_rest k s m =
     (let held = (case me_rest_ref m of
                    None \<Rightarrow> False
                  | Some ref \<Rightarrow> list_all (\<lambda>(q, r). f64_le (f64_abs (f64_sub q r)) RELEASE_REST_BAND_RAD) (zip (me_q m) ref));
          node = (\<lambda>i. bs_node s (kf_node_of k ! i));
          fresh = list_all (\<lambda>i. ns_position_ticks (node i) \<noteq> None
                     \<and> ns_position_generation (node i) \<noteq> me_rest_generation m ! i) joints;
          m = m\<lparr>me_rest_generation := map (\<lambda>i. ns_position_generation (node i)) joints\<rparr>
      in if held \<and> fresh then m\<lparr>me_rest_streak := sat_add (me_rest_streak m) 1\<rparr>
         else if held then m\<lparr>me_rest_streak := 0\<rparr>
         else m\<lparr>me_rest_ref := Some (me_q m), me_rest_streak := 0\<rparr>)"

definition mask_gripper :: "rt_config \<Rightarrow> bus_state \<Rightarrow> bus_state" where
  "mask_gripper k s =
     (bs_set_node s (kf_gripper_node k) (default_node\<lparr>ns_device_info := ns_device_info (bs_node s (kf_gripper_node k))\<rparr>))
       \<lparr>bs_gripper := default_gripper_state\<rparr>"

definition drain_and_derive :: "rt_config \<Rightarrow> env \<Rightarrow> rt_core \<Rightarrow> rt_core" where
  "drain_and_derive k en c =
     (let c = (on_bus Call_drain_rx c)\<lparr>rc_bus_state := en_drained en\<rparr>;
          c = (if en_drain_ok en then c else rc_link_update (\<lambda>l. l\<lparr>li_rx_failures := sat_add (li_rx_failures l) 1\<rparr>) c);
          c = (if rc_has_can_gripper c then c else c\<lparr>rc_bus_state := mask_gripper k (rc_bus_state c)\<rparr>);
          c = fold (derive_joint k) joints c
      in rc_meas_update (update_rest k (rc_bus_state c) \<circ> update_filters) c)"

definition refresh_gravity :: "rt_config \<Rightarrow> env \<Rightarrow> rt_core \<Rightarrow> rt_core" where
  "refresh_gravity k en c = rc_meas_update (\<lambda>m. m\<lparr>me_g := map2 f64_mul (en_gravity en) (kf_gravity_scale k)\<rparr>) c"

section \<open>Error checks\<close>

definition check_estop :: "rt_core \<Rightarrow> rt_core" where
  "check_estop c =
     (let c = (if rc_hw_estop c then core_latch E_Estop None c else c);
          c = (if rc_soft_estop c then core_latch E_SwEstop None c else c);
          estop = estop_condition c;
          c = (if estop \<and> \<not> rc_estop_standing c \<and> rc_has_can_gripper c \<and> holding (rc_gate c)
               then gripper_halt_in_place c else c)
      in c\<lparr>rc_estop_standing := estop\<rparr>)"

definition check_loop :: "loop_health \<Rightarrow> rt_core \<Rightarrow> rt_core" where
  "check_loop health c =
     (let c = core_condition E_LoopDegraded None (health = Loop_Degraded) c
      in if health = Loop_Critical then core_latch E_LoopCritical None c else c)"

definition check_link :: "link_health \<Rightarrow> rt_core \<Rightarrow> rt_core" where
  "check_link l c =
     (let c = (if lh_state l = Link_BusOff \<or> lh_bus_off_events l \<noteq> li_bus_off_seen (rc_link c)
               then core_latch E_BusOff None (rc_link_update (\<lambda>x. x\<lparr>li_bus_off_seen := lh_bus_off_events l\<rparr>) c) else c)
      in core_condition E_LinkErrorPassive None (lh_state l = Link_ErrorPassive) c)"

definition check_torque_joint :: "rt_config \<Rightarrow> bool \<Rightarrow> nat \<Rightarrow> rt_core \<Rightarrow> rt_core" where
  "check_torque_joint k enforce i c =
     (let ff = (if rc_mode c = M_Exec then ou_tau (rc_out c) ! i else f64_zero)
      in if enforce \<and> f64_lt (kf_tau_env_margin_nm k) (f64_abs (f64_sub (me_tau_ext (rc_meas c) ! i) ff)) then
           (let n = sat_add (me_tau_env_over (rc_meas c) ! i) 1;
                c = rc_meas_update (\<lambda>m. m\<lparr>me_tau_env_over := (me_tau_env_over m)[i := n]\<rparr>) c
            in if kf_tau_env_window_ticks k \<le> n then core_latch E_TorqueEnvelope (Some (of_nat i)) c else c)
         else rc_meas_update (\<lambda>m. m\<lparr>me_tau_env_over := (me_tau_env_over m)[i := 0]\<rparr>) c)"

definition check_torque :: "rt_config \<Rightarrow> rt_core \<Rightarrow> rt_core" where
  "check_torque k c =
     (if f64_lt f64_zero (kf_tau_env_margin_nm k)
      then fold (check_torque_joint k (rc_homed c \<and> rc_state c = Arm_Enabled \<and> rc_mode c \<in> {M_Idle, M_Jog, M_Stream, M_Exec})) joints c
      else c)"

definition freshness_check :: "env \<Rightarrow> node_id \<times> u8 \<Rightarrow> rt_core \<Rightarrow> rt_core" where
  "freshness_check en = (\<lambda>(node, err_idx) c.
     (let f = en_fresh en node;
          c = core_condition E_CanStale (Some err_idx) (f = Fresh_Stale) c;
          c = (if f = Fresh_Lost then (core_latch E_CanLost (Some err_idx) c)\<lparr>rc_homed := False\<rparr> else c)
      in case f of
           Fresh_Fresh \<Rightarrow> rc_link_update (\<lambda>l. l\<lparr>li_self_heal_armed := (li_self_heal_armed l)[unat err_idx := True]\<rparr>) c
         | Fresh_Unknown \<Rightarrow> c
         | _ \<Rightarrow> (if li_self_heal_armed (rc_link c) ! unat err_idx
                 then on_bus (Call_queue_poll_override (PA_ResendConfig node) 1)
                        (rc_link_update (\<lambda>l. l\<lparr>li_self_heal_armed := (li_self_heal_armed l)[unat err_idx := False]\<rparr>) c)
                 else c)))"

definition motor_flag_check :: "node_id \<times> u8 \<Rightarrow> rt_core \<Rightarrow> rt_core" where
  "motor_flag_check = (\<lambda>(node, err_idx) c.
     (let n = bs_node (rc_bus_state c) node in
      if \<not> ns_live_error_bit n then c
      else case ns_error_flags n of
             None \<Rightarrow> c
           | Some flags \<Rightarrow> fold (\<lambda>fault. core_latch (latch_key fault) (Some err_idx)) (faults flags) c))"

definition arm_nodes :: "rt_config \<Rightarrow> (node_id \<times> u8) list" where
  "arm_nodes k = map (\<lambda>i. (kf_node_of k ! i, of_nat i)) joints"

definition check_tx :: "rt_config \<Rightarrow> rt_core \<Rightarrow> rt_core" where
  "check_tx k c =
     (let c = (if kf_tx_fault_latch_ticks k \<le> li_tx_streak (rc_link c) then
                 (let c = fold (\<lambda>i. core_latch E_CanLost (Some (of_nat i))) joints c
                  in if rc_has_can_gripper c then core_latch E_CanLost (Some GRIPPER_ERR_IDX) c else c) else c)
      in if rc_has_can_gripper c \<and> kf_tx_fault_latch_ticks k \<le> li_gripper_tx_streak (rc_link c)
         then core_latch E_CanLost (Some GRIPPER_ERR_IDX) c else c)"

definition check_gripper_reply :: "rt_core \<Rightarrow> rt_core" where
  "check_gripper_reply c =
     (let g = bs_gripper (rc_bus_state c) in
      case gs_reply g of
        Some r \<Rightarrow> (if gs_live_error_bit g \<and> (gr_temperature_error r \<or> gr_timeout_error r \<or> gr_estop_error r)
                   then core_latch E_GripperFault (Some GRIPPER_ERR_IDX) c else c)
      | None \<Rightarrow> c)"

definition check_bus :: "rt_config \<Rightarrow> env \<Rightarrow> rt_core \<Rightarrow> rt_core" where
  "check_bus k en c =
     (if rc_silent c then c
      else
        (let c = check_tx k c;
             c = fold (freshness_check en) (arm_nodes k) c;
             c = (if rc_has_can_gripper c then freshness_check en (kf_gripper_node k, GRIPPER_ERR_IDX) c else c);
             mask = bs_reconnected_mask (rc_bus_state c);
             c = fold (\<lambda>n c. if bit mask n then resend_config k en (of_nat n) c else c) [0..<MAX_NODES] c;
             c = fold motor_flag_check (arm_nodes k) c
         in if rc_has_can_gripper c
            then check_gripper_reply (motor_flag_check (kf_gripper_node k, GRIPPER_ERR_IDX) c) else c))"

definition check_exec_link :: "rt_config \<Rightarrow> rt_core \<Rightarrow> rt_core" where
  "check_exec_link k c =
     (if rc_mode c = M_Exec then
        (let n = (if rc_heartbeat c then 0 else sat_add (rc_hb_silence c) 1);
             c = c\<lparr>rc_heartbeat := False, rc_hb_silence := n\<rparr>
         in if 0 < samples_remaining (xp_ring (rc_exec c)) \<and> \<not> xp_stopping (rc_exec c) \<and> kf_hb_timeout_ticks k \<le> n
            then core_latch E_ExecLinkLost None c else c)
      else c)"

definition check_stream_link :: "rt_config \<Rightarrow> rt_core \<Rightarrow> rt_core" where
  "check_stream_link k c =
     (if rc_mode c = M_Stream \<and> \<not> sr_released (rc_stream c)
         \<and> of_nat (kf_stream_timeout_ticks k) \<le> saturating_sub (rc_tick c) (sr_last_rx_tick (rc_stream c))
      then core_latch E_RtiLinkLost None c else c)"

definition check_homing :: "rt_core \<Rightarrow> rt_core" where
  "check_homing c =
     (let c = fold (\<lambda>i. core_condition E_HomingFailed (Some (of_nat i)) (hy_statuses (rc_homing c) ! i = HJ_Failed)) [0..<NUM_NODES] c;
          c = (if hy_cal_failed (rc_homing c) then core_latch E_GripperCalibrationFailed (Some GRIPPER_ERR_IDX) c else c)
      in core_condition E_NotHomed None (rc_not_homed_refused c) c)"

definition react :: "rt_config \<Rightarrow> env \<Rightarrow> rt_core \<Rightarrow> rt_core" where
  "react k en c =
     (if any_hard (rc_errors c) then
        (let c = (if rc_mode c \<noteq> M_Booting then c\<lparr>rc_state := Arm_Disabled\<rparr> else c)
         in if rc_mode c \<in> {M_ActiveError, M_Flashing, M_SafetyStop} then c else enter_mode k en M_ActiveError c)
      else if rc_mode c = M_ActiveError then enter_mode k en M_Idle c
      else c)"

definition check_errors :: "rt_config \<Rightarrow> env \<Rightarrow> rt_core \<Rightarrow> rt_core" where
  "check_errors k en c =
     (let c = check_estop c;
          c = check_loop (en_health en) c;
          c = check_link (en_link en) c;
          c = check_torque k c;
          c = check_bus k en c;
          c = check_exec_link k c;
          c = check_stream_link k c;
          c = check_homing c
      in react k en c)"

end
