(* ===== verification/Core_Dispatch.thy ===== *)
theory Core_Dispatch
  imports Core_Tick
begin

text \<open>
  Phase 8 of the tick, the law of the mode and the frames it sends, the tick itself, and the
  operations outside a tick: \<open>dispatch_and_send\<close>, \<open>tick\<close>, the shutdown path, \<open>replace_bus\<close>,
  \<open>set_gripper_tool\<close> and the simulator's teleport of \<open>par6-rt/src/core.rs\<close>.
\<close>

section \<open>Frames\<close>

definition send_joints :: "env \<Rightarrow> rt_core \<Rightarrow> rt_core" where
  "send_joints en c =
     (let ok = answer en c; c = on_bus (Call_send_joint_commands (ou_cmds (rc_out c))) c
      in if ok then rc_link_update (\<lambda>l. l\<lparr>li_tx_streak := 0\<rparr>) c
         else rc_link_update (\<lambda>l. l\<lparr>li_tx_failures := sat_add (li_tx_failures l) 1, li_tx_streak := sat_add (li_tx_streak l) 1\<rparr>) c)"

definition send_gripper :: "env \<Rightarrow> gripper_command \<Rightarrow> rt_core \<Rightarrow> rt_core" where
  "send_gripper en cmd c =
     (let ok = answer en c; c = on_bus (Call_send_gripper cmd) c
      in if ok then rc_link_update (\<lambda>l. l\<lparr>li_gripper_tx_streak := 0\<rparr>) c
         else rc_link_update (\<lambda>l. l\<lparr>li_tx_failures := sat_add (li_tx_failures l) 1,
                li_gripper_tx_streak := sat_add (li_gripper_tx_streak l) 1\<rparr>) c)"

definition step_scan :: "rt_config \<Rightarrow> rt_core \<Rightarrow> rt_core" where
  "step_scan k c =
     (case sc_next (rc_scan c) of
        Some n \<Rightarrow>
          rc_scan_update (\<lambda>s. if unat n + 1 < MAX_NODES then s\<lparr>sc_next := Some (n + 1)\<rparr>
              else s\<lparr>sc_next := None, sc_settle := kf_scan_settle_ticks k\<rparr>)
            (on_bus (Call_queue_poll_override (PA_Poll n Poll_Ping) 1) c)
      | None \<Rightarrow>
          (if 0 < sc_settle (rc_scan c)
           then rc_scan_update (\<lambda>s. s\<lparr>sc_settle := sc_settle s - 1,
                  sc_epoch := (if sc_settle s - 1 = 0 then sc_epoch s + 1 else sc_epoch s)\<rparr>) c
           else c))"

definition end_slots :: "rt_config \<Rightarrow> env \<Rightarrow> gripper_command \<Rightarrow> rt_core \<Rightarrow> rt_core" where
  "end_slots k en gcmd c = on_bus Call_poll_step (step_scan k (send_gripper en gcmd c))"

section \<open>Homing\<close>

definition check_reference :: "rt_config \<Rightarrow> env \<Rightarrow> rt_core \<Rightarrow> bool \<times> rt_core" where
  "check_reference k en c =
     (let (sum, n) = rc_ref_check c in
      if kf_ref_check_nm k = [] \<or> n = 0 \<or> \<not> en_describes_arm en then (False, c)
      else
        (let residuals = map (\<lambda>s. f64_div s (f64_of_nat n)) sum;
             bad = map fst (filter (\<lambda>(j, residual, bound). f64_lt bound (f64_abs residual))
                      (enumerate 0 (zip residuals (kf_ref_check_nm k))))
         in (bad \<noteq> [], c\<lparr>rc_homing := fold (\<lambda>j y. fail_reference y j) bad (rc_homing c)\<rparr>)))"

definition hand_back_gripper :: "rt_core \<Rightarrow> rt_core" where
  "hand_back_gripper c =
     (if rc_has_can_gripper c
      then c\<lparr>rc_gate := force_idle (rc_gate c) (hy_last_fw_cmd (rc_homing c)), rc_settle := disarm (rc_settle c)\<rparr> else c)"

definition homing_outcome :: "rt_config \<Rightarrow> env \<Rightarrow> seq_status \<Rightarrow> rt_core \<Rightarrow> rt_core" where
  "homing_outcome k en status c =
     (case status of
        Seq_Checking \<Rightarrow> c\<lparr>rc_ref_check := (map2 f64_add (fst (rc_ref_check c)) (me_tau_ext (rc_meas c)), Suc (snd (rc_ref_check c)))\<rparr>
      | Seq_Complete \<Rightarrow>
          (let (refused, c) = check_reference k en c;
               referenced = list_all (\<lambda>i. hy_statuses (rc_homing c) ! i = HJ_Done) joints;
               c = (if referenced then c\<lparr>rc_homed := True, rc_not_homed_refused := False\<rparr> else c\<lparr>rc_homed := False\<rparr>)
           in enter_mode k en M_Idle (hand_back_gripper (config_repush k en c)))
      | Seq_Failed \<Rightarrow> enter_mode k en M_Idle (hand_back_gripper (c\<lparr>rc_homed := False\<rparr>))
      | _ \<Rightarrow> c)"

definition dispatch_homing :: "rt_config \<Rightarrow> env \<Rightarrow> rt_core \<Rightarrow> rt_core" where
  "dispatch_homing k en c =
     (let (status, h, y) = homing_tick (rc_homing c) (rc_bus_state c) (rc_conv c);
          c = (on_buses (hi_calls h) c)\<lparr>rc_homing := y, rc_bus_state := hi_state h, rc_conv := hi_conv h, rc_homing_gcmd := hi_gcmd h\<rparr>;
          c = rc_out_update (\<lambda>u. u\<lparr>ou_cmds := hi_cmds h, ou_mirror := default_mirror, ou_slew := slew_reset (ou_slew u)\<rparr>) c
      in homing_outcome k en status (end_slots k en (rc_homing_gcmd c) (send_joints en c)))"

section \<open>The laws\<close>

definition dispatch_jog :: "rt_config \<Rightarrow> env \<Rightarrow> rt_core \<Rightarrow> rt_core" where
  "dispatch_jog k en c =
     (let (blocked, q, qd) = en_jog en;
          c = rc_jog_update (\<lambda>j. j\<lparr>jo_blocked := blocked\<rparr>) (on_hook (Jog_tick (me_q (rc_meas c))) c);
          c = rc_out_update (\<lambda>u. u\<lparr>ou_q := q, ou_qd := qd, ou_q_target := q, ou_qd_target := qd,
                ou_setpoints := law_jog q qd (gravity_applied c) (me_g (rc_meas c)) (kf_jog_pack k)\<rparr>) c
      in if jo_released (rc_jog c) \<and> list_all (\<lambda>v. f64_eq v f64_zero) qd \<and> at_measured_rest k c
         then rest_into_hold k en q c else c)"

definition dispatch_exec :: "rt_core \<Rightarrow> rt_core" where
  "dispatch_exec c =
     (let (outcome, (q, qd, tau), x) = exec_tick (rc_exec c) (me_q (rc_meas c));
          c = c\<lparr>rc_exec := x\<rparr>;
          c = (case outcome of
                 Exec_Fault joint residual \<Rightarrow> core_latch E_ExecSettleTimeout (Some joint)
                   (rc_link_update (\<lambda>l. l\<lparr>li_settle_residual_rad := residual\<rparr>) c)
               | Exec_Ok \<Rightarrow> c)
      in rc_out_update (\<lambda>u. u\<lparr>ou_q := q, ou_qd := qd, ou_tau := tau, ou_q_target := q, ou_qd_target := qd,
           ou_setpoints := law_exec q qd tau (gravity_applied c) (me_g (rc_meas c))\<rparr>) c)"

definition filtered_target :: "rt_config \<Rightarrow> f64 list \<Rightarrow> rt_core \<Rightarrow> f64 list \<times> rt_core" where
  "filtered_target k q c =
     (if f64_eq (kf_stream_lp_alpha k) f64_zero then (q, c)
      else
        (let filt = map2 (\<lambda>y x. f64_add y (f64_mul (kf_stream_lp_alpha k) (f64_sub x y))) (sr_filt (rc_stream c)) q
         in (filt, rc_stream_update (\<lambda>s. s\<lparr>sr_filt := filt\<rparr>) c)))"

text \<open>\<open>a as f32 / b as f32\<close>: the quotient in the wider format, rounded once more, is the correctly rounded one.\<close>

definition f32_ratio :: "nat \<Rightarrow> nat \<Rightarrow> f32" where
  "f32_ratio a b = (let w = (\<lambda>n. f64_of_f32 (f32_of_f64 (f64_of_nat n))) in f32_of_f64 (f64_div (w a) (w b)))"

definition stream_window :: "rt_config \<Rightarrow> bool \<Rightarrow> stream_part \<Rightarrow> stream_part" where
  "stream_window k applied s =
     (let pos = sr_window_pos s + 1; n = (if applied then sr_window_applied s + 1 else sr_window_applied s) in
      if kf_stream_window_ticks k \<le> pos then
        (let sent = unat (saturating_sub (sr_sent s) (sr_sent_base s))
         in s\<lparr>sr_success := f32_ratio n (kf_stream_window_ticks k),
              sr_discard := (if 0 < sent then f32_of_f64 (f64_div (f64_mul 0x4059000000000000 (f64_of_nat (sent - n))) (f64_of_nat sent)) else 0),
              sr_sent_base := sr_sent s, sr_window_pos := 0, sr_window_applied := 0\<rparr>)
      else s\<lparr>sr_window_pos := pos, sr_window_applied := n\<rparr>)"

definition apply_setpoint :: "rt_config \<Rightarrow> stream_setpoint \<Rightarrow> rt_core \<Rightarrow> rt_core" where
  "apply_setpoint k sp c =
     (let c = (if ss_shaped sp \<noteq> sr_is_shaped (rc_stream c)
               then rc_stream_update (\<lambda>s. s\<lparr>sr_is_shaped := ss_shaped sp, sr_scale := (f64_nan, f64_nan)\<rparr>)
                      (on_hook (Stream_activate (ss_shaped sp) (sr_commanded (rc_stream c))) c) else c);
          (v, a) = sr_scale (rc_stream c);
          c = (if \<not> (f64_eq v (ss_speed sp) \<and> f64_eq a (ss_accel sp))
               then rc_stream_update (\<lambda>s. s\<lparr>sr_scale := (ss_speed sp, ss_accel sp)\<rparr>)
                      (on_hook (Stream_set_scale (sr_is_shaped (rc_stream c)) (ss_speed sp) (ss_accel sp)) c) else c);
          c = rc_out_update (\<lambda>u. u\<lparr>ou_q_target := ss_q sp\<rparr>) c;
          (target, c) = (if ss_shaped sp then (ss_q sp, c) else filtered_target k (ss_q sp) c)
      in rc_stream_update (\<lambda>s. s\<lparr>sr_last_rx_tick := rc_tick c\<rparr>) (on_hook (Stream_set_target (sr_is_shaped (rc_stream c)) target) c))"

definition stream_intake :: "rt_config \<Rightarrow> rt_core \<Rightarrow> bool \<times> rt_core" where
  "stream_intake k c =
     (let slot = sr_slot (rc_stream c); c = rc_stream_update (\<lambda>s. s\<lparr>sr_slot := None\<rparr>) c in
      if sr_released (rc_stream c) then (False, c)
      else case slot of
             Some sp \<Rightarrow> (True, apply_setpoint k sp c)
           | None \<Rightarrow>
               (if \<not> f64_eq (kf_stream_lp_alpha k) f64_zero \<and> \<not> sr_is_shaped (rc_stream c)
                then (let (target, c) = filtered_target k (ou_q_target (rc_out c)) c in (False, on_hook (Stream_set_target False target) c))
                else (False, c)))"

definition dispatch_stream :: "rt_config \<Rightarrow> env \<Rightarrow> rt_core \<Rightarrow> rt_core" where
  "dispatch_stream k en c =
     (let (applied, c) = stream_intake k c;
          c = rc_stream_update (stream_window k applied) c;
          (q, qd) = en_stream en;
          c = on_hook (Stream_step (sr_is_shaped (rc_stream c))) c;
          c = rc_stream_update (\<lambda>s. s\<lparr>sr_commanded := q\<rparr>) c;
          c = (if en_stream_faulted en then core_latch E_StreamFault None c else c);
          c = rc_out_update (\<lambda>u. u\<lparr>ou_q := q, ou_qd := qd,
                ou_setpoints := law_stream q qd (gravity_applied c) (me_g (rc_meas c))\<rparr>) c
      in if sr_released (rc_stream c) \<and> list_all (\<lambda>v. f64_le (f64_abs v) STREAM_REST_RAD_S) qd \<and> at_measured_rest k c
         then rest_into_hold k en q c else c)"

definition set_law :: "joint_setpoint list \<Rightarrow> rt_core \<Rightarrow> rt_core" where
  "set_law sps c = rc_out_update (\<lambda>u. u\<lparr>ou_setpoints := sps\<rparr>) c"

definition run_law :: "rt_config \<Rightarrow> env \<Rightarrow> rt_core \<Rightarrow> rt_core" where
  "run_law k en c =
     (case rc_mode c of
        M_Booting \<Rightarrow> set_law law_booting c
      | M_Idle \<Rightarrow> set_law (law_idle (gravity_applied c) (me_g (rc_meas c))) c
      | M_ActiveError \<Rightarrow> set_law law_active_error c
      | M_SafetyStop \<Rightarrow> set_law law_safety_stop c
      | M_Jog \<Rightarrow> dispatch_jog k en c
      | M_Exec \<Rightarrow> dispatch_exec c
      | M_Stream \<Rightarrow> dispatch_stream k en c
      | _ \<Rightarrow> set_law law_booting c)"

definition commit_frames :: "rt_core \<Rightarrow> rt_core" where
  "commit_frames c =
     (let rate_limit = (rc_mode c \<notin> {M_ActiveError, M_SafetyStop});
          (cmds, mirror, slew) = commit (ou_setpoints (rc_out c)) (rc_conv c) (me_torque_ma_factor (rc_meas c)) (ou_slew (rc_out c)) rate_limit
      in rc_out_update (\<lambda>u. u\<lparr>ou_cmds := cmds, ou_mirror := mirror, ou_slew := slew\<rparr>) c)"

definition gripper_slot :: "rt_core \<Rightarrow> gripper_command \<times> rt_core" where
  "gripper_slot c =
     (if \<not> rc_has_can_gripper c then (GC_NoGripper, c)
      else if rc_calibrate_pending c
        then (GC_Calibrate, c\<lparr>rc_calibrate_pending := False, rc_gate := reset_to_poll (rc_gate c)\<rparr>)
      else
        (let calibrated = (case gs_reply (bs_gripper (rc_bus_state c)) of Some r \<Rightarrow> gr_calibrated r | None \<Rightarrow> False);
             (g, gate) = gate_tick (rc_gate c) calibrated
         in (g, c\<lparr>rc_gate := gate\<rparr>)))"

definition settle_gripper :: "rt_core \<Rightarrow> rt_core" where
  "settle_gripper c =
     (if rc_has_can_gripper c
      then c\<lparr>rc_settle := settle_tick (rc_settle c) (rc_tick c) (gs_reply (bs_gripper (rc_bus_state c)))
             (gs_live_error_bit (bs_gripper (rc_bus_state c)))\<rparr> else c)"

definition dispatch_and_send :: "rt_config \<Rightarrow> env \<Rightarrow> rt_core \<Rightarrow> rt_core" where
  "dispatch_and_send k en c =
     (let c = (if rc_mode c \<noteq> M_Exec then c\<lparr>rc_exec := at_rest (rc_exec c)\<rparr> else c) in
      if rc_mode c = M_Flashing then rc_out_update (\<lambda>u. u\<lparr>ou_mirror := default_mirror, ou_slew := slew_reset (ou_slew u)\<rparr>) c
      else if rc_mode c = M_Homing then dispatch_homing k en c
      else
        (let c = send_joints en (commit_frames (run_law k en c));
             (gcmd, c) = gripper_slot c
         in end_slots k en gcmd (settle_gripper c)))"

section \<open>The tick\<close>

definition sense :: "rt_config \<Rightarrow> env \<Rightarrow> rt_core \<Rightarrow> rt_core" where
  "sense k en c =
     (let c = c\<lparr>rc_tick := rc_tick c + 1, rc_calls := []\<rparr>;
          c = on_bus (Call_begin_tick (rc_tick c)) c;
          (pressed, d) = estop_pressed (rc_estop c) (en_estop_level en);
          c = read_io_inputs k en (c\<lparr>rc_hw_estop := pressed, rc_estop := d\<rparr>);
          c = boot_oneshots k en c;
          c = (case en_command en of Some cmd \<Rightarrow> apply_command k en cmd c | None \<Rightarrow> c);
          c = drive_io_outputs k (c\<lparr>rc_exec := clock_tick (rc_exec c)\<rparr>);
          c = refresh_gravity k en (drain_and_derive k en c)
      in rc_meas_update (\<lambda>m. m\<lparr>me_tau_ext := map2 f64_sub (me_tau_filt m) (me_g m)\<rparr>) c)"

definition core_tick :: "rt_config \<Rightarrow> env \<Rightarrow> rt_core \<Rightarrow> rt_core" where
  "core_tick k en c =
     (let c = dispatch_and_send k en (check_errors k en (sense k en c))
      in c\<lparr>rc_errors := snd (em_tick (rc_errors c))\<rparr>)"

section \<open>Outside a tick\<close>

definition stream_send :: "stream_setpoint \<Rightarrow> rt_core \<Rightarrow> rt_core" where
  "stream_send sp c = rc_stream_update (\<lambda>s. s\<lparr>sr_slot := Some sp, sr_sent := sr_sent s + 1\<rparr>) c"

definition heartbeat_feed :: "rt_core \<Rightarrow> rt_core" where
  "heartbeat_feed c = c\<lparr>rc_heartbeat := True\<rparr>"

text \<open>\<open>replace_bus\<close> on whether the new backend could be configured and its link counters; a new backend is not silent.\<close>

definition replace_bus :: "bool \<Rightarrow> link_health \<Rightarrow> rt_core \<Rightarrow> bool \<times> rt_core" where
  "replace_bus configured l c =
     (if \<not> configured then (False, c)
      else (True,
        rc_meas_update (\<lambda>m. m\<lparr>me_sector_done := replicate MAX_JOINTS False, me_filters_seeded := False\<rparr>)
          (rc_link_update (\<lambda>x. x\<lparr>li_bus_off_seen := lh_bus_off_events l\<rparr>)
            (rc_boot_update (\<lambda>b. b\<lparr>bt_bus_booted_at := rc_tick c, bt_config_repush_armed_at := rc_tick c, bt_link_recovered := False,
               bt_tool_hold := False, bt_rescan_at := None, bt_rescan_configured := False\<rparr>)
              (c\<lparr>rc_silent := False, rc_bus_state := new_bus_state, rc_homed := False, rc_not_homed_refused := False,
                 rc_mode := M_Booting, rc_state := Arm_Disabled\<rparr>)))))"

definition set_homed :: "bool \<Rightarrow> rt_core \<Rightarrow> rt_core" where
  "set_homed homed c = (if homed then c\<lparr>rc_homed := True, rc_not_homed_refused := False\<rparr> else c\<lparr>rc_homed := False\<rparr>)"

definition set_joint_reference :: "rt_config \<Rightarrow> nat \<Rightarrow> i32 \<Rightarrow> f64 \<Rightarrow> rt_core \<Rightarrow> rt_core" where
  "set_joint_reference k joint ticks rad c =
     (if MAX_JOINTS \<le> joint then c
      else
        (let node = kf_node_of k ! joint;
             n = (bs_node (rc_bus_state c) node)\<lparr>ns_position_ticks := None, ns_speed_ticks_s := None\<rparr>
         in rc_meas_update (\<lambda>m. m\<lparr>me_sector_done := (me_sector_done m)[joint := True], me_q := (me_q m)[joint := rad],
              me_qd := (me_qd m)[joint := f64_zero], me_q_filt := (me_q_filt m)[joint := rad],
              me_qd_filt := (me_qd_filt m)[joint := f64_zero]\<rparr>)
            (c\<lparr>rc_conv := (rc_conv c)[joint := set_home (rc_conv c ! joint) ticks rad],
               rc_bus_state := bs_set_node (rc_bus_state c) node n\<rparr>)))"

definition reseed_motion_targets :: "rt_core \<Rightarrow> rt_core" where
  "reseed_motion_targets c =
     (let q = me_q (rc_meas c);
          c = (rc_stream_update (\<lambda>s. s\<lparr>sr_slot := None\<rparr>) c)\<lparr>rc_exec := reseed_hold (rc_exec c) q\<rparr>;
          c = on_hook (Stream_activate True q) (on_hook (Stream_activate False q) c);
          c = on_hook (Jog_activate q) (rc_stream_update (\<lambda>s. s\<lparr>sr_commanded := q\<rparr>) c)
      in rc_out_update (\<lambda>u. u\<lparr>ou_q_target := q\<rparr>) c)"

text \<open>The bits of a joint's encoder and the conversion built from its configuration come with the pose.\<close>

definition adopt_landed_pose ::
  "rt_config \<Rightarrow> env \<Rightarrow> (nat \<times> joint_conversion) list \<Rightarrow> f64 list \<Rightarrow> rt_core \<Rightarrow> rt_core" where
  "adopt_landed_pose k en joint_configs q c =
     (let c = fold (\<lambda>(i, encoder_bits, conv) c.
                set_joint_reference k i (word_of_int (sint (motor_ticks conv (q ! i)) mod 2 ^ encoder_bits)) (q ! i) c)
                (enumerate 0 joint_configs) c;
          c = refresh_gravity k en (reseed_motion_targets (set_homed True c))
      in rc_out_update (\<lambda>u. u\<lparr>ou_slew := slew_seed (ou_slew u) (if gravity_applied c then me_g (rc_meas c) else zeros)\<rparr>) c)"

definition set_settle_policy :: "spec_settle \<Rightarrow> rt_core \<Rightarrow> rt_core" where
  "set_settle_policy p c = c\<lparr>rc_exec := set_policy (rc_exec c) p\<rparr>"

definition set_tool_home_offset :: "nat \<Rightarrow> f64 \<Rightarrow> rt_core \<Rightarrow> rt_core" where
  "set_tool_home_offset joint offset_rad c =
     (if joint < MAX_JOINTS then c\<lparr>rc_homing := hy_set_home_offset (rc_homing c) joint offset_rad\<rparr> else c)"

text \<open>
  \<open>set_gripper_tool\<close> on the tool fitted: its identity on the bus, its drive's tuning when it has a
  drive, its settle tracker, and its homing parameters, geometry and plan.
\<close>

definition set_gripper_tool ::
  "rt_config \<Rightarrow> u8 option \<Rightarrow> drive_tune option \<Rightarrow> gripper_settle \<Rightarrow> homer_params option \<Rightarrow> f64 \<Rightarrow> homing_config \<Rightarrow> u8
   \<Rightarrow> rt_core \<Rightarrow> rt_core" where
  "set_gripper_tool k can_tool_id tune settle params gear_r_m homing repeats c =
     (let node = kf_gripper_node k; driven = (tune \<noteq> None);
          c = rc_boot_update (\<lambda>b. b\<lparr>bt_can_tool_id := can_tool_id\<rparr>) (on_bus Call_fit_tool c);
          c = c\<lparr>rc_bus_state := (bs_set_node (rc_bus_state c) node default_node)\<lparr>bs_gripper := default_gripper_state\<rparr>,
                rc_homing := hy_set_gripper (rc_homing c) params driven gear_r_m homing (kf_dt k), rc_has_can_gripper := driven,
                rc_homing_gcmd := (if driven then GC_FirmwarePoll else GC_NoGripper), rc_settle := settle, rc_gate := default_gate\<rparr>
      in case tune of Some t \<Rightarrow> on_bus (Call_retune_node node t repeats) c | None \<Rightarrow> c)"

subsection \<open>Shutdown\<close>

definition shutdown_halt :: "rt_config \<Rightarrow> env \<Rightarrow> rt_core \<Rightarrow> rt_core" where
  "shutdown_halt k en c =
     (if rc_mode c \<in> {M_Idle, M_Booting, M_ActiveError, M_SafetyStop, M_Flashing} then c
      else snd (request_mode k en M_Idle c))"

definition shutdown_park_begin :: "rt_config \<Rightarrow> env \<Rightarrow> rt_core \<Rightarrow> bool \<times> rt_core" where
  "shutdown_park_begin k en c =
     (if \<not> pk_enabled (rc_park c) \<or> rc_mode c = M_Flashing then (False, c)
      else if \<not> rc_homed c \<or> rc_state c \<noteq> Arm_Enabled \<or> any_hard (rc_errors c) then (False, c)
      else
        (let c = (if rc_has_can_gripper c then apply_command k en Rt_GripperStop c else c) in
         case request_mode k en M_Idle c of
           (Some _, c) \<Rightarrow> (False, c)
         | (None, c) \<Rightarrow>
             (case request_mode k en M_Stream c of
                (Some _, c) \<Rightarrow> (False, c)
              | (None, c) \<Rightarrow>
                  (let f = pk_speed_fractions (rc_park c);
                       c = rc_park_update (\<lambda>p. p\<lparr>pk_saved_scale := sr_scale (rc_stream c)\<rparr>) c;
                       c = rc_stream_update (\<lambda>s. s\<lparr>sr_scale := (foldl f64_min f64_one f, f64_one)\<rparr>)
                             (on_hook (Stream_set_scale_per_joint f f64_one) c);
                       (lo, hi) = pk_hard_bounds (rc_park c)
                   in (True, rc_park_update (\<lambda>p. p\<lparr>pk_running := True\<rparr>) (on_hook (Stream_set_bounds lo hi) c))))))"

definition shutdown_park_feed :: "rt_core \<Rightarrow> bool \<times> rt_core" where
  "shutdown_park_feed c =
     (if \<not> pk_running (rc_park c) \<or> rc_mode c \<noteq> M_Stream then (True, c)
      else
        (let target = pk_target (rc_park c);
             farthest = foldl f64_max f64_zero (map2 (\<lambda>q t. f64_abs (f64_sub q t)) (me_q (rc_meas c)) target)
         in if f64_lt farthest (pk_tolerance_rad (rc_park c)) then (True, c)
            else (False, rc_stream_update (\<lambda>s. s\<lparr>sr_last_rx_tick := rc_tick c\<rparr>)
                    (on_hook (Stream_set_target False target) (rc_out_update (\<lambda>u. u\<lparr>ou_q_target := target\<rparr>) c)))))"

definition shutdown_park_end :: "rt_core \<Rightarrow> rt_core" where
  "shutdown_park_end c =
     (if \<not> pk_running (rc_park c) then c
      else
        (let (v, a) = pk_saved_scale (rc_park c); (lo, hi) = pk_soft_bounds (rc_park c);
             c = on_hook (Stream_set_scale False v a) (rc_park_update (\<lambda>p. p\<lparr>pk_running := False\<rparr>) c)
         in on_hook (Stream_set_bounds lo hi) (rc_stream_update (\<lambda>s. s\<lparr>sr_scale := (v, a)\<rparr>) c)))"

definition measured_at_rest :: "rt_core \<Rightarrow> bool" where
  "measured_at_rest c \<longleftrightarrow> list_all (\<lambda>v. f64_lt (f64_abs v) SHUTDOWN_REST_RAD_S) (me_qd_filt (rc_meas c))"

definition shutdown_limp :: "rt_config \<Rightarrow> env \<Rightarrow> rt_core \<Rightarrow> rt_core" where
  "shutdown_limp k en c = (if rc_mode c = M_Flashing then c else snd (request_mode k en M_SafetyStop c))"

end
