(* ===== verification/Core_Frames.thy ===== *)
theory Core_Frames
  imports Core_Dispatch
begin

text \<open>
  The invariant of the core's mode machine, and what each phase of a tick up to the law of the mode
  does to the part of the state that invariant and the safety properties are about.
\<close>

section \<open>The part of the state the properties are about\<close>

text \<open>The calls that put frames on the bus every tick, and the joint frames among them.\<close>

fun transmits :: "core_call \<Rightarrow> bool" where
  "transmits (On_bus (Call_send_joint_commands _)) = True"
| "transmits (On_bus (Call_send_gripper _)) = True"
| "transmits (On_bus Call_poll_step) = True"
| "transmits _ = False"

definition sends :: "rt_core \<Rightarrow> core_call list" where
  "sends c = filter transmits (rc_calls c)"

record core_view =
  vw_mode :: mode
  vw_state :: arm_state
  vw_homed :: bool
  vw_silent :: bool
  vw_errors :: error_manager
  vw_conv :: nat
  vw_factor :: nat
  vw_hw_estop :: bool
  vw_soft_estop :: bool
  vw_sends :: "core_call list"

definition view :: "rt_core \<Rightarrow> core_view" where
  "view c = \<lparr>vw_mode = rc_mode c, vw_state = rc_state c, vw_homed = rc_homed c, vw_silent = rc_silent c, vw_errors = rc_errors c,
     vw_conv = length (rc_conv c), vw_factor = length (me_torque_ma_factor (rc_meas c)), vw_hw_estop = rc_hw_estop c,
     vw_soft_estop = rc_soft_estop c, vw_sends = sends c\<rparr>"

lemma view_sel:
  assumes "view c' = view c"
  shows "rc_mode c' = rc_mode c" "rc_state c' = rc_state c" "rc_homed c' = rc_homed c" "rc_silent c' = rc_silent c"
    "rc_errors c' = rc_errors c" "length (rc_conv c') = length (rc_conv c)"
    "length (me_torque_ma_factor (rc_meas c')) = length (me_torque_ma_factor (rc_meas c))"
    "rc_hw_estop c' = rc_hw_estop c" "rc_soft_estop c' = rc_soft_estop c" "sends c' = sends c"
  using assms by (simp_all add: view_def)

lemma view_updates [simp]:
  "view (rc_link_update f1 c) = view c" "view (rc_jog_update f2 c) = view c" "view (rc_stream_update f3 c) = view c"
  "view (rc_scan_update f4 c) = view c" "view (rc_io_update f5 c) = view c" "view (rc_boot_update f6 c) = view c"
  "view (rc_out_update f7 c) = view c" "view (rc_park_update f8 c) = view c" "view (rc_bus_state_update f9 c) = view c"
  "view (rc_exec_update f10 c) = view c" "view (rc_homing_update f11 c) = view c" "view (rc_gate_update f12 c) = view c"
  "view (rc_settle_update f13 c) = view c" "view (rc_calibrate_pending_update f14 c) = view c"
  "view (rc_homing_gcmd_update f15 c) = view c" "view (rc_ref_check_update f16 c) = view c"
  "view (rc_heartbeat_update f17 c) = view c" "view (rc_hb_silence_update f18 c) = view c"
  "view (rc_payload_update f19 c) = view c" "view (rc_park_asserted_update f20 c) = view c"
  "view (rc_gravity_comp_update f21 c) = view c" "view (rc_not_homed_refused_update f22 c) = view c"
  "view (rc_estop_standing_update f23 c) = view c" "view (rc_estop_update f24 c) = view c"
  "view (rc_enabled_request_id_update f25 c) = view c" "view (rc_tick_update f26 c) = view c"
  "view (rc_has_can_gripper_update f27 c) = view c"
  by (simp_all add: view_def sends_def)

lemma view_meas:
  "length (me_torque_ma_factor (f (rc_meas c))) = length (me_torque_ma_factor (rc_meas c)) \<Longrightarrow> view (rc_meas_update f c) = view c"
  by (simp add: view_def sends_def)

lemma view_on_hook [simp]: "view (on_hook h c) = view c"
  by (simp add: on_hook_def view_def sends_def)

lemma view_on_bus [simp]: "\<not> transmits (On_bus b) \<Longrightarrow> view (on_bus b c) = view c"
  by (simp add: on_bus_def view_def sends_def)

lemma view_on_buses [simp]: "list_all (\<lambda>b. \<not> transmits (On_bus b)) bs \<Longrightarrow> view (on_buses bs c) = view c"
  by (simp add: on_buses_def view_def sends_def filter_empty_conv list_all_iff)

lemma errors_on_bus [simp]: "rc_errors (on_bus b c) = rc_errors c"
  by (simp add: on_bus_def)

lemma view_fold: "(\<And>x c. view (f x c) = view c) \<Longrightarrow> view (fold f xs c) = view c"
  by (induction xs arbitrary: c) simp_all

lemma view_resend [simp]: "view (resend_config k en node c) = view c"
  by (simp add: resend_config_def Let_def)

lemma view_repush [simp]: "view (config_repush k en c) = view c"
  by (simp add: config_repush_def Let_def view_fold)

lemma view_drain_resends [simp]: "view (drain_config_resends k en c) = view c"
  by (simp add: drain_config_resends_def)

lemma view_halt [simp]: "view (gripper_halt_in_place c) = view c"
  by (simp add: gripper_halt_in_place_def Let_def split: option.split)

lemma view_io [simp]:
  "view (set_io_output k port v c) = view c" "view (drive_io_outputs k c) = view c" "view (read_io_inputs k en c) = view c"
  by (simp_all add: set_io_output_def drive_io_outputs_def read_io_inputs_def Let_def)

lemma view_jog_command [simp]: "view (jog_command speeds accel c) = view c"
  by (simp add: jog_command_def Let_def)

lemma view_gripper_in [simp]: "view (gripper_command_in c fw) = view c"
  by (simp add: gripper_command_in_def Let_def)

lemma view_refresh [simp]: "view (refresh_gravity k en c) = view c"
  by (simp add: refresh_gravity_def view_meas)

lemma view_step_scan [simp]: "view (step_scan k c) = view c"
  by (simp add: step_scan_def split: option.split)

lemma view_settle_gripper [simp]: "view (settle_gripper c) = view c"
  by (simp add: settle_gripper_def)

lemma view_gripper_slot [simp]: "view (snd (gripper_slot c)) = view c"
  by (simp add: gripper_slot_def Let_def split_def)


lemma view_conv: "length x = length (rc_conv c) \<Longrightarrow> view (c\<lparr>rc_conv := x\<rparr>) = view c"
  by (simp add: view_def sends_def)

lemma view_derive_joint [simp]: "view (derive_joint k i c) = view c"
  by (auto simp: derive_joint_def Let_def view_meas view_conv split: option.split)

lemma factor_filters [simp]:
  "me_torque_ma_factor (update_filters m) = me_torque_ma_factor m" "me_torque_ma_factor (update_rest k s m) = me_torque_ma_factor m"
  by (simp_all add: update_filters_def update_rest_def Let_def split: option.split)

lemma view_drain [simp]: "view (drain_and_derive k en c) = view c"
  by (simp add: drain_and_derive_def Let_def view_meas view_fold)

section \<open>Homing calls\<close>

definition quiet :: "nat \<Rightarrow> homing_io \<Rightarrow> bool" where
  "quiet n o1 \<longleftrightarrow> list_all (\<lambda>b. \<not> transmits (On_bus b)) (hi_calls o1) \<and> length (hi_conv o1) = n"

lemma quiet_updates [simp]:
  "quiet n (o1\<lparr>hi_gcmd := g\<rparr>) = quiet n o1" "quiet n (o1\<lparr>hi_cmds := cs\<rparr>) = quiet n o1" "quiet n (o1\<lparr>hi_state := s\<rparr>) = quiet n o1"
  "quiet n (set_cmd o1 j cmd) = quiet n o1"
  by (simp_all add: quiet_def set_cmd_def)

lemma quiet_restore [simp]: "list_all (\<lambda>b. \<not> transmits (On_bus b)) (restore_all y)"
  by (auto simp: restore_all_def list_all_iff)

lemma quiet_seq_move: "quiet n o1 \<Longrightarrow> quiet n (fst (snd (snd (tick_seq_move y m o1))))"
  by (auto simp: tick_seq_move_def Let_def split_def split: pre_move.splits option.splits)

lemma quiet_run_moves: "quiet n o1 \<Longrightarrow> quiet n (fst (snd (snd (snd (run_moves ms o1 y d f)))))"
proof (induction ms arbitrary: o1 y d f)
  case (Cons m ms)
  have "quiet n (fst (snd (snd (tick_seq_move y m o1))))" by (rule quiet_seq_move [OF Cons.prems])
  from Cons.IH [OF this] show ?case by (simp add: split_def Let_def)
qed simp

lemma quiet_move_to: "quiet n o1 \<Longrightarrow> quiet n (snd (snd (tick_move_to y m o1)))"
  by (auto simp: tick_move_to_def Let_def split_def split: option.splits)

lemma quiet_run_move_tos: "quiet n o1 \<Longrightarrow> quiet n (fst (snd (snd (snd (run_move_tos ms o1 y d f)))))"
proof (induction ms arbitrary: o1 y d f)
  case (Cons m ms)
  have "quiet n (snd (snd (tick_move_to y m o1)))" by (rule quiet_move_to [OF Cons.prems])
  from Cons.IH [OF this] show ?case by (simp add: split_def Let_def)
qed simp

lemma quiet_home_joint: "quiet n (fst (snd s)) \<Longrightarrow> quiet n (fst (snd (home_joint j s)))"
  by (cases s rule: prod_cases3)
    (auto simp: home_joint_def Let_def split_def quiet_def set_cmd_def split: option.splits homer_event.splits)

lemma quiet_home_joints: "quiet n (fst (snd s)) \<Longrightarrow> quiet n (fst (snd (fold home_joint js s)))"
  by (induction js arbitrary: s) (simp_all add: quiet_home_joint)

lemma quiet_home_gripper:
  "quiet n (fst (snd s)) \<Longrightarrow> quiet n (fst (snd (home_gripper_motor s)))"
  "quiet n (fst (snd s)) \<Longrightarrow> quiet n (fst (snd (home_gripper_firmware s)))"
  by (cases s rule: prod_cases3, auto simp: home_gripper_motor_def home_gripper_firmware_def Let_def split_def quiet_def
      split: option.splits homer_event.splits)+

lemma quiet_seq_fail: "quiet n o1 \<Longrightarrow> quiet n (fst (snd (seq_fail y o1)))"
  by (simp add: seq_fail_def quiet_def)

lemma quiet_tick_home: "quiet n o1 \<Longrightarrow> quiet n (fst (snd (tick_home y o1)))"
proof -
  assume q: "quiet n o1"
  define step where "step = hy_steps y ! hy_step_idx y"
  define s where "s = fold home_joint (filter (\<lambda>j. sp_home_joints step ! j) joints) (False, o1, y)"
  define t where "t = (case sp_home_gripper step of
      Some GH_Motor \<Rightarrow> home_gripper_motor s | Some GH_Firmware \<Rightarrow> home_gripper_firmware s | None \<Rightarrow> s)"
  have "quiet n (fst (snd t))"
    using q quiet_home_joints [of n "(False, o1, y)"] quiet_home_gripper [of n s]
    by (auto simp: t_def s_def split: option.split gripper_home_mode.split)
  moreover obtain failed o2 y2 where t: "t = (failed, o2, y2)" by (cases t rule: prod_cases3)
  ultimately show ?thesis
    unfolding tick_home_def Let_def step_def [symmetric] s_def [symmetric] t_def [symmetric] t
    by (simp add: quiet_seq_fail)
qed

lemma quiet_global_post: "quiet n o1 \<Longrightarrow> quiet n (fst (snd (tick_global_post y o1)))"
  by (simp add: tick_global_post_def Let_def split_def quiet_seq_fail quiet_run_moves)

lemma quiet_tick_part: "quiet n o1 \<Longrightarrow> quiet n (fst (snd (tick_part y o1)))"
  by (cases "hy_part y")
    (simp_all add: tick_part_def quiet_tick_home quiet_global_post Let_def split_def quiet_seq_fail quiet_run_moves quiet_run_move_tos)

lemma quiet_apply_limits: "list_all (\<lambda>b. \<not> transmits (On_bus b)) (snd (apply_phase_limits y))"
proof -
  have f: "list_all (\<lambda>b. \<not> transmits (On_bus b)) (snd s) \<Longrightarrow> (\<And>p b. \<not> transmits (On_bus (C p b))) \<Longrightarrow>
      list_all (\<lambda>b. \<not> transmits (On_bus b)) (snd (foldl (\<lambda>(y, calls) (i, p).
         let seeking = W ! i \<and> hy_statuses y ! i \<noteq> HJ_Done
         in if seeking \<noteq> hy_seeking_limits y ! i
            then (y\<lparr>hy_seeking_limits := (hy_seeking_limits y)[i := seeking]\<rparr>, calls @ [C p seeking]) else (y, calls)) s ips))"
    for s ips W and C :: "homer_params \<Rightarrow> bool \<Rightarrow> bus_call"
    by (induction ips arbitrary: s) (auto simp: Let_def split_def)
  show ?thesis unfolding apply_phase_limits_def by (subst Let_def) (rule f, simp_all)
qed

lemma quiet_homing_tick:
  assumes "homing_tick y state conv = (status, h, y')"
  shows "list_all (\<lambda>b. \<not> transmits (On_bus b)) (hi_calls h) \<and> length (hi_conv h) = length conv"
proof -
  have "quiet (length conv) (fst (snd (homing_tick y state conv)))"
    using quiet_apply_limits [of "y\<lparr>hy_elapsed_ticks := Suc (hy_elapsed_ticks y)\<rparr>"]
    by (simp add: homing_tick_def Let_def split_def)
      (simp add: quiet_def quiet_seq_fail [unfolded quiet_def] quiet_global_post [unfolded quiet_def] quiet_tick_part [unfolded quiet_def])
  with assms show ?thesis by (simp add: quiet_def)
qed

section \<open>Mode changes\<close>

lemma quiet_start [simp]: "list_all (\<lambda>b. \<not> transmits (On_bus b)) (snd (homing_start y))"
  by (simp add: homing_start_def Let_def list_all_iff)

lemma quiet_abort [simp]: "list_all (\<lambda>b. \<not> transmits (On_bus b)) (snd (homing_abort y))"
  by (simp add: homing_abort_def)

lemma view_set [simp]:
  "view (c\<lparr>rc_homed := h\<rparr>) = (view c)\<lparr>vw_homed := h\<rparr>" "view (c\<lparr>rc_silent := s\<rparr>) = (view c)\<lparr>vw_silent := s\<rparr>"
  "view (c\<lparr>rc_mode := m\<rparr>) = (view c)\<lparr>vw_mode := m\<rparr>" "view (c\<lparr>rc_state := a\<rparr>) = (view c)\<lparr>vw_state := a\<rparr>"
  "view (c\<lparr>rc_errors := e\<rparr>) = (view c)\<lparr>vw_errors := e\<rparr>"
  by (simp_all add: view_def sends_def)

text \<open>The view without the two parts that leaving a mode may change.\<close>

definition steady :: "core_view \<Rightarrow> core_view" where
  "steady v = v\<lparr>vw_homed := False, vw_silent := False\<rparr>"

lemma steady_set [simp]:
  "steady (v\<lparr>vw_homed := h\<rparr>) = steady v" "steady (v\<lparr>vw_silent := s\<rparr>) = steady v"
  "steady (v\<lparr>vw_mode := m\<rparr>) = (steady v)\<lparr>vw_mode := m\<rparr>"
  by (simp_all add: steady_def)

lemma steady_sel:
  assumes "steady (view c') = steady (view c)"
  shows "rc_mode c' = rc_mode c" "rc_state c' = rc_state c" "rc_errors c' = rc_errors c"
    "length (rc_conv c') = length (rc_conv c)"
    "length (me_torque_ma_factor (rc_meas c')) = length (me_torque_ma_factor (rc_meas c))"
    "rc_hw_estop c' = rc_hw_estop c" "rc_soft_estop c' = rc_soft_estop c" "sends c' = sends c"
  using assms by (simp_all add: view_def steady_def)

lemma silent_view: "rc_silent c = vw_silent (view c)" and homed_view: "rc_homed c = vw_homed (view c)"
  by (simp_all add: view_def)

lemma leave_mode_steady: "steady (view (leave_mode k en c)) = steady (view c)"
  by (cases "rc_mode c") (simp_all add: leave_mode_def Let_def split_def)

lemma leave_mode_silent: "rc_silent (leave_mode k en c) \<longleftrightarrow> rc_silent c \<and> rc_mode c \<noteq> M_Flashing"
  unfolding silent_view by (cases "rc_mode c") (simp_all add: leave_mode_def Let_def split_def)

lemma leave_mode_homed: "rc_homed (leave_mode k en c) \<Longrightarrow> rc_homed c"
  unfolding homed_view by (cases "rc_mode c") (simp_all add: leave_mode_def Let_def split_def split: if_splits)

lemma leave_mode_homed_other: "rc_mode c \<notin> {M_Homing, M_Flashing} \<Longrightarrow> rc_homed (leave_mode k en c) = rc_homed c"
  unfolding homed_view by (cases "rc_mode c") (simp_all add: leave_mode_def Let_def split_def)

lemma enter_mode_steady: "steady (view (enter_mode k en target c)) = (steady (view c))\<lparr>vw_mode := target\<rparr>"
  using leave_mode_steady [of k en c]
  by (cases target) (simp_all add: enter_mode_def Let_def split_def)

lemma enter_mode_sel:
  "rc_mode (enter_mode k en t c) = t" "rc_state (enter_mode k en t c) = rc_state c" "rc_errors (enter_mode k en t c) = rc_errors c"
  "length (rc_conv (enter_mode k en t c)) = length (rc_conv c)"
  "length (me_torque_ma_factor (rc_meas (enter_mode k en t c))) = length (me_torque_ma_factor (rc_meas c))"
  "rc_hw_estop (enter_mode k en t c) = rc_hw_estop c" "rc_soft_estop (enter_mode k en t c) = rc_soft_estop c"
  "sends (enter_mode k en t c) = sends c"
  using enter_mode_steady [of k en t c] by (simp_all add: view_def steady_def)

lemma enter_mode_silent: "rc_silent (enter_mode k en t c) \<longleftrightarrow> t = M_Flashing \<or> rc_silent c \<and> rc_mode c \<noteq> M_Flashing"
  using leave_mode_silent [of k en c] unfolding silent_view
  by (cases t) (simp_all add: enter_mode_def Let_def split_def)

lemma enter_mode_homed: "rc_homed (enter_mode k en t c) = (t \<noteq> M_Homing \<and> rc_homed (leave_mode k en c))"
  unfolding homed_view by (cases t) (simp_all add: enter_mode_def Let_def split_def)

section \<open>The invariant\<close>

definition sound :: "rt_core \<Rightarrow> bool" where
  "sound c \<longleftrightarrow> manager_ok (rc_errors c) \<and> length (rc_conv c) = MAX_JOINTS
     \<and> length (me_torque_ma_factor (rc_meas c)) = MAX_JOINTS
     \<and> (rc_mode c = M_Booting \<longrightarrow> rc_state c = Arm_Disabled) \<and> (rc_silent c \<longleftrightarrow> rc_mode c = M_Flashing)
     \<and> rc_mode c \<notin> {M_HandGuiding, M_Impedance}"

definition homed_ok :: "rt_core \<Rightarrow> bool" where
  "homed_ok c \<longleftrightarrow> (rc_mode c \<in> {M_Stream, M_Exec} \<longrightarrow> rc_homed c)"

definition core_inv :: "rt_core \<Rightarrow> bool" where
  "core_inv c \<longleftrightarrow> sound c \<and> homed_ok c"

lemma inv_view:
  assumes "view c' = view c"
  shows "core_inv c' = core_inv c" "sound c' = sound c" "homed_ok c' = homed_ok c"
  using view_sel [OF assms] by (simp_all add: core_inv_def sound_def homed_ok_def)

lemma enter_mode_sound:
  "sound c \<Longrightarrow> t \<notin> {M_Booting, M_HandGuiding, M_Impedance} \<Longrightarrow> sound (enter_mode k en t c)"
  by (auto simp: sound_def enter_mode_sel enter_mode_silent)

lemma enter_mode_homed_ok:
  "t \<notin> {M_Stream, M_Exec} \<Longrightarrow> homed_ok (enter_mode k en t c)"
  "rc_homed c \<Longrightarrow> rc_mode c \<notin> {M_Homing, M_Flashing} \<Longrightarrow> t \<noteq> M_Homing \<Longrightarrow> homed_ok (enter_mode k en t c)"
  by (auto simp: homed_ok_def enter_mode_sel enter_mode_homed leave_mode_homed_other)

text \<open>What a mode request does to a state where the invariant holds.\<close>

definition working :: "mode set" where
  "working = {M_Homing, M_Jog, M_Stream, M_Exec}"

lemma request_mode_cases:
  assumes "core_inv c"
  obtains (same) "view (snd (request_mode k en t c)) = view c"
  | (entered) "snd (request_mode k en t c) = enter_mode k en t c" "t \<noteq> rc_mode c" "t \<notin> {M_Booting, M_ActiveError, M_HandGuiding, M_Impedance}"
      "t \<in> working \<longrightarrow> rc_mode c = M_Idle \<and> rc_state c = Arm_Enabled \<and> \<not> any_hard (rc_errors c)"
      "t \<in> {M_Stream, M_Exec} \<longrightarrow> rc_homed c" "t = M_Flashing \<longrightarrow> rc_park_asserted c" "core_inv (enter_mode k en t c)"
proof (cases "snd (request_mode k en t c) = enter_mode k en t c \<and> t \<noteq> rc_mode c
    \<and> t \<notin> {M_Booting, M_ActiveError, M_HandGuiding, M_Impedance} \<and> transition_allowed (rc_mode c) t
    \<and> (t \<in> working \<longrightarrow> rc_state c = Arm_Enabled \<and> \<not> any_hard (rc_errors c)) \<and> (t \<in> {M_Stream, M_Exec} \<longrightarrow> rc_homed c)
    \<and> (t = M_Flashing \<longrightarrow> rc_park_asserted c)")
  case False
  then have "view (snd (request_mode k en t c)) = view c"
    by (cases t) (auto simp: request_mode_def working_def)
  then show ?thesis by (rule that(1))
next
  case True
  then have idle: "t \<in> working \<longrightarrow> rc_mode c = M_Idle"
    using assms by (cases "rc_mode c") (auto simp: transition_allowed_def working_def)
  have "core_inv (enter_mode k en t c)"
  proof (cases "t \<in> {M_Stream, M_Exec}")
    case False
    with True assms show ?thesis by (auto simp: core_inv_def enter_mode_sound enter_mode_homed_ok(1))
  next
    case t: True
    with True idle have "rc_mode c = M_Idle" "rc_homed c" by (auto simp: working_def)
    with t assms show ?thesis by (auto simp: core_inv_def enter_mode_sound enter_mode_homed_ok(2))
  qed
  with True idle that(2) show ?thesis by blast
qed

text \<open>
  What everything before the error checks keeps: the invariant, the frames sent, the hardware e-stop.
  A working mode is only entered by an enabled arm without a hard error.
\<close>

definition admits :: "rt_core \<Rightarrow> rt_core \<Rightarrow> bool" where
  "admits c c' \<longleftrightarrow> core_inv c' \<and> sends c' = sends c \<and> rc_hw_estop c' = rc_hw_estop c
     \<and> (any_hard (rc_errors c) \<longrightarrow> any_hard (rc_errors c'))"

lemma admits_refl: "core_inv c \<Longrightarrow> admits c c"
  by (simp add: admits_def)

lemma admits_trans: "admits a b \<Longrightarrow> admits b c \<Longrightarrow> admits a c"
  by (simp add: admits_def)

lemma admits_view: "core_inv c \<Longrightarrow> view c' = view c \<Longrightarrow> admits c c'"
  using inv_view(1) [of c' c] view_sel [of c' c] by (simp add: admits_def)

lemma admits_request: "core_inv c \<Longrightarrow> admits c (snd (request_mode k en t c))"
proof -
  assume inv: "core_inv c"
  show ?thesis
  proof (rule request_mode_cases [OF inv, where k = k and en = en and t = t])
    assume "view (snd (request_mode k en t c)) = view c"
    then show ?thesis by (rule admits_view [OF inv])
  next
    assume "snd (request_mode k en t c) = enter_mode k en t c" "core_inv (enter_mode k en t c)"
    then show ?thesis by (simp add: admits_def enter_mode_sel)
  qed
qed

lemma rest_into_hold_sel:
  assumes "core_inv c" and "rc_mode c \<in> {M_Jog, M_Stream}"
  shows "admits c (rest_into_hold k en at c)"
    "rc_mode (rest_into_hold k en at c) = (if rc_homed c \<and> rc_state c = Arm_Enabled \<and> \<not> any_hard (rc_errors c) then M_Exec else M_Idle)"
    "rc_state (rest_into_hold k en at c) = rc_state c" "rc_errors (rest_into_hold k en at c) = rc_errors c"
    "rc_soft_estop (rest_into_hold k en at c) = rc_soft_estop c"
    "length (rc_conv (rest_into_hold k en at c)) = length (rc_conv c)"
    "length (me_torque_ma_factor (rc_meas (rest_into_hold k en at c))) = length (me_torque_ma_factor (rc_meas c))"
proof -
  let ?l = "leave_mode k en c" and ?r = "rest_into_hold k en at c"
  note l = steady_sel [OF leave_mode_steady, of k en c] leave_mode_silent [of k en c]
  have lh: "rc_homed ?l = rc_homed c" using assms(2) by (intro leave_mode_homed_other) auto
  have "admits c ?r \<and> rc_mode ?r = (if rc_homed c \<and> rc_state c = Arm_Enabled \<and> \<not> any_hard (rc_errors c) then M_Exec else M_Idle)
    \<and> rc_state ?r = rc_state c \<and> rc_errors ?r = rc_errors c \<and> rc_soft_estop ?r = rc_soft_estop c
    \<and> length (rc_conv ?r) = length (rc_conv c)
    \<and> length (me_torque_ma_factor (rc_meas ?r)) = length (me_torque_ma_factor (rc_meas c))"
  proof (cases "rc_homed c \<and> rc_state c = Arm_Enabled \<and> \<not> any_hard (rc_errors c)")
    case False
    then have "?r = enter_mode k en M_Idle c" by (simp add: rest_into_hold_def)
    with False assms(1) show ?thesis
      by (auto simp: admits_def enter_mode_sel core_inv_def enter_mode_sound enter_mode_homed_ok(1))
  next
    case True
    then have r: "?r = ?l\<lparr>rc_exec := exec_activate (rc_exec ?l) at, rc_hb_silence := 0, rc_mode := M_Exec\<rparr>"
      by (simp add: rest_into_hold_def Let_def)
    have "sends ?r = sends ?l" by (simp add: r sends_def)
    with True assms l lh show ?thesis
      by (auto simp: admits_def core_inv_def sound_def homed_ok_def r)
  qed
  then show "admits c ?r" "rc_mode ?r = (if rc_homed c \<and> rc_state c = Arm_Enabled \<and> \<not> any_hard (rc_errors c) then M_Exec else M_Idle)"
    "rc_state ?r = rc_state c" "rc_errors ?r = rc_errors c" "rc_soft_estop ?r = rc_soft_estop c"
    "length (rc_conv ?r) = length (rc_conv c)"
    "length (me_torque_ma_factor (rc_meas ?r)) = length (me_torque_ma_factor (rc_meas c))"
    by simp_all
qed

lemma view_clear_nodes [simp]: "view (snd (clear_nodes k es cleared c)) = view c"
  by (induction k es cleared c rule: clear_nodes.induct) (auto simp: Let_def split: option.split)

lemma manager_ok_clear: "manager_ok m \<Longrightarrow> manager_ok (begin_clear m)"
  by (rule manager_inv.inv_step [OF _ step_begin_clear])

lemma any_hard_clear [simp]: "any_hard (begin_clear m) = any_hard m"
  by (simp add: any_hard_def begin_clear_def)

lemma core_begin_clear_sel:
  "view (core_begin_clear k c) = (view c)\<lparr>vw_errors := begin_clear (rc_errors c)\<rparr>"
proof -
  obtain cleared c1 where r: "clear_nodes k (as_slice (em_list (rc_errors c))) {} c = (cleared, c1)" by (metis prod.exhaust)
  then have v: "view c1 = view c" using view_clear_nodes [of k "as_slice (em_list (rc_errors c))" "{}" c] by simp
  note e = view_sel(5) [OF v]
  show ?thesis by (simp add: core_begin_clear_def r Let_def v e)
qed

definition motion_reason :: "rt_command \<Rightarrow> rt_core \<Rightarrow> rt_core \<Rightarrow> bool" where
  "motion_reason cmd c c' \<longleftrightarrow> (rc_mode c' \<in> working \<and> rc_mode c' \<noteq> rc_mode c \<longrightarrow> rc_state c = Arm_Enabled \<and> rc_state c' = Arm_Enabled
     \<and> (cmd = Rt_SetMode (rc_mode c') \<and> rc_mode c = M_Idle \<or> cmd = Rt_Hold \<and> rc_mode c \<in> {M_Jog, M_Stream} \<and> rc_mode c' = M_Exec))"

definition proper :: "rt_command \<Rightarrow> rt_core \<Rightarrow> rt_core \<Rightarrow> bool" where
  "proper cmd c c' \<longleftrightarrow> admits c c' \<and> motion_reason cmd c c'"

lemma proper_same: "core_inv c \<Longrightarrow> view c' = view c \<Longrightarrow> proper cmd c c'"
  using view_sel(1) [of c' c] by (simp add: proper_def admits_view motion_reason_def)

lemma proper_view: "proper cmd c c' \<Longrightarrow> view c'' = view c' \<Longrightarrow> proper cmd c c''"
  using inv_view(1) [of c'' c'] view_sel [of c'' c'] by (simp add: proper_def admits_def motion_reason_def)

lemma proper_mode:
  "admits c c' \<Longrightarrow> rc_mode c' = rc_mode c \<or> rc_mode c' \<notin> working \<Longrightarrow> proper cmd c c'"
  by (auto simp: proper_def motion_reason_def)

lemma proper_request:
  assumes "core_inv c" and "t \<in> working \<longrightarrow> cmd = Rt_SetMode t"
  shows "proper cmd c (snd (request_mode k en t c))"
proof (rule request_mode_cases [OF assms(1), where k = k and en = en and t = t])
  assume "view (snd (request_mode k en t c)) = view c"
  then show ?thesis by (rule proper_same [OF assms(1)])
next
  assume e: "snd (request_mode k en t c) = enter_mode k en t c"
    and w: "t \<in> working \<longrightarrow> rc_mode c = M_Idle \<and> rc_state c = Arm_Enabled \<and> \<not> any_hard (rc_errors c)"
  from e w assms(2) admits_request [OF assms(1), of k en t] show ?thesis
    by (auto simp: proper_def motion_reason_def enter_mode_sel)
qed

lemma proper_hold:
  assumes "core_inv c" and "rc_mode c \<in> {M_Jog, M_Stream}"
  shows "proper Rt_Hold c (rest_into_hold k en at c)"
  using rest_into_hold_sel(1-3) [OF assms, of k en at] assms(2)
  by (auto simp: proper_def motion_reason_def working_def)

lemma proper_enable: "core_inv c \<Longrightarrow> proper cmd c (enable_command i c)"
  by (auto simp: enable_command_def admits_def core_inv_def sound_def homed_ok_def sends_def intro!: proper_mode)

lemma proper_clear: "core_inv c \<Longrightarrow> proper cmd c (core_begin_clear k c)"
proof -
  assume inv: "core_inv c"
  have v: "view (core_begin_clear k c) = view (c\<lparr>rc_errors := begin_clear (rc_errors c)\<rparr>)"
    by (simp add: core_begin_clear_sel)
  have "proper cmd c (c\<lparr>rc_errors := begin_clear (rc_errors c)\<rparr>)"
    using inv by (auto simp: admits_def core_inv_def sound_def homed_ok_def sends_def manager_ok_clear intro!: proper_mode)
  with v show ?thesis by (metis proper_view)
qed

lemma proper_stop: "core_inv c \<Longrightarrow> proper cmd c (stop_command k en c)"
  using proper_view [OF proper_request [of c M_Idle cmd k en]]
  by (cases "rc_mode c") (auto simp: stop_command_def Let_def working_def intro: proper_same)

lemma apply_command_proper:
  assumes "core_inv c"
  shows "proper cmd c (apply_command k en cmd c)"
proof (cases cmd)
  case (Rt_SetMode t)
  with assms show ?thesis by (auto simp: apply_command_def intro: proper_request proper_same)
next
  case Rt_Disable
  with assms show ?thesis
    by (auto simp: apply_command_def admits_def core_inv_def sound_def homed_ok_def sends_def intro!: proper_mode)
next
  case (Rt_SetSoftEstop on)
  with assms show ?thesis
    by (auto simp: apply_command_def admits_def core_inv_def sound_def homed_ok_def sends_def intro!: proper_mode)
next
  case Rt_Hold
  with assms show ?thesis by (auto simp: apply_command_def intro: proper_hold proper_same split: mode.split)
next
  case (Rt_SetGravityComp on)
  have "core_inv (c\<lparr>rc_gravity_comp := on\<rparr>)" using assms inv_view(1) [of "c\<lparr>rc_gravity_comp := on\<rparr>" c] by simp
  from proper_request [OF this, of M_Idle cmd k en] have "proper cmd c (snd (request_mode k en M_Idle (c\<lparr>rc_gravity_comp := on\<rparr>)))"
    by (simp add: working_def proper_def admits_def motion_reason_def sends_def)
  with Rt_SetGravityComp assms show ?thesis by (auto simp: apply_command_def Let_def intro: proper_same)
qed (use assms in \<open>simp_all add: apply_command_def proper_enable proper_clear proper_stop proper_same\<close>)

section \<open>Latches\<close>

text \<open>What an error check may change: the latch, and the home reference when it latches a hard error.\<close>

definition checked :: "rt_core \<Rightarrow> rt_core \<Rightarrow> bool" where
  "checked c c' \<longleftrightarrow> (view c')\<lparr>vw_homed := False, vw_errors := rc_errors c\<rparr> = (view c)\<lparr>vw_homed := False\<rparr>
     \<and> (manager_ok (rc_errors c) \<longrightarrow> manager_ok (rc_errors c') \<and> (any_hard (rc_errors c) \<longrightarrow> any_hard (rc_errors c'))
          \<and> (rc_homed c \<longrightarrow> rc_homed c' \<or> any_hard (rc_errors c')))
     \<and> (rc_homed c' \<longrightarrow> rc_homed c)"

lemma checked_sel:
  assumes "checked c c'"
  shows "rc_mode c' = rc_mode c" "rc_state c' = rc_state c" "rc_silent c' = rc_silent c"
    "length (rc_conv c') = length (rc_conv c)"
    "length (me_torque_ma_factor (rc_meas c')) = length (me_torque_ma_factor (rc_meas c))"
    "rc_hw_estop c' = rc_hw_estop c" "rc_soft_estop c' = rc_soft_estop c" "sends c' = sends c"
  using assms by (auto simp: view_def checked_def)

lemma checked_refl [simp]: "checked c c"
  by (simp add: checked_def view_def)

lemma checked_trans [trans]: "checked a b \<Longrightarrow> checked b c \<Longrightarrow> checked a c"
  by (auto simp: checked_def view_def)

lemma checked_view: "view c' = view c \<Longrightarrow> checked c c'"
  using view_sel [of c' c] by (simp add: checked_def) (simp add: view_def)

lemma checked_fold: "(\<And>x c. checked c (f x c)) \<Longrightarrow> checked c (fold f xs c)"
  by (induction xs arbitrary: c) (auto intro: checked_trans)

lemma checked_fold_in: "(\<And>x c. x \<in> set xs \<Longrightarrow> checked c (f x c)) \<Longrightarrow> checked c (fold f xs c)"
  by (induction xs arbitrary: c) (auto intro: checked_trans)

text \<open>Codes that are latched are hard; the warnings come with the joints they belong to.\<close>

lemma checked_latch:
  assumes "\<not> is_warning code"
  shows "checked c (core_latch code joint c)" and "manager_ok (rc_errors c) \<Longrightarrow> any_hard (rc_errors (core_latch code joint c))"
proof -
  have ok: "entry_ok \<lparr>ee_code = code, ee_joint = joint\<rparr>" using assms by (auto simp: entry_ok_def is_warning_def)
  have v: "view (core_latch code joint c) = (view c)\<lparr>vw_errors := latch (rc_errors c) code joint\<rparr>" by (simp add: core_latch_def)
  show "checked c (core_latch code joint c)"
    using ok by (auto simp: checked_def v core_latch_def latch_ok hard_stays(1)) (simp add: view_def)
  show "any_hard (rc_errors (core_latch code joint c))" if "manager_ok (rc_errors c)"
    using latch_raises [OF that assms] by (simp add: core_latch_def)
qed

lemma checked_condition:
  assumes "is_warning code" and "entry_ok \<lparr>ee_code = code, ee_joint = joint\<rparr>"
  shows "checked c (core_condition code joint active c)"
proof -
  have v: "view (core_condition code joint active c) = (view c)\<lparr>vw_errors := condition (rc_errors c) code joint active\<rparr>"
    by (simp add: core_condition_def)
  show ?thesis
    using assms by (auto simp: checked_def v core_condition_def condition_ok hard_stays(2)) (simp add: view_def)
qed

lemma joint_entry_ok: "n < NUM_NODES \<Longrightarrow> entry_ok \<lparr>ee_code = code, ee_joint = Some (of_nat n)\<rparr> \<longleftrightarrow> code \<notin> {E_NotHomed, E_LoopDegraded, E_LinkErrorPassive}"
  by (auto simp: entry_ok_def NUM_NODES_def take_bit_nat_eq_self_iff unat_of_nat)

section \<open>The error checks\<close>

lemma checked_then: "checked c d \<Longrightarrow> view e = view d \<Longrightarrow> checked c e"
  by (rule checked_trans [OF _ checked_view])

lemma checked_if: "(b \<Longrightarrow> checked c x) \<Longrightarrow> (\<not> b \<Longrightarrow> checked c y) \<Longrightarrow> checked c (if b then x else y)"
  by simp

lemma hard_after: "checked c d \<Longrightarrow> manager_ok (rc_errors c) \<Longrightarrow> any_hard (rc_errors c) \<Longrightarrow> any_hard (rc_errors d)"
  by (simp add: checked_def)

lemma ok_after: "checked c d \<Longrightarrow> manager_ok (rc_errors c) \<Longrightarrow> manager_ok (rc_errors d)"
  by (simp add: checked_def)

lemma hard_codes [simp]:
  "\<not> is_warning E_Estop" "\<not> is_warning E_SwEstop" "\<not> is_warning E_ExecLinkLost" "\<not> is_warning E_RtiLinkLost"
  "\<not> is_warning E_LoopCritical" "\<not> is_warning E_CanLost" "\<not> is_warning E_GripperFault" "\<not> is_warning E_GripperCalibrationFailed"
  "\<not> is_warning E_BusOff" "\<not> is_warning E_TorqueEnvelope" "\<not> is_warning E_ExecSettleTimeout" "\<not> is_warning E_StreamFault"
  "\<not> is_warning (latch_key f)"
  by (simp_all add: is_warning_def latch_key_def split: fault.split)

lemma warnings [simp]:
  "is_warning E_LoopDegraded" "is_warning E_LinkErrorPassive" "is_warning E_CanStale" "is_warning E_HomingFailed" "is_warning E_NotHomed"
  by (simp_all add: is_warning_def)

lemma bare_entry_ok [simp]:
  "entry_ok \<lparr>ee_code = E_LoopDegraded, ee_joint = None\<rparr>" "entry_ok \<lparr>ee_code = E_LinkErrorPassive, ee_joint = None\<rparr>"
  "entry_ok \<lparr>ee_code = E_NotHomed, ee_joint = None\<rparr>" "entry_ok \<lparr>ee_code = E_CanStale, ee_joint = Some GRIPPER_ERR_IDX\<rparr>"
  by (simp_all add: entry_ok_def GRIPPER_ERR_IDX_def NUM_NODES_def)

lemma check_estop_checked: "checked c (check_estop c)"
proof -
  define c1 where "c1 = (if rc_hw_estop c then core_latch E_Estop None c else c)"
  define c2 where "c2 = (if rc_soft_estop c1 then core_latch E_SwEstop None c1 else c1)"
  have "checked c c1" "checked c1 c2" by (simp_all add: c1_def c2_def checked_latch(1))
  then have "checked c c2" by (rule checked_trans)
  then show ?thesis
    unfolding check_estop_def Let_def c1_def [symmetric] c2_def [symmetric]
    by (rule checked_then) simp
qed

lemma check_estop_hard:
  assumes "manager_ok (rc_errors c)" and "estop_condition c"
  shows "any_hard (rc_errors (check_estop c))"
proof -
  define c1 where "c1 = (if rc_hw_estop c then core_latch E_Estop None c else c)"
  define c2 where "c2 = (if rc_soft_estop c1 then core_latch E_SwEstop None c1 else c1)"
  have k: "checked c c1" "checked c1 c2" by (simp_all add: c1_def c2_def checked_latch(1))
  note soft = checked_sel(7) [OF k(1)]
  have "any_hard (rc_errors c2)"
  proof (cases "rc_hw_estop c")
    case True
    then have "any_hard (rc_errors c1)" by (simp add: c1_def checked_latch(2) [OF _ assms(1)])
    then show ?thesis using hard_after [OF k(2)] ok_after [OF k(1)] assms(1) by simp
  next
    case False
    with assms(2) soft have "rc_soft_estop c1" by (simp add: estop_condition_def)
    then show ?thesis using ok_after [OF k(1) assms(1)] by (simp add: c2_def checked_latch(2))
  qed
  moreover have "view (check_estop c) = view c2"
    unfolding check_estop_def Let_def c1_def [symmetric] c2_def [symmetric] by simp
  ultimately show ?thesis using view_sel(5) by metis
qed

lemma check_loop_checked: "checked c (check_loop h c)"
proof -
  have "checked c (core_condition E_LoopDegraded None (h = Loop_Degraded) c)" by (rule checked_condition) simp_all
  note k = this checked_trans [OF this checked_latch(1)]
  show ?thesis unfolding check_loop_def Let_def by (rule checked_if) (rule k, simp | rule k)+
qed

lemma check_link_checked: "checked c (check_link l c)"
proof -
  define c1 where "c1 = (if lh_state l = Link_BusOff \<or> lh_bus_off_events l \<noteq> li_bus_off_seen (rc_link c)
     then core_latch E_BusOff None (rc_link_update (\<lambda>x. x\<lparr>li_bus_off_seen := lh_bus_off_events l\<rparr>) c) else c)"
  have "checked c c1"
    unfolding c1_def by (intro checked_if checked_refl) (rule checked_trans [OF checked_view checked_latch(1)]; simp)
  then show ?thesis
    unfolding check_link_def Let_def c1_def [symmetric] by (rule checked_trans) (rule checked_condition; simp)
qed

lemma check_torque_joint_checked: "checked c (check_torque_joint k enforce i c)"
proof -
  define n where "n = sat_add (me_tau_env_over (rc_meas c) ! i) 1"
  define c1 where "c1 = rc_meas_update (\<lambda>m. m\<lparr>me_tau_env_over := (me_tau_env_over m)[i := n]\<rparr>) c"
  have "checked c c1" by (rule checked_view) (simp add: c1_def view_meas)
  moreover have "checked c1 (core_latch E_TorqueEnvelope (Some (of_nat i)) c1)" by (simp add: checked_latch(1))
  moreover have "checked c (rc_meas_update (\<lambda>m. m\<lparr>me_tau_env_over := (me_tau_env_over m)[i := 0]\<rparr>) c)"
    by (rule checked_view) (simp add: view_meas)
  ultimately show ?thesis
    unfolding check_torque_joint_def Let_def n_def [symmetric] c1_def [symmetric] by (auto intro: checked_trans)
qed

lemma check_torque_checked: "checked c (check_torque k c)"
  by (simp add: check_torque_def checked_fold check_torque_joint_checked)

lemma freshness_checked:
  assumes "entry_ok \<lparr>ee_code = E_CanStale, ee_joint = Some i\<rparr>"
  shows "checked c (freshness_check en (node, i) c)"
proof -
  define f where "f = en_fresh en node"
  define c1 where "c1 = core_condition E_CanStale (Some i) (f = Fresh_Stale) c"
  define c2 where "c2 = (if f = Fresh_Lost then (core_latch E_CanLost (Some i) c1)\<lparr>rc_homed := False\<rparr> else c1)"
  have k1: "checked c c1" unfolding c1_def by (rule checked_condition) (use assms in simp_all)
  have "checked c1 ((core_latch E_CanLost (Some i) c1)\<lparr>rc_homed := False\<rparr>)"
    using checked_latch [of E_CanLost c1 "Some i"] by (auto simp: checked_def)
  then have "checked c1 c2" by (simp add: c2_def)
  with k1 have "checked c c2" by (rule checked_trans)
  then show ?thesis
    unfolding freshness_check_def Let_def split f_def [symmetric] c1_def [symmetric] c2_def [symmetric]
    by (rule checked_then) (simp split: freshness.split)
qed

lemma motor_flags_checked: "checked c (motor_flag_check x c)"
  by (cases x) (auto simp: motor_flag_check_def Let_def intro!: checked_fold checked_latch(1) split: option.split)

lemma check_tx_checked: "checked c (check_tx k c)"
proof -
  define c1 where "c1 = fold (\<lambda>i. core_latch E_CanLost (Some (of_nat i))) joints c"
  define c2 where "c2 = (if rc_has_can_gripper c1 then core_latch E_CanLost (Some GRIPPER_ERR_IDX) c1 else c1)"
  define c3 where "c3 = (if kf_tx_fault_latch_ticks k \<le> li_tx_streak (rc_link c) then c2 else c)"
  have "checked c c1" unfolding c1_def by (intro checked_fold checked_latch(1)) simp
  moreover have "checked c1 c2" by (simp add: c2_def checked_latch(1))
  ultimately have "checked c c3" by (auto simp: c3_def intro: checked_trans)
  moreover have "checked c3 (core_latch E_CanLost (Some GRIPPER_ERR_IDX) c3)" by (simp add: checked_latch(1))
  ultimately show ?thesis
    unfolding check_tx_def Let_def c1_def [symmetric] c2_def [symmetric] c3_def [symmetric] by (auto intro: checked_trans)
qed

lemma check_gripper_reply_checked: "checked c (check_gripper_reply c)"
  by (auto simp: check_gripper_reply_def Let_def checked_latch(1) split: option.split)

lemma check_bus_checked: "checked c (check_bus k en c)"
proof (cases "rc_silent c")
  case False
  define c1 where "c1 = check_tx k c"
  define c2 where "c2 = fold (freshness_check en) (arm_nodes k) c1"
  define c3 where "c3 = (if rc_has_can_gripper c2 then freshness_check en (kf_gripper_node k, GRIPPER_ERR_IDX) c2 else c2)"
  define c4 where "c4 = fold (\<lambda>n c. if bit (bs_reconnected_mask (rc_bus_state c3)) n then resend_config k en (of_nat n) c else c) [0..<MAX_NODES] c3"
  define c5 where "c5 = fold motor_flag_check (arm_nodes k) c4"
  define c6 where "c6 = motor_flag_check (kf_gripper_node k, GRIPPER_ERR_IDX) c5"
  have "checked c1 c2" unfolding c2_def
  proof (rule checked_fold_in)
    fix x d assume "x \<in> set (arm_nodes k)"
    then obtain i where "x = (kf_node_of k ! i, of_nat i)" "i < NUM_NODES" by (auto simp: arm_nodes_def MAX_JOINTS_def NUM_NODES_def)
    then show "checked d (freshness_check en x d)" by (auto intro: freshness_checked simp: joint_entry_ok)
  qed
  then have "checked c c2" using checked_trans check_tx_checked c1_def by blast
  moreover have "checked c2 c3" by (simp add: c3_def freshness_checked)
  moreover have "checked c3 c4" unfolding c4_def by (intro checked_view view_fold) simp
  moreover have "checked c4 c5" unfolding c5_def by (intro checked_fold motor_flags_checked)
  ultimately have c5: "checked c c5" by (blast intro: checked_trans)
  have "checked c5 (check_gripper_reply c6)"
    using checked_trans [OF motor_flags_checked check_gripper_reply_checked] by (simp add: c6_def)
  with c5 have "checked c (if rc_has_can_gripper c5 then check_gripper_reply c6 else c5)" by (auto intro: checked_trans)
  then show ?thesis
    unfolding check_bus_def Let_def c1_def [symmetric] c2_def [symmetric] c3_def [symmetric] c4_def [symmetric] c5_def [symmetric]
      c6_def [symmetric] using False by simp
qed (simp add: check_bus_def)

lemma check_exec_link_checked: "checked c (check_exec_link k c)"
proof -
  define n where "n = (if rc_heartbeat c then 0 else sat_add (rc_hb_silence c) 1)"
  define c1 where "c1 = c\<lparr>rc_heartbeat := False, rc_hb_silence := n\<rparr>"
  have "checked c c1" by (rule checked_view) (simp add: c1_def)
  moreover have "checked c1 (core_latch E_ExecLinkLost None c1)" by (simp add: checked_latch(1))
  ultimately show ?thesis
    unfolding check_exec_link_def Let_def n_def [symmetric] c1_def [symmetric] by (auto intro: checked_trans)
qed

lemma check_stream_link_checked: "checked c (check_stream_link k c)"
  by (simp add: check_stream_link_def checked_latch(1))

lemma check_homing_checked: "checked c (check_homing c)"
proof -
  define c1 where "c1 = fold (\<lambda>i. core_condition E_HomingFailed (Some (of_nat i)) (hy_statuses (rc_homing c) ! i = HJ_Failed)) [0..<NUM_NODES] c"
  define c2 where "c2 = (if hy_cal_failed (rc_homing c1) then core_latch E_GripperCalibrationFailed (Some GRIPPER_ERR_IDX) c1 else c1)"
  have "checked c c1" unfolding c1_def by (intro checked_fold_in checked_condition) (auto simp: joint_entry_ok)
  moreover have "checked c1 c2" by (simp add: c2_def checked_latch(1))
  ultimately have "checked c c2" by (rule checked_trans)
  then show ?thesis
    unfolding check_homing_def Let_def c1_def [symmetric] c2_def [symmetric] by (rule checked_trans) (rule checked_condition; simp)
qed

text \<open>All checks before the reaction.\<close>

definition checks :: "rt_config \<Rightarrow> env \<Rightarrow> rt_core \<Rightarrow> rt_core" where
  "checks k en c = check_homing (check_stream_link k (check_exec_link k (check_bus k en (check_torque k (check_link (en_link en)
     (check_loop (en_health en) (check_estop c)))))))"

lemma check_errors_react: "check_errors k en c = react k en (checks k en c)"
  by (simp add: check_errors_def checks_def Let_def)

lemma after_estop: "checked (check_estop c) (checks k en c)"
  unfolding checks_def
  by (rule checked_trans [OF checked_trans [OF checked_trans [OF checked_trans [OF checked_trans [OF checked_trans [OF
      check_loop_checked check_link_checked] check_torque_checked] check_bus_checked] check_exec_link_checked]
      check_stream_link_checked] check_homing_checked])

lemma checks_checked: "checked c (checks k en c)"
  by (rule checked_trans [OF check_estop_checked after_estop])

lemma estop_hard:
  "sound c \<Longrightarrow> estop_condition c \<Longrightarrow> any_hard (rc_errors (checks k en c))"
  using hard_after [OF after_estop] check_estop_hard ok_after [OF check_estop_checked] by (simp add: sound_def)

lemma checked_sound: "checked c d \<Longrightarrow> sound c \<Longrightarrow> sound d"
  using checked_sel [of c d] ok_after [of c d] by (simp add: sound_def)

lemma react_sel:
  assumes "sound c" and "homed_ok c \<or> any_hard (rc_errors c)"
  shows "core_inv (react k en c)" "rc_errors (react k en c) = rc_errors c" "sends (react k en c) = sends c"
    "any_hard (rc_errors c) \<Longrightarrow> rc_mode (react k en c) = (if rc_mode c \<in> {M_Flashing, M_SafetyStop} then rc_mode c else M_ActiveError)
       \<and> rc_state (react k en c) = Arm_Disabled"
    "\<not> any_hard (rc_errors c) \<Longrightarrow> rc_mode (react k en c) = (if rc_mode c = M_ActiveError then M_Idle else rc_mode c)
       \<and> rc_state (react k en c) = rc_state c"
proof -
  define c1 where "c1 = (if rc_mode c \<noteq> M_Booting then c\<lparr>rc_state := Arm_Disabled\<rparr> else c)"
  have c1: "sound c1" "rc_mode c1 = rc_mode c" "rc_errors c1 = rc_errors c" "sends c1 = sends c" "rc_state c1 = Arm_Disabled"
    using assms(1) by (auto simp: c1_def sound_def sends_def)
  have r: "react k en c = (if any_hard (rc_errors c)
      then (if rc_mode c \<in> {M_ActiveError, M_Flashing, M_SafetyStop} then c1 else enter_mode k en M_ActiveError c1)
      else if rc_mode c = M_ActiveError then enter_mode k en M_Idle c else c)"
    unfolding react_def Let_def c1_def [symmetric] using c1(2) by simp
  show "rc_errors (react k en c) = rc_errors c" "sends (react k en c) = sends c"
    using c1 by (simp_all add: r enter_mode_sel)
  show "any_hard (rc_errors c) \<Longrightarrow> rc_mode (react k en c) = (if rc_mode c \<in> {M_Flashing, M_SafetyStop} then rc_mode c else M_ActiveError)
       \<and> rc_state (react k en c) = Arm_Disabled"
    "\<not> any_hard (rc_errors c) \<Longrightarrow> rc_mode (react k en c) = (if rc_mode c = M_ActiveError then M_Idle else rc_mode c)
       \<and> rc_state (react k en c) = rc_state c"
    using c1 by (auto simp: r enter_mode_sel)
  show "core_inv (react k en c)"
    using assms c1 enter_mode_sound [of c1 M_ActiveError k en] enter_mode_sound [of c M_Idle k en]
      enter_mode_homed_ok(1) [of M_ActiveError k en c1] enter_mode_homed_ok(1) [of M_Idle k en c]
    by (auto simp: r core_inv_def) (auto simp: homed_ok_def)
qed

lemma weak_homed: "checked c d \<Longrightarrow> core_inv c \<Longrightarrow> homed_ok d \<or> any_hard (rc_errors d)"
  using checked_sel(1) [of c d] by (auto simp: checked_def core_inv_def homed_ok_def sound_def)

lemma check_errors_sel:
  assumes "core_inv c"
  shows "core_inv (check_errors k en c)" "rc_errors (check_errors k en c) = rc_errors (checks k en c)"
    "sends (check_errors k en c) = sends c"
    "any_hard (rc_errors (checks k en c)) \<Longrightarrow>
       rc_mode (check_errors k en c) = (if rc_mode c \<in> {M_Flashing, M_SafetyStop} then rc_mode c else M_ActiveError)
       \<and> rc_state (check_errors k en c) = Arm_Disabled"
    "\<not> any_hard (rc_errors (checks k en c)) \<Longrightarrow>
       rc_mode (check_errors k en c) = (if rc_mode c = M_ActiveError then M_Idle else rc_mode c)
       \<and> rc_state (check_errors k en c) = rc_state c"
proof -
  let ?d = "checks k en c"
  note k = checks_checked [of c k en]
  have "sound ?d" using assms by (simp add: core_inv_def checked_sound [OF k])
  note r = react_sel [OF this weak_homed [OF k assms], of k en, folded check_errors_react] checked_sel [OF k]
  show "core_inv (check_errors k en c)" "rc_errors (check_errors k en c) = rc_errors (checks k en c)"
    "sends (check_errors k en c) = sends c"
    using r by simp_all
  show "any_hard (rc_errors (checks k en c)) \<Longrightarrow>
       rc_mode (check_errors k en c) = (if rc_mode c \<in> {M_Flashing, M_SafetyStop} then rc_mode c else M_ActiveError)
       \<and> rc_state (check_errors k en c) = Arm_Disabled"
    "\<not> any_hard (rc_errors (checks k en c)) \<Longrightarrow>
       rc_mode (check_errors k en c) = (if rc_mode c = M_ActiveError then M_Idle else rc_mode c)
       \<and> rc_state (check_errors k en c) = rc_state c"
    using r by simp_all
qed

section \<open>Boot\<close>

definition booted :: "rt_core \<Rightarrow> rt_core \<Rightarrow> bool" where
  "booted c c' \<longleftrightarrow> admits c c' \<and> rc_state c' = rc_state c \<and> rc_soft_estop c' = rc_soft_estop c
     \<and> (rc_mode c' = rc_mode c \<or> rc_mode c = M_Booting \<and> rc_mode c' = M_Idle)"

lemma booted_trans: "booted a b \<Longrightarrow> booted b c \<Longrightarrow> booted a c"
  by (auto simp: booted_def intro: admits_trans)

lemma booted_view: "core_inv c \<Longrightarrow> view c' = view c \<Longrightarrow> booted c c'"
  using view_sel [of c' c] by (simp add: booted_def admits_view)

lemma booted_inv: "booted c c' \<Longrightarrow> core_inv c'"
  by (simp add: booted_def admits_def)

lemma booted_checked: "core_inv c \<Longrightarrow> checked c d \<Longrightarrow> rc_homed d = rc_homed c \<Longrightarrow> booted c d"
  using checked_sel [of c d] checked_sound [of c d] hard_after [of c d]
  by (simp add: booted_def admits_def core_inv_def homed_ok_def) (simp add: sound_def)

lemma latch_missing_booted: "core_inv c \<Longrightarrow> booted c (latch_missing k en c)"
proof -
  assume inv: "core_inv c"
  define f where "f = (\<lambda>i c. if en_connected en AND node_bit (kf_node_of k ! i) = 0 then core_latch E_CanLost (Some (of_nat i)) c else c)"
  have "checked c (fold f joints c)" unfolding f_def by (intro checked_fold) (simp add: checked_latch(1))
  then have "checked c (latch_missing k en c)"
    unfolding latch_missing_def Let_def f_def [symmetric] by (auto intro: checked_trans [OF _ checked_latch(1)])
  moreover have "rc_homed (fold f is c) = rc_homed c" for "is" by (induction "is" arbitrary: c) (simp_all add: f_def core_latch_def)
  then have "rc_homed (latch_missing k en c) = rc_homed c"
    unfolding latch_missing_def Let_def f_def [symmetric] by (simp add: core_latch_def)
  ultimately show ?thesis by (rule booted_checked [OF inv])
qed

lemma adopt_kt_booted: "core_inv c \<Longrightarrow> booted c (adopt_driver_kt k c)"
  by (rule booted_view, simp, unfold adopt_driver_kt_def, rule view_meas) (simp add: core_inv_def sound_def)

lemma release_tool_hold_booted: "core_inv c \<Longrightarrow> booted c (release_tool_hold k en c)"
proof -
  assume inv: "core_inv c"
  let ?b = "rc_boot_update (\<lambda>b. b\<lparr>bt_tool_hold := False\<rparr>) c"
  have b: "core_inv ?b" using inv inv_view(1) [of ?b c] by simp
  have "booted c (snd (request_mode k en M_Idle ?b))" if "rc_mode c = M_Booting"
  proof (rule request_mode_cases [OF b, where k = k and en = en and t = M_Idle])
    assume "view (snd (request_mode k en M_Idle ?b)) = view ?b"
    then show ?thesis by (intro booted_view [OF inv]) simp
  next
    assume "snd (request_mode k en M_Idle ?b) = enter_mode k en M_Idle ?b"
    with that admits_trans [OF admits_view [OF inv, of ?b] admits_request [OF b, of k en M_Idle]] show ?thesis
      by (simp add: booted_def enter_mode_sel)
  qed
  then show ?thesis by (auto simp: release_tool_hold_def Let_def booted_view [OF inv] split: option.split)
qed

lemma selfcheck_booted:
  assumes "core_inv c"
  shows "booted c (case selfcheck k en c of Inl d \<Rightarrow> d | Inr d \<Rightarrow> d)"
proof -
  define c1 where "c1 = rc_boot_update (\<lambda>b. b\<lparr>bt_rescan_at := None\<rparr>) c"
  define deaf where "deaf \<longleftrightarrow> en_connected en AND foldl (\<lambda>m node. m OR node_bit node) 0 (kf_node_of k) = 0 \<and> \<not> bt_link_recovered (rc_boot c1)"
  define c2 where "c2 = (if deaf then on_bus Call_recover_link c1 else c1)"
  define c3 where "c3 = latch_missing k en c2"
  define c4 where "c4 = (if kf_kt_auto k then adopt_driver_kt k c3 else c3)"
  have v: "view c2 = view c" by (simp add: c2_def c1_def)
  then have c2: "booted c c2" by (rule booted_view [OF assms])
  have "booted c2 c3" unfolding c3_def by (rule latch_missing_booted [OF booted_inv [OF c2]])
  with c2 have c3: "booted c c3" by (rule booted_trans)
  have c4: "booted c c4"
    using c3 booted_trans [OF c3 adopt_kt_booted [OF booted_inv [OF c3]]] by (simp add: c4_def)
  have last: "booted c d" if "view d = view c4" for d
    by (rule booted_trans [OF c4 booted_view [OF booted_inv [OF c4] that]])
  have link: "booted c d" if "view d = view c2" for d
    by (rule booted_trans [OF c2 booted_view [OF booted_inv [OF c2] that]])
  show ?thesis
    unfolding selfcheck_def Let_def c1_def [symmetric] deaf_def [symmetric] c2_def [symmetric] c3_def [symmetric] c4_def [symmetric]
    by (simp add: last link)
qed

lemma boot_oneshots_booted:
  assumes "core_inv c"
  shows "booted c (boot_oneshots k en c)"
proof -
  define rescan where "rescan \<longleftrightarrow> bt_rescan_at (rc_boot c) = Some (rc_tick c)"
  define s where "s = (if rc_tick c - bt_bus_booted_at (rc_boot c) = kf_boot_selfcheck_tick k \<or> rescan then selfcheck k en c else Inr c)"
  have s: "booted c (case s of Inl d \<Rightarrow> d | Inr d \<Rightarrow> d)"
    using selfcheck_booted [OF assms, of k en] booted_view [OF assms, of c] by (simp add: s_def)
  have rest: "booted d (drain_config_resends k en (if t \<and> \<not> rc_silent e then config_repush k en e else e))"
    if "core_inv d" "e = (if bt_tool_hold (rc_boot d) then release_tool_hold k en d else d)" for d e t
  proof -
    have e: "booted d e" using that release_tool_hold_booted booted_view by auto
    show ?thesis by (rule booted_trans [OF e], rule booted_view [OF booted_inv [OF e]]) simp
  qed
  have shot: "booted c (rc_boot_update f (on_bus Call_boot_configure c))" for f
    by (rule booted_view [OF assms]) simp
  have rest2: "booted c (drain_config_resends k en (if t \<and> \<not> rc_silent e then config_repush k en e else e))"
    if "s = Inr d" "e = (if bt_tool_hold (rc_boot d) then release_tool_hold k en d else d)" for d e t
    using booted_trans [OF _ rest [OF booted_inv that(2)], of c c t] s that(1) by simp
  show ?thesis
    unfolding boot_oneshots_def Let_def rescan_def [symmetric] s_def [symmetric]
    using s shot rest2 by (auto split: sum.split)
qed

section \<open>Up to the checks\<close>

lemma request_soft: "rc_soft_estop (snd (request_mode k en t c)) = rc_soft_estop c"
  by (simp add: request_mode_def enter_mode_sel)

lemma rest_soft: "rc_soft_estop (rest_into_hold k en at c) = rc_soft_estop c"
  using steady_sel(7) [OF leave_mode_steady, of k en c] by (simp add: rest_into_hold_def Let_def enter_mode_sel)

lemma soft_of_view: "view c' = view c \<Longrightarrow> rc_soft_estop c' = rc_soft_estop c"
  by (rule view_sel(9))

lemma apply_soft:
  "rc_soft_estop (apply_command k en cmd c) = (case cmd of Rt_SetSoftEstop on \<Rightarrow> on | _ \<Rightarrow> rc_soft_estop c)"
proof -
  have clear: "rc_soft_estop (core_begin_clear k c) = rc_soft_estop c"
    using core_begin_clear_sel [of k c] by (simp add: view_def)
  have stop: "rc_soft_estop (stop_command k en c) = rc_soft_estop c"
    by (cases "rc_mode c") (simp_all add: stop_command_def Let_def request_soft)
  have enable: "rc_soft_estop (enable_command i c) = rc_soft_estop c" for i
    by (simp add: enable_command_def)
  note same = soft_of_view [OF view_jog_command] soft_of_view [OF view_gripper_in] soft_of_view [OF view_halt] soft_of_view [OF view_io(1)]
    soft_of_view [OF view_on_hook] soft_of_view [OF view_on_bus]
  show ?thesis
    by (cases cmd) (simp_all add: apply_command_def Let_def clear stop enable same request_soft rest_soft split: mode.split)
qed

lemma safety_stop_reached: "rc_mode (apply_command k en (Rt_SetMode M_SafetyStop) c) = M_SafetyStop"
  by (cases "rc_mode c") (simp_all add: apply_command_def request_mode_def transition_allowed_def enter_mode_sel)

definition pressed_now :: "env \<Rightarrow> rt_core \<Rightarrow> bool" where
  "pressed_now en c = fst (estop_pressed (rc_estop c) (en_estop_level en))"

definition ready :: "rt_config \<Rightarrow> env \<Rightarrow> rt_core \<Rightarrow> rt_core" where
  "ready k en c =
     (let c = on_bus (Call_begin_tick (rc_tick c + 1)) (c\<lparr>rc_tick := rc_tick c + 1, rc_calls := []\<rparr>)
      in boot_oneshots k en (read_io_inputs k en (c\<lparr>rc_hw_estop := pressed_now en c,
           rc_estop := snd (estop_pressed (rc_estop c) (en_estop_level en))\<rparr>)))"

definition commanded :: "rt_config \<Rightarrow> env \<Rightarrow> rt_core \<Rightarrow> rt_core" where
  "commanded k en c = (case en_command en of Some cmd \<Rightarrow> apply_command k en cmd (ready k en c) | None \<Rightarrow> ready k en c)"

lemma sense_view: "view (sense k en c) = view (commanded k en c)"
  by (cases "en_command en")
    (simp_all add: sense_def commanded_def ready_def pressed_now_def Let_def split_def view_meas on_bus_def)

lemma ready_sel:
  assumes "core_inv c"
  shows "core_inv (ready k en c)" "sends (ready k en c) = []" "rc_hw_estop (ready k en c) = pressed_now en c"
    "rc_soft_estop (ready k en c) = rc_soft_estop c" "rc_state (ready k en c) = rc_state c"
    "rc_mode (ready k en c) = rc_mode c \<or> rc_mode c = M_Booting \<and> rc_mode (ready k en c) = M_Idle"
    "any_hard (rc_errors c) \<Longrightarrow> any_hard (rc_errors (ready k en c))"
proof -
  define c1 where "c1 = on_bus (Call_begin_tick (rc_tick c + 1)) (c\<lparr>rc_tick := rc_tick c + 1, rc_calls := []\<rparr>)"
  define c2 where "c2 = c1\<lparr>rc_hw_estop := pressed_now en c1, rc_estop := snd (estop_pressed (rc_estop c1) (en_estop_level en))\<rparr>"
  define c3 where "c3 = read_io_inputs k en c2"
  have c2: "core_inv c2" "sends c2 = []" "rc_hw_estop c2 = pressed_now en c" "rc_soft_estop c2 = rc_soft_estop c"
    "rc_state c2 = rc_state c" "rc_mode c2 = rc_mode c" "rc_errors c2 = rc_errors c"
    using assms by (simp_all add: c2_def c1_def on_bus_def pressed_now_def core_inv_def sound_def homed_ok_def sends_def)
  have v: "view c3 = view c2" by (simp add: c3_def)
  note s = view_sel [OF v] inv_view(1) [OF v]
  have r: "ready k en c = boot_oneshots k en c3"
    by (simp add: ready_def Let_def c1_def c2_def c3_def)
  have "booted c3 (ready k en c)" unfolding r by (rule boot_oneshots_booted) (simp add: s c2)
  then show "core_inv (ready k en c)" "sends (ready k en c) = []" "rc_hw_estop (ready k en c) = pressed_now en c"
    "rc_soft_estop (ready k en c) = rc_soft_estop c" "rc_state (ready k en c) = rc_state c"
    "rc_mode (ready k en c) = rc_mode c \<or> rc_mode c = M_Booting \<and> rc_mode (ready k en c) = M_Idle"
    "any_hard (rc_errors c) \<Longrightarrow> any_hard (rc_errors (ready k en c))"
    using s c2 by (simp_all add: booted_def admits_def)
qed

lemma sense_sel:
  assumes "core_inv c"
  shows "core_inv (sense k en c)" "sends (sense k en c) = []" "rc_hw_estop (sense k en c) = pressed_now en c"
    "rc_soft_estop (sense k en c) = (case en_command en of Some (Rt_SetSoftEstop on) \<Rightarrow> on | _ \<Rightarrow> rc_soft_estop c)"
    "en_command en = Some (Rt_SetMode M_SafetyStop) \<Longrightarrow> rc_mode (sense k en c) = M_SafetyStop"
    "any_hard (rc_errors c) \<Longrightarrow> any_hard (rc_errors (sense k en c))"
proof -
  note r = ready_sel [OF assms, of k en]
  note v = view_sel [OF sense_view, of k en c] inv_view(1) [OF sense_view, of k en c]
  have "admits (ready k en c) (commanded k en c)"
    using apply_command_proper [OF r(1)] admits_refl [OF r(1)] by (simp add: commanded_def proper_def split: option.split)
  then show "core_inv (sense k en c)" "sends (sense k en c) = []" "rc_hw_estop (sense k en c) = pressed_now en c"
    "any_hard (rc_errors c) \<Longrightarrow> any_hard (rc_errors (sense k en c))"
    using r v by (simp_all add: admits_def)
  show "rc_soft_estop (sense k en c) = (case en_command en of Some (Rt_SetSoftEstop on) \<Rightarrow> on | _ \<Rightarrow> rc_soft_estop c)"
    using r(4) unfolding v(9) by (simp add: commanded_def apply_soft split: option.split rt_command.split)
  show "rc_mode (sense k en c) = M_SafetyStop" if "en_command en = Some (Rt_SetMode M_SafetyStop)"
    using that v by (simp add: commanded_def safety_stop_reached)
qed

lemma sense_working:
  assumes "core_inv c" and "rc_mode (sense k en c) \<in> working" and "rc_mode (sense k en c) \<noteq> rc_mode c"
  shows "rc_state c = Arm_Enabled \<and> rc_state (sense k en c) = Arm_Enabled
    \<and> (en_command en = Some (Rt_SetMode (rc_mode (sense k en c))) \<and> rc_mode c = M_Idle
       \<or> en_command en = Some Rt_Hold \<and> rc_mode c \<in> {M_Jog, M_Stream} \<and> rc_mode (sense k en c) = M_Exec)"
proof -
  note r = ready_sel [OF assms(1), of k en]
  note v = view_sel [OF sense_view, of k en c]
  have boot: "rc_mode c = M_Booting \<longrightarrow> rc_state c = Arm_Disabled" using assms(1) by (simp add: core_inv_def sound_def)
  obtain cmd where cmd: "en_command en = Some cmd"
    using assms r(6) v(1) by (cases "en_command en") (auto simp: commanded_def working_def)
  then have "motion_reason cmd (ready k en c) (commanded k en c)"
    using apply_command_proper [OF r(1), of cmd k en] by (simp add: commanded_def proper_def)
  with assms(2,3) r(5,6) v(1,2) boot cmd show ?thesis by (auto simp: motion_reason_def working_def)
qed

end
