(* ===== verification/Core_Props.thy ===== *)
theory Core_Props
  imports Core_Frames Homing_Props Exec_Props
begin

text \<open>
  What the core promises: a protective reaction within the tick of an e-stop or a hard error, motion
  only on command and only when its gates hold, silence in maintenance, and the invariant of the
  mode machine over every history of ticks and of operations between them.
\<close>

section \<open>Frames\<close>

lemma view_send_joints:
  "view (send_joints en c) = (view c)\<lparr>vw_sends := sends c @ [On_bus (Call_send_joint_commands (ou_cmds (rc_out c)))]\<rparr>"
  by (simp add: send_joints_def Let_def) (simp add: on_bus_def view_def sends_def)

lemma view_end_slots:
  "view (end_slots k en g c) = (view c)\<lparr>vw_sends := sends c @ [On_bus (Call_send_gripper g), On_bus Call_poll_step]\<rparr>"
proof -
  have g: "view (send_gripper en g c) = (view c)\<lparr>vw_sends := sends c @ [On_bus (Call_send_gripper g)]\<rparr>"
    by (simp add: send_gripper_def Let_def) (simp add: on_bus_def view_def sends_def)
  have p: "view (on_bus Call_poll_step d) = (view d)\<lparr>vw_sends := vw_sends (view d) @ [On_bus Call_poll_step]\<rparr>" for d
    by (simp add: on_bus_def view_def sends_def)
  show ?thesis by (simp add: end_slots_def p g)
qed

text \<open>What the law and the frames of a mode may change.\<close>

definition acts :: "rt_core \<Rightarrow> rt_core \<Rightarrow> bool" where
  "acts c c' \<longleftrightarrow> core_inv c' \<and> rc_state c' = rc_state c
     \<and> (rc_mode c' = rc_mode c \<or> rc_mode c' = M_Idle \<and> rc_mode c \<in> working
        \<or> rc_mode c' = M_Exec \<and> rc_mode c \<in> {M_Jog, M_Stream} \<and> rc_state c = Arm_Enabled)"

lemma acts_view: "acts c d \<Longrightarrow> view e = (view d)\<lparr>vw_sends := s\<rparr> \<Longrightarrow> acts c e"
  by (auto simp: acts_def core_inv_def sound_def homed_ok_def view_def)

lemma acts_same: "core_inv c \<Longrightarrow> view d = view c \<Longrightarrow> acts c d"
  using inv_view(1) [of d c] view_sel [of d c] by (simp add: acts_def)

lemma acts_from: "view d = view c \<Longrightarrow> acts d e \<Longrightarrow> acts c e"
  using view_sel [of d c] by (simp add: acts_def)

lemma acts_latch:
  assumes "core_inv c" "\<not> is_warning code"
  shows "acts c (core_latch code joint c)"
  using booted_checked [OF assms(1) checked_latch(1) [OF assms(2)]] checked_sel [OF checked_latch(1) [OF assms(2)]]
  by (simp add: acts_def booted_def admits_def core_latch_def)

lemma acts_rest:
  assumes "core_inv c" "rc_mode c \<in> {M_Jog, M_Stream}"
  shows "acts c (rest_into_hold k en at c)" "sends (rest_into_hold k en at c) = sends c"
  using rest_into_hold_sel [OF assms, of k en at] assms(2) by (auto simp: acts_def admits_def working_def)

lemma acts_inv: "acts c d \<Longrightarrow> core_inv d"
  by (simp add: acts_def)

section \<open>The laws\<close>

lemma acts_jog:
  assumes "core_inv c" "rc_mode c = M_Jog"
  shows "acts c (dispatch_jog k en c)" "sends (dispatch_jog k en c) = sends c"
proof -
  obtain blocked q qd where j: "en_jog en = (blocked, q, qd)" by (metis prod.exhaust)
  define c1 where "c1 = rc_jog_update (\<lambda>j. j\<lparr>jo_blocked := blocked\<rparr>) (on_hook (Jog_tick (me_q (rc_meas c))) c)"
  define c2 where "c2 = rc_out_update (\<lambda>u. u\<lparr>ou_q := q, ou_qd := qd, ou_q_target := q, ou_qd_target := qd,
      ou_setpoints := law_jog q qd (gravity_applied c1) (me_g (rc_meas c1)) (kf_jog_pack k)\<rparr>) c1"
  have v: "view c2 = view c" by (simp add: c2_def c1_def)
  have inv: "core_inv c2" "rc_mode c2 \<in> {M_Jog, M_Stream}" using inv_view(1) [OF v] view_sel(1) [OF v] assms by simp_all
  have d: "dispatch_jog k en c = (if jo_released (rc_jog c2) \<and> list_all (\<lambda>v. f64_eq v f64_zero) qd \<and> at_measured_rest k c2
      then rest_into_hold k en q c2 else c2)"
    by (simp add: dispatch_jog_def j Let_def c1_def c2_def)
  show "acts c (dispatch_jog k en c)"
    using acts_from [OF v acts_rest(1) [OF inv]] acts_same [OF assms(1) v] by (simp add: d)
  show "sends (dispatch_jog k en c) = sends c"
    using acts_rest(2) [OF inv] view_sel(10) [OF v] by (simp add: d)
qed

lemma acts_exec:
  assumes "core_inv c"
  shows "acts c (dispatch_exec c)" "sends (dispatch_exec c) = sends c"
proof -
  obtain r q qd tau x where t: "exec_tick (rc_exec c) (me_q (rc_meas c)) = (r, (q, qd, tau), x)" by (metis prod.exhaust)
  define c1 where "c1 = c\<lparr>rc_exec := x\<rparr>"
  define c2 where "c2 = (case r of
      Exec_Fault joint residual \<Rightarrow> core_latch E_ExecSettleTimeout (Some joint) (rc_link_update (\<lambda>l. l\<lparr>li_settle_residual_rad := residual\<rparr>) c1)
    | Exec_Ok \<Rightarrow> c1)"
  have v1: "view c1 = view c" by (simp add: c1_def)
  have c2: "acts c c2 \<and> sends c2 = sends c"
  proof (cases r)
    case Exec_Ok
    then show ?thesis using acts_same [OF assms v1] view_sel(10) [OF v1] by (simp add: c2_def)
  next
    case (Exec_Fault joint residual)
    define d where "d = rc_link_update (\<lambda>l. l\<lparr>li_settle_residual_rad := residual\<rparr>) c1"
    have v: "view d = view c" by (simp add: d_def v1)
    have inv: "core_inv d" using inv_view(1) [OF v] assms by simp
    have l: "acts d (core_latch E_ExecSettleTimeout (Some joint) d)" by (rule acts_latch [OF inv]) simp
    have e: "c2 = core_latch E_ExecSettleTimeout (Some joint) d" using Exec_Fault by (simp add: c2_def d_def)
    have "sends c2 = sends d" unfolding e by (simp add: core_latch_def sends_def)
    then show ?thesis using acts_from [OF v l] view_sel(10) [OF v] by (simp add: e)
  qed
  have "dispatch_exec c = rc_out_update (\<lambda>u. u\<lparr>ou_q := q, ou_qd := qd, ou_tau := tau, ou_q_target := q, ou_qd_target := qd,
      ou_setpoints := law_exec q qd tau (gravity_applied c2) (me_g (rc_meas c2))\<rparr>) c2"
    unfolding dispatch_exec_def t Let_def prod.case c1_def c2_def by (rule refl)
  then have v: "view (dispatch_exec c) = view c2" by simp
  show "sends (dispatch_exec c) = sends c" using c2 view_sel(10) [OF v] by simp
  have "view (dispatch_exec c) = (view c2)\<lparr>vw_sends := sends c2\<rparr>" unfolding v by (simp add: view_def)
  with c2 show "acts c (dispatch_exec c)" using acts_view by blast
qed

lemma view_filtered [simp]: "view (snd (filtered_target k q c)) = view c"
  by (simp add: filtered_target_def Let_def)

lemma view_apply_setpoint [simp]: "view (apply_setpoint k sp c) = view c"
proof -
  obtain v a where "sr_scale (rc_stream c) = (v, a)" by (metis prod.exhaust)
  then show ?thesis by (simp add: apply_setpoint_def Let_def split_def)
qed

lemma view_intake [simp]: "view (snd (stream_intake k c)) = view c"
  by (simp add: stream_intake_def Let_def split_def split: option.split)

lemma acts_stream:
  assumes "core_inv c" "rc_mode c = M_Stream"
  shows "acts c (dispatch_stream k en c)" "sends (dispatch_stream k en c) = sends c"
proof -
  obtain applied c0 where i: "stream_intake k c = (applied, c0)" by (metis prod.exhaust)
  obtain q qd where st: "en_stream en = (q, qd)" by (metis prod.exhaust)
  define c1 where "c1 = rc_stream_update (stream_window k applied) c0"
  define c2 where "c2 = on_hook (Stream_step (sr_is_shaped (rc_stream c1))) c1"
  define c3 where "c3 = rc_stream_update (\<lambda>s. s\<lparr>sr_commanded := q\<rparr>) c2"
  define c4 where "c4 = (if en_stream_faulted en then core_latch E_StreamFault None c3 else c3)"
  define c5 where "c5 = rc_out_update (\<lambda>u. u\<lparr>ou_q := q, ou_qd := qd,
      ou_setpoints := law_stream q qd (gravity_applied c4) (me_g (rc_meas c4))\<rparr>) c4"
  have d: "dispatch_stream k en c = (if sr_released (rc_stream c5) \<and> list_all (\<lambda>v. f64_le (f64_abs v) STREAM_REST_RAD_S) qd
      \<and> at_measured_rest k c5 then rest_into_hold k en q c5 else c5)"
    unfolding dispatch_stream_def i st Let_def prod.case c1_def c2_def c3_def c4_def c5_def by (rule refl)
  have v3: "view c3 = view c" using view_intake [of k c] by (simp add: c3_def c2_def c1_def i)
  have inv3: "core_inv c3" using inv_view(1) [OF v3] assms(1) by simp
  have "acts c3 c4 \<and> sends c4 = sends c3 \<and> rc_mode c4 = rc_mode c3 \<and> rc_state c4 = rc_state c3"
    using acts_latch [OF inv3, of E_StreamFault None] acts_same [OF inv3, of c3] checked_sel [OF checked_latch(1) [of E_StreamFault c3 None]]
    by (simp add: c4_def)
  then have c4: "acts c3 c4" "sends c4 = sends c" "rc_mode c4 = M_Stream" "rc_state c4 = rc_state c"
    using view_sel [OF v3] assms(2) by simp_all
  have v5: "view c5 = view c4" by (simp add: c5_def)
  have inv5: "core_inv c5" "rc_mode c5 \<in> {M_Jog, M_Stream}" using inv_view(1) [OF v5] view_sel(1) [OF v5] c4 acts_inv by simp_all
  have "acts c5 (dispatch_stream k en c) \<and> sends (dispatch_stream k en c) = sends c5"
    using acts_rest [OF inv5] acts_same [OF inv5(1), of c5] by (simp add: d)
  then show "acts c (dispatch_stream k en c)" "sends (dispatch_stream k en c) = sends c"
    using view_sel [OF v5] c4 assms(2) by (auto simp: acts_def)
qed

lemma view_set_law [simp]: "view (set_law l c) = view c"
  by (simp add: set_law_def)

lemma run_law_acts:
  assumes "core_inv c" "rc_mode c \<notin> {M_Homing, M_Flashing}"
  shows "acts c (run_law k en c)" "sends (run_law k en c) = sends c"
proof -
  have l: "acts c (set_law l c)" "sends (set_law l c) = sends c" for l
    using acts_same [OF assms(1), of "set_law l c"] view_sel(10) [of "set_law l c" c] by simp_all
  show "acts c (run_law k en c)" "sends (run_law k en c) = sends c"
    using l acts_jog [OF assms(1), of k en] acts_exec [OF assms(1)] acts_stream [OF assms(1), of k en]
    by (cases "rc_mode c"; simp add: run_law_def)+
qed

lemma view_commit [simp]: "view (commit_frames c) = view c"
  by (simp add: commit_frames_def Let_def split_def)

section \<open>Homing\<close>

lemma view_check_reference [simp]: "view (snd (check_reference k en c)) = view c"
  by (simp add: check_reference_def Let_def split_def)

lemma view_hand_back [simp]: "view (hand_back_gripper c) = view c"
  by (simp add: hand_back_gripper_def)

lemma homing_outcome_acts:
  assumes "core_inv c" "rc_mode c = M_Homing"
  shows "acts c (homing_outcome k en status c)"
proof -
  have idle: "acts c (enter_mode k en M_Idle d)" if "view d = (view c)\<lparr>vw_homed := h\<rparr>" for d h
  proof -
    have "sound d" "rc_state d = rc_state c" using that assms by (auto simp: view_def core_inv_def sound_def)
    then show ?thesis
      using assms(2) by (simp add: acts_def enter_mode_sel core_inv_def enter_mode_sound enter_mode_homed_ok(1) working_def)
  qed
  obtain refused c1 where r: "check_reference k en c = (refused, c1)" by (metis prod.exhaust)
  have v1: "view c1 = view c" using view_check_reference [of k en c] by (simp add: r)
  define c2 where "c2 = (if list_all (\<lambda>i. hy_statuses (rc_homing c1) ! i = HJ_Done) joints
      then c1\<lparr>rc_homed := True, rc_not_homed_refused := False\<rparr> else c1\<lparr>rc_homed := False\<rparr>)"
  have "view (c1\<lparr>rc_homed := True, rc_not_homed_refused := False\<rparr>) = (view c)\<lparr>vw_homed := True\<rparr>" by (simp add: v1)
  then have "\<exists>h. view (hand_back_gripper (config_repush k en c2)) = (view c)\<lparr>vw_homed := h\<rparr>" by (auto simp: c2_def v1)
  then have complete: "acts c (enter_mode k en M_Idle (hand_back_gripper (config_repush k en c2)))" using idle by blast
  have failed: "acts c (enter_mode k en M_Idle (hand_back_gripper (c\<lparr>rc_homed := False\<rparr>)))" by (rule idle [of _ False]) simp
  show ?thesis
    unfolding homing_outcome_def r Let_def prod.case c2_def [symmetric]
    using complete failed acts_same [OF assms(1)] by (cases status) simp_all
qed

lemma acts_trans_inside:
  assumes "view d = (view c)\<lparr>vw_sends := s\<rparr>" "acts d e"
  shows "acts c e"
  using assms by (auto simp: acts_def view_def)

lemma dispatch_homing_acts:
  assumes "core_inv c" "rc_mode c = M_Homing"
  shows "acts c (dispatch_homing k en c)"
proof -
  obtain status h y where t: "homing_tick (rc_homing c) (rc_bus_state c) (rc_conv c) = (status, h, y)" by (metis prod.exhaust)
  note q = quiet_homing_tick [OF t]
  define c1 where "c1 = (on_buses (hi_calls h) c)\<lparr>rc_homing := y, rc_bus_state := hi_state h, rc_conv := hi_conv h, rc_homing_gcmd := hi_gcmd h\<rparr>"
  define c2 where "c2 = rc_out_update (\<lambda>u. u\<lparr>ou_cmds := hi_cmds h, ou_mirror := default_mirror, ou_slew := slew_reset (ou_slew u)\<rparr>) c1"
  define c3 where "c3 = end_slots k en (rc_homing_gcmd c2) (send_joints en c2)"
  have "view c1 = view c" using q by (simp add: c1_def view_def sends_def on_buses_def filter_empty_conv list_all_iff)
  then have "view c2 = view c" by (simp add: c2_def)
  then obtain s where v3: "view c3 = (view c)\<lparr>vw_sends := s\<rparr>" by (simp add: c3_def view_end_slots view_send_joints)
  then have "core_inv c3" "rc_mode c3 = M_Homing" using assms by (auto simp: core_inv_def sound_def homed_ok_def view_def)
  then have "acts c3 (homing_outcome k en status c3)" by (rule homing_outcome_acts)
  then have "acts c (homing_outcome k en status c3)" by (rule acts_trans_inside [OF v3])
  moreover have "dispatch_homing k en c = homing_outcome k en status c3"
    unfolding dispatch_homing_def t Let_def prod.case c1_def c2_def c3_def by (rule refl)
  ultimately show ?thesis by simp
qed

section \<open>The tick\<close>

lemma dispatch_cases:
  assumes "core_inv c"
  shows "acts c (dispatch_and_send k en c)"
    "rc_mode c = M_Flashing \<Longrightarrow> sends (dispatch_and_send k en c) = sends c"
    "rc_mode c \<notin> {M_Homing, M_Flashing} \<Longrightarrow> \<exists>g. sends (dispatch_and_send k en c) =
       sends c @ [On_bus (Call_send_joint_commands (ou_cmds (rc_out (commit_frames (run_law k en
         (if rc_mode c \<noteq> M_Exec then c\<lparr>rc_exec := at_rest (rc_exec c)\<rparr> else c)))))), On_bus (Call_send_gripper g), On_bus Call_poll_step]"
proof -
  define c1 where "c1 = (if rc_mode c \<noteq> M_Exec then c\<lparr>rc_exec := at_rest (rc_exec c)\<rparr> else c)"
  have v1: "view c1 = view c" by (simp add: c1_def)
  note s1 = view_sel [OF v1]
  have inv1: "core_inv c1" using inv_view(1) [OF v1] assms by simp
  define c2 where "c2 = send_joints en (commit_frames (run_law k en c1))"
  obtain g c3 where gs: "gripper_slot c2 = (g, c3)" by (metis prod.exhaust)
  have v3: "view (end_slots k en g (settle_gripper c3)) = (view c2)\<lparr>vw_sends := sends c2 @ [On_bus (Call_send_gripper g), On_bus Call_poll_step]\<rparr>"
    using view_gripper_slot [of c2] view_sel(10) [of "settle_gripper c3" c2] by (simp add: view_end_slots gs)
  have d: "dispatch_and_send k en c =
      (if rc_mode c1 = M_Flashing then rc_out_update (\<lambda>u. u\<lparr>ou_mirror := default_mirror, ou_slew := slew_reset (ou_slew u)\<rparr>) c1
       else if rc_mode c1 = M_Homing then dispatch_homing k en c1 else end_slots k en g (settle_gripper c3))"
    unfolding dispatch_and_send_def Let_def c1_def [symmetric] c2_def [symmetric] gs prod.case by (rule refl)
  show "rc_mode c = M_Flashing \<Longrightarrow> sends (dispatch_and_send k en c) = sends c"
    using s1 view_sel(10) [of "rc_out_update (\<lambda>u. u\<lparr>ou_mirror := default_mirror, ou_slew := slew_reset (ou_slew u)\<rparr>) c1" c1]
    by (simp add: d)
  show "acts c (dispatch_and_send k en c)"
  proof (cases "rc_mode c \<in> {M_Homing, M_Flashing}")
    case True
    then show ?thesis
      using s1(1) dispatch_homing_acts [OF inv1, of k en] acts_same [OF inv1] acts_from [OF v1]
      by (auto simp: d)
  next
    case False
    then have l: "acts c1 (run_law k en c1)" using run_law_acts(1) [OF inv1] s1(1) by simp
    have "view c2 = (view (run_law k en c1))\<lparr>vw_sends := vw_sends (view c2)\<rparr>" by (simp add: c2_def view_send_joints)
    then have "acts c1 c2" by (rule acts_view [OF l])
    then have "acts c1 (end_slots k en g (settle_gripper c3))" using v3 by (rule acts_view)
    then show ?thesis using acts_from [OF v1] False s1(1) by (simp add: d)
  qed
  assume m: "rc_mode c \<notin> {M_Homing, M_Flashing}"
  have "sends c2 = sends c @ [On_bus (Call_send_joint_commands (ou_cmds (rc_out (commit_frames (run_law k en c1)))))]"
    using run_law_acts(2) [OF inv1] m s1 view_send_joints [of en "commit_frames (run_law k en c1)"]
      view_sel(10) [OF view_commit, of "run_law k en c1"]
    by (simp add: c2_def view_def)
  with m s1(1) v3 show "\<exists>g. sends (dispatch_and_send k en c) =
       sends c @ [On_bus (Call_send_joint_commands (ou_cmds (rc_out (commit_frames (run_law k en
         (if rc_mode c \<noteq> M_Exec then c\<lparr>rc_exec := at_rest (rc_exec c)\<rparr> else c)))))), On_bus (Call_send_gripper g), On_bus Call_poll_step]"
    unfolding c1_def [symmetric] by (auto simp: d view_def)
qed

text \<open>The frames of the two protective laws.\<close>

lemma protective_cmds:
  assumes "sound c"
  shows "rc_mode c = M_ActiveError \<Longrightarrow> ou_cmds (rc_out (commit_frames (run_law k en c))) = replicate MAX_JOINTS jc_idle"
    "rc_mode c = M_SafetyStop \<Longrightarrow> ou_cmds (rc_out (commit_frames (run_law k en c))) = replicate MAX_JOINTS (jc_current 0)"
proof -
  have len: "length (rc_conv c) = MAX_JOINTS" "length (me_torque_ma_factor (rc_meas c)) = MAX_JOINTS"
    using assms by (simp_all add: sound_def)
  note still = commit_still [OF len, of zero_velocity "ou_slew (rc_out c)"] commit_still [OF len, of "torque_only f64_zero" "ou_slew (rc_out c)"]
  show "rc_mode c = M_ActiveError \<Longrightarrow> ou_cmds (rc_out (commit_frames (run_law k en c))) = replicate MAX_JOINTS jc_idle"
    using still(1)
    by (simp add: run_law_def commit_frames_def set_law_def law_active_error_def Let_def split_def zero_velocity_def
        jc_idle_def jc_velocity_def)
  show "rc_mode c = M_SafetyStop \<Longrightarrow> ou_cmds (rc_out (commit_frames (run_law k en c))) = replicate MAX_JOINTS (jc_current 0)"
    using still(2)
    by (simp add: run_law_def commit_frames_def set_law_def law_safety_stop_def Let_def split_def torque_only_def jc_current_def)
qed

lemma tick_errors: "sends (c\<lparr>rc_errors := e\<rparr>) = sends c"
  by (simp add: sends_def)

definition protective_sends :: "joint_command \<Rightarrow> core_call list \<Rightarrow> bool" where
  "protective_sends frame calls \<longleftrightarrow> (\<exists>g. filter transmits calls =
     [On_bus (Call_send_joint_commands (replicate MAX_JOINTS frame)), On_bus (Call_send_gripper g), On_bus Call_poll_step])"

text \<open>The end of a tick whose checks left a protective mode.\<close>

lemma tick_protected:
  assumes "core_inv c" and "rc_mode (check_errors k en (sense k en c)) = m" and "m \<in> {M_ActiveError, M_SafetyStop, M_Flashing}"
  shows "rc_mode (core_tick k en c) = m" "rc_state (core_tick k en c) = rc_state (check_errors k en (sense k en c))"
    "m = M_ActiveError \<Longrightarrow> protective_sends jc_idle (rc_calls (core_tick k en c))"
    "m = M_SafetyStop \<Longrightarrow> protective_sends (jc_current 0) (rc_calls (core_tick k en c))"
    "m = M_Flashing \<Longrightarrow> filter transmits (rc_calls (core_tick k en c)) = []"
proof -
  define s where "s = sense k en c"
  define d where "d = check_errors k en s"
  define e where "e = dispatch_and_send k en d"
  note inv_s = sense_sel(1,2) [OF assms(1), of k en, folded s_def]
  have d: "core_inv d" "sends d = []" using check_errors_sel(1,3) [OF inv_s(1), of k en] inv_s
    by (simp_all add: d_def)
  have m: "rc_mode d = m" using assms(2) by (simp add: d_def s_def)
  have tick: "core_tick k en c = e\<lparr>rc_errors := snd (em_tick (rc_errors e))\<rparr>"
    by (simp add: core_tick_def Let_def e_def d_def s_def)
  have calls: "filter transmits (rc_calls (core_tick k en c)) = sends e" by (simp add: tick sends_def)
  note dc = dispatch_cases [OF d(1), of k en, folded e_def]
  show "rc_mode (core_tick k en c) = m" "rc_state (core_tick k en c) = rc_state (check_errors k en (sense k en c))"
    using dc(1) m assms(3) by (auto simp: tick acts_def working_def d_def s_def)
  show "m = M_Flashing \<Longrightarrow> filter transmits (rc_calls (core_tick k en c)) = []"
    using dc(2) m d(2) by (simp add: calls)
  let ?r = "d\<lparr>rc_exec := at_rest (rc_exec d)\<rparr>"
  have r: "sound ?r" "rc_mode ?r = m" using d(1) m inv_view(2) [of ?r d] by (simp_all add: core_inv_def)
  show "m = M_ActiveError \<Longrightarrow> protective_sends jc_idle (rc_calls (core_tick k en c))"
    "m = M_SafetyStop \<Longrightarrow> protective_sends (jc_current 0) (rc_calls (core_tick k en c))"
    using dc(3) m d(2) protective_cmds [OF r(1), of k en] r(2) unfolding protective_sends_def calls by auto
qed

lemma stop_request_mode:
  assumes "core_inv c" and "en_command en = Some (Rt_SetMode M_SafetyStop)"
  shows "rc_mode (check_errors k en (sense k en c)) = M_SafetyStop"
proof -
  note s = sense_sel(1) [OF assms(1), of k en] sense_sel(5) [OF assms, where k = k]
  show ?thesis using check_errors_sel(4,5) [OF s(1), of k en] s(2)
    by (cases "any_hard (rc_errors (checks k en (sense k en c)))") simp_all
qed

section \<open>Histories\<close>

text \<open>
  Between ticks the daemon feeds the heartbeat and the stream slot, swaps the bus, re-references the
  simulator, fits a tool, or shuts down. \<open>set_homed(false)\<close> is only called on the core of an offline
  preview and is not a step.
\<close>

inductive core_step :: "rt_config \<Rightarrow> rt_core \<Rightarrow> rt_core \<Rightarrow> bool" for k :: rt_config where
  st_tick: "core_step k c (core_tick k en c)"
| st_stream: "core_step k c (stream_send sp c)"
| st_heartbeat: "core_step k c (heartbeat_feed c)"
| st_replace: "core_step k c (snd (replace_bus configured l c))"
| st_homed: "core_step k c (set_homed True c)"
| st_reference: "core_step k c (set_joint_reference k joint ticks rad c)"
| st_landed: "core_step k c (adopt_landed_pose k en joint_configs q c)"
| st_policy: "core_step k c (set_settle_policy p c)"
| st_offset: "core_step k c (set_tool_home_offset joint offset c)"
| st_tool: "core_step k c (set_gripper_tool k can_tool_id tune settle params gear homing repeats c)"
| st_halt: "core_step k c (shutdown_halt k en c)"
| st_park: "core_step k c (snd (shutdown_park_begin k en c))"
| st_feed: "core_step k c (snd (shutdown_park_feed c))"
| st_unpark: "core_step k c (shutdown_park_end c)"
| st_limp: "core_step k c (shutdown_limp k en c)"

definition core_initial :: "rt_config \<Rightarrow> rt_core \<Rightarrow> bool" where
  "core_initial k c \<longleftrightarrow> length (kf_torque_cal k) = MAX_JOINTS
     \<and> (\<exists>conv exec homing settle max_step park has_can_gripper can_tool_id. length conv = MAX_JOINTS
          \<and> c = new_core k conv exec homing settle max_step park has_can_gripper can_tool_id)"

lemma inv_tick: "core_inv c \<Longrightarrow> core_inv (core_tick k en c)"
proof -
  assume inv: "core_inv c"
  let ?e = "dispatch_and_send k en (check_errors k en (sense k en c))"
  have "core_inv ?e"
    using dispatch_cases(1) [OF check_errors_sel(1) [OF sense_sel(1) [OF inv]], of k en k en k en] by (simp add: acts_def)
  then show ?thesis
    by (simp add: core_tick_def Let_def core_inv_def sound_def homed_ok_def tick_ok)
qed

lemma inv_reference: "core_inv c \<Longrightarrow> core_inv (set_joint_reference k j t r c)"
  by (subst inv_view(1) [of _ c]) (simp_all add: set_joint_reference_def Let_def view_meas view_conv)

lemma inv_reseed: "core_inv c \<Longrightarrow> core_inv (reseed_motion_targets c)"
  by (subst inv_view(1) [of _ c]) (simp_all add: reseed_motion_targets_def Let_def)

lemma inv_homed: "core_inv c \<Longrightarrow> core_inv (set_homed True c)"
  by (simp add: set_homed_def core_inv_def sound_def homed_ok_def)

lemma inv_landed: "core_inv c \<Longrightarrow> core_inv (adopt_landed_pose k en joint_configs q c)"
proof -
  assume inv: "core_inv c"
  define f where "f = (\<lambda>(i, encoder_bits :: nat, conv) c.
      set_joint_reference k i (word_of_int (sint (motor_ticks conv (q ! i)) mod 2 ^ encoder_bits)) (q ! i) c)"
  have "core_inv (fold f xs c)" for xs
    using inv by (induction xs arbitrary: c) (auto simp: f_def inv_reference)
  then have r: "core_inv (reseed_motion_targets (set_homed True (fold f (enumerate 0 joint_configs) c)))" (is "core_inv ?r")
    by (intro inv_reseed inv_homed)
  have "view (adopt_landed_pose k en joint_configs q c) = view ?r"
    unfolding adopt_landed_pose_def Let_def f_def [symmetric] by simp
  with r show ?thesis using inv_view(1) by blast
qed

lemma inv_halt: "core_inv c \<Longrightarrow> core_inv (shutdown_halt k en c)" and inv_limp: "core_inv c \<Longrightarrow> core_inv (shutdown_limp k en c)"
  using admits_request [of c k en] by (simp_all add: shutdown_halt_def shutdown_limp_def admits_def)

lemma inv_park: "core_inv c \<Longrightarrow> core_inv (snd (shutdown_park_begin k en c))"
proof -
  assume inv: "core_inv c"
  define c1 where "c1 = (if rc_has_can_gripper c then apply_command k en Rt_GripperStop c else c)"
  have c1: "core_inv c1" using apply_command_proper [OF inv, of Rt_GripperStop k en] inv by (simp add: c1_def proper_def admits_def)
  obtain r2 c2 where r2: "request_mode k en M_Idle c1 = (r2, c2)" by (metis prod.exhaust)
  then have c2: "core_inv c2" using admits_request [OF c1, of k en M_Idle] by (simp add: admits_def)
  obtain r3 c3 where r3: "request_mode k en M_Stream c2 = (r3, c3)" by (metis prod.exhaust)
  then have c3: "core_inv c3" using admits_request [OF c2, of k en M_Stream] by (simp add: admits_def)
  define f where "f = pk_speed_fractions (rc_park c3)"
  define c4 where "c4 = rc_park_update (\<lambda>p. p\<lparr>pk_saved_scale := sr_scale (rc_stream c3)\<rparr>) c3"
  define c5 where "c5 = rc_stream_update (\<lambda>s. s\<lparr>sr_scale := (foldl f64_min f64_one f, f64_one)\<rparr>) (on_hook (Stream_set_scale_per_joint f f64_one) c4)"
  obtain lo hi where b: "pk_hard_bounds (rc_park c5) = (lo, hi)" by (metis prod.exhaust)
  define c6 where "c6 = rc_park_update (\<lambda>p. p\<lparr>pk_running := True\<rparr>) (on_hook (Stream_set_bounds lo hi) c5)"
  have "view c6 = view c3" by (simp add: c6_def c5_def c4_def)
  then have c6: "core_inv c6" using inv_view(1) c3 by blast
  show ?thesis
    unfolding shutdown_park_begin_def Let_def c1_def [symmetric] r2 prod.case r3 f_def [symmetric]
    unfolding c4_def [symmetric] unfolding c5_def [symmetric] unfolding b prod.case c6_def [symmetric]
    using inv c2 c3 c6 by (simp split: option.split)
qed

lemma inv_feed: "core_inv c \<Longrightarrow> core_inv (snd (shutdown_park_feed c))"
  by (subst inv_view(1) [of _ c]) (simp_all add: shutdown_park_feed_def Let_def)

lemma inv_unpark: "core_inv c \<Longrightarrow> core_inv (shutdown_park_end c)"
  by (subst inv_view(1) [of _ c]) (simp_all add: shutdown_park_end_def Let_def split_def)

lemma inv_tool: "core_inv c \<Longrightarrow> core_inv (set_gripper_tool k can_tool_id tune settle params gear homing repeats c)"
  by (subst inv_view(1) [of _ c]) (simp_all add: set_gripper_tool_def Let_def split: option.split)

lemma inv_replace: "core_inv c \<Longrightarrow> core_inv (snd (replace_bus configured l c))"
  by (simp add: replace_bus_def core_inv_def sound_def homed_ok_def)

lemma inv_new:
  assumes "length (kf_torque_cal k) = MAX_JOINTS" "length conv = MAX_JOINTS"
  shows "core_inv (new_core k conv exec homing settle max_step park has_can_gripper can_tool_id)"
  using assms manager_inv.reachable_inv [OF manager_start, of "kf_dt k"]
  by (simp add: new_core_def core_inv_def sound_def homed_ok_def)

interpretation core_machine: inductive_invariant "core_initial k" "core_step k" core_inv
proof
  show "core_inv c" if "core_initial k c" for c
    using that inv_new by (auto simp: core_initial_def)
  show "core_inv c'" if "core_inv c" "core_step k c c'" for c c'
    using that(2,1)
  proof cases
    case st_policy
    with that(1) show ?thesis using inv_view(1) [of c' c] by (simp add: set_settle_policy_def)
  next
    case st_offset
    with that(1) show ?thesis using inv_view(1) [of c' c] by (simp add: set_tool_home_offset_def)
  next
    case st_stream
    with that(1) show ?thesis using inv_view(1) [of c' c] by (simp add: stream_send_def)
  next
    case st_heartbeat
    with that(1) show ?thesis using inv_view(1) [of c' c] by (simp add: heartbeat_feed_def)
  qed (simp_all add: inv_tick inv_replace inv_homed inv_reference inv_landed inv_tool inv_halt inv_park inv_feed inv_unpark inv_limp)
qed

lemma working_reason:
  assumes inv: "core_inv c"
    and "rc_mode (core_tick k en c) \<in> working" and "rc_mode (core_tick k en c) \<noteq> rc_mode c"
  shows "rc_state (core_tick k en c) = Arm_Enabled
    \<and> (rc_mode c = M_Idle \<and> rc_state c = Arm_Enabled \<and> (\<exists>m \<in> working. en_command en = Some (Rt_SetMode m))
       \<or> rc_mode c \<in> {M_Jog, M_Stream} \<and> rc_mode (core_tick k en c) = M_Exec)"
proof -
  define s where "s = sense k en c"
  define d where "d = check_errors k en s"
  have si: "core_inv s" unfolding s_def by (rule sense_sel(1) [OF inv])
  have "acts d (dispatch_and_send k en d)"
    unfolding d_def by (rule dispatch_cases(1) [OF check_errors_sel(1) [OF si]])
  then have a: "rc_state (core_tick k en c) = rc_state d" "rc_mode (core_tick k en c) = rc_mode d
      \<or> rc_mode (core_tick k en c) = M_Exec \<and> rc_mode d \<in> {M_Jog, M_Stream} \<and> rc_state d = Arm_Enabled"
    using assms(2) by (auto simp: acts_def core_tick_def Let_def d_def s_def working_def)
  then have w: "rc_mode d \<in> working" using assms(2) by (auto simp: working_def)
  have e: "rc_mode d = rc_mode s" "rc_state d = rc_state s"
    using check_errors_sel(4,5) [OF si, of k en, folded d_def] w
    by (cases "any_hard (rc_errors (checks k en s))"; auto simp: working_def split: if_splits)+
  show ?thesis
  proof (cases "rc_mode s = rc_mode c")
    case False
    from sense_working [OF inv, of k en, folded s_def] False w e a show ?thesis by (auto simp: working_def)
  next
    case True
    with a assms(3) e show ?thesis by auto
  qed
qed

lemma sends_homing:
  assumes "core_inv c" "rc_mode c = M_Homing"
  shows "\<exists>frames g. sends (dispatch_homing k en c) =
    sends c @ [On_bus (Call_send_joint_commands frames), On_bus (Call_send_gripper g), On_bus Call_poll_step]"
proof -
  obtain status h y where t: "homing_tick (rc_homing c) (rc_bus_state c) (rc_conv c) = (status, h, y)" by (metis prod.exhaust)
  define c1 where "c1 = (on_buses (hi_calls h) c)\<lparr>rc_homing := y, rc_bus_state := hi_state h, rc_conv := hi_conv h, rc_homing_gcmd := hi_gcmd h\<rparr>"
  define c2 where "c2 = rc_out_update (\<lambda>u. u\<lparr>ou_cmds := hi_cmds h, ou_mirror := default_mirror, ou_slew := slew_reset (ou_slew u)\<rparr>) c1"
  define c3 where "c3 = end_slots k en (rc_homing_gcmd c2) (send_joints en c2)"
  have s1: "sends c1 = sends c"
    using quiet_homing_tick [OF t] by (simp add: c1_def sends_def on_buses_def filter_empty_conv list_all_iff)
  have "sends c2 = sends c1" by (rule view_sel(10)) (simp add: c2_def)
  with s1 have s3: "sends c3 = sends c @ [On_bus (Call_send_joint_commands (ou_cmds (rc_out c2))),
      On_bus (Call_send_gripper (rc_homing_gcmd c2)), On_bus Call_poll_step]"
    using view_end_slots [of k en "rc_homing_gcmd c2" "send_joints en c2"] view_send_joints [of en c2]
    by (simp add: c3_def view_def)
  have e: "sends (enter_mode k en M_Idle (hand_back_gripper d)) = sends d" for d
    using view_sel(10) [OF view_hand_back] by (simp add: enter_mode_sel)
  obtain refused c4 where r: "check_reference k en c3 = (refused, c4)" by (metis prod.exhaust)
  have v4: "sends c4 = sends c3" using view_sel(10) [OF view_check_reference, of k en c3] by (simp add: r)
  have hm: "sends (d\<lparr>rc_homed := b\<rparr>) = sends d" "sends (d\<lparr>rc_homed := b, rc_not_homed_refused := b2\<rparr>) = sends d" for d b b2
    by (simp_all add: sends_def)
  have "sends (homing_outcome k en status c3) = sends c3"
    using v4 by (cases status)
      (simp_all add: homing_outcome_def r Let_def e hm view_sel(10) [OF view_repush], simp add: sends_def)
  moreover have "dispatch_homing k en c = homing_outcome k en status c3"
    unfolding dispatch_homing_def t Let_def prod.case c1_def c2_def c3_def by (rule refl)
  ultimately show ?thesis using s3 by auto
qed

lemma dispatch_sends:
  assumes "core_inv c"
  shows "if rc_mode c = M_Flashing then sends (dispatch_and_send k en c) = sends c
    else \<exists>frames g. sends (dispatch_and_send k en c) =
      sends c @ [On_bus (Call_send_joint_commands frames), On_bus (Call_send_gripper g), On_bus Call_poll_step]"
proof -
  let ?h = "c\<lparr>rc_exec := at_rest (rc_exec c)\<rparr>"
  have h: "core_inv ?h" "sends ?h = sends c" using assms inv_view(1) [of ?h c] view_sel(10) [of ?h c] by simp_all
  have "\<exists>frames g. sends (dispatch_and_send k en c) =
      sends c @ [On_bus (Call_send_joint_commands frames), On_bus (Call_send_gripper g), On_bus Call_poll_step]"
    if "rc_mode c = M_Homing"
    using that sends_homing [OF h(1), of k en] h(2) by (simp add: dispatch_and_send_def Let_def)
  then show ?thesis using dispatch_cases(2,3) [OF assms, of k en] by auto
qed

section \<open>Properties\<close>

text \<open>A protected core: it is disabled, and its frames hold the arm, leave it limp, or there are none.\<close>

definition protected_now :: "rt_core \<Rightarrow> bool" where
  "protected_now c \<longleftrightarrow> rc_state c = Arm_Disabled
     \<and> (rc_mode c = M_ActiveError \<and> protective_sends jc_idle (rc_calls c)
        \<or> rc_mode c = M_SafetyStop \<and> protective_sends (jc_current 0) (rc_calls c)
        \<or> rc_mode c = M_Flashing \<and> filter transmits (rc_calls c) = [])"

text \<open>
  C1. An e-stop or a fault stops the arm in the tick that sees it. From every state the core can
  reach, a tick in which the debounced e-stop line reads pressed, the software e-stop is set or
  stays set, or a hard error is listed ends disabled: in ACTIVE_ERROR, with exactly one frame per
  joint commanding zero velocity and zero current and no position; or, where a protective stop or a
  maintenance window was in force, still limp with zero-current frames, or with no frame at all.
  Whatever command arrives in that tick, whatever the bus answers and whatever the mode was.
\<close>

theorem estop_or_fault_protects:
  assumes "reachable (core_initial k) (core_step k) c"
    and "fst (estop_pressed (rc_estop c) (en_estop_level en)) \<or> en_command en = Some (Rt_SetSoftEstop True)
      \<or> rc_soft_estop c \<and> en_command en \<noteq> Some (Rt_SetSoftEstop False) \<or> any_hard (rc_errors c)"
  shows "protected_now (core_tick k en c)"
proof -
  have inv: "core_inv c" by (rule core_machine.reachable_inv [OF assms(1)])
  note s = sense_sel [OF inv, where k = k and en = en]
  have hard: "any_hard (rc_errors (checks k en (sense k en c)))"
  proof (cases "any_hard (rc_errors c)")
    case True
    then show ?thesis using hard_after [OF checks_checked] s(1,6) by (simp add: core_inv_def sound_def)
  next
    case False
    with assms(2) s(3,4) have "estop_condition (sense k en c)"
      by (auto simp: estop_condition_def pressed_now_def split: option.split rt_command.split)
    then show ?thesis using s(1) by (intro estop_hard) (simp_all add: core_inv_def)
  qed
  from check_errors_sel(4) [OF s(1) hard] tick_protected [OF inv refl, of k en] show ?thesis
    by (auto simp: protected_now_def split: if_splits)
qed

text \<open>
  C3. The protective stop is always reachable. From every state the core can reach, whatever the
  mode, the errors and the state of the arm, a SAFETY_STOP request is honoured in its own tick: the
  mode is SAFETY_STOP and the tick sends every joint a zero-current frame with no position and no
  velocity channel, once, unlimited by the torque slew.
\<close>

theorem safety_stop_always_limp:
  assumes "reachable (core_initial k) (core_step k) c" and "en_command en = Some (Rt_SetMode M_SafetyStop)"
  shows "rc_mode (core_tick k en c) = M_SafetyStop \<and> protective_sends (jc_current 0) (rc_calls (core_tick k en c))"
proof -
  have inv: "core_inv c" by (rule core_machine.reachable_inv [OF assms(1)])
  from stop_request_mode [OF inv assms(2)] have "rc_mode (check_errors k en (sense k en c)) = M_SafetyStop" .
  from tick_protected(1,4) [OF inv this] show ?thesis by simp
qed

text \<open>
  C4. The invariant of the mode machine, over every history of ticks with any inputs and of the
  operations between ticks. The bus is silent exactly in FLASHING; a BOOTING core is disabled; the
  modes that follow absolute positions, STREAM and EXEC, run only on a referenced arm; the modes
  without an output law are never entered; and the per-joint tables keep their size, so no joint is
  ever commanded out of range.
\<close>

theorem core_mode_invariant:
  assumes "reachable (core_initial k) (core_step k) c"
  shows "(rc_silent c \<longleftrightarrow> rc_mode c = M_Flashing) \<and> (rc_mode c = M_Booting \<longrightarrow> rc_state c = Arm_Disabled)
    \<and> (rc_mode c \<in> {M_Stream, M_Exec} \<longrightarrow> rc_homed c) \<and> rc_mode c \<notin> {M_HandGuiding, M_Impedance}
    \<and> length (rc_conv c) = MAX_JOINTS \<and> length (me_torque_ma_factor (rc_meas c)) = MAX_JOINTS"
  using core_machine.reachable_inv [OF assms] by (simp add: core_inv_def sound_def homed_ok_def)

text \<open>
  C5. The arm moves only when it is told to. A tick stays in its mode, or ends in a mode that commands
  no motion, or it ends enabled in a working mode for one of two reasons: the core was idle and
  enabled and the tick's command asked for a working mode, or a jog or a stream came to its end and
  the arm is held where it was, in EXEC.
\<close>

theorem motion_needs_command:
  assumes "reachable (core_initial k) (core_step k) c"
  shows "rc_mode (core_tick k en c) = rc_mode c
    \<or> rc_mode (core_tick k en c) \<in> {M_Booting, M_Idle, M_ActiveError, M_SafetyStop, M_Flashing}
    \<or> rc_state (core_tick k en c) = Arm_Enabled
      \<and> (rc_mode c = M_Idle \<and> rc_state c = Arm_Enabled \<and> (\<exists>m \<in> working. en_command en = Some (Rt_SetMode m))
         \<or> rc_mode c \<in> {M_Jog, M_Stream} \<and> rc_mode (core_tick k en c) = M_Exec)"
proof (cases "rc_mode (core_tick k en c) \<in> working \<and> rc_mode (core_tick k en c) \<noteq> rc_mode c")
  case True
  have inv: "core_inv c" by (rule core_machine.reachable_inv [OF assms])
  from working_reason [OF inv True [THEN conjunct1] True [THEN conjunct2]] show ?thesis by blast
next
  case False
  have "core_inv (core_tick k en c)" by (rule inv_tick [OF core_machine.reachable_inv [OF assms]])
  then have "rc_mode (core_tick k en c) \<notin> {M_HandGuiding, M_Impedance}" by (simp add: core_inv_def sound_def)
  with False show ?thesis by (cases "rc_mode (core_tick k en c)") (auto simp: working_def)
qed


text \<open>
  BOOTING can be left before its selfcheck. The hold that keeps a mode request from ending
  BOOTING is raised by the selfcheck itself, so on a fresh core an IDLE request is granted at once,
  and an enable right after it as well: the arm is enabled before the selfcheck has looked for its
  drives and before it has resolved their torque constants.
\<close>

lemma boot_left_before_selfcheck:
  "let c = new_core k conv exec homing settle max_step park has_can_gripper can_tool_id;
       c' = apply_command k en' (Rt_Enable i) (apply_command k en (Rt_SetMode M_Idle) c)
   in rc_mode c' = M_Idle \<and> rc_state c' = Arm_Enabled
      \<and> me_torque_ma_factor (rc_meas c') = map (\<lambda>t. cal_factor t (tc_kt_nm_a t)) (kf_torque_cal k)"
proof -
  have e: "\<not> any_hard (new_error_manager dt)" "\<not> clearing (new_error_manager dt)" for dt
    by (simp_all add: new_error_manager_def any_hard_def list_any_hard_def as_slice_def new_error_list_def clearing_def)
  show ?thesis
    by (simp add: Let_def apply_command_def enable_command_def request_mode_def transition_allowed_def enter_mode_def leave_mode_def
        new_core_def estop_condition_def e)
qed

section \<open>Witnesses\<close>

definition sample_config :: rt_config where
  "sample_config = rt_config_of \<lparr>rb_tick_dt_s = 0x3F70624DD2F1A9FC, rb_node_of = [0, 1, 2, 3, 4, 5], rb_gripper_node = 6, rb_jog_pack = Pack_Pid,
     rb_gravity_scale = replicate MAX_JOINTS f64_one,
     rb_torque_cal = replicate MAX_JOINTS \<lparr>tc_gear_ratio = f64_one, tc_gear_efficiency = f64_one, tc_kt_nm_a = f64_one, tc_dir = 0\<rparr>,
     rb_kt_auto = True, rb_n_io_inputs = 0, rb_n_io_outputs = 0, rb_boot_config_repeats = 4, rb_config_resend_offsets_s = [],
     rb_lost_s = f64_one, rb_tau_ext_margin_nm = f64_zero, rb_tau_ext_window_s = f64_one, rb_command_timeout_s = f64_one,
     rb_success_window_s = f64_one, rb_lowpass_cutoff_hz = f64_zero, rb_reference_check_nm = []\<rparr>"

definition sample_core :: rt_core where
  "sample_core = new_core sample_config (replicate MAX_JOINTS sample_conversion) settling_engine sample_system sample_settle
     (replicate MAX_JOINTS f64_inf)
     \<lparr>pk_enabled = False, pk_tolerance_rad = f64_zero, pk_timeout_ticks = 1, pk_target = zeros, pk_speed_fractions = zeros,
      pk_saved_scale = (f64_one, f64_one), pk_running = False, pk_soft_bounds = (zeros, zeros), pk_hard_bounds = (zeros, zeros)\<rparr>
     False None"

definition sample_env :: env where
  "sample_env = \<lparr>en_estop_level = True, en_io_levels = [], en_health = Loop_Ok, en_command = None, en_drained = new_bus_state,
     en_drain_ok = True, en_gravity = zeros, en_describes_arm = False,
     en_link = \<lparr>lh_state = Link_Up, lh_restarts = 0, lh_bus_off_events = 0, lh_tx_errors = 0, lh_rx_frames = 0\<rparr>,
     en_fresh = (\<lambda>_. Fresh_Fresh), en_connected = 63, en_simulated = False, en_recover = False, en_ok = (\<lambda>_. True), en_flashed = False,
     en_jog = (0, zeros, zeros), en_stream = (zeros, zeros), en_stream_faulted = False\<rparr>"

lemma sample_reachable: "reachable (core_initial sample_config) (core_step sample_config) sample_core"
proof (rule reachable_init)
  have "length (kf_torque_cal sample_config) = MAX_JOINTS" by (simp add: sample_config_def rt_config_of_def Let_def)
  then show "core_initial sample_config sample_core"
    unfolding core_initial_def sample_core_def
    by (intro conjI exI [where x = "replicate MAX_JOINTS sample_conversion"] exI) simp_all
qed

theorem estop_or_fault_protects_witness:
  "protected_now (core_tick sample_config (sample_env\<lparr>en_estop_level := False\<rparr>) sample_core)"
  by (rule estop_or_fault_protects [OF sample_reachable])
    (simp add: sample_core_def new_core_def estop_pressed_def db_update_def new_debouncer_def)

theorem safety_stop_always_limp_witness:
  "protective_sends (jc_current 0)
     (rc_calls (core_tick sample_config (sample_env\<lparr>en_command := Some (Rt_SetMode M_SafetyStop)\<rparr>) sample_core))"
  using safety_stop_always_limp [OF sample_reachable, of "sample_env\<lparr>en_command := Some (Rt_SetMode M_SafetyStop)\<rparr>"] by simp

theorem core_mode_invariant_witness:
  "rc_mode sample_core = M_Booting \<and> rc_state sample_core = Arm_Disabled \<and> \<not> rc_silent sample_core"
proof -
  have "rc_mode sample_core = M_Booting" by (simp add: sample_core_def new_core_def)
  with core_mode_invariant [OF sample_reachable] show ?thesis by simp
qed

theorem motion_needs_command_witness:
  "rc_mode (core_tick sample_config sample_env sample_core) \<in> {M_Booting, M_Idle, M_ActiveError, M_SafetyStop, M_Flashing}"
proof -
  have "rc_mode sample_core = M_Booting" by (simp add: sample_core_def new_core_def)
  with motion_needs_command [OF sample_reachable, of sample_env] show ?thesis by auto
qed


end
