(* ===== verification/Can_Codec.thy ===== *)
theory Can_Codec
  imports Bus_Types Convert
begin

text \<open>
  The CAN frames of the drives: \<open>par6-bus/src/spectral/codec.rs\<close>, with the configuration of one
  drive (\<open>node_config.rs\<close>) and, from \<open>sim/driver.rs\<close>, what a drive makes of a motion frame.
  Arrays of bytes are lists; \<open>to_be_bytes\<close> and \<open>from_be_bytes\<close> are the big-endian functions
  of the prelude.
\<close>

unbundle bit_operations_syntax

section \<open>Frames and arbitration ids\<close>

definition CAN_MAX_DATA :: nat where "CAN_MAX_DATA = 8"

record can_frame =
  cf_id :: u16
  cf_rtr :: bool
  cf_dlc :: u8
  cf_data :: bytes

definition data_frame :: "u16 \<Rightarrow> bytes \<Rightarrow> can_frame" where
  "data_frame i payload = \<lparr>cf_id = i, cf_rtr = False, cf_dlc = of_nat (length payload),
     cf_data = payload @ replicate (CAN_MAX_DATA - length payload) 0\<rparr>"

definition rtr_frame :: "u16 \<Rightarrow> can_frame" where
  "rtr_frame i = \<lparr>cf_id = i, cf_rtr = True, cf_dlc = 0, cf_data = replicate CAN_MAX_DATA 0\<rparr>"

definition frame_payload :: "can_frame \<Rightarrow> bytes" where
  "frame_payload f = take (unat (min (cf_dlc f) (of_nat CAN_MAX_DATA))) (cf_data f)"

datatype command_id =
    Cid_Estop | Cid_ClearError | Cid_DataPack1 | Cid_RespondDataPack1 | Cid_DataPackPd
    | Cid_RespondDataPack2 | Cid_RespondDataPack3 | Cid_RespondHeartbeat | Cid_Ping | Cid_SetCanId
    | Cid_Idle | Cid_SaveConfig | Cid_Reset | Cid_Watchdog | Cid_PdGains | Cid_CurrentGains
    | Cid_VelocityGains | Cid_PositionGains | Cid_Limits | Cid_Kt | Cid_Temperature | Cid_Voltage
    | Cid_DeviceInfo | Cid_StateOfErrors | Cid_IqData | Cid_EncoderData | Cid_HeartbeatSetup
    | Cid_DataPackHall | Cid_RespondDataHall | Cid_RespondKt | Cid_VoltageLimit | Cid_SetGripperId
    | Cid_Telemetry | Cid_Capture | Cid_CaptureRead | Cid_Ripple | Cid_VelocityWindow
    | Cid_CaptureStream | Cid_CaptureStreamData | Cid_RespondGripperData | Cid_GripperDataPack
    | Cid_GripperCalibrate

text \<open>The discriminants, and the table that reads them back.\<close>

fun raw :: "command_id \<Rightarrow> u8" where
  "raw Cid_Estop = 0"
| "raw Cid_ClearError = 1"
| "raw Cid_DataPack1 = 2"
| "raw Cid_RespondDataPack1 = 3"
| "raw Cid_DataPackPd = 4"
| "raw Cid_RespondDataPack2 = 5"
| "raw Cid_RespondDataPack3 = 7"
| "raw Cid_RespondHeartbeat = 9"
| "raw Cid_Ping = 10"
| "raw Cid_SetCanId = 11"
| "raw Cid_Idle = 12"
| "raw Cid_SaveConfig = 13"
| "raw Cid_Reset = 14"
| "raw Cid_Watchdog = 15"
| "raw Cid_PdGains = 16"
| "raw Cid_CurrentGains = 17"
| "raw Cid_VelocityGains = 18"
| "raw Cid_PositionGains = 19"
| "raw Cid_Limits = 20"
| "raw Cid_Kt = 22"
| "raw Cid_Temperature = 23"
| "raw Cid_Voltage = 24"
| "raw Cid_DeviceInfo = 25"
| "raw Cid_StateOfErrors = 26"
| "raw Cid_IqData = 27"
| "raw Cid_EncoderData = 28"
| "raw Cid_HeartbeatSetup = 30"
| "raw Cid_DataPackHall = 31"
| "raw Cid_RespondDataHall = 32"
| "raw Cid_RespondKt = 33"
| "raw Cid_VoltageLimit = 34"
| "raw Cid_SetGripperId = 36"
| "raw Cid_Telemetry = 37"
| "raw Cid_Capture = 38"
| "raw Cid_CaptureRead = 39"
| "raw Cid_Ripple = 40"
| "raw Cid_VelocityWindow = 41"
| "raw Cid_CaptureStream = 42"
| "raw Cid_CaptureStreamData = 43"
| "raw Cid_RespondGripperData = 60"
| "raw Cid_GripperDataPack = 61"
| "raw Cid_GripperCalibrate = 62"

definition command_id_all :: "command_id list" where
  "command_id_all =
     [Cid_Estop, Cid_ClearError, Cid_DataPack1, Cid_RespondDataPack1, Cid_DataPackPd, Cid_RespondDataPack2,
      Cid_RespondDataPack3, Cid_RespondHeartbeat, Cid_Ping, Cid_SetCanId, Cid_Idle, Cid_SaveConfig,
      Cid_Reset, Cid_Watchdog, Cid_PdGains, Cid_CurrentGains, Cid_VelocityGains, Cid_PositionGains,
      Cid_Limits, Cid_Kt, Cid_Temperature, Cid_Voltage, Cid_DeviceInfo, Cid_StateOfErrors, Cid_IqData,
      Cid_EncoderData, Cid_HeartbeatSetup, Cid_DataPackHall, Cid_RespondDataHall, Cid_RespondKt,
      Cid_VoltageLimit, Cid_SetGripperId, Cid_Telemetry, Cid_Capture, Cid_CaptureRead, Cid_Ripple,
      Cid_VelocityWindow, Cid_CaptureStream, Cid_CaptureStreamData, Cid_RespondGripperData,
      Cid_GripperDataPack, Cid_GripperCalibrate]"

definition from_raw :: "u8 \<Rightarrow> command_id option" where
  "from_raw cmd = find (\<lambda>c. raw c = cmd) command_id_all"

definition pack_can_id :: "node_id \<Rightarrow> command_id \<Rightarrow> bool \<Rightarrow> u16" where
  "pack_can_id node cmd err_bit =
     push_bit 7 (ucast (node AND 0xF)) OR push_bit 1 (ucast (raw cmd AND 0x3F)) OR of_bool err_bit"

definition unpack_can_id :: "u16 \<Rightarrow> node_id \<times> u8 \<times> bool" where
  "unpack_can_id i = (ucast (drop_bit 7 i AND 0xF), ucast (drop_bit 1 i AND 0x3F), i AND 1 = 1)"

section \<open>Payload primitives\<close>

definition pack_i24 :: "i32 \<Rightarrow> bytes" where
  "pack_i24 v = (let u = v AND 0x00FFFFFF in [ucast (drop_bit 16 u), ucast (drop_bit 8 u), ucast u])"

definition unpack_i24 :: "u8 \<Rightarrow> u8 \<Rightarrow> u8 \<Rightarrow> i32" where
  "unpack_i24 b0 b1 b2 =
     (let u = push_bit 16 (ucast b0) OR push_bit 8 (ucast b1) OR (ucast b2 :: u32)
      in if push_bit 23 1 \<le> u then u - push_bit 24 1 else u)"

definition pack_i16 :: "i16 \<Rightarrow> bytes" where "pack_i16 v = to_be 2 (unat v)"

definition unpack_i16 :: "u8 \<Rightarrow> u8 \<Rightarrow> i16" where "unpack_i16 b0 b1 = of_nat (from_be [b0, b1])"

definition pack_u32 :: "u32 \<Rightarrow> bytes" where "pack_u32 v = to_be 4 (unat v)"

definition unpack_u32 :: "bytes \<Rightarrow> u32" where "unpack_u32 bs = of_nat (from_be bs)"

text \<open>\<open>i32\<close> and \<open>f32\<close> go over the wire by the same four bytes of their bit pattern.\<close>

definition pack_i32 :: "i32 \<Rightarrow> bytes" where "pack_i32 v = to_be 4 (unat v)"

definition unpack_i32 :: "bytes \<Rightarrow> i32" where "unpack_i32 bs = of_nat (from_be bs)"

definition pack_f32 :: "f32 \<Rightarrow> bytes" where "pack_f32 v = to_be 4 (unat v)"

definition unpack_f32 :: "bytes \<Rightarrow> f32" where "unpack_f32 bs = of_nat (from_be bs)"

definition fold_bits_msb_first :: "bool list \<Rightarrow> u8" where
  "fold_bits_msb_first bits = foldl (\<lambda>n b. push_bit 1 n OR of_bool b) 0 bits"

definition unfold_bits_msb_first :: "u8 \<Rightarrow> bool list" where
  "unfold_bits_msb_first byte = map (\<lambda>i. drop_bit (7 - i) byte AND 1 = 1) [0..<8]"

definition unpack_error_flags :: "u8 \<Rightarrow> u8 \<Rightarrow> error_flags" where
  "unpack_error_flags b0 b1 =
     (let b0 = unfold_bits_msb_first b0; b1 = unfold_bits_msb_first b1
      in \<lparr>ef_error = b0 ! 0, ef_temperature = b0 ! 1, ef_encoder = b0 ! 2, ef_vbus = b0 ! 3, ef_driver = b0 ! 4,
          ef_velocity = b0 ! 5, ef_current = b0 ! 6, ef_estop = b0 ! 7, ef_calibrated = b1 ! 0,
          ef_activated = b1 ! 1, ef_watchdog = b1 ! 2\<rparr>)"

section \<open>Encoding\<close>

datatype encode_error = PositionWithoutVelocity

definition cmd_frame :: "node_id \<Rightarrow> command_id \<Rightarrow> bytes \<Rightarrow> can_frame" where
  "cmd_frame node cmd p = data_frame (pack_can_id node cmd False) p"

definition encode_idle :: "node_id \<Rightarrow> can_frame" where "encode_idle node = cmd_frame node Cid_Idle []"

definition or_zero :: "'a::zero option \<Rightarrow> 'a" where
  "or_zero x = (case x of Some v \<Rightarrow> v | None \<Rightarrow> 0)"

definition encode_joint_command :: "node_id \<Rightarrow> joint_command \<Rightarrow> encode_error + can_frame option" where
  "encode_joint_command node c =
     (case jc_pack c of
        Pack_Pid \<Rightarrow>
          (let cur = pack_i16 (or_zero (jc_cur_ma c)) in
           case (jc_pos c, jc_vel c) of
             (Some pos, Some vel) \<Rightarrow> Inr (Some (cmd_frame node Cid_DataPack1 (pack_i24 pos @ pack_i24 vel @ cur)))
           | (None, Some vel) \<Rightarrow> Inr (Some (cmd_frame node Cid_DataPack1 (pack_i24 vel @ cur)))
           | (None, None) \<Rightarrow> (if jc_cur_ma c = None then Inr None else Inr (Some (cmd_frame node Cid_DataPack1 cur)))
           | (Some _, None) \<Rightarrow> Inl PositionWithoutVelocity)
      | Pack_Pd \<Rightarrow> Inr (Some (cmd_frame node Cid_DataPackPd
          (pack_i24 (or_zero (jc_pos c)) @ pack_i24 (or_zero (jc_vel c)) @ pack_i16 (or_zero (jc_cur_ma c)))))
      | Pack_Hall trigger_value \<Rightarrow>
          Inr (Some (cmd_frame node Cid_DataPackHall (pack_i24 (or_zero (jc_vel c)) @ [trigger_value])))
      | Pack_Idle \<Rightarrow> Inr (Some (encode_idle node))
      | Pack_EncoderPoll \<Rightarrow> Inr (Some (rtr_frame (pack_can_id node Cid_EncoderData False))))"

definition encode_firmware_gripper :: "node_id \<Rightarrow> firmware_gripper_command \<Rightarrow> can_frame" where
  "encode_firmware_gripper node f = cmd_frame node Cid_GripperDataPack
     ([fg_position f, fg_speed f] @ pack_i16 (fg_current_ma f)
      @ [fold_bits_msb_first [fg_activate f, fg_action f, fg_estop f, fg_release_dir f, False, False, False, False]])"

definition encode_gripper_command :: "node_id \<Rightarrow> node_id \<Rightarrow> gripper_command \<Rightarrow> encode_error + can_frame option" where
  "encode_gripper_command gripper_node timing_dummy_node command =
     (case command of
        GC_NoGripper \<Rightarrow> Inr (Some (rtr_frame (pack_can_id timing_dummy_node Cid_Ping False)))
      | GC_Motor jc \<Rightarrow> encode_joint_command gripper_node jc
      | GC_Firmware f \<Rightarrow> Inr (Some (encode_firmware_gripper gripper_node f))
      | GC_FirmwarePoll \<Rightarrow> Inr (Some (cmd_frame gripper_node Cid_GripperDataPack []))
      | GC_Calibrate \<Rightarrow> Inr (Some (cmd_frame gripper_node Cid_GripperCalibrate [])))"

datatype watchdog_action = WD_Idle

definition encode_watchdog :: "node_id \<Rightarrow> u32 \<Rightarrow> watchdog_action \<Rightarrow> can_frame" where
  "encode_watchdog node timeout_ms action =
     cmd_frame node Cid_Watchdog (pack_u32 timeout_ms @ [case action of WD_Idle \<Rightarrow> 0])"

definition two_f32_frame :: "node_id \<Rightarrow> command_id \<Rightarrow> f32 \<Rightarrow> f32 \<Rightarrow> can_frame" where
  "two_f32_frame node cmd a b = cmd_frame node cmd (pack_f32 a @ pack_f32 b)"

definition encode_limits :: "node_id \<Rightarrow> f32 \<Rightarrow> f32 \<Rightarrow> can_frame" where
  "encode_limits node velocity_limit_ticks_s current_limit_ma = two_f32_frame node Cid_Limits velocity_limit_ticks_s current_limit_ma"

definition encode_voltage_limit :: "node_id \<Rightarrow> u32 \<Rightarrow> can_frame" where
  "encode_voltage_limit node limit_mv = cmd_frame node Cid_VoltageLimit (pack_u32 limit_mv)"

definition encode_gripper_id :: "node_id \<Rightarrow> u8 \<Rightarrow> can_frame" where
  "encode_gripper_id node tool_id = cmd_frame node Cid_SetGripperId [tool_id]"

fun config_command :: "config_kind \<Rightarrow> command_id" where
  "config_command K_Watchdog = Cid_Watchdog"
| "config_command K_Limits = Cid_Limits"
| "config_command K_VoltageLimit = Cid_VoltageLimit"
| "config_command K_PdGains = Cid_PdGains"
| "config_command K_CurrentGains = Cid_CurrentGains"
| "config_command K_VelocityGains = Cid_VelocityGains"
| "config_command K_PositionGains = Cid_PositionGains"

definition encode_readback_request :: "node_id \<Rightarrow> config_kind \<Rightarrow> can_frame" where
  "encode_readback_request node kind = rtr_frame (pack_can_id node (config_command kind) False)"

definition CAPTURE_LEN :: u16 where "CAPTURE_LEN = 1024"

definition CAPTURE_STATUS_CHANNEL :: u8 where "CAPTURE_STATUS_CHANNEL = 0xFF"

definition encode_capture :: "node_id \<Rightarrow> u8 \<Rightarrow> u16 \<Rightarrow> can_frame" where
  "encode_capture node divisor wanted =
     cmd_frame node Cid_Capture (max divisor 1 # to_be 2 (unat (min wanted CAPTURE_LEN)))"

definition encode_capture_read :: "node_id \<Rightarrow> u8 \<Rightarrow> u16 \<Rightarrow> can_frame" where
  "encode_capture_read node channel chunk = cmd_frame node Cid_CaptureRead (channel # to_be 2 (unat chunk))"

definition encode_capture_stream :: "node_id \<Rightarrow> can_frame" where
  "encode_capture_stream node = cmd_frame node Cid_CaptureStream []"

definition RIPPLE_SLOTS :: u8 where "RIPPLE_SLOTS = 8"

definition encode_ripple :: "node_id \<Rightarrow> u8 \<Rightarrow> u8 \<Rightarrow> i16 \<Rightarrow> i16 \<Rightarrow> can_frame" where
  "encode_ripple node slot harmonic a_ma b_ma = cmd_frame node Cid_Ripple ([slot, harmonic] @ pack_i16 a_ma @ pack_i16 b_ma)"

definition encode_velocity_window :: "node_id \<Rightarrow> u8 \<Rightarrow> can_frame" where
  "encode_velocity_window node window = cmd_frame node Cid_VelocityWindow [window]"

definition encode_pd_gains :: "node_id \<Rightarrow> f32 \<Rightarrow> f32 \<Rightarrow> can_frame" where
  "encode_pd_gains node kp kd = two_f32_frame node Cid_PdGains kp kd"

definition encode_current_gains :: "node_id \<Rightarrow> f32 \<Rightarrow> f32 \<Rightarrow> can_frame" where
  "encode_current_gains node kpiq kiiq = two_f32_frame node Cid_CurrentGains kpiq kiiq"

definition encode_velocity_gains :: "node_id \<Rightarrow> f32 \<Rightarrow> f32 \<Rightarrow> can_frame" where
  "encode_velocity_gains node kpv kiv = two_f32_frame node Cid_VelocityGains kpv kiv"

definition encode_position_gains :: "node_id \<Rightarrow> f32 \<Rightarrow> can_frame" where
  "encode_position_gains node kpp = cmd_frame node Cid_PositionGains (pack_f32 kpp)"

definition encode_set_can_id :: "node_id \<Rightarrow> u8 \<Rightarrow> can_frame" where
  "encode_set_can_id node new_id = cmd_frame node Cid_SetCanId [new_id]"

definition encode_clear_error :: "node_id \<Rightarrow> can_frame" where
  "encode_clear_error node = cmd_frame node Cid_ClearError []"

definition encode_save_config :: "node_id \<Rightarrow> can_frame" where
  "encode_save_config node = cmd_frame node Cid_SaveConfig []"

fun poll_command :: "poll_kind \<Rightarrow> command_id" where
  "poll_command Poll_Telemetry = Cid_Telemetry"
| "poll_command Poll_Temperature = Cid_Temperature"
| "poll_command Poll_Voltage = Cid_Voltage"
| "poll_command Poll_Errors = Cid_StateOfErrors"
| "poll_command Poll_DeviceInfo = Cid_DeviceInfo"
| "poll_command Poll_Encoder = Cid_EncoderData"
| "poll_command Poll_Kt = Cid_RespondKt"
| "poll_command Poll_Ping = Cid_Ping"

definition encode_poll :: "node_id \<Rightarrow> poll_kind \<Rightarrow> can_frame" where
  "encode_poll node kind = rtr_frame (pack_can_id node (poll_command kind) False)"

section \<open>Decoding\<close>

datatype frame_refusal =
    Fr_Reserved (refused_node: node_id) (refused_cmd: u8) (refused_err_bit: bool)
  | Fr_NotAReply (refused_node: node_id) (refused_cmd: u8) (refused_err_bit: bool)
  | Fr_UnknownCommand (refused_node: node_id) (refused_cmd: u8) (refused_err_bit: bool)
  | Fr_WrongDlc (refused_node: node_id) (refused_cmd: u8) (refused_err_bit: bool) u8 u8

datatype payload =
    Pl_Motion i32 i32 i16
  | Pl_Encoder i32 i32
  | Pl_Hall i32 hall_state
  | Pl_Temperature i16
  | Pl_Voltage i16
  | Pl_IqCurrent i16
  | Pl_Errors error_flags
  | Pl_Readback readback
  | Pl_Capture u8 u16 i16 i16
  | Pl_CaptureStatus u16 u16 u16
  | Pl_Telemetry i16 i16 error_flags i16
  | Pl_DeviceInfo device_info
  | Pl_Kt f32
  | Pl_Gripper gripper_reply
  | Pl_Ping
  | Pl_Heartbeat

record decoded_frame =
  df_node :: node_id
  df_err_bit :: bool
  df_payload :: payload

definition expect_dlc :: "can_frame \<Rightarrow> node_id \<Rightarrow> u8 \<Rightarrow> bool \<Rightarrow> u8 \<Rightarrow> frame_refusal + unit" where
  "expect_dlc f node cmd err_bit expected =
     (if cf_dlc f \<noteq> expected then Inl (Fr_WrongDlc node cmd err_bit (cf_dlc f) expected) else Inr ())"

fun object_detection_from_bits :: "bool \<Rightarrow> bool \<Rightarrow> object_detection" where
  "object_detection_from_bits False False = Det_Moving"
| "object_detection_from_bits False True = Det_Closing"
| "object_detection_from_bits True False = Det_Opening"
| "object_detection_from_bits True True = Det_Reached"

definition decode_hall :: "bytes \<Rightarrow> payload" where
  "decode_hall d =
     (let bits = unfold_bits_msb_first (d ! 3)
      in Pl_Hall (unpack_i24 (d ! 0) (d ! 1) (d ! 2)) \<lparr>hs_trigger = bits ! 0, hs_pin2 = bits ! 1, hs_edge = bits ! 2\<rparr>)"

definition be_word :: "bytes \<Rightarrow> nat \<Rightarrow> u16" where
  "be_word d i = of_nat (from_be [d ! i, d ! Suc i])"

definition decode_capture :: "bytes \<Rightarrow> payload" where
  "decode_capture d =
     (if d ! 0 = CAPTURE_STATUS_CHANNEL then Pl_CaptureStatus (be_word d 1) (be_word d 3) (be_word d 5)
      else Pl_Capture (d ! 0) (be_word d 1) (unpack_i16 (d ! 3) (d ! 4)) (unpack_i16 (d ! 5) (d ! 6)))"

definition decode_device_info :: "can_frame \<Rightarrow> bytes \<Rightarrow> payload" where
  "decode_device_info f d = Pl_DeviceInfo \<lparr>di_hw_ver = d ! 0, di_batch = d ! 1, di_sw_ver = d ! 2,
     di_serial = unpack_i32 [d ! 3, d ! 4, d ! 5, d ! 6], di_tool_id = (if cf_dlc f = 8 then d ! 7 else 0)\<rparr>"

definition decode_gripper_reply :: "bytes \<Rightarrow> payload" where
  "decode_gripper_reply d =
     (let bits = unfold_bits_msb_first (d ! 3)
      in Pl_Gripper \<lparr>gr_position = d ! 0, gr_current_ma = unpack_i16 (d ! 1) (d ! 2), gr_activated = bits ! 0,
           gr_action_status = bits ! 1, gr_object_detection = object_detection_from_bits (bits ! 3) (bits ! 2),
           gr_temperature_error = bits ! 4, gr_timeout_error = bits ! 5, gr_estop_error = bits ! 6, gr_calibrated = bits ! 7\<rparr>)"

definition f32_at :: "bytes \<Rightarrow> nat \<Rightarrow> f32" where
  "f32_at d i = unpack_f32 [d ! i, d ! (i + 1), d ! (i + 2), d ! (i + 3)]"

definition decode_payload :: "can_frame \<Rightarrow> node_id \<Rightarrow> u8 \<Rightarrow> bool \<Rightarrow> command_id \<Rightarrow> frame_refusal + payload" where
  "decode_payload f node raw_cmd err_bit cmd =
     (let d = frame_payload f;
          exact = (\<lambda>n p. bind_result (expect_dlc f node raw_cmd err_bit n) (\<lambda>_. Inr p)) in
      case cmd of
        Cid_RespondDataPack1 \<Rightarrow> exact 8 (Pl_Motion (unpack_i24 (d ! 0) (d ! 1) (d ! 2))
          (unpack_i24 (d ! 3) (d ! 4) (d ! 5)) (unpack_i16 (d ! 6) (d ! 7)))
      | Cid_EncoderData \<Rightarrow> exact 8 (Pl_Encoder (unpack_i32 [d ! 0, d ! 1, d ! 2, d ! 3]) (unpack_i32 [d ! 4, d ! 5, d ! 6, d ! 7]))
      | Cid_RespondDataHall \<Rightarrow> exact 4 (decode_hall d)
      | Cid_Temperature \<Rightarrow> exact 2 (Pl_Temperature (unpack_i16 (d ! 0) (d ! 1)))
      | Cid_Voltage \<Rightarrow> exact 2 (Pl_Voltage (unpack_i16 (d ! 0) (d ! 1)))
      | Cid_IqData \<Rightarrow> exact 2 (Pl_IqCurrent (unpack_i16 (d ! 0) (d ! 1)))
      | Cid_StateOfErrors \<Rightarrow> exact 2 (Pl_Errors (unpack_error_flags (d ! 0) (d ! 1)))
      | Cid_Telemetry \<Rightarrow> exact 8 (Pl_Telemetry (unpack_i16 (d ! 0) (d ! 1)) (unpack_i16 (d ! 2) (d ! 3))
          (unpack_error_flags (d ! 4) (d ! 5)) (unpack_i16 (d ! 6) (d ! 7)))
      | Cid_CaptureRead \<Rightarrow> exact 7 (decode_capture d)
      | Cid_CaptureStreamData \<Rightarrow> exact 7 (decode_capture d)
      | Cid_DeviceInfo \<Rightarrow>
          (if cf_dlc f \<noteq> 7 then exact 8 (decode_device_info f d) else Inr (decode_device_info f d))
      | Cid_RespondKt \<Rightarrow> exact 4 (Pl_Kt (f32_at d 0))
      | Cid_RespondGripperData \<Rightarrow> exact 4 (decode_gripper_reply d)
      | Cid_Ping \<Rightarrow> Inr Pl_Ping
      | Cid_RespondHeartbeat \<Rightarrow> Inr Pl_Heartbeat
      | Cid_RespondDataPack2 \<Rightarrow> Inl (Fr_Reserved node raw_cmd err_bit)
      | Cid_RespondDataPack3 \<Rightarrow> Inl (Fr_Reserved node raw_cmd err_bit)
      | Cid_Watchdog \<Rightarrow> exact 5 (Pl_Readback (RB_Watchdog (unpack_u32 [d ! 0, d ! 1, d ! 2, d ! 3]) (d ! 4)))
      | Cid_Limits \<Rightarrow> exact 8 (Pl_Readback (RB_Limits (f32_at d 0) (f32_at d 4)))
      | Cid_VoltageLimit \<Rightarrow> exact 4 (Pl_Readback (RB_VoltageLimit (unpack_u32 [d ! 0, d ! 1, d ! 2, d ! 3])))
      | Cid_PdGains \<Rightarrow> exact 8 (Pl_Readback (RB_PdGains (f32_at d 0) (f32_at d 4)))
      | Cid_CurrentGains \<Rightarrow> exact 8 (Pl_Readback (RB_CurrentGains (f32_at d 0) (f32_at d 4)))
      | Cid_VelocityGains \<Rightarrow> exact 8 (Pl_Readback (RB_VelocityGains (f32_at d 0) (f32_at d 4)))
      | Cid_PositionGains \<Rightarrow> exact 4 (Pl_Readback (RB_PositionGains (f32_at d 0)))
      | _ \<Rightarrow> Inl (Fr_NotAReply node raw_cmd err_bit))"

definition decode_frame :: "can_frame \<Rightarrow> frame_refusal + decoded_frame" where
  "decode_frame f =
     (let (node, raw_cmd, err_bit) = unpack_can_id (cf_id f) in
      case from_raw raw_cmd of
        None \<Rightarrow> Inl (Fr_UnknownCommand node raw_cmd err_bit)
      | Some cmd \<Rightarrow>
          if cf_rtr f then Inl (Fr_NotAReply node raw_cmd err_bit)
          else bind_result (decode_payload f node raw_cmd err_bit cmd)
                 (\<lambda>p. Inr \<lparr>df_node = node, df_err_bit = err_bit, df_payload = p\<rparr>))"

section \<open>The configuration of one drive\<close>

record node_config =
  nc_node :: node_id
  nc_watchdog_ms :: u32
  nc_watchdog_action :: watchdog_action
  nc_velocity_limit_ticks_s :: f64
  nc_ilim_ma :: f64
  nc_voltage_limit_mv :: u32
  nc_gains :: gains
  nc_ripple :: "(u8 \<times> i16 \<times> i16) list"
  nc_velocity_window :: "u8 option"

definition apply_tune :: "drive_tune \<Rightarrow> node_config \<Rightarrow> node_config" where
  "apply_tune t c = c\<lparr>nc_gains := dt_gains t, nc_ilim_ma := dt_ilim_ma t,
     nc_velocity_limit_ticks_s := dt_velocity_limit_ticks_s t, nc_voltage_limit_mv := dt_voltage_limit_mv t\<rparr>"

definition ripple_slots :: "(u8 \<times> i16 \<times> i16) list \<Rightarrow> (u8 \<times> i16 \<times> i16) list" where
  "ripple_slots harmonics =
     take (unat RIPPLE_SLOTS) harmonics @ replicate (unat RIPPLE_SLOTS - length harmonics) (0, 0, 0)"

definition has_ripple :: "node_config \<Rightarrow> bool" where
  "has_ripple c \<longleftrightarrow> list_ex (\<lambda>(h, _, _). h \<noteq> 0) (nc_ripple c)"

definition ripple_frames :: "node_config \<Rightarrow> can_frame list" where
  "ripple_frames c = map (\<lambda>(slot, h, a, b). encode_ripple (nc_node c) (of_nat slot) h a b) (enumerate 0 (nc_ripple c))"

definition extra_frames :: "node_config \<Rightarrow> can_frame list" where
  "extra_frames c =
     (if has_ripple c then ripple_frames c else [])
     @ (case nc_velocity_window c of Some w \<Rightarrow> [encode_velocity_window (nc_node c) w] | None \<Rightarrow> [])"

fun config_frame :: "config_kind \<Rightarrow> node_config \<Rightarrow> can_frame" where
  "config_frame K_Watchdog c = encode_watchdog (nc_node c) (nc_watchdog_ms c) (nc_watchdog_action c)"
| "config_frame K_Limits c = encode_limits (nc_node c) (f32_of_f64 (nc_velocity_limit_ticks_s c)) (f32_of_f64 (nc_ilim_ma c))"
| "config_frame K_VoltageLimit c = encode_voltage_limit (nc_node c) (nc_voltage_limit_mv c)"
| "config_frame K_PdGains c = encode_pd_gains (nc_node c) (f32_of_f64 (ga_kp (nc_gains c))) (f32_of_f64 (ga_kd (nc_gains c)))"
| "config_frame K_CurrentGains c =
     encode_current_gains (nc_node c) (f32_of_f64 (ga_kpiq (nc_gains c))) (f32_of_f64 (ga_kiiq (nc_gains c)))"
| "config_frame K_VelocityGains c =
     encode_velocity_gains (nc_node c) (f32_of_f64 (ga_kpv (nc_gains c))) (f32_of_f64 (ga_kiv (nc_gains c)))"
| "config_frame K_PositionGains c = encode_position_gains (nc_node c) (f32_of_f64 (ga_kpp (nc_gains c)))"

section \<open>What a drive makes of a motion frame\<close>

datatype drive_mode =
    DM_Idle
  | DM_Position f64 f64 f64
  | DM_Velocity f64 f64
  | DM_Current f64
  | DM_Pd f64 f64 f64
  | DM_Hall f64 u8

definition f64_of_i16 :: "i16 \<Rightarrow> f64" where
  "f64_of_i16 v = f64_of_i32 (scast v)"

text \<open>The mode a data frame installs, and \<open>None\<close> when it leaves the mode alone.\<close>

definition on_motion_frame :: "command_id \<Rightarrow> bytes \<Rightarrow> drive_mode option" where
  "on_motion_frame cmd d =
     (if cmd = Cid_DataPack1 \<and> length d = 8 then
        Some (DM_Position (f64_of_i32 (unpack_i24 (d ! 0) (d ! 1) (d ! 2))) (f64_of_i32 (unpack_i24 (d ! 3) (d ! 4) (d ! 5)))
                (f64_of_i16 (unpack_i16 (d ! 6) (d ! 7))))
      else if cmd = Cid_DataPack1 \<and> length d = 5 then
        Some (DM_Velocity (f64_of_i32 (unpack_i24 (d ! 0) (d ! 1) (d ! 2))) (f64_of_i16 (unpack_i16 (d ! 3) (d ! 4))))
      else if cmd = Cid_DataPack1 \<and> length d = 2 then Some (DM_Current (f64_of_i16 (unpack_i16 (d ! 0) (d ! 1))))
      else if cmd = Cid_DataPackPd \<and> length d = 8 then
        Some (DM_Pd (f64_of_i32 (unpack_i24 (d ! 0) (d ! 1) (d ! 2))) (f64_of_i32 (unpack_i24 (d ! 3) (d ! 4) (d ! 5)))
                (f64_of_i16 (unpack_i16 (d ! 6) (d ! 7))))
      else if cmd = Cid_DataPackHall \<and> length d = 4 then
        Some (DM_Hall (f64_of_i32 (unpack_i24 (d ! 0) (d ! 1) (d ! 2))) (d ! 3))
      else if cmd = Cid_Idle \<and> length d = 0 then Some DM_Idle
      else None)"

end
