(* ===== verification/Can_Props.thy ===== *)
theory Can_Props
  imports Can_Codec
begin

text \<open>
  Properties of the CAN codec: ids, numbers, configuration frames and motion frames survive
  the way over the wire, and every frame names its node and its fault bit.
\<close>

section \<open>Ids\<close>

lemma from_raw_raw [simp]: "from_raw (raw c) = Some c"
  by (cases c) (simp_all add: from_raw_def command_id_all_def)

lemma from_raw_Some: "from_raw v = Some c \<Longrightarrow> raw c = v"
  by (auto simp: from_raw_def find_Some_iff)

lemma bit_pack_can_id:
  "bit (pack_can_id node cmd err) n \<longleftrightarrow>
     (7 \<le> n \<and> n < 11 \<and> bit node (n - 7)) \<or> (1 \<le> n \<and> n < 7 \<and> bit (raw cmd) (n - 1)) \<or> (n = 0 \<and> err)"
proof -
  have m: "(0xF :: u8) = mask 4" "(0x3F :: u8) = mask 6" by (simp_all add: mask_eq_exp_minus_1)
  show ?thesis
    unfolding pack_can_id_def m
    by (auto simp only: bit_or_iff bit_push_bit_iff bit_and_iff bit_unsigned_iff bit_of_bool_iff bit_mask_iff
      possible_bit_word len_of_numeral_defs)
qed

lemma raw_six_bits: "take_bit 6 (raw c) = raw c"
  by (cases c) simp_all

lemma unpack_pack_can_id:
  "unpack_can_id (pack_can_id node cmd err) = (take_bit 4 node, raw cmd, err)"
proof -
  have m: "(0xF :: u16) = mask 4" "(0x3F :: u16) = mask 6" by (simp_all add: mask_eq_exp_minus_1)
  have "ucast (drop_bit 7 (pack_can_id node cmd err) AND 0xF) = take_bit 4 node"
    unfolding m by (rule bit_word_eqI) (auto simp: bit_pack_can_id bit_and_iff bit_drop_bit_eq bit_unsigned_iff bit_mask_iff bit_take_bit_iff)
  moreover have "ucast (drop_bit 1 (pack_can_id node cmd err) AND 0x3F) = take_bit 6 (raw cmd)"
    unfolding m by (rule bit_word_eqI)
      (simp only: bit_pack_can_id bit_and_iff bit_drop_bit_eq o_apply bit_unsigned_iff bit_mask_iff bit_take_bit_iff, auto)
  moreover have "pack_can_id node cmd err AND 1 = 1 \<longleftrightarrow> err"
    using bit_pack_can_id [of node cmd err 0] by (simp add: and_one_eq bit_0 odd_iff_mod_2_eq_one)
  ultimately show ?thesis by (simp add: unpack_can_id_def raw_six_bits)
qed

section \<open>Numbers\<close>

lemma list2_nth: "length xs = 2 \<Longrightarrow> [xs ! 0, xs ! Suc 0] = xs"
  by (cases xs; cases "tl xs") auto

lemma list4_nth: "length xs = 4 \<Longrightarrow> [xs ! 0, xs ! Suc 0, xs ! 2, xs ! 3] = xs"
  by (rule nth_equalityI) (auto simp: nth_Cons numeral_2_eq_2 numeral_3_eq_3 split: nat.split)

lemma unpack_pack_i16: "unpack_i16 (pack_i16 v ! 0) (pack_i16 v ! Suc 0) = v"
  using unat_lt2p [of v] list2_nth [of "pack_i16 v"]
  by (simp add: unpack_i16_def pack_i16_def from_be_to_be_u16)

lemma unpack_pack_32:
  "unpack_u32 (pack_u32 v) = v" "unpack_i32 (pack_i32 v) = v" "unpack_f32 (pack_f32 v) = v"
  using unat_lt2p [of v]
  by (simp_all add: unpack_u32_def pack_u32_def unpack_i32_def pack_i32_def unpack_f32_def pack_f32_def from_be_to_be_u32)

lemma recombine_i24:
  "push_bit 16 (ucast (ucast (drop_bit 16 (take_bit 24 v)) :: u8)) OR push_bit 8 (ucast (ucast (drop_bit 8 (take_bit 24 v)) :: u8))
     OR (ucast (ucast (take_bit 24 v) :: u8) :: u32) = take_bit 24 v"
  by (rule bit_word_eqI)
    (simp only: bit_or_iff bit_push_bit_iff bit_unsigned_iff bit_drop_bit_eq o_apply bit_take_bit_iff,
      auto split: nat_diff_split_asm)

lemma sign_i24:
  fixes v :: i32
  shows "(if push_bit 23 1 \<le> take_bit 24 v then take_bit 24 v - push_bit 24 1 else take_bit 24 v) = signed_take_bit 23 v"
proof -
  have high: "push_bit 23 1 \<le> take_bit 24 v \<longleftrightarrow> bit v 23"
  proof -
    have "bit v 23 \<longleftrightarrow> odd (uint (take_bit 24 v) div 2 ^ 23)"
      using bit_uint_iff [of "take_bit 24 v" 23] unfolding bit_iff_odd [of "uint _"] by (simp add: bit_take_bit_iff)
    moreover have "uint (take_bit 24 v) div 2 ^ 23 \<in> {0, 1}" 
      using take_bit_int_less_exp [of 24 "uint v"] by (auto simp: unsigned_take_bit_eq)
    ultimately show ?thesis by (auto simp: word_le_def push_bit_of_1)
  qed
  have "take_bit 24 v + NOT (mask 24) = take_bit 24 v OR NOT (mask 24)"
    by (rule disjunctive_add) (simp add: bit_simps)
  moreover have "NOT (mask 24) = - push_bit 24 (1 :: i32)"
    unfolding push_bit_of_1 by (rule minus_exp_eq_not_mask [symmetric])
  ultimately have "take_bit 24 v - push_bit 24 1 = take_bit 24 v OR NOT (mask 24)" by (simp only: diff_conv_add_uminus)
  moreover have "take_bit 24 v OR NOT (mask 24) = signed_take_bit 23 v" if "bit v 23"
    using that by (intro bit_word_eqI) (auto simp: bit_simps min_def le_less_Suc_eq dest!: le_neq_implies_less)
  moreover have "take_bit 24 v = signed_take_bit 23 v" if "\<not> bit v 23"
    using that by (intro bit_word_eqI) (auto simp: bit_simps min_def dest!: le_neq_implies_less)
  ultimately show ?thesis unfolding high by simp
qed

lemma unpack_pack_i24:
  "unpack_i24 (pack_i24 v ! 0) (pack_i24 v ! Suc 0) (pack_i24 v ! 2) = signed_take_bit 23 v"
proof -
  have "(0x00FFFFFF :: u32) = mask 24" by (simp add: mask_eq_exp_minus_1)
  then have "v AND 0x00FFFFFF = take_bit 24 v" by (simp add: take_bit_eq_mask)
  then have "pack_i24 v = [ucast (drop_bit 16 (take_bit 24 v)), ucast (drop_bit 8 (take_bit 24 v)), ucast (take_bit 24 v)]"
    by (simp add: pack_i24_def Let_def)
  then show ?thesis
    by (simp only: nth_Cons_0 nth_Cons_Suc numeral_2_eq_2 unpack_i24_def Let_def recombine_i24 sign_i24)
qed

lemma wrap_i24_id:
  fixes v :: i32
  assumes "- (2 ^ 23) \<le> sint v" and "sint v < 2 ^ 23"
  shows "signed_take_bit 23 v = v"
proof -
  have same: "signed_take_bit 23 (sint v) = sint v" using assms by (intro signed_take_bit_int_eq_self) simp_all
  have key: "bit (sint v) n \<longleftrightarrow> bit (sint v) (min n 23)" for n
    by (subst same [symmetric]) (simp add: bit_signed_take_bit_iff min.commute)
  have "bit v (min 23 n) \<longleftrightarrow> bit v n" if "n < 32" for n
  proof (cases "n \<le> 23")
    case False
    then have "min n 23 = 23" "min 23 n = 23" by simp_all
    with key [of n] that show ?thesis by (simp add: bit_sint_iff)
  qed (simp add: min_def)
  then show ?thesis by (intro bit_word_eqI) (simp add: bit_signed_take_bit_iff)
qed

section \<open>Frames\<close>

lemma data_frame_payload: "length p \<le> 8 \<Longrightarrow> frame_payload (data_frame i p) = p"
  by (simp add: frame_payload_def data_frame_def CAN_MAX_DATA_def min_def word_le_nat_alt)

lemma cmd_frame_decode:
  assumes "length p \<le> 8"
  shows "decode_frame (cmd_frame node cmd p) =
    bind_result (decode_payload (cmd_frame node cmd p) (take_bit 4 node) (raw cmd) False cmd)
      (\<lambda>x. Inr \<lparr>df_node = take_bit 4 node, df_err_bit = False, df_payload = x\<rparr>)"
  by (simp add: decode_frame_def cmd_frame_def unpack_pack_can_id data_frame_def)

lemma cmd_frame_fields [simp]:
  "cf_id (cmd_frame node cmd p) = pack_can_id node cmd False" "cf_rtr (cmd_frame node cmd p) = False"
  "cf_dlc (cmd_frame node cmd p) = of_nat (length p)"
  "length p \<le> 8 \<Longrightarrow> frame_payload (cmd_frame node cmd p) = p"
  by (simp_all add: cmd_frame_def data_frame_def data_frame_payload [unfolded data_frame_def])

lemma length_packs [simp]:
  "length (pack_i24 v) = 3" "length (pack_i16 w) = 2" "length (pack_u32 u) = 4" "length (pack_f32 u) = 4"
  by (simp_all add: pack_i24_def pack_i16_def pack_u32_def pack_f32_def Let_def)

lemma f32_at_pack: "f32_at (pack_f32 a @ pack_f32 b) 0 = a" "f32_at (pack_f32 a @ pack_f32 b) 4 = b" "f32_at (pack_f32 a) 0 = a"
  using list4_nth [of "pack_f32 a"] list4_nth [of "pack_f32 b"]
  by (simp_all add: f32_at_def nth_append unpack_pack_32 numeral_2_eq_2 numeral_3_eq_3)

lemma u32_at_pack: "[xs ! 0, xs ! Suc 0, xs ! 2, xs ! 3] = pack_u32 u" if "xs = pack_u32 u @ ys"
  using list4_nth [of "pack_u32 u"] that by (simp add: nth_append)

lemma refusal_source:
  "decode_payload f node raw_cmd err cmd = Inl e \<Longrightarrow> refused_node e = node \<and> refused_err_bit e = err"
  by (cases cmd) (auto simp: decode_payload_def Let_def expect_dlc_def bind_result_def split: if_splits)

lemma node_four_bits: "unat (node :: node_id) < 16 \<Longrightarrow> take_bit 4 node = node"
  by (simp add: word_unat_eq_iff unat_mod take_bit_eq_mod)

section \<open>Properties\<close>

text \<open>
  A frame sent under the id of a node with its fault bit is attributed to that node with
  that bit, whatever command it carries and whether its payload is accepted or refused: the
  live fault signal never depends on the payload.
\<close>

lemma decode_names_source:
  assumes "unat node < 16"
  shows "case decode_frame (f\<lparr>cf_id := pack_can_id node cmd err\<rparr>) of
      Inr d \<Rightarrow> df_node d = node \<and> df_err_bit d = err
    | Inl e \<Rightarrow> refused_node e = node \<and> refused_err_bit e = err"
  using refusal_source [of "f\<lparr>cf_id := pack_can_id node cmd err\<rparr>" node "raw cmd" err cmd] node_four_bits [OF assms]
  by (auto simp: decode_frame_def unpack_pack_can_id bind_result_def split: sum.splits if_splits)

text \<open>The values a configuration frame writes, as the drive's answer reports them.\<close>

fun written_values :: "config_kind \<Rightarrow> node_config \<Rightarrow> readback" where
  "written_values K_Watchdog c = RB_Watchdog (nc_watchdog_ms c) 0"
| "written_values K_Limits c = RB_Limits (f32_of_f64 (nc_velocity_limit_ticks_s c)) (f32_of_f64 (nc_ilim_ma c))"
| "written_values K_VoltageLimit c = RB_VoltageLimit (nc_voltage_limit_mv c)"
| "written_values K_PdGains c = RB_PdGains (f32_of_f64 (ga_kp (nc_gains c))) (f32_of_f64 (ga_kd (nc_gains c)))"
| "written_values K_CurrentGains c = RB_CurrentGains (f32_of_f64 (ga_kpiq (nc_gains c))) (f32_of_f64 (ga_kiiq (nc_gains c)))"
| "written_values K_VelocityGains c = RB_VelocityGains (f32_of_f64 (ga_kpv (nc_gains c))) (f32_of_f64 (ga_kiv (nc_gains c)))"
| "written_values K_PositionGains c = RB_PositionGains (f32_of_f64 (ga_kpp (nc_gains c)))"

lemmas config_encoders = encode_watchdog_def encode_limits_def encode_voltage_limit_def encode_pd_gains_def
  encode_current_gains_def encode_velocity_gains_def encode_position_gains_def two_f32_frame_def

text \<open>
  C26. A drive that answers a read request with the frame it was configured with is read back
  as exactly the values written, for every configuration frame: a read-back that compares
  unequal means the write did not land.
\<close>

theorem config_readback_exact:
  assumes "unat (nc_node c) < 16"
  shows "decode_frame (config_frame kind c) =
    Inr \<lparr>df_node = nc_node c, df_err_bit = False, df_payload = Pl_Readback (written_values kind c)\<rparr>"
  using node_four_bits [OF assms]
  by (cases kind; cases "nc_watchdog_action c")
    (simp_all add: config_encoders cmd_frame_decode decode_payload_def Let_def expect_dlc_def f32_at_pack
       unpack_pack_32 nth_append u32_at_pack [OF refl] u32_at_pack [OF append_Nil2 [symmetric]])

definition sample_node_config :: node_config where
  "sample_node_config = \<lparr>nc_node = 3, nc_watchdog_ms = 500, nc_watchdog_action = WD_Idle, nc_velocity_limit_ticks_s = 0,
     nc_ilim_ma = 0, nc_voltage_limit_mv = 24000,
     nc_gains = \<lparr>ga_kpp = 0, ga_kpv = 0, ga_kiv = 0, ga_kpiq = 0, ga_kiiq = 0, ga_kp = 0, ga_kd = 0\<rparr>,
     nc_ripple = [], nc_velocity_window = None\<rparr>"

theorem config_readback_exact_witness:
  "decode_frame (config_frame K_VoltageLimit sample_node_config) =
     Inr \<lparr>df_node = 3, df_err_bit = False, df_payload = Pl_Readback (RB_VoltageLimit 24000)\<rparr>"
  using config_readback_exact [of sample_node_config K_VoltageLimit] by (simp add: sample_node_config_def)

text \<open>What a joint command asks of a drive: positions and speeds modulo \<open>2 ^ 24\<close>, absent channels zero.\<close>

definition commanded_mode :: "joint_command \<Rightarrow> drive_mode" where
  "commanded_mode c =
     (let pos = f64_of_i32 (signed_take_bit 23 (or_zero (jc_pos c))); vel = f64_of_i32 (signed_take_bit 23 (or_zero (jc_vel c)));
          cur = f64_of_i16 (or_zero (jc_cur_ma c)) in
      case jc_pack c of
        Pack_Pid \<Rightarrow> (if jc_pos c \<noteq> None then DM_Position pos vel cur else if jc_vel c \<noteq> None then DM_Velocity vel cur else DM_Current cur)
      | Pack_Pd \<Rightarrow> DM_Pd pos vel cur
      | Pack_Hall trigger \<Rightarrow> DM_Hall vel trigger
      | _ \<Rightarrow> DM_Idle)"

lemma nth_packs:
  "unpack_i24 ((pack_i24 v @ xs) ! 0) ((pack_i24 v @ xs) ! Suc 0) ((pack_i24 v @ xs) ! 2) = signed_take_bit 23 v"
  "unpack_i24 ((pack_i24 w @ pack_i24 v @ xs) ! 3) ((pack_i24 w @ pack_i24 v @ xs) ! 4) ((pack_i24 w @ pack_i24 v @ xs) ! 5) = signed_take_bit 23 v"
  "unpack_i16 ((pack_i24 v @ pack_i16 c) ! 3) ((pack_i24 v @ pack_i16 c) ! 4) = c"
  "unpack_i16 ((pack_i24 w @ pack_i24 v @ pack_i16 c) ! 6) ((pack_i24 w @ pack_i24 v @ pack_i16 c) ! 7) = c"
  using unpack_pack_i24 [of v] unpack_pack_i16 [of c] by (simp_all add: nth_append)

text \<open>
  C25. Every motion frame the encoder produces installs in the drive exactly the law the joint
  command names, on the node it is addressed to; positions and speeds outside 24 bits wrap.
  The only command without a frame is the empty one, and the only refusal a position without
  a velocity.
\<close>

theorem motion_frame_reaches_drive:
  "case encode_joint_command node c of
     Inl PositionWithoutVelocity \<Rightarrow> jc_pack c = Pack_Pid \<and> jc_pos c \<noteq> None \<and> jc_vel c = None
   | Inr None \<Rightarrow> jc_pack c = Pack_Pid \<and> jc_pos c = None \<and> jc_vel c = None \<and> jc_cur_ma c = None
   | Inr (Some f) \<Rightarrow>
       (case unpack_can_id (cf_id f) of (n, cmd, err) \<Rightarrow> n = take_bit 4 node \<and> \<not> err
          \<and> (if cf_rtr f then jc_pack c = Pack_EncoderPoll \<and> cmd = raw Cid_EncoderData
             else Option.bind (from_raw cmd) (\<lambda>k. on_motion_frame k (frame_payload f)) = Some (commanded_mode c)))"
  by (cases "jc_pack c"; cases "jc_pos c"; cases "jc_vel c"; cases "jc_cur_ma c")
    (simp_all add: encode_joint_command_def on_motion_frame_def commanded_mode_def Let_def unpack_pack_can_id or_zero_def
       encode_idle_def rtr_frame_def nth_packs unpack_pack_i16 unpack_pack_i24
       nth_append del: raw.simps)

end
