(* ===== verification/Bus_Sched.thy ===== *)
theory Bus_Sched
  imports Can_Props Reachability
begin

text \<open>
  The socket-free half of the hardware bus, \<open>par6-bus/src/hw/sched.rs\<close>: the round-robin
  telemetry schedule, the freshness clock of the nodes and the paced boot configuration.
  Ticks, slots and cursors count from the start of the program and are \<open>nat\<close>;
  \<open>saturating_sub\<close> is the subtraction of \<open>nat\<close>.
\<close>

section \<open>The poll schedule\<close>

definition DEVICE_INFO_PERIOD_SLOTS :: nat where "DEVICE_INFO_PERIOD_SLOTS = 1006"

datatype poll_slot_use = PS_Override poll_action | PS_Poll nat poll_kind

record poll_scheduler =
  ps_targets :: nat
  ps_legacy :: "bool list"
  ps_cycle :: "(nat \<times> poll_kind) list"
  ps_cursor :: nat
  ps_slot :: nat
  ps_device_info_remaining :: nat
  ps_override :: "(poll_action \<times> u16) option"

definition new_poll_scheduler :: poll_scheduler where
  "new_poll_scheduler = \<lparr>ps_targets = 0, ps_legacy = [], ps_cycle = [], ps_cursor = 0, ps_slot = 0,
     ps_device_info_remaining = 0, ps_override = None\<rparr>"

definition target_polls :: "nat \<times> bool \<Rightarrow> (nat \<times> poll_kind) list" where
  "target_polls entry = (case entry of (target, legacy) \<Rightarrow>
     if legacy then [(target, Poll_Temperature), (target, Poll_Voltage), (target, Poll_Errors)]
     else [(target, Poll_Telemetry)])"

definition rebuild_cycle :: "poll_scheduler \<Rightarrow> poll_scheduler" where
  "rebuild_cycle s = s\<lparr>ps_cycle := concat (map target_polls (enumerate 0 (ps_legacy s)))\<rparr>"

definition ps_configure :: "poll_scheduler \<Rightarrow> nat \<Rightarrow> poll_scheduler" where
  "ps_configure s targets = rebuild_cycle (s\<lparr>ps_targets := targets, ps_legacy := replicate targets False, ps_cycle := [],
     ps_cursor := 0, ps_slot := 0, ps_device_info_remaining := 0, ps_override := None\<rparr>)"

definition set_legacy :: "poll_scheduler \<Rightarrow> nat \<Rightarrow> bool \<Rightarrow> poll_scheduler" where
  "set_legacy s target legacy =
     (if target < ps_targets s \<and> ps_legacy s ! target \<noteq> legacy
      then rebuild_cycle (s\<lparr>ps_legacy := (ps_legacy s)[target := legacy]\<rparr>) else s)"

definition queue_override :: "poll_scheduler \<Rightarrow> poll_action \<Rightarrow> u16 \<Rightarrow> poll_scheduler" where
  "queue_override s action repeats = (if repeats = 0 then s else s\<lparr>ps_override := Some (action, repeats)\<rparr>)"

definition ps_step :: "poll_scheduler \<Rightarrow> poll_slot_use option \<times> poll_scheduler" where
  "ps_step s =
     (if ps_targets s = 0 then (None, s)
      else case ps_override s of
        Some (action, repeats) \<Rightarrow>
          (Some (PS_Override action), s\<lparr>ps_override := (if 1 < repeats then Some (action, repeats - 1) else None)\<rparr>)
      | None \<Rightarrow>
          (let s = s\<lparr>ps_slot := Suc (ps_slot s)\<rparr> in
           if 0 < ps_device_info_remaining s then
             (Some (PS_Poll (ps_targets s - ps_device_info_remaining s) Poll_DeviceInfo),
              s\<lparr>ps_device_info_remaining := ps_device_info_remaining s - 1\<rparr>)
           else
             (let s = (if ps_slot s mod DEVICE_INFO_PERIOD_SLOTS = 0
                       then s\<lparr>ps_device_info_remaining := ps_targets s\<rparr> else s);
                  (target, kind) = ps_cycle s ! (ps_cursor s mod length (ps_cycle s))
              in (Some (PS_Poll target kind), s\<lparr>ps_cursor := Suc (ps_cursor s)\<rparr>))))"

section \<open>The freshness clock\<close>

definition U64_MAX :: nat where "U64_MAX = 2 ^ 64 - 1"

record freshness_clock =
  fc_stale_warn_ticks :: nat
  fc_lost_ticks :: nat
  fc_last_rx_tick :: "nat option list"
  fc_lost_latched :: "bool list"
  fc_last_gripper_rx_tick :: "nat option"

definition new_freshness_clock :: freshness_clock where
  "new_freshness_clock = \<lparr>fc_stale_warn_ticks = U64_MAX, fc_lost_ticks = U64_MAX,
     fc_last_rx_tick = replicate MAX_NODES None, fc_lost_latched = replicate MAX_NODES False, fc_last_gripper_rx_tick = None\<rparr>"

definition fc_configure :: "freshness_clock \<Rightarrow> nat \<Rightarrow> nat \<Rightarrow> freshness_clock" where
  "fc_configure c stale_warn_ticks lost_ticks = c\<lparr>fc_stale_warn_ticks := max stale_warn_ticks 1,
     fc_lost_ticks := max lost_ticks 1, fc_last_rx_tick := replicate MAX_NODES None,
     fc_lost_latched := replicate MAX_NODES False, fc_last_gripper_rx_tick := None\<rparr>"

definition latch_lost :: "freshness_clock \<Rightarrow> nat \<Rightarrow> freshness_clock" where
  "latch_lost c tick = c\<lparr>fc_lost_latched := map (\<lambda>n. case fc_last_rx_tick c ! n of
       Some last_rx \<Rightarrow> fc_lost_ticks c \<le> tick - last_rx \<or> fc_lost_latched c ! n
     | None \<Rightarrow> fc_lost_latched c ! n) [0..<MAX_NODES]\<rparr>"

definition fc_mark :: "freshness_clock \<Rightarrow> node_id \<Rightarrow> nat \<Rightarrow> bool \<Rightarrow> bool \<times> freshness_clock" where
  "fc_mark c node tick booted =
     (let n = unat node;
          reconnected = (case fc_last_rx_tick c ! n of None \<Rightarrow> \<not> booted | Some last_rx \<Rightarrow> fc_stale_warn_ticks c \<le> tick - last_rx)
      in (reconnected, c\<lparr>fc_last_rx_tick := (fc_last_rx_tick c)[n := Some tick]\<rparr>))"

definition mark_gripper :: "freshness_clock \<Rightarrow> nat \<Rightarrow> freshness_clock" where
  "mark_gripper c tick = c\<lparr>fc_last_gripper_rx_tick := Some tick\<rparr>"

definition fc_age :: "freshness_clock \<Rightarrow> node_id \<Rightarrow> nat \<Rightarrow> nat" where
  "fc_age c node tick = (case fc_last_rx_tick c ! unat node of Some last_rx \<Rightarrow> tick - last_rx | None \<Rightarrow> U64_MAX)"

definition gripper_age :: "freshness_clock \<Rightarrow> nat \<Rightarrow> nat" where
  "gripper_age c tick = (case fc_last_gripper_rx_tick c of Some last_rx \<Rightarrow> tick - last_rx | None \<Rightarrow> U64_MAX)"

definition classify :: "freshness_clock \<Rightarrow> node_id \<Rightarrow> nat \<Rightarrow> freshness" where
  "classify c node tick =
     (let n = unat node in
      if fc_lost_latched c ! n then Fresh_Lost
      else case fc_last_rx_tick c ! n of
        None \<Rightarrow> Fresh_Unknown
      | Some last_rx \<Rightarrow>
          (let age = tick - last_rx in
           if fc_lost_ticks c \<le> age then Fresh_Lost else if fc_stale_warn_ticks c \<le> age then Fresh_Stale else Fresh_Fresh))"

definition clear_latch :: "freshness_clock \<Rightarrow> node_id \<Rightarrow> nat \<Rightarrow> freshness_clock" where
  "clear_latch c node tick = c\<lparr>fc_lost_latched := (fc_lost_latched c)[unat node := False],
     fc_last_rx_tick := (fc_last_rx_tick c)[unat node := Some tick]\<rparr>"

definition refit_gripper :: "freshness_clock \<Rightarrow> node_id \<Rightarrow> nat \<Rightarrow> freshness_clock" where
  "refit_gripper c node tick = (clear_latch c node tick)\<lparr>fc_last_gripper_rx_tick := Some tick\<rparr>"

definition fc_rebase :: "freshness_clock \<Rightarrow> nat \<Rightarrow> freshness_clock" where
  "fc_rebase c tick = c\<lparr>fc_last_rx_tick := replicate MAX_NODES (Some tick), fc_lost_latched := replicate MAX_NODES False,
     fc_last_gripper_rx_tick := Some tick\<rparr>"

section \<open>The boot configuration\<close>

datatype boot_step = BS_Frame can_frame | BS_Pace

definition config_pass :: "node_config list \<Rightarrow> boot_step list" where
  "config_pass configs =
     concat (map (\<lambda>kind. map (\<lambda>c. BS_Frame (config_frame kind c)) configs @ [BS_Pace]) CONFIG_ORDER)
     @ (let extra = concat (map extra_frames configs) in if extra = [] then [] else map BS_Frame extra @ [BS_Pace])"

definition boot_config_plan :: "node_config list \<Rightarrow> u8 \<Rightarrow> boot_step list" where
  "boot_config_plan configs repeats =
     (if configs = [] then [] else concat (replicate (unat repeats) (config_pass configs)))"

section \<open>The round robin is fair\<close>

fun ps_run :: "nat \<Rightarrow> poll_scheduler \<Rightarrow> poll_slot_use option list \<times> poll_scheduler" where
  "ps_run 0 s = ([], s)"
| "ps_run (Suc m) s = (case ps_step s of (out, s1) \<Rightarrow> (case ps_run m s1 of (outs, s2) \<Rightarrow> (out # outs, s2)))"

definition cycle_of :: "bool list \<Rightarrow> (nat \<times> poll_kind) list" where
  "cycle_of legacy = concat (map target_polls (enumerate 0 legacy))"

definition sched_ok :: "poll_scheduler \<Rightarrow> bool" where
  "sched_ok s \<longleftrightarrow> 0 < ps_targets s \<and> length (ps_legacy s) = ps_targets s \<and> ps_cycle s = cycle_of (ps_legacy s)
     \<and> ps_device_info_remaining s \<le> ps_targets s"

lemma length_target_polls: "length (target_polls e) \<le> 3" "target_polls e \<noteq> []"
  by (auto simp: target_polls_def split: prod.splits)

lemma cycle_length:
  "length (cycle_of legacy) \<le> 3 * length legacy" "legacy \<noteq> [] \<Longrightarrow> cycle_of legacy \<noteq> []"
proof -
  have "length (concat (map target_polls es)) \<le> 3 * length es" for es
    using length_target_polls(1) by (induction es) (auto intro!: add_mono simp: add.commute)
  then show "length (cycle_of legacy) \<le> 3 * length legacy" by (metis cycle_of_def length_enumerate)
  show "legacy \<noteq> [] \<Longrightarrow> cycle_of legacy \<noteq> []"
    using length_target_polls(2) by (cases legacy) (auto simp: cycle_of_def)
qed

lemma cycle_entries:
  assumes "t < length legacy"
  shows "set (target_polls (t, legacy ! t)) \<subseteq> set (cycle_of legacy)"
proof -
  have "(t, legacy ! t) \<in> set (enumerate 0 legacy)" using assms by (simp add: in_set_enumerate_eq)
  then show ?thesis by (auto simp: cycle_of_def)
qed

lemma sched_ok_configure: "0 < n \<Longrightarrow> sched_ok (ps_configure s n)"
  by (simp add: sched_ok_def ps_configure_def rebuild_cycle_def cycle_of_def)

lemma sched_ok_set_legacy: "sched_ok s \<Longrightarrow> sched_ok (set_legacy s target legacy)"
  by (simp add: sched_ok_def set_legacy_def rebuild_cycle_def cycle_of_def)

definition poll_at :: "poll_scheduler \<Rightarrow> nat \<Rightarrow> poll_slot_use option" where
  "poll_at s i = (case ps_cycle s ! (i mod length (ps_cycle s)) of (t, k) \<Rightarrow> Some (PS_Poll t k))"

text \<open>One slot: either the device-info sweep goes on, or the cursor moves.\<close>

lemma ps_step_cases:
  assumes "sched_ok s" and "ps_override s = None" and "ps_step s = (out, s')"
  shows "sched_ok s' \<and> ps_override s' = None \<and> ps_legacy s' = ps_legacy s \<and> ps_targets s' = ps_targets s \<and> ps_slot s' = Suc (ps_slot s)
    \<and> (ps_cursor s' = ps_cursor s \<and> Suc (ps_device_info_remaining s') = ps_device_info_remaining s
       \<or> ps_cursor s' = Suc (ps_cursor s) \<and> out = poll_at s (ps_cursor s) \<and>
         ps_device_info_remaining s' = (if Suc (ps_slot s) mod DEVICE_INFO_PERIOD_SLOTS = 0 then ps_targets s else 0))"
  using assms by (auto simp: ps_step_def sched_ok_def Let_def poll_at_def split: if_splits prod.splits)

lemma ps_run_progress:
  assumes "sched_ok s" and "ps_override s = None" and "ps_run m s = (outs, s')"
  shows "ps_cursor s \<le> ps_cursor s' \<and> (\<forall>i. ps_cursor s \<le> i \<and> i < ps_cursor s' \<longrightarrow> poll_at s i \<in> set outs)
    \<and> m + ps_cursor s + ps_device_info_remaining s' \<le> ps_cursor s' + ps_device_info_remaining s
        + ps_targets s * ((ps_slot s + m) div DEVICE_INFO_PERIOD_SLOTS - ps_slot s div DEVICE_INFO_PERIOD_SLOTS)"
  using assms
proof (induction m arbitrary: s outs)
  case 0
  then show ?case by simp
next
  case (Suc m)
  let ?P = DEVICE_INFO_PERIOD_SLOTS
  obtain out s1 rest where step: "ps_step s = (out, s1)" and run: "ps_run m s1 = (rest, s')" and outs: "outs = out # rest"
    using Suc.prems(3) by (auto split: prod.splits)
  note one = ps_step_cases [OF Suc.prems(1,2) step]
  note IH = Suc.IH [OF _ _ run]
  have cyc: "ps_cycle s1 = ps_cycle s" using one Suc.prems(1) by (simp add: sched_ok_def)
  then have same: "poll_at s1 i = poll_at s i" for i by (simp add: poll_at_def)
  have "Suc (ps_slot s) div ?P \<le> (Suc (ps_slot s) + m) div ?P" by (simp add: div_le_mono)
  then have split: "(ps_slot s + Suc m) div ?P - ps_slot s div ?P
      = (Suc (ps_slot s) + m) div ?P - Suc (ps_slot s) div ?P + (if Suc (ps_slot s) mod ?P = 0 then 1 else 0)"
    using div_Suc [of "ps_slot s" ?P] by (cases "Suc (ps_slot s) mod ?P = 0") (simp_all del: div_Suc)
  have seen: "poll_at s i \<in> set outs" if "ps_cursor s \<le> i" and "i < ps_cursor s'" for i
    using one IH that by (cases "i = ps_cursor s") (auto simp: outs same)
  from one IH have "ps_cursor s \<le> ps_cursor s'" by auto
  moreover from one IH have "Suc m + ps_cursor s + ps_device_info_remaining s' \<le> ps_cursor s' + ps_device_info_remaining s
        + ps_targets s * ((ps_slot s + Suc m) div ?P - ps_slot s div ?P)"
    unfolding split by (auto simp: distrib_left)
  ultimately show ?case using seen by blast
qed

section \<open>Sequences of clock operations\<close>

datatype clock_op =
    Fc_latch_lost nat
  | Fc_mark node_id nat bool
  | Fc_mark_gripper nat
  | Fc_clear_latch node_id nat
  | Fc_refit_gripper node_id nat
  | Fc_rebase nat

fun run_clock_op :: "clock_op \<Rightarrow> freshness_clock \<Rightarrow> freshness_clock" where
  "run_clock_op (Fc_latch_lost tick) c = latch_lost c tick"
| "run_clock_op (Fc_mark node tick booted) c = snd (fc_mark c node tick booted)"
| "run_clock_op (Fc_mark_gripper tick) c = mark_gripper c tick"
| "run_clock_op (Fc_clear_latch node tick) c = clear_latch c node tick"
| "run_clock_op (Fc_refit_gripper node tick) c = refit_gripper c node tick"
| "run_clock_op (Fc_rebase tick) c = fc_rebase c tick"

text \<open>The operations that forgive a node.\<close>

fun forgives :: "node_id \<Rightarrow> clock_op \<Rightarrow> bool" where
  "forgives node (Fc_clear_latch n _) \<longleftrightarrow> n = node"
| "forgives node (Fc_refit_gripper n _) \<longleftrightarrow> n = node"
| "forgives node (Fc_rebase _) \<longleftrightarrow> True"
| "forgives node _ \<longleftrightarrow> False"

definition clock_ok :: "freshness_clock \<Rightarrow> bool" where
  "clock_ok c \<longleftrightarrow> length (fc_last_rx_tick c) = MAX_NODES \<and> length (fc_lost_latched c) = MAX_NODES"

definition seen_node :: "freshness_clock \<Rightarrow> node_id \<Rightarrow> bool" where
  "seen_node c node \<longleftrightarrow> fc_last_rx_tick c ! unat node \<noteq> None"

lemmas clock_defs = latch_lost_def fc_mark_def Let_def mark_gripper_def clear_latch_def refit_gripper_def fc_rebase_def

lemma clock_op_ok: "clock_ok c \<Longrightarrow> clock_ok (run_clock_op p c)"
  by (cases p) (simp_all add: clock_ok_def clock_defs)

lemma nth_update_Some: "xs ! i \<noteq> None \<Longrightarrow> xs[j := Some v] ! i \<noteq> None"
  by (cases "j < length xs"; cases "i = j") (simp_all add: list_update_beyond)

lemma clock_op_seen:
  assumes "clock_ok c" and "unat node < MAX_NODES" and "seen_node c node"
  shows "seen_node (run_clock_op p c) node"
  using assms(2,3) unfolding seen_node_def by (cases p) (simp_all add: clock_defs nth_update_Some del: not_None_eq)

lemma clock_op_latched:
  assumes "clock_ok c" and "unat node < MAX_NODES" and "fc_lost_latched c ! unat node" and "\<not> forgives node p"
  shows "fc_lost_latched (run_clock_op p c) ! unat node"
  using assms by (cases p) (simp_all add: clock_ok_def clock_defs nth_list_update word_unat_eq_iff split: option.split)

lemma clock_ops_facts:
  assumes "clock_ok c" and "unat node < MAX_NODES"
  shows "clock_ok (fold run_clock_op ps c)"
    and "seen_node c node \<Longrightarrow> seen_node (fold run_clock_op ps c) node"
    and "fc_lost_latched c ! unat node \<Longrightarrow> \<not> list_ex (forgives node) ps \<Longrightarrow> fc_lost_latched (fold run_clock_op ps c) ! unat node"
  using assms by (induction ps arbitrary: c) (auto simp: clock_op_ok clock_op_seen clock_op_latched)

section \<open>Boot frames by node\<close>

definition frame_node :: "can_frame \<Rightarrow> node_id" where
  "frame_node f = fst (unpack_can_id (cf_id f))"

definition plan_frames :: "boot_step list \<Rightarrow> can_frame list" where
  "plan_frames plan = concat (map (\<lambda>s. case s of BS_Frame f \<Rightarrow> [f] | BS_Pace \<Rightarrow> []) plan)"

lemma plan_frames_simps [simp]:
  "plan_frames [] = []" "plan_frames (xs @ ys) = plan_frames xs @ plan_frames ys"
  "plan_frames (BS_Pace # xs) = plan_frames xs" "plan_frames (map BS_Frame fs) = fs"
  "plan_frames (map (\<lambda>c. BS_Frame (g c)) cs) = map g cs"
  by (induction fs; induction cs) (simp_all add: plan_frames_def o_def)

lemma plan_frames_concat: "plan_frames (concat xss) = concat (map plan_frames xss)"
  by (induction xss) simp_all

text \<open>One full configuration load of one node, as \<open>resend_node_config\<close> sends it.\<close>

definition node_load :: "node_config \<Rightarrow> can_frame list" where
  "node_load c = map (\<lambda>kind. config_frame kind c) CONFIG_ORDER @ extra_frames c"

lemma frame_node_cmd: "unat node < 16 \<Longrightarrow> frame_node (cmd_frame node cmd p) = node"
  by (simp add: frame_node_def unpack_pack_can_id node_four_bits)

lemma frame_node_config: "unat (nc_node c) < 16 \<Longrightarrow> frame_node (config_frame kind c) = nc_node c"
  by (cases kind) (simp_all add: config_encoders frame_node_cmd)

lemma frame_node_extra: "unat (nc_node c) < 16 \<Longrightarrow> f \<in> set (extra_frames c) \<Longrightarrow> frame_node f = nc_node c"
  by (auto simp: extra_frames_def ripple_frames_def encode_ripple_def encode_velocity_window_def frame_node_cmd split: if_splits option.splits)

lemma filter_node:
  assumes "distinct (map nc_node cs)" and "c \<in> set cs"
    and "\<And>d f. d \<in> set cs \<Longrightarrow> f \<in> set (fs d) \<Longrightarrow> frame_node f = nc_node d"
  shows "filter (\<lambda>f. frame_node f = nc_node c) (concat (map fs cs)) = fs c"
  using assms
proof (induction cs)
  case (Cons d cs)
  show ?case
  proof (cases "d = c")
    case True
    have "\<forall>e\<in>set cs. \<forall>f\<in>set (fs e). frame_node f \<noteq> nc_node c"
      using Cons.prems(1,3) True by (metis distinct.simps(2) image_eqI list.set_intros(2) list.simps(9) set_map)
    then have "filter (\<lambda>f. frame_node f = nc_node c) (concat (map fs cs)) = []" by (auto simp: filter_empty_conv)
    moreover have "filter (\<lambda>f. frame_node f = nc_node c) (fs d) = fs d" using Cons.prems(3) True by (auto simp: filter_id_conv)
    ultimately show ?thesis using True by simp
  next
    case False
    then have "nc_node d \<noteq> nc_node c" using Cons.prems(1,2) by (metis distinct.simps(2) image_eqI list.simps(9) set_ConsD set_map)
    then have "filter (\<lambda>f. frame_node f = nc_node c) (fs d) = []" using Cons.prems(3) [of d] by (auto simp: filter_empty_conv)
    then show ?thesis using False Cons by auto
  qed
qed simp

section \<open>Properties\<close>

text \<open>
  Over any stretch of slots without an override, as long as one cycle and two device-info
  sweeps, every poll target is asked for everything its firmware needs: the combined telemetry,
  or temperature, voltage and errors one by one.
\<close>

lemma poll_round_robin_fair:
  assumes "sched_ok s" and "ps_override s = None" and "ps_targets s \<le> 200" and "t < ps_targets s"
    and "(t, kind) \<in> set (target_polls (t, ps_legacy s ! t))"
  shows "Some (PS_Poll t kind) \<in> set (fst (ps_run (length (ps_cycle s) + 2 * ps_targets s) s))"
proof -
  let ?L = "length (ps_cycle s)" and ?P = DEVICE_INFO_PERIOD_SLOTS and ?n = "ps_targets s"
  obtain outs s' where run: "ps_run (?L + 2 * ?n) s = (outs, s')" by (cases "ps_run (?L + 2 * ?n) s")
  have legacy: "length (ps_legacy s) = ?n" "ps_cycle s = cycle_of (ps_legacy s)" "ps_device_info_remaining s \<le> ?n"
    using assms(1) by (auto simp: sched_ok_def)
  have "?L \<le> 600" using cycle_length(1) [of "ps_legacy s"] legacy(1,2) assms(3) by simp
  then have "(ps_slot s + (?L + 2 * ?n)) div ?P \<le> (ps_slot s + ?P) div ?P"
    using assms(3) by (intro div_le_mono) (simp add: DEVICE_INFO_PERIOD_SLOTS_def)
  then have "(ps_slot s + (?L + 2 * ?n)) div ?P - ps_slot s div ?P \<le> 1" by (simp add: DEVICE_INFO_PERIOD_SLOTS_def)
  then have "?n * ((ps_slot s + (?L + 2 * ?n)) div ?P - ps_slot s div ?P) \<le> ?n" by (metis mult.right_neutral mult_le_mono2)
  with ps_run_progress [OF assms(1,2) run] legacy(3) have far: "ps_cursor s + ?L \<le> ps_cursor s'" by linarith
  have polled: "\<And>i. ps_cursor s \<le> i \<Longrightarrow> i < ps_cursor s' \<Longrightarrow> poll_at s i \<in> set outs"
    using ps_run_progress [OF assms(1,2) run] by blast
  obtain j where j: "j < ?L" "ps_cycle s ! j = (t, kind)"
    using cycle_entries [of t "ps_legacy s"] assms(4,5) legacy(1,2) by (metis in_set_conv_nth subsetD)
  define i where "i = ps_cursor s + (j + ?L - ps_cursor s mod ?L) mod ?L"
  have "ps_cursor s = ?L * (ps_cursor s div ?L) + ps_cursor s mod ?L" by (rule mult_div_mod_eq [symmetric])
  moreover have "ps_cursor s mod ?L < ?L" by (rule mod_less_divisor) (use j(1) in linarith)
  ultimately have "ps_cursor s + (j + ?L - ps_cursor s mod ?L) = j + ?L * Suc (ps_cursor s div ?L)"
    unfolding mult_Suc_right by linarith
  then have "i mod ?L = j" using j(1) unfolding i_def by (metis mod_add_right_eq mod_less mod_mult_self2)
  then have "poll_at s i = Some (PS_Poll t kind)" using j by (simp add: poll_at_def)
  moreover have "i < ps_cursor s + ?L" unfolding i_def by (simp, rule mod_less_divisor) (use j(1) in linarith)
  ultimately show ?thesis using polled [of i] far run by (simp add: i_def)
qed

definition sample_schedule :: poll_scheduler where
  "sample_schedule = set_legacy (ps_configure new_poll_scheduler 2) 1 True"

text \<open>
  A node whose data age has reached the lost threshold when the tick's latch runs reads as
  lost from then on, at every later tick and whatever frames arrive, until an operation that
  forgives this node; and no operation but a reconfiguration ever makes a seen node unknown.
\<close>

lemma lost_latch_holds:
  assumes "clock_ok c" and "unat node < MAX_NODES"
    and "fc_last_rx_tick c ! unat node = Some last_rx" and "fc_lost_ticks c \<le> tick - last_rx"
    and "\<not> list_ex (forgives node) ps"
  shows "classify (fold run_clock_op ps (latch_lost c tick)) node t = Fresh_Lost
    \<and> classify (fold run_clock_op qs c) node t \<noteq> Fresh_Unknown"
proof -
  have c: "clock_ok (latch_lost c tick)" using clock_op_ok [OF assms(1), of "Fc_latch_lost tick"] by simp
  moreover have "fc_lost_latched (latch_lost c tick) ! unat node"
    using assms(2-4) by (simp add: latch_lost_def)
  ultimately have "fc_lost_latched (fold run_clock_op ps (latch_lost c tick)) ! unat node"
    using clock_ops_facts(3) assms(2,5) by blast
  moreover have "seen_node (fold run_clock_op qs c) node"
    using clock_ops_facts(2) [OF assms(1,2)] assms(3) by (simp add: seen_node_def)
  ultimately show ?thesis by (auto simp: classify_def Let_def seen_node_def split: option.splits)
qed

text \<open>
  Seen from one node, the paced boot load is that node's configuration sent \<open>repeats\<close> times
  in full and in order, the very frames a reconnect sends it, whatever the other nodes are.
\<close>

lemma boot_load_per_node:
  assumes "distinct (map nc_node configs)" and "\<forall>d\<in>set configs. unat (nc_node d) < 16" and "c \<in> set configs"
  shows "filter (\<lambda>f. frame_node f = nc_node c) (plan_frames (boot_config_plan configs repeats))
    = concat (replicate (unat repeats) (node_load c))"
proof -
  let ?F = "filter (\<lambda>f. frame_node f = nc_node c)"
  have one: "?F (map (config_frame kind) configs) = [config_frame kind c]" for kind
    using filter_node [OF assms(1,3), of "\<lambda>d. [config_frame kind d]"] assms(2) by (simp add: frame_node_config)
  have extra: "?F (concat (map extra_frames configs)) = extra_frames c"
    using filter_node [OF assms(1,3), of extra_frames] assms(2) by (simp add: frame_node_extra)
  have kinds: "?F (plan_frames (concat (map (\<lambda>kind. map (\<lambda>d. BS_Frame (config_frame kind d)) configs @ [BS_Pace]) ks)))
      = map (\<lambda>kind. config_frame kind c) ks" for ks
    by (induction ks) (simp_all add: one del: config_frame.simps)
  have "?F (plan_frames (config_pass configs)) = node_load c"
    unfolding config_pass_def node_load_def Let_def plan_frames_simps(2) filter_append kinds
    using extra by (cases "concat (map extra_frames configs) = []") (simp_all del: concat_eq_Nil_conv)
  then show ?thesis
    using assms(3) by (auto simp: boot_config_plan_def plan_frames_concat filter_concat map_replicate_const)
qed

end
