(* ===== verification/Bus_Hw.thy ===== *)
theory Bus_Hw
  imports Bus_Sched
begin

text \<open>
  The hardware bus, \<open>par6-bus/src/hw/mod.rs\<close>: what goes on the wire, what a received frame
  does to the state, and the boot sequence. The socket and the waiting are the world's: what a
  write answers, which frames are pending and which replies a wait collects are fields of
  \<open>hw_env\<close>, indexed by how many writes and waits came before. \<open>hb_sent\<close> records the frames the
  socket accepted. Wall-clock time enters as the age a pending frame has, in ticks.

  A \<open>RobotConfig\<close> enters as the values the bus takes from it; the joints' and the gripper's
  drive settings are there as the \<open>NodeConfig\<close> made from them.
\<close>

unbundle bit_operations_syntax

section \<open>State\<close>

definition SILENT_RX_CAP :: nat where "SILENT_RX_CAP = 64"

definition TELEMETRY_FALLBACK_POLLS :: u8 where "TELEMETRY_FALLBACK_POLLS = 3"

record capture_buffer =
  cb_recorded :: u16
  cb_wanted :: u16
  cb_divisor :: u16
  cb_velocity :: "i16 list"
  cb_current :: "i16 list"
  cb_phase :: "i16 list"
  cb_received :: "bool list list"

definition new_capture :: capture_buffer where
  "new_capture = (let len = unat CAPTURE_LEN in
     \<lparr>cb_recorded = 0, cb_wanted = 0, cb_divisor = 0, cb_velocity = replicate len 0, cb_current = replicate len 0,
      cb_phase = replicate len 0, cb_received = replicate 3 (replicate (len div 2) False)\<rparr>)"

definition capture_clear :: "capture_buffer \<Rightarrow> capture_buffer" where
  "capture_clear b = b\<lparr>cb_recorded := 0, cb_wanted := 0, cb_divisor := 0, cb_velocity := map (\<lambda>_. 0) (cb_velocity b),
     cb_current := map (\<lambda>_. 0) (cb_current b), cb_phase := map (\<lambda>_. 0) (cb_phase b),
     cb_received := map (map (\<lambda>_. False)) (cb_received b)\<rparr>"

text \<open>\<open>get_mut\<close> ignores an index out of range, as an update of a list does.\<close>

definition store_pair :: "nat \<Rightarrow> i16 \<Rightarrow> i16 \<Rightarrow> i16 list \<Rightarrow> i16 list" where
  "store_pair at a b rows = rows[at := a, at + 1 := b]"

definition capture_store :: "capture_buffer \<Rightarrow> u8 \<Rightarrow> u16 \<Rightarrow> i16 \<Rightarrow> i16 \<Rightarrow> capture_buffer" where
  "capture_store b channel chunk s0 s1 =
     (let at = unat chunk * 2;
          seen = (\<lambda>b. b\<lparr>cb_received := (cb_received b)[unat channel := (cb_received b ! unat channel)[unat chunk := True]]\<rparr>) in
      if channel = 0 then seen (b\<lparr>cb_velocity := store_pair at s0 s1 (cb_velocity b)\<rparr>)
      else if channel = 1 then seen (b\<lparr>cb_current := store_pair at s0 s1 (cb_current b)\<rparr>)
      else if channel = 2 then seen (b\<lparr>cb_phase := store_pair at s0 s1 (cb_phase b)\<rparr>)
      else b)"

definition capture_status :: "capture_buffer \<Rightarrow> u16 \<Rightarrow> u16 \<Rightarrow> u16 \<Rightarrow> capture_buffer" where
  "capture_status b recorded wanted divisor = b\<lparr>cb_recorded := recorded, cb_wanted := wanted, cb_divisor := divisor\<rparr>"

record hw_bus =
  hb_joint_nodes :: "node_id list"
  hb_gripper_node :: node_id
  hb_timing_dummy_node :: node_id
  hb_captures :: "capture_buffer list"
  hb_node_configs :: "node_config list"
  hb_poll_nodes :: "node_id list"
  hb_boot_state :: bus_state
  hb_boot_state_pending :: bool
  hb_tick :: nat
  hb_fresh :: freshness_clock
  hb_poll :: poll_scheduler
  hb_unanswered :: "u8 list"
  hb_rx_cap :: nat
  hb_silent :: bool
  hb_configured :: bool
  hb_joints_sent :: bool
  hb_tx_frames :: nat
  hb_connected :: u16
  hb_tx_errors :: nat
  hb_rx_frames :: nat
  hb_sent :: "can_frame list"
  hb_writes :: nat
  hb_waits :: nat

definition open_bus :: hw_bus where
  "open_bus = \<lparr>hb_joint_nodes = [], hb_gripper_node = 0, hb_timing_dummy_node = 0,
     hb_captures = replicate MAX_NODES new_capture, hb_node_configs = [], hb_poll_nodes = [],
     hb_boot_state = new_bus_state, hb_boot_state_pending = False, hb_tick = 0, hb_fresh = new_freshness_clock,
     hb_poll = new_poll_scheduler, hb_unanswered = replicate MAX_NODES 0, hb_rx_cap = 32, hb_silent = False,
     hb_configured = False, hb_joints_sent = False, hb_tx_frames = 0, hb_connected = 0, hb_tx_errors = 0, hb_rx_frames = 0,
     hb_sent = [], hb_writes = 0, hb_waits = 0\<rparr>"

datatype write_answer = Wr_Ok | Wr_Unframed | Wr_WouldBlock | Wr_NoBufs | Wr_NotConnected | Wr_BrokenPipe | Wr_NetDown | Wr_Other

datatype rx_event = Rx_Frame can_frame nat | Rx_Foreign | Rx_Interrupted | Rx_Failed

record hw_env =
  he_write :: "nat \<Rightarrow> write_answer"
  he_pending :: "rx_event list"
  he_replies :: "nat \<Rightarrow> rx_event list"

type_synonym 'a bus_result = "bus_error + 'a"

section \<open>Transport\<close>

definition hw_send :: "hw_env \<Rightarrow> can_frame \<Rightarrow> hw_bus \<Rightarrow> unit bus_result \<times> hw_bus" where
  "hw_send en f b =
     (let node = fst (unpack_can_id (cf_id f)); answer = he_write en (hb_writes b); b = b\<lparr>hb_writes := Suc (hb_writes b)\<rparr> in
      if answer = Wr_Unframed then (Inl (BE_InvalidCommand ''frame does not fit a classic CAN 2.0A frame''), b)
      else if answer = Wr_Ok then (Inr (), b\<lparr>hb_tx_frames := Suc (hb_tx_frames b), hb_sent := hb_sent b @ [f]\<rparr>)
      else (Inl (case answer of
              Wr_WouldBlock \<Rightarrow> BE_TxQueueFull
            | Wr_NoBufs \<Rightarrow> BE_TxQueueFull
            | Wr_NotConnected \<Rightarrow> BE_LinkDown
            | Wr_BrokenPipe \<Rightarrow> BE_LinkDown
            | Wr_NetDown \<Rightarrow> BE_LinkDown
            | _ \<Rightarrow> BE_Tx node), b\<lparr>hb_tx_errors := Suc (hb_tx_errors b)\<rparr>))"

text \<open>\<open>for f in frames { self.send(&f)?; }\<close>\<close>

fun send_all :: "hw_env \<Rightarrow> can_frame list \<Rightarrow> hw_bus \<Rightarrow> unit bus_result \<times> hw_bus" where
  "send_all en [] b = (Inr (), b)"
| "send_all en (f # fs) b =
     (case hw_send en f b of (Inl e, b) \<Rightarrow> (Inl e, b) | (Inr _, b) \<Rightarrow> send_all en fs b)"

text \<open>The queue's next usable frame, and the queue behind it; foreign frames are counted and skipped.\<close>

fun recv :: "rx_event list \<Rightarrow> hw_bus \<Rightarrow> (can_frame \<times> nat) option bus_result \<times> rx_event list \<times> hw_bus" where
  "recv [] b = (Inr None, [], b)"
| "recv (Rx_Frame f age # rest) b = (Inr (Some (f, age)), rest, b\<lparr>hb_rx_frames := Suc (hb_rx_frames b)\<rparr>)"
| "recv (Rx_Foreign # rest) b = recv rest (b\<lparr>hb_rx_frames := Suc (hb_rx_frames b)\<rparr>)"
| "recv (Rx_Interrupted # rest) b = recv rest b"
| "recv (Rx_Failed # rest) b = (Inl BE_LinkDown, rest, b)"

section \<open>Received frames\<close>

definition update_node :: "node_id \<Rightarrow> (node_state \<Rightarrow> node_state) \<Rightarrow> bus_state \<Rightarrow> bus_state" where
  "update_node n f s = bs_set_node s n (f (bs_node s n))"

definition apply_payload :: "decoded_frame \<Rightarrow> bus_state \<Rightarrow> bus_state" where
  "apply_payload d s =
     (let n = df_node d;
          s = (case df_payload d of
             Pl_Motion p v c \<Rightarrow> update_node n (\<lambda>x. (record_position p x)\<lparr>ns_speed_ticks_s := Some v, ns_current_ma := Some c\<rparr>) s
           | Pl_Encoder p v \<Rightarrow> update_node n (\<lambda>x. (record_position p x)\<lparr>ns_speed_ticks_s := Some v\<rparr>) s
           | Pl_Hall p h \<Rightarrow> update_node n (\<lambda>x. (record_position p x)\<lparr>ns_hall := Some h\<rparr>) s
           | Pl_Temperature t \<Rightarrow> update_node n (\<lambda>x. x\<lparr>ns_temperature_c := Some t\<rparr>) s
           | Pl_Voltage mv \<Rightarrow> update_node n (\<lambda>x. x\<lparr>ns_voltage_mv := Some mv\<rparr>) s
           | Pl_IqCurrent ma \<Rightarrow> update_node n (\<lambda>x. x\<lparr>ns_current_ma := Some ma\<rparr>) s
           | Pl_Errors flags \<Rightarrow> update_node n (\<lambda>x. x\<lparr>ns_error_flags := Some flags\<rparr>) s
           | Pl_Telemetry t mv flags ma \<Rightarrow> update_node n (\<lambda>x. x\<lparr>ns_temperature_c := Some t, ns_voltage_mv := Some mv,
               ns_error_flags := Some flags, ns_current_ma := Some ma, ns_combined_telemetry := True\<rparr>) s
           | Pl_Readback r \<Rightarrow> update_node n (\<lambda>x. x\<lparr>ns_readback := (ns_readback x)[config_kind_index (readback_kind r) := Some r]\<rparr>) s
           | Pl_DeviceInfo info \<Rightarrow> update_node n (\<lambda>x. x\<lparr>ns_device_info := Some info\<rparr>) s
           | Pl_Kt kt \<Rightarrow> update_node n (\<lambda>x. x\<lparr>ns_kt_nm_a := Some kt\<rparr>) s
           | Pl_Gripper reply \<Rightarrow> s\<lparr>bs_gripper := (bs_gripper s)\<lparr>gs_reply := Some reply, gs_live_error_bit := df_err_bit d\<rparr>\<rparr>
           | _ \<Rightarrow> s)
      in update_node n (\<lambda>x. x\<lparr>ns_live_error_bit := df_err_bit d\<rparr>) s)"

definition position_of :: "node_id \<Rightarrow> node_id list \<Rightarrow> nat option" where
  "position_of node nodes = map_option fst (find (\<lambda>(_, n). n = node) (enumerate 0 nodes))"

text \<open>The decoded or refused frame itself, before the bookkeeping every frame gets.\<close>

definition rx_content :: "can_frame \<Rightarrow> hw_bus \<Rightarrow> bus_state \<Rightarrow> node_id \<times> hw_bus \<times> bus_state" where
  "rx_content f b s =
     (case decode_frame f of
        Inr d \<Rightarrow>
          (let n = df_node d; i = unat n;
               s = update_node n (\<lambda>x. x\<lparr>ns_live_error_bit := df_err_bit d\<rparr>) s;
               b = (case df_payload d of Pl_Telemetry _ _ _ _ \<Rightarrow> b\<lparr>hb_unanswered := (hb_unanswered b)[i := 0]\<rparr> | _ \<Rightarrow> b)
           in case df_payload d of
                Pl_Capture channel chunk s0 s1 \<Rightarrow>
                  (n, b\<lparr>hb_captures := (hb_captures b)[i := capture_store (hb_captures b ! i) channel chunk s0 s1]\<rparr>, s)
              | Pl_CaptureStatus recorded wanted divisor \<Rightarrow>
                  (n, b\<lparr>hb_captures := (hb_captures b)[i := capture_status (hb_captures b ! i) recorded wanted divisor]\<rparr>, s)
              | _ \<Rightarrow> (n, b, apply_payload d s))
      | Inl e \<Rightarrow> (refused_node e, b, update_node (refused_node e) (\<lambda>x. x\<lparr>ns_live_error_bit := refused_err_bit e\<rparr>) s))"

definition apply_rx :: "can_frame \<Rightarrow> hw_bus \<Rightarrow> bus_state \<Rightarrow> hw_bus \<times> bus_state" where
  "apply_rx f b s =
     (let (node, b, s) = rx_content f b s; i = unat node;
          booted = bit (hb_connected b) i;
          (reconnected, fresh) = fc_mark (hb_fresh b) node (hb_tick b) booted;
          b = b\<lparr>hb_connected := hb_connected b OR push_bit i 1, hb_fresh := fresh\<rparr>;
          (b, s) = (if reconnected then
             (let s = s\<lparr>bs_reconnected_mask := bs_reconnected_mask s OR push_bit i 1\<rparr>
              in case position_of node (hb_poll_nodes b) of
                   Some target \<Rightarrow> (b\<lparr>hb_poll := set_legacy (hb_poll b) target False, hb_unanswered := (hb_unanswered b)[i := 0]\<rparr>, s)
                 | None \<Rightarrow> (b, s))
             else (b, s))
      in if fst (snd (unpack_can_id (cf_id f))) = raw Cid_RespondGripperData
         then (b\<lparr>hb_fresh := mark_gripper (hb_fresh b) (hb_tick b)\<rparr>, s) else (b, s))"

definition publish_ages :: "hw_bus \<Rightarrow> bus_state \<Rightarrow> bus_state" where
  "publish_ages b s = s\<lparr>
     bs_nodes := map (\<lambda>n. (bs_nodes s ! n)\<lparr>ns_data_age_ticks := of_nat (fc_age (hb_fresh b) (of_nat n) (hb_tick b))\<rparr>) [0..<MAX_NODES],
     bs_gripper := (bs_gripper s)\<lparr>gs_data_age_ticks := of_nat (gripper_age (hb_fresh b) (hb_tick b))\<rparr>\<rparr>"

definition or_else :: "'a option \<Rightarrow> 'a option \<Rightarrow> 'a option" where
  "or_else x y = (case x of Some _ \<Rightarrow> x | None \<Rightarrow> y)"

definition merge_boot_node :: "node_state \<Rightarrow> node_state \<Rightarrow> node_state" where
  "merge_boot_node b s =
     (let s = (case ns_position_ticks b of Some p \<Rightarrow> record_position p s | None \<Rightarrow> s)
      in s\<lparr>ns_speed_ticks_s := or_else (ns_speed_ticks_s b) (ns_speed_ticks_s s), ns_current_ma := or_else (ns_current_ma b) (ns_current_ma s),
           ns_temperature_c := or_else (ns_temperature_c b) (ns_temperature_c s), ns_voltage_mv := or_else (ns_voltage_mv b) (ns_voltage_mv s),
           ns_combined_telemetry := ns_combined_telemetry s \<or> ns_combined_telemetry b,
           ns_kt_nm_a := or_else (ns_kt_nm_a b) (ns_kt_nm_a s), ns_device_info := or_else (ns_device_info b) (ns_device_info s)\<rparr>)"

definition publish_boot_state :: "hw_bus \<Rightarrow> bus_state \<Rightarrow> hw_bus \<times> bus_state" where
  "publish_boot_state b s =
     (let boot = hb_boot_state b;
          s = s\<lparr>bs_nodes := map (\<lambda>n. merge_boot_node (bs_nodes boot ! n) (bs_nodes s ! n)) [0..<MAX_NODES]\<rparr>;
          s = (case gs_reply (bs_gripper boot) of Some r \<Rightarrow> s\<lparr>bs_gripper := (bs_gripper s)\<lparr>gs_reply := Some r\<rparr>\<rparr> | None \<Rightarrow> s)
      in (b\<lparr>hb_boot_state_pending := False\<rparr>, s))"

text \<open>The drain's loop: at most \<open>cap\<close> frames; a silent bus discards what it reads.\<close>

fun drain_loop :: "nat \<Rightarrow> nat \<Rightarrow> rx_event list \<Rightarrow> nat \<Rightarrow> nat \<Rightarrow> hw_bus \<Rightarrow> bus_state
    \<Rightarrow> unit bus_result \<times> nat \<times> nat \<times> nat \<times> hw_bus \<times> bus_state" where
  "drain_loop 0 count rx age_min age_max b s = (Inr (), count, age_min, age_max, b, s)"
| "drain_loop (Suc cap) count rx age_min age_max b s =
     (case recv rx b of
        (Inl e, _, b) \<Rightarrow> (Inl e, count, age_min, age_max, b, s)
      | (Inr None, _, b) \<Rightarrow> (Inr (), count, age_min, age_max, b, s)
      | (Inr (Some (f, age)), rest, b) \<Rightarrow>
          if hb_silent b then drain_loop cap (Suc count) rest age_min age_max b s
          else (case apply_rx f b s of (b, s) \<Rightarrow> drain_loop cap (Suc count) rest (min age_min age) (max age_max age) b s))"

definition drain_rx :: "hw_env \<Rightarrow> hw_bus \<Rightarrow> bus_state \<Rightarrow> nat bus_result \<times> hw_bus \<times> bus_state" where
  "drain_rx en b s =
     (if \<not> hb_configured b then (Inl BE_NotConfigured, b, s)
      else
        (let (b, s) = (if hb_boot_state_pending b then publish_boot_state b s else (b, s));
             s = s\<lparr>bs_frames_last_drain := 0, bs_frame_age_min_ticks := 0, bs_frame_age_max_ticks := 0, bs_reconnected_mask := 0\<rparr>;
             cap = (if hb_silent b then SILENT_RX_CAP else hb_rx_cap b)
         in case drain_loop cap 0 (he_pending en) U64_MAX 0 b s of
              (Inl e, _, _, _, b, s) \<Rightarrow> (Inl e, b, s)
            | (Inr _, count, age_min, age_max, b, s) \<Rightarrow>
                (let s = s\<lparr>bs_frames_last_drain := of_nat count\<rparr>;
                     s = (if 0 < count \<and> \<not> hb_silent b
                          then s\<lparr>bs_frame_age_min_ticks := of_nat age_min, bs_frame_age_max_ticks := of_nat age_max\<rparr> else s)
                 in (Inr count, b, publish_ages b s))))"

section \<open>Commands\<close>

definition ensure_ready :: "hw_bus \<Rightarrow> unit bus_result" where
  "ensure_ready b =
     (if \<not> hb_configured b then Inl BE_NotConfigured
      else if hb_silent b then Inl (BE_InvalidCommand ''TX while bus-silent (FLASHING)'')
      else Inr ())"

text \<open>\<open>self.ensure_ready()?; body\<close>\<close>

definition when_ready :: "(hw_bus \<Rightarrow> unit bus_result \<times> hw_bus) \<Rightarrow> hw_bus \<Rightarrow> unit bus_result \<times> hw_bus" where
  "when_ready body b = (case ensure_ready b of Inl e \<Rightarrow> (Inl e, b) | Inr _ \<Rightarrow> body b)"

definition hw_begin_tick :: "nat \<Rightarrow> hw_bus \<Rightarrow> hw_bus" where
  "hw_begin_tick tick b =
     (let b = b\<lparr>hb_tick := tick, hb_joints_sent := False, hb_tx_frames := 0\<rparr>
      in if hb_silent b then b else b\<lparr>hb_fresh := latch_lost (hb_fresh b) tick\<rparr>)"

text \<open>The loop over the joints: a command without a frame is skipped, one without a wire form ends it.\<close>

fun send_joints_loop :: "hw_env \<Rightarrow> (node_id \<times> joint_command) list \<Rightarrow> hw_bus \<Rightarrow> unit bus_result \<times> hw_bus" where
  "send_joints_loop en [] b = (Inr (), b)"
| "send_joints_loop en ((node, c) # rest) b =
     (case encode_joint_command node c of
        Inl _ \<Rightarrow> (Inl (BE_InvalidCommand ''cmd 2 has no wire form for position without velocity''), b)
      | Inr None \<Rightarrow> send_joints_loop en rest b
      | Inr (Some f) \<Rightarrow> (case hw_send en f b of (Inl e, b) \<Rightarrow> (Inl e, b) | (Inr _, b) \<Rightarrow> send_joints_loop en rest b))"

definition send_joint_commands :: "hw_env \<Rightarrow> joint_command list \<Rightarrow> hw_bus \<Rightarrow> unit bus_result \<times> hw_bus" where
  "send_joint_commands en commands = when_ready (\<lambda>b.
     if length commands \<noteq> length (hb_joint_nodes b)
     then (Inl (BE_InvalidCommand ''command slice length != configured joint count''), b)
     else if hb_joints_sent b then (Inl (BE_InvalidCommand ''second joint send in one tick (single-send invariant)''), b)
     else send_joints_loop en (zip (hb_joint_nodes b) commands) (b\<lparr>hb_joints_sent := True\<rparr>))"

definition hw_send_gripper :: "hw_env \<Rightarrow> gripper_command \<Rightarrow> hw_bus \<Rightarrow> unit bus_result \<times> hw_bus" where
  "hw_send_gripper en command = when_ready (\<lambda>b.
     case encode_gripper_command (hb_gripper_node b) (hb_timing_dummy_node b) command of
       Inl _ \<Rightarrow> (Inl (BE_InvalidCommand ''cmd 2 has no wire form for position without velocity''), b)
     | Inr (Some f) \<Rightarrow> hw_send en f b
     | Inr None \<Rightarrow> (Inr (), b))"

definition config_of_node :: "hw_bus \<Rightarrow> node_id \<Rightarrow> node_config option" where
  "config_of_node b node = find (\<lambda>c. nc_node c = node) (hb_node_configs b)"

definition resend_node_config :: "hw_env \<Rightarrow> node_id \<Rightarrow> u8 \<Rightarrow> hw_bus \<Rightarrow> unit bus_result \<times> hw_bus" where
  "resend_node_config en node repeats = when_ready (\<lambda>b.
     case config_of_node b node of
       None \<Rightarrow> (Inl (BE_InvalidCommand ''resend_node_config for a node with no stored configuration''), b)
     | Some c \<Rightarrow> send_all en (concat (replicate (unat repeats) (node_load c))) b)"

text \<open>\<open>iter_mut().find(...)\<close>: the first stored configuration of the node is changed.\<close>

fun update_config :: "node_id \<Rightarrow> (node_config \<Rightarrow> node_config) \<Rightarrow> node_config list \<Rightarrow> node_config list" where
  "update_config node g [] = []"
| "update_config node g (c # cs) = (if nc_node c = node then g c # cs else c # update_config node g cs)"

definition retune_node :: "hw_env \<Rightarrow> node_id \<Rightarrow> drive_tune \<Rightarrow> u8 \<Rightarrow> hw_bus \<Rightarrow> unit bus_result \<times> hw_bus" where
  "retune_node en node tune repeats = when_ready (\<lambda>b.
     if config_of_node b node = None
     then (Inl (BE_InvalidCommand ''retune_node for a node with no stored configuration''), b)
     else resend_node_config en node repeats (b\<lparr>hb_node_configs := update_config node (apply_tune tune) (hb_node_configs b)\<rparr>))"

definition set_can_id_node :: "hw_env \<Rightarrow> node_id \<Rightarrow> node_id \<Rightarrow> hw_bus \<Rightarrow> unit bus_result \<times> hw_bus" where
  "set_can_id_node en node new_id = when_ready (hw_send en (encode_set_can_id node new_id))"

definition save_config_node :: "hw_env \<Rightarrow> node_id \<Rightarrow> hw_bus \<Rightarrow> unit bus_result \<times> hw_bus" where
  "save_config_node en node = when_ready (hw_send en (encode_save_config node))"

definition set_tool_id_node :: "hw_env \<Rightarrow> node_id \<Rightarrow> u8 \<Rightarrow> hw_bus \<Rightarrow> unit bus_result \<times> hw_bus" where
  "set_tool_id_node en node tool_id = when_ready (hw_send en (encode_gripper_id node tool_id))"

definition set_ripple :: "hw_env \<Rightarrow> node_id \<Rightarrow> (u8 \<times> i16 \<times> i16) list \<Rightarrow> hw_bus \<Rightarrow> unit bus_result \<times> hw_bus" where
  "set_ripple en node ripple = when_ready (\<lambda>b.
     if unat RIPPLE_SLOTS < length ripple
     then (Inl (BE_InvalidCommand ''more ripple harmonics than a drive has slots''), b)
     else
       (let slots = ripple_slots ripple
        in send_all en (map (\<lambda>(slot, h, a, c). encode_ripple node (of_nat slot) h a c) (enumerate 0 slots))
             (b\<lparr>hb_node_configs := update_config node (\<lambda>c. c\<lparr>nc_ripple := slots\<rparr>) (hb_node_configs b)\<rparr>)))"

definition set_velocity_window :: "hw_env \<Rightarrow> node_id \<Rightarrow> u8 \<Rightarrow> hw_bus \<Rightarrow> unit bus_result \<times> hw_bus" where
  "set_velocity_window en node window = when_ready (\<lambda>b.
     hw_send en (encode_velocity_window node window)
       (b\<lparr>hb_node_configs := update_config node (\<lambda>c. c\<lparr>nc_velocity_window := Some window\<rparr>) (hb_node_configs b)\<rparr>))"

definition capture_stream :: "hw_env \<Rightarrow> node_id \<Rightarrow> hw_bus \<Rightarrow> unit bus_result \<times> hw_bus" where
  "capture_stream en node = when_ready (hw_send en (encode_capture_stream node))"

definition capture_start :: "hw_env \<Rightarrow> node_id \<Rightarrow> u8 \<Rightarrow> u16 \<Rightarrow> hw_bus \<Rightarrow> unit bus_result \<times> hw_bus" where
  "capture_start en node divisor wanted = when_ready (\<lambda>b.
     hw_send en (encode_capture node divisor wanted)
       (b\<lparr>hb_captures := (hb_captures b)[unat node := capture_clear (hb_captures b ! unat node)]\<rparr>))"

definition hw_send_limits :: "hw_env \<Rightarrow> node_id \<Rightarrow> f32 \<Rightarrow> f32 \<Rightarrow> u8 \<Rightarrow> hw_bus \<Rightarrow> unit bus_result \<times> hw_bus" where
  "hw_send_limits en node velocity current repeats =
     when_ready (send_all en (replicate (unat repeats) (encode_limits node velocity current)))"

definition hw_send_clear_error :: "hw_env \<Rightarrow> node_id \<Rightarrow> u8 \<Rightarrow> hw_bus \<Rightarrow> unit bus_result \<times> hw_bus" where
  "hw_send_clear_error en node repeats = when_ready (send_all en (replicate (unat repeats) (encode_clear_error node)))"

text \<open>The poll slot. A target that keeps missing the combined poll is asked the vendor way.\<close>

definition saturating_inc_u8 :: "u8 \<Rightarrow> u8" where
  "saturating_inc_u8 v = (if v = 255 then 255 else v + 1)"

definition count_missed :: "nat \<Rightarrow> node_id \<Rightarrow> hw_bus \<Rightarrow> hw_bus" where
  "count_missed target node b =
     (let missed = saturating_inc_u8 (hb_unanswered b ! unat node) in
      if TELEMETRY_FALLBACK_POLLS < missed
      then b\<lparr>hb_unanswered := (hb_unanswered b)[unat node := 0], hb_poll := set_legacy (hb_poll b) target True\<rparr>
      else b\<lparr>hb_unanswered := (hb_unanswered b)[unat node := missed]\<rparr>)"

definition hw_poll_step :: "hw_env \<Rightarrow> hw_bus \<Rightarrow> unit bus_result \<times> hw_bus" where
  "hw_poll_step en b =
     (if \<not> hb_configured b then (Inl BE_NotConfigured, b)
      else if hb_silent b then (Inr (), b)
      else case ps_step (hb_poll b) of
        (None, p) \<Rightarrow> (Inr (), b\<lparr>hb_poll := p\<rparr>)
      | (Some (PS_Override action), p) \<Rightarrow>
          (let b = b\<lparr>hb_poll := p\<rparr> in
           case action of
             PA_Poll node kind \<Rightarrow> hw_send en (encode_poll node kind) b
           | PA_ClearError node \<Rightarrow> hw_send en (encode_clear_error node) b
           | PA_ResendConfig node \<Rightarrow> resend_node_config en node 1 b
           | PA_ConfigFrame node kind \<Rightarrow>
               (case config_of_node b node of
                  None \<Rightarrow> (Inl (BE_InvalidCommand ''configuration poll for a node with no stored configuration''), b)
                | Some c \<Rightarrow> hw_send en (config_frame kind c) b)
           | PA_ConfigRead node kind \<Rightarrow> hw_send en (encode_readback_request node kind) b
           | PA_CaptureRead node channel chunk \<Rightarrow> hw_send en (encode_capture_read node channel chunk) b)
      | (Some (PS_Poll target kind), p) \<Rightarrow>
          (let b = b\<lparr>hb_poll := p\<rparr>; node = hb_poll_nodes b ! target;
               b = (if kind = Poll_Telemetry then count_missed target node b else b)
           in hw_send en (encode_poll node kind) b))"

definition hw_queue_override :: "poll_action \<Rightarrow> u16 \<Rightarrow> hw_bus \<Rightarrow> hw_bus" where
  "hw_queue_override action repeats b = b\<lparr>hb_poll := queue_override (hb_poll b) action repeats\<rparr>"

definition fit_tool :: "node_config option \<Rightarrow> hw_bus \<Rightarrow> hw_bus" where
  "fit_tool driver b =
     (let node = hb_gripper_node b
      in b\<lparr>hb_fresh := refit_gripper (hb_fresh b) node (hb_tick b),
           hb_node_configs := filter (\<lambda>c. nc_node c \<noteq> node) (hb_node_configs b)
             @ (case driver of Some c \<Rightarrow> [c\<lparr>nc_node := node\<rparr>] | None \<Rightarrow> [])\<rparr>)"

definition hw_set_silent :: "bool \<Rightarrow> hw_bus \<Rightarrow> hw_bus" where
  "hw_set_silent silent b = b\<lparr>hb_silent := silent\<rparr>"

definition hw_freshness :: "hw_bus \<Rightarrow> node_id \<Rightarrow> freshness" where
  "hw_freshness b node = classify (hb_fresh b) node (hb_tick b)"

definition clear_lost_latch :: "node_id \<Rightarrow> hw_bus \<Rightarrow> hw_bus" where
  "clear_lost_latch node b = b\<lparr>hb_fresh := clear_latch (hb_fresh b) node (hb_tick b)\<rparr>"

definition rebase_freshness :: "hw_bus \<Rightarrow> hw_bus" where
  "rebase_freshness b = b\<lparr>hb_fresh := fc_rebase (hb_fresh b) (hb_tick b)\<rparr>"

section \<open>The boot sequence\<close>

record hw_config =
  hk_joints :: "node_config list"
  hk_gripper_node :: node_id
  hk_timing_dummy_node :: node_id
  hk_gripper_driver :: "node_config option"
  hk_rx_frames_per_tick_cap :: nat
  hk_stale_warn_ticks :: nat
  hk_lost_ticks :: nat
  hk_kt_auto :: bool
  hk_kt_retries :: nat
  hk_kt_rounds :: nat
  hk_scan_rounds :: nat

fun collect_loop :: "rx_event list \<Rightarrow> hw_bus \<Rightarrow> hw_bus" where
  "collect_loop [] b = b"
| "collect_loop (Rx_Frame f age # rest) b =
     (let node = fst (unpack_can_id (cf_id f));
          b = b\<lparr>hb_rx_frames := Suc (hb_rx_frames b), hb_connected := hb_connected b OR push_bit (unat node) 1,
                hb_fresh := snd (fc_mark (hb_fresh b) node (hb_tick b) True)\<rparr>
      in collect_loop rest (case decode_frame f of
           Inr d \<Rightarrow> b\<lparr>hb_boot_state := apply_payload d (hb_boot_state b), hb_boot_state_pending := True\<rparr>
         | Inl _ \<Rightarrow> b))"
| "collect_loop (Rx_Foreign # rest) b = collect_loop rest (b\<lparr>hb_rx_frames := Suc (hb_rx_frames b)\<rparr>)"
| "collect_loop (Rx_Interrupted # rest) b = collect_loop rest b"
| "collect_loop (Rx_Failed # rest) b = b"

text \<open>One wait: the replies that arrive before its deadline, or before the link fails.\<close>

definition collect_for :: "hw_env \<Rightarrow> hw_bus \<Rightarrow> hw_bus" where
  "collect_for en b = collect_loop (he_replies en (hb_waits b)) (b\<lparr>hb_waits := Suc (hb_waits b)\<rparr>)"

definition boot_node :: "hw_bus \<Rightarrow> node_id \<Rightarrow> node_state" where
  "boot_node b node = bs_node (hb_boot_state b) node"

text \<open>Ask and wait, until answered, refused by the socket, or out of retries.\<close>

fun ask_retrying :: "hw_env \<Rightarrow> (hw_bus \<Rightarrow> bool) \<Rightarrow> can_frame \<Rightarrow> nat \<Rightarrow> hw_bus \<Rightarrow> hw_bus" where
  "ask_retrying en answered f 0 b = b"
| "ask_retrying en answered f (Suc retries) b =
     (case hw_send en f b of
        (Inl _, b) \<Rightarrow> b
      | (Inr _, b) \<Rightarrow> (let b = collect_for en b in if answered b then b else ask_retrying en answered f retries b))"

definition fetch_kt :: "hw_env \<Rightarrow> hw_config \<Rightarrow> hw_bus \<Rightarrow> hw_bus" where
  "fetch_kt en k b =
     (let nodes = map nc_node (hb_node_configs b);
          ask = (\<lambda>node b. if ns_kt_nm_a (boot_node b node) \<noteq> None then b
                   else ask_retrying en (\<lambda>b. ns_kt_nm_a (boot_node b node) \<noteq> None) (encode_poll node Poll_Kt) (hk_kt_retries k) b)
      in ((fold ask nodes) ^^ hk_kt_rounds k) b)"

definition probe_answered :: "poll_kind \<Rightarrow> node_id \<Rightarrow> hw_bus \<Rightarrow> bool" where
  "probe_answered kind node b =
     (case kind of
        Poll_Telemetry \<Rightarrow> ns_combined_telemetry (boot_node b node)
      | Poll_DeviceInfo \<Rightarrow> ns_device_info (boot_node b node) \<noteq> None
      | _ \<Rightarrow> True)"

definition probe_targets :: "hw_env \<Rightarrow> hw_config \<Rightarrow> poll_kind \<Rightarrow> (node_id \<Rightarrow> nat \<Rightarrow> hw_bus \<Rightarrow> hw_bus) \<Rightarrow> hw_bus \<Rightarrow> hw_bus" where
  "probe_targets en k kind settle b =
     fold (\<lambda>(target, node) b. settle node target
             (ask_retrying en (probe_answered kind node) (encode_poll node kind) (hk_kt_retries k) b))
       (enumerate 0 (hb_poll_nodes b)) b"

definition probe_telemetry :: "hw_env \<Rightarrow> hw_config \<Rightarrow> hw_bus \<Rightarrow> hw_bus" where
  "probe_telemetry en k = probe_targets en k Poll_Telemetry (\<lambda>node target b.
     b\<lparr>hb_poll := set_legacy (hb_poll b) target (\<not> ns_combined_telemetry (boot_node b node))\<rparr>)"

definition probe_tool_id :: "hw_env \<Rightarrow> hw_config \<Rightarrow> node_id \<Rightarrow> hw_bus \<Rightarrow> u8 option \<times> hw_bus" where
  "probe_tool_id en k node b =
     (let b = probe_targets en k Poll_DeviceInfo (\<lambda>_ _ b. b) (b\<lparr>hb_poll_nodes := [node]\<rparr>);
          b = b\<lparr>hb_poll_nodes := []\<rparr>
      in (case ns_device_info (boot_node b node) of
            Some d \<Rightarrow> (if di_tool_id d \<noteq> 0 then Some (di_tool_id d) else None)
          | None \<Rightarrow> None, b))"

definition ask_once :: "hw_env \<Rightarrow> can_frame \<Rightarrow> hw_bus \<Rightarrow> hw_bus" where
  "ask_once en f b = (case hw_send en f b of (Inl _, b) \<Rightarrow> b | (Inr _, b) \<Rightarrow> collect_for en b)"

definition bus_scan :: "hw_env \<Rightarrow> hw_config \<Rightarrow> hw_bus \<Rightarrow> hw_bus" where
  "bus_scan en k b = ((fold (\<lambda>n. ask_once en (encode_poll (of_nat n) Poll_Ping)) [0..<MAX_NODES]) ^^ hk_scan_rounds k) b"

definition seed_encoders :: "hw_env \<Rightarrow> hw_bus \<Rightarrow> hw_bus" where
  "seed_encoders en b = fold (\<lambda>node. ask_once en (encode_poll node Poll_Encoder)) (map nc_node (hb_node_configs b)) b"

definition boot_install :: "hw_config \<Rightarrow> hw_bus \<Rightarrow> hw_bus" where
  "boot_install k b =
     (let joint_nodes = map nc_node (hk_joints k); poll_nodes = joint_nodes @ [hk_gripper_node k]
      in b\<lparr>hb_joint_nodes := joint_nodes, hb_gripper_node := hk_gripper_node k, hb_timing_dummy_node := hk_timing_dummy_node k,
           hb_rx_cap := hk_rx_frames_per_tick_cap k,
           hb_fresh := fc_configure (hb_fresh b) (hk_stale_warn_ticks k) (hk_lost_ticks k),
           hb_poll_nodes := poll_nodes, hb_poll := ps_configure (hb_poll b) (length poll_nodes),
           hb_boot_state := new_bus_state, hb_boot_state_pending := False, hb_connected := 0,
           hb_node_configs := hk_joints k @ (case hk_gripper_driver k of
               Some c \<Rightarrow> [c\<lparr>nc_node := hk_gripper_node k\<rparr>] | None \<Rightarrow> []),
           hb_configured := True\<rparr>)"

text \<open>The load of the plan; a failed send ends it. \<open>Pace\<close> only sleeps.\<close>

definition boot_configure :: "hw_env \<Rightarrow> hw_config \<Rightarrow> u8 \<Rightarrow> hw_bus \<Rightarrow> unit bus_result \<times> hw_bus" where
  "boot_configure en k repeats b =
     (let b = boot_install k b in
      case send_all en (plan_frames (boot_config_plan (hb_node_configs b) repeats)) b of
        (Inl e, b) \<Rightarrow> (Inl e, b)
      | (Inr _, b) \<Rightarrow>
          (let b = (if hk_kt_auto k then fetch_kt en k b else b)
           in (Inr (), seed_encoders en (bus_scan en k (probe_telemetry en k b)))))"

end
