(* ===== verification/Hw_Props.thy ===== *)
theory Hw_Props
  imports Bus_Hw
begin

text \<open>
  Properties of the hardware bus: a silent bus neither sends nor decodes, a tick stays within
  its frame budget, and a received frame changes its own node only.
\<close>

section \<open>The operations of the bus as steps\<close>

datatype hw_op =
    Hw_begin_tick nat
  | Hw_drain
  | Hw_send_joints "joint_command list"
  | Hw_send_gripper gripper_command
  | Hw_poll_step
  | Hw_queue_override poll_action u16
  | Hw_resend_config node_id u8
  | Hw_retune node_id drive_tune u8
  | Hw_set_can_id node_id node_id
  | Hw_save_config node_id
  | Hw_set_tool_id node_id u8
  | Hw_set_ripple node_id "(u8 \<times> i16 \<times> i16) list"
  | Hw_set_velocity_window node_id u8
  | Hw_capture_stream node_id
  | Hw_capture_start node_id u8 u16
  | Hw_send_limits node_id f32 f32 u8
  | Hw_send_clear_error node_id u8
  | Hw_fit_tool "node_config option"
  | Hw_clear_lost_latch node_id
  | Hw_rebase_freshness

fun run_hw_op :: "hw_env \<times> hw_op \<Rightarrow> hw_bus \<times> bus_state \<Rightarrow> hw_bus \<times> bus_state" where
  "run_hw_op (en, Hw_begin_tick tick) (b, s) = (hw_begin_tick tick b, s)"
| "run_hw_op (en, Hw_drain) (b, s) = snd (drain_rx en b s)"
| "run_hw_op (en, Hw_send_joints cs) (b, s) = (snd (send_joint_commands en cs b), s)"
| "run_hw_op (en, Hw_send_gripper g) (b, s) = (snd (hw_send_gripper en g b), s)"
| "run_hw_op (en, Hw_poll_step) (b, s) = (snd (hw_poll_step en b), s)"
| "run_hw_op (en, Hw_queue_override a r) (b, s) = (hw_queue_override a r b, s)"
| "run_hw_op (en, Hw_resend_config n r) (b, s) = (snd (resend_node_config en n r b), s)"
| "run_hw_op (en, Hw_retune n t r) (b, s) = (snd (retune_node en n t r b), s)"
| "run_hw_op (en, Hw_set_can_id n m) (b, s) = (snd (set_can_id_node en n m b), s)"
| "run_hw_op (en, Hw_save_config n) (b, s) = (snd (save_config_node en n b), s)"
| "run_hw_op (en, Hw_set_tool_id n t) (b, s) = (snd (set_tool_id_node en n t b), s)"
| "run_hw_op (en, Hw_set_ripple n hs) (b, s) = (snd (set_ripple en n hs b), s)"
| "run_hw_op (en, Hw_set_velocity_window n w) (b, s) = (snd (set_velocity_window en n w b), s)"
| "run_hw_op (en, Hw_capture_stream n) (b, s) = (snd (capture_stream en n b), s)"
| "run_hw_op (en, Hw_capture_start n d w) (b, s) = (snd (capture_start en n d w b), s)"
| "run_hw_op (en, Hw_send_limits n v i r) (b, s) = (snd (hw_send_limits en n v i r b), s)"
| "run_hw_op (en, Hw_send_clear_error n r) (b, s) = (snd (hw_send_clear_error en n r b), s)"
| "run_hw_op (en, Hw_fit_tool d) (b, s) = (fit_tool d b, s)"
| "run_hw_op (en, Hw_clear_lost_latch n) (b, s) = (clear_lost_latch n b, s)"
| "run_hw_op (en, Hw_rebase_freshness) (b, s) = (rebase_freshness b, s)"

section \<open>A silent bus\<close>

text \<open>Everything the drives reported; the data ages are the clock's, not theirs.\<close>

definition reported :: "bus_state \<Rightarrow> node_state list \<times> gripper_reply option \<times> bool" where
  "reported s = (map (\<lambda>n. n\<lparr>ns_data_age_ticks := 0\<rparr>) (bs_nodes s), gs_reply (bs_gripper s), gs_live_error_bit (bs_gripper s))"

definition hw_quiet :: "hw_bus \<Rightarrow> hw_bus \<Rightarrow> bool" where
  "hw_quiet b b' \<longleftrightarrow> hb_sent b' = hb_sent b \<and> hb_silent b' = hb_silent b \<and> hb_boot_state_pending b' = hb_boot_state_pending b"

lemma when_ready_silent: "hb_silent b \<Longrightarrow> snd (when_ready body b) = b"
  by (simp add: when_ready_def ensure_ready_def split: sum.splits)

lemma poll_step_silent: "hb_silent b \<Longrightarrow> snd (hw_poll_step en b) = b"
  by (cases "hb_configured b") (simp_all add: hw_poll_step_def)

lemma recv_quiet: "recv rx b = (r, rest, b') \<Longrightarrow> hw_quiet b b'"
  by (induction rx b rule: recv.induct) (auto simp: hw_quiet_def)

lemma drain_loop_silent:
  assumes "hb_silent b" and "drain_loop cap count rx lo hi b s = (r, count', lo', hi', b', s')"
  shows "hw_quiet b b' \<and> s' = s"
  using assms
proof (induction cap count rx lo hi b s rule: drain_loop.induct)
  case (2 cap count rx lo hi b s)
  obtain r1 rest b1 where rx: "recv rx b = (r1, rest, b1)" by (metis prod.exhaust)
  with recv_quiet have q: "hw_quiet b b1" by blast
  with 2 rx show ?case by (fastforce simp: hw_quiet_def split: sum.splits option.splits)
qed (simp add: hw_quiet_def)

lemma reported_publish_ages: "length (bs_nodes s) = MAX_NODES \<Longrightarrow> reported (publish_ages b s) = reported s"
  by (auto simp: reported_def publish_ages_def intro!: nth_equalityI)

lemma drain_silent:
  assumes "hb_silent b" and "\<not> hb_boot_state_pending b" and "length (bs_nodes s) = MAX_NODES" and "drain_rx en b s = (r, b', s')"
  shows "hw_quiet b b' \<and> reported s' = reported s \<and> length (bs_nodes s') = MAX_NODES"
proof (cases "hb_configured b")
  case True
  define s0 where "s0 = s\<lparr>bs_frames_last_drain := 0, bs_frame_age_min_ticks := 0, bs_frame_age_max_ticks := 0, bs_reconnected_mask := 0\<rparr>"
  obtain r1 count lo hi b1 s1 where loop: "drain_loop SILENT_RX_CAP 0 (he_pending en) U64_MAX 0 b s0 = (r1, count, lo, hi, b1, s1)"
    by (metis prod.exhaust)
  with drain_loop_silent [OF assms(1)] have b1: "hw_quiet b b1" and s1: "s1 = s0" by auto
  have s0: "reported s0 = reported s" "length (bs_nodes s0) = MAX_NODES" using assms(3) by (simp_all add: s0_def reported_def)
  have "(b', s') = (case r1 of Inl _ \<Rightarrow> (b1, s0) | Inr _ \<Rightarrow> (b1, publish_ages b1 (s0\<lparr>bs_frames_last_drain := of_nat count\<rparr>)))"
    using assms(4) True assms(1,2) loop b1 s1 unfolding drain_rx_def s0_def [symmetric]
    by (auto simp: Let_def hw_quiet_def s0_def split: sum.splits)
  moreover have "reported (s0\<lparr>bs_frames_last_drain := of_nat count\<rparr>) = reported s0" by (simp add: reported_def)
  ultimately show ?thesis
    using b1 s0 reported_publish_ages [of "s0\<lparr>bs_frames_last_drain := of_nat count\<rparr>" b1]
    by (auto simp: publish_ages_def split: sum.splits)
next
  case False
  with assms show ?thesis by (simp add: drain_rx_def hw_quiet_def)
qed

lemma hw_op_silent:
  assumes "hb_silent b" and "\<not> hb_boot_state_pending b" and "length (bs_nodes s) = MAX_NODES"
    and "run_hw_op p (b, s) = (b', s')"
  shows "hw_quiet b b' \<and> reported s' = reported s \<and> length (bs_nodes s') = MAX_NODES"
proof -
  obtain en op where p: "p = (en, op)" by (cases p)
  show ?thesis
  proof (cases "op = Hw_drain")
    case True
    with assms(4) p obtain r where "drain_rx en b s = (r, b', s')" by (cases "drain_rx en b s") auto
    with drain_silent [OF assms(1-3)] show ?thesis by blast
  next
    case False
    with assms p show ?thesis
      by (cases op) (auto simp: hw_quiet_def hw_begin_tick_def Let_def when_ready_silent send_joint_commands_def hw_send_gripper_def
          poll_step_silent hw_queue_override_def resend_node_config_def retune_node_def set_can_id_node_def save_config_node_def
          set_tool_id_node_def set_ripple_def set_velocity_window_def capture_stream_def capture_start_def hw_send_limits_def
          hw_send_clear_error_def fit_tool_def clear_lost_latch_def rebase_freshness_def)
  qed
qed

section \<open>The frame budget\<close>

text \<open>\<open>grows n b b'\<close>: at most \<open>n\<close> frames went out, and the tick's counter has counted them.\<close>

definition grows :: "nat \<Rightarrow> hw_bus \<Rightarrow> hw_bus \<Rightarrow> bool" where
  "grows n b b' \<longleftrightarrow> (\<exists>fs. length fs \<le> n \<and> hb_sent b' = hb_sent b @ fs \<and> hb_tx_frames b' = hb_tx_frames b + length fs)
     \<and> hb_joint_nodes b' = hb_joint_nodes b \<and> ps_override (hb_poll b') = ps_override (hb_poll b)"

lemma grows_refl [simp]: "grows n b b"
  by (simp add: grows_def)

lemma grows_trans: "grows n b b' \<Longrightarrow> grows m b' b'' \<Longrightarrow> grows (n + m) b b''"
  unfolding grows_def by (metis add.assoc add_mono append.assoc length_append)

lemma grows_send: "hw_send en f b = (r, b') \<Longrightarrow> grows 1 b b'"
  by (auto simp: hw_send_def Let_def grows_def split: if_splits)

lemma grows_when_ready: "(\<And>r b'. body b = (r, b') \<Longrightarrow> grows n b b') \<Longrightarrow> when_ready body b = (r, b') \<Longrightarrow> grows n b b'"
  by (auto simp: when_ready_def split: sum.splits)

lemma grows_joints: "send_joints_loop en ncs b = (r, b') \<Longrightarrow> grows (length ncs) b b'"
proof (induction ncs arbitrary: b)
  case (Cons nc ncs)
  obtain node c where nc: "nc = (node, c)" by (cases nc)
  show ?case
  proof (cases "encode_joint_command node c")
    case (Inr fo)
    show ?thesis
    proof (cases fo)
      case None
      with Cons Inr nc have "grows (length ncs) b b'" by simp
      then show ?thesis by (auto simp: grows_def)
    next
      case (Some f)
      obtain r1 b1 where s: "hw_send en f b = (r1, b1)" by (cases "hw_send en f b")
      have g: "grows 1 b b1" using s by (rule grows_send)
      show ?thesis
      proof (cases r1)
        case (Inl e)
        with Cons Inr Some nc s g show ?thesis by (auto simp: grows_def)
      next
        case (Inr u)
        with Cons \<open>encode_joint_command node c = Inr fo\<close> Some nc s have "grows (length ncs) b1 b'" by simp
        from grows_trans [OF g this] show ?thesis by simp
      qed
    qed
  qed (use Cons nc in auto)
qed simp

lemma grows_send_joints: "send_joint_commands en cs b = (r, b') \<Longrightarrow> grows (length (hb_joint_nodes b)) b b'"
proof -
  assume "send_joint_commands en cs b = (r, b')"
  then show ?thesis unfolding send_joint_commands_def
  proof (rule grows_when_ready [rotated])
    fix r b'
    assume "(if length cs \<noteq> length (hb_joint_nodes b)
      then (Inl (BE_InvalidCommand ''command slice length != configured joint count''), b)
      else if hb_joints_sent b then (Inl (BE_InvalidCommand ''second joint send in one tick (single-send invariant)''), b)
      else send_joints_loop en (zip (hb_joint_nodes b) cs) (b\<lparr>hb_joints_sent := True\<rparr>)) = (r, b')"
    then show "grows (length (hb_joint_nodes b)) b b'"
      using grows_joints [of en "zip (hb_joint_nodes b) cs" "b\<lparr>hb_joints_sent := True\<rparr>" r b']
      by (auto simp: grows_def split: if_splits)
  qed
qed

lemma grows_send_gripper:
  assumes "hw_send_gripper en g b = (r, b')"
  shows "grows 1 b b'"
  using assms unfolding hw_send_gripper_def
proof (rule grows_when_ready [rotated])
  fix r b'
  assume "(case encode_gripper_command (hb_gripper_node b) (hb_timing_dummy_node b) g of
       Inl _ \<Rightarrow> (Inl (BE_InvalidCommand ''cmd 2 has no wire form for position without velocity''), b)
     | Inr (Some f) \<Rightarrow> hw_send en f b
     | Inr None \<Rightarrow> (Inr (), b)) = (r, b')"
  then show "grows 1 b b'" using grows_send [of en _ b r b'] by (auto simp del: One_nat_def split: sum.splits option.splits)
qed

text \<open>What went out, without what the poll slot does to the schedule.\<close>

definition spends :: "nat \<Rightarrow> hw_bus \<Rightarrow> hw_bus \<Rightarrow> bool" where
  "spends n b b' \<longleftrightarrow> (\<exists>fs. length fs \<le> n \<and> hb_sent b' = hb_sent b @ fs \<and> hb_tx_frames b' = hb_tx_frames b + length fs)"

lemma spends_send: "hw_send en f c = (r, b') \<Longrightarrow> hb_sent c = hb_sent b \<Longrightarrow> hb_tx_frames c = hb_tx_frames b \<Longrightarrow> spends 1 b b'"
  using grows_send [of en f c r b'] by (simp add: grows_def spends_def)

lemma spends_poll_step:
  assumes "\<forall>n r. ps_override (hb_poll b) \<noteq> Some (PA_ResendConfig n, r)" and "hw_poll_step en b = (r, b')"
  shows "spends 1 b b'"
proof (cases "hb_configured b \<and> \<not> hb_silent b")
  case True
  obtain out p where st: "ps_step (hb_poll b) = (out, p)" by (cases "ps_step (hb_poll b)")
  show ?thesis
  proof (cases out)
    case None
    with assms True st show ?thesis by (auto simp: hw_poll_step_def spends_def)
  next
    case (Some u)
    show ?thesis
    proof (cases u)
      case (PS_Override a)
      have "\<And>n. a \<noteq> PA_ResendConfig n"
        using st Some PS_Override assms(1) by (auto simp: ps_step_def Let_def split: if_splits option.splits prod.splits)
      with assms(2) True st Some PS_Override show ?thesis
        using spends_send [of en _ "b\<lparr>hb_poll := p\<rparr>" r b' b]
        by (cases a) (auto simp: hw_poll_step_def spends_def Let_def simp del: One_nat_def split: option.splits)
    next
      case (PS_Poll target kind)
      with assms(2) True st Some show ?thesis
        using spends_send [of en _ _ r b' b]
        by (auto simp: hw_poll_step_def Let_def count_missed_def simp del: One_nat_def split: if_splits)
    qed
  qed
qed (use assms in \<open>auto simp: hw_poll_step_def spends_def split: if_splits\<close>)

section \<open>Received frames\<close>

lemma decode_source:
  "decode_frame f = Inr d \<Longrightarrow> df_node d = fst (unpack_can_id (cf_id f)) \<and> df_err_bit d = snd (snd (unpack_can_id (cf_id f)))"
  "decode_frame f = Inl e \<Longrightarrow> refused_node e = fst (unpack_can_id (cf_id f)) \<and> refused_err_bit e = snd (snd (unpack_can_id (cf_id f)))"
  using refusal_source [of f "fst (unpack_can_id (cf_id f))" "fst (snd (unpack_can_id (cf_id f)))" "snd (snd (unpack_can_id (cf_id f)))"]
  by (auto simp: decode_frame_def bind_result_def split: option.splits sum.splits if_splits prod.splits)

lemma can_node_small: "unat (fst (unpack_can_id i)) < MAX_NODES"
proof -
  have "unat (drop_bit 7 i AND 0xF :: u16) < 16"
    using word_and_le1 [of "drop_bit 7 i" "0xF :: u16"] by (simp add: word_le_nat_alt)
  then show ?thesis by (simp add: unpack_can_id_def MAX_NODES_def unsigned_ucast_eq take_bit_eq_mod)
qed

text \<open>\<open>only_node n s s'\<close>: nothing but node \<open>n\<close> and the gripper's reply differs.\<close>

definition only_node :: "nat \<Rightarrow> bus_state \<Rightarrow> bus_state \<Rightarrow> bool" where
  "only_node n s s' \<longleftrightarrow> length (bs_nodes s') = length (bs_nodes s) \<and> (\<forall>m. m \<noteq> n \<longrightarrow> bs_nodes s' ! m = bs_nodes s ! m)"

lemma only_node_update: "only_node (unat n) s (update_node n f s)"
  by (simp add: only_node_def update_node_def bs_set_node_def)

lemma only_node_trans: "only_node n s s' \<Longrightarrow> only_node n s' s'' \<Longrightarrow> only_node n s s''"
  by (simp add: only_node_def)

lemma only_node_payload: "only_node (unat (df_node d)) s (apply_payload d s)"
proof -
  have "only_node (unat (df_node d)) s (s\<lparr>bs_gripper := g\<rparr>)" for g by (simp add: only_node_def)
  moreover have "only_node n s s" for n by (simp add: only_node_def)
  ultimately show ?thesis unfolding apply_payload_def Let_def
    by (cases "df_payload d") (auto intro: only_node_trans [OF _ only_node_update] only_node_update)
qed

lemma payload_err_bit:
  assumes "unat (df_node d) < length (bs_nodes s)"
  shows "ns_live_error_bit (bs_nodes (apply_payload d s) ! unat (df_node d)) = df_err_bit d"
  using assms only_node_payload [of d s] unfolding apply_payload_def only_node_def Let_def
  by (simp add: update_node_def [of _ "\<lambda>x. x\<lparr>ns_live_error_bit := df_err_bit d\<rparr>"] bs_set_node_def bs_node_def)

lemma rx_content_local:
  assumes "length (bs_nodes s) = MAX_NODES" and "rx_content f b s = (n, b', s')"
  shows "n = fst (unpack_can_id (cf_id f)) \<and> only_node (unat n) s s' \<and> hb_fresh b' = hb_fresh b \<and> hb_tick b' = hb_tick b
    \<and> ns_live_error_bit (bs_nodes s' ! unat n) = snd (snd (unpack_can_id (cf_id f)))"
proof -
  have small: "unat (fst (unpack_can_id (cf_id f))) < length (bs_nodes s)" using assms(1) can_node_small by simp
  show ?thesis
  proof (cases "decode_frame f")
    case (Inl e)
    with assms(2) decode_source(2) [OF Inl] small show ?thesis
      by (auto simp: rx_content_def only_node_update) (simp_all add: update_node_def bs_set_node_def bs_node_def)
  next
    case (Inr d)
    define s1 where "s1 = update_node (df_node d) (\<lambda>x. x\<lparr>ns_live_error_bit := df_err_bit d\<rparr>) s"
    have node: "df_node d = fst (unpack_can_id (cf_id f))" "df_err_bit d = snd (snd (unpack_can_id (cf_id f)))"
      using decode_source(1) [OF Inr] by auto
    have s1: "only_node (unat (df_node d)) s s1" "ns_live_error_bit (bs_nodes s1 ! unat (df_node d)) = df_err_bit d"
      using small node by (simp_all add: s1_def only_node_update) (simp add: update_node_def bs_set_node_def bs_node_def)
    then have "unat (df_node d) < length (bs_nodes s1)" using small node by (simp add: only_node_def)
    note pay = only_node_trans [OF s1(1) only_node_payload] payload_err_bit [OF this]
    have "n = df_node d \<and> hb_fresh b' = hb_fresh b \<and> hb_tick b' = hb_tick b \<and> (s' = s1 \<or> s' = apply_payload d s1)"
      using assms(2) Inr unfolding rx_content_def s1_def by (cases "df_payload d") (auto simp: Let_def)
    then show ?thesis using s1 pay node by auto
  qed
qed

lemma apply_rx_nodes:
  assumes "apply_rx f b s = (b', s')"
  obtains n c t where "rx_content f b s = (n, c, t)" and "bs_nodes s' = bs_nodes t"
proof -
  obtain n c t where "rx_content f b s = (n, c, t)" by (metis prod.exhaust)
  moreover from this assms have "bs_nodes s' = bs_nodes t"
    by (auto simp: apply_rx_def Let_def split: if_splits option.splits prod.splits)
  ultimately show thesis using that by blast
qed

section \<open>Properties\<close>

text \<open>
  C23. While the bus is silent, no sequence of operations puts a frame on the wire and none
  changes what the drives have reported, whatever is waiting in the receive queue: traffic
  of a node being flashed is never read as telemetry. The boot state is out of the way by
  then, since the first drain publishes it.
\<close>

theorem silent_bus_is_mute:
  assumes "hb_silent b" and "\<not> hb_boot_state_pending b" and "length (bs_nodes s) = MAX_NODES"
  shows "case fold run_hw_op ops (b, s) of (b', s') \<Rightarrow> hb_sent b' = hb_sent b \<and> hb_silent b' \<and> reported s' = reported s"
  using assms
proof (induction ops arbitrary: b s)
  case (Cons p ops)
  obtain b1 s1 where p: "run_hw_op p (b, s) = (b1, s1)" by (cases "run_hw_op p (b, s)")
  from hw_op_silent [OF Cons.prems p] have one: "hw_quiet b b1" "reported s1 = reported s" "length (bs_nodes s1) = MAX_NODES" by auto
  with Cons.prems have "hb_silent b1" "\<not> hb_boot_state_pending b1" by (simp_all add: hw_quiet_def)
  from Cons.IH [OF this one(3)] one p show ?case by (auto simp: hw_quiet_def split: prod.splits)
qed simp

theorem silent_bus_is_mute_witness:
  "hb_sent (fst (fold run_hw_op
      [(\<lparr>he_write = \<lambda>_. Wr_Ok, he_pending = [Rx_Frame (data_frame 1 [2]) 0], he_replies = \<lambda>_. []\<rparr>, Hw_drain),
       (\<lparr>he_write = \<lambda>_. Wr_Ok, he_pending = [], he_replies = \<lambda>_. []\<rparr>, Hw_save_config 3)]
      (open_bus\<lparr>hb_configured := True, hb_silent := True\<rparr>, new_bus_state))) = []"
  using silent_bus_is_mute [where b = "open_bus\<lparr>hb_configured := True, hb_silent := True\<rparr>" and s = new_bus_state
      and ops = "[(\<lparr>he_write = \<lambda>_. Wr_Ok, he_pending = [Rx_Frame (data_frame 1 [2]) 0], he_replies = \<lambda>_. []\<rparr>, Hw_drain),
       (\<lparr>he_write = \<lambda>_. Wr_Ok, he_pending = [], he_replies = \<lambda>_. []\<rparr>, Hw_save_config 3)]"]
  by (simp add: open_bus_def new_bus_state_def split: prod.splits)

definition hw_tick :: "hw_env \<Rightarrow> nat \<Rightarrow> joint_command list \<Rightarrow> gripper_command \<Rightarrow> hw_bus \<Rightarrow> hw_bus" where
  "hw_tick en tick cs g b =
     snd (hw_poll_step en (snd (hw_send_gripper en g (snd (send_joint_commands en cs (hw_begin_tick tick b))))))"

text \<open>
  One tick of traffic (the joints, the gripper, the poll slot) is at most one frame per
  joint and two more, and the tick's counter is the number of frames the socket took, unless
  the slot was given to a full configuration resend.
\<close>

lemma tick_tx_budget:
  assumes "\<forall>n r. ps_override (hb_poll b) \<noteq> Some (PA_ResendConfig n, r)"
  shows "\<exists>fs. hb_sent (hw_tick en tick cs g b) = hb_sent b @ fs \<and> length fs \<le> length (hb_joint_nodes b) + 2
    \<and> hb_tx_frames (hw_tick en tick cs g b) = length fs"
proof -
  let ?b0 = "hw_begin_tick tick b"
  let ?b1 = "snd (send_joint_commands en cs ?b0)"
  let ?b2 = "snd (hw_send_gripper en g ?b1)"
  have b0: "hb_sent ?b0 = hb_sent b" "hb_tx_frames ?b0 = 0" "hb_joint_nodes ?b0 = hb_joint_nodes b" "hb_poll ?b0 = hb_poll b"
    by (simp_all add: hw_begin_tick_def Let_def)
  have "grows (length (hb_joint_nodes ?b0) + 1) ?b0 ?b2"
    by (rule grows_trans [OF grows_send_joints grows_send_gripper]) (rule prod.collapse [symmetric])+
  moreover from this have "spends 1 ?b2 (snd (hw_poll_step en ?b2))"
    using assms b0 by (intro spends_poll_step [OF _ prod.collapse [symmetric]]) (simp add: grows_def)
  ultimately obtain fs gs where "length fs \<le> length (hb_joint_nodes b) + 1" "hb_sent ?b2 = hb_sent b @ fs" "hb_tx_frames ?b2 = length fs"
    and "length gs \<le> 1" "hb_sent (snd (hw_poll_step en ?b2)) = hb_sent ?b2 @ gs"
      "hb_tx_frames (snd (hw_poll_step en ?b2)) = hb_tx_frames ?b2 + length gs"
    unfolding grows_def spends_def using b0 by auto
  then show ?thesis unfolding hw_tick_def by (intro exI [of _ "fs @ gs"]) simp
qed

text \<open>
  C24. A received frame, accepted or refused, leaves every other node's state alone, and the
  node it came from carries the fault bit of the frame's own header.
\<close>

theorem frame_updates_source_only:
  assumes "length (bs_nodes s) = MAX_NODES" and "apply_rx f b s = (b', s')"
  defines "n \<equiv> unat (fst (unpack_can_id (cf_id f)))"
  shows "(\<forall>m. m \<noteq> n \<longrightarrow> bs_nodes s' ! m = bs_nodes s ! m) \<and> length (bs_nodes s') = MAX_NODES
    \<and> ns_live_error_bit (bs_nodes s' ! n) = snd (snd (unpack_can_id (cf_id f)))"
proof -
  obtain k c t where k: "rx_content f b s = (k, c, t)" and t: "bs_nodes s' = bs_nodes t"
    using apply_rx_nodes [OF assms(2)] .
  from rx_content_local [OF assms(1) k] t assms(1) show ?thesis by (auto simp: only_node_def n_def)
qed

theorem frame_updates_source_only_witness:
  "ns_live_error_bit (bs_nodes (snd (apply_rx (data_frame (pack_can_id 5 Cid_Temperature True) [1]) open_bus new_bus_state)) ! 5)"
  using frame_updates_source_only [where s = new_bus_state and b = open_bus
      and f = "data_frame (pack_can_id 5 Cid_Temperature True) [1]", OF _ prod.collapse [symmetric]]
  by (simp add: new_bus_state_def data_frame_def unpack_pack_can_id)

end
