(* ===== verification/Server_Rules.thy ===== *)
theory Server_Rules
  imports Command_Types Core_State
begin

text \<open>
  The rules of the command server that hold no state of their own: the wire error codes
  (\<open>par6-proto/src/error.rs\<close>), the gating table (\<open>par6-server/src/gating.rs\<close>), the session
  latches and the blend hold (\<open>session.rs\<close>), the configuration and \<open>fit_tool\<close> (\<open>config.rs\<close>), the
  view of the RT latch (\<open>faults.rs\<close>) and the free functions of \<open>server.rs\<close>.

  A wire error keeps its index and its code; the texts the catalogue renders for the operator
  are left out, and with them the \<open>detail\<close> strings. A \<open>String\<close> is its UTF-8 bytes.
\<close>

section \<open>Errors\<close>

datatype (plugins only: code size) wire_code =
    EC_IkTargetUnreachable | EC_IkPartialPath | EC_TrajEmptyResult | EC_TrajNoSteps | EC_TrajNearSingularity
  | EC_MotnHomeTimeout | EC_MotnToolTimeout | EC_MotnToolFault | EC_MotnSetupFailed | EC_MotnTickFailed
  | EC_MotnNotHomed | EC_MotnSettleTimeout | EC_MotnHomingFailed | EC_MotnCancelled
  | EC_CommQueueFull | EC_CommUnknownCommand | EC_CommDecodeError | EC_CommValidationError | EC_CommChunkTimeout
  | EC_SysControllerDisabled | EC_SysEstopActive | EC_SysProfileInvalid | EC_SysSelfCollision | EC_SysNotSimulator
  | EC_SysExecLinkLost | EC_SysRtiLinkLost | EC_SysLoopCritical | EC_SysJointFault | EC_SysLoopDegraded
  | EC_SysCanStale | EC_SysBusOff | EC_SysLinkErrorPassive | EC_SysTorqueEnvelope | EC_SysStreamFault

primrec wire_code_val :: "wire_code \<Rightarrow> i64" where
  "wire_code_val EC_IkTargetUnreachable = 10"
| "wire_code_val EC_IkPartialPath = 11"
| "wire_code_val EC_TrajEmptyResult = 20"
| "wire_code_val EC_TrajNoSteps = 21"
| "wire_code_val EC_TrajNearSingularity = 22"
| "wire_code_val EC_MotnHomeTimeout = 30"
| "wire_code_val EC_MotnToolTimeout = 31"
| "wire_code_val EC_MotnToolFault = 32"
| "wire_code_val EC_MotnSetupFailed = 33"
| "wire_code_val EC_MotnTickFailed = 34"
| "wire_code_val EC_MotnNotHomed = 35"
| "wire_code_val EC_MotnSettleTimeout = 36"
| "wire_code_val EC_MotnHomingFailed = 37"
| "wire_code_val EC_MotnCancelled = 38"
| "wire_code_val EC_CommQueueFull = 40"
| "wire_code_val EC_CommUnknownCommand = 41"
| "wire_code_val EC_CommDecodeError = 42"
| "wire_code_val EC_CommValidationError = 43"
| "wire_code_val EC_CommChunkTimeout = 44"
| "wire_code_val EC_SysControllerDisabled = 50"
| "wire_code_val EC_SysEstopActive = 51"
| "wire_code_val EC_SysProfileInvalid = 52"
| "wire_code_val EC_SysSelfCollision = 53"
| "wire_code_val EC_SysNotSimulator = 54"
| "wire_code_val EC_SysExecLinkLost = 55"
| "wire_code_val EC_SysRtiLinkLost = 56"
| "wire_code_val EC_SysLoopCritical = 57"
| "wire_code_val EC_SysJointFault = 58"
| "wire_code_val EC_SysLoopDegraded = 59"
| "wire_code_val EC_SysCanStale = 60"
| "wire_code_val EC_SysBusOff = 61"
| "wire_code_val EC_SysLinkErrorPassive = 62"
| "wire_code_val EC_SysTorqueEnvelope = 63"
| "wire_code_val EC_SysStreamFault = 64"

definition wire_code_all :: "wire_code list" where
  "wire_code_all =
     [EC_IkTargetUnreachable, EC_IkPartialPath, EC_TrajEmptyResult, EC_TrajNoSteps, EC_TrajNearSingularity,
      EC_MotnHomeTimeout, EC_MotnToolTimeout, EC_MotnToolFault, EC_MotnSetupFailed, EC_MotnTickFailed,
      EC_MotnNotHomed, EC_MotnSettleTimeout, EC_MotnHomingFailed, EC_MotnCancelled,
      EC_CommQueueFull, EC_CommUnknownCommand, EC_CommDecodeError, EC_CommValidationError, EC_CommChunkTimeout,
      EC_SysControllerDisabled, EC_SysEstopActive, EC_SysProfileInvalid, EC_SysSelfCollision, EC_SysNotSimulator,
      EC_SysExecLinkLost, EC_SysRtiLinkLost, EC_SysLoopCritical, EC_SysJointFault, EC_SysLoopDegraded,
      EC_SysCanStale, EC_SysBusOff, EC_SysLinkErrorPassive, EC_SysTorqueEnvelope, EC_SysStreamFault]"

interpretation wire_code_wire: wire_enum wire_code_all wire_code_val
proof
  show "distinct (map wire_code_val wire_code_all)" by (simp add: wire_code_all_def)
  show "c \<in> set wire_code_all" for c by (cases c) (simp_all add: wire_code_all_def)
qed

definition UNATTRIBUTED :: int where "UNATTRIBUTED = -1"

record wire_error =
  we_command_index :: int
  we_code :: wire_code

definition make_error :: "wire_code \<Rightarrow> int \<Rightarrow> wire_error" where
  "make_error code command_index = \<lparr>we_command_index = command_index, we_code = code\<rparr>"

definition decode_error_to_wire :: "decode_error \<Rightarrow> wire_error" where
  "decode_error_to_wire e = make_error (case e of
       Validation _ \<Rightarrow> EC_CommValidationError
     | UnknownTag _ \<Rightarrow> EC_CommUnknownCommand
     | _ \<Rightarrow> EC_CommDecodeError) UNATTRIBUTED"

section \<open>The gating table\<close>

record gate =
  ga_needs_enabled :: bool
  ga_needs_homed :: bool
  ga_needs_simulator :: bool

definition gate_of :: "cmd_type \<Rightarrow> gate" where
  "gate_of cmd =
     (let cl = command_class cmd;
          g = \<lparr>ga_needs_enabled = (cl = Class_Queued \<or> cl = Class_FireAndForget), ga_needs_homed = False, ga_needs_simulator = False\<rparr>
      in case cmd of
           T_MoveJ \<Rightarrow> g\<lparr>ga_needs_homed := True\<rparr>
         | T_MoveJPose \<Rightarrow> g\<lparr>ga_needs_homed := True\<rparr>
         | T_MoveL \<Rightarrow> g\<lparr>ga_needs_homed := True\<rparr>
         | T_MoveC \<Rightarrow> g\<lparr>ga_needs_homed := True\<rparr>
         | T_MoveS \<Rightarrow> g\<lparr>ga_needs_homed := True\<rparr>
         | T_MoveP \<Rightarrow> g\<lparr>ga_needs_homed := True\<rparr>
         | T_ServoJ \<Rightarrow> g\<lparr>ga_needs_homed := True\<rparr>
         | T_ServoJPose \<Rightarrow> g\<lparr>ga_needs_homed := True\<rparr>
         | T_ServoL \<Rightarrow> g\<lparr>ga_needs_homed := True\<rparr>
         | T_JogJ \<Rightarrow> g
         | T_JogL \<Rightarrow> g\<lparr>ga_needs_homed := True\<rparr>
         | T_Pause \<Rightarrow> g
         | T_SetExecutionSpeed \<Rightarrow> g
         | T_Teleport \<Rightarrow> g\<lparr>ga_needs_simulator := True, ga_needs_enabled := True\<rparr>
         | T_SetPayload \<Rightarrow> g
         | T_SetTcpOffset \<Rightarrow> g\<lparr>ga_needs_enabled := False\<rparr>
         | T_SetTcpTransform \<Rightarrow> g\<lparr>ga_needs_enabled := False\<rparr>
         | T_ResetLoopStats \<Rightarrow> g\<lparr>ga_needs_enabled := False\<rparr>
         | _ \<Rightarrow> g)"

definition is_stream :: "cmd_type \<Rightarrow> bool" where
  "is_stream cmd \<longleftrightarrow> cmd \<in> {T_ServoJ, T_ServoJPose, T_ServoL, T_JogJ, T_JogL}"

record gate_context =
  gc_estop_latched :: bool
  gc_enabled :: bool
  gc_homed :: bool
  gc_simulator :: bool

definition check_gate :: "cmd_type \<Rightarrow> gate_context \<Rightarrow> wire_error option" where
  "check_gate tag ctx =
     (let g = gate_of tag in
      if ga_needs_enabled g \<and> gc_estop_latched ctx then Some (make_error EC_SysEstopActive UNATTRIBUTED)
      else if ga_needs_enabled g \<and> \<not> gc_enabled ctx then Some (make_error EC_SysControllerDisabled UNATTRIBUTED)
      else if ga_needs_homed g \<and> \<not> gc_homed ctx then Some (make_error EC_MotnNotHomed UNATTRIBUTED)
      else if ga_needs_simulator g \<and> \<not> gc_simulator ctx then Some (make_error EC_SysNotSimulator UNATTRIBUTED)
      else None)"

section \<open>Session rules\<close>

record latches =
  la_estop_latched :: bool
  la_standing_error :: "wire_error option"

definition latches_estop :: "latches \<Rightarrow> latches" where
  "latches_estop l = l\<lparr>la_estop_latched := True, la_standing_error := Some (make_error EC_SysEstopActive UNATTRIBUTED)\<rparr>"

definition latches_stop :: "bool \<Rightarrow> latches \<Rightarrow> latches" where
  "latches_stop cleared_something l =
     (if cleared_something then l\<lparr>la_standing_error := Some (make_error EC_MotnCancelled UNATTRIBUTED)\<rparr> else l)"

definition latches_reset :: "latches \<Rightarrow> latches" where
  "latches_reset l = l\<lparr>la_estop_latched := False, la_standing_error := None\<rparr>"

definition latches_motion_accepted :: "latches \<Rightarrow> latches" where
  "latches_motion_accepted l = l\<lparr>la_standing_error := None\<rparr>"

definition blend_radius_mm :: "command \<Rightarrow> f64 option" where
  "blend_radius_mm cmd = (case cmd of
       C_MoveJ p \<Rightarrow> mj_blend_radius p
     | C_MoveJPose p \<Rightarrow> mjp_blend_radius p
     | C_MoveL p \<Rightarrow> ml_blend_radius p
     | C_MoveC p \<Rightarrow> mc_blend_radius p
     | _ \<Rightarrow> None)"

definition is_some_and :: "('a \<Rightarrow> bool) \<Rightarrow> 'a option \<Rightarrow> bool" where
  "is_some_and p x = (case x of Some v \<Rightarrow> p v | None \<Rightarrow> False)"

definition asks_to_blend :: "command \<Rightarrow> bool" where
  "asks_to_blend c = is_some_and (\<lambda>r. f64_lt f64_zero r) (blend_radius_mm c)"

record 'a blend_queue =
  bq_items :: "'a list"
  bq_hold_since :: "nat option"

text \<open>\<open>now\<close> is \<open>Instant::now()\<close>, in the unit of \<open>expiry\<close>.\<close>

definition bq_holding_for_blend :: "nat \<Rightarrow> nat \<Rightarrow> nat option \<Rightarrow> ('a \<Rightarrow> command) \<Rightarrow> 'a blend_queue \<Rightarrow> bool \<times> 'a blend_queue" where
  "bq_holding_for_blend now lookahead expiry cmd q =
     (let wants_more = length (bq_items q) < lookahead \<and> bq_items q \<noteq> [] \<and> asks_to_blend (cmd (last (bq_items q)))
      in if \<not> wants_more then (False, q\<lparr>bq_hold_since := None\<rparr>)
         else case expiry of
             None \<Rightarrow> (True, q)
           | Some limit \<Rightarrow>
               (let since = (case bq_hold_since q of Some t \<Rightarrow> t | None \<Rightarrow> now)
                in (now - since < limit, q\<lparr>bq_hold_since := Some since\<rparr>)))"

definition bq_release_hold :: "'a blend_queue \<Rightarrow> 'a blend_queue" where
  "bq_release_hold q = q\<lparr>bq_hold_since := None\<rparr>"

section \<open>Configuration\<close>

record tunable_node =
  tn_node :: u8
  tn_ilim_ma :: f64
  tn_velocity_limit_ticks_s :: f64
  tn_voltage_limit_mv :: u32

record server_config =
  sc_queue_capacity :: nat
  sc_dedup_window :: nat
  sc_chunk_timeout :: nat
  sc_blend_lookahead :: nat
  sc_blend_hold :: nat
  sc_simulator :: bool
  sc_tools :: "bytes list"
  sc_driven_tools :: "bytes list"
  sc_fitted_tool :: bytes
  sc_tool_dof :: nat
  sc_cartesian :: bool
  sc_digital_outputs :: "bytes list"
  sc_tunable_nodes :: "tunable_node list"
  sc_tool_drives :: "(bytes \<times> tunable_node) list"
  sc_tool_ids :: "u8 list"
  sc_profiles :: "bytes list"
  sc_initial_profile :: bytes
  sc_joint_hard_limits_deg :: "(f64 \<times> f64) list"
  sc_rt_tick_rate_hz :: f64
  sc_link_stale_ms :: nat
  sc_tick_dt_s :: f64
  sc_status_rate_hz :: nat
  sc_installation_shapes :: "shape list"

definition to_ascii_lower :: "u8 \<Rightarrow> u8" where
  "to_ascii_lower b = (if 65 \<le> b \<and> b \<le> 90 then b + 32 else b)"

definition eq_ignore_ascii_case :: "bytes \<Rightarrow> bytes \<Rightarrow> bool" where
  "eq_ignore_ascii_case a b \<longleftrightarrow> map to_ascii_lower a = map to_ascii_lower b"

definition config_fit_tool :: "bytes \<Rightarrow> server_config \<Rightarrow> bytes \<times> server_config" where
  "config_fit_tool name k =
     (let tool = (case find (\<lambda>t. eq_ignore_ascii_case t name) (sc_tools k) of Some t \<Rightarrow> t | None \<Rightarrow> name);
          k = k\<lparr>sc_tool_dof := (if list_ex (\<lambda>t. eq_ignore_ascii_case t tool) (sc_driven_tools k) then 1 else 0)\<rparr>;
          drives = sc_tool_drives k;
          nodes = filter (\<lambda>n. \<not> list_ex (\<lambda>(_, d). tn_node d = tn_node n) drives) (sc_tunable_nodes k);
          nodes = (case find (\<lambda>(t, _). eq_ignore_ascii_case t tool) drives of Some (_, drive) \<Rightarrow> nodes @ [drive] | None \<Rightarrow> nodes)
      in (tool, k\<lparr>sc_tunable_nodes := nodes, sc_fitted_tool := tool\<rparr>))"

section \<open>Validation against the configuration\<close>

definition bytes_of :: "string \<Rightarrow> bytes" where
  "bytes_of s = map of_char s"

definition refuse :: "bool \<Rightarrow> wire_error option" where
  "refuse bad = (if bad then Some (make_error EC_CommValidationError UNATTRIBUTED) else None)"

definition validate_registries :: "server_config \<Rightarrow> command \<Rightarrow> wire_error option" where
  "validate_registries k cmd =
     (let known = (\<lambda>name. list_ex (\<lambda>t. eq_ignore_ascii_case t name) (sc_tools k)) in
      case cmd of
        C_SelectTool p \<Rightarrow> refuse (\<not> known (slt_tool_name p))
      | C_ToolAction p \<Rightarrow> refuse (\<not> known (ta_tool_key p) \<or> \<not> eq_ignore_ascii_case (sc_fitted_tool k) (ta_tool_key p))
      | _ \<Rightarrow> None)"

definition write_io_fault :: "u8 \<Rightarrow> server_config \<Rightarrow> wire_error option" where
  "write_io_fault port k = refuse (\<not> unat port < length (sc_digital_outputs k))"

definition teleport_angle_fault :: "f64 list \<Rightarrow> server_config \<Rightarrow> bool" where
  "teleport_angle_fault angles k =
     list_ex (\<lambda>(a, lo, hi). f64_lt a lo \<or> f64_lt hi a) (zip angles (sc_joint_hard_limits_deg k))"

definition tool_positions_fault :: "f64 list option \<Rightarrow> server_config \<Rightarrow> bool" where
  "tool_positions_fault positions k = (case positions of
       None \<Rightarrow> False
     | Some pos \<Rightarrow> sc_tool_dof k = 0 \<or> length pos \<noteq> sc_tool_dof k
         \<or> list_ex (\<lambda>v. \<not> is_finite v \<or> \<not> (f64_le f64_zero v \<and> f64_le v f64_one)) pos)"

definition validate_supported :: "server_config \<Rightarrow> command \<Rightarrow> wire_error option" where
  "validate_supported k cmd =
     (let blend = is_some_and (\<lambda>r. f64_lt f64_zero r \<and> \<not> sc_cartesian k) in
      case cmd of
        C_WriteIo p \<Rightarrow> write_io_fault (wio_port p) k
      | C_MoveJ p \<Rightarrow> refuse (blend (mj_blend_radius p))
      | C_MoveJPose p \<Rightarrow> refuse (blend (mjp_blend_radius p))
      | C_MoveL p \<Rightarrow> refuse (blend (ml_blend_radius p))
      | C_MoveC p \<Rightarrow> refuse (blend (mc_blend_radius p))
      | C_Teleport p \<Rightarrow> refuse (teleport_angle_fault (tp_angles p) k \<or> tool_positions_fault (tp_tool_positions p) k)
      | C_ToolAction p \<Rightarrow>
          refuse (if ta_action p \<in> {bytes_of ''stop'', bytes_of ''idle''} \<and> ta_params p \<noteq> [] then True else sc_tool_dof k = 0)
      | C_ServoJPose _ \<Rightarrow> refuse (\<not> sc_cartesian k)
      | C_ServoL _ \<Rightarrow> refuse (\<not> sc_cartesian k)
      | C_JogL _ \<Rightarrow> refuse (\<not> sc_cartesian k)
      | _ \<Rightarrow> None)"

text \<open>\<open>x as uN\<close> of a non-negative value: truncation, saturating at \<open>cap\<close>; NaN and negative values give \<open>0\<close>.\<close>

definition f64_as_nat :: "f64 \<Rightarrow> nat \<Rightarrow> nat" where
  "f64_as_nat x cap =
     (if is_nan x \<or> f64_neg_sign x then 0 else if \<not> is_finite x then cap else min (units_of_mag (f64_mag x) div 2 ^ 1074) cap)"

definition servable_status_rates :: "f64 \<Rightarrow> f64 list" where
  "servable_status_rates tick_hz =
     (let ticks = f64_round_to_nat tick_hz (2 ^ 32 - 1)
      in map (\<lambda>d. f64_of_nat (ticks div d)) (filter (\<lambda>d. d dvd ticks) [1..<Suc ticks]))"

definition status_rate_fault :: "f64 \<Rightarrow> f64 \<Rightarrow> wire_error option" where
  "status_rate_fault tick_hz hz = refuse (\<not> list_ex (\<lambda>r. f64_eq r hz) (servable_status_rates tick_hz))"

definition pid_gains_fault :: "set_pid_gains \<Rightarrow> server_config \<Rightarrow> wire_error option" where
  "pid_gains_fault p k =
     refuse (case find (\<lambda>t. tn_node t = spg_node p) (sc_tunable_nodes k) of
       None \<Rightarrow> True
     | Some t \<Rightarrow> f64_lt (tn_ilim_ma t) (spg_ilim_ma p)
         \<or> f64_lt (tn_velocity_limit_ticks_s t) (spg_velocity_limit_ticks_s p)
         \<or> tn_voltage_limit_mv t \<noteq> 0 \<and> tn_voltage_limit_mv t < spg_voltage_limit_mv p)"

section \<open>Commands\<close>

definition tcp_transform_effect :: "command \<Rightarrow> f64 list option" where
  "tcp_transform_effect cmd = (case cmd of
       C_SetTcpOffset p \<Rightarrow> Some [sto_x p, sto_y p, sto_z p, f64_zero, f64_zero, f64_zero]
     | C_SetTcpTransform p \<Rightarrow> Some [stt_x p, stt_y p, stt_z p, stt_roll p, stt_pitch p, stt_yaw p]
     | _ \<Rightarrow> None)"

datatype post_effect =
    PE_None
  | PE_Checkpoint bytes
  | PE_SelectTool bytes "bytes option"
  | PE_TcpTransform "f64 list"
  | PE_WriteIo u8 u8

definition post_effect_of :: "command \<Rightarrow> post_effect" where
  "post_effect_of cmd = (case tcp_transform_effect cmd of
       Some v \<Rightarrow> PE_TcpTransform v
     | None \<Rightarrow> (case cmd of
          C_Checkpoint p \<Rightarrow> PE_Checkpoint (cp_label p)
        | C_SelectTool p \<Rightarrow> PE_SelectTool (slt_tool_name p) (slt_variant_key p)
        | C_WriteIo p \<Rightarrow> PE_WriteIo (wio_port p) (wio_value p)
        | _ \<Rightarrow> PE_None))"

definition waits_for_rest :: "cmd_type \<Rightarrow> bool" where
  "waits_for_rest cmd \<longleftrightarrow> cmd \<in> {T_MoveJ, T_MoveJPose, T_MoveL, T_MoveC, T_MoveS, T_MoveP, T_Home, T_SelectTool}"

definition is_arm_motion :: "cmd_type \<Rightarrow> bool" where
  "is_arm_motion tag \<longleftrightarrow> tag \<in> {T_MoveJ, T_MoveJPose, T_MoveL, T_MoveC, T_MoveS, T_MoveP, T_JogJ, T_JogL,
     T_ServoJ, T_ServoJPose, T_ServoL, T_Teleport}"

definition has_attachment :: "shape list \<Rightarrow> bool" where
  "has_attachment shapes = list_ex (\<lambda>s. sh_attachment s \<noteq> None) shapes"

definition attachments_fresh :: "shape list \<Rightarrow> u64 \<Rightarrow> bool" where
  "attachments_fresh shapes epoch = list_all (\<lambda>s. case sh_attachment s of None \<Rightarrow> True | Some a \<Rightarrow> at_epoch a = epoch) shapes"

definition next_attachment_epoch :: "u64 \<Rightarrow> u64" where
  "next_attachment_epoch epoch = max (epoch + 1) 1"

section \<open>The RT's view\<close>

text \<open>The fields of \<open>StateSnapshot\<close> the command plane decides on; ages are in ticks, the greatest \<open>u64\<close> for a silent node.\<close>

record arm_view =
  av_tick :: nat
  av_mode :: mode
  av_state :: arm_state
  av_homed :: bool
  av_node_ages :: "nat list"
  av_errors :: error_list
  av_error_active :: bool
  av_exec_stopping :: bool
  av_exec_samples_remaining :: nat
  av_exec_target_scale :: f64
  av_bus_scan_epoch :: u32

definition latched :: "arm_view \<Rightarrow> error_code \<Rightarrow> bool" where
  "latched v c = list_ex (\<lambda>e. ee_code e = c) (as_slice (av_errors v))"

definition rt_standing_error :: "arm_view \<Rightarrow> wire_error option" where
  "rt_standing_error v =
     (if \<not> av_error_active v then None
      else Some (make_error
        (if latched v E_Estop \<or> latched v E_SwEstop then EC_SysEstopActive
         else if latched v E_BusOff then EC_SysBusOff
         else if latched v E_TorqueEnvelope then EC_SysTorqueEnvelope
         else if latched v E_LoopCritical then EC_SysLoopCritical
         else if latched v E_ExecLinkLost then EC_SysExecLinkLost
         else if latched v E_RtiLinkLost then EC_SysRtiLinkLost
         else if latched v E_StreamFault then EC_SysStreamFault
         else if latched v E_ExecSettleTimeout then EC_MotnSettleTimeout
         else if latched v E_GripperFault \<or> latched v E_GripperCalibrationFailed then EC_MotnToolFault
         else if list_ex (\<lambda>e. \<not> is_warning (ee_code e) \<and> is_some_and (\<lambda>j. unat j < MAX_JOINTS) (ee_joint e)) (as_slice (av_errors v))
         then EC_SysJointFault
         else EC_MotnTickFailed) UNATTRIBUTED))"

definition wire_warning :: "error_entry \<Rightarrow> wire_error option" where
  "wire_warning e = (case ee_code e of
       E_CanStale \<Rightarrow> Some (make_error EC_SysCanStale UNATTRIBUTED)
     | E_LoopDegraded \<Rightarrow> Some (make_error EC_SysLoopDegraded UNATTRIBUTED)
     | E_NotHomed \<Rightarrow> Some (make_error EC_MotnNotHomed UNATTRIBUTED)
     | E_LinkErrorPassive \<Rightarrow> Some (make_error EC_SysLinkErrorPassive UNATTRIBUTED)
     | E_HomingFailed \<Rightarrow> Some (make_error EC_MotnHomingFailed UNATTRIBUTED)
     | _ \<Rightarrow> None)"

definition rt_warnings :: "arm_view \<Rightarrow> wire_error list" where
  "rt_warnings v = List.map_filter wire_warning (as_slice (av_errors v))"

end
