(* ===== verification/Server.thy ===== *)
theory Server
  imports Server_Rules Command_Codec Chunk
begin

text \<open>
  The command server, \<open>par6-server/src/server.rs\<close>: the queue, the index allocator, the
  cancellations and the handlers of the events its task selects on. The task runs one handler
  at a time, so each handler is a function on the state.

  What leaves the server (replies, requests to the planner, calls on the RT) is appended to
  \<open>sv_log\<close> in order. What the rest of the daemon answers during a handler is its \<open>server_env\<close>:
  the clock in milliseconds (one reading per handler), the snapshot waiting in the channel, the
  results of the RT's calls and the datagrams waiting in the socket. A socket address is a
  number; indexes and tags are natural numbers, the wrap-around of a \<open>u64\<close> that counts commands
  being out of reach.
\<close>

section \<open>Data\<close>

type_synonym addr = nat

record pending =
  pe_index :: nat
  pe_cmd :: command
  pe_addr :: addr

record executing =
  xe_index :: nat
  xe_addr :: addr
  xe_tag :: cmd_type
  xe_effect :: post_effect
  xe_blended :: "(nat \<times> addr) list"

record tool_stop =
  ts_index :: nat
  ts_addr :: addr
  ts_tag :: "nat option"

record command_outcome =
  co_index :: nat
  co_error :: "wire_error option"
  co_verdict :: "u8 option"

datatype shape_layer = Layer_Installation | Layer_Program

record plan_context =
  pc_profile :: bytes
  pc_tool :: bytes
  pc_tool_variant :: "bytes option"
  pc_tcp_offset_mm :: "f64 list"
  pc_tcp_rotation_deg :: "f64 list"
  pc_completion_policy :: completion_policy
  pc_payload :: set_payload

datatype plan_request =
    PR_Start "(nat \<times> command) list"
  | PR_QueueEstimate "(nat \<times> command) list"
  | PR_SetShapes nat shape_layer "shape list"
  | PR_StartTool nat nat tool_action
  | PR_Sync plan_context
  | PR_Cancel bool
  | PR_CancelTool
  | PR_ClearCollision

datatype plan_event =
    PE_Started nat nat
  | PE_StartRejected nat wire_error
  | PE_Outcome command_outcome
  | PE_ToolOutcome command_outcome
  | PE_ToolStarted nat "wire_error + unit"
  | PE_ToolFitted bytes "bytes option"
  | PE_ShapesApplied nat "wire_error + nat option"

datatype rt_call =
    RC_stream command
  | RC_cancel_stream
  | RC_stop_refused_stream
  | RC_halt
  | RC_set_enabled bool
  | RC_set_gravity_comp bool
  | RC_set_payload set_payload
  | RC_set_exec_paused bool
  | RC_set_exec_speed f64
  | RC_teleport "f64 list" "f64 list option"
  | RC_write_io u8 u8
  | RC_enter_flashing
  | RC_exit_flashing
  | RC_set_pid_gains set_pid_gains
  | RC_set_can_id u8 u8
  | RC_save_config u8
  | RC_set_tool_id u8 u8
  | RC_rescan_bus
  | RC_set_simulator bool
  | RC_connect_hardware bytes
  | RC_reset_state
  | RC_reset_loop_stats
  | RC_discard_exec
  | RC_set_shapes shape_layer "shape list"
  | RC_clear_collision

text \<open>
  What a query answers. \<open>QR_Readout\<close> stands for the answers copied from the snapshot's sensor
  readings, the planner's report and the configuration's texts.
\<close>

datatype query_result =
    QR_Ping bool
  | QR_Tools bytes "bytes list"
  | QR_Queue "string list" int int bytes
  | QR_Activity string action_state string
  | QR_Profile bytes
  | QR_Error "wire_error option"
  | QR_TcpTransform "f64 list"
  | QR_CommandCompletion nat bool bool "wire_error option" "u8 option"
  | QR_TcpOffset "f64 list"
  | QR_IsSimulator bool
  | QR_Payload f64 "f64 list" "f64 list"
  | QR_StatusRate nat f64 "f64 list"
  | QR_Shapes "shape list" "shape list" nat u64
  | QR_Readout cmd_type

datatype reply =
    Rp_Ok u32 "nat option"
  | Rp_Error u32 wire_error
  | Rp_Response u32 query_result
  | Rp_Complete nat bool "wire_error option" "u8 option"

text \<open>The part of a STATUS frame the server decides; the sensor readings are left out.\<close>

record status_frame =
  sf_seq :: nat
  sf_tick :: nat
  sf_executing_index :: int
  sf_completed_index :: int
  sf_accepted_index :: int
  sf_queued_segments :: nat
  sf_error :: "wire_error option"
  sf_last_checkpoint :: bytes

datatype effect =
    Ef_reply addr reply
  | Ef_plan plan_request
  | Ef_rt rt_call
  | Ef_status status_frame

record waiters =
  wt_queued :: "(u32 \<times> addr) list"
  wt_cap :: nat

definition new_waiters :: "nat \<Rightarrow> waiters" where
  "new_waiters cap = \<lparr>wt_queued = [], wt_cap = cap\<rparr>"

definition waiters_push :: "waiters \<Rightarrow> u32 \<Rightarrow> addr \<Rightarrow> wire_error + waiters" where
  "waiters_push w req_id addr =
     (if wt_cap w \<le> length (wt_queued w) then Inl (make_error EC_CommQueueFull UNATTRIBUTED)
      else Inr (w\<lparr>wt_queued := wt_queued w @ [(req_id, addr)]\<rparr>))"

definition take_waiters :: "waiters \<Rightarrow> (u32 \<times> addr) list \<times> waiters" where
  "take_waiters w = (wt_queued w, w\<lparr>wt_queued := []\<rparr>)"

record dedup =
  dd_cap :: nat
  dd_order :: "u64 list"
  dd_map :: "u64 \<rightharpoonup> nat"

definition new_dedup :: "nat \<Rightarrow> dedup" where
  "new_dedup cap = \<lparr>dd_cap = max cap 1, dd_order = [], dd_map = Map.empty\<rparr>"

definition dedup_get :: "dedup \<Rightarrow> u64 \<Rightarrow> nat option" where
  "dedup_get d key = dd_map d key"

definition dedup_insert :: "u64 \<Rightarrow> nat \<Rightarrow> dedup \<Rightarrow> dedup" where
  "dedup_insert key index d =
     (let known = dd_map d key \<noteq> None; d = d\<lparr>dd_map := (dd_map d)(key \<mapsto> index)\<rparr> in
      if known then d
      else
        (let d = d\<lparr>dd_order := dd_order d @ [key]\<rparr> in
         if dd_cap d < length (dd_order d)
         then (case dd_order d of
                 old # rest \<Rightarrow> d\<lparr>dd_order := rest, dd_map := (dd_map d)(old := None)\<rparr>
               | [] \<Rightarrow> d)
         else d))"

record pending_scan =
  pn_req_id :: u32
  pn_addr :: addr
  pn_epoch :: u32
  pn_deadline :: nat

definition MAX_RESET_WAITERS :: nat where "MAX_RESET_WAITERS = 16"
definition MAX_FLASHING_WAITERS :: nat where "MAX_FLASHING_WAITERS = 16"
definition DRAIN_LIMIT :: nat where "DRAIN_LIMIT = 64"
definition SCAN_REPLY_DEADLINE :: nat where "SCAN_REPLY_DEADLINE = 500"
definition FIRST_COMMAND_INDEX :: nat where "FIRST_COMMAND_INDEX = 1"
definition COMPLETIONS_KEPT :: nat where "COMPLETIONS_KEPT = 1024"

record server =
  sv_cfg :: server_config
  sv_reassembler :: reassembler
  sv_transfer_addrs :: "u32 \<rightharpoonup> addr"
  sv_next_index :: nat
  sv_dedup :: dedup
  sv_pending :: "pending list"
  sv_executing :: "executing option"
  sv_blend_hold :: "nat option"
  sv_planning :: "nat option"
  sv_pending_shapes :: "(nat \<times> u32 \<times> addr \<times> shape list) list"
  sv_tool_stops :: "tool_stop list"
  sv_accepted_index :: int
  sv_completed_index :: int
  sv_finished :: "nat list"
  sv_completion_log :: "(nat \<times> wire_error option \<times> u8 option) list"
  sv_last_checkpoint :: bytes
  sv_standing_error :: "wire_error option"
  sv_action_state :: action_state
  sv_estop_latched :: bool
  sv_teleport_homed :: bool
  sv_active_stream :: "cmd_type option"
  sv_deferred :: "(bytes \<times> addr) list"
  sv_reset_waiters :: waiters
  sv_flashing_waiters :: waiters
  sv_bus_waiters :: waiters
  sv_pending_simulator :: "bool option"
  sv_booted :: bool
  sv_profile :: bytes
  sv_tool :: bytes
  sv_tool_variant :: "bytes option"
  sv_tcp_offset_mm :: "f64 list"
  sv_tcp_rotation_deg :: "f64 list"
  sv_payload :: set_payload
  sv_shapes :: "shape list"
  sv_attachment_epoch :: u64
  sv_attachment_stop_pending :: bool
  sv_scene_epoch :: nat
  sv_completion_policy :: completion_policy
  sv_execution_paused :: bool
  sv_pending_scans :: "pending_scan list"
  sv_simulator :: bool
  sv_queue_estimate_for :: "nat \<times> nat"
  sv_snap :: arm_view
  sv_last_fresh :: "nat option"
  sv_status_seq :: nat
  sv_last_status_tick :: "nat option"
  sv_last_status_at :: nat
  sv_status_rate_hz :: nat
  sv_next_tag :: nat
  sv_log :: "effect list"

record server_env =
  ev_now :: nat
  ev_snapshot :: "arm_view option"
  ev_snapshot_again :: "arm_view option"
  ev_stream :: "wire_error + unit"
  ev_stop_refused :: bool
  ev_refusal_before :: bool
  ev_refusal_after :: bool
  ev_enable_outcome :: "(wire_error + unit) option"
  ev_flashing_outcome :: "(wire_error + unit) option"
  ev_bus_outcome :: "(wire_error + unit) option"
  ev_swap :: "wire_error + unit"
  ev_set_shapes :: "wire_error + unit"
  ev_backlog :: "(bytes \<times> addr) list"

definition default_payload :: set_payload where
  "default_payload = \<lparr>spl_mass = f64_zero, spl_com = replicate 3 f64_zero, spl_inertia = None\<rparr>"

text \<open>The snapshot a server that has read none starts from, and the state before the first event.\<close>

definition default_view :: arm_view where
  "default_view = \<lparr>av_tick = 0, av_mode = M_Booting, av_state = Arm_Disabled, av_homed = False, av_node_ages = replicate (MAX_JOINTS + 1) (2 ^ 64 - 1),
     av_errors = new_error_list, av_error_active = False, av_exec_stopping = False, av_exec_samples_remaining = 0,
     av_exec_target_scale = f64_one, av_bus_scan_epoch = 0\<rparr>"

definition new_server :: "server_config \<Rightarrow> nat \<Rightarrow> u64 \<Rightarrow> server" where
  "new_server k installation_epoch attachment_epoch = \<lparr>
     sv_cfg = k, sv_reassembler = new_reassembler (sc_chunk_timeout k), sv_transfer_addrs = Map.empty,
     sv_next_index = FIRST_COMMAND_INDEX, sv_dedup = new_dedup (max (sc_dedup_window k) (sc_queue_capacity k + 2)),
     sv_pending = [], sv_executing = None, sv_blend_hold = None, sv_planning = None, sv_pending_shapes = [],
     sv_tool_stops = [], sv_accepted_index = -1, sv_completed_index = -1, sv_finished = [], sv_completion_log = [],
     sv_last_checkpoint = [], sv_standing_error = None, sv_action_state = Action_Idle, sv_estop_latched = False,
     sv_teleport_homed = False, sv_active_stream = None, sv_deferred = [],
     sv_reset_waiters = new_waiters MAX_RESET_WAITERS, sv_flashing_waiters = new_waiters MAX_FLASHING_WAITERS,
     sv_bus_waiters = new_waiters MAX_RESET_WAITERS, sv_pending_simulator = None, sv_booted = False,
     sv_profile = sc_initial_profile k, sv_tool = sc_fitted_tool k, sv_tool_variant = None,
     sv_tcp_offset_mm = replicate 3 f64_zero, sv_tcp_rotation_deg = replicate 3 f64_zero, sv_payload = default_payload,
     sv_shapes = [], sv_attachment_epoch = max attachment_epoch 1, sv_attachment_stop_pending = False,
     sv_scene_epoch = installation_epoch, sv_completion_policy = Policy_Settled, sv_execution_paused = False,
     sv_pending_scans = [], sv_simulator = sc_simulator k, sv_queue_estimate_for = (0, 0), sv_snap = default_view,
     sv_last_fresh = None, sv_status_seq = 0, sv_last_status_tick = None, sv_last_status_at = 0,
     sv_status_rate_hz = sc_status_rate_hz k, sv_next_tag = 0, sv_log = []\<rparr>"

section \<open>What leaves the server\<close>

definition emit :: "effect \<Rightarrow> server \<Rightarrow> server" where
  "emit e s = s\<lparr>sv_log := sv_log s @ [e]\<rparr>"

abbreviation send_reply :: "addr \<Rightarrow> reply \<Rightarrow> server \<Rightarrow> server" where
  "send_reply addr r \<equiv> emit (Ef_reply addr r)"

abbreviation plan_send :: "plan_request \<Rightarrow> server \<Rightarrow> server" where
  "plan_send r \<equiv> emit (Ef_plan r)"

abbreviation rt_do :: "rt_call \<Rightarrow> server \<Rightarrow> server" where
  "rt_do c \<equiv> emit (Ef_rt c)"

definition reply_error :: "addr \<Rightarrow> u32 \<Rightarrow> wire_error \<Rightarrow> server \<Rightarrow> server" where
  "reply_error addr req_id e = send_reply addr (Rp_Error req_id e)"

definition push_complete :: "addr \<Rightarrow> nat \<Rightarrow> wire_error option \<Rightarrow> u8 option \<Rightarrow> server \<Rightarrow> server" where
  "push_complete addr index detail vd s =
     (let log = sv_completion_log s; log = (if COMPLETIONS_KEPT \<le> length log then tl log else log);
          s = s\<lparr>sv_completion_log := log @ [(index, detail, vd)]\<rparr>
      in send_reply addr (Rp_Complete index (detail = None) detail vd) s)"

definition next_tag :: "server \<Rightarrow> nat \<times> server" where
  "next_tag s = (let t = sv_next_tag s + 1 in (t, s\<lparr>sv_next_tag := t\<rparr>))"

definition sync_planner :: "server \<Rightarrow> server" where
  "sync_planner s = plan_send (PR_Sync \<lparr>pc_profile = sv_profile s, pc_tool = sv_tool s, pc_tool_variant = sv_tool_variant s,
     pc_tcp_offset_mm = sv_tcp_offset_mm s, pc_tcp_rotation_deg = sv_tcp_rotation_deg s,
     pc_completion_policy = sv_completion_policy s, pc_payload = sv_payload s\<rparr>) s"

section \<open>The high-water mark\<close>

text \<open>\<open>while self.finished.remove(&next) { .. next += 1 }\<close>, with the first index not removed.\<close>

function advance_loop :: "nat \<Rightarrow> nat list \<Rightarrow> nat \<times> nat list" where
  "advance_loop next fs = (if next \<in> set fs then advance_loop (Suc next) (removeAll next fs) else (next, fs))"
  by pat_completeness auto
termination
  by (relation "measure (length \<circ> snd)") (auto intro: length_removeAll_less)

definition advance_completed :: "nat \<Rightarrow> server \<Rightarrow> server" where
  "advance_completed index s =
     (let fs = List.insert index (sv_finished s);
          next = (if sv_completed_index s < 0 then FIRST_COMMAND_INDEX else nat (sv_completed_index s) + 1);
          (stop, fs) = advance_loop next fs
      in s\<lparr>sv_finished := fs, sv_completed_index := (if stop = next then sv_completed_index s else int stop - 1)\<rparr>)"

section \<open>Cancellation\<close>

definition drop_active :: "server \<Rightarrow> (nat \<times> addr) list \<times> server" where
  "drop_active s =
     (let (planned, s) = (case sv_planning s of
            None \<Rightarrow> ([], s)
          | Some index \<Rightarrow>
              (let s = s\<lparr>sv_planning := None\<rparr> in
               case sv_pending s of
                 p # rest \<Rightarrow> if pe_index p = index then ([(pe_index p, pe_addr p)], s\<lparr>sv_pending := rest\<rparr>) else ([], s)
               | [] \<Rightarrow> ([], s)));
          (running, s) = (case sv_executing s of
            None \<Rightarrow> ([], s)
          | Some ex \<Rightarrow> ((xe_index ex, xe_addr ex) # xe_blended ex, s\<lparr>sv_executing := None, sv_action_state := Action_Idle\<rparr>));
          dropped = planned @ running
      in (dropped, if dropped \<noteq> [] then rt_do RC_discard_exec s else s))"

definition drop_pending :: "server \<Rightarrow> (nat \<times> addr) list \<times> server" where
  "drop_pending s = (map (\<lambda>p. (pe_index p, pe_addr p)) (sv_pending s), s\<lparr>sv_blend_hold := None, sv_pending := []\<rparr>)"

definition complete_one_cancelled :: "nat \<times> addr \<Rightarrow> server \<Rightarrow> server" where
  "complete_one_cancelled ia s = (case ia of (index, addr) \<Rightarrow>
     push_complete addr index (Some (make_error EC_MotnCancelled (int index))) None (advance_completed index s))"

definition complete_cancelled :: "(nat \<times> addr) list \<Rightarrow> server \<Rightarrow> server" where
  "complete_cancelled dropped s = fold complete_one_cancelled dropped s"

definition drop_tool_stops :: "server \<Rightarrow> (nat \<times> addr) list \<times> server" where
  "drop_tool_stops s =
     (if sv_tool_stops s = [] then ([], s)
      else (map (\<lambda>t. (ts_index t, ts_addr t)) (sv_tool_stops s), (plan_send PR_CancelTool s)\<lparr>sv_tool_stops := []\<rparr>))"

definition cancel_stream_if_any :: "server \<Rightarrow> server" where
  "cancel_stream_if_any s =
     (case sv_active_stream s of Some _ \<Rightarrow> rt_do RC_cancel_stream (s\<lparr>sv_active_stream := None\<rparr>) | None \<Rightarrow> s)"

definition drop_active_motion :: "server \<Rightarrow> (nat \<times> addr) list \<times> server" where
  "drop_active_motion s =
     (let s = plan_send (PR_Cancel True) s; (active, s) = drop_active s; (stops, s) = drop_tool_stops s;
          s = cancel_stream_if_any s
      in (active @ stops, rt_do RC_halt s))"

definition is_tool_action :: "command \<Rightarrow> bool" where
  "is_tool_action c \<longleftrightarrow> command_tag c = T_ToolAction"

definition drop_active_tool_action :: "server \<Rightarrow> (nat \<times> addr) list \<times> server" where
  "drop_active_tool_action s =
     (let (dropped, s) =
        (case sv_executing s of
           Some ex \<Rightarrow>
             if xe_tag ex = T_ToolAction
             then ((xe_index ex, xe_addr ex) # xe_blended ex, s\<lparr>sv_executing := None, sv_action_state := Action_Idle\<rparr>)
             else ([], s)
         | None \<Rightarrow> ([], s));
        (dropped, s) =
        (if dropped \<noteq> [] then (dropped, s)
         else case (sv_planning s, sv_pending s) of
             (Some index, p # rest) \<Rightarrow>
               if pe_index p = index \<and> is_tool_action (pe_cmd p)
               then ([(pe_index p, pe_addr p)], s\<lparr>sv_pending := rest, sv_planning := None\<rparr>) else ([], s)
           | _ \<Rightarrow> ([], s))
      in (dropped, if dropped \<noteq> [] then plan_send (PR_Cancel True) s else s))"

definition drop_planned :: "bool \<Rightarrow> server \<Rightarrow> (nat \<times> addr) list \<times> server" where
  "drop_planned halt_tool s =
     (let s = plan_send (PR_Cancel halt_tool) s; (active, s) = drop_active s; (pend, s) = drop_pending s
      in (active @ pend, s))"

definition cancel_active_motion :: "server \<Rightarrow> nat \<times> server" where
  "cancel_active_motion s = (case drop_active_motion s of (dropped, s) \<Rightarrow> (length dropped, complete_cancelled dropped s))"

definition cancel_all_motion :: "server \<Rightarrow> nat \<times> server" where
  "cancel_all_motion s =
     (let (active, s) = drop_active_motion s; (pend, s) = drop_pending s
      in (length (active @ pend), complete_cancelled (active @ pend) s))"

definition cancel_planned :: "bool \<Rightarrow> server \<Rightarrow> nat \<times> server" where
  "cancel_planned halt_tool s = (case drop_planned halt_tool s of (dropped, s) \<Rightarrow> (length dropped, complete_cancelled dropped s))"

definition clear_pause :: "server \<Rightarrow> server" where
  "clear_pause s = (if sv_execution_paused s then rt_do (RC_set_exec_paused False) (s\<lparr>sv_execution_paused := False\<rparr>) else s)"

section \<open>The view of the arm\<close>

definition take_snapshot :: "nat \<Rightarrow> arm_view option \<Rightarrow> server \<Rightarrow> server" where
  "take_snapshot now snap s = (case snap of
       None \<Rightarrow> s
     | Some v \<Rightarrow>
         s\<lparr>sv_snap := v, sv_last_fresh := Some now, sv_teleport_homed := (if av_homed v then False else sv_teleport_homed s)\<rparr>)"

definition refresh_snapshot :: "server_env \<Rightarrow> server \<Rightarrow> server" where
  "refresh_snapshot en = take_snapshot (ev_now en) (ev_snapshot en)"

definition data_age_ms :: "server_env \<Rightarrow> server \<Rightarrow> nat" where
  "data_age_ms en s = (case sv_last_fresh s of
       None \<Rightarrow> 65535
     | Some fresh \<Rightarrow>
         (let bus_ticks = Min (insert (2 ^ 64 - 1) (set (av_node_ages (sv_snap s)))) in
          if bus_ticks = 2 ^ 64 - 1 then 65535
          else
            (let tick_ms = f64_div (f64_of_nat 1000) (f64_max (sc_rt_tick_rate_hz (sv_cfg s)) f64_one);
                 bus_ms = f64_as_nat (f64_min (f64_mul (f64_of_nat bus_ticks) tick_ms) (f64_of_nat 65535)) (2 ^ 128 - 1)
             in min (bus_ms + (ev_now en - fresh)) 65535)))"

definition link_ok :: "server_env \<Rightarrow> server \<Rightarrow> bool" where
  "link_ok en s \<longleftrightarrow> data_age_ms en s \<le> sc_link_stale_ms (sv_cfg s)"

definition arm_braking :: "server \<Rightarrow> bool" where
  "arm_braking s = (case av_mode (sv_snap s) of
       M_Jog \<Rightarrow> True
     | M_Stream \<Rightarrow> True
     | M_Exec \<Rightarrow> av_exec_stopping (sv_snap s) \<or> 0 < av_exec_samples_remaining (sv_snap s)
     | _ \<Rightarrow> False)"

definition motion_in_flight :: "server \<Rightarrow> bool" where
  "motion_in_flight s \<longleftrightarrow> sv_executing s \<noteq> None \<or> sv_pending s \<noteq> [] \<or> sv_active_stream s \<noteq> None \<or> sv_tool_stops s \<noteq> []"

definition arm_at_rest :: "server \<Rightarrow> bool" where
  "arm_at_rest s \<longleftrightarrow> \<not> motion_in_flight s \<and> (case av_mode (sv_snap s) of
       M_Idle \<Rightarrow> True | M_ActiveError \<Rightarrow> True | M_Exec \<Rightarrow> \<not> arm_braking s | _ \<Rightarrow> False)"

section \<open>Held geometry\<close>

definition attachments_valid :: "server \<Rightarrow> bool" where
  "attachments_valid s = attachments_fresh (sv_shapes s) (sv_attachment_epoch s)"

definition invalidate_attachments :: "server \<Rightarrow> server" where
  "invalidate_attachments s =
     (let s = s\<lparr>sv_attachment_epoch := next_attachment_epoch (sv_attachment_epoch s)\<rparr>
      in if has_attachment (sv_shapes s)
         then s\<lparr>sv_attachment_stop_pending := True, sv_scene_epoch := sv_scene_epoch s + 1\<rparr> else s)"

definition attachment_error :: wire_error where
  "attachment_error = make_error EC_CommValidationError UNATTRIBUTED"

definition stop_invalid_attachments :: "server_env \<Rightarrow> server \<Rightarrow> server" where
  "stop_invalid_attachments en s =
     (let s = (if attachments_valid s \<and> has_attachment (sv_shapes s)
                  \<and> (av_state (sv_snap s) \<noteq> Arm_Enabled \<or> \<not> av_homed (sv_snap s) \<or> \<not> link_ok en s)
               then invalidate_attachments s else s)
      in if sv_attachment_stop_pending s
         then (snd (cancel_all_motion (s\<lparr>sv_attachment_stop_pending := False\<rparr>)))\<lparr>sv_standing_error := Some attachment_error\<rparr>
         else s)"

definition attachment_shapes_error :: "server_env \<Rightarrow> shape list \<Rightarrow> server \<Rightarrow> wire_error option" where
  "attachment_shapes_error en shapes s =
     (let attached = has_attachment shapes in
      if (attached \<or> has_attachment (sv_shapes s))
         \<and> (sv_executing s \<noteq> None \<or> sv_planning s \<noteq> None \<or> sv_active_stream s \<noteq> None \<or> sv_pending s \<noteq> [] \<or> sv_pending_shapes s \<noteq> [])
      then Some attachment_error
      else if attached \<and> (av_state (sv_snap s) \<noteq> Arm_Enabled \<or> \<not> av_homed (sv_snap s) \<or> \<not> link_ok en s)
      then Some attachment_error
      else if \<not> attachments_fresh shapes (sv_attachment_epoch s) then Some attachment_error
      else None)"

definition server_check_gate :: "cmd_type \<Rightarrow> server \<Rightarrow> wire_error option" where
  "server_check_gate tag s =
     (if is_arm_motion tag
         \<and> (\<not> attachments_valid s \<or> list_ex (\<lambda>(_, _, _, shapes). has_attachment shapes) (sv_pending_shapes s))
      then Some attachment_error
      else check_gate tag \<lparr>gc_estop_latched = sv_estop_latched s, gc_enabled = (av_state (sv_snap s) = Arm_Enabled),
             gc_homed = (av_homed (sv_snap s) \<or> sv_teleport_homed s), gc_simulator = sv_simulator s\<rparr>)"

section \<open>Standing errors\<close>

definition latch_refusal :: "wire_error \<Rightarrow> bool \<Rightarrow> server \<Rightarrow> server" where
  "latch_refusal e busy s =
     (let attributed = is_some_and (\<lambda>e. we_command_index e \<noteq> UNATTRIBUTED) (sv_standing_error s)
      in if busy \<or> attributed \<or> rt_standing_error (sv_snap s) \<noteq> None then s else s\<lparr>sv_standing_error := Some e\<rparr>)"

definition latch_faf_refusal :: "wire_error \<Rightarrow> server \<Rightarrow> server" where
  "latch_faf_refusal e s = latch_refusal e (motion_in_flight s) s"

definition latch_stream_refusal :: "wire_error \<Rightarrow> server \<Rightarrow> server" where
  "latch_stream_refusal e s = latch_refusal e (sv_executing s \<noteq> None \<or> sv_pending s \<noteq> []) s"

definition on_motion_accepted :: "server \<Rightarrow> server" where
  "on_motion_accepted s =
     (let s = (if sv_standing_error s \<noteq> None \<and> sv_action_state s = Action_Error then s\<lparr>sv_action_state := Action_Idle\<rparr> else s);
          s = s\<lparr>sv_standing_error := None\<rparr>
      in rt_do RC_clear_collision (plan_send PR_ClearCollision s))"

definition effective_error :: "server \<Rightarrow> wire_error option" where
  "effective_error s = (case rt_standing_error (sv_snap s) of Some e \<Rightarrow> Some e | None \<Rightarrow> sv_standing_error s)"

section \<open>The queue engine\<close>

definition holding_for_blend :: "server_env \<Rightarrow> server \<Rightarrow> bool \<times> server" where
  "holding_for_blend en s =
     (let wants_more = length (sv_pending s) < sc_blend_lookahead (sv_cfg s) \<and> sv_pending s \<noteq> []
            \<and> asks_to_blend (pe_cmd (last (sv_pending s)))
      in if \<not> wants_more then (False, s)
         else
           (let deadline = (case sv_blend_hold s of Some d \<Rightarrow> d | None \<Rightarrow> ev_now en + sc_blend_hold (sv_cfg s))
            in (ev_now en < deadline, s\<lparr>sv_blend_hold := Some deadline\<rparr>)))"

definition start_head :: "server \<Rightarrow> server" where
  "start_head s =
     (let s = s\<lparr>sv_blend_hold := None\<rparr>;
          batch = map (\<lambda>p. (pe_index p, pe_cmd p)) (take (max (sc_blend_lookahead (sv_cfg s)) 1) (sv_pending s))
      in plan_send (PR_Start batch) (s\<lparr>sv_planning := Some (fst (hd batch))\<rparr>))"

definition pump :: "server_env \<Rightarrow> server \<Rightarrow> server" where
  "pump en s =
     (let s = stop_invalid_attachments en s in
      if sv_execution_paused s \<or> f64_eq (av_exec_target_scale (sv_snap s)) f64_zero then s
      else if sv_executing s \<noteq> None \<or> sv_planning s \<noteq> None \<or> sv_active_stream s \<noteq> None then s
      else case sv_pending s of
        [] \<Rightarrow> s\<lparr>sv_blend_hold := None\<rparr>
      | p # _ \<Rightarrow>
          if is_tool_action (pe_cmd p) \<and> sv_tool_stops s \<noteq> [] then s
          else if ga_needs_enabled (gate_of (command_tag (pe_cmd p))) \<and> (sv_estop_latched s \<or> av_state (sv_snap s) \<noteq> Arm_Enabled) then s
          else if waits_for_rest (command_tag (pe_cmd p)) \<and> arm_braking s then s
          else (case holding_for_blend en s of (hold, s) \<Rightarrow> if hold then s else start_head s))"

definition fail_command :: "nat \<Rightarrow> addr \<Rightarrow> (nat \<times> addr) list \<Rightarrow> wire_error \<Rightarrow> server \<Rightarrow> server" where
  "fail_command index addr blended e s =
     (let e = e\<lparr>we_command_index := int index\<rparr>;
          s = (advance_completed index s)\<lparr>sv_standing_error := Some e, sv_action_state := Action_Error\<rparr>;
          (pend, s) = drop_pending s
      in complete_cancelled (blended @ pend) (push_complete addr index (Some e) None s))"

definition on_plan_started :: "nat \<Rightarrow> nat \<Rightarrow> server \<Rightarrow> server" where
  "on_plan_started index taken s =
     (if sv_planning s \<noteq> Some index then s
      else
        (let s = s\<lparr>sv_planning := None\<rparr> in
         case sv_pending s of
           [] \<Rightarrow> s
         | p # rest \<Rightarrow>
             (let n = min (max taken 1) (1 + length rest) - 1
              in s\<lparr>sv_pending := drop n rest, sv_action_state := Action_Executing,
                   sv_executing := Some \<lparr>xe_index = pe_index p, xe_addr = pe_addr p, xe_tag = command_tag (pe_cmd p),
                     xe_effect = post_effect_of (pe_cmd p), xe_blended = map (\<lambda>q. (pe_index q, pe_addr q)) (take n rest)\<rparr>\<rparr>)))"

definition on_plan_rejected :: "nat \<Rightarrow> wire_error \<Rightarrow> server \<Rightarrow> server" where
  "on_plan_rejected index e s =
     (if sv_planning s \<noteq> Some index then s
      else
        (let s = s\<lparr>sv_planning := None\<rparr> in
         case sv_pending s of
           [] \<Rightarrow> s
         | p # rest \<Rightarrow> fail_command (pe_index p) (pe_addr p) [] e (s\<lparr>sv_pending := rest\<rparr>)))"

definition adopt_tool_selection :: "bytes \<Rightarrow> bytes option \<Rightarrow> server \<Rightarrow> server" where
  "adopt_tool_selection name variant s =
     (let (tool, k) = config_fit_tool name (sv_cfg s);
          s = s\<lparr>sv_cfg := k\<rparr>;
          s = (if variant \<noteq> sv_tool_variant s \<or> tool \<noteq> sv_tool s
               then (invalidate_attachments s)\<lparr>sv_tcp_offset_mm := replicate 3 f64_zero, sv_tcp_rotation_deg := replicate 3 f64_zero\<rparr>
               else s)
      in sync_planner (s\<lparr>sv_tool_variant := variant, sv_tool := tool\<rparr>))"

definition apply_post_effect :: "post_effect \<Rightarrow> server \<Rightarrow> server" where
  "apply_post_effect effect s = (case effect of
       PE_None \<Rightarrow> s
     | PE_Checkpoint label \<Rightarrow> s\<lparr>sv_last_checkpoint := label\<rparr>
     | PE_SelectTool tool variant \<Rightarrow> adopt_tool_selection tool variant s
     | PE_TcpTransform v \<Rightarrow> sync_planner (s\<lparr>sv_tcp_offset_mm := take 3 v, sv_tcp_rotation_deg := drop 3 v\<rparr>)
     | PE_WriteIo port value \<Rightarrow> rt_do (RC_write_io port value) s)"

definition complete_ok :: "nat \<times> addr \<Rightarrow> server \<Rightarrow> server" where
  "complete_ok ia s = (case ia of (index, addr) \<Rightarrow> push_complete addr index None None (advance_completed index s))"

definition on_outcome :: "command_outcome \<Rightarrow> server \<Rightarrow> server" where
  "on_outcome out s = (case sv_executing s of
       None \<Rightarrow> s
     | Some ex \<Rightarrow>
         if xe_index ex \<noteq> co_index out then s
         else
           (let s = s\<lparr>sv_executing := None\<rparr> in
            case co_error out of
              None \<Rightarrow>
                (let s = (advance_completed (xe_index ex) s)\<lparr>sv_action_state := Action_Idle\<rparr>;
                     s = apply_post_effect (xe_effect ex) s;
                     s = push_complete (xe_addr ex) (xe_index ex) None (co_verdict out) s
                 in fold complete_ok (xe_blended ex) s)
            | Some e \<Rightarrow> fail_command (xe_index ex) (xe_addr ex) (xe_blended ex) e s))"

section \<open>Tool stops\<close>

definition finish_tool_stop :: "wire_error option \<Rightarrow> u8 option \<Rightarrow> tool_stop \<Rightarrow> server \<Rightarrow> server" where
  "finish_tool_stop e vd stop s =
     (let s = advance_completed (ts_index stop) s in
      case e of
        Some e \<Rightarrow>
          (let e = e\<lparr>we_command_index := int (ts_index stop)\<rparr>
           in push_complete (ts_addr stop) (ts_index stop) (Some e) None
                (s\<lparr>sv_standing_error := Some e, sv_action_state := Action_Error\<rparr>))
      | None \<Rightarrow> push_complete (ts_addr stop) (ts_index stop) None vd s)"

definition start_tool_stop :: "nat \<Rightarrow> addr \<Rightarrow> tool_action \<Rightarrow> server \<Rightarrow> server" where
  "start_tool_stop index addr cmd s =
     (let (dropped, s) = drop_active_tool_action s; s = complete_cancelled dropped s; (tag, s) = next_tag s;
          s = s\<lparr>sv_tool_stops := sv_tool_stops s @ [\<lparr>ts_index = index, ts_addr = addr, ts_tag = Some tag\<rparr>]\<rparr>
      in plan_send (PR_StartTool tag index cmd) s)"

text \<open>\<open>iter().position(p)\<close>, then the entry and the list without it.\<close>

fun split_first :: "('a \<Rightarrow> bool) \<Rightarrow> 'a list \<Rightarrow> ('a list \<times> 'a \<times> 'a list) option" where
  "split_first p [] = None"
| "split_first p (x # xs) = (if p x then Some ([], x, xs) else map_option (\<lambda>(as, y, bs). (x # as, y, bs)) (split_first p xs))"

definition on_tool_started :: "server_env \<Rightarrow> nat \<Rightarrow> wire_error + unit \<Rightarrow> server \<Rightarrow> server" where
  "on_tool_started en tag result s = (case split_first (\<lambda>t. ts_tag t = Some tag) (sv_tool_stops s) of
       None \<Rightarrow> s
     | Some (before, stop, behind) \<Rightarrow>
         (case result of
            Inr _ \<Rightarrow> s\<lparr>sv_tool_stops := before @ stop\<lparr>ts_tag := None\<rparr> # behind\<rparr>
          | Inl e \<Rightarrow> pump en (finish_tool_stop (Some e) None stop (s\<lparr>sv_tool_stops := before @ behind\<rparr>))))"

definition on_tool_outcome :: "server_env \<Rightarrow> command_outcome \<Rightarrow> server \<Rightarrow> server" where
  "on_tool_outcome en out s = (case split_first (\<lambda>t. ts_index t = co_index out \<and> ts_tag t = None) (sv_tool_stops s) of
       None \<Rightarrow> s
     | Some (before, stop, behind) \<Rightarrow>
         pump en (fold (finish_tool_stop (co_error out) (co_verdict out)) (before @ [stop]) (s\<lparr>sv_tool_stops := behind\<rparr>)))"

end
