(* ===== verification/Server_Handlers.thy ===== *)
theory Server_Handlers
  imports Server
begin

text \<open>
  The handlers of the command server (\<open>par6-server/src/server.rs\<close>): one per command class, the
  verdicts that arrive later, the housekeeping poll, the STATUS schedule and the routing of a
  datagram. \<open>server_step\<close> is one turn of the task's loop.
\<close>

section \<open>Queries\<close>

primrec cmd_name :: "cmd_type \<Rightarrow> string" where
  "cmd_name T_Reset = ''reset''"
| "cmd_name T_Estop = ''estop''"
| "cmd_name T_SetGravityComp = ''set_gravity_comp''"
| "cmd_name T_Pause = ''pause''"
| "cmd_name T_SetExecutionSpeed = ''set_execution_speed''"
| "cmd_name T_ExecutionSpeed = ''execution_speed''"
| "cmd_name T_Stop = ''stop''"
| "cmd_name T_WriteIo = ''write_io''"
| "cmd_name T_Simulator = ''simulator''"
| "cmd_name T_SelectProfile = ''select_profile''"
| "cmd_name T_ResetState = ''reset_state''"
| "cmd_name T_ConnectHardware = ''connect_hardware''"
| "cmd_name T_SetTcpOffset = ''set_tcp_offset''"
| "cmd_name T_SetTcpTransform = ''set_tcp_transform''"
| "cmd_name T_SetPayload = ''set_payload''"
| "cmd_name T_SetShapes = ''set_shapes''"
| "cmd_name T_SetCompletionPolicy = ''set_completion_policy''"
| "cmd_name T_EnterFlashing = ''enter_flashing''"
| "cmd_name T_ExitFlashing = ''exit_flashing''"
| "cmd_name T_SetPidGains = ''set_pid_gains''"
| "cmd_name T_SetCanId = ''set_can_id''"
| "cmd_name T_SaveConfig = ''save_config''"
| "cmd_name T_SetToolId = ''set_tool_id''"
| "cmd_name T_SetStatusRate = ''set_status_rate''"
| "cmd_name T_StatusRate = ''status_rate''"
| "cmd_name T_BusScan = ''bus_scan''"
| "cmd_name T_Ping = ''ping''"
| "cmd_name T_Status = ''status''"
| "cmd_name T_Angles = ''angles''"
| "cmd_name T_Pose = ''pose''"
| "cmd_name T_Io = ''io''"
| "cmd_name T_Speeds = ''speeds''"
| "cmd_name T_Tools = ''tools''"
| "cmd_name T_Queue = ''queue''"
| "cmd_name T_Activity = ''activity''"
| "cmd_name T_LoopStats = ''loop_stats''"
| "cmd_name T_Profile = ''profile''"
| "cmd_name T_Reachable = ''reachable''"
| "cmd_name T_Error = ''error''"
| "cmd_name T_TcpSpeed = ''tcp_speed''"
| "cmd_name T_TcpOffset = ''tcp_offset''"
| "cmd_name T_TcpTransform = ''tcp_transform''"
| "cmd_name T_CommandCompletion = ''command_completion''"
| "cmd_name T_ToolStatus = ''tool_status''"
| "cmd_name T_IsSimulator = ''is_simulator''"
| "cmd_name T_Shapes = ''shapes''"
| "cmd_name T_ConfigInfo = ''config_info''"
| "cmd_name T_ConfigBundle = ''config_bundle''"
| "cmd_name T_Payload = ''payload''"
| "cmd_name T_ServoJ = ''servo_j''"
| "cmd_name T_ServoJPose = ''servo_j''"
| "cmd_name T_ServoL = ''servo_l''"
| "cmd_name T_JogJ = ''jog_j''"
| "cmd_name T_JogL = ''jog_l''"
| "cmd_name T_Teleport = ''teleport''"
| "cmd_name T_ResetLoopStats = ''reset_loop_stats''"
| "cmd_name T_Home = ''home''"
| "cmd_name T_MoveJ = ''move_j''"
| "cmd_name T_MoveJPose = ''move_j''"
| "cmd_name T_MoveL = ''move_l''"
| "cmd_name T_MoveC = ''move_c''"
| "cmd_name T_MoveS = ''move_s''"
| "cmd_name T_MoveP = ''move_p''"
| "cmd_name T_SelectTool = ''select_tool''"
| "cmd_name T_Delay = ''delay''"
| "cmd_name T_Checkpoint = ''checkpoint''"
| "cmd_name T_ToolAction = ''tool_action''"

definition stream_shown :: "server \<Rightarrow> string option" where
  "stream_shown s = (case sv_active_stream s of
       Some tag \<Rightarrow> (if av_mode (sv_snap s) \<in> {M_Jog, M_Stream} then Some (cmd_name tag) else None)
     | None \<Rightarrow> None)"

text \<open>The action's name and state; the summary of its parameters is left out.\<close>

definition action_fields :: "server \<Rightarrow> string \<times> action_state" where
  "action_fields s = (case sv_executing s of
       Some ex \<Rightarrow> (cmd_name (xe_tag ex), Action_Executing)
     | None \<Rightarrow> (case stream_shown s of
          Some name \<Rightarrow> (name, Action_Executing)
        | None \<Rightarrow> if effective_error s \<noteq> None then ([], Action_Error) else ([], sv_action_state s)))"

definition executing_index :: "server \<Rightarrow> int" where
  "executing_index s = (case sv_executing s of Some ex \<Rightarrow> int (xe_index ex) | None \<Rightarrow> -1)"

definition tick_hz :: "server \<Rightarrow> f64" where
  "tick_hz s = f64_div f64_one (sc_tick_dt_s (sv_cfg s))"

definition completion_of :: "nat \<Rightarrow> server \<Rightarrow> query_result" where
  "completion_of index s = (case find (\<lambda>c. fst c = index) (rev (sv_completion_log s)) of
       Some (_, detail, vd) \<Rightarrow> QR_CommandCompletion index True (detail = None) detail vd
     | None \<Rightarrow> QR_CommandCompletion index False False None None)"

definition query_result_of :: "server_env \<Rightarrow> command \<Rightarrow> server \<Rightarrow> query_result" where
  "query_result_of en cmd s = (case cmd of
       C_Ping \<Rightarrow> QR_Ping (\<not> sv_simulator s \<and> link_ok en s)
     | C_Tools \<Rightarrow> QR_Tools (sv_tool s) (sc_tools (sv_cfg s))
     | C_Queue \<Rightarrow> QR_Queue (map (\<lambda>p. cmd_name (command_tag (pe_cmd p))) (sv_pending s))
         (executing_index s) (sv_completed_index s) (sv_last_checkpoint s)
     | C_Activity \<Rightarrow> (case action_fields s of (current, st) \<Rightarrow> QR_Activity current st
         (case sv_pending s of p # _ \<Rightarrow> cmd_name (command_tag (pe_cmd p)) | [] \<Rightarrow> []))
     | C_Profile \<Rightarrow> QR_Profile (sv_profile s)
     | C_Error \<Rightarrow> QR_Error (effective_error s)
     | C_TcpTransform \<Rightarrow> QR_TcpTransform (sv_tcp_offset_mm s @ sv_tcp_rotation_deg s)
     | C_CommandCompletion index \<Rightarrow> completion_of (unat index) s
     | C_TcpOffset \<Rightarrow> QR_TcpOffset (sv_tcp_offset_mm s)
     | C_IsSimulator \<Rightarrow> QR_IsSimulator (sv_simulator s)
     | C_Payload \<Rightarrow> QR_Payload (spl_mass (sv_payload s)) (spl_com (sv_payload s))
         (case spl_inertia (sv_payload s) of Some i \<Rightarrow> i | None \<Rightarrow> replicate 6 f64_zero)
     | C_StatusRate \<Rightarrow> QR_StatusRate (sv_status_rate_hz s) (tick_hz s) (servable_status_rates (tick_hz s))
     | C_Shapes \<Rightarrow> QR_Shapes (sc_installation_shapes (sv_cfg s)) (sv_shapes s) (sv_scene_epoch s) (sv_attachment_epoch s)
     | _ \<Rightarrow> QR_Readout (command_tag cmd))"

definition refresh_queue_estimate :: "server \<Rightarrow> server" where
  "refresh_queue_estimate s =
     (let key = ((case sv_pending s of p # _ \<Rightarrow> pe_index p | [] \<Rightarrow> 0), length (sv_pending s)) in
      if key = sv_queue_estimate_for s then s
      else (plan_send (PR_QueueEstimate (map (\<lambda>p. (pe_index p, pe_cmd p)) (sv_pending s))) s)\<lparr>sv_queue_estimate_for := key\<rparr>)"

text \<open>The bound on a CONFIG_BUNDLE reply depends on the configuration's texts and is left out.\<close>

definition on_query :: "server_env \<Rightarrow> u32 \<Rightarrow> command \<Rightarrow> addr \<Rightarrow> server \<Rightarrow> server" where
  "on_query en req_id cmd addr s = (case server_check_gate (command_tag cmd) s of
       Some e \<Rightarrow> reply_error addr req_id e s
     | None \<Rightarrow>
         if cmd = C_BusScan
         then (let s = rt_do RC_rescan_bus s
               in s\<lparr>sv_pending_scans := sv_pending_scans s @ [\<lparr>pn_req_id = req_id, pn_addr = addr,
                    pn_epoch = av_bus_scan_epoch (sv_snap s), pn_deadline = ev_now en + SCAN_REPLY_DEADLINE\<rparr>]\<rparr>)
         else (let s = refresh_queue_estimate s in send_reply addr (Rp_Response req_id (query_result_of en cmd s)) s))"

definition scan_ready :: "server_env \<Rightarrow> server \<Rightarrow> pending_scan \<Rightarrow> bool" where
  "scan_ready en s p \<longleftrightarrow> av_bus_scan_epoch (sv_snap s) \<noteq> pn_epoch p \<or> pn_deadline p \<le> ev_now en"

definition answer_scans :: "server_env \<Rightarrow> server \<Rightarrow> server" where
  "answer_scans en s =
     (let ready = filter (scan_ready en s) (sv_pending_scans s);
          s = s\<lparr>sv_pending_scans := filter (\<lambda>p. \<not> scan_ready en s p) (sv_pending_scans s)\<rparr>
      in fold (\<lambda>p. send_reply (pn_addr p) (Rp_Response (pn_req_id p) (QR_Readout T_BusScan))) ready s)"

section \<open>Verdicts that arrive later\<close>

definition outcome_reply :: "u32 \<Rightarrow> wire_error + unit \<Rightarrow> reply" where
  "outcome_reply req_id outcome = (case outcome of Inr _ \<Rightarrow> Rp_Ok req_id None | Inl e \<Rightarrow> Rp_Error req_id e)"

definition answer_waiters :: "(u32 \<times> addr) list \<Rightarrow> wire_error + unit \<Rightarrow> server \<Rightarrow> server" where
  "answer_waiters waiting outcome s = fold (\<lambda>(req_id, addr). send_reply addr (outcome_reply req_id outcome)) waiting s"

definition on_reset :: "u32 \<Rightarrow> addr \<Rightarrow> server \<Rightarrow> server" where
  "on_reset req_id addr s = (case waiters_push (sv_reset_waiters s) req_id addr of
       Inl e \<Rightarrow> reply_error addr req_id e s
     | Inr w \<Rightarrow>
         (let s = invalidate_attachments (s\<lparr>sv_reset_waiters := w\<rparr>)
          in rt_do (RC_set_enabled True) (s\<lparr>sv_estop_latched := False, sv_standing_error := None, sv_action_state := Action_Idle\<rparr>)))"

definition settle_enable :: "server_env \<Rightarrow> server \<Rightarrow> server" where
  "settle_enable en s = (case ev_enable_outcome en of
       None \<Rightarrow> s
     | Some outcome \<Rightarrow> (case take_waiters (sv_reset_waiters s) of (waiting, w) \<Rightarrow>
         if waiting = [] then s else answer_waiters waiting outcome (s\<lparr>sv_reset_waiters := w\<rparr>)))"

definition on_flashing :: "server_env \<Rightarrow> u32 \<Rightarrow> bool \<Rightarrow> addr \<Rightarrow> server \<Rightarrow> server" where
  "on_flashing en req_id enter addr s =
     (let s = stop_invalid_attachments en (take_snapshot (ev_now en) (ev_snapshot_again en) s) in
      if \<not> enter \<and> av_mode (sv_snap s) \<noteq> M_Flashing then reply_error addr req_id (make_error EC_CommValidationError UNATTRIBUTED) s
      else if enter \<and> \<not> arm_at_rest s then reply_error addr req_id (make_error EC_CommValidationError UNATTRIBUTED) s
      else case waiters_push (sv_flashing_waiters s) req_id addr of
        Inl e \<Rightarrow> reply_error addr req_id e s
      | Inr w \<Rightarrow> rt_do (if enter then RC_enter_flashing else RC_exit_flashing) (s\<lparr>sv_flashing_waiters := w\<rparr>))"

definition settle_flashing :: "server_env \<Rightarrow> server \<Rightarrow> server" where
  "settle_flashing en s = (case ev_flashing_outcome en of
       None \<Rightarrow> s
     | Some outcome \<Rightarrow> (case take_waiters (sv_flashing_waiters s) of (waiting, w) \<Rightarrow>
         answer_waiters waiting outcome (s\<lparr>sv_flashing_waiters := w\<rparr>)))"

definition on_bus_swap :: "server_env \<Rightarrow> u32 \<Rightarrow> rt_call \<Rightarrow> bool \<Rightarrow> addr \<Rightarrow> server \<Rightarrow> server" where
  "on_bus_swap en req_id call simulator addr s =
     (let s = snd (cancel_all_motion (invalidate_attachments s)); s = rt_do call s in
      case ev_swap en of
        Inl e \<Rightarrow> reply_error addr req_id e s
      | Inr _ \<Rightarrow>
          (let s = s\<lparr>sv_pending_simulator := Some simulator\<rparr> in
           case waiters_push (sv_bus_waiters s) req_id addr of
             Inl e \<Rightarrow> reply_error addr req_id e s
           | Inr w \<Rightarrow> s\<lparr>sv_bus_waiters := w\<rparr>))"

definition settle_bus :: "server_env \<Rightarrow> server \<Rightarrow> server" where
  "settle_bus en s = (case ev_bus_outcome en of
       None \<Rightarrow> s
     | Some outcome \<Rightarrow>
         (let s = (case sv_pending_simulator s of
                Some simulator \<Rightarrow> s\<lparr>sv_pending_simulator := None, sv_simulator := (case outcome of Inr _ \<Rightarrow> simulator | Inl _ \<Rightarrow> sv_simulator s)\<rparr>
              | None \<Rightarrow> s)
          in case take_waiters (sv_bus_waiters s) of (waiting, w) \<Rightarrow> answer_waiters waiting outcome (s\<lparr>sv_bus_waiters := w\<rparr>)))"

definition request_boot_enable :: "server \<Rightarrow> server" where
  "request_boot_enable s =
     (if sv_booted s \<or> av_mode (sv_snap s) = M_Booting then s else rt_do (RC_set_enabled True) (s\<lparr>sv_booted := True\<rparr>))"

definition defer_program_shapes :: "u32 \<Rightarrow> addr \<Rightarrow> shape list \<Rightarrow> server \<Rightarrow> server" where
  "defer_program_shapes req_id addr shapes s =
     (let (tag, s) = next_tag s; s = s\<lparr>sv_pending_shapes := sv_pending_shapes s @ [(tag, req_id, addr, shapes)]\<rparr>
      in plan_send (PR_SetShapes tag Layer_Program shapes) s)"

definition on_shapes_applied :: "server_env \<Rightarrow> nat \<Rightarrow> wire_error + nat option \<Rightarrow> server \<Rightarrow> server" where
  "on_shapes_applied en tag result s = (case map_of (sv_pending_shapes s) tag of
       None \<Rightarrow> s
     | Some (req_id, addr, shapes) \<Rightarrow>
         (let s = s\<lparr>sv_pending_shapes := AList.delete tag (sv_pending_shapes s)\<rparr> in
          case result of
            Inl e \<Rightarrow> reply_error addr req_id e s
          | Inr epoch \<Rightarrow>
              (let s = s\<lparr>sv_scene_epoch := (case epoch of Some e \<Rightarrow> max e (sv_scene_epoch s + 1) | None \<Rightarrow> sv_scene_epoch s + 1)\<rparr>;
                   s = rt_do (RC_set_shapes Layer_Program shapes) s;
                   s = (case ev_set_shapes en of Inr _ \<Rightarrow> s\<lparr>sv_shapes := shapes\<rparr> | Inl _ \<Rightarrow> s)
               in send_reply addr (outcome_reply req_id (ev_set_shapes en)) s)))"

definition on_reset_state :: "u32 \<Rightarrow> addr \<Rightarrow> server \<Rightarrow> server" where
  "on_reset_state req_id addr s =
     (let s = snd (cancel_all_motion (invalidate_attachments s));
          s = s\<lparr>sv_last_checkpoint := [], sv_standing_error := None, sv_action_state := Action_Idle,
                sv_tool := sc_fitted_tool (sv_cfg s), sv_tool_variant := None,
                sv_tcp_offset_mm := replicate 3 f64_zero, sv_tcp_rotation_deg := replicate 3 f64_zero,
                sv_completion_policy := Policy_Settled, sv_profile := sc_initial_profile (sv_cfg s)\<rparr>;
          s = sync_planner (rt_do RC_reset_state (clear_pause s))
      in defer_program_shapes req_id addr [] s)"

section \<open>System commands\<close>

definition commissioning_gate :: "u8 \<Rightarrow> bool \<Rightarrow> server \<Rightarrow> wire_error + unit" where
  "commissioning_gate node force s =
     (if \<not> arm_at_rest s then Inl (make_error EC_CommValidationError UNATTRIBUTED)
      else if \<not> force \<and> \<not> list_ex (\<lambda>t. tn_node t = node) (sc_tunable_nodes (sv_cfg s))
      then Inl (make_error EC_CommValidationError UNATTRIBUTED)
      else Inr ())"

text \<open>At most \<open>DRAIN_LIMIT\<close> datagrams leave the socket; those of the superseded stream are dropped.\<close>

definition of_stream :: "cmd_type \<Rightarrow> bytes \<times> addr \<Rightarrow> bool" where
  "of_stream superseded d = (case peek_tag (fst d) of Inr t \<Rightarrow> cmd_type_from_wire t = Some superseded | Inl _ \<Rightarrow> False)"

definition drain_stream_backlog :: "server_env \<Rightarrow> cmd_type \<Rightarrow> server \<Rightarrow> server" where
  "drain_stream_backlog en superseded s =
     s\<lparr>sv_deferred := sv_deferred s @ filter (\<lambda>d. \<not> of_stream superseded d) (take DRAIN_LIMIT (ev_backlog en))\<rparr>"

definition on_estop :: "server \<Rightarrow> server" where
  "on_estop s =
     (let s = rt_do (RC_set_enabled False) (s\<lparr>sv_estop_latched := True\<rparr>);
          s = s\<lparr>sv_standing_error := Some (make_error EC_SysEstopActive UNATTRIBUTED)\<rparr>
      in clear_pause (snd (cancel_all_motion s)))"

definition on_stop :: "bool \<Rightarrow> server \<Rightarrow> server" where
  "on_stop clear_queue s =
     (let (dropped, s) = (if clear_queue then cancel_all_motion s else cancel_active_motion s);
          s = (if clear_queue then clear_pause s else s)
      in if clear_queue \<and> 0 < dropped then s\<lparr>sv_standing_error := Some (make_error EC_MotnCancelled UNATTRIBUTED)\<rparr> else s)"

definition on_teleport :: "server_env \<Rightarrow> teleport \<Rightarrow> server \<Rightarrow> (wire_error + unit) \<times> server" where
  "on_teleport en p s = (case validate_supported (sv_cfg s) (C_Teleport p) of
       Some e \<Rightarrow> (Inl e, s)
     | None \<Rightarrow>
         (let s = (case sv_active_stream s of
                Some superseded \<Rightarrow> drain_stream_backlog en superseded (rt_do RC_cancel_stream (s\<lparr>sv_active_stream := None\<rparr>))
              | None \<Rightarrow> s);
              s = snd (cancel_planned (tp_tool_positions p = None) s);
              s = rt_do (RC_teleport (tp_angles p) (tp_tool_positions p)) s
          in (Inr (), on_motion_accepted (s\<lparr>sv_teleport_homed := True\<rparr>))))"

definition on_select_profile :: "bytes \<Rightarrow> server \<Rightarrow> (wire_error + unit) \<times> server" where
  "on_select_profile profile s = (case find (\<lambda>x. eq_ignore_ascii_case x profile) (sc_profiles (sv_cfg s)) of
       Some name \<Rightarrow> (Inr (), sync_planner (s\<lparr>sv_profile := name\<rparr>))
     | None \<Rightarrow> (Inl (make_error EC_SysProfileInvalid UNATTRIBUTED), s))"

definition on_set_tool_id :: "set_tool_id \<Rightarrow> server \<Rightarrow> (wire_error + unit) \<times> server" where
  "on_set_tool_id p s = (case commissioning_gate (sti_node p) (sti_force p) s of
       Inl e \<Rightarrow> (Inl e, s)
     | Inr _ \<Rightarrow>
         if sti_force p \<or> sti_tool_id p = 0 \<or> sti_tool_id p \<in> set (sc_tool_ids (sv_cfg s))
         then (Inr (), rt_do (RC_set_tool_id (sti_node p) (sti_tool_id p)) s)
         else (Inl (make_error EC_CommValidationError UNATTRIBUTED), s))"

definition guarded :: "wire_error option \<Rightarrow> (server \<Rightarrow> server) \<Rightarrow> server \<Rightarrow> (wire_error + unit) \<times> server" where
  "guarded fault f s = (case fault of Some e \<Rightarrow> (Inl e, s) | None \<Rightarrow> (Inr (), f s))"

definition commissioned :: "u8 \<Rightarrow> bool \<Rightarrow> rt_call \<Rightarrow> server \<Rightarrow> (wire_error + unit) \<times> server" where
  "commissioned node force call s = (case commissioning_gate node force s of Inl e \<Rightarrow> (Inl e, s) | Inr _ \<Rightarrow> (Inr (), rt_do call s))"

text \<open>The match that ends in one reply. Other commands do not come here.\<close>

definition system_effect :: "server_env \<Rightarrow> command \<Rightarrow> server \<Rightarrow> (wire_error + unit) \<times> server" where
  "system_effect en cmd s = (case cmd of
       C_Estop \<Rightarrow> (Inr (), on_estop s)
     | C_SetExecutionSpeed scale \<Rightarrow> (Inr (), rt_do (RC_set_exec_speed scale) s)
     | C_Pause on \<Rightarrow> (Inr (), rt_do (RC_set_exec_paused on) (s\<lparr>sv_execution_paused := on\<rparr>))
     | C_SetGravityComp on \<Rightarrow> (Inr (), rt_do (RC_set_gravity_comp on) s)
     | C_Stop clear_queue \<Rightarrow> (Inr (), on_stop clear_queue s)
     | C_Teleport p \<Rightarrow> on_teleport en p s
     | C_SelectProfile p \<Rightarrow> on_select_profile p s
     | C_SetPayload p \<Rightarrow> (Inr (), sync_planner (rt_do (RC_set_payload p) (s\<lparr>sv_payload := p\<rparr>)))
     | C_SetPidGains p \<Rightarrow> guarded (pid_gains_fault p (sv_cfg s)) (rt_do (RC_set_pid_gains p)) s
     | C_SetCanId p \<Rightarrow> commissioned (sci_node p) (sci_force p) (RC_set_can_id (sci_node p) (sci_new_id p)) s
     | C_SaveConfig p \<Rightarrow> commissioned (svc_node p) (svc_force p) (RC_save_config (svc_node p)) s
     | C_SetToolId p \<Rightarrow> on_set_tool_id p s
     | C_SetStatusRate hz \<Rightarrow> guarded (status_rate_fault (tick_hz s) hz)
         (\<lambda>s. s\<lparr>sv_status_rate_hz := f64_as_nat hz (2 ^ 32 - 1)\<rparr>) s
     | C_SetCompletionPolicy p \<Rightarrow> (Inr (), sync_planner (s\<lparr>sv_completion_policy := p\<rparr>))
     | _ \<Rightarrow> (Inr (), s))"

definition on_system :: "server_env \<Rightarrow> u32 \<Rightarrow> command \<Rightarrow> addr \<Rightarrow> server \<Rightarrow> server" where
  "on_system en req_id cmd addr s = (case server_check_gate (command_tag cmd) s of
       Some e \<Rightarrow> reply_error addr req_id e s
     | None \<Rightarrow> (case cmd of
          C_Reset \<Rightarrow> on_reset req_id addr s
        | C_ResetState \<Rightarrow> on_reset_state req_id addr s
        | C_SetShapes shapes \<Rightarrow> (case attachment_shapes_error en shapes s of
             Some e \<Rightarrow> reply_error addr req_id e s
           | None \<Rightarrow> defer_program_shapes req_id addr shapes s)
        | C_EnterFlashing _ \<Rightarrow> on_flashing en req_id True addr s
        | C_ExitFlashing \<Rightarrow> on_flashing en req_id False addr s
        | C_Simulator on \<Rightarrow> on_bus_swap en req_id (RC_set_simulator on) on addr s
        | C_ConnectHardware port \<Rightarrow> on_bus_swap en req_id (RC_connect_hardware port) False addr s
        | _ \<Rightarrow> (case system_effect en cmd s of (result, s) \<Rightarrow> send_reply addr (outcome_reply req_id result) s)))"

section \<open>Streaming commands\<close>

definition stream_in_place :: "server_env \<Rightarrow> command \<Rightarrow> server \<Rightarrow> bool \<times> server" where
  "stream_in_place en cmd s =
     (let s = rt_do (RC_stream cmd) s in
      case ev_stream en of
        Inr _ \<Rightarrow> (False, s)
      | Inl _ \<Rightarrow> (True, (rt_do RC_stop_refused_stream s)
          \<lparr>sv_active_stream := (if ev_stop_refused en then sv_active_stream s else None)\<rparr>))"

definition preempt_stream :: "server_env \<Rightarrow> server \<Rightarrow> server" where
  "preempt_stream en s = (case sv_active_stream s of
       Some superseded \<Rightarrow>
         (let s = s\<lparr>sv_active_stream := None\<rparr>; s = (if ev_refusal_before en then s else rt_do RC_cancel_stream s)
          in drain_stream_backlog en superseded s)
     | None \<Rightarrow> s)"

definition stream_afresh :: "server_env \<Rightarrow> cmd_type \<Rightarrow> command \<Rightarrow> server \<Rightarrow> bool \<times> server" where
  "stream_afresh en tag cmd s =
     (let (dropped, s) = drop_planned True (preempt_stream en s); s = rt_do (RC_stream cmd) s;
          (refused, s) = (case ev_stream en of
             Inr _ \<Rightarrow> (False, s\<lparr>sv_active_stream := Some tag\<rparr>)
           | Inl _ \<Rightarrow> if ev_refusal_after en then (True, s\<lparr>sv_active_stream := Some tag\<rparr>) else (False, s))
      in (refused, complete_cancelled dropped s))"

definition on_faf :: "server_env \<Rightarrow> u32 \<Rightarrow> command \<Rightarrow> addr \<Rightarrow> server \<Rightarrow> server" where
  "on_faf en req_id cmd addr s =
     (let tag = command_tag cmd in
      if tag = T_ResetLoopStats then rt_do RC_reset_loop_stats s
      else
        (case (case server_check_gate tag s of Some e \<Rightarrow> Some e | None \<Rightarrow> validate_supported (sv_cfg s) cmd) of
           Some e \<Rightarrow> reply_error addr req_id e (latch_faf_refusal e s)
         | None \<Rightarrow>
             (let (refused_in_place, s) = (if sv_active_stream s = Some tag then stream_in_place en cmd s else stream_afresh en tag cmd s)
              in case ev_stream en of
                   Inr _ \<Rightarrow> on_motion_accepted s
                 | Inl e \<Rightarrow> reply_error addr req_id e
                     (if refused_in_place then latch_stream_refusal e s else latch_faf_refusal e s))))"

section \<open>Queued commands\<close>

definition tool_ahead :: "server \<Rightarrow> bytes option" where
  "tool_ahead s = (case List.map_filter (\<lambda>p. case pe_cmd p of C_SelectTool t \<Rightarrow> Some (slt_tool_name t) | _ \<Rightarrow> None) (rev (sv_pending s)) of
       tool # _ \<Rightarrow> Some tool
     | [] \<Rightarrow> (case sv_executing s of
          Some ex \<Rightarrow> (case xe_effect ex of PE_SelectTool tool _ \<Rightarrow> Some tool | _ \<Rightarrow> None)
        | None \<Rightarrow> None))"

definition validate_all :: "server_config \<Rightarrow> command \<Rightarrow> wire_error option" where
  "validate_all k cmd = (case validate_registries k cmd of Some e \<Rightarrow> Some e | None \<Rightarrow> validate_supported k cmd)"

definition validate_queued :: "command \<Rightarrow> server \<Rightarrow> wire_error option" where
  "validate_queued cmd s =
     validate_all (case tool_ahead s of Some tool \<Rightarrow> snd (config_fit_tool tool (sv_cfg s)) | None \<Rightarrow> sv_cfg s) cmd"

definition tool_stop_of :: "command \<Rightarrow> tool_action option" where
  "tool_stop_of cmd = (case cmd of C_ToolAction p \<Rightarrow> (if ta_action p = bytes_of ''stop'' then Some p else None) | _ \<Rightarrow> None)"

text \<open>The refusal a queued command earns, in the order the checks run.\<close>

definition queued_refusal :: "command \<Rightarrow> server \<Rightarrow> wire_error option" where
  "queued_refusal cmd s = (case server_check_gate (command_tag cmd) s of
       Some e \<Rightarrow> Some e
     | None \<Rightarrow>
         (case (if tool_stop_of cmd \<noteq> None then validate_all (sv_cfg s) cmd else validate_queued cmd s) of
            Some e \<Rightarrow> Some e
          | None \<Rightarrow> if tool_stop_of cmd = None \<and> sc_queue_capacity (sv_cfg s) \<le> length (sv_pending s)
              then Some (make_error EC_CommQueueFull UNATTRIBUTED) else None))"

definition accept_index :: "u64 \<Rightarrow> server \<Rightarrow> nat \<times> server" where
  "accept_index key s =
     (let index = sv_next_index s
      in (index, s\<lparr>sv_next_index := index + 1, sv_dedup := dedup_insert key index (sv_dedup s), sv_accepted_index := int index\<rparr>))"

definition enqueue :: "server_env \<Rightarrow> u32 \<Rightarrow> u64 \<Rightarrow> command \<Rightarrow> addr \<Rightarrow> server \<Rightarrow> server" where
  "enqueue en req_id key cmd addr s =
     (let (index, s) = accept_index key s; s = on_motion_accepted s in
      case tool_stop_of cmd of
        Some p \<Rightarrow> start_tool_stop index addr p (send_reply addr (Rp_Ok req_id (Some index)) s)
      | None \<Rightarrow>
          (let s = cancel_stream_if_any s;
               s = s\<lparr>sv_pending := sv_pending s @ [\<lparr>pe_index = index, pe_cmd = cmd, pe_addr = addr\<rparr>]\<rparr>
           in pump en (send_reply addr (Rp_Ok req_id (Some index)) s)))"

definition on_queued :: "server_env \<Rightarrow> u32 \<Rightarrow> command \<Rightarrow> addr \<Rightarrow> server \<Rightarrow> server" where
  "on_queued en req_id cmd addr s = (case idempotency_key cmd of
       None \<Rightarrow> s
     | Some key \<Rightarrow> (case dedup_get (sv_dedup s) key of
          Some index \<Rightarrow> send_reply addr (Rp_Ok req_id (Some index)) s
        | None \<Rightarrow> (case queued_refusal cmd s of
             Some e \<Rightarrow> reply_error addr req_id e s
           | None \<Rightarrow> enqueue en req_id key cmd addr s)))"

section \<open>Datagrams\<close>

definition dispatch_command :: "server_env \<Rightarrow> u32 \<Rightarrow> command \<Rightarrow> addr \<Rightarrow> server \<Rightarrow> server" where
  "dispatch_command en req_id cmd addr s = (case command_class (command_tag cmd) of
       Class_Query \<Rightarrow> on_query en req_id cmd addr s
     | Class_System \<Rightarrow> on_system en req_id cmd addr s
     | Class_FireAndForget \<Rightarrow> on_faf en req_id cmd addr s
     | Class_Queued \<Rightarrow> on_queued en req_id cmd addr s)"

definition req_id_of :: "bytes \<Rightarrow> u32" where
  "req_id_of data = (case peek_req_id data of Some r \<Rightarrow> r | None \<Rightarrow> 0)"

definition on_command_bytes :: "server_env \<Rightarrow> bytes \<Rightarrow> addr \<Rightarrow> server \<Rightarrow> server" where
  "on_command_bytes en data addr s = (case decode_command data of
       Inr (req_id, cmd) \<Rightarrow> dispatch_command en req_id cmd addr s
     | Inl e \<Rightarrow> reply_error addr (req_id_of data) (decode_error_to_wire e) s)"

definition on_chunk :: "server_env \<Rightarrow> bytes \<Rightarrow> addr \<Rightarrow> server \<Rightarrow> server" where
  "on_chunk en data addr s = (case decode_chunk data of
       Inl e \<Rightarrow> reply_error addr (req_id_of data) (decode_error_to_wire e) s
     | Inr c \<Rightarrow>
         (let i = ck_transfer_id c; s = s\<lparr>sv_transfer_addrs := (sv_transfer_addrs s)(i \<mapsto> addr)\<rparr> in
          case push (sv_reassembler s) c (ev_now en) of
            (Inr None, r) \<Rightarrow> s\<lparr>sv_reassembler := r\<rparr>
          | (Inr (Some a), r) \<Rightarrow>
              on_command_bytes en (as_payload a) addr (s\<lparr>sv_reassembler := r, sv_transfer_addrs := (sv_transfer_addrs s)(i := None)\<rparr>)
          | (Inl _, r) \<Rightarrow> reply_error addr (ck_req_id c) (make_error EC_CommDecodeError UNATTRIBUTED)
              (s\<lparr>sv_reassembler := r, sv_transfer_addrs := (sv_transfer_addrs s)(i := None)\<rparr>)))"

definition expire_one :: "expired \<Rightarrow> server \<Rightarrow> server" where
  "expire_one x s = (case sv_transfer_addrs s (ex_transfer_id x) of
       None \<Rightarrow> s
     | Some addr \<Rightarrow> reply_error addr (ex_req_id x) (make_error EC_CommChunkTimeout UNATTRIBUTED)
         (s\<lparr>sv_transfer_addrs := (sv_transfer_addrs s)(ex_transfer_id x := None)\<rparr>))"

definition expire_chunks :: "server_env \<Rightarrow> server \<Rightarrow> server" where
  "expire_chunks en s =
     (let (gone, r) = expire (sv_reassembler s) (ev_now en) in fold expire_one gone (s\<lparr>sv_reassembler := r\<rparr>))"

definition on_datagram :: "server_env \<Rightarrow> bytes \<Rightarrow> addr \<Rightarrow> server \<Rightarrow> server" where
  "on_datagram en data addr s =
     (let s = stop_invalid_attachments en (refresh_snapshot en s) in
      case peek_tag data of
        Inr t \<Rightarrow> if t = msg_type_val Msg_Chunk then on_chunk en data addr s else on_command_bytes en data addr s
      | Inl _ \<Rightarrow> on_command_bytes en data addr s)"

section \<open>The poll, the planner's answers, and STATUS\<close>

definition status_stride :: "server \<Rightarrow> nat" where
  "status_stride s = max (f64_round_to_nat (f64_div (tick_hz s) (f64_of_nat (max (sv_status_rate_hz s) 1))) (2 ^ 64 - 1)) 1"

definition build_status :: "server \<Rightarrow> status_frame" where
  "build_status s = \<lparr>sf_seq = sv_status_seq s, sf_tick = av_tick (sv_snap s), sf_executing_index = executing_index s,
     sf_completed_index = sv_completed_index s, sf_accepted_index = sv_accepted_index s,
     sf_queued_segments = length (sv_pending s), sf_error = effective_error s, sf_last_checkpoint = sv_last_checkpoint s\<rparr>"

definition emit_status :: "server_env \<Rightarrow> server \<Rightarrow> server" where
  "emit_status en s =
     (let s = s\<lparr>sv_last_status_tick := Some (av_tick (sv_snap s)), sv_last_status_at := ev_now en\<rparr>;
          s = refresh_queue_estimate (stop_invalid_attachments en s)
      in (emit (Ef_status (build_status s)) s)\<lparr>sv_status_seq := sv_status_seq s + 1\<rparr>)"

definition emit_status_on_tick :: "server_env \<Rightarrow> server \<Rightarrow> server" where
  "emit_status_on_tick en s =
     (let stride = status_stride s; tick = av_tick (sv_snap s) in
      if is_some_and (\<lambda>t. tick div stride = t div stride) (sv_last_status_tick s) then s else emit_status en s)"

text \<open>\<open>rate_period(hz).mul_f64(1.5)\<close> in milliseconds, as a comparison over the integers.\<close>

definition on_status :: "server_env \<Rightarrow> server \<Rightarrow> server" where
  "on_status en s =
     (if 2 * max (sv_status_rate_hz s) 1 * (ev_now en - sv_last_status_at s) < 3000 then s
      else emit_status en (refresh_snapshot en s))"

definition on_poll :: "server_env \<Rightarrow> server \<Rightarrow> server" where
  "on_poll en s =
     (let s = emit_status_on_tick en (refresh_snapshot en s); s = answer_scans en (stop_invalid_attachments en s);
          s = settle_bus en (settle_flashing en (settle_enable en (request_boot_enable s)))
      in pump en (expire_chunks en s))"

definition on_plan_event :: "server_env \<Rightarrow> plan_event \<Rightarrow> server \<Rightarrow> server" where
  "on_plan_event en event s =
     (let s = stop_invalid_attachments en (refresh_snapshot en s) in
      case event of
        PE_Started index taken \<Rightarrow> on_plan_started index taken s
      | PE_StartRejected index e \<Rightarrow> on_plan_rejected index e s
      | PE_Outcome out \<Rightarrow> pump en (on_outcome out s)
      | PE_ToolOutcome out \<Rightarrow> on_tool_outcome en out s
      | PE_ToolStarted tag result \<Rightarrow> on_tool_started en tag result s
      | PE_ShapesApplied tag result \<Rightarrow> on_shapes_applied en tag result s
      | PE_ToolFitted tool variant \<Rightarrow> adopt_tool_selection tool variant s)"

datatype server_event =
    Sv_Datagram bytes addr
  | Sv_Poll
  | Sv_Status
  | Sv_Plan plan_event

definition on_event :: "server_env \<Rightarrow> server_event \<Rightarrow> server \<Rightarrow> server" where
  "on_event en event s = (case event of
       Sv_Datagram data addr \<Rightarrow> on_datagram en data addr s
     | Sv_Poll \<Rightarrow> on_poll en s
     | Sv_Status \<Rightarrow> on_status en s
     | Sv_Plan pe \<Rightarrow> on_plan_event en pe s)"

text \<open>One turn of the loop: deferred datagrams go first, in order.\<close>

inductive server_step :: "server \<Rightarrow> server \<Rightarrow> bool" where
  sv_deferred: "sv_deferred s = (data, from) # rest \<Longrightarrow> server_step s (on_datagram en data from (s\<lparr>sv_deferred := rest\<rparr>))"
| sv_event: "sv_deferred s = [] \<Longrightarrow> server_step s (on_event en event s)"

definition server_initial :: "server_config \<Rightarrow> server \<Rightarrow> bool" where
  "server_initial k s \<longleftrightarrow> (\<exists>installation_epoch attachment_epoch. s = sync_planner (new_server k installation_epoch attachment_epoch))"

end
