(* ===== verification/Server_Book.thy ===== *)
theory Server_Book
  imports Server_Handlers Reachability "HOL-Library.Multiset" "HOL-Library.Sublist"
begin

text \<open>
  What the command server promises about the commands it accepts, as a machine of its own: a
  ledger of indexes that are queued, running, waiting as tool stops, or spoken for by a
  COMPLETE. The ledger moves in five ways, and its invariant says that no accepted command is
  lost or answered twice, that the queue is first-in first-out and bounded, that the plan
  outstanding is the queue's head, and that the high-water mark covers exactly what finished.
\<close>

section \<open>The ledger\<close>

record book =
  bk_next :: nat
  bk_pending :: "nat list"
  bk_running :: "nat list"
  bk_planning :: "nat option"
  bk_stops :: "nat list"
  bk_mark :: int
  bk_finished :: "nat list"
  bk_completes :: "nat list"
  bk_cap :: nat

definition b_advance :: "nat \<Rightarrow> book \<Rightarrow> book" where
  "b_advance i b =
     (let next = (if bk_mark b < 0 then FIRST_COMMAND_INDEX else nat (bk_mark b) + 1);
          (stop, fs) = advance_loop next (List.insert i (bk_finished b))
      in b\<lparr>bk_finished := fs, bk_mark := (if stop = next then bk_mark b else int stop - 1)\<rparr>)"

definition b_complete :: "nat \<Rightarrow> book \<Rightarrow> book" where
  "b_complete i b = (b_advance i b)\<lparr>bk_completes := bk_completes b @ [i]\<rparr>"

definition live :: "book \<Rightarrow> nat list" where
  "live b = bk_running b @ bk_pending b @ bk_stops b"

definition plan_ok :: "nat option \<Rightarrow> nat list \<Rightarrow> nat list \<Rightarrow> bool" where
  "plan_ok planning running pending \<longleftrightarrow> (\<forall>i. planning = Some i \<longrightarrow> running = [] \<and> pending \<noteq> [] \<and> hd pending = i)"

inductive book_step :: "book \<Rightarrow> book \<Rightarrow> bool" where
  bs_accept: "length (bk_pending b) < bk_cap b \<Longrightarrow>
    book_step b (b\<lparr>bk_next := Suc (bk_next b), bk_pending := bk_pending b @ [bk_next b]\<rparr>)"
| bs_accept_stop: "book_step b (b\<lparr>bk_next := Suc (bk_next b), bk_stops := bk_stops b @ [bk_next b]\<rparr>)"
| bs_plan: "bk_running b = [] \<Longrightarrow> bk_pending b = i # rest \<Longrightarrow> book_step b (b\<lparr>bk_planning := Some i\<rparr>)"
| bs_start: "bk_running b = [] \<Longrightarrow> bk_pending b = front @ rest \<Longrightarrow>
    book_step b (b\<lparr>bk_planning := None, bk_pending := rest, bk_running := front\<rparr>)"
| bs_settle: "mset gone + mset p + mset r + mset st = mset (live b) \<Longrightarrow> suffix p (bk_pending b) \<Longrightarrow> r \<in> {[], bk_running b}
    \<Longrightarrow> subseq st (bk_stops b) \<Longrightarrow> plan_ok pl r p \<Longrightarrow>
    book_step b (fold b_complete gone (b\<lparr>bk_pending := p, bk_running := r, bk_planning := pl, bk_stops := st\<rparr>))"

section \<open>The high-water mark\<close>

definition mark_of :: "int \<Rightarrow> nat" where
  "mark_of m = (if m < 0 then 0 else nat m)"

text \<open>\<open>mark_ok m fs D\<close>: the mark \<open>m\<close> and the early finishers \<open>fs\<close> say that exactly \<open>D\<close> has finished.\<close>

definition mark_ok :: "int \<Rightarrow> nat list \<Rightarrow> nat set \<Rightarrow> bool" where
  "mark_ok m fs D \<longleftrightarrow> D = {1..mark_of m} \<union> set fs \<and> (\<forall>f \<in> set fs. Suc (mark_of m) < f) \<and> (m = -1 \<or> 1 \<le> m)"

lemma advance_loop_spec:
  "advance_loop k fs = (k', fs') \<Longrightarrow> \<forall>f \<in> set fs. k \<le> f \<Longrightarrow>
     k \<le> k' \<and> {k..<k'} \<union> set fs' = set fs \<and> (\<forall>f \<in> set fs'. k' < f)"
proof (induction k fs arbitrary: k' fs' rule: advance_loop.induct)
  case (1 k fs)
  show ?case
  proof (cases "k \<in> set fs")
    case True
    have "\<forall>f \<in> set (removeAll k fs). Suc k \<le> f" using 1(3) by (auto simp: le_eq_less_or_eq)
    with 1 True have "Suc k \<le> k'" "{Suc k..<k'} \<union> set fs' = set fs - {k}" "\<forall>f \<in> set fs'. k' < f" by auto
    moreover from this(1) have "{k..<k'} = insert k {Suc k..<k'}" by auto
    ultimately show ?thesis using True by auto
  next
    case False
    with 1 show ?thesis by (auto simp: le_eq_less_or_eq)
  qed
qed

declare advance_loop.simps [simp del]

lemma b_advance_mark:
  assumes "mark_ok (bk_mark b) (bk_finished b) D" and "i \<notin> D" and "1 \<le> i"
  shows "mark_ok (bk_mark (b_advance i b)) (bk_finished (b_advance i b)) (insert i D)"
proof -
  define m where "m = mark_of (bk_mark b)"
  define k where "k = (if bk_mark b < 0 then FIRST_COMMAND_INDEX else nat (bk_mark b) + 1)"
  have k: "k = Suc m" by (simp add: k_def m_def mark_of_def FIRST_COMMAND_INDEX_def)
  obtain k' fs' where loop: "advance_loop k (List.insert i (bk_finished b)) = (k', fs')" by (metis prod.exhaust)
  have "m < i" using assms by (auto simp: mark_ok_def m_def)
  with assms(1) have "\<forall>f \<in> set (List.insert i (bk_finished b)). k \<le> f" by (auto simp: mark_ok_def m_def k)
  from advance_loop_spec [OF loop this]
  have s: "k \<le> k'" "{k..<k'} \<union> set fs' = insert i (set (bk_finished b))" "\<forall>f \<in> set fs'. k' < f" by auto
  have b': "bk_finished (b_advance i b) = fs'" "bk_mark (b_advance i b) = (if k' = k then bk_mark b else int k' - 1)"
    using loop by (simp_all add: b_advance_def k_def Let_def)
  have m': "mark_of (bk_mark (b_advance i b)) = k' - 1"
  proof (cases "k' = k")
    case True
    then show ?thesis using k by (simp add: b' m_def)
  next
    case False
    then show ?thesis using s(1) k by (simp add: b' mark_of_def)
  qed
  have "{1..k' - 1} = {1..m} \<union> {k..<k'}" using s(1) k by auto
  then have "insert i D = {1..k' - 1} \<union> set fs'" using assms(1) s(2) by (auto simp: mark_ok_def m_def)
  moreover have "bk_mark (b_advance i b) = -1 \<or> 1 \<le> bk_mark (b_advance i b)"
    using assms(1) s(1) k by (auto simp: b' mark_ok_def)
  ultimately show ?thesis using s(1,3) k m' by (auto simp: mark_ok_def b')
qed

section \<open>The invariant\<close>

definition book_inv :: "book \<Rightarrow> bool" where
  "book_inv b \<longleftrightarrow> 1 \<le> bk_next b \<and> mset (live b) + mset (bk_completes b) = mset [1..<bk_next b]
     \<and> mark_ok (bk_mark b) (bk_finished b) (set (bk_completes b))
     \<and> plan_ok (bk_planning b) (bk_running b) (bk_pending b)
     \<and> sorted_wrt (<) (bk_running b @ bk_pending b) \<and> sorted_wrt (<) (bk_stops b) \<and> length (bk_pending b) \<le> bk_cap b"

definition book_initial :: "nat \<Rightarrow> book \<Rightarrow> bool" where
  "book_initial cap b \<longleftrightarrow> b = \<lparr>bk_next = 1, bk_pending = [], bk_running = [], bk_planning = None, bk_stops = [],
     bk_mark = -1, bk_finished = [], bk_completes = [], bk_cap = cap\<rparr>"

lemma b_complete_frame [simp]:
  "bk_next (b_complete i b) = bk_next b" "bk_pending (b_complete i b) = bk_pending b"
  "bk_running (b_complete i b) = bk_running b" "bk_planning (b_complete i b) = bk_planning b"
  "bk_stops (b_complete i b) = bk_stops b" "bk_cap (b_complete i b) = bk_cap b"
  "bk_completes (b_complete i b) = bk_completes b @ [i]"
  by (simp_all add: b_complete_def b_advance_def Let_def split: prod.splits)

lemma fold_complete_frame [simp]:
  "bk_next (fold b_complete is b) = bk_next b" "bk_pending (fold b_complete is b) = bk_pending b"
  "bk_running (fold b_complete is b) = bk_running b" "bk_planning (fold b_complete is b) = bk_planning b"
  "bk_stops (fold b_complete is b) = bk_stops b" "bk_cap (fold b_complete is b) = bk_cap b"
  "bk_completes (fold b_complete is b) = bk_completes b @ is"
  by (induction "is" arbitrary: b) simp_all

lemma fold_complete_mark:
  assumes "mark_ok (bk_mark b) (bk_finished b) (set (bk_completes b))" and "distinct (bk_completes b @ is)" and "\<forall>i \<in> set is. 1 \<le> i"
  shows "mark_ok (bk_mark (fold b_complete is b)) (bk_finished (fold b_complete is b)) (set (bk_completes b) \<union> set is)"
  using assms
proof (induction "is" arbitrary: b)
  case (Cons i "is")
  then have "mark_ok (bk_mark (b_advance i b)) (bk_finished (b_advance i b)) (insert i (set (bk_completes b)))"
    by (intro b_advance_mark) auto
  then have "mark_ok (bk_mark (b_complete i b)) (bk_finished (b_complete i b)) (set (bk_completes (b_complete i b)))"
    by (simp add: b_complete_def)
  from Cons.IH [OF this] Cons.prems show ?case by simp
qed simp

text \<open>The entries of the ledger are the accepted indexes, each once.\<close>

lemma ledger_distinct:
  assumes "mset xs + mset ys = mset [1..<n]"
  shows "distinct (xs @ ys)" and "set xs \<union> set ys = {1..<n}"
proof -
  have "mset (xs @ ys) = mset [1..<n]" using assms by simp
  then show "distinct (xs @ ys)" by (metis distinct_upt mset_eq_imp_distinct_iff)
  from \<open>mset (xs @ ys) = _\<close> show "set xs \<union> set ys = {1..<n}" by (metis set_append set_mset_mset set_upt)
qed

lemma subseq_set: "subseq xs ys \<Longrightarrow> set xs \<subseteq> set ys" by (induction rule: list_emb.induct) auto

lemma sorted_subseq: "subseq xs ys \<Longrightarrow> sorted_wrt P ys \<Longrightarrow> sorted_wrt P xs"
proof (induction rule: list_emb.induct)
  case (list_emb_Cons2 x y xs ys)
  then show ?case using subseq_set [of xs ys] by auto
qed simp_all

lemma below_next:
  assumes "mset (live b) + mset (bk_completes b) = mset [1..<bk_next b]" and "i \<in> set (live b)"
  shows "i < bk_next b"
  using ledger_distinct(2) [OF assms(1)] assms(2) by auto

lemma book_inv_settle:
  assumes inv: "book_inv b" and "mset gone + mset p + mset r + mset st = mset (live b)" and "suffix p (bk_pending b)"
    and "r \<in> {[], bk_running b}" and "subseq st (bk_stops b)" and "plan_ok pl r p"
  shows "book_inv (fold b_complete gone (b\<lparr>bk_pending := p, bk_running := r, bk_planning := pl, bk_stops := st\<rparr>))"
proof -
  let ?b = "b\<lparr>bk_pending := p, bk_running := r, bk_planning := pl, bk_stops := st\<rparr>"
  have led: "mset (live b) + mset (bk_completes b) = mset [1..<bk_next b]" using inv by (simp add: book_inv_def)
  have led': "mset (r @ p @ st) + mset (bk_completes b @ gone) = mset [1..<bk_next b]"
  proof -
    have "mset (r @ p @ st) + mset (bk_completes b @ gone) = (mset gone + mset p + mset r + mset st) + mset (bk_completes b)"
      by (simp add: ac_simps)
    with assms(2) led show ?thesis by argo
  qed
  have "distinct (bk_completes b @ gone)" using ledger_distinct(1) [OF led'] by auto
  moreover have "\<forall>i \<in> set gone. 1 \<le> i" using ledger_distinct(2) [OF led'] by auto
  ultimately have mark: "mark_ok (bk_mark (fold b_complete gone ?b)) (bk_finished (fold b_complete gone ?b)) (set (bk_completes b) \<union> set gone)"
    using inv fold_complete_mark [of ?b gone] by (simp add: book_inv_def)
  from assms(3) obtain pre where pre: "bk_pending b = pre @ p" by (auto simp: suffix_def)
  have sorted: "sorted_wrt (<) (r @ p)" using inv assms(4) pre by (auto simp: book_inv_def sorted_wrt_append)
  have stops: "sorted_wrt (<) st"
    using inv assms(5) by (auto simp: book_inv_def intro: sorted_subseq)
  show ?thesis
    using inv led' mark sorted stops pre assms(6) by (simp add: book_inv_def live_def)
qed

lemma book_inv_step: "book_step b b' \<Longrightarrow> book_inv b \<Longrightarrow> book_inv b'"
proof (induction rule: book_step.induct)
  case (bs_accept b)
  have "\<forall>i \<in> set (bk_running b @ bk_pending b). i < bk_next b" using bs_accept(2) below_next [of b] by (auto simp: book_inv_def live_def)
  with bs_accept show ?case by (auto simp: book_inv_def live_def sorted_wrt_append plan_ok_def)
next
  case (bs_accept_stop b)
  have "\<forall>i \<in> set (bk_stops b). i < bk_next b" using bs_accept_stop below_next [of b] by (auto simp: book_inv_def live_def)
  with bs_accept_stop show ?case by (auto simp: book_inv_def live_def sorted_wrt_append)
next
  case (bs_plan b i rest)
  then show ?case by (auto simp: book_inv_def live_def plan_ok_def)
next
  case (bs_start b front rest)
  then show ?case by (auto simp: book_inv_def live_def plan_ok_def)
next
  case (bs_settle gone p r st b pl)
  then show ?case using book_inv_settle by blast
qed

interpretation book_machine: inductive_invariant "book_initial cap" book_step book_inv
proof
  show "book_inv b" if "book_initial cap b" for b
    using that by (simp add: book_initial_def book_inv_def live_def mark_ok_def mark_of_def plan_ok_def)
  show "book_inv b'" if "book_inv b" "book_step b b'" for b b' using book_inv_step that by blast
qed

end
