(* ===== verification/Server_Sim.thy ===== *)
theory Server_Sim
  imports Server_Book
begin

text \<open>
  The command server implements the ledger of \<open>Server_Book\<close>: whatever an event does, the ledger
  read off the server's state moves by steps of the ledger. The lemmas follow the definitions of
  \<open>Server\<close> and \<open>Server_Handlers\<close> in their order.
\<close>

section \<open>The ledger of a server\<close>

definition completes_of :: "effect \<Rightarrow> nat list" where
  "completes_of e = (case e of Ef_reply _ (Rp_Complete i _ _ _) \<Rightarrow> [i] | _ \<Rightarrow> [])"

definition completes :: "effect list \<Rightarrow> nat list" where
  "completes log = concat (map completes_of log)"

definition running_of :: "executing option \<Rightarrow> nat list" where
  "running_of x = (case x of None \<Rightarrow> [] | Some ex \<Rightarrow> xe_index ex # map fst (xe_blended ex))"

definition book_of :: "server \<Rightarrow> book" where
  "book_of s = \<lparr>bk_next = sv_next_index s, bk_pending = map pe_index (sv_pending s), bk_running = running_of (sv_executing s),
     bk_planning = sv_planning s, bk_stops = map ts_index (sv_tool_stops s), bk_mark = sv_completed_index s,
     bk_finished = sv_finished s, bk_completes = completes (sv_log s), bk_cap = sc_queue_capacity (sv_cfg s)\<rparr>"

lemma completes_append [simp]: "completes (xs @ ys) = completes xs @ completes ys"
  by (simp add: completes_def)

lemma running_of_simps [simp]:
  "running_of None = []" "running_of (Some ex) = xe_index ex # map fst (xe_blended ex)"
  by (simp_all add: running_of_def)

lemma book_of_sel [simp]:
  "bk_next (book_of s) = sv_next_index s" "bk_pending (book_of s) = map pe_index (sv_pending s)"
  "bk_running (book_of s) = running_of (sv_executing s)" "bk_planning (book_of s) = sv_planning s"
  "bk_stops (book_of s) = map ts_index (sv_tool_stops s)" "bk_mark (book_of s) = sv_completed_index s"
  "bk_finished (book_of s) = sv_finished s" "bk_completes (book_of s) = completes (sv_log s)"
  "bk_cap (book_of s) = sc_queue_capacity (sv_cfg s)"
  by (simp_all add: book_of_def)

lemma book_frame [simp]:
  "book_of (s\<lparr>sv_reassembler := v0\<rparr>) = book_of s"
  "book_of (s\<lparr>sv_transfer_addrs := v1\<rparr>) = book_of s"
  "book_of (s\<lparr>sv_dedup := v2\<rparr>) = book_of s"
  "book_of (s\<lparr>sv_blend_hold := v3\<rparr>) = book_of s"
  "book_of (s\<lparr>sv_pending_shapes := v4\<rparr>) = book_of s"
  "book_of (s\<lparr>sv_accepted_index := v5\<rparr>) = book_of s"
  "book_of (s\<lparr>sv_completion_log := v6\<rparr>) = book_of s"
  "book_of (s\<lparr>sv_last_checkpoint := v7\<rparr>) = book_of s"
  "book_of (s\<lparr>sv_standing_error := v8\<rparr>) = book_of s"
  "book_of (s\<lparr>sv_action_state := v9\<rparr>) = book_of s"
  "book_of (s\<lparr>sv_estop_latched := v10\<rparr>) = book_of s"
  "book_of (s\<lparr>sv_teleport_homed := v11\<rparr>) = book_of s"
  "book_of (s\<lparr>sv_active_stream := v12\<rparr>) = book_of s"
  "book_of (s\<lparr>sv_deferred := v13\<rparr>) = book_of s"
  "book_of (s\<lparr>sv_reset_waiters := v14\<rparr>) = book_of s"
  "book_of (s\<lparr>sv_flashing_waiters := v15\<rparr>) = book_of s"
  "book_of (s\<lparr>sv_bus_waiters := v16\<rparr>) = book_of s"
  "book_of (s\<lparr>sv_pending_simulator := v17\<rparr>) = book_of s"
  "book_of (s\<lparr>sv_booted := v18\<rparr>) = book_of s"
  "book_of (s\<lparr>sv_profile := v19\<rparr>) = book_of s"
  "book_of (s\<lparr>sv_tool := v20\<rparr>) = book_of s"
  "book_of (s\<lparr>sv_tool_variant := v21\<rparr>) = book_of s"
  "book_of (s\<lparr>sv_tcp_offset_mm := v22\<rparr>) = book_of s"
  "book_of (s\<lparr>sv_tcp_rotation_deg := v23\<rparr>) = book_of s"
  "book_of (s\<lparr>sv_payload := v24\<rparr>) = book_of s"
  "book_of (s\<lparr>sv_shapes := v25\<rparr>) = book_of s"
  "book_of (s\<lparr>sv_attachment_epoch := v26\<rparr>) = book_of s"
  "book_of (s\<lparr>sv_attachment_stop_pending := v27\<rparr>) = book_of s"
  "book_of (s\<lparr>sv_scene_epoch := v28\<rparr>) = book_of s"
  "book_of (s\<lparr>sv_completion_policy := v29\<rparr>) = book_of s"
  "book_of (s\<lparr>sv_execution_paused := v30\<rparr>) = book_of s"
  "book_of (s\<lparr>sv_pending_scans := v31\<rparr>) = book_of s"
  "book_of (s\<lparr>sv_simulator := v32\<rparr>) = book_of s"
  "book_of (s\<lparr>sv_queue_estimate_for := v33\<rparr>) = book_of s"
  "book_of (s\<lparr>sv_snap := v34\<rparr>) = book_of s"
  "book_of (s\<lparr>sv_last_fresh := v35\<rparr>) = book_of s"
  "book_of (s\<lparr>sv_status_seq := v36\<rparr>) = book_of s"
  "book_of (s\<lparr>sv_last_status_tick := v37\<rparr>) = book_of s"
  "book_of (s\<lparr>sv_last_status_at := v38\<rparr>) = book_of s"
  "book_of (s\<lparr>sv_status_rate_hz := v39\<rparr>) = book_of s"
  "book_of (s\<lparr>sv_next_tag := v40\<rparr>) = book_of s"
  by (simp_all add: book_of_def)

lemma book_updates [simp]:
  "book_of (s\<lparr>sv_next_index := n\<rparr>) = (book_of s)\<lparr>bk_next := n\<rparr>"
  "book_of (s\<lparr>sv_pending := ps\<rparr>) = (book_of s)\<lparr>bk_pending := map pe_index ps\<rparr>"
  "book_of (s\<lparr>sv_executing := x\<rparr>) = (book_of s)\<lparr>bk_running := running_of x\<rparr>"
  "book_of (s\<lparr>sv_planning := pl\<rparr>) = (book_of s)\<lparr>bk_planning := pl\<rparr>"
  "book_of (s\<lparr>sv_tool_stops := ts\<rparr>) = (book_of s)\<lparr>bk_stops := map ts_index ts\<rparr>"
  by (simp_all add: book_of_def)

lemma book_emit: "book_of (emit e s) = (book_of s)\<lparr>bk_completes := bk_completes (book_of s) @ completes_of e\<rparr>"
  by (simp add: book_of_def emit_def completes_def)

lemma emit_quiet [simp]: "completes_of e = [] \<Longrightarrow> book_of (emit e s) = book_of s"
  by (simp add: book_of_def emit_def completes_def)

lemma completes_of_simps [simp]:
  "completes_of (Ef_plan r) = []" "completes_of (Ef_rt c) = []" "completes_of (Ef_status f) = []"
  "completes_of (Ef_reply a (Rp_Ok q oi)) = []" "completes_of (Ef_reply a (Rp_Error q e)) = []"
  "completes_of (Ef_reply a (Rp_Response q x)) = []" "completes_of (Ef_reply a (Rp_Complete i ok d v)) = [i]"
  by (simp_all add: completes_of_def)

section \<open>Steps\<close>

abbreviation steps :: "book \<Rightarrow> book \<Rightarrow> bool" where
  "steps \<equiv> book_step\<^sup>*\<^sup>*"

definition sim :: "server \<Rightarrow> server \<Rightarrow> bool" where
  "sim s s' \<longleftrightarrow> (book_inv (book_of s) \<longrightarrow> steps (book_of s) (book_of s'))"

lemma steps_inv: "steps b b' \<Longrightarrow> book_inv b \<Longrightarrow> book_inv b'"
  by (induction rule: rtranclp_induct) (auto dest: book_inv_step)

lemma sim_trans: "sim s s' \<Longrightarrow> sim s' s'' \<Longrightarrow> sim s s''"
  unfolding sim_def using steps_inv by (meson rtranclp_trans)

lemma sim_frame: "book_of s' = book_of s \<Longrightarrow> sim s s'"
  by (simp add: sim_def)

lemma sim_refl [simp]: "sim s s"
  by (simp add: sim_def)

text \<open>A step after or before changes the ledger does not see.\<close>

lemma sim_then: "sim s s' \<Longrightarrow> book_of s'' = book_of s' \<Longrightarrow> sim s s''"
  by (simp add: sim_def)

lemma sim_after: "sim s s' \<Longrightarrow> book_of s = book_of r \<Longrightarrow> sim r s'"
  by (simp add: sim_def)

lemma sim_fold: "(\<And>x s. sim s (f x s)) \<Longrightarrow> sim s (fold f xs s)"
  by (induction xs arbitrary: s) (auto intro: sim_trans)

lemma frame_fold: "(\<And>x s. book_of (f x s) = book_of s) \<Longrightarrow> book_of (fold f xs s) = book_of s"
  by (induction xs arbitrary: s) auto

text \<open>A settling: entries leave the ledger of \<open>s\<close>, which makes it that of \<open>t\<close>, and are completed.\<close>

definition same_account :: "book \<Rightarrow> book \<Rightarrow> bool" where
  "same_account b c \<longleftrightarrow> bk_next c = bk_next b \<and> bk_mark c = bk_mark b \<and> bk_finished c = bk_finished b
     \<and> bk_completes c = bk_completes b \<and> bk_cap c = bk_cap b"

lemma sim_settle:
  assumes "book_of s' = fold b_complete gone c" and "same_account (book_of s) c"
    and "mset gone + mset (live c) = mset (live (book_of s))" and "suffix (bk_pending c) (bk_pending (book_of s))"
    and "bk_running c \<in> {[], bk_running (book_of s)}" and "subseq (bk_stops c) (bk_stops (book_of s))"
    and "plan_ok (bk_planning c) (bk_running c) (bk_pending c)"
  shows "sim s s'"
proof -
  have "c = (book_of s)\<lparr>bk_pending := bk_pending c, bk_running := bk_running c, bk_planning := bk_planning c, bk_stops := bk_stops c\<rparr>"
    using assms(2) by (simp add: same_account_def)
  moreover have "mset gone + mset (bk_pending c) + mset (bk_running c) + mset (bk_stops c) = mset (live (book_of s))"
    unfolding assms(3) [symmetric] by (simp add: live_def [of c] ac_simps)
  ultimately have "book_step (book_of s) (fold b_complete gone c)" using bs_settle [OF _ assms(4-7)] by metis
  then show ?thesis using assms(1) by (simp add: sim_def r_into_rtranclp)
qed

section \<open>Completions\<close>

lemma book_advance: "book_of (advance_completed i s) = b_advance i (book_of s)"
  by (simp add: advance_completed_def b_advance_def Let_def book_of_def split: prod.splits)

lemma book_push: "book_of (push_complete a i d v s) = (book_of s)\<lparr>bk_completes := bk_completes (book_of s) @ [i]\<rparr>"
  by (simp add: push_complete_def Let_def book_emit)

lemma book_complete: "book_of (push_complete a i d v (advance_completed i s)) = b_complete i (book_of s)"
  by (simp add: book_push book_advance b_complete_def)
    (simp add: b_advance_def Let_def split: prod.splits)

lemma book_complete_cancelled: "book_of (complete_cancelled d s) = fold b_complete (map fst d) (book_of s)"
proof -
  have "book_of (complete_one_cancelled x s) = b_complete (fst x) (book_of s)" for x s
    by (simp add: complete_one_cancelled_def book_complete split: prod.splits)
  then show ?thesis unfolding complete_cancelled_def by (induction d arbitrary: s) auto
qed

lemma book_complete_ok: "book_of (fold complete_ok d s) = fold b_complete (map fst d) (book_of s)"
proof -
  have "book_of (complete_ok x s) = b_complete (fst x) (book_of s)" for x s
    by (simp add: complete_ok_def book_complete split: prod.splits)
  then show ?thesis by (induction d arbitrary: s) auto
qed

lemma book_reply_error [simp]: "book_of (reply_error a q e s) = book_of s"
  by (simp add: reply_error_def)

lemma book_sync [simp]: "book_of (sync_planner s) = book_of s"
  by (simp add: sync_planner_def)

section \<open>Cancellation\<close>

text \<open>The head whose plan is outstanding, taken out of the queue.\<close>

definition drop_planning :: "server \<Rightarrow> (nat \<times> addr) list \<times> server" where
  "drop_planning s = (case sv_planning s of
     None \<Rightarrow> ([], s)
   | Some index \<Rightarrow>
       (let s = s\<lparr>sv_planning := None\<rparr> in
        case sv_pending s of
          p # rest \<Rightarrow> if pe_index p = index then ([(pe_index p, pe_addr p)], s\<lparr>sv_pending := rest\<rparr>) else ([], s)
        | [] \<Rightarrow> ([], s)))"

lemma drop_planning_book:
  assumes "drop_planning s = (d, s')"
  shows "\<exists>p. book_of s' = (book_of s)\<lparr>bk_pending := p, bk_planning := None\<rparr> \<and> suffix p (bk_pending (book_of s))
    \<and> mset (map fst d) + mset p = mset (bk_pending (book_of s)) \<and> sv_executing s' = sv_executing s"
proof (cases "sv_planning s")
  case None
  with assms show ?thesis by (intro exI [of _ "bk_pending (book_of s)"]) (simp add: drop_planning_def book_of_def)
next
  case (Some index)
  show ?thesis
  proof (cases "\<exists>q rest. sv_pending s = q # rest \<and> pe_index q = index")
    case True
    then obtain q rest where q: "sv_pending s = q # rest" "pe_index q = index" by blast
    with assms Some have "d = [(index, pe_addr q)]" "s' = s\<lparr>sv_planning := None, sv_pending := rest\<rparr>"
      by (simp_all add: drop_planning_def)
    with q show ?thesis by (intro exI [of _ "map pe_index rest"]) (simp add: book_of_def suffix_ConsI)
  next
    case False
    with assms Some have "d = []" "s' = s\<lparr>sv_planning := None\<rparr>"
      by (cases "sv_pending s"; simp add: drop_planning_def Let_def split: if_splits)+
    then show ?thesis by (intro exI [of _ "bk_pending (book_of s)"]) (simp add: book_of_def)
  qed
qed

lemma drop_active_book:
  assumes "drop_active s = (d, s')"
  shows "\<exists>p. book_of s' = (book_of s)\<lparr>bk_pending := p, bk_running := [], bk_planning := None\<rparr> \<and> suffix p (bk_pending (book_of s))
    \<and> mset (map fst d) + mset p = mset (bk_running (book_of s)) + mset (bk_pending (book_of s))"
proof -
  obtain planned s1 where s1: "drop_planning s = (planned, s1)" by (metis prod.exhaust)
  from drop_planning_book [OF this] obtain p where one: "book_of s1 = (book_of s)\<lparr>bk_pending := p, bk_planning := None\<rparr>"
    "suffix p (bk_pending (book_of s))" "mset (map fst planned) + mset p = mset (bk_pending (book_of s))"
    "sv_executing s1 = sv_executing s" by blast
  show ?thesis
  proof (cases "sv_executing s")
    case None
    with assms s1 one(4) have "d = planned" "s' = (if planned \<noteq> [] then rt_do RC_discard_exec s1 else s1)"
      by (auto simp: drop_active_def drop_planning_def [symmetric])
    then have "book_of s' = (book_of s)\<lparr>bk_pending := p, bk_planning := None\<rparr>" using one(1) by simp
    also have "\<dots> = (book_of s)\<lparr>bk_pending := p, bk_running := [], bk_planning := None\<rparr>" using None by (simp add: book_of_def)
    finally show ?thesis using one(2,3) None \<open>d = planned\<close> by (intro exI [of _ p]) simp
  next
    case (Some ex)
    with assms s1 one(4) have "d = planned @ (xe_index ex, xe_addr ex) # xe_blended ex"
      "s' = rt_do RC_discard_exec (s1\<lparr>sv_executing := None, sv_action_state := Action_Idle\<rparr>)"
      by (auto simp: drop_active_def drop_planning_def [symmetric])
    with Some one(1,2) one(3) [symmetric] show ?thesis by (intro exI [of _ p]) simp
  qed
qed

lemma drop_tool_stops_book:
  "drop_tool_stops s = (d, s') \<Longrightarrow> book_of s' = (book_of s)\<lparr>bk_stops := []\<rparr> \<and> map fst d = bk_stops (book_of s)"
  by (auto simp: drop_tool_stops_def book_of_def emit_def completes_def comp_def split: if_splits)

lemma book_cancel_stream [simp]: "book_of (cancel_stream_if_any s) = book_of s"
  by (simp add: cancel_stream_if_any_def split: option.splits)

lemma drop_pending_book: "drop_pending s = (d, s') \<Longrightarrow> book_of s' = (book_of s)\<lparr>bk_pending := []\<rparr> \<and> map fst d = bk_pending (book_of s)"
  by (auto simp: drop_pending_def comp_def)

lemma drop_active_motion_book:
  assumes "drop_active_motion s = (d, s')"
  shows "\<exists>p. book_of s' = (book_of s)\<lparr>bk_pending := p, bk_running := [], bk_planning := None, bk_stops := []\<rparr>
    \<and> suffix p (bk_pending (book_of s)) \<and> mset (map fst d) + mset p = mset (live (book_of s))"
proof -
  obtain a s1 where s1: "drop_active (plan_send (PR_Cancel True) s) = (a, s1)" by (metis prod.exhaust)
  obtain t s2 where s2: "drop_tool_stops s1 = (t, s2)" by (metis prod.exhaust)
  have r: "d = a @ t" "s' = rt_do RC_halt (cancel_stream_if_any s2)"
    using assms s1 s2 by (auto simp: drop_active_motion_def Let_def)
  from drop_active_book [OF s1] obtain p where
    p: "book_of s1 = (book_of s)\<lparr>bk_pending := p, bk_running := [], bk_planning := None\<rparr>" "suffix p (bk_pending (book_of s))"
      "mset (map fst a) + mset p = mset (bk_running (book_of s)) + mset (bk_pending (book_of s))" by auto
  from drop_tool_stops_book [OF s2] p(1) have t: "map fst t = bk_stops (book_of s)"
    "book_of s2 = (book_of s)\<lparr>bk_pending := p, bk_running := [], bk_planning := None, bk_stops := []\<rparr>" by simp_all
  have "mset (map fst d) + mset p = (mset (map fst a) + mset p) + mset (bk_stops (book_of s))"
    unfolding r(1) map_append t(1) by simp
  also have "\<dots> = mset (live (book_of s))" unfolding p(3) by (simp add: live_def)
  finally show ?thesis using p(2) t(2) r(2) by auto
qed

lemma sim_cancel_active: "sim s (snd (cancel_active_motion s))"
proof -
  obtain d s1 where d: "drop_active_motion s = (d, s1)" by (metis prod.exhaust)
  from drop_active_motion_book [OF d] obtain p where
    p: "book_of s1 = (book_of s)\<lparr>bk_pending := p, bk_running := [], bk_planning := None, bk_stops := []\<rparr>"
      "suffix p (bk_pending (book_of s))" "mset (map fst d) + mset p = mset (live (book_of s))" by blast
  show ?thesis
    by (rule sim_settle [where gone = "map fst d" and c = "book_of s1"])
      (use d p in \<open>simp_all add: cancel_active_motion_def book_complete_cancelled plan_ok_def same_account_def live_def del: book_of_sel\<close>)
qed

lemma sim_cancel_all: "sim s (snd (cancel_all_motion s))"
proof -
  obtain d s1 where d: "drop_active_motion s = (d, s1)" by (metis prod.exhaust)
  obtain e s2 where e: "drop_pending s1 = (e, s2)" by (metis prod.exhaust)
  from drop_active_motion_book [OF d] obtain p where
    p: "book_of s1 = (book_of s)\<lparr>bk_pending := p, bk_running := [], bk_planning := None, bk_stops := []\<rparr>"
      "mset (map fst d) + mset p = mset (live (book_of s))" by blast
  from drop_pending_book [OF e] p(1) have q: "map fst e = p"
    "book_of s2 = (book_of s)\<lparr>bk_pending := [], bk_running := [], bk_planning := None, bk_stops := []\<rparr>" by auto
  have "mset (map fst (d @ e)) = mset (live (book_of s))" unfolding map_append q(1) using p(2) by simp
  moreover have "book_of (snd (cancel_all_motion s)) = fold b_complete (map fst (d @ e)) (book_of s2)"
    using d e by (simp add: cancel_all_motion_def book_complete_cancelled)
  ultimately show ?thesis
    by (intro sim_settle [where gone = "map fst (d @ e)" and c = "book_of s2"])
      (simp_all add: q(2) plan_ok_def same_account_def live_def del: book_of_sel mset_map)
qed

text \<open>Dropping the planned motion, whatever is done before the cancellations are spoken.\<close>

lemma drop_planned_book:
  assumes "drop_planned h s = (d, s')"
  shows "book_of s' = (book_of s)\<lparr>bk_pending := [], bk_running := [], bk_planning := None\<rparr>
    \<and> mset (map fst d) + mset (bk_stops (book_of s)) = mset (live (book_of s))"
proof -
  obtain a s1 where s1: "drop_active (plan_send (PR_Cancel h) s) = (a, s1)" by (metis prod.exhaust)
  obtain e s2 where e: "drop_pending s1 = (e, s2)" by (metis prod.exhaust)
  from drop_active_book [OF s1] obtain p where
    p: "book_of s1 = (book_of s)\<lparr>bk_pending := p, bk_running := [], bk_planning := None\<rparr>"
      "mset (map fst a) + mset p = mset (bk_running (book_of s)) + mset (bk_pending (book_of s))" by auto
  from drop_pending_book [OF e] p(1) have q: "map fst e = p"
    "book_of s2 = (book_of s)\<lparr>bk_pending := [], bk_running := [], bk_planning := None\<rparr>" by auto
  have d: "d = a @ e" "s' = s2" using assms s1 e by (auto simp: drop_planned_def Let_def)
  have "mset (map fst d) = mset (bk_running (book_of s)) + mset (bk_pending (book_of s))"
    unfolding d map_append q(1) using p(2) by simp
  then have "mset (map fst d) + mset (bk_stops (book_of s)) = mset (live (book_of s))" unfolding live_def by simp
  with q(2) d show ?thesis by blast
qed

lemma sim_drop_planned:
  assumes "drop_planned h s = (d, s1)" and "book_of s2 = book_of s1"
  shows "sim s (complete_cancelled d s2)"
  by (rule sim_settle [where gone = "map fst d" and c = "book_of s2"])
    (use assms drop_planned_book [OF assms(1)] in
      \<open>simp_all add: book_complete_cancelled plan_ok_def same_account_def live_def del: book_of_sel mset_map\<close>)

lemma sim_cancel_planned: "sim s (snd (cancel_planned h s))"
  by (cases "drop_planned h s") (auto simp: cancel_planned_def intro: sim_drop_planned)

lemma sim_drop_tool_action:
  assumes "drop_active_tool_action s = (d, s1)"
  shows "sim s (complete_cancelled d s1)"
proof (cases "\<exists>ex. sv_executing s = Some ex \<and> xe_tag ex = T_ToolAction")
  case True
  then obtain ex where ex: "sv_executing s = Some ex" "xe_tag ex = T_ToolAction" by blast
  with assms have r: "d = (xe_index ex, xe_addr ex) # xe_blended ex"
    "s1 = plan_send (PR_Cancel True) (s\<lparr>sv_executing := None, sv_action_state := Action_Idle\<rparr>)"
    by (auto simp: drop_active_tool_action_def)
  have "sim s (complete_cancelled d s1)" if "book_inv (book_of s)"
  proof (rule sim_settle [where gone = "map fst d" and c = "book_of s1"])
    show "mset (map fst d) + mset (live (book_of s1)) = mset (live (book_of s))" using ex r by (simp add: live_def)
    show "plan_ok (bk_planning (book_of s1)) (bk_running (book_of s1)) (bk_pending (book_of s1))"
      using ex r that by (simp add: plan_ok_def book_inv_def)
  qed (use ex r in \<open>simp_all add: book_complete_cancelled same_account_def\<close>)
  then show ?thesis by (auto simp: sim_def)
next
  case False
  show ?thesis
  proof (cases "\<exists>index p rest. sv_planning s = Some index \<and> sv_pending s = p # rest \<and> pe_index p = index \<and> is_tool_action (pe_cmd p)")
    case True
    then obtain index p rest where h: "sv_planning s = Some index" "sv_pending s = p # rest" "pe_index p = index" "is_tool_action (pe_cmd p)"
      by blast
    with assms False have r: "d = [(index, pe_addr p)]" "s1 = plan_send (PR_Cancel True) (s\<lparr>sv_pending := rest, sv_planning := None\<rparr>)"
      by (auto simp: drop_active_tool_action_def split: option.splits)
    show ?thesis
      by (rule sim_settle [where gone = "map fst d" and c = "book_of s1"])
        (use h r in \<open>simp_all add: book_complete_cancelled live_def plan_ok_def same_account_def suffix_ConsI\<close>)
  next
    case none: False
    with False assms have "d = [] \<and> s1 = s"
      by (auto simp: drop_active_tool_action_def split: option.splits list.splits if_splits)
    then show ?thesis by (simp add: complete_cancelled_def)
  qed
qed

end
