(* ===== verification/Server_Refine.thy ===== *)
theory Server_Refine
  imports Server_Sim
begin

text \<open>The simulation, continued: the queue engine, the handlers, and the events.\<close>

section \<open>The queue engine\<close>

lemma book_cfg: "sc_queue_capacity k = sc_queue_capacity (sv_cfg s) \<Longrightarrow> book_of (s\<lparr>sv_cfg := k\<rparr>) = book_of s"
  by (simp add: book_of_def)

lemma fit_tool_capacity: "config_fit_tool name k = (tool, k') \<Longrightarrow> sc_queue_capacity k' = sc_queue_capacity k"
  by (auto simp: config_fit_tool_def Let_def)

lemma book_quiet [simp]:
  "book_of (clear_pause s) = book_of s"
  "book_of (take_snapshot now v s) = book_of s"
  "book_of (refresh_snapshot en s) = book_of s"
  "book_of (invalidate_attachments s) = book_of s"
  "book_of (latch_refusal e busy s) = book_of s"
  "book_of (on_motion_accepted s) = book_of s"
  by (simp_all add: clear_pause_def take_snapshot_def refresh_snapshot_def invalidate_attachments_def Let_def
      latch_refusal_def on_motion_accepted_def split: option.splits)

lemma book_adopt [simp]: "book_of (adopt_tool_selection name v s) = book_of s"
  by (cases "config_fit_tool name (sv_cfg s)")
    (simp add: adopt_tool_selection_def Let_def book_cfg fit_tool_capacity)

lemma book_post_effect [simp]: "book_of (apply_post_effect e s) = book_of s"
  by (cases e) (simp_all add: apply_post_effect_def)

lemma sim_stop_invalid: "sim s (stop_invalid_attachments en s)"
proof -
  define t where "t = (if attachments_valid s \<and> has_attachment (sv_shapes s)
      \<and> (av_state (sv_snap s) \<noteq> Arm_Enabled \<or> \<not> av_homed (sv_snap s) \<or> \<not> link_ok en s)
    then invalidate_attachments s else s)"
  have t: "book_of t = book_of s" by (simp add: t_def)
  have u: "stop_invalid_attachments en s = (if sv_attachment_stop_pending t
      then (snd (cancel_all_motion (t\<lparr>sv_attachment_stop_pending := False\<rparr>)))\<lparr>sv_standing_error := Some attachment_error\<rparr> else t)"
    by (simp add: stop_invalid_attachments_def Let_def t_def)
  have "sim s (snd (cancel_all_motion (t\<lparr>sv_attachment_stop_pending := False\<rparr>)))"
    by (rule sim_after [OF sim_cancel_all]) (simp add: t)
  then have "sim s ((snd (cancel_all_motion (t\<lparr>sv_attachment_stop_pending := False\<rparr>)))\<lparr>sv_standing_error := Some attachment_error\<rparr>)"
    by (rule sim_then) simp
  with t u show ?thesis by (simp add: sim_frame)
qed

lemma sim_start_head:
  assumes "sv_executing s = None" and "sv_pending s \<noteq> []"
  shows "sim s (start_head s)"
proof -
  obtain p rest where p: "sv_pending s = p # rest" using assms(2) by (cases "sv_pending s") auto
  have "fst (hd (map (\<lambda>p. (pe_index p, pe_cmd p)) (take (max (sc_blend_lookahead (sv_cfg s)) 1) (sv_pending s)))) = pe_index p"
    by (simp add: p take_Cons' )
  then have "book_of (start_head s) = (book_of s)\<lparr>bk_planning := Some (pe_index p)\<rparr>" by (simp add: start_head_def Let_def)
  moreover have "book_step (book_of s) ((book_of s)\<lparr>bk_planning := Some (pe_index p)\<rparr>)"
    by (rule bs_plan) (simp_all add: assms(1) p)
  ultimately show ?thesis by (simp add: sim_def r_into_rtranclp)
qed

lemma holding_frame:
  "holding_for_blend en s = (h, s') \<Longrightarrow> book_of s' = book_of s \<and> sv_executing s' = sv_executing s \<and> sv_pending s' = sv_pending s"
  by (auto simp: holding_for_blend_def Let_def split: if_splits)

lemma sim_pump: "sim s (pump en s)"
proof -
  define t where "t = stop_invalid_attachments en s"
  have t: "sim s t" unfolding t_def by (rule sim_stop_invalid)
  have "sim t (pump en s)"
  proof (cases "sv_pending t")
    case Nil
    then show ?thesis by (auto simp: pump_def Let_def t_def [symmetric] intro!: sim_frame)
  next
    case (Cons p rest)
    obtain h u where h: "holding_for_blend en t = (h, u)" by (metis prod.exhaust)
    have "sim t (start_head u)" if "sv_executing t = None"
      by (rule sim_after [OF sim_start_head]) (use h Cons that holding_frame [OF h] in auto)
    moreover have "sim t u" using holding_frame [OF h] by (intro sim_frame) simp
    ultimately show ?thesis using Cons h by (auto simp: pump_def Let_def t_def [symmetric])
  qed
  with t show ?thesis by (rule sim_trans)
qed

text \<open>The failure of the command at the front: it and everything behind it is spoken for.\<close>

lemma advance_sel [simp]: "sv_pending (advance_completed i s) = sv_pending s" "sv_executing (advance_completed i s) = sv_executing s"
  by (simp_all add: advance_completed_def Let_def split: prod.splits)

lemma b_complete_pending:
  "b_complete i (b\<lparr>bk_pending := p\<rparr>) = (b_advance i b)\<lparr>bk_pending := p, bk_completes := bk_completes (b_advance i b) @ [i]\<rparr>"
  by (simp add: b_complete_def b_advance_def Let_def split: prod.splits)

lemma b_complete_advance: "b_complete i b = (b_advance i b)\<lparr>bk_completes := bk_completes (b_advance i b) @ [i]\<rparr>"
  by (simp add: b_complete_def b_advance_def Let_def split: prod.splits)

lemma book_fail_command:
  "book_of (fail_command i a bl e s)
     = fold b_complete (i # map fst bl @ bk_pending (book_of s)) ((book_of s)\<lparr>bk_pending := []\<rparr>)"
proof -
  let ?e = "e\<lparr>we_command_index := int i\<rparr>"
  let ?s = "(advance_completed i s)\<lparr>sv_standing_error := Some ?e, sv_action_state := Action_Error, sv_blend_hold := None, sv_pending := []\<rparr>"
  have "fail_command i a bl e s
    = complete_cancelled (bl @ map (\<lambda>p. (pe_index p, pe_addr p)) (sv_pending s)) (push_complete a i (Some ?e) None ?s)"
    by (simp add: fail_command_def Let_def drop_pending_def)
  moreover have "book_of (push_complete a i (Some ?e) None ?s) = b_complete i ((book_of s)\<lparr>bk_pending := []\<rparr>)"
    unfolding book_push b_complete_pending by (simp add: book_advance del: book_of_sel)
  ultimately show ?thesis by (simp add: book_complete_cancelled comp_def)
qed

lemma sim_plan_started: "sim s (on_plan_started i taken s)"
proof (cases "sv_planning s = Some i \<and> sv_pending s \<noteq> []")
  case True
  then obtain p rest where p: "sv_pending s = p # rest" and pl: "sv_planning s = Some i" by (cases "sv_pending s") auto
  define n where "n = min (max taken 1) (1 + length rest) - 1"
  have "book_of (on_plan_started i taken s) = (book_of s)\<lparr>bk_planning := None, bk_pending := map pe_index (drop n rest),
      bk_running := map pe_index (p # take n rest)\<rparr>"
    using p pl by (simp add: on_plan_started_def Let_def n_def comp_def)
  moreover have "book_step (book_of s) ((book_of s)\<lparr>bk_planning := None, bk_pending := map pe_index (drop n rest),
      bk_running := map pe_index (p # take n rest)\<rparr>)" if "book_inv (book_of s)"
    by (rule bs_start) (use that p pl in \<open>auto simp: book_inv_def plan_ok_def simp flip: map_append\<close>)
  ultimately show ?thesis by (simp add: sim_def r_into_rtranclp)
next
  case False
  have "sim s (s\<lparr>sv_planning := None\<rparr>)"
    if "sv_planning s = Some i" "sv_pending s = []"
    by (rule sim_settle [where gone = "[]" and c = "book_of (s\<lparr>sv_planning := None\<rparr>)"])
      (simp_all add: same_account_def live_def plan_ok_def)
  with False show ?thesis by (auto simp: on_plan_started_def Let_def split: list.splits)
qed

lemma sim_plan_rejected: "sim s (on_plan_rejected i e s)"
proof (cases "sv_planning s = Some i")
  case True
  let ?c = "(book_of s)\<lparr>bk_planning := None, bk_pending := []\<rparr>"
  have "book_of (on_plan_rejected i e s) = fold b_complete (bk_pending (book_of s)) ?c"
  proof (cases "sv_pending s")
    case Nil
    with True show ?thesis by (simp add: on_plan_rejected_def Let_def book_of_def)
  next
    case (Cons p rest)
    with True show ?thesis by (simp add: on_plan_rejected_def Let_def book_fail_command)
  qed
  then show ?thesis
    by (rule sim_settle) (simp_all add: same_account_def live_def plan_ok_def)
next
  case False
  then show ?thesis by (simp add: on_plan_rejected_def)
qed

lemma sim_outcome: "sim s (on_outcome out s)"
proof (cases "\<exists>ex. sv_executing s = Some ex \<and> xe_index ex = co_index out")
  case True
  then obtain ex where ex: "sv_executing s = Some ex" "xe_index ex = co_index out" by blast
  let ?s = "s\<lparr>sv_executing := None\<rparr>"
  have plan: "plan_ok (bk_planning (book_of s)) [] p" if "book_inv (book_of s)" for p
    using that ex by (simp add: book_inv_def plan_ok_def)
  show ?thesis
  proof (cases "co_error out")
    case None
    have "book_of (on_outcome out s) = fold b_complete (bk_running (book_of s)) (book_of ?s)"
      using ex None by (simp add: on_outcome_def Let_def book_complete_ok book_push book_advance b_complete_advance)
    then have "sim s (on_outcome out s)" if "book_inv (book_of s)"
      by (rule sim_settle) (use ex plan [OF that] in \<open>simp_all add: same_account_def live_def\<close>)
    then show ?thesis by (auto simp: sim_def)
  next
    case (Some e)
    have "book_of (on_outcome out s) = fold b_complete (bk_running (book_of s) @ bk_pending (book_of s)) ((book_of ?s)\<lparr>bk_pending := []\<rparr>)"
      using ex Some by (simp add: on_outcome_def Let_def book_fail_command)
    then have "sim s (on_outcome out s)" if "book_inv (book_of s)"
      by (rule sim_settle) (use ex plan [OF that] in \<open>simp_all add: same_account_def live_def\<close>)
    then show ?thesis by (auto simp: sim_def)
  qed
next
  case False
  then show ?thesis by (auto simp: on_outcome_def split: option.splits)
qed

section \<open>Tool stops\<close>

lemma book_finish_stop: "book_of (finish_tool_stop e vd t s) = b_complete (ts_index t) (book_of s)"
  by (cases e) (simp_all add: finish_tool_stop_def Let_def book_push book_advance b_complete_advance)

lemma split_first_append: "split_first p xs = Some (as, y, bs) \<Longrightarrow> xs = as @ y # bs"
  by (induction xs arbitrary: "as") (auto split: if_splits)

lemma subseq_delete: "subseq (xs @ ys) (xs @ y # ys)" "subseq ys (xs @ y # ys)"
  by (auto intro: list_emb_append_mono list_emb_append2)

lemma sim_tool_started: "sim s (on_tool_started en tag result s)"
proof (cases "split_first (\<lambda>t. ts_tag t = Some tag) (sv_tool_stops s)")
  case None
  then show ?thesis by (simp add: on_tool_started_def)
next
  case (Some r)
  then obtain as' y bs where f: "split_first (\<lambda>t. ts_tag t = Some tag) (sv_tool_stops s) = Some (as', y, bs)" by (cases r) auto
  note ts = split_first_append [OF f]
  show ?thesis
  proof (cases result)
    case (Inl e)
    let ?u = "finish_tool_stop (Some e) None y (s\<lparr>sv_tool_stops := as' @ bs\<rparr>)"
    have "sim s ?u" if "book_inv (book_of s)"
      by (rule sim_settle [where gone = "[ts_index y]" and c = "book_of (s\<lparr>sv_tool_stops := as' @ bs\<rparr>)"])
        (use that ts in \<open>simp_all add: book_finish_stop same_account_def live_def book_inv_def subseq_delete\<close>)
    then have "sim s ?u" by (auto simp: sim_def)
    from sim_trans [OF this sim_pump] show ?thesis using f Inl by (simp add: on_tool_started_def)
  next
    case (Inr u)
    then show ?thesis using f ts by (auto simp: on_tool_started_def book_of_def intro!: sim_frame)
  qed
qed

lemma book_finish_stops: "book_of (fold (finish_tool_stop e vd) ts s) = fold b_complete (map ts_index ts) (book_of s)"
  by (induction ts arbitrary: s) (simp_all add: book_finish_stop)

lemma sim_tool_outcome: "sim s (on_tool_outcome en out s)"
proof (cases "split_first (\<lambda>t. ts_index t = co_index out \<and> ts_tag t = None) (sv_tool_stops s)")
  case None
  then show ?thesis by (simp add: on_tool_outcome_def)
next
  case (Some r)
  then obtain as' y bs where f: "split_first (\<lambda>t. ts_index t = co_index out \<and> ts_tag t = None) (sv_tool_stops s) = Some (as', y, bs)"
    by (cases r) auto
  note ts = split_first_append [OF f]
  let ?u = "fold (finish_tool_stop (co_error out) (co_verdict out)) (as' @ [y]) (s\<lparr>sv_tool_stops := bs\<rparr>)"
  have "sim s ?u" if "book_inv (book_of s)"
    by (rule sim_settle [where gone = "map ts_index (as' @ [y])" and c = "book_of (s\<lparr>sv_tool_stops := bs\<rparr>)"])
      (use that ts in \<open>simp_all add: book_finish_stops same_account_def live_def book_inv_def subseq_delete del: fold_append\<close>)
  then have "sim s ?u" by (auto simp: sim_def)
  from sim_trans [OF this sim_pump] show ?thesis using f by (simp add: on_tool_outcome_def)
qed

section \<open>Handlers\<close>

lemma book_answer_waiters [simp]: "book_of (answer_waiters w r s) = book_of s"
  unfolding answer_waiters_def by (rule frame_fold) (auto simp: outcome_reply_def split: sum.splits)

lemma book_next_tag: "next_tag s = (t, s') \<Longrightarrow> book_of s' = book_of s"
  by (auto simp: next_tag_def Let_def)

lemma completes_outcome [simp]: "completes_of (Ef_reply a (outcome_reply q r)) = []"
  by (cases r) (simp_all add: outcome_reply_def)

lemma book_handlers_quiet [simp]:
  "book_of (settle_enable en s) = book_of s"
  "book_of (settle_flashing en s) = book_of s"
  "book_of (settle_bus en s) = book_of s"
  "book_of (request_boot_enable s) = book_of s"
  "book_of (on_reset q a s) = book_of s"
  "book_of (refresh_queue_estimate s) = book_of s"
  "book_of (defer_program_shapes q a sh s) = book_of s"
  "book_of (drain_stream_backlog en c s) = book_of s"
  "book_of (preempt_stream en s) = book_of s"
  by (simp_all add: settle_enable_def settle_flashing_def settle_bus_def request_boot_enable_def on_reset_def Let_def take_waiters_def
      refresh_queue_estimate_def defer_program_shapes_def next_tag_def drain_stream_backlog_def preempt_stream_def
      split: option.splits sum.splits)

lemma book_scans [simp]: "book_of (answer_scans en s) = book_of s"
  by (simp add: answer_scans_def Let_def frame_fold)

lemma book_shapes_applied [simp]: "book_of (on_shapes_applied en tag r s) = book_of s"
  by (simp add: on_shapes_applied_def Let_def split: option.splits sum.splits prod.splits)

lemma book_expire [simp]: "book_of (expire_chunks en s) = book_of s"
proof -
  have "book_of (expire_one x s) = book_of s" for x s by (simp add: expire_one_def split: option.splits)
  then show ?thesis by (simp add: expire_chunks_def Let_def frame_fold split: prod.splits)
qed

lemma sim_query: "sim s (on_query en q c a s)"
  by (rule sim_frame) (simp add: on_query_def Let_def split: option.splits)

lemma sim_flashing: "sim s (on_flashing en q enter a s)"
proof -
  define t where "t = stop_invalid_attachments en (take_snapshot (ev_now en) (ev_snapshot_again en) s)"
  have "sim s t" unfolding t_def by (rule sim_after [OF sim_stop_invalid]) simp
  then show ?thesis
    by (rule sim_then) (simp add: on_flashing_def Let_def t_def [symmetric] split: sum.splits)
qed

lemma sim_all_after_invalidate: "sim s (snd (cancel_all_motion (invalidate_attachments s)))"
  by (rule sim_after [OF sim_cancel_all]) simp

lemma sim_bus_swap: "sim s (on_bus_swap en q call b a s)"
  by (rule sim_then [OF sim_all_after_invalidate]) (simp add: on_bus_swap_def Let_def split: sum.splits)

lemma sim_reset_state: "sim s (on_reset_state q a s)"
  by (rule sim_then [OF sim_all_after_invalidate]) (simp add: on_reset_state_def Let_def)

lemma sim_estop: "sim s (on_estop s)"
proof -
  let ?s = "(rt_do (RC_set_enabled False) (s\<lparr>sv_estop_latched := True\<rparr>))\<lparr>sv_standing_error := Some (make_error EC_SysEstopActive UNATTRIBUTED)\<rparr>"
  have "sim s (snd (cancel_all_motion ?s))" by (rule sim_after [OF sim_cancel_all]) simp
  then show ?thesis by (rule sim_then) (simp add: on_estop_def Let_def)
qed

lemma sim_stop: "sim s (on_stop clear s)"
proof (cases clear)
  case True
  show ?thesis by (rule sim_then [OF sim_cancel_all]) (simp add: on_stop_def True Let_def split: prod.splits)
next
  case False
  show ?thesis by (rule sim_then [OF sim_cancel_active]) (simp add: on_stop_def False Let_def split: prod.splits)
qed

lemma sim_teleport: "sim s (snd (on_teleport en p s))"
proof (cases "validate_supported (sv_cfg s) (C_Teleport p)")
  case None
  define t where "t = (case sv_active_stream s of
      Some superseded \<Rightarrow> drain_stream_backlog en superseded (rt_do RC_cancel_stream (s\<lparr>sv_active_stream := None\<rparr>)) | None \<Rightarrow> s)"
  have "sim s (snd (cancel_planned (tp_tool_positions p = None) t))"
    by (rule sim_after [OF sim_cancel_planned]) (simp add: t_def split: option.splits)
  then show ?thesis by (rule sim_then) (simp add: on_teleport_def None Let_def t_def [symmetric])
qed (simp add: on_teleport_def)

lemma sim_system_effect: "sim s (snd (system_effect en c s))"
proof (cases c)
  case C_Estop
  then show ?thesis by (simp add: system_effect_def sim_estop)
next
  case (C_Stop b)
  then show ?thesis by (simp add: system_effect_def sim_stop)
next
  case (C_Teleport p)
  then show ?thesis by (simp add: system_effect_def sim_teleport)
qed (auto simp: system_effect_def on_select_profile_def guarded_def commissioned_def on_set_tool_id_def
    intro!: sim_frame split: option.splits sum.splits)

lemma sim_system: "sim s (on_system en q c a s)"
proof (cases "server_check_gate (command_tag c) s")
  case None
  have "sim s (send_reply a (outcome_reply q (fst (system_effect en c s))) (snd (system_effect en c s)))"
    by (rule sim_then [OF sim_system_effect]) simp
  then show ?thesis
    by (cases c) (auto simp: on_system_def None sim_reset_state sim_flashing sim_bus_swap intro: sim_frame split: option.splits prod.splits)
qed (simp add: on_system_def sim_frame)

lemma sim_stream_afresh: "sim s (snd (stream_afresh en tag c s))"
proof -
  obtain d t where d: "drop_planned True (preempt_stream en s) = (d, t)" by (metis prod.exhaust)
  define u where "u = (case ev_stream en of
      Inr _ \<Rightarrow> (rt_do (RC_stream c) t)\<lparr>sv_active_stream := Some tag\<rparr>
    | Inl _ \<Rightarrow> if ev_refusal_after en then (rt_do (RC_stream c) t)\<lparr>sv_active_stream := Some tag\<rparr> else rt_do (RC_stream c) t)"
  have "snd (stream_afresh en tag c s) = complete_cancelled d u"
    by (simp add: stream_afresh_def d u_def Let_def split: sum.splits)
  moreover have "sim (preempt_stream en s) (complete_cancelled d u)"
    by (rule sim_drop_planned [OF d]) (simp add: u_def split: sum.splits)
  ultimately show ?thesis by (simp add: sim_after)
qed

lemma sim_faf: "sim s (on_faf en q c a s)"
proof -
  define r where "r = (if sv_active_stream s = Some (command_tag c) then stream_in_place en c s else stream_afresh en (command_tag c) c s)"
  have "sim s (snd r)"
    by (auto simp: r_def sim_stream_afresh stream_in_place_def Let_def intro!: sim_frame split: sum.splits)
  then have "sim s (on_motion_accepted (snd r))" "sim s (reply_error a q e (latch_refusal e' b (snd r)))" for e e' b
    by (auto intro: sim_then)
  note r = this
  show ?thesis
  proof (cases "command_tag c = T_ResetLoopStats \<or> server_check_gate (command_tag c) s \<noteq> None \<or> validate_supported (sv_cfg s) c \<noteq> None")
    case True
    then show ?thesis by (auto simp: on_faf_def Let_def latch_faf_refusal_def sim_frame split: option.splits)
  next
    case False
    then have "on_faf en q c a s = (case ev_stream en of
        Inr _ \<Rightarrow> on_motion_accepted (snd r)
      | Inl e \<Rightarrow> reply_error a q e (if fst r then latch_stream_refusal e (snd r) else latch_faf_refusal e (snd r)))"
      unfolding on_faf_def Let_def r_def [symmetric] by (cases r; cases "ev_stream en") simp_all
    then show ?thesis using r by (simp add: latch_faf_refusal_def latch_stream_refusal_def split: sum.splits)
  qed
qed

text \<open>A tool stop enters the ledger before it cancels the tool action in its way.\<close>

lemma drop_tool_action_stops:
  assumes "drop_active_tool_action s = (d, t)"
  shows "drop_active_tool_action (s\<lparr>sv_tool_stops := x\<rparr>) = (d, t\<lparr>sv_tool_stops := x\<rparr>)"
  using assms
  by (cases "sv_executing s"; cases "sv_planning s"; cases "sv_pending s")
    (auto simp: drop_active_tool_action_def Let_def emit_def split: if_splits)

lemma b_complete_stops: "b_complete i (b\<lparr>bk_stops := x\<rparr>) = (b_complete i b)\<lparr>bk_stops := x\<rparr>"
  by (simp add: b_complete_def b_advance_def Let_def split: prod.splits)

lemma fold_complete_stops: "fold b_complete is (b\<lparr>bk_stops := x\<rparr>) = (fold b_complete is b)\<lparr>bk_stops := x\<rparr>"
  by (induction "is" arbitrary: b) (simp_all add: b_complete_stops)

lemma sim_tool_stop:
  assumes "book_of t = (book_of s)\<lparr>bk_next := Suc (sv_next_index s)\<rparr>"
  shows "sim s (start_tool_stop (sv_next_index s) a p t)"
proof -
  obtain d u where d: "drop_active_tool_action t = (d, u)" by (metis prod.exhaust)
  define v where "v = complete_cancelled d u"
  let ?stop = "\<lparr>ts_index = sv_next_index s, ts_addr = a, ts_tag = Some (sv_next_tag v + 1)\<rparr>"
  define x where "x = sv_tool_stops t @ [?stop]"
  have stops: "map ts_index (sv_tool_stops t) = bk_stops (book_of s)" using assms book_of_sel(5) [of t] by simp
  have "sv_tool_stops u = sv_tool_stops t"
    using d drop_tool_action_stops [OF d, of "sv_tool_stops t"] by (metis prod.inject server.surjective server.update_convs(11) server.select_convs(11))
  have "book_step (book_of s) (book_of (t\<lparr>sv_tool_stops := x\<rparr>))"
    using bs_accept_stop [of "book_of s"] assms stops by (simp add: x_def)
  then have one: "sim s (t\<lparr>sv_tool_stops := x\<rparr>)" by (simp add: sim_def r_into_rtranclp)
  have two: "sim (t\<lparr>sv_tool_stops := x\<rparr>) (complete_cancelled d (u\<lparr>sv_tool_stops := x\<rparr>))"
    by (rule sim_drop_tool_action [OF drop_tool_action_stops [OF d]])
  have "map ts_index (sv_tool_stops v) = map ts_index (sv_tool_stops u)"
    using book_of_sel(5) [of v] by (simp add: v_def book_complete_cancelled)
  then have "book_of (start_tool_stop (sv_next_index s) a p t) = book_of (complete_cancelled d (u\<lparr>sv_tool_stops := x\<rparr>))"
    using \<open>sv_tool_stops u = sv_tool_stops t\<close>
    by (simp add: start_tool_stop_def d v_def [symmetric] next_tag_def Let_def book_complete_cancelled fold_complete_stops x_def)
      (simp add: v_def book_complete_cancelled)
  with sim_trans [OF one two] show ?thesis by (rule sim_then)
qed

lemma sim_enqueue:
  assumes "tool_stop_of c = None \<longrightarrow> length (sv_pending s) < sc_queue_capacity (sv_cfg s)"
  shows "sim s (enqueue en q key c a s)"
proof -
  obtain index t where t: "accept_index key s = (index, t)" by (metis prod.exhaust)
  then have t': "index = sv_next_index s" "book_of t = (book_of s)\<lparr>bk_next := Suc index\<rparr>"
    by (auto simp: accept_index_def Let_def)
  show ?thesis
  proof (cases "tool_stop_of c")
    case None
    let ?u = "(cancel_stream_if_any (on_motion_accepted t))\<lparr>sv_pending := sv_pending (cancel_stream_if_any (on_motion_accepted t))
      @ [\<lparr>pe_index = index, pe_cmd = c, pe_addr = a\<rparr>]\<rparr>"
    have p: "map pe_index (sv_pending (cancel_stream_if_any (on_motion_accepted t))) = bk_pending (book_of s)"
      using t'(2) book_of_sel(2) [of "cancel_stream_if_any (on_motion_accepted t)"] by simp
    have "book_of (send_reply a (Rp_Ok q (Some index)) ?u) = (book_of s)\<lparr>bk_next := Suc (bk_next (book_of s)),
        bk_pending := bk_pending (book_of s) @ [bk_next (book_of s)]\<rparr>"
      using t' p by simp
    moreover have "book_step (book_of s) \<dots>" by (rule bs_accept) (use assms None in simp)
    ultimately have "sim s (send_reply a (Rp_Ok q (Some index)) ?u)" by (simp add: sim_def r_into_rtranclp)
    from sim_trans [OF this sim_pump] show ?thesis using t None by (simp add: enqueue_def Let_def)
  next
    case (Some p)
    have "sim s (start_tool_stop index a p (send_reply a (Rp_Ok q (Some index)) (on_motion_accepted t)))"
      unfolding t'(1) by (rule sim_tool_stop) (simp add: t'(2) t'(1))
    then show ?thesis using t Some by (simp add: enqueue_def Let_def)
  qed
qed

lemma queued_has_room:
  "queued_refusal c s = None \<Longrightarrow> tool_stop_of c = None \<longrightarrow> length (sv_pending s) < sc_queue_capacity (sv_cfg s)"
  by (auto simp: queued_refusal_def split: option.splits if_splits)

lemma sim_queued: "sim s (on_queued en q c a s)"
  by (auto simp: on_queued_def intro: sim_frame sim_enqueue queued_has_room [rule_format] split: option.splits)

section \<open>Events\<close>

lemma sim_command: "sim s (dispatch_command en q c a s)"
  by (cases "command_class (command_tag c)") (simp_all add: dispatch_command_def sim_query sim_system sim_faf sim_queued)

lemma sim_command_bytes: "sim s (on_command_bytes en d a s)"
  by (auto simp: on_command_bytes_def sim_command sim_frame split: sum.splits prod.splits)

lemma sim_chunk: "sim s (on_chunk en d a s)"
proof (cases "decode_chunk d")
  case (Inr c)
  obtain r x where p: "push (sv_reassembler s) c (ev_now en) = (r, x)" by (metis prod.exhaust)
  have "sim s (on_command_bytes en y a t)" if "book_of t = book_of s" for y t
    by (rule sim_after [OF sim_command_bytes]) (simp add: that)
  then show ?thesis using Inr p by (auto simp: on_chunk_def Let_def sim_frame split: sum.splits option.splits)
qed (simp add: on_chunk_def sim_frame)

lemma sim_refresh_stop: "sim s (stop_invalid_attachments en (refresh_snapshot en s))"
  by (rule sim_after [OF sim_stop_invalid]) simp

lemma sim_datagram: "sim s (on_datagram en d a s)"
proof -
  have "sim s (on_chunk en d a (stop_invalid_attachments en (refresh_snapshot en s)))"
    "sim s (on_command_bytes en d a (stop_invalid_attachments en (refresh_snapshot en s)))"
    using sim_refresh_stop sim_chunk sim_command_bytes sim_trans by blast+
  then show ?thesis by (simp add: on_datagram_def Let_def split: sum.splits)
qed

lemma sim_emit_status: "sim s (emit_status en s)"
proof -
  have "sim s (stop_invalid_attachments en (s\<lparr>sv_last_status_tick := Some (av_tick (sv_snap s)), sv_last_status_at := ev_now en\<rparr>))"
    by (rule sim_after [OF sim_stop_invalid]) simp
  then show ?thesis by (rule sim_then) (simp add: emit_status_def Let_def)
qed

lemma sim_poll: "sim s (on_poll en s)"
proof -
  define t where "t = emit_status_on_tick en (refresh_snapshot en s)"
  define u where "u = stop_invalid_attachments en t"
  have "sim (refresh_snapshot en s) t" unfolding t_def emit_status_on_tick_def Let_def by (simp add: sim_emit_status)
  then have "sim s t" by (rule sim_after) simp
  moreover have "sim t u" unfolding u_def by (rule sim_stop_invalid)
  ultimately have "sim s u" by (rule sim_trans)
  moreover have "sim u (on_poll en s)"
    unfolding on_poll_def Let_def t_def [symmetric] u_def [symmetric] by (rule sim_after [OF sim_pump]) simp
  ultimately show ?thesis by (rule sim_trans)
qed

lemma sim_status: "sim s (on_status en s)"
  by (auto simp: on_status_def intro: sim_after [OF sim_emit_status])

lemma sim_plan_event: "sim s (on_plan_event en ev s)"
proof -
  define t where "t = stop_invalid_attachments en (refresh_snapshot en s)"
  have "sim t (on_plan_event en ev s)"
    by (cases ev) (auto simp: on_plan_event_def Let_def t_def [symmetric] sim_plan_started sim_plan_rejected sim_tool_outcome
        sim_tool_started sim_frame intro: sim_trans [OF sim_outcome sim_pump])
  moreover have "sim s t" unfolding t_def by (rule sim_refresh_stop)
  ultimately show ?thesis using sim_trans by blast
qed

lemma sim_event: "sim s (on_event en ev s)"
  by (cases ev) (simp_all add: on_event_def sim_datagram sim_poll sim_status sim_plan_event)

text \<open>One turn of the server's loop is a sequence of steps of the ledger.\<close>

lemma server_step_sim: "server_step s s' \<Longrightarrow> sim s s'"
proof (induction rule: server_step.induct)
  case (sv_deferred s data "from" rest en)
  show ?case by (rule sim_after [OF sim_datagram]) simp
qed (rule sim_event)

lemma server_initial_book: "server_initial k s \<Longrightarrow> book_initial (sc_queue_capacity k) (book_of s)"
  by (auto simp: server_initial_def book_initial_def) (simp add: book_of_def new_server_def FIRST_COMMAND_INDEX_def completes_def)

interpretation server_machine: inductive_invariant "server_initial k" server_step "\<lambda>s. book_inv (book_of s)"
proof
  show "book_inv (book_of s)" if "server_initial k s" for s
    by (rule book_machine.inv_init [OF server_initial_book [OF that]])
  show "book_inv (book_of s')" if "book_inv (book_of s)" "server_step s s'" for s s'
    using server_step_sim [OF that(2)] that(1) steps_inv by (auto simp: sim_def)
qed

lemma server_reaches_book: "reachable (server_initial k) server_step s \<Longrightarrow> reachable (book_initial (sc_queue_capacity k)) book_step (book_of s)"
proof (induction rule: reachable.induct)
  case (reachable_step s s')
  then have "steps (book_of s) (book_of s')"
    using server_step_sim server_machine.reachable_inv by (auto simp: sim_def)
  then show ?case using reachable_step(3) by (induction rule: rtranclp_induct) (auto intro: reachable.reachable_step)
qed (auto intro: reachable.reachable_init server_initial_book)

end
