(* ===== verification/Server_Frame.thy ===== *)
theory Server_Frame
  imports Server_Refine
begin

text \<open>
  What the handlers of the server that accept no command have in common. A relation between
  states that looks at none of the bookkeeping fields, and at the log only through the effects it
  notes, survives every one of them; the lemmas are proved here once, for any such relation, and
  used for the motion a latched e-stop forbids and for the acknowledgements of queued commands.
\<close>

locale server_frame =
  fixes rel :: "server \<Rightarrow> server \<Rightarrow> bool" and noted :: "effect \<Rightarrow> bool"
  assumes rel_refl [simp]: "rel s s"
    and rel_trans: "rel s t \<Longrightarrow> rel t u \<Longrightarrow> rel s u"
    and rel_emit [simp]: "\<not> noted e \<Longrightarrow> rel s t \<Longrightarrow> rel s (emit e t)"
    and frame_fields [simp]:
      "rel s (t\<lparr>sv_cfg := v0\<rparr>) = rel s t"
      "rel s (t\<lparr>sv_reassembler := v1\<rparr>) = rel s t"
      "rel s (t\<lparr>sv_transfer_addrs := v2\<rparr>) = rel s t"
      "rel s (t\<lparr>sv_pending := v5\<rparr>) = rel s t"
      "rel s (t\<lparr>sv_executing := v6\<rparr>) = rel s t"
      "rel s (t\<lparr>sv_blend_hold := v7\<rparr>) = rel s t"
      "rel s (t\<lparr>sv_planning := v8\<rparr>) = rel s t"
      "rel s (t\<lparr>sv_pending_shapes := v9\<rparr>) = rel s t"
      "rel s (t\<lparr>sv_tool_stops := v10\<rparr>) = rel s t"
      "rel s (t\<lparr>sv_accepted_index := v11\<rparr>) = rel s t"
      "rel s (t\<lparr>sv_completed_index := v12\<rparr>) = rel s t"
      "rel s (t\<lparr>sv_finished := v13\<rparr>) = rel s t"
      "rel s (t\<lparr>sv_completion_log := v14\<rparr>) = rel s t"
      "rel s (t\<lparr>sv_last_checkpoint := v15\<rparr>) = rel s t"
      "rel s (t\<lparr>sv_standing_error := v16\<rparr>) = rel s t"
      "rel s (t\<lparr>sv_action_state := v17\<rparr>) = rel s t"
      "rel s (t\<lparr>sv_teleport_homed := v18\<rparr>) = rel s t"
      "rel s (t\<lparr>sv_active_stream := v19\<rparr>) = rel s t"
      "rel s (t\<lparr>sv_deferred := v20\<rparr>) = rel s t"
      "rel s (t\<lparr>sv_reset_waiters := v21\<rparr>) = rel s t"
      "rel s (t\<lparr>sv_flashing_waiters := v22\<rparr>) = rel s t"
      "rel s (t\<lparr>sv_bus_waiters := v23\<rparr>) = rel s t"
      "rel s (t\<lparr>sv_pending_simulator := v24\<rparr>) = rel s t"
      "rel s (t\<lparr>sv_booted := v25\<rparr>) = rel s t"
      "rel s (t\<lparr>sv_profile := v26\<rparr>) = rel s t"
      "rel s (t\<lparr>sv_tool := v27\<rparr>) = rel s t"
      "rel s (t\<lparr>sv_tool_variant := v28\<rparr>) = rel s t"
      "rel s (t\<lparr>sv_tcp_offset_mm := v29\<rparr>) = rel s t"
      "rel s (t\<lparr>sv_tcp_rotation_deg := v30\<rparr>) = rel s t"
      "rel s (t\<lparr>sv_payload := v31\<rparr>) = rel s t"
      "rel s (t\<lparr>sv_shapes := v32\<rparr>) = rel s t"
      "rel s (t\<lparr>sv_attachment_epoch := v33\<rparr>) = rel s t"
      "rel s (t\<lparr>sv_attachment_stop_pending := v34\<rparr>) = rel s t"
      "rel s (t\<lparr>sv_scene_epoch := v35\<rparr>) = rel s t"
      "rel s (t\<lparr>sv_completion_policy := v36\<rparr>) = rel s t"
      "rel s (t\<lparr>sv_execution_paused := v37\<rparr>) = rel s t"
      "rel s (t\<lparr>sv_pending_scans := v38\<rparr>) = rel s t"
      "rel s (t\<lparr>sv_simulator := v39\<rparr>) = rel s t"
      "rel s (t\<lparr>sv_queue_estimate_for := v40\<rparr>) = rel s t"
      "rel s (t\<lparr>sv_snap := v41\<rparr>) = rel s t"
      "rel s (t\<lparr>sv_last_fresh := v42\<rparr>) = rel s t"
      "rel s (t\<lparr>sv_status_seq := v43\<rparr>) = rel s t"
      "rel s (t\<lparr>sv_last_status_tick := v44\<rparr>) = rel s t"
      "rel s (t\<lparr>sv_last_status_at := v45\<rparr>) = rel s t"
      "rel s (t\<lparr>sv_status_rate_hz := v46\<rparr>) = rel s t"
      "rel s (t\<lparr>sv_next_tag := v47\<rparr>) = rel s t"
    and unnoted [simp]: "\<not> noted (Ef_reply a (Rp_Error q er))" "\<not> noted (Ef_reply a (Rp_Response q res))"
      "\<not> noted (Ef_reply a (Rp_Complete i ok detail vd))" "\<not> noted (Ef_reply a (Rp_Ok q None))" "\<not> noted (Ef_status f)"
      "\<not> noted (Ef_plan (PR_Cancel h))" "\<not> noted (Ef_plan PR_CancelTool)" "\<not> noted (Ef_plan PR_ClearCollision)"
      "\<not> noted (Ef_plan (PR_Sync ctx))" "\<not> noted (Ef_plan (PR_QueueEstimate qe))" "\<not> noted (Ef_plan (PR_SetShapes tag l sh))"
      "\<not> noted (Ef_plan (PR_StartTool tag i p))"
    and unnoted_rt [simp]: "(\<And>x. call \<noteq> RC_stream x) \<Longrightarrow> (\<And>qs w. call \<noteq> RC_teleport qs w) \<Longrightarrow> \<not> noted (Ef_rt call)"
begin

lemma unnoted_outcome [simp]: "\<not> noted (Ef_reply a (outcome_reply q r))"
  by (cases r) (simp_all add: outcome_reply_def)

lemma frame_over: "(\<And>x t. rel t (f x t)) \<Longrightarrow> rel s t \<Longrightarrow> rel s (fold f xs t)"
proof (induction xs arbitrary: t)
  case (Cons x xs)
  from Cons.prems(2) Cons.prems(1) have "rel s (f x t)" by (rule rel_trans)
  from Cons.IH [OF Cons.prems(1) this] show ?case by simp
qed simp

lemma frame_basics [simp]:
  "rel s t \<Longrightarrow> rel s (push_complete a i d v t)"
  "rel s t \<Longrightarrow> rel s (advance_completed i t)"
  "rel s t \<Longrightarrow> rel s (sync_planner t)"
  "rel s t \<Longrightarrow> rel s (reply_error a q e t)"
  "rel s t \<Longrightarrow> rel s (clear_pause t)"
  "rel s t \<Longrightarrow> rel s (take_snapshot now w t)"
  "rel s t \<Longrightarrow> rel s (refresh_snapshot en t)"
  "rel s t \<Longrightarrow> rel s (invalidate_attachments t)"
  "rel s t \<Longrightarrow> rel s (latch_refusal e busy t)"
  "rel s t \<Longrightarrow> rel s (on_motion_accepted t)"
  "rel s t \<Longrightarrow> rel s (cancel_stream_if_any t)"
  "rel s t \<Longrightarrow> rel s (adopt_tool_selection name vr t)"
  by (simp_all add: push_complete_def advance_completed_def sync_planner_def reply_error_def clear_pause_def take_snapshot_def
      refresh_snapshot_def invalidate_attachments_def latch_refusal_def on_motion_accepted_def cancel_stream_if_any_def
      adopt_tool_selection_def Let_def split: option.splits prod.splits)

lemma frame_post_effect [simp]: "rel s t \<Longrightarrow> rel s (apply_post_effect e t)"
  by (cases e) (simp_all add: apply_post_effect_def)

lemma frame_cancelled [simp]: "rel s t \<Longrightarrow> rel s (complete_cancelled d t)"
  unfolding complete_cancelled_def by (rule frame_over) (simp_all add: complete_one_cancelled_def split: prod.splits)

lemma frame_drops:
  "drop_active t = (d, u) \<Longrightarrow> rel s t \<Longrightarrow> rel s u"
  "drop_pending t = (d, u) \<Longrightarrow> rel s t \<Longrightarrow> rel s u"
  "drop_tool_stops t = (d, u) \<Longrightarrow> rel s t \<Longrightarrow> rel s u"
  "drop_active_tool_action t = (d, u) \<Longrightarrow> rel s t \<Longrightarrow> rel s u"
  by (auto simp: drop_active_def drop_pending_def drop_tool_stops_def drop_active_tool_action_def Let_def
      split: option.splits list.splits if_splits)

lemma frame_drop_motion:
  "drop_active_motion t = (d, u) \<Longrightarrow> rel s t \<Longrightarrow> rel s u"
  "drop_planned h t = (d, u) \<Longrightarrow> rel s t \<Longrightarrow> rel s u"
proof -
  assume "drop_active_motion t = (d, u)" "rel s t"
  moreover obtain a t1 where a: "drop_active (plan_send (PR_Cancel True) t) = (a, t1)" by (metis prod.exhaust)
  moreover obtain b t2 where b: "drop_tool_stops t1 = (b, t2)" by (metis prod.exhaust)
  ultimately have "u = rt_do RC_halt (cancel_stream_if_any t2)" by (auto simp: drop_active_motion_def Let_def)
  moreover have "rel s t2" using frame_drops(3) [OF b frame_drops(1) [OF a]] \<open>rel s t\<close> by simp
  ultimately show "rel s u" by simp
next
  assume "drop_planned h t = (d, u)" "rel s t"
  moreover obtain a t1 where a: "drop_active (plan_send (PR_Cancel h) t) = (a, t1)" by (metis prod.exhaust)
  moreover obtain b t2 where b: "drop_pending t1 = (b, t2)" by (metis prod.exhaust)
  ultimately show "rel s u" using frame_drops(2) [OF b frame_drops(1) [OF a]] by (auto simp: drop_planned_def Let_def)
qed

lemma frame_cancels [simp]:
  "rel s t \<Longrightarrow> rel s (snd (cancel_active_motion t))"
  "rel s t \<Longrightarrow> rel s (snd (cancel_all_motion t))"
  "rel s t \<Longrightarrow> rel s (snd (cancel_planned h t))"
  by (auto simp: cancel_active_motion_def cancel_all_motion_def cancel_planned_def split: prod.splits
      intro!: frame_cancelled intro: frame_drop_motion frame_drops(2))

lemma frame_stop_invalid [simp]: "rel s t \<Longrightarrow> rel s (stop_invalid_attachments en t)"
  by (simp add: stop_invalid_attachments_def Let_def)

lemma frame_fail [simp]: "rel s t \<Longrightarrow> rel s (fail_command i a bl e t)"
  by (simp add: fail_command_def Let_def drop_pending_def)

lemma frame_plan_answers [simp]:
  "rel s t \<Longrightarrow> rel s (on_plan_started i n t)"
  "rel s t \<Longrightarrow> rel s (on_plan_rejected i e t)"
  by (simp_all add: on_plan_started_def on_plan_rejected_def Let_def split: list.splits)

lemma frame_outcome [simp]: "rel s t \<Longrightarrow> rel s (on_outcome out t)"
proof -
  assume "rel s t"
  moreover have "rel s u \<Longrightarrow> rel s (fold complete_ok xs u)" for xs u
    by (rule frame_over) (simp_all add: complete_ok_def split: prod.splits)
  ultimately show ?thesis by (simp add: on_outcome_def Let_def split: option.splits)
qed

lemma frame_finish_stop [simp]: "rel s t \<Longrightarrow> rel s (finish_tool_stop e vd x t)"
  by (simp add: finish_tool_stop_def Let_def split: option.splits)

lemma frame_start_stop [simp]: "rel s t \<Longrightarrow> rel s (start_tool_stop i a p t)"
proof -
  assume "rel s t"
  obtain d u where d: "drop_active_tool_action t = (d, u)" by (metis prod.exhaust)
  from frame_drops(4) [OF d \<open>rel s t\<close>] d show ?thesis by (simp add: start_tool_stop_def next_tag_def Let_def)
qed

lemma frame_late_answers [simp]:
  "rel s t \<Longrightarrow> rel s (answer_waiters w r t)"
  "rel s t \<Longrightarrow> rel s (settle_enable en t)"
  "rel s t \<Longrightarrow> rel s (settle_flashing en t)"
  "rel s t \<Longrightarrow> rel s (settle_bus en t)"
  "rel s t \<Longrightarrow> rel s (request_boot_enable t)"
  "rel s t \<Longrightarrow> rel s (refresh_queue_estimate t)"
  "rel s t \<Longrightarrow> rel s (defer_program_shapes q a sh t)"
  "rel s t \<Longrightarrow> rel s (drain_stream_backlog en c t)"
  "rel s t \<Longrightarrow> rel s (answer_scans en t)"
  "rel s t \<Longrightarrow> rel s (expire_chunks en t)"
proof -
  have waiters: "rel s u \<Longrightarrow> rel s (answer_waiters w r u)" for w r u
    unfolding answer_waiters_def by (rule frame_over) (auto split: prod.splits)
  have scans: "rel s u \<Longrightarrow> rel s (fold (\<lambda>p. send_reply (pn_addr p) (Rp_Response (pn_req_id p) (QR_Readout T_BusScan))) ps u)" for ps u
    by (rule frame_over) simp_all
  have expired: "rel s u \<Longrightarrow> rel s (fold expire_one xs u)" for xs u
    by (rule frame_over) (simp_all add: expire_one_def split: option.splits)
  assume "rel s t"
  then show "rel s (answer_waiters w r t)" "rel s (settle_enable en t)" "rel s (settle_flashing en t)" "rel s (settle_bus en t)"
    "rel s (request_boot_enable t)" "rel s (refresh_queue_estimate t)" "rel s (defer_program_shapes q a sh t)"
    "rel s (drain_stream_backlog en c t)" "rel s (answer_scans en t)" "rel s (expire_chunks en t)"
    by (simp_all add: waiters scans expired settle_enable_def settle_flashing_def settle_bus_def request_boot_enable_def take_waiters_def
        refresh_queue_estimate_def defer_program_shapes_def next_tag_def drain_stream_backlog_def answer_scans_def expire_chunks_def Let_def
        split: option.splits sum.splits prod.splits)
qed

lemma frame_emit_status [simp]: "rel s t \<Longrightarrow> rel s (emit_status en t)" "rel s t \<Longrightarrow> rel s (emit_status_on_tick en t)"
  by (simp_all add: emit_status_def emit_status_on_tick_def Let_def)

lemma frame_shapes [simp]: "rel s t \<Longrightarrow> rel s (on_shapes_applied en tag r t)"
  by (simp add: on_shapes_applied_def Let_def split: option.splits sum.splits prod.splits)

lemma frame_status: "rel s (on_status en s)"
  by (simp add: on_status_def)

lemma frame_query: "rel s t \<Longrightarrow> rel s (on_query en q c a t)"
  by (simp add: on_query_def Let_def split: option.splits)

lemma frame_flashing: "rel s t \<Longrightarrow> rel s (on_flashing en q enter a t)"
  by (simp add: on_flashing_def Let_def split: sum.splits)

lemma frame_bus_swap:
  assumes "rel s t" and "\<not> noted (Ef_rt call)"
  shows "rel s (on_bus_swap en q call b a t)"
  using assms by (simp add: on_bus_swap_def Let_def del: unnoted_rt split: sum.splits)

lemma frame_reset_state: "rel s t \<Longrightarrow> rel s (on_reset_state q a t)"
  by (simp add: on_reset_state_def Let_def)

lemma frame_stop: "rel s t \<Longrightarrow> rel s (on_stop clear t)"
proof -
  assume t: "rel s t"
  have all: "rel s u" if "cancel_all_motion t = (n, u)" for n u using frame_cancels(2) [OF t] that by simp
  have active: "rel s u" if "cancel_active_motion t = (n, u)" for n u using frame_cancels(1) [OF t] that by simp
  from all active show ?thesis by (cases clear) (auto simp: on_stop_def Let_def split: prod.splits)
qed

end

end
