(* ===== verification/Server_Props.thy ===== *)
theory Server_Props
  imports Server_Frame
begin

text \<open>
  Properties of the command server: what it promises about the commands it accepts, what a stop
  and an e-stop do, and what a latched e-stop keeps from happening.
\<close>

section \<open>A latched e-stop\<close>

text \<open>The effects that set the arm in motion.\<close>

definition moves :: "effect \<Rightarrow> bool" where
  "moves e = (case e of
       Ef_rt (RC_stream _) \<Rightarrow> True
     | Ef_rt (RC_teleport _ _) \<Rightarrow> True
     | Ef_plan (PR_Start ((_, c) # _)) \<Rightarrow> ga_needs_enabled (gate_of (command_tag c))
     | _ \<Rightarrow> False)"

text \<open>\<open>calm s s'\<close>: no motion was started between \<open>s\<close> and \<open>s'\<close> and the latch kept its value.\<close>

definition calm :: "server \<Rightarrow> server \<Rightarrow> bool" where
  "calm s s' \<longleftrightarrow> sv_estop_latched s' = sv_estop_latched s \<and> (\<exists>new. sv_log s' = sv_log s @ new \<and> (\<forall>e \<in> set new. \<not> moves e))"

lemma calm_refl [simp]: "calm s s"
  by (simp add: calm_def)

lemma calm_trans: "calm s t \<Longrightarrow> calm t u \<Longrightarrow> calm s u"
  unfolding calm_def by force

lemma calm_emit [simp]: "\<not> moves e \<Longrightarrow> calm s t \<Longrightarrow> calm s (emit e t)"
  by (auto simp: calm_def emit_def)

text \<open>Changes of fields that are neither the latch nor the log.\<close>

lemma calm_frame [simp]:
  "calm s (t\<lparr>sv_cfg := v0\<rparr>) = calm s t"
  "calm s (t\<lparr>sv_reassembler := v1\<rparr>) = calm s t"
  "calm s (t\<lparr>sv_transfer_addrs := v2\<rparr>) = calm s t"
  "calm s (t\<lparr>sv_next_index := v3\<rparr>) = calm s t"
  "calm s (t\<lparr>sv_dedup := v4\<rparr>) = calm s t"
  "calm s (t\<lparr>sv_pending := v5\<rparr>) = calm s t"
  "calm s (t\<lparr>sv_executing := v6\<rparr>) = calm s t"
  "calm s (t\<lparr>sv_blend_hold := v7\<rparr>) = calm s t"
  "calm s (t\<lparr>sv_planning := v8\<rparr>) = calm s t"
  "calm s (t\<lparr>sv_pending_shapes := v9\<rparr>) = calm s t"
  "calm s (t\<lparr>sv_tool_stops := v10\<rparr>) = calm s t"
  "calm s (t\<lparr>sv_accepted_index := v11\<rparr>) = calm s t"
  "calm s (t\<lparr>sv_completed_index := v12\<rparr>) = calm s t"
  "calm s (t\<lparr>sv_finished := v13\<rparr>) = calm s t"
  "calm s (t\<lparr>sv_completion_log := v14\<rparr>) = calm s t"
  "calm s (t\<lparr>sv_last_checkpoint := v15\<rparr>) = calm s t"
  "calm s (t\<lparr>sv_standing_error := v16\<rparr>) = calm s t"
  "calm s (t\<lparr>sv_action_state := v17\<rparr>) = calm s t"
  "calm s (t\<lparr>sv_teleport_homed := v18\<rparr>) = calm s t"
  "calm s (t\<lparr>sv_active_stream := v19\<rparr>) = calm s t"
  "calm s (t\<lparr>sv_deferred := v20\<rparr>) = calm s t"
  "calm s (t\<lparr>sv_reset_waiters := v21\<rparr>) = calm s t"
  "calm s (t\<lparr>sv_flashing_waiters := v22\<rparr>) = calm s t"
  "calm s (t\<lparr>sv_bus_waiters := v23\<rparr>) = calm s t"
  "calm s (t\<lparr>sv_pending_simulator := v24\<rparr>) = calm s t"
  "calm s (t\<lparr>sv_booted := v25\<rparr>) = calm s t"
  "calm s (t\<lparr>sv_profile := v26\<rparr>) = calm s t"
  "calm s (t\<lparr>sv_tool := v27\<rparr>) = calm s t"
  "calm s (t\<lparr>sv_tool_variant := v28\<rparr>) = calm s t"
  "calm s (t\<lparr>sv_tcp_offset_mm := v29\<rparr>) = calm s t"
  "calm s (t\<lparr>sv_tcp_rotation_deg := v30\<rparr>) = calm s t"
  "calm s (t\<lparr>sv_payload := v31\<rparr>) = calm s t"
  "calm s (t\<lparr>sv_shapes := v32\<rparr>) = calm s t"
  "calm s (t\<lparr>sv_attachment_epoch := v33\<rparr>) = calm s t"
  "calm s (t\<lparr>sv_attachment_stop_pending := v34\<rparr>) = calm s t"
  "calm s (t\<lparr>sv_scene_epoch := v35\<rparr>) = calm s t"
  "calm s (t\<lparr>sv_completion_policy := v36\<rparr>) = calm s t"
  "calm s (t\<lparr>sv_execution_paused := v37\<rparr>) = calm s t"
  "calm s (t\<lparr>sv_pending_scans := v38\<rparr>) = calm s t"
  "calm s (t\<lparr>sv_simulator := v39\<rparr>) = calm s t"
  "calm s (t\<lparr>sv_queue_estimate_for := v40\<rparr>) = calm s t"
  "calm s (t\<lparr>sv_snap := v41\<rparr>) = calm s t"
  "calm s (t\<lparr>sv_last_fresh := v42\<rparr>) = calm s t"
  "calm s (t\<lparr>sv_status_seq := v43\<rparr>) = calm s t"
  "calm s (t\<lparr>sv_last_status_tick := v44\<rparr>) = calm s t"
  "calm s (t\<lparr>sv_last_status_at := v45\<rparr>) = calm s t"
  "calm s (t\<lparr>sv_status_rate_hz := v46\<rparr>) = calm s t"
  "calm s (t\<lparr>sv_next_tag := v47\<rparr>) = calm s t"
  by (simp_all add: calm_def)

lemma not_moves [simp]:
  "\<not> moves (Ef_reply a r)" "\<not> moves (Ef_status f)" "\<not> moves (Ef_plan (PR_Cancel h))" "\<not> moves (Ef_plan PR_CancelTool)"
  "\<not> moves (Ef_plan PR_ClearCollision)" "\<not> moves (Ef_plan (PR_Sync c))" "\<not> moves (Ef_plan (PR_QueueEstimate q))"
  "\<not> moves (Ef_plan (PR_SetShapes t l sh))" "\<not> moves (Ef_plan (PR_StartTool t i p))"
  by (simp_all add: moves_def)

lemma moves_rt [simp]: "moves (Ef_rt c) \<longleftrightarrow> (\<exists>x. c = RC_stream x) \<or> (\<exists>q t. c = RC_teleport q t)"
  by (cases c) (simp_all add: moves_def)

interpretation calm: server_frame calm moves
  by unfold_locales (auto intro: calm_trans)

lemma stop_invalid_latch [simp]: "sv_estop_latched (stop_invalid_attachments en t) = sv_estop_latched t"
  using calm.frame_stop_invalid [OF calm_refl] by (simp add: calm_def)

text \<open>The pump starts nothing that needs an enabled arm while the latch is set.\<close>

lemma calm_pump [simp]:
  assumes "calm s t" and "sv_estop_latched s"
  shows "calm s (pump en t)"
proof -
  define u where "u = stop_invalid_attachments en t"
  have u: "calm s u" using assms by (simp add: u_def)
  then have latch: "sv_estop_latched u" using assms(2) by (simp add: calm_def)
  have "calm s (pump en t)" if p: "sv_pending u = p # rest" for p rest
  proof (cases "ga_needs_enabled (gate_of (command_tag (pe_cmd p)))")
    case True
    with p u latch show ?thesis by (simp add: pump_def Let_def u_def [symmetric])
  next
    case False
    obtain h w where w: "holding_for_blend en u = (h, w)" by (metis prod.exhaust)
    then have "calm s w" "sv_pending w = p # rest" using u p by (auto simp: holding_for_blend_def Let_def split: if_splits)
    then have "calm s (start_head w)" using False by (simp add: start_head_def Let_def moves_def take_Cons')
    with p u w \<open>calm s w\<close> show ?thesis by (simp add: pump_def Let_def u_def [symmetric])
  qed
  then show ?thesis using u by (cases "sv_pending u") (simp_all add: pump_def Let_def u_def [symmetric])
qed

lemma calm_tool_answers [simp]:
  assumes "calm s t" and "sv_estop_latched s"
  shows "calm s (on_tool_started en tag r t)" "calm s (on_tool_outcome en out t)"
proof -
  show "calm s (on_tool_started en tag r t)" using assms by (simp add: on_tool_started_def split: option.splits sum.splits prod.splits)
  have "calm s u \<Longrightarrow> calm s (fold (finish_tool_stop e vd) xs u)" for e vd xs u by (rule calm.frame_over) simp_all
  then show "calm s (on_tool_outcome en out t)" using assms
    by (simp add: on_tool_outcome_def del: fold_append split: option.splits prod.splits)
qed

lemma calm_poll: "sv_estop_latched s \<Longrightarrow> calm s (on_poll en s)"
  by (simp add: on_poll_def Let_def)

lemma calm_plan_event: "sv_estop_latched s \<Longrightarrow> calm s (on_plan_event en ev s)"
  by (cases ev) (simp_all add: on_plan_event_def Let_def)

text \<open>The gate: with the latch set, a command that needs an enabled arm is refused.\<close>

lemma gate_refuses: "sv_estop_latched t \<Longrightarrow> ga_needs_enabled (gate_of tag) \<Longrightarrow> server_check_gate tag t \<noteq> None"
  by (simp add: server_check_gate_def check_gate_def Let_def)

lemma stream_needs_enabled: "command_class tag = Class_FireAndForget \<Longrightarrow> tag \<noteq> T_ResetLoopStats \<Longrightarrow> ga_needs_enabled (gate_of tag)"
  by (cases tag) (simp_all add: gate_of_def Let_def)

lemma teleport_needs_enabled: "ga_needs_enabled (gate_of T_Teleport)"
  by (simp add: gate_of_def Let_def)

lemma calm_latched: "calm s t \<Longrightarrow> sv_estop_latched s \<Longrightarrow> sv_estop_latched t"
  by (simp add: calm_def)

lemma calm_faf:
  assumes "calm s t" and "sv_estop_latched s" and "command_class (command_tag c) = Class_FireAndForget"
  shows "calm s (on_faf en q c a t)"
proof (cases "command_tag c = T_ResetLoopStats")
  case False
  with gate_refuses [OF calm_latched [OF assms(1,2)] stream_needs_enabled [OF assms(3)]]
  obtain e where "server_check_gate (command_tag c) t = Some e" by blast
  with False assms(1) show ?thesis by (simp add: on_faf_def Let_def latch_faf_refusal_def)
qed (simp add: on_faf_def assms(1))

lemma calm_queued:
  assumes "calm s t" and "sv_estop_latched s"
  shows "calm s (on_queued en q c a t)"
proof -
  have "calm s (enqueue en q key c a t)" for key
    using assms by (simp add: enqueue_def accept_index_def Let_def split: option.splits)
  with assms(1) show ?thesis by (simp add: on_queued_def split: option.splits)
qed

lemma calm_estop: "calm s t \<Longrightarrow> sv_estop_latched s \<Longrightarrow> calm s (on_estop t)"
proof -
  assume "calm s t" "sv_estop_latched s"
  then have "calm s (t\<lparr>sv_estop_latched := True\<rparr>)" by (simp add: calm_def)
  then show ?thesis by (simp add: on_estop_def Let_def)
qed

lemma calm_system_effect:
  assumes "calm s t" and "sv_estop_latched s" and "command_tag c \<noteq> T_Teleport"
  shows "calm s (snd (system_effect en c t))"
proof (cases c)
  case C_Estop
  then show ?thesis using assms by (simp add: system_effect_def calm_estop)
next
  case (C_Stop b)
  then show ?thesis using assms by (simp add: system_effect_def calm.frame_stop)
qed (use assms in \<open>simp_all add: system_effect_def on_select_profile_def guarded_def commissioned_def on_set_tool_id_def
    split: option.splits sum.splits\<close>)

lemma calm_system:
  assumes "calm s t" and "sv_estop_latched s" and "c \<noteq> C_Reset"
  shows "calm s (on_system en q c a t)"
proof (cases "server_check_gate (command_tag c) t")
  case None
  with gate_refuses [OF calm_latched [OF assms(1,2)]] teleport_needs_enabled have "command_tag c \<noteq> T_Teleport" by metis
  from calm_system_effect [OF assms(1,2) this]
  have "calm s (case system_effect en c t of (r, u) \<Rightarrow> send_reply a (outcome_reply q r) u)"
    by (metis (no_types, lifting) calm_emit not_moves(1) case_prod_unfold)
  then show ?thesis using None assms
    by (cases c) (auto simp: on_system_def calm.frame_reset_state calm.frame_flashing calm.frame_bus_swap split: option.splits)
qed (simp add: on_system_def assms(1))

text \<open>The one way the latch falls.\<close>

definition by_reset :: "server \<Rightarrow> server \<Rightarrow> bool" where
  "by_reset s s' \<longleftrightarrow> (\<exists>t q a. calm s t \<and> s' = on_reset q a t)"

lemma calm_or_reset:
  assumes "calm s t" and "sv_estop_latched s"
  shows "calm s (dispatch_command en q c a t) \<or> by_reset s (dispatch_command en q c a t)"
proof (cases "c = C_Reset")
  case True
  then have "dispatch_command en q c a t = on_reset q a t \<or> dispatch_command en q c a t = reply_error a q e t"
    if "server_check_gate T_Reset t = Some e \<or> server_check_gate T_Reset t = None" for e
    using that by (auto simp: dispatch_command_def on_system_def)
  with assms(1) show ?thesis by (cases "server_check_gate T_Reset t") (auto simp: by_reset_def True dispatch_command_def on_system_def)
next
  case False
  with assms show ?thesis
    by (cases "command_class (command_tag c)") (simp_all add: dispatch_command_def calm.frame_query calm_system calm_faf calm_queued)
qed

lemma calm_or_reset_bytes:
  assumes "calm s t" and "sv_estop_latched s"
  shows "calm s (on_command_bytes en d a t) \<or> by_reset s (on_command_bytes en d a t)"
  using calm_or_reset [OF assms] assms(1) by (simp add: on_command_bytes_def split: sum.splits prod.splits)

lemma calm_or_reset_datagram:
  assumes "calm s t" and "sv_estop_latched s"
  shows "calm s (on_datagram en d a t) \<or> by_reset s (on_datagram en d a t)"
proof -
  define u where "u = stop_invalid_attachments en (refresh_snapshot en t)"
  have u: "calm s u" using assms(1) by (simp add: u_def)
  have "calm s (on_chunk en d a u) \<or> by_reset s (on_chunk en d a u)"
  proof (cases "decode_chunk d")
    case (Inr c)
    obtain r x where p: "push (sv_reassembler u) c (ev_now en) = (r, x)" by (metis prod.exhaust)
    have "calm s (on_command_bytes en y a w) \<or> by_reset s (on_command_bytes en y a w)" if "calm s w" for y w
      by (rule calm_or_reset_bytes [OF that assms(2)])
    with Inr p u show ?thesis by (auto simp: on_chunk_def Let_def split: sum.splits option.splits)
  qed (use u in \<open>simp add: on_chunk_def\<close>)
  with calm_or_reset_bytes [OF u assms(2), of en d a] show ?thesis
    by (simp add: on_datagram_def Let_def u_def [symmetric] split: sum.splits)
qed

lemma calm_or_reset_step: "server_step s s' \<Longrightarrow> sv_estop_latched s \<Longrightarrow> calm s s' \<or> by_reset s s'"
proof (induction rule: server_step.induct)
  case (sv_deferred s d a rest en)
  then show ?case by (intro calm_or_reset_datagram) simp_all
next
  case (sv_event s en ev)
  then show ?case
    by (cases ev) (simp_all add: on_event_def calm_or_reset_datagram calm_poll calm.frame_status calm_plan_event)
qed

lemma reset_log: "\<exists>new. sv_log (on_reset q a t) = sv_log t @ new \<and> (\<forall>e \<in> set new. \<not> moves e)"
proof -
  have "sv_log (invalidate_attachments u) = sv_log u" for u by (simp add: invalidate_attachments_def Let_def)
  then show ?thesis by (simp add: on_reset_def reply_error_def emit_def Let_def split: sum.splits)
qed

section \<open>What a stop leaves\<close>

lemma cancel_all_empty:
  assumes "cancel_all_motion s = (n, s')"
  shows "live (book_of s') = [] \<and> n = length (live (book_of s)) \<and> mset (completes (sv_log s')) = mset (live (book_of s)) + mset (completes (sv_log s))"
proof -
  obtain d s1 where d: "drop_active_motion s = (d, s1)" by (metis prod.exhaust)
  obtain e s2 where e: "drop_pending s1 = (e, s2)" by (metis prod.exhaust)
  from drop_active_motion_book [OF d] obtain p where
    p: "book_of s1 = (book_of s)\<lparr>bk_pending := p, bk_running := [], bk_planning := None, bk_stops := []\<rparr>"
      "mset (map fst d) + mset p = mset (live (book_of s))" by blast
  from drop_pending_book [OF e] p(1) have q: "map fst e = p"
    "book_of s2 = (book_of s)\<lparr>bk_pending := [], bk_running := [], bk_planning := None, bk_stops := []\<rparr>" by auto
  have all: "mset (map fst (d @ e)) = mset (live (book_of s))" unfolding map_append q(1) using p(2) by simp
  have s': "book_of s' = fold b_complete (map fst (d @ e)) (book_of s2)" "n = length (map fst (d @ e))"
    using assms d e by (auto simp: cancel_all_motion_def book_complete_cancelled)
  have "live (book_of s') = []" unfolding s'(1) live_def q(2) by simp
  moreover have "n = length (live (book_of s))" unfolding s'(2) using all by (metis size_mset)
  moreover have "completes (sv_log s') = completes (sv_log s) @ map fst (d @ e)"
    using arg_cong [OF s'(1), of bk_completes] q(2) by simp
  ultimately show ?thesis using all by (simp add: ac_simps)
qed

section \<open>Properties\<close>

text \<open>
  C7. No accepted command is lost and none is answered twice. In every state the server can
  reach, whatever was received, refused, cancelled or finished in whatever order, the indexes
  handed out so far are exactly those queued, those in the running motion (the head and the moves
  blended into it), those of tool stops still waiting, and those a COMPLETE has been pushed for,
  each once.
\<close>

theorem commands_accounted_once:
  assumes "reachable (server_initial k) server_step s"
  shows "mset (map pe_index (sv_pending s)) + mset (running_of (sv_executing s)) + mset (map ts_index (sv_tool_stops s))
    + mset (completes (sv_log s)) = mset [1..<sv_next_index s]"
  using server_machine.reachable_inv [OF assms] by (simp add: book_inv_def live_def ac_simps)

text \<open>
  C10. The high-water mark means what clients wait on. In every reachable state each index up to
  \<open>completed_index\<close> has had its COMPLETE pushed and none of them is still queued, running or
  waiting; and the mark is as high as it can be: the index above it has not finished.
\<close>

theorem completed_index_exact:
  assumes "reachable (server_initial k) server_step s"
  shows "(\<forall>i \<in> {1..nat (sv_completed_index s)}. i \<in> set (completes (sv_log s)) \<and> i \<notin> set (map pe_index (sv_pending s))
        \<and> i \<notin> set (running_of (sv_executing s)) \<and> i \<notin> set (map ts_index (sv_tool_stops s)))
    \<and> Suc (nat (sv_completed_index s)) \<notin> set (completes (sv_log s))"
proof -
  have inv: "book_inv (book_of s)" by (rule server_machine.reachable_inv [OF assms])
  then have mark: "mark_ok (sv_completed_index s) (sv_finished s) (set (completes (sv_log s)))" by (simp add: book_inv_def)
  moreover have "mark_of (sv_completed_index s) = nat (sv_completed_index s)" by (simp add: mark_of_def)
  ultimately have fin: "set (completes (sv_log s)) = {1..nat (sv_completed_index s)} \<union> set (sv_finished s)"
    "\<forall>f \<in> set (sv_finished s). Suc (nat (sv_completed_index s)) < f" by (simp_all add: mark_ok_def)
  have "distinct (live (book_of s) @ completes (sv_log s))"
    using inv ledger_distinct(1) [of "live (book_of s)" "completes (sv_log s)" "sv_next_index s"] by (simp add: book_inv_def)
  with fin show ?thesis by (auto simp: live_def)
qed

text \<open>
  C32. The queue is first in, first out, within its capacity, and planned one at a time. In every
  reachable state the running motion and then the queue are in the order the commands were
  accepted, the queue is no longer than its capacity, and a plan that is outstanding is the
  queue's head, with nothing running: an answer from the planner pops the command it is about.
\<close>

theorem queue_fifo_bounded:
  assumes "reachable (server_initial k) server_step s"
  shows "sorted_wrt (<) (running_of (sv_executing s) @ map pe_index (sv_pending s))
    \<and> length (sv_pending s) \<le> sc_queue_capacity (sv_cfg s)
    \<and> (\<forall>i. sv_planning s = Some i \<longrightarrow> sv_executing s = None \<and> (\<exists>p rest. sv_pending s = p # rest \<and> pe_index p = i))"
proof -
  have inv: "book_inv (book_of s)" by (rule server_machine.reachable_inv [OF assms])
  then have "sv_executing s = None \<and> (\<exists>p rest. sv_pending s = p # rest \<and> pe_index p = i)" if "sv_planning s = Some i" for i
    using that by (cases "sv_executing s"; cases "sv_pending s") (auto simp: book_inv_def plan_ok_def)
  with inv show ?thesis by (auto simp: book_inv_def)
qed

text \<open>
  C9. The server implements the ledger: from every reachable state, the ledger read off its state
  is one the ledger machine reaches, so every handler moves it only by accepting a command,
  accepting a tool stop, planning the head, starting a batch from the front, or settling commands
  it then completes.
\<close>

theorem server_refines_ledger:
  assumes "reachable (server_initial k) server_step s"
  shows "reachable (book_initial (sc_queue_capacity k)) book_step (book_of s)"
  using assms by (rule server_reaches_book)


text \<open>
  C31. An \<open>estop\<close> and a queue-clearing \<open>stop\<close> leave nothing behind and speak for everything they drop:
  afterwards no command is queued, running or waiting, and every one that was has its COMPLETE; the
  e-stop is latched, and a stop that dropped something leaves a cancellation as the standing error.
\<close>

theorem stops_speak_for_all:
  "(\<forall>stop \<in> {on_estop, on_stop True}.
      sv_pending (stop s) = [] \<and> sv_executing (stop s) = None \<and> sv_tool_stops (stop s) = []
      \<and> mset (completes (sv_log (stop s))) = mset (live (book_of s)) + mset (completes (sv_log s)))
    \<and> sv_estop_latched (on_estop s)
    \<and> (live (book_of s) \<noteq> [] \<longrightarrow> sv_standing_error (on_stop True s) = Some (make_error EC_MotnCancelled UNATTRIBUTED))"
proof -
  have empty: "sv_pending t = [] \<and> sv_executing t = None \<and> sv_tool_stops t = []" if "live (book_of t) = []" for t
    using that by (cases "sv_executing t") (simp_all add: live_def)
  define e where "e = (rt_do (RC_set_enabled False) (s\<lparr>sv_estop_latched := True\<rparr>))\<lparr>sv_standing_error := Some (make_error EC_SysEstopActive UNATTRIBUTED)\<rparr>"
  have book: "book_of e = book_of s" by (simp add: e_def)
  have log: "completes (sv_log e) = completes (sv_log s)" by (simp add: e_def emit_def completes_def)
  obtain n t where t: "cancel_all_motion e = (n, t)" by (metis prod.exhaust)
  obtain m u where u: "cancel_all_motion s = (m, u)" by (metis prod.exhaust)
  have E: "book_of (on_estop s) = book_of t" using t by (simp add: on_estop_def e_def [symmetric] Let_def)
  have S: "book_of (on_stop True s) = book_of u" using u by (simp add: on_stop_def Let_def)
  have "calm e t" using calm.frame_cancels(2) [OF calm_refl] t by (metis snd_conv)
  moreover have "sv_estop_latched (clear_pause v) = sv_estop_latched v" for v by (simp add: clear_pause_def emit_def)
  ultimately have latch: "sv_estop_latched (on_estop s)"
    using t by (simp add: on_estop_def e_def [symmetric] Let_def calm_def) (simp add: e_def emit_def)
  note ct = cancel_all_empty [OF t, unfolded book log] and cu = cancel_all_empty [OF u]
  have logs: "completes (sv_log (on_estop s)) = completes (sv_log t)" "completes (sv_log (on_stop True s)) = completes (sv_log u)"
    using arg_cong [OF E, of bk_completes] arg_cong [OF S, of bk_completes] by simp_all
  have err: "live (book_of s) \<noteq> [] \<Longrightarrow> sv_standing_error (on_stop True s) = Some (make_error EC_MotnCancelled UNATTRIBUTED)"
    using u cu by (simp add: on_stop_def Let_def)
  from empty [of "on_estop s"] empty [of "on_stop True s"] ct cu logs latch err show ?thesis unfolding E S by simp
qed

section \<open>Witnesses\<close>

definition sample_server_config :: server_config where
  "sample_server_config = \<lparr>sc_queue_capacity = 4, sc_dedup_window = 8, sc_chunk_timeout = 2000, sc_blend_lookahead = 4, sc_blend_hold = 100,
     sc_simulator = True, sc_tools = [], sc_driven_tools = [], sc_fitted_tool = [], sc_tool_dof = 0, sc_cartesian = True,
     sc_digital_outputs = [], sc_tunable_nodes = [], sc_tool_drives = [], sc_tool_ids = [], sc_profiles = [[1]], sc_initial_profile = [1],
     sc_joint_hard_limits_deg = [], sc_rt_tick_rate_hz = f64_one, sc_link_stale_ms = 200, sc_tick_dt_s = f64_one,
     sc_status_rate_hz = 50, sc_installation_shapes = []\<rparr>"

definition sample_server :: server where
  "sample_server = sync_planner (new_server sample_server_config 0 1)"

definition sample_server_env :: server_env where
  "sample_server_env = \<lparr>ev_now = 0, ev_snapshot = None, ev_snapshot_again = None, ev_stream = Inr (), ev_stop_refused = False,
     ev_refusal_before = False, ev_refusal_after = False, ev_enable_outcome = None, ev_flashing_outcome = None,
     ev_bus_outcome = None, ev_swap = Inr (), ev_set_shapes = Inr (), ev_backlog = []\<rparr>"

lemma sample_server_reachable: "reachable (server_initial sample_server_config) server_step sample_server"
  by (rule reachable_init) (auto simp: server_initial_def sample_server_def)

theorem commands_accounted_once_witness: "mset (completes (sv_log sample_server)) = {#} \<and> sv_next_index sample_server = 1"
proof -
  have "sv_next_index sample_server = 1"
    by (simp add: sample_server_def sync_planner_def emit_def new_server_def FIRST_COMMAND_INDEX_def)
  with commands_accounted_once [OF sample_server_reachable] show ?thesis by simp
qed

theorem completed_index_exact_witness: "Suc (nat (sv_completed_index sample_server)) \<notin> set (completes (sv_log sample_server))"
  using completed_index_exact [OF sample_server_reachable] by simp

theorem queue_fifo_bounded_witness: "length (sv_pending sample_server) \<le> 4"
  using queue_fifo_bounded [OF sample_server_reachable]
  by (simp add: sample_server_def sync_planner_def emit_def new_server_def sample_server_config_def)

theorem server_refines_ledger_witness: "reachable (book_initial 4) book_step (book_of sample_server)"
  using server_refines_ledger [OF sample_server_reachable] by (simp add: sample_server_config_def)


theorem stops_speak_for_all_witness:
  "sv_pending (on_stop True sample_server) = [] \<and> sv_estop_latched (on_estop sample_server)"
  using stops_speak_for_all [of sample_server] by simp

text \<open>
  A software e-stop received while the core boots does not survive the boot: the poll that sees the
  core leave BOOTING asks the RT to enable, although the latch is set.
\<close>

lemma boot_enable_ignores_latch:
  assumes "sv_estop_latched s" and "\<not> sv_booted s" and "av_mode (sv_snap s) = M_Idle"
  shows "sv_log (request_boot_enable s) = sv_log s @ [Ef_rt (RC_set_enabled True)] \<and> sv_estop_latched (request_boot_enable s)"
  using assms by (simp add: request_boot_enable_def emit_def)

end
