(* ===== verification/Plane.thy ===== *)
theory Plane
  imports Server_Handlers
begin

text \<open>
  The planner's thread, \<open>par6-server/src/plane.rs\<close>: how requests are taken in, serviced and
  answered, pass by pass. The planner behind it is the trait \<open>Planner\<close> of \<open>runtime.rs\<close>, whatever
  implements it: a state of any type and the operations of \<open>planner_ops\<close>. What a pass receives is
  the list of requests that arrived since the last one.
\<close>

record 'p planner_ops =
  po_start :: "(nat \<times> command) list \<Rightarrow> 'p \<Rightarrow> (wire_error + nat) \<times> 'p"
  po_take_fitted_tool :: "'p \<Rightarrow> (bytes \<times> bytes option) option \<times> 'p"
  po_queued_duration :: "(nat \<times> command) list \<Rightarrow> 'p \<Rightarrow> f64 \<times> 'p"
  po_set_shapes :: "shape_layer \<Rightarrow> shape list \<Rightarrow> 'p \<Rightarrow> (wire_error + nat option) \<times> 'p"
  po_start_tool :: "nat \<Rightarrow> tool_action \<Rightarrow> 'p \<Rightarrow> (wire_error + unit) \<times> 'p"
  po_cancel :: "bool \<Rightarrow> 'p \<Rightarrow> 'p"
  po_cancel_tool :: "'p \<Rightarrow> 'p"
  po_clear_collision :: "'p \<Rightarrow> 'p"
  po_sync :: "plan_context \<Rightarrow> 'p \<Rightarrow> 'p"
  po_poll :: "'p \<Rightarrow> command_outcome option \<times> 'p"
  po_poll_tool :: "'p \<Rightarrow> command_outcome option \<times> 'p"

definition is_expensive :: "plan_request \<Rightarrow> bool" where
  "is_expensive r = (case r of PR_Start _ \<Rightarrow> True | PR_QueueEstimate _ \<Rightarrow> True | PR_SetShapes _ _ _ \<Rightarrow> True | _ \<Rightarrow> False)"

text \<open>The loop over \<open>try_recv\<close>: the batch, whether it holds an expensive request, and what is put off.\<close>

fun drain_requests :: "plan_request list \<Rightarrow> plan_request list \<Rightarrow> bool \<Rightarrow> plan_request list \<Rightarrow> plan_request list \<times> plan_request list" where
  "drain_requests [] batch have_expensive deferred = (batch, deferred)"
| "drain_requests (r # rs) batch have_expensive deferred =
     (if deferred \<noteq> [] then drain_requests rs batch have_expensive (deferred @ [r])
      else if is_expensive r \<and> have_expensive then drain_requests rs batch have_expensive (deferred @ [r])
      else drain_requests rs (batch @ [r]) (have_expensive \<or> is_expensive r) deferred)"

definition take_batch :: "plan_request list \<Rightarrow> plan_request list \<Rightarrow> plan_request list \<times> plan_request list" where
  "take_batch deferred incoming = drain_requests incoming deferred (list_ex is_expensive deferred) []"

record 'p plane =
  pn_planner :: 'p
  pn_queued_duration :: f64
  pn_events :: "plan_event list"

definition tell :: "plan_event \<Rightarrow> 'p plane \<Rightarrow> 'p plane" where
  "tell e s = s\<lparr>pn_events := pn_events s @ [e]\<rparr>"

definition tell_fitted :: "'p planner_ops \<Rightarrow> 'p plane \<Rightarrow> 'p plane" where
  "tell_fitted ops s = (case po_take_fitted_tool ops (pn_planner s) of
       (None, p) \<Rightarrow> s\<lparr>pn_planner := p\<rparr>
     | (Some (tool, variant), p) \<Rightarrow> tell (PE_ToolFitted tool variant) (s\<lparr>pn_planner := p\<rparr>))"

definition apply_cheap :: "'p planner_ops \<Rightarrow> plan_request \<Rightarrow> 'p plane \<Rightarrow> 'p plane" where
  "apply_cheap ops r s = (case r of
       PR_Cancel halt_tool \<Rightarrow> s\<lparr>pn_planner := po_cancel ops halt_tool (pn_planner s)\<rparr>
     | PR_CancelTool \<Rightarrow> s\<lparr>pn_planner := po_cancel_tool ops (pn_planner s)\<rparr>
     | PR_ClearCollision \<Rightarrow> s\<lparr>pn_planner := po_clear_collision ops (pn_planner s)\<rparr>
     | PR_Sync ctx \<Rightarrow> s\<lparr>pn_planner := po_sync ops ctx (pn_planner s)\<rparr>
     | PR_StartTool tag index cmd \<Rightarrow> (case po_start_tool ops index cmd (pn_planner s) of
          (result, p) \<Rightarrow> tell (PE_ToolStarted tag result) (s\<lparr>pn_planner := p\<rparr>))
     | _ \<Rightarrow> s)"

definition service :: "'p planner_ops \<Rightarrow> plan_request \<Rightarrow> 'p plane \<Rightarrow> 'p plane" where
  "service ops r s = (case r of
       PR_Start batch \<Rightarrow>
         (case batch of
            [] \<Rightarrow> s
          | (index, _) # _ \<Rightarrow> (case po_start ops batch (pn_planner s) of (started, p) \<Rightarrow>
              (let s = tell_fitted ops (s\<lparr>pn_planner := p\<rparr>)
               in case started of
                    Inr n \<Rightarrow> tell (PE_Started index (min (max n 1) (length batch))) s
                  | Inl e \<Rightarrow> tell (PE_StartRejected index e) s)))
     | PR_QueueEstimate pending \<Rightarrow> (case po_queued_duration ops pending (pn_planner s) of
          (d, p) \<Rightarrow> s\<lparr>pn_planner := p, pn_queued_duration := d\<rparr>)
     | PR_SetShapes tag layer shapes \<Rightarrow> (case po_set_shapes ops layer shapes (pn_planner s) of
          (result, p) \<Rightarrow> tell (PE_ShapesApplied tag result) (s\<lparr>pn_planner := p\<rparr>))
     | _ \<Rightarrow> apply_cheap ops r s)"

definition poll_planner :: "'p planner_ops \<Rightarrow> 'p plane \<Rightarrow> 'p plane" where
  "poll_planner ops s =
     (let s = (case po_poll ops (pn_planner s) of
            (None, p) \<Rightarrow> s\<lparr>pn_planner := p\<rparr>
          | (Some out, p) \<Rightarrow> tell (PE_Outcome out) (s\<lparr>pn_planner := p\<rparr>));
          s = tell_fitted ops s
      in case po_poll_tool ops (pn_planner s) of
           (None, p) \<Rightarrow> s\<lparr>pn_planner := p\<rparr>
         | (Some out, p) \<Rightarrow> tell (PE_ToolOutcome out) (s\<lparr>pn_planner := p\<rparr>))"

text \<open>One pass, with the requests it leaves for the next; publishing the report changes nothing here.\<close>

definition planner_pass :: "'p planner_ops \<Rightarrow> plan_request list \<Rightarrow> plan_request list \<times> 'p plane \<Rightarrow> plan_request list \<times> 'p plane" where
  "planner_pass ops incoming ds = (case ds of (deferred, s) \<Rightarrow>
     (let (batch, deferred) = take_batch deferred incoming in (deferred, poll_planner ops (fold (service ops) batch s))))"

section \<open>Order\<close>

lemma drain_in_order: "drain_requests rs batch h d = (batch', d') \<Longrightarrow> batch' @ d' = batch @ d @ rs"
  by (induction rs batch h d rule: drain_requests.induct) (auto split: if_splits)

lemma drain_keeps_batch: "\<exists>t. fst (drain_requests rs batch h d) = batch @ t"
  by (induction rs batch h d rule: drain_requests.induct) auto

section \<open>Answers\<close>

definition start_answers :: "plan_event \<Rightarrow> nat list" where
  "start_answers e = (case e of PE_Started i n \<Rightarrow> [i] | PE_StartRejected i _ \<Rightarrow> [i] | _ \<Rightarrow> [])"

definition answered :: "plan_event list \<Rightarrow> nat list" where
  "answered es = concat (map start_answers es)"

definition asked :: "plan_request \<Rightarrow> nat list" where
  "asked r = (case r of PR_Start ((i, _) # _) \<Rightarrow> [i] | _ \<Rightarrow> [])"

lemma answered_tell [simp]: "answered (pn_events (tell e s)) = answered (pn_events s) @ start_answers e"
  by (simp add: tell_def answered_def)

lemma answered_fitted [simp]: "answered (pn_events (tell_fitted ops s)) = answered (pn_events s)"
  by (auto simp: tell_fitted_def start_answers_def split: prod.splits option.splits)

lemma answered_service: "answered (pn_events (service ops r s)) = answered (pn_events s) @ asked r"
  by (cases r) (auto simp: service_def apply_cheap_def asked_def start_answers_def Let_def split: prod.splits list.splits sum.splits)

lemma answered_batch: "answered (pn_events (fold (service ops) rs s)) = answered (pn_events s) @ concat (map asked rs)"
  by (induction rs arbitrary: s) (simp_all add: answered_service)

lemma answered_poll: "answered (pn_events (poll_planner ops s)) = answered (pn_events s)"
  by (auto simp: poll_planner_def start_answers_def Let_def split: prod.splits option.splits)

lemma passes_in_order:
  "fold (planner_pass ops) ins (d, s) = (d', s') \<Longrightarrow>
     \<exists>done'. done' @ d' = d @ concat ins \<and> answered (pn_events s') = answered (pn_events s) @ concat (map asked done')"
proof (induction ins arbitrary: d s)
  case (Cons incoming ins)
  obtain batch d1 where b: "take_batch d incoming = (batch, d1)" by (metis prod.exhaust)
  let ?s1 = "poll_planner ops (fold (service ops) batch s)"
  have "planner_pass ops incoming (d, s) = (d1, ?s1)" using b by (simp add: planner_pass_def)
  then have "fold (planner_pass ops) ins (d1, ?s1) = (d', s')" using Cons.prems by simp
  from Cons.IH [OF this] obtain t where t: "t @ d' = d1 @ concat ins" "answered (pn_events s') = answered (pn_events ?s1) @ concat (map asked t)"
    by blast
  have "batch @ d1 = d @ incoming" using b drain_in_order [of incoming d _ "[]"] by (simp add: take_batch_def)
  then have "(batch @ t) @ d' = d @ concat (incoming # ins)" using t(1) by (metis append.assoc concat.simps(2))
  moreover have "answered (pn_events s') = answered (pn_events s) @ concat (map asked (batch @ t))"
    using t(2) by (simp add: answered_poll answered_batch)
  ultimately show ?case by blast
qed simp

section \<open>Properties\<close>


text \<open>A planner that starts whatever it is given, one command at a time.\<close>

definition sample_planner :: "nat planner_ops" where
  "sample_planner = \<lparr>po_start = \<lambda>b p. (Inr 1, p + 1), po_take_fitted_tool = \<lambda>p. (None, p), po_queued_duration = \<lambda>q p. (f64_zero, p),
     po_set_shapes = \<lambda>l sh p. (Inr None, p), po_start_tool = \<lambda>i c p. (Inr (), p), po_cancel = \<lambda>h p. 0, po_cancel_tool = \<lambda>p. p,
     po_clear_collision = \<lambda>p. p, po_sync = \<lambda>c p. p, po_poll = \<lambda>p. (None, p), po_poll_tool = \<lambda>p. (None, p)\<rparr>"


text \<open>What was put off is taken whole: a pass can be left with more than one expensive request.\<close>

lemma two_plans_in_one_pass:
  "take_batch [] [PR_Start a, PR_Start b, PR_Start c] = ([PR_Start a], [PR_Start b, PR_Start c])"
  "take_batch [PR_Start b, PR_Start c] [] = ([PR_Start b, PR_Start c], [])"
  by (simp_all add: take_batch_def is_expensive_def)

end
