(* ===== verification/Server_Acks.thy ===== *)
theory Server_Acks
  imports Server_Props Command_Props
begin

text \<open>
  The acknowledgements of queued commands: which step of the server gives a command its index,
  and how long a retransmission finds it again.
\<close>

section \<open>Steps that accept nothing\<close>

definition acks :: "effect \<Rightarrow> bool" where
  "acks e \<longleftrightarrow> (\<exists>a q i. e = Ef_reply a (Rp_Ok q (Some i)))"

text \<open>\<open>ackless s s'\<close>: no queued command was acknowledged between the two, and the window and the allocator did not move.\<close>

definition ackless :: "server \<Rightarrow> server \<Rightarrow> bool" where
  "ackless s s' \<longleftrightarrow> sv_dedup s' = sv_dedup s \<and> sv_next_index s' = sv_next_index s
     \<and> (\<exists>new. sv_log s' = sv_log s @ new \<and> (\<forall>e \<in> set new. \<not> acks e))"

lemma acks_simps [simp]:
  "acks (Ef_reply a rp) \<longleftrightarrow> (\<exists>q i. rp = Rp_Ok q (Some i))" "\<not> acks (Ef_plan p)" "\<not> acks (Ef_rt c)" "\<not> acks (Ef_status f)"
  by (auto simp: acks_def)

lemma outcome_not_indexed [simp]: "outcome_reply q r \<noteq> Rp_Ok p (Some i)"
  by (cases r) (simp_all add: outcome_reply_def)

lemma ackless_trans: "ackless s t \<Longrightarrow> ackless t u \<Longrightarrow> ackless s u"
  unfolding ackless_def by force

interpretation ackless: server_frame ackless acks
proof (unfold_locales, goal_cases)
  case (2 s t u)
  then show ?case by (rule ackless_trans)
next
  case (3 e s t)
  then show ?case by (auto simp: ackless_def emit_def)
qed (simp_all add: ackless_def)

lemmas ackless_refl = ackless.rel_refl

lemma ackless_latch [simp]: "ackless s (t\<lparr>sv_estop_latched := b\<rparr>) = ackless s t"
  by (simp add: ackless_def)

lemma ackless_pump [simp]:
  assumes "ackless s t"
  shows "ackless s (pump en t)"
proof -
  define u where "u = stop_invalid_attachments en t"
  have u: "ackless s u" using assms by (simp add: u_def)
  obtain h w where w: "holding_for_blend en u = (h, w)" by (metis prod.exhaust)
  then have "ackless s w" using u by (auto simp: holding_for_blend_def Let_def split: if_splits)
  then have "ackless s (start_head w)" by (simp add: start_head_def Let_def)
  with u w \<open>ackless s w\<close> show ?thesis by (simp add: pump_def Let_def u_def [symmetric] split: list.splits)
qed

lemma ackless_tool_answers [simp]:
  assumes "ackless s t"
  shows "ackless s (on_tool_started en tag r t)" "ackless s (on_tool_outcome en out t)"
proof -
  show "ackless s (on_tool_started en tag r t)" using assms by (simp add: on_tool_started_def split: option.splits sum.splits prod.splits)
  have "ackless s u \<Longrightarrow> ackless s (fold (finish_tool_stop e vd) xs u)" for e vd xs u by (rule ackless.frame_over) simp_all
  then show "ackless s (on_tool_outcome en out t)" using assms
    by (simp add: on_tool_outcome_def del: fold_append split: option.splits prod.splits)
qed

lemma ackless_poll: "ackless s (on_poll en s)"
  by (simp add: on_poll_def Let_def)

lemma ackless_plan_event: "ackless s (on_plan_event en ev s)"
  by (cases ev) (simp_all add: on_plan_event_def Let_def)

lemma ackless_faf:
  assumes "ackless s t"
  shows "ackless s (on_faf en q c a t)"
proof -
  have place: "ackless s u" if "stream_in_place en c t = (b, u)" for b u
    using assms that by (auto simp: stream_in_place_def Let_def split: sum.splits)
  have afresh: "ackless s u" if "stream_afresh en tag c t = (b, u)" for tag b u
  proof -
    obtain d v where d: "drop_planned True (preempt_stream en t) = (d, v)" by (metis prod.exhaust)
    have "ackless s (preempt_stream en t)" using assms by (simp add: preempt_stream_def Let_def split: option.splits)
    from ackless.frame_drop_motion(2) [OF d this] have "ackless s (rt_do (RC_stream c) v)" by simp
    with that d show ?thesis by (auto simp: stream_afresh_def Let_def split: sum.splits if_splits)
  qed
  show ?thesis using assms place afresh
    by (auto simp: on_faf_def latch_faf_refusal_def latch_stream_refusal_def Let_def split: option.splits sum.splits prod.splits)
qed

lemma ackless_estop: "ackless s t \<Longrightarrow> ackless s (on_estop t)"
  by (simp add: on_estop_def Let_def)

lemma ackless_reset: "ackless s t \<Longrightarrow> ackless s (on_reset q a t)"
  by (simp add: on_reset_def Let_def split: sum.splits)

lemma ackless_teleport: "ackless s t \<Longrightarrow> ackless s (snd (on_teleport en p t))"
  by (simp add: on_teleport_def Let_def split: option.splits)

lemma ackless_system_effect:
  assumes "ackless s t"
  shows "ackless s (snd (system_effect en c t))"
proof (cases c)
  case C_Estop
  then show ?thesis using assms by (simp add: system_effect_def ackless_estop)
next
  case (C_Stop b)
  then show ?thesis using assms by (simp add: system_effect_def ackless.frame_stop)
next
  case (C_Teleport p)
  then show ?thesis using assms by (simp add: system_effect_def ackless_teleport)
qed (use assms in \<open>simp_all add: system_effect_def on_select_profile_def guarded_def commissioned_def on_set_tool_id_def
    split: option.splits sum.splits\<close>)

lemma ackless_system:
  assumes "ackless s t"
  shows "ackless s (on_system en q c a t)"
proof (cases "server_check_gate (command_tag c) t")
  case None
  from ackless_system_effect [OF assms, of en c]
  have "ackless s (case system_effect en c t of (r, u) \<Rightarrow> send_reply a (outcome_reply q r) u)"
    by (simp add: case_prod_unfold)
  then show ?thesis using None assms
    by (cases c) (auto simp: on_system_def ackless_reset ackless.frame_reset_state ackless.frame_flashing ackless.frame_bus_swap
        split: option.splits)
qed (simp add: on_system_def assms)

section \<open>The step that accepts\<close>

text \<open>\<open>grants s s'\<close>: a command with a key the window did not know was given the next index.\<close>

definition grants :: "server \<Rightarrow> server \<Rightarrow> bool" where
  "grants s s' \<longleftrightarrow> (\<exists>key. dedup_get (sv_dedup s) key = None \<and> sv_dedup s' = dedup_insert key (sv_next_index s) (sv_dedup s)
     \<and> sv_next_index s' = Suc (sv_next_index s))"

definition same_window :: "server \<Rightarrow> server \<Rightarrow> bool" where
  "same_window s s' \<longleftrightarrow> sv_dedup s' = sv_dedup s \<and> sv_next_index s' = sv_next_index s"

lemma ackless_same_window: "ackless s t \<Longrightarrow> same_window s t"
  by (simp add: ackless_def same_window_def)

lemma same_window_grants: "same_window s t \<Longrightarrow> same_window t u \<or> grants t u \<Longrightarrow> same_window s u \<or> grants s u"
  by (auto simp: same_window_def grants_def)

text \<open>What accepting does to the window, the allocator and the acknowledgements.\<close>

lemma enqueue_effect:
  "sv_dedup (enqueue en q key c a t) = dedup_insert key (sv_next_index t) (sv_dedup t)
   \<and> sv_next_index (enqueue en q key c a t) = Suc (sv_next_index t)
   \<and> (\<exists>new. sv_log (enqueue en q key c a t) = sv_log t @ new \<and> filter acks new = [Ef_reply a (Rp_Ok q (Some (sv_next_index t)))])"
proof -
  define i where "i = sv_next_index t"
  define u0 where "u0 = snd (accept_index key t)"
  define u where "u = on_motion_accepted u0"
  have u: "sv_dedup u0 = dedup_insert key i (sv_dedup t)" "sv_next_index u0 = Suc i" "sv_log u0 = sv_log t"
    by (simp_all add: u0_def i_def accept_index_def Let_def)
  have u0: "ackless u0 u" by (simp add: u_def)
  have "\<exists>v. ackless u v \<and> ackless (send_reply a (Rp_Ok q (Some i)) v) (enqueue en q key c a t)"
  proof (cases "tool_stop_of c")
    case (Some p)
    then have "enqueue en q key c a t = start_tool_stop i a p (send_reply a (Rp_Ok q (Some i)) u)"
      by (simp add: enqueue_def accept_index_def u_def u0_def i_def Let_def)
    then show ?thesis by (intro exI [of _ u]) simp
  next
    case None
    define v where "v = (cancel_stream_if_any u)\<lparr>sv_pending := sv_pending (cancel_stream_if_any u) @ [\<lparr>pe_index = i, pe_cmd = c, pe_addr = a\<rparr>]\<rparr>"
    from None have "enqueue en q key c a t = pump en (send_reply a (Rp_Ok q (Some i)) v)"
      by (simp add: enqueue_def accept_index_def u_def u0_def v_def i_def Let_def)
    moreover have "ackless u v" by (simp add: v_def)
    ultimately show ?thesis by (intro exI [of _ v]) simp
  qed
  then obtain v where v: "ackless u v" and w: "ackless (send_reply a (Rp_Ok q (Some i)) v) (enqueue en q key c a t)" by blast
  from ackless_trans [OF u0 v] obtain n1 where n1: "sv_log v = sv_log u0 @ n1" "\<forall>e \<in> set n1. \<not> acks e" by (auto simp: ackless_def)
  from w obtain n2 where n2: "sv_log (enqueue en q key c a t) = sv_log v @ Ef_reply a (Rp_Ok q (Some i)) # n2" "\<forall>e \<in> set n2. \<not> acks e"
    by (auto simp: ackless_def emit_def)
  have "filter acks (n1 @ Ef_reply a (Rp_Ok q (Some i)) # n2) = [Ef_reply a (Rp_Ok q (Some i))]"
    using n1(2) n2(2) by (simp add: filter_empty_conv)
  with n1(1) n2(1) u(3) have "\<exists>new. sv_log (enqueue en q key c a t) = sv_log t @ new \<and> filter acks new = [Ef_reply a (Rp_Ok q (Some i))]"
    by (intro exI [of _ "n1 @ Ef_reply a (Rp_Ok q (Some i)) # n2"]) simp
  moreover from ackless_trans [OF u0 v] w u have "sv_dedup (enqueue en q key c a t) = dedup_insert key i (sv_dedup t)" "sv_next_index (enqueue en q key c a t) = Suc i"
    by (simp_all add: ackless_def emit_def)
  ultimately show ?thesis by (simp add: i_def)
qed

lemma queued_window: "same_window t (on_queued en q c a t) \<or> grants t (on_queued en q c a t)"
  using enqueue_effect by (auto simp: on_queued_def same_window_def grants_def emit_def reply_error_def split: option.splits)

lemma dispatch_window: "same_window t (dispatch_command en q c a t) \<or> grants t (dispatch_command en q c a t)"
  using queued_window [of t en q c a]
    ackless_same_window [OF ackless.frame_query [OF ackless_refl]] ackless_same_window [OF ackless_system [OF ackless_refl]]
    ackless_same_window [OF ackless_faf [OF ackless_refl]]
  by (simp add: dispatch_command_def split: cmd_class.split)

lemma bytes_window: "same_window t (on_command_bytes en d a t) \<or> grants t (on_command_bytes en d a t)"
  using dispatch_window by (auto simp: on_command_bytes_def same_window_def emit_def reply_error_def split: sum.splits prod.splits)

lemma datagram_window: "same_window t (on_datagram en d a t) \<or> grants t (on_datagram en d a t)"
proof -
  define u where "u = stop_invalid_attachments en (refresh_snapshot en t)"
  have tu: "same_window t u" by (rule ackless_same_window) (simp add: u_def)
  have "same_window u (on_chunk en d a u) \<or> grants u (on_chunk en d a u)"
  proof (cases "decode_chunk d")
    case (Inl e)
    then show ?thesis by (simp add: on_chunk_def same_window_def reply_error_def emit_def)
  next
    case (Inr c)
    obtain r x where p: "push (sv_reassembler u) c (ev_now en) = (r, x)" by (metis prod.exhaust)
    have "same_window u (on_command_bytes en y a (u\<lparr>sv_reassembler := z, sv_transfer_addrs := m\<rparr>))
        \<or> grants u (on_command_bytes en y a (u\<lparr>sv_reassembler := z, sv_transfer_addrs := m\<rparr>))" for y m z
      by (rule same_window_grants [OF _ bytes_window]) (simp add: same_window_def)
    with Inr p show ?thesis
      by (simp add: on_chunk_def Let_def same_window_def reply_error_def emit_def split: sum.splits option.splits)
  qed
  with bytes_window [of u en d a] have "same_window u (on_datagram en d a t) \<or> grants u (on_datagram en d a t)"
    by (simp add: on_datagram_def Let_def u_def [symmetric] split: sum.splits)
  then show ?thesis by (rule same_window_grants [OF tu])
qed

lemma step_window: "server_step s s' \<Longrightarrow> same_window s s' \<or> grants s s'"
proof (induction rule: server_step.induct)
  case (sv_deferred s d a rest en)
  show ?case by (rule same_window_grants [OF _ datagram_window]) (simp add: same_window_def)
next
  case (sv_event s en ev)
  show ?case
    using datagram_window [of s] ackless_same_window [OF ackless_poll] ackless_same_window [OF ackless.frame_status] ackless_same_window [OF ackless_plan_event]
    by (cases ev) (simp_all add: on_event_def)
qed

section \<open>The window over a run\<close>

text \<open>The window holds the keys of the last commands accepted, in order, each with its index.\<close>

definition window_inv :: "nat \<Rightarrow> dedup \<Rightarrow> nat \<Rightarrow> bool" where
  "window_inv cap d n \<longleftrightarrow> dd_cap d = cap \<and> 1 \<le> cap \<and> distinct (dd_order d) \<and> set (dd_order d) = dom (dd_map d)
     \<and> length (dd_order d) \<le> cap \<and> length (dd_order d) < n
     \<and> (\<forall>j < length (dd_order d). dd_map d (dd_order d ! j) = Some (n - length (dd_order d) + j))"

text \<open>What an insertion of an unknown key does: it evicts the oldest key of a full window.\<close>

lemma insert_unknown:
  assumes "window_inv cap d n" and "dd_map d key = None"
  shows "length (dd_order d) < cap \<Longrightarrow> dedup_insert key n d = d\<lparr>dd_map := (dd_map d)(key \<mapsto> n), dd_order := dd_order d @ [key]\<rparr>"
    and "length (dd_order d) = cap \<Longrightarrow> \<exists>old rest. dd_order d = old # rest \<and> dd_map d old = Some (n - cap) \<and> old \<noteq> key
      \<and> dedup_insert key n d = d\<lparr>dd_map := ((dd_map d)(key \<mapsto> n))(old := None), dd_order := rest @ [key]\<rparr>"
proof -
  show "length (dd_order d) < cap \<Longrightarrow> dedup_insert key n d = d\<lparr>dd_map := (dd_map d)(key \<mapsto> n), dd_order := dd_order d @ [key]\<rparr>"
    using assms by (simp add: dedup_insert_def window_inv_def Let_def)
next
  assume full: "length (dd_order d) = cap"
  with assms(1) obtain old rest where o: "dd_order d = old # rest" by (cases "dd_order d") (simp_all add: window_inv_def)
  from assms(1) have "\<forall>j < length (dd_order d). dd_map d (dd_order d ! j) = Some (n - length (dd_order d) + j)" by (simp add: window_inv_def)
  from this [rule_format, of 0] o full have "dd_map d old = Some (n - cap)" by simp
  with o full assms show "\<exists>old rest. dd_order d = old # rest \<and> dd_map d old = Some (n - cap) \<and> old \<noteq> key
      \<and> dedup_insert key n d = d\<lparr>dd_map := ((dd_map d)(key \<mapsto> n))(old := None), dd_order := rest @ [key]\<rparr>"
    by (intro exI [of _ old] exI [of _ rest]) (auto simp: dedup_insert_def window_inv_def Let_def)
qed

lemma window_cases:
  assumes "window_inv cap d n"
  obtains "length (dd_order d) < cap" | "length (dd_order d) = cap"
  using assms by (force simp: window_inv_def)

lemma window_inv_insert:
  assumes w: "window_inv cap d n" and "dd_map d key = None"
  shows "window_inv cap (dedup_insert key n d) (Suc n)"
proof (cases rule: window_cases [OF w])
  case 1
  have "dd_order d ! j \<noteq> key" if "j < length (dd_order d)" for j using w assms(2) nth_mem [OF that] by (auto simp: window_inv_def)
  with w insert_unknown(1) [OF assms 1] 1 assms(2) show ?thesis
    by (auto simp: window_inv_def nth_append less_Suc_eq)
next
  case 2
  from insert_unknown(2) [OF assms 2] obtain old rest where o: "dd_order d = old # rest" "old \<noteq> key"
    and d: "dedup_insert key n d = d\<lparr>dd_map := ((dd_map d)(key \<mapsto> n))(old := None), dd_order := rest @ [key]\<rparr>" by blast
  have key: "key \<notin> set (dd_order d)" using w assms(2) by (auto simp: window_inv_def)
  have ix: "dd_map d (rest ! j) = Some (Suc n - cap + j)" if "j < length rest" for j
  proof -
    from w have "\<forall>j < length (dd_order d). dd_map d (dd_order d ! j) = Some (n - length (dd_order d) + j)" by (simp add: window_inv_def)
    from this [rule_format, of "Suc j"] that o(1) 2 w show ?thesis by (auto simp: window_inv_def)
  qed
  have "dd_map (dedup_insert key n d) ((rest @ [key]) ! j) = Some (Suc n - cap + j)" if "j < cap" for j
  proof (cases "j < length rest")
    case True
    with o w key have "rest ! j \<noteq> old" "rest ! j \<noteq> key" by (auto simp: window_inv_def dest: nth_mem)
    with True ix [OF True] show ?thesis by (simp add: d nth_append)
  next
    case False
    with that o 2 w have "j = length rest" "Suc n - cap + j = n" by (auto simp: window_inv_def)
    with o(2) show ?thesis by (simp add: d)
  qed
  moreover have "key \<notin> set rest" using key o(1) by simp
  moreover have "set (rest @ [key]) = dom (((dd_map d)(key \<mapsto> n))(old := None))" using w o by (auto simp: window_inv_def)
  ultimately show ?thesis using w o 2 key by (simp add: window_inv_def d)
qed

text \<open>A key leaves the window only when its index is the oldest of a full one.\<close>

lemma insert_keeps:
  assumes "window_inv cap d n" and "dd_map d key = None" and "dd_map d k = Some i" and "Suc n \<le> i + cap"
  shows "dd_map (dedup_insert key n d) k = Some i"
proof (cases rule: window_cases [OF assms(1)])
  case 1
  with insert_unknown(1) [OF assms(1,2) 1] assms(2,3) show ?thesis by auto
next
  case 2
  from insert_unknown(2) [OF assms(1,2) 2] obtain old rest where o: "dd_map d old = Some (n - cap)"
    and d: "dedup_insert key n d = d\<lparr>dd_map := ((dd_map d)(key \<mapsto> n))(old := None), dd_order := rest @ [key]\<rparr>" by blast
  have "cap < n" using assms(1) 2 by (simp add: window_inv_def)
  with o assms(2-4) show ?thesis by (auto simp: d)
qed

lemma insert_remembers:
  assumes "window_inv cap d n" and "dd_map d key = None"
  shows "dd_map (dedup_insert key n d) key = Some n"
proof (cases rule: window_cases [OF assms(1)])
  case 1
  with insert_unknown(1) [OF assms 1] show ?thesis by simp
next
  case 2
  from insert_unknown(2) [OF assms 2] obtain old rest where "old \<noteq> key"
    and "dedup_insert key n d = d\<lparr>dd_map := ((dd_map d)(key \<mapsto> n))(old := None), dd_order := rest @ [key]\<rparr>" by blast
  then show ?thesis by simp
qed

text \<open>The window's capacity: never so small that the queue alone could turn it over.\<close>

definition window_cap :: "server_config \<Rightarrow> nat" where
  "window_cap k = max (sc_dedup_window k) (sc_queue_capacity k + 2)"

definition server_window :: "server_config \<Rightarrow> server \<Rightarrow> bool" where
  "server_window k s \<longleftrightarrow> window_inv (window_cap k) (sv_dedup s) (sv_next_index s)"

interpretation window_machine: inductive_invariant "server_initial k" server_step "server_window k"
proof unfold_locales
  show "server_initial k s \<Longrightarrow> server_window k s" for s
    by (auto simp: server_initial_def server_window_def window_inv_def sync_planner_def emit_def new_server_def new_dedup_def window_cap_def FIRST_COMMAND_INDEX_def)
  show "server_window k s \<Longrightarrow> server_step s s' \<Longrightarrow> server_window k s'" for s s'
    using step_window [of s s'] by (auto simp: server_window_def same_window_def grants_def dedup_get_def window_inv_insert)
qed

lemma remembered_along_run:
  assumes "server_step\<^sup>*\<^sup>* s s'" and "server_window k s" and "dedup_get (sv_dedup s) key = Some i"
  shows "server_window k s' \<and> sv_next_index s \<le> sv_next_index s'
    \<and> (sv_next_index s' \<le> i + window_cap k \<longrightarrow> dedup_get (sv_dedup s') key = Some i)"
  using assms(1)
proof (induction rule: rtranclp_induct)
  case base
  with assms(2,3) show ?case by simp
next
  case (step t u)
  have w: "server_window k u" using window_machine.inv_step step by blast
  from step_window [OF step(2)] show ?case
  proof
    assume "same_window t u"
    with step.IH w show ?thesis by (simp add: same_window_def)
  next
    assume "grants t u"
    then obtain key' where g: "dd_map (sv_dedup t) key' = None" "sv_dedup u = dedup_insert key' (sv_next_index t) (sv_dedup t)"
      "sv_next_index u = Suc (sv_next_index t)" by (auto simp: grants_def dedup_get_def)
    with step.IH w insert_keeps [OF _ g(1), of "window_cap k" "sv_next_index t" key i] show ?thesis
      by (auto simp: server_window_def dedup_get_def)
  qed
qed

section \<open>What an acknowledgement promises\<close>

lemma command_not_chunk:
  assumes "decode_command d = Inr (q, c)"
  shows "peek_tag d \<noteq> Inr (msg_type_val Msg_Chunk)"
proof
  assume "peek_tag d = Inr (msg_type_val Msg_Chunk)"
  then obtain n r r' where "r_array_len (new_reader d) = Inr (n, r)" "r_int r = Inr (msg_type_val Msg_Chunk, r')"
    by (auto simp: peek_tag_def bind_result_eq_Inr split: if_splits prod.splits)
  moreover have "cmd_type_from_wire (msg_type_val Msg_Chunk) = None" by code_simp
  ultimately show False using assms by (simp add: decode_command_def split: if_splits)
qed

lemma datagram_queued:
  assumes "decode_command d = Inr (q, c)" and "command_class (command_tag c) = Class_Queued"
  shows "on_datagram en d a s = on_queued en q c a (stop_invalid_attachments en (refresh_snapshot en s))"
  using command_not_chunk [OF assms(1)] assms
  by (auto simp: on_datagram_def on_command_bytes_def dispatch_command_def Let_def split: sum.splits)

lemma ackless_log: "ackless s t \<Longrightarrow> \<exists>new. sv_log t = sv_log s @ new \<and> filter acks new = []"
  by (auto simp: ackless_def filter_empty_conv)

lemma queued_known:
  assumes "idempotency_key c = Some key" and "dedup_get (sv_dedup t) key = Some i"
  shows "on_queued en q c a t = send_reply a (Rp_Ok q (Some i)) t"
  using assms by (simp add: on_queued_def)

text \<open>The acknowledgements of one datagram that holds a queued command: none, or one, with the index its key now has in the window.\<close>

lemma datagram_acks:
  assumes "decode_command d = Inr (q, c)" and "command_class (command_tag c) = Class_Queued" and "server_window k s"
  shows "\<exists>new. sv_log (on_datagram en d a s) = sv_log s @ new \<and> (filter acks new = []
    \<or> (\<exists>key i. idempotency_key c = Some key \<and> filter acks new = [Ef_reply a (Rp_Ok q (Some i))]
        \<and> dedup_get (sv_dedup (on_datagram en d a s)) key = Some i))"
proof -
  define t where "t = stop_invalid_attachments en (refresh_snapshot en s)"
  have st: "ackless s t" by (simp add: t_def)
  from ackless_log [OF st] obtain n1 where n1: "sv_log t = sv_log s @ n1" "filter acks n1 = []" by blast
  have w: "window_inv (window_cap k) (sv_dedup t) (sv_next_index t)" using st assms(3) by (simp add: ackless_def server_window_def)
  let ?u = "on_queued en q c a t"
  have "\<exists>new. sv_log ?u = sv_log t @ new \<and> (filter acks new = []
    \<or> (\<exists>key i. idempotency_key c = Some key \<and> filter acks new = [Ef_reply a (Rp_Ok q (Some i))] \<and> dedup_get (sv_dedup ?u) key = Some i))"
  proof (cases "idempotency_key c")
    case None
    then show ?thesis by (simp add: on_queued_def)
  next
    case key: (Some key)
    show ?thesis
    proof (cases "dedup_get (sv_dedup t) key")
      case (Some i)
      with key show ?thesis by (simp add: queued_known emit_def)
    next
      case None
      show ?thesis
      proof (cases "queued_refusal c t")
        case (Some e)
        with key None show ?thesis by (simp add: on_queued_def reply_error_def emit_def)
      next
        case fresh: None
        with key None have u: "?u = enqueue en q key c a t" by (simp add: on_queued_def)
        from enqueue_effect [of en q key c a t] insert_remembers [OF w] None key show ?thesis
          unfolding u by (auto simp: dedup_get_def)
      qed
    qed
  qed
  then obtain new where "sv_log ?u = sv_log t @ new" "filter acks new = [] \<or> (\<exists>key i. idempotency_key c = Some key
    \<and> filter acks new = [Ef_reply a (Rp_Ok q (Some i))] \<and> dedup_get (sv_dedup ?u) key = Some i)" by blast
  with n1 show ?thesis unfolding datagram_queued [OF assms(1,2)] t_def [symmetric] by (intro exI [of _ "n1 @ new"]) simp
qed

lemma acknowledged_again:
  assumes "reachable (server_initial k) server_step s"
    and "decode_command d = Inr (q, c)" and "command_class (command_tag c) = Class_Queued"
    and "sv_log (on_datagram en d a s) = sv_log s @ new" and "Ef_reply a (Rp_Ok q (Some i)) \<in> set new"
    and "server_step\<^sup>*\<^sup>* (on_datagram en d a s) s'" and "sv_next_index s' \<le> i + window_cap k"
    and "decode_command d' = Inr (q', c)"
  shows "\<exists>new'. sv_log (on_datagram en' d' a' s') = sv_log s' @ new' \<and> filter acks new' = [Ef_reply a' (Rp_Ok q' (Some i))]
    \<and> sv_next_index (on_datagram en' d' a' s') = sv_next_index s'"
proof -
  have w: "server_window k s" by (rule window_machine.reachable_inv [OF assms(1)])
  from datagram_window [of s en d a] w have w1: "server_window k (on_datagram en d a s)"
    by (auto simp: server_window_def same_window_def grants_def dedup_get_def window_inv_insert)
  have "Ef_reply a (Rp_Ok q (Some i)) \<in> set (filter acks new)" using assms(5) by simp
  with datagram_acks [OF assms(2,3) w, of en a] assms(4) obtain key
    where key: "idempotency_key c = Some key" "dedup_get (sv_dedup (on_datagram en d a s)) key = Some i" by (auto simp del: set_filter)
  from remembered_along_run [OF assms(6) w1 key(2)] assms(7) have known: "dedup_get (sv_dedup s') key = Some i" by blast
  define t where "t = stop_invalid_attachments en' (refresh_snapshot en' s')"
  have st: "ackless s' t" by (simp add: t_def)
  with known have "dedup_get (sv_dedup t) key = Some i" by (simp add: ackless_def)
  from queued_known [OF key(1) this] datagram_queued [OF assms(8,3)]
  have u: "on_datagram en' d' a' s' = send_reply a' (Rp_Ok q' (Some i)) t" by (simp add: t_def)
  from ackless_log [OF st] obtain n1 where "sv_log t = sv_log s' @ n1" "filter acks n1 = []" by blast
  with st show ?thesis unfolding u by (intro exI [of _ "n1 @ [Ef_reply a' (Rp_Ok q' (Some i))]"]) (simp add: emit_def ackless_def)
qed

text \<open>
  C16. A retransmitted command is acknowledged with the index it was first given and queued no second
  time. Let a datagram with a queued command be acknowledged with index \<open>i\<close> in a reachable state, let
  the server take any number of turns after that, whatever they handle, and let the same command
  arrive again, under another request id, from another address or as another encoding. As long as
  no more than the window's capacity of commands were accepted since, the answer is one
  acknowledgement, with \<open>i\<close>, and no index is handed out.
\<close>

theorem retransmission_exact:
  assumes "reachable (server_initial k) server_step s"
    and "decode_command d = Inr (q, c)" and "command_class (command_tag c) = Class_Queued"
    and "sv_log (on_datagram en d a s) = sv_log s @ new" and "Ef_reply a (Rp_Ok q (Some i)) \<in> set new"
    and "server_step\<^sup>*\<^sup>* (on_datagram en d a s) s'" and "sv_next_index s' \<le> i + window_cap k"
    and "decode_command d' = Inr (q', c)"
  shows "\<exists>new'. sv_log (on_datagram en' d' a' s') = sv_log s' @ new' \<and> filter acks new' = [Ef_reply a' (Rp_Ok q' (Some i))]
    \<and> sv_next_index (on_datagram en' d' a' s') = sv_next_index s'"
  using acknowledged_again [OF assms] .

section \<open>Witness\<close>

definition sample_offset :: command where
  "sample_offset = C_SetTcpOffset \<lparr>sto_key = 5, sto_x = f64_zero, sto_y = f64_zero, sto_z = f64_zero\<rparr>"

lemma sample_offset_decodes: "\<exists>bs. decode_command bs = Inr (q, sample_offset)"
proof -
  have ok: "command_wf sample_offset" "shape_params_fit sample_offset" "validate sample_offset = Inr ()"
    by (simp_all add: sample_offset_def check_eval float_eval result_simps)
  from decode_encode_command [OF ok(1,2) encode_command_valid [OF ok(3)]] show ?thesis by blast
qed

lemma sample_offset_gate: "server_check_gate T_SetTcpOffset s = None"
  by (simp add: server_check_gate_def check_gate_def gate_of_def is_arm_motion_def Let_def)

lemma sample_offset_refusal: "queued_refusal sample_offset sample_server = None"
  using sample_offset_gate [of sample_server]
  by (simp add: sample_offset_def queued_refusal_def tool_stop_of_def validate_queued_def validate_all_def validate_registries_def
      validate_supported_def sample_server_def sync_planner_def emit_def new_server_def sample_server_config_def Let_def)

lemma sample_offset_accepted:
  "on_queued sample_server_env q sample_offset a sample_server = enqueue sample_server_env q 5 sample_offset a sample_server"
proof -
  have "idempotency_key sample_offset = Some 5" by (simp add: sample_offset_def)
  moreover have "dedup_get (sv_dedup sample_server) 5 = None"
    by (simp add: sample_server_def sync_planner_def emit_def new_server_def new_dedup_def dedup_get_def)
  ultimately show ?thesis by (simp add: on_queued_def sample_offset_refusal)
qed

lemma sample_server_settled:
  "stop_invalid_attachments sample_server_env (refresh_snapshot sample_server_env sample_server) = sample_server"
  "sv_next_index sample_server = 1"
  by (simp_all add: sample_server_env_def sample_server_def sync_planner_def emit_def new_server_def sample_server_config_def
      refresh_snapshot_def take_snapshot_def stop_invalid_attachments_def has_attachment_def FIRST_COMMAND_INDEX_def Let_def)

lemma sample_offset_acknowledged:
  assumes "decode_command d = Inr (q, sample_offset)"
  obtains new where "sv_log (on_datagram sample_server_env d 3 sample_server) = sv_log sample_server @ new"
    "Ef_reply 3 (Rp_Ok q (Some 1)) \<in> set new" "sv_next_index (on_datagram sample_server_env d 3 sample_server) = 2"
proof -
  have c: "command_class (command_tag sample_offset) = Class_Queued" by (simp add: sample_offset_def)
  from datagram_queued [OF assms c, of sample_server_env 3 sample_server]
  have u: "on_datagram sample_server_env d 3 sample_server = enqueue sample_server_env q 5 sample_offset 3 sample_server"
    by (simp add: sample_server_settled sample_offset_accepted)
  from enqueue_effect [of sample_server_env q 5 sample_offset 3 sample_server] obtain new
    where new: "sv_log (on_datagram sample_server_env d 3 sample_server) = sv_log sample_server @ new"
      "filter acks new = [Ef_reply 3 (Rp_Ok q (Some 1))]" and n: "sv_next_index (on_datagram sample_server_env d 3 sample_server) = 2"
    by (auto simp: u sample_server_settled)
  have "Ef_reply 3 (Rp_Ok q (Some 1)) \<in> set (filter acks new)" by (simp add: new(2))
  with new(1) n that show thesis by simp
qed

theorem retransmission_exact_witness:
  "\<exists>d d' new'. sv_log (on_datagram sample_server_env d' 4 (on_datagram sample_server_env d 3 sample_server))
      = sv_log (on_datagram sample_server_env d 3 sample_server) @ new' \<and> filter acks new' = [Ef_reply 4 (Rp_Ok 8 (Some 1))]"
proof -
  obtain d d' where d: "decode_command d = Inr (7, sample_offset)" "decode_command d' = Inr (8, sample_offset)"
    using sample_offset_decodes by metis
  have c: "command_class (command_tag sample_offset) = Class_Queued" by (simp add: sample_offset_def)
  obtain new where new: "sv_log (on_datagram sample_server_env d 3 sample_server) = sv_log sample_server @ new"
    "Ef_reply 3 (Rp_Ok 7 (Some 1)) \<in> set new" "sv_next_index (on_datagram sample_server_env d 3 sample_server) = 2"
    by (rule sample_offset_acknowledged [OF d(1)])
  have "2 \<le> 1 + window_cap sample_server_config" by (simp add: window_cap_def)
  with new(3) have "\<exists>new'. sv_log (on_datagram en' d' a' (on_datagram sample_server_env d 3 sample_server))
      = sv_log (on_datagram sample_server_env d 3 sample_server) @ new' \<and> filter acks new' = [Ef_reply a' (Rp_Ok 8 (Some 1))]" for en' a'
    using retransmission_exact [OF sample_server_reachable d(1) c new(1,2) rtranclp.rtrancl_refl _ d(2), of en' a'] by auto
  then show ?thesis by blast
qed

end
