(* ===== verification/Config.thy ===== *)
theory Config
  imports Bus_Hw Homing_Sequence Gripper Gpio Command_Validate
begin

text \<open>
  The configuration: \<open>par6-config/src/robot.rs\<close>, \<open>homing.rs\<close>, \<open>io.rs\<close>, \<open>gripper.rs\<close> and
  the bundle of \<open>lib.rs\<close>. The records are the parsed tables (TOML parsing is not modelled),
  the operations are the resolutions (\<open>for_mode\<close>, \<open>safe_park_q\<close>, \<open>ready_pose_rad\<close>,
  \<open>for_tool\<close>, \<open>effective_home_offset\<close>) and every \<open>validate\<close>, with its checks in the order of
  the code and the field each error names; the reasons' texts are left out. Floats are the
  bit patterns of theory \<open>F64\<close>, so a check written \<open>v <= 0.0\<close> lets a NaN through here as it
  does there. The last section builds the views that the bus and the core read of it.
\<close>

section \<open>Errors\<close>

text \<open>\<open>ConfigError::Invalid { field, reason }\<close>, by its field.\<close>

datatype config_error = Invalid string

fun dec :: "nat \<Rightarrow> string" where
  "dec n = (if n < 10 then [char_of (48 + n)] else dec (n div 10) @ [char_of (48 + n mod 10)])"

declare dec.simps [simp del]

text \<open>\<open>format!("{prefix}[{i}]")\<close>.\<close>

definition indexed :: "string \<Rightarrow> nat \<Rightarrow> string" where
  "indexed prefix i = prefix @ ''['' @ dec i @ '']''"

text \<open>\<open>if bad { return Err(invalid(field, ..)) }\<close>.\<close>

definition refuse_if :: "bool \<Rightarrow> string \<Rightarrow> config_error + unit" where
  "refuse_if bad field = (if bad then Inl (Invalid field) else Inr ())"

text \<open>A block of statements, each of which may return an error.\<close>

definition in_order :: "(config_error + unit) list \<Rightarrow> config_error + unit" where
  "in_order = for_all_result (\<lambda>r. r)"

text \<open>\<open>for (v, name) in [..] { if bad(v) { return Err(invalid(name, ..)) } }\<close>.\<close>

definition refuse_each :: "('a \<Rightarrow> bool) \<Rightarrow> (string \<times> 'a) list \<Rightarrow> config_error + unit" where
  "refuse_each bad = for_all_result (\<lambda>(name, v). refuse_if (bad v) name)"

named_theorems config_simps \<open>what a passed validation says\<close>

lemma refuse_if_Inr [config_simps]: "refuse_if bad field = Inr u \<longleftrightarrow> \<not> bad"
  by (simp add: refuse_if_def)

lemma in_order_Inr [config_simps]: "in_order rs = Inr u \<longleftrightarrow> (\<forall>r\<in>set rs. r = Inr ())"
  by (simp add: in_order_def for_all_result_Inr)

lemma refuse_each_Inr [config_simps]: "refuse_each bad vs = Inr u \<longleftrightarrow> (\<forall>(name, v)\<in>set vs. \<not> bad v)"
  by (auto simp: refuse_each_def for_all_result_Inr refuse_if_Inr)

section \<open>Floating-point comparisons\<close>

text \<open>Strictly positive and comparable: unlike \<open>\<not> v <= 0.0\<close>, a NaN is refused.\<close>

definition is_positive :: "f64 \<Rightarrow> bool" where
  "is_positive v \<longleftrightarrow> f64_lt f64_zero v"

text \<open>\<open>f64::round\<close>: to the nearest integer, halves away from zero.\<close>

definition f64_round_away :: "f64 \<Rightarrow> f64" where
  "f64_round_away x =
     (if is_nan x \<or> \<not> is_finite x then x
      else f64_round (f64_neg_sign x) ((2 * units_of_mag (f64_mag x) + 2 ^ 1074) div (2 * 2 ^ 1074) * 2 ^ 1074) 1)"

definition F64_1E_9 :: f64 where "F64_1E_9 = 0x3E112E0BE826D695"
definition F64_CENTI :: f64 where "F64_CENTI = 0x3F847AE147AE147B"
definition F64_2_POW_64 :: f64 where "F64_2_POW_64 = 0x43F0000000000000"
definition MAX_OPEN_RETRY_S :: f64 where "MAX_OPEN_RETRY_S = 0x40AC200000000000"  \<comment> \<open>3600\<close>
definition MAX_RIPPLE_HARMONICS :: nat where "MAX_RIPPLE_HARMONICS = 8"

section \<open>Joints\<close>

datatype driver_type = Drv_Stepfoc | Drv_SpectralBldc

datatype kt_source = Kt_Auto | Kt_Config

record mode_limits =
  ml_velocity_rad_s :: f64
  ml_acceleration_rad_s2 :: f64
  ml_jerk_rad_s3 :: "f64 option"
  ml_torque_rate_nm_s :: "f64 option"

datatype limit_mode = Lim_Exec | Lim_Jog | Lim_Stream

record resolved_limits =
  rs_velocity_rad_s :: f64
  rs_acceleration_rad_s2 :: f64
  rs_jerk_rad_s3 :: "f64 option"
  rs_torque_rate_nm_s :: "f64 option"

text \<open>
  \<open>JointConfig\<close> with its \<open>JointLimits\<close>: the fields the homing sequence reads are the parent
  record \<open>joint_config\<close> of theory \<open>Homing_Sequence\<close>.
\<close>

record joint_file = joint_config +
  jf_name :: bytes
  jf_driver_type :: driver_type
  jf_kt_nm_a :: f64
  jf_voltage_limit_mv :: u32
  jf_phase_resistance_ohm :: "f64 option"
  jf_phase_inductance_mh :: "f64 option"
  jf_watchdog_timeout_ms :: u32
  jf_dynamics_gear_ratio :: "f64 option"
  jf_gear_efficiency :: f64
  jf_dir :: u8
  jf_sector_master_position_ticks :: i32
  jf_sector_home_offset_rad :: f64
  jf_gains :: gains
  jf_ripple :: "(u8 \<times> i16 \<times> i16) list"
  jf_velocity_window :: "u8 option"
  jf_continuous :: bool
  jf_soft_min_rad :: f64
  jf_soft_max_rad :: f64
  jf_velocity_rad_s :: f64
  jf_acceleration_rad_s2 :: f64
  jf_jerk_rad_s3 :: f64
  jf_torque_rate_nm_s :: f64
  jf_exec :: "mode_limits option"
  jf_jog :: "mode_limits option"
  jf_stream :: "mode_limits option"

definition endstops :: "joint_file \<Rightarrow> (f64 \<times> f64) option" where
  "endstops j = (if \<not> jf_continuous j then Some (jg_hard_min_rad j, jg_hard_max_rad j) else None)"

definition travel_rad :: "joint_file \<Rightarrow> f64 \<times> f64" where
  "travel_rad j = (case endstops j of Some e \<Rightarrow> e | None \<Rightarrow> (jf_soft_min_rad j, jf_soft_max_rad j))"

definition for_mode :: "joint_file \<Rightarrow> limit_mode \<Rightarrow> resolved_limits" where
  "for_mode j mode =
     (case (case mode of Lim_Exec \<Rightarrow> jf_exec j | Lim_Jog \<Rightarrow> jf_jog j | Lim_Stream \<Rightarrow> jf_stream j) of
        Some m \<Rightarrow> \<lparr>rs_velocity_rad_s = ml_velocity_rad_s m, rs_acceleration_rad_s2 = ml_acceleration_rad_s2 m,
          rs_jerk_rad_s3 = Some (case ml_jerk_rad_s3 m of Some v \<Rightarrow> v | None \<Rightarrow> jf_jerk_rad_s3 j),
          rs_torque_rate_nm_s = Some (case ml_torque_rate_nm_s m of Some v \<Rightarrow> v | None \<Rightarrow> jf_torque_rate_nm_s j)\<rparr>
      | None \<Rightarrow> \<lparr>rs_velocity_rad_s = jf_velocity_rad_s j, rs_acceleration_rad_s2 = jf_acceleration_rad_s2 j,
          rs_jerk_rad_s3 = Some (jf_jerk_rad_s3 j), rs_torque_rate_nm_s = Some (jf_torque_rate_nm_s j)\<rparr>)"

text \<open>The block a mode declares, against the joint's ceiling: \<open>v > 0.0 && v <= ceiling\<close>.\<close>

definition in_ceiling :: "f64 \<Rightarrow> f64 \<Rightarrow> bool" where
  "in_ceiling ceiling v \<longleftrightarrow> f64_lt f64_zero v \<and> f64_le v ceiling"

definition validate_mode_block :: "string \<Rightarrow> joint_file \<Rightarrow> mode_limits option \<Rightarrow> config_error + unit" where
  "validate_mode_block prefix j block =
     (case block of None \<Rightarrow> Inr () | Some m \<Rightarrow> in_order
        [refuse_if (\<not> in_ceiling (jf_velocity_rad_s j) (ml_velocity_rad_s m)) (prefix @ ''.velocity_rad_s''),
         refuse_if (\<not> in_ceiling (jf_acceleration_rad_s2 j) (ml_acceleration_rad_s2 m)) (prefix @ ''.acceleration_rad_s2''),
         (case ml_jerk_rad_s3 m of None \<Rightarrow> Inr ()
          | Some v \<Rightarrow> refuse_if (\<not> in_ceiling (jf_jerk_rad_s3 j) v) (prefix @ ''.jerk_rad_s3'')),
         (case ml_torque_rate_nm_s m of None \<Rightarrow> Inr ()
          | Some v \<Rightarrow> refuse_if (\<not> in_ceiling (jf_torque_rate_nm_s j) v) (prefix @ ''.torque_rate_nm_s''))])"

definition f64_of_i16_abs :: "i16 \<Rightarrow> f64" where
  "f64_of_i16_abs w = f64_abs (f64_of_i16 w)"

definition validate_joint :: "joint_file list \<Rightarrow> nat \<Rightarrow> joint_file \<Rightarrow> node_id list \<Rightarrow> config_error + unit" where
  "validate_joint js i j reserved =
     (let f = (\<lambda>name. indexed ''joints'' i @ ''.'' @ name) in in_order
        [refuse_if (16 \<le> unat (jg_node_id j)) (f ''node_id''),
         for_all_result (\<lambda>other. refuse_if (jg_node_id j = other) (f ''node_id'')) reserved,
         refuse_if (\<exists>q \<in> set (take i js). jg_node_id q = jg_node_id j) (f ''node_id''),
         refuse_if (\<exists>q \<in> set (take i js). jf_name q = jf_name j) (f ''name''),
         refuse_if (\<not> (1 \<le> jg_encoder_bits j \<and> jg_encoder_bits j \<le> 24)) (f ''encoder_bits''),
         refuse_if (f64_le (jg_gear_ratio j) f64_zero) (f ''gear_ratio''),
         refuse_if (\<not> (f64_lt f64_zero (jf_gear_efficiency j) \<and> f64_le (jf_gear_efficiency j) f64_one)) (f ''gear_efficiency''),
         refuse_if (1 < unat (jf_dir j)) (f ''dir''),
         for_all_result (\<lambda>(name, v). case v of None \<Rightarrow> Inr ()
             | Some v \<Rightarrow> refuse_if (\<not> (is_finite v \<and> f64_lt f64_zero v)) (f name))
           [(''phase_resistance_ohm'', jf_phase_resistance_ohm j), (''phase_inductance_mh'', jf_phase_inductance_mh j)],
         refuse_if ((jf_phase_resistance_ohm j \<noteq> None) \<noteq> (jf_phase_inductance_mh j \<noteq> None)) (f ''phase_resistance_ohm''),
         refuse_if (f64_le (jf_kt_nm_a j) f64_zero) (f ''kt_nm_a''),
         refuse_if (f64_le (jg_ilim_ma j) f64_zero) (f ''ilim_ma''),
         refuse_if (f64_le (jg_velocity_limit_ticks_s j) f64_zero) (f ''velocity_limit_ticks_s''),
         refuse_if (case jf_velocity_window j of None \<Rightarrow> False | Some w \<Rightarrow> \<not> (4 \<le> unat w \<and> unat w \<le> 64)) (f ''velocity_window''),
         refuse_if (MAX_RIPPLE_HARMONICS < length (jf_ripple j)) (f ''ripple''),
         for_all_result (\<lambda>(harmonic, a_ma, b_ma). in_order
             [refuse_if (harmonic = 0) (f ''ripple''),
              refuse_if (f64_lt (jg_ilim_ma j) (f64_of_i16_abs a_ma) \<or> f64_lt (jg_ilim_ma j) (f64_of_i16_abs b_ma)) (f ''ripple'')])
           (jf_ripple j),
         refuse_if (jf_watchdog_timeout_ms j = 0) (f ''watchdog_timeout_ms''),
         refuse_if (f64_le (jg_hard_max_rad j) (jg_hard_min_rad j)) (f ''limits.hard_min_rad''),
         refuse_if (f64_le (jf_soft_max_rad j) (jf_soft_min_rad j)) (f ''limits.soft_min_rad''),
         refuse_each (\<lambda>v. \<not> is_positive v)
           [(f ''limits.velocity_rad_s'', jf_velocity_rad_s j), (f ''limits.acceleration_rad_s2'', jf_acceleration_rad_s2 j),
            (f ''limits.jerk_rad_s3'', jf_jerk_rad_s3 j), (f ''limits.torque_rate_nm_s'', jf_torque_rate_nm_s j)],
         for_all_result (\<lambda>(name, block). validate_mode_block (f (''limits.'' @ name)) j block)
           [(''exec'', jf_exec j), (''jog'', jf_jog j), (''stream'', jf_stream j)]])"

section \<open>Homing\<close>

definition validate_joint_homing :: "string \<Rightarrow> joint_homing \<Rightarrow> config_error + unit" where
  "validate_joint_homing field_prefix h =
     (let f = (\<lambda>name. field_prefix @ ''.'' @ name); backoff_ticks = f64_mul (jh_speed_ticks_s h) (jh_backoff_s h) in in_order
        [refuse_if (f64_le (jh_speed_ticks_s h) f64_zero) (f ''speed_ticks_s''),
         refuse_if (1 < unat (jh_direction h)) (f ''direction''),
         refuse_if (f64_le (jh_current_ma h) f64_zero) (f ''current_ma''),
         refuse_if (f64_le (jh_timeout_s h) f64_zero) (f ''timeout_s''),
         refuse_if (f64_lt (jh_backoff_s h) f64_zero) (f ''backoff_s''),
         refuse_if (jh_two_pass h \<and> jh_strategy h = Strat_Stall
             \<and> f64_le backoff_ticks (f64_of_nat (unat (jh_two_pass_max_diff_ticks h)))) (f ''two_pass_max_diff_ticks''),
         (case jh_release h of None \<Rightarrow> Inr () | Some r \<Rightarrow> in_order
           [refuse_if (jh_strategy h = Strat_Hall) (f ''release''),
            refuse_if (f64_le (rl_duration_s r) f64_zero) (f ''release.duration_s''),
            refuse_if (\<not> (f64_le f64_zero (rl_sample_pct r) \<and> f64_le (rl_sample_pct r) f64_one)) (f ''release.sample_pct'')]),
         (case jh_post_home h of None \<Rightarrow> Inr ()
          | Some p \<Rightarrow> refuse_if (f64_le (ph_speed_ticks_s p) f64_zero) (f ''post_home.speed_ticks_s''))])"

primrec move_joint_duration :: "pre_move \<Rightarrow> nat option \<times> f64" where
  "move_joint_duration (PM_Idle joint d) = (Some joint, d)"
| "move_joint_duration (PM_Nudge joint speed d) = (Some joint, d)"
| "move_joint_duration (PM_Position joint pos d) = (Some joint, d)"
| "move_joint_duration (PM_GripperMove cmd d) = (None, d)"

definition validate_moves :: "pre_move list \<Rightarrow> nat \<Rightarrow> string \<Rightarrow> config_error + unit" where
  "validate_moves moves num_joints prefix =
     for_all_result (\<lambda>(k, m). let f = indexed prefix k; (joint, duration) = move_joint_duration m in in_order
         [(case joint of None \<Rightarrow> Inr () | Some j \<Rightarrow> refuse_if (num_joints \<le> j) (f @ ''.joint'')),
          refuse_if (f64_le duration f64_zero) (f @ ''.duration_s'')])
       (enumerate 0 moves)"

definition empty_step :: "sequence_step \<Rightarrow> bool" where
  "empty_step s \<longleftrightarrow> sq_pre_moves s = [] \<and> sq_home s = None \<and> sq_move_to s = [] \<and> sq_post_moves s = []"

definition validate_step :: "nat \<Rightarrow> nat \<Rightarrow> sequence_step \<Rightarrow> config_error + unit" where
  "validate_step num_joints i s =
     (let prefix = indexed ''homing.sequence'' i in in_order
        [refuse_if (empty_step s) prefix,
         validate_moves (sq_pre_moves s) num_joints (prefix @ ''.pre_moves''),
         validate_moves (sq_post_moves s) num_joints (prefix @ ''.post_moves''),
         (case sq_home s of None \<Rightarrow> Inr () | Some home \<Rightarrow> in_order
           [refuse_if (hg_joints home = [] \<and> hg_gripper home = None) (prefix @ ''.home''),
            for_all_result (\<lambda>j. refuse_if (num_joints \<le> j) (prefix @ ''.home.joints'')) (hg_joints home)]),
         for_all_result (\<lambda>(k, m). let f = indexed (prefix @ ''.move_to'') k in in_order
             [refuse_if (num_joints \<le> mt_joint m) (f @ ''.joint''),
              refuse_if (f64_le (mt_duration_s m) f64_zero) (f @ ''.duration_s'')])
           (enumerate 0 (sq_move_to s))])"

text \<open>
  \<open>referenced[usize::from(*j)] = true\<close> for every joint of every home group. The index is
  checked above; out of range the assignment would panic.
\<close>

definition home_joints :: "sequence_step \<Rightarrow> nat list" where
  "home_joints s = (case sq_home s of Some home \<Rightarrow> hg_joints home | None \<Rightarrow> [])"

definition referenced :: "nat \<Rightarrow> sequence_step list \<Rightarrow> bool list" where
  "referenced num_joints steps =
     fold (\<lambda>s flags. fold (\<lambda>j flags. flags[j := True]) (home_joints s) flags) steps (replicate num_joints False)"

definition validate_homing :: "nat \<Rightarrow> homing_config \<Rightarrow> config_error + unit" where
  "validate_homing num_joints h = in_order
     [refuse_if (length (hc_joints h) \<noteq> num_joints) ''homing.joints'',
      for_all_result (\<lambda>(i, jh). validate_joint_homing (indexed ''homing.joints'' i) jh) (enumerate 0 (hc_joints h)),
      for_all_result (\<lambda>(i, s). validate_step num_joints i s) (enumerate 0 (hc_sequence h)),
      refuse_if (filter (\<lambda>i. \<not> referenced num_joints (hc_sequence h) ! i) [0..<num_joints] \<noteq> []) ''homing.sequence'',
      validate_moves (hc_post_moves h) num_joints ''homing.post_moves'',
      refuse_if (hc_reference_check_nm h \<noteq> [] \<and> length (hc_reference_check_nm h) \<noteq> num_joints) ''homing.reference_check_nm'',
      refuse_if (\<exists>v \<in> set (hc_reference_check_nm h). \<not> is_finite v \<or> f64_le v f64_zero) ''homing.reference_check_nm'']"

text \<open>Where the sequence leaves the arm: the last \<open>move_to\<close> of each joint, or the joints none places.\<close>

definition last_placed :: "nat \<Rightarrow> sequence_step list \<Rightarrow> f64 option list" where
  "last_placed num_joints steps =
     fold (\<lambda>s slots. fold (\<lambda>m slots. slots[mt_joint m := Some (mt_position_rad m)]) (sq_move_to s) slots)
       steps (replicate num_joints None)"

definition ready_pose_rad :: "homing_config \<Rightarrow> nat \<Rightarrow> nat list + f64 list" where
  "ready_pose_rad h num_joints =
     (let slots = last_placed num_joints (hc_sequence h); missing = filter (\<lambda>j. slots ! j = None) [0..<length slots]
      in if missing \<noteq> [] then Inl missing
         else Inr (map (\<lambda>v. case v of Some q \<Rightarrow> q | None \<Rightarrow> f64_zero) slots))"

section \<open>Digital lines\<close>

definition RESERVED_OFFSETS :: "u32 list" where "RESERVED_OFFSETS = [5, 6]"

record io_line =
  il_name :: bytes
  il_offset :: u32

record io_config =
  ic_inputs :: "io_line list"
  ic_outputs :: "io_line list"

definition status_slots :: "io_config \<Rightarrow> nat" where
  "status_slots c = length (ic_inputs c) + length (ic_outputs c) + 1"

text \<open>
  \<open>name.trim().is_empty()\<close> on the UTF-8 bytes of the name: every character is Unicode
  \<open>White_Space\<close>.
\<close>

fun blank :: "bytes \<Rightarrow> bool" where
  "blank [] = True"
| "blank (a # rest) =
     (if 0x09 \<le> a \<and> a \<le> 0x0D \<or> a = 0x20 then blank rest
      else case rest of
        [] \<Rightarrow> False
      | b # rest \<Rightarrow>
          (if a = 0xC2 then b \<in> {0x85, 0xA0} \<and> blank rest
           else case rest of
             [] \<Rightarrow> False
           | c # rest \<Rightarrow>
               (a = 0xE1 \<and> b = 0x9A \<and> c = 0x80
                \<or> a = 0xE2 \<and> b = 0x80 \<and> (0x80 \<le> c \<and> c \<le> 0x8A \<or> c \<in> {0xA8, 0xA9, 0xAF})
                \<or> a = 0xE2 \<and> b = 0x81 \<and> c = 0x9F
                \<or> a = 0xE3 \<and> b = 0x80 \<and> c = 0x80) \<and> blank rest))"

fun validate_lines :: "string \<Rightarrow> nat \<Rightarrow> io_line list \<Rightarrow> (bytes \<times> u32) list \<Rightarrow> config_error + (bytes \<times> u32) list" where
  "validate_lines grp i [] seen = Inr seen"
| "validate_lines grp i (line # lines) seen =
     (let field = indexed (''io.'' @ grp) i in
      bind_result (in_order
        [refuse_if (blank (il_name line)) (field @ ''.name''),
         refuse_if (il_offset line \<in> set RESERVED_OFFSETS) (field @ ''.offset''),
         refuse_if (\<exists>(n, off) \<in> set seen. n = il_name line \<or> off = il_offset line) field])
      (\<lambda>_. validate_lines grp (Suc i) lines (seen @ [(il_name line, il_offset line)])))"

definition validate_io :: "io_config \<Rightarrow> config_error + unit" where
  "validate_io c =
     bind_result (refuse_if (MAX_IO_LINES < length (ic_inputs c) + length (ic_outputs c)) ''io'') (\<lambda>_.
     bind_result (validate_lines ''inputs'' 0 (ic_inputs c) []) (\<lambda>seen.
     bind_result (validate_lines ''outputs'' 0 (ic_outputs c) seen) (\<lambda>_. Inr ())))"

section \<open>The sections of a robot file\<close>

record robot_section =
  rn_name :: bytes
  rn_tick_dt_s :: f64
  rn_gravity_m_s2 :: f64
  rn_park_pose_rad :: "f64 list"
  rn_active_tool :: bytes
  rn_kt_source :: kt_source

record bus_section =
  bu_interface :: bytes
  bu_bitrate :: u32
  bu_restart_ms :: u32
  bu_txqueuelen :: u32
  bu_sndbuf_bytes :: u32
  bu_gripper_node :: node_id
  bu_timing_dummy_node :: node_id
  bu_host_node :: node_id
  bu_stale_warn_s :: f64
  bu_lost_s :: f64
  bu_rx_frames_per_tick_cap :: u32
  bu_boot_config_repeats :: u8
  bu_config_resend_offsets_s :: "f64 list"
  bu_open_retry_s :: f64
  bu_config_pace_s :: f64
  bu_watchdog_action :: watchdog_action
  bu_kt_timeout_s :: f64
  bu_kt_retries :: u8
  bu_kt_rounds :: u8
  bu_scan_rounds :: u8
  bu_scan_wait_s :: f64

record protocol_section =
  pr_command_port :: u16
  pr_status_port :: u16
  pr_status_multicast_group :: bytes
  pr_status_rate_hz :: u32

datatype jog_profile = Jog_Trapezoid | Jog_Scurve

datatype control_mode = Ctl_Pid | Ctl_Pd

record jog_defaults =
  jd_speed_pct :: f64
  jd_accel_time_s :: f64
  jd_profile :: jog_profile
  jd_jerk_factor :: f64
  jd_control_mode :: control_mode

record stream_defaults =
  sd_command_timeout_s :: f64
  sd_lowpass_cutoff_hz :: f64
  sd_success_window_s :: f64
  sd_fault_latch_s :: f64
  sd_servo_grace_s :: f64

record sim_section =
  sm_motor_jm_kg_m2 :: "f64 list"
  sm_viscous_nm_s :: "f64 list"
  sm_coulomb_nm :: "f64 list"
  sm_powered_support_nm :: "f64 list"
  sm_arm_lateral_stiffness_nm_rad :: f64
  sm_arm_lateral_damping_nm_s :: f64
  sm_transmission_stiffness_nm_rad :: "f64 list"
  sm_transmission_damping_ratio :: f64

record timing_section =
  tg_degraded_factor :: f64
  tg_critical_factor :: f64
  tg_critical_sustain_s :: f64
  tg_cpu :: int
  tg_fifo_priority :: u8

record limits_section =
  le_tau_ext_margin_nm :: f64
  le_tau_ext_window_s :: f64

record shutdown_section =
  sdn_safe_park :: bool
  sdn_tolerance_rad :: f64
  sdn_timeout_s :: f64
  sdn_velocity_limit_rad_s :: f64
  sdn_safe_park_q :: "f64 list option"
  sdn_endstop_joints :: "u8 list"

record motion_section =
  mo_jog_l_linear_max_m_s :: f64
  mo_planned_linear_max_m_s :: f64
  mo_jog_l_angular_max_rad_s :: f64
  mo_cart_linear_accel_max_m_s2 :: f64
  mo_cart_angular_accel_max_rad_s2 :: f64
  mo_cart_linear_jerk_max_m_s3 :: f64
  mo_cart_angular_jerk_max_rad_s3 :: f64
  mo_cart_step_m :: f64
  mo_cart_step_rad :: f64
  mo_path_step_m :: f64
  mo_joint_step_rad :: "f64 option"
  mo_move_l_max_joint_step_rad :: f64
  mo_dls_lambda :: f64
  mo_settle_tolerance_rad :: f64
  mo_settle_timeout_s :: f64
  mo_execution_override_transition_s :: f64
  mo_path_rot_weight_m_per_rad :: f64
  mo_singularity_cond_max :: f64
  mo_singularity_sigma_min :: f64

record robot_file =
  rf_gravity_correction :: "f64 list"
  rf_gravity_scale :: "f64 list"
  rf_robot :: robot_section
  rf_joints :: "joint_file list"
  rf_homing :: homing_config
  rf_bus :: bus_section
  rf_protocol :: protocol_section
  rf_io :: io_config
  rf_jog :: jog_defaults
  rf_stream :: stream_defaults
  rf_timing :: "timing_section option"
  rf_limits :: limits_section
  rf_shutdown :: shutdown_section
  rf_motion :: motion_section
  rf_sim :: sim_section

text \<open>The motion constants as the status plane reports them; an omitted pitch is NaN.\<close>

definition motion_as_array :: "motion_section \<Rightarrow> f64 list" where
  "motion_as_array m =
     [mo_jog_l_linear_max_m_s m, mo_planned_linear_max_m_s m, mo_jog_l_angular_max_rad_s m,
      mo_cart_linear_accel_max_m_s2 m, mo_cart_angular_accel_max_rad_s2 m, mo_cart_linear_jerk_max_m_s3 m,
      mo_cart_angular_jerk_max_rad_s3 m, mo_cart_step_m m, mo_cart_step_rad m, mo_path_step_m m,
      (case mo_joint_step_rad m of Some v \<Rightarrow> v | None \<Rightarrow> f64_nan), mo_move_l_max_joint_step_rad m, mo_dls_lambda m,
      mo_settle_tolerance_rad m, mo_settle_timeout_s m, mo_execution_override_transition_s m,
      mo_path_rot_weight_m_per_rad m, mo_singularity_cond_max m, mo_singularity_sigma_min m]"

definition MOTION_KEYS :: "string list" where
  "MOTION_KEYS =
     [''jog_l_linear_max_m_s'', ''planned_linear_max_m_s'', ''jog_l_angular_max_rad_s'', ''cart_linear_accel_max_m_s2'',
      ''cart_angular_accel_max_rad_s2'', ''cart_linear_jerk_max_m_s3'', ''cart_angular_jerk_max_rad_s3'', ''cart_step_m'',
      ''cart_step_rad'', ''path_step_m'', ''joint_step_rad'', ''move_l_max_joint_step_rad'', ''dls_lambda'',
      ''settle_tolerance_rad'', ''settle_timeout_s'', ''execution_override_transition_s'', ''path_rot_weight_m_per_rad'',
      ''singularity_cond_max'', ''singularity_sigma_min'']"

section \<open>Resolutions\<close>

definition tick_rate_hz :: "robot_file \<Rightarrow> f64" where
  "tick_rate_hz r = f64_div f64_one (rn_tick_dt_s (rf_robot r))"

definition safe_park_q :: "robot_file \<Rightarrow> f64 list" where
  "safe_park_q r =
     fold (\<lambda>j q. let j = unat j in
         if j < length q \<and> j < length (hc_joints (rf_homing r)) then q[j := jh_home_offset_rad (hc_joints (rf_homing r) ! j)] else q)
       (sdn_endstop_joints (rf_shutdown r))
       (case sdn_safe_park_q (rf_shutdown r) of Some q \<Rightarrow> q | None \<Rightarrow> rn_park_pose_rad (rf_robot r))"

definition parks_on_endstop :: "robot_file \<Rightarrow> nat \<Rightarrow> bool" where
  "parks_on_endstop r joint \<longleftrightarrow> (\<exists>j \<in> set (sdn_endstop_joints (rf_shutdown r)). unat j = joint)"

text \<open>\<open>round(seconds / dt)\<close>, the only way from seconds to ticks.\<close>

definition config_ticks :: "robot_file \<Rightarrow> f64 \<Rightarrow> nat" where
  "config_ticks r seconds = ticks_of (rn_tick_dt_s (rf_robot r)) seconds"

definition default_timing :: timing_section where
  "default_timing = \<lparr>tg_degraded_factor = 0x3FF0CCCCCCCCCCCD, tg_critical_factor = 0x3FF199999999999A,
     tg_critical_sustain_s = f64_one, tg_cpu = 3, tg_fifo_priority = 99\<rparr>"

definition loop_timing :: "robot_file \<Rightarrow> timing_section" where
  "loop_timing r = (case rf_timing r of Some t \<Rightarrow> t | None \<Rightarrow> default_timing)"

section \<open>Validation of a robot file\<close>

definition validate_bus :: "robot_file \<Rightarrow> config_error + unit" where
  "validate_bus r =
     (let b = rf_bus r; dt = rn_tick_dt_s (rf_robot r) in in_order
        [refuse_if (bu_bitrate b = 0) ''bus.bitrate'',
         refuse_each (\<lambda>v. 16 \<le> unat v)
           [(''bus.gripper_node'', bu_gripper_node b), (''bus.timing_dummy_node'', bu_timing_dummy_node b),
            (''bus.host_node'', bu_host_node b)],
         refuse_if (\<not> is_positive (bu_stale_warn_s b)) ''bus.stale_warn_s'',
         refuse_if (f64_le (bu_lost_s b) (bu_stale_warn_s b)) ''bus.lost_s'',
         refuse_each (\<lambda>v. f64_lt (f64_round_away (f64_div v dt)) f64_one)
           [(''bus.stale_warn_s'', bu_stale_warn_s b), (''bus.lost_s'', bu_lost_s b)],
         refuse_if (bu_rx_frames_per_tick_cap b = 0) ''bus.rx_frames_per_tick_cap'',
         refuse_if (bu_boot_config_repeats b = 0) ''bus.boot_config_repeats'',
         refuse_if (\<not> (\<forall>s \<in> set (bu_config_resend_offsets_s b). is_positive s \<and> is_finite s)) ''bus.config_resend_offsets_s'',
         refuse_if (\<not> (is_finite (bu_open_retry_s b) \<and> f64_le f64_zero (bu_open_retry_s b) \<and> f64_le (bu_open_retry_s b) MAX_OPEN_RETRY_S))
           ''bus.open_retry_s'',
         refuse_if (f64_lt (bu_config_pace_s b) f64_zero) ''bus.config_pace_s''])"

text \<open>
  \<open>str::parse::<Ipv4Addr>\<close>: four decimal octets of one to three digits, no leading zero,
  at most 255, with a dot between two.
\<close>

fun split_dots :: "bytes \<Rightarrow> bytes list" where
  "split_dots [] = [[]]"
| "split_dots (c # rest) =
     (if c = 0x2E then [] # split_dots rest
      else case split_dots rest of p # ps \<Rightarrow> (c # p) # ps | [] \<Rightarrow> [[c]])"

definition parse_octet :: "bytes \<Rightarrow> nat option" where
  "parse_octet p =
     (let v = foldl (\<lambda>n c. 10 * n + (unat c - 0x30)) 0 p
      in if 1 \<le> length p \<and> length p \<le> 3 \<and> (\<forall>c \<in> set p. 0x30 \<le> c \<and> c \<le> 0x39) \<and> (hd p = 0x30 \<longrightarrow> length p = 1) \<and> v \<le> 255
         then Some v else None)"

definition parse_ipv4 :: "bytes \<Rightarrow> nat list option" where
  "parse_ipv4 s =
     (let octets = map parse_octet (split_dots s)
      in if length octets = 4 \<and> None \<notin> set octets then Some (map the octets) else None)"

definition is_multicast :: "nat list \<Rightarrow> bool" where
  "is_multicast octets \<longleftrightarrow> 224 \<le> octets ! 0 \<and> octets ! 0 \<le> 239"

definition validate_protocol :: "robot_file \<Rightarrow> config_error + unit" where
  "validate_protocol r =
     (let p = rf_protocol r; per = f64_div (tick_rate_hz r) (f64_of_nat (unat (pr_status_rate_hz p))) in in_order
        [refuse_if (pr_command_port p = 0) ''protocol.command_port'',
         refuse_if (pr_status_port p = 0) ''protocol.status_port'',
         refuse_if (pr_command_port p = pr_status_port p) ''protocol.status_port'',
         refuse_if (case parse_ipv4 (pr_status_multicast_group p) of None \<Rightarrow> True | Some octets \<Rightarrow> \<not> is_multicast octets)
           ''protocol.status_multicast_group'',
         refuse_if (pr_status_rate_hz p = 0) ''protocol.status_rate_hz'',
         refuse_if (f64_lt per f64_one \<or> f64_lt F64_1E_9 (f64_abs (f64_sub per (f64_round_away per)))) ''protocol.status_rate_hz''])"

definition validate_defaults :: "robot_file \<Rightarrow> config_error + unit" where
  "validate_defaults r =
     (let j = rf_jog r; s = rf_stream r in in_order
        [refuse_if (\<not> (f64_lt f64_zero (jd_speed_pct j) \<and> f64_le (jd_speed_pct j) f64_one)) ''jog.speed_pct'',
         refuse_if (\<not> is_positive (jd_accel_time_s j)) ''jog.accel_time_s'',
         refuse_if (\<not> is_positive (jd_jerk_factor j)) ''jog.jerk_factor'',
         refuse_each (\<lambda>v. \<not> is_positive v)
           [(''stream.command_timeout_s'', sd_command_timeout_s s), (''stream.success_window_s'', sd_success_window_s s),
            (''stream.fault_latch_s'', sd_fault_latch_s s), (''stream.servo_grace_s'', sd_servo_grace_s s)],
         refuse_if (\<not> is_finite (sd_lowpass_cutoff_hz s) \<or> f64_lt (sd_lowpass_cutoff_hz s) f64_zero) ''stream.lowpass_cutoff_hz''])"

definition finite_nonneg :: "f64 \<Rightarrow> bool" where
  "finite_nonneg v \<longleftrightarrow> is_finite v \<and> f64_le f64_zero v"

definition validate_sim :: "robot_file \<Rightarrow> config_error + unit" where
  "validate_sim r =
     (let sim = rf_sim r in in_order
        [for_all_result (\<lambda>(name, vs). in_order
             [refuse_if (length vs \<noteq> length (rf_joints r)) name, for_all_result (\<lambda>v. refuse_if (\<not> finite_nonneg v) name) vs])
           [(''sim.motor_jm_kg_m2'', sm_motor_jm_kg_m2 sim), (''sim.powered_support_nm'', sm_powered_support_nm sim),
            (''sim.viscous_nm_s'', sm_viscous_nm_s sim), (''sim.coulomb_nm'', sm_coulomb_nm sim),
            (''sim.transmission_stiffness_nm_rad'', sm_transmission_stiffness_nm_rad sim)],
         refuse_each (\<lambda>v. \<not> finite_nonneg v)
           [(''sim.arm_lateral_stiffness_nm_rad'', sm_arm_lateral_stiffness_nm_rad sim),
            (''sim.arm_lateral_damping_nm_s'', sm_arm_lateral_damping_nm_s sim),
            (''sim.transmission_damping_ratio'', sm_transmission_damping_ratio sim)],
         for_all_result (\<lambda>(k, jm). refuse_if (f64_lt f64_zero k \<and> \<not> is_positive jm) ''sim.motor_jm_kg_m2'')
           (zip (sm_transmission_stiffness_nm_rad sim) (sm_motor_jm_kg_m2 sim)),
         for_all_result (\<lambda>j. case jf_dynamics_gear_ratio j of None \<Rightarrow> Inr ()
             | Some g \<Rightarrow> refuse_if (\<not> is_positive g) ''joints.dynamics_gear_ratio'') (rf_joints r)])"

definition validate_timing :: "robot_file \<Rightarrow> config_error + unit" where
  "validate_timing r =
     (case rf_timing r of None \<Rightarrow> Inr () | Some t \<Rightarrow> in_order
        [refuse_each (\<lambda>v. \<not> is_positive (f64_sub v f64_one) \<or> \<not> is_finite v)
           [(''timing.degraded_factor'', tg_degraded_factor t), (''timing.critical_factor'', tg_critical_factor t)],
         refuse_if (f64_lt (tg_critical_factor t) (tg_degraded_factor t)) ''timing.critical_factor'',
         refuse_if (\<not> is_positive (tg_critical_sustain_s t) \<or> \<not> is_finite (tg_critical_sustain_s t)) ''timing.critical_sustain_s'',
         refuse_if (99 < unat (tg_fifo_priority t)) ''timing.fifo_priority''])"

definition park_band :: "robot_file \<Rightarrow> nat \<Rightarrow> joint_file \<Rightarrow> f64 \<times> f64" where
  "park_band r i j =
     (if parks_on_endstop r i then (jg_hard_min_rad j, jg_hard_max_rad j) else (jf_soft_min_rad j, jf_soft_max_rad j))"

definition validate_shutdown :: "robot_file \<Rightarrow> config_error + unit" where
  "validate_shutdown r =
     (let s = rf_shutdown r; q = safe_park_q r; homes = hc_joints (rf_homing r) in in_order
        [refuse_each (\<lambda>v. \<not> is_positive v)
           [(''shutdown.tolerance_rad'', sdn_tolerance_rad s), (''shutdown.timeout_s'', sdn_timeout_s s),
            (''shutdown.velocity_limit_rad_s'', sdn_velocity_limit_rad_s s)],
         for_all_result (\<lambda>j. let j = unat j in
             if length homes \<le> j then Inl (Invalid ''shutdown.endstop_joints'')
             else in_order [refuse_if (jf_continuous (rf_joints r ! j)) ''shutdown.endstop_joints'',
                            refuse_if (jh_home_offset_gripper_dependent (homes ! j)) ''shutdown.endstop_joints''])
           (sdn_endstop_joints s),
         refuse_if (length q \<noteq> length (rf_joints r)) ''shutdown.safe_park_q'',
         for_all_result (\<lambda>(i, v, j). case park_band r i j of (lo, hi) \<Rightarrow>
             refuse_if (\<not> is_finite v \<or> f64_lt v lo \<or> f64_lt hi v) ''shutdown.safe_park_q'')
           (enumerate 0 (zip q (rf_joints r)))])"

definition validate_motion :: "robot_file \<Rightarrow> config_error + unit" where
  "validate_motion r =
     (let m = rf_motion r in
      refuse_each (\<lambda>v. \<not> is_positive v \<or> \<not> is_finite v)
        (zip (map (\<lambda>k. ''motion.'' @ k) MOTION_KEYS)
           (motion_as_array (m\<lparr>mo_joint_step_rad := Some (case mo_joint_step_rad m of Some v \<Rightarrow> v | None \<Rightarrow> F64_CENTI)\<rparr>))))"

definition validate_limits :: "robot_file \<Rightarrow> config_error + unit" where
  "validate_limits r =
     (let l = rf_limits r in in_order
        [refuse_if (f64_lt (le_tau_ext_margin_nm l) f64_zero \<or> \<not> is_finite (le_tau_ext_margin_nm l)) ''limits.tau_ext_margin_nm'',
         refuse_if (\<not> is_positive (le_tau_ext_window_s l) \<or> \<not> is_finite (le_tau_ext_window_s l)) ''limits.tau_ext_window_s''])"

definition validate_robot :: "robot_file \<Rightarrow> config_error + unit" where
  "validate_robot r =
     (let rb = rf_robot r; b = rf_bus r; reserved = [bu_gripper_node b, bu_timing_dummy_node b, bu_host_node b];
          dt = rn_tick_dt_s rb in in_order
        [refuse_if (rf_gravity_correction r \<noteq> [] \<and> length (rf_gravity_correction r) \<noteq> 24
             \<or> (\<exists>v \<in> set (rf_gravity_correction r). \<not> is_finite v \<or> f64_lt F64_10 (f64_abs v))) ''gravity_correction'',
         refuse_if (\<exists>v \<in> set (rf_gravity_scale r). \<not> is_finite v \<or> f64_le v f64_zero \<or> f64_lt f64_two v) ''gravity_scale'',
         refuse_if (\<not> (f64_lt f64_zero dt \<and> f64_lt dt f64_one)) ''robot.tick_dt_s'',
         refuse_if (rf_joints r = []) ''joints'',
         refuse_if (length (rn_park_pose_rad rb) \<noteq> length (rf_joints r)) ''robot.park_pose_rad'',
         for_all_result (\<lambda>(i, j). validate_joint (rf_joints r) i j reserved) (enumerate 0 (rf_joints r)),
         validate_homing (length (rf_joints r)) (rf_homing r),
         for_all_result (\<lambda>(i, j, home). refuse_if (jf_continuous j \<and> jh_strategy home = Strat_Stall)
             (indexed ''joints'' i @ ''.limits.continuous''))
           (enumerate 0 (zip (rf_joints r) (hc_joints (rf_homing r)))),
         validate_io (rf_io r),
         validate_bus r,
         validate_protocol r,
         validate_defaults r,
         validate_timing r,
         validate_limits r,
         validate_motion r,
         validate_shutdown r,
         validate_sim r])"

section \<open>Tools\<close>

record gripper_driver_config =
  gd_driver_type :: driver_type
  gd_stroke_mm :: f64
  gd_kt_nm_a :: f64
  gd_ilim_ma :: f64
  gd_voltage_limit_mv :: u32
  gd_velocity_limit_ticks_s :: f64
  gd_watchdog_timeout_ms :: u32
  gd_gear_r_m :: f64
  gd_gains :: gains
  gd_settle :: settle_timings

record tool_kinematics =
  tk_d_m :: f64
  tk_a_m :: f64
  tk_alpha_rad :: f64
  tk_mass_kg :: f64
  tk_com_m :: "f64 list"
  tk_inertia_kg_m2 :: "f64 list"

record tool_config =
  tl_name :: bytes
  tl_urdf_variant :: "bytes option"
  tl_driver :: "gripper_driver_config option"
  tl_can_tool_id :: "u8 option"
  tl_homing :: "joint_homing option"
  tl_arm_joint_home_offsets :: "(u8 \<times> f64) list"
  tl_kinematics :: tool_kinematics

definition default_settle_timings :: settle_timings where
  "default_settle_timings = \<lparr>sg_command_grace_s = 0x3FA999999999999A, sg_detect_debounce_s = 0x3F947AE147AE147B,
     sg_move_timeout_s = 0x4014000000000000, sg_calibrate_timeout_s = 0x4028000000000000, sg_calibrate_min_wait_s = f64_two\<rparr>"

definition validate_driver :: "gripper_driver_config \<Rightarrow> config_error + unit" where
  "validate_driver d =
     (let s = gd_settle d in in_order
        [refuse_each (\<lambda>v. f64_le v f64_zero)
           [(''driver.stroke_mm'', gd_stroke_mm d), (''driver.kt_nm_a'', gd_kt_nm_a d), (''driver.ilim_ma'', gd_ilim_ma d),
            (''driver.velocity_limit_ticks_s'', gd_velocity_limit_ticks_s d), (''driver.gear_r_m'', gd_gear_r_m d)],
         refuse_if (gd_watchdog_timeout_ms d = 0) ''driver.watchdog_timeout_ms'',
         refuse_each (\<lambda>v. \<not> is_finite v \<or> f64_le v f64_zero)
           [(''driver.settle.command_grace_s'', sg_command_grace_s s), (''driver.settle.detect_debounce_s'', sg_detect_debounce_s s),
            (''driver.settle.move_timeout_s'', sg_move_timeout_s s), (''driver.settle.calibrate_timeout_s'', sg_calibrate_timeout_s s),
            (''driver.settle.calibrate_min_wait_s'', sg_calibrate_min_wait_s s)],
         refuse_if (f64_le (sg_calibrate_timeout_s s) (sg_calibrate_min_wait_s s)) ''driver.settle.calibrate_min_wait_s''])"

definition validate_tool :: "tool_config \<Rightarrow> config_error + unit" where
  "validate_tool t = in_order
     [refuse_if (tl_name t = []) ''name'',
      (case tl_can_tool_id t of
         Some i \<Rightarrow> refuse_if (i = 0 \<or> tl_driver t = None) ''can_tool_id''
       | None \<Rightarrow> Inr ()),
      (case tl_driver t of None \<Rightarrow> Inr () | Some d \<Rightarrow> validate_driver d),
      refuse_if (tl_homing t \<noteq> None \<and> tl_driver t = None) ''homing'',
      (case tl_homing t of None \<Rightarrow> Inr () | Some h \<Rightarrow> in_order
         [validate_joint_homing ''homing'' h,
          refuse_if (jh_home_offset_gripper_dependent h) ''homing.home_offset_gripper_dependent'']),
      for_all_result (\<lambda>(i, joint, q). refuse_if (16 \<le> unat joint) (indexed ''arm_joint_home_offsets'' i @ ''.joint''))
        (enumerate 0 (tl_arm_joint_home_offsets t)),
      refuse_if (f64_lt (tk_mass_kg (tl_kinematics t)) f64_zero) ''kinematics.mass_kg'']"

section \<open>The bundle\<close>

record config_bundle =
  cb_robot :: robot_file
  cb_tools :: "tool_config list"
  cb_installation_shapes :: "shape list"

definition active_tool :: "config_bundle \<Rightarrow> tool_config option" where
  "active_tool b = find (\<lambda>g. tl_name g = rn_active_tool (rf_robot (cb_robot b))) (cb_tools b)"

definition tool_by_can_id :: "config_bundle \<Rightarrow> u8 \<Rightarrow> tool_config option" where
  "tool_by_can_id b tool_id =
     (if tool_id \<noteq> 0 then find (\<lambda>g. tl_can_tool_id g = Some tool_id) (cb_tools b) else None)"

definition effective_home_offset :: "config_bundle \<Rightarrow> nat \<Rightarrow> f64 option" where
  "effective_home_offset b joint =
     (let homes = hc_joints (rf_homing (cb_robot b)) in
      if length homes \<le> joint then None
      else let jh = homes ! joint; own = Some (jh_home_offset_rad jh) in
        if jh_home_offset_gripper_dependent jh then
          (case active_tool b of None \<Rightarrow> own
           | Some g \<Rightarrow> (case find (\<lambda>(j, q). unat j = joint) (tl_arm_joint_home_offsets g) of Some (j, q) \<Rightarrow> Some q | None \<Rightarrow> own))
        else own)"

text \<open>The sequence as a tool runs it: without the gripper work when it has no drive to run it on.\<close>

definition is_gripper_move :: "pre_move \<Rightarrow> bool" where
  "is_gripper_move m = (case m of PM_GripperMove cmd d \<Rightarrow> True | _ \<Rightarrow> False)"

definition strip_moves :: "pre_move list \<Rightarrow> pre_move list" where
  "strip_moves = filter (\<lambda>m. \<not> is_gripper_move m)"

definition strip_step :: "sequence_step \<Rightarrow> sequence_step" where
  "strip_step s =
     s\<lparr>sq_pre_moves := strip_moves (sq_pre_moves s),
       sq_home := (case sq_home s of None \<Rightarrow> None
         | Some h \<Rightarrow> if hg_joints h = [] then None else Some (h\<lparr>hg_gripper := None\<rparr>)),
       sq_post_moves := strip_moves (sq_post_moves s)\<rparr>"

definition for_tool :: "homing_config \<Rightarrow> tool_config option \<Rightarrow> homing_config" where
  "for_tool h tool =
     (if (case tool of None \<Rightarrow> True | Some g \<Rightarrow> tl_driver g \<noteq> None) then h
      else h\<lparr>hc_sequence := filter (\<lambda>s. \<not> empty_step s) (map strip_step (hc_sequence h)),
             hc_post_moves := strip_moves (hc_post_moves h)\<rparr>)"

definition motor_homed :: "homing_config \<Rightarrow> bool" where
  "motor_homed h \<longleftrightarrow> (\<exists>s \<in> set (hc_sequence h). case sq_home s of Some g \<Rightarrow> hg_gripper g = Some GH_Motor | None \<Rightarrow> False)"

text \<open>A shape's error names its leaf under this section's path: \<open>strip_prefix("shape.")\<close>.\<close>

definition shape_leaf :: "string \<Rightarrow> string" where
  "shape_leaf what = (if take 6 what = ''shape.'' then drop 6 what else what)"

definition validate_bundle :: "config_bundle \<Rightarrow> config_error + unit" where
  "validate_bundle b = in_order
     [for_all_result (\<lambda>(i, s). case validate_shape s of
          Inl what \<Rightarrow> Inl (Invalid (indexed ''installation_shapes'' i @ ''.'' @ shape_leaf what)) | Inr u \<Rightarrow> Inr ())
        (enumerate 0 (cb_installation_shapes b)),
      for_all_result (\<lambda>(i, t). case tl_can_tool_id t of None \<Rightarrow> Inr ()
          | Some tid \<Rightarrow> refuse_if (\<exists>q \<in> set (take i (cb_tools b)). tl_can_tool_id q = Some tid) ''can_tool_id'')
        (enumerate 0 (cb_tools b)),
      refuse_if (active_tool b = None) ''robot.active_tool'',
      refuse_if (\<exists>t \<in> set (cb_tools b). motor_homed (rf_homing (cb_robot b)) \<and> tl_driver t \<noteq> None \<and> tl_homing t = None)
        ''homing.sequence'']"

text \<open>
  What \<open>ConfigBundle::load_with\<close> does with the parsed documents: the robot and every tool
  validate on their own, an operator's choice of tool is looked up (names compare without
  ASCII case), and the whole is cross-validated. \<open>trim\<close> is \<open>str::trim\<close>: the longest blank
  beginning and end are cut off.
\<close>

definition trim :: "bytes \<Rightarrow> bytes" where
  "trim b =
     (let b = (case find (\<lambda>k. blank (take k b)) (rev [0..<Suc (length b)]) of Some k \<Rightarrow> drop k b | None \<Rightarrow> b)
      in case find (\<lambda>k. blank (drop k b)) [0..<Suc (length b)] of Some k \<Rightarrow> take k b | None \<Rightarrow> b)"

definition ascii_lower :: "u8 \<Rightarrow> u8" where
  "ascii_lower c = (if 0x41 \<le> c \<and> c \<le> 0x5A then c + 0x20 else c)"

definition load_parsed :: "robot_file \<Rightarrow> tool_config list \<Rightarrow> shape list \<Rightarrow> bytes option \<Rightarrow> config_error + config_bundle" where
  "load_parsed robot tools shapes fitted =
     bind_result (validate_robot robot) (\<lambda>_.
     bind_result (for_all_result validate_tool tools) (\<lambda>_.
     bind_result
       (case fitted of None \<Rightarrow> Inr robot
        | Some name \<Rightarrow>
            (case find (\<lambda>t. map ascii_lower (tl_name t) = map ascii_lower (trim name)) tools of
               None \<Rightarrow> Inl (Invalid ''tool'')
             | Some t \<Rightarrow> Inr (robot\<lparr>rf_robot := (rf_robot robot)\<lparr>rn_active_tool := tl_name t\<rparr>\<rparr>))) (\<lambda>robot.
     let b = \<lparr>cb_robot = robot, cb_tools = tools, cb_installation_shapes = shapes\<rparr>
     in bind_result (validate_bundle b) (\<lambda>_. Inr b))))"

end
