(* ===== verification/Config_Rules.thy ===== *)
theory Config_Rules
  imports Config
begin

text \<open>
  What a passed validation of the configuration says, section by section: the parts of a valid
  robot file, its CAN nodes (usable and disjoint), the valid steps of a homing sequence and how
  stripping keeps them, the digital lines and the tools.
\<close>

section \<open>Shared facts\<close>

lemma all_enumerate [config_simps]: "(\<forall>(i, x)\<in>set (enumerate 0 xs). P i x) \<longleftrightarrow> (\<forall>i < length xs. P i (xs ! i))"
  by (auto simp: in_set_enumerate_eq)

lemma all_enumerate_result [config_simps]:
  "for_all_result (\<lambda>(i, x). f i x) (enumerate 0 xs) = Inr u \<longleftrightarrow> (\<forall>i < length xs. f i (xs ! i) = Inr ())"
  using all_enumerate [of xs "\<lambda>i x. f i x = Inr ()"] by (simp add: for_all_result_Inr split_def)

lemma refuse_all_Inr [config_simps]: "for_all_result (\<lambda>x. refuse_if (P x) f) xs = Inr u \<longleftrightarrow> (\<forall>x\<in>set xs. \<not> P x)"
  by (simp add: for_all_result_Inr refuse_if_Inr)

lemma distinct_by_prefix:
  assumes "\<forall>i < length xs. \<forall>y \<in> set (take i xs). f y \<noteq> f (xs ! i)"
  shows "distinct (map f xs)"
  unfolding distinct_conv_nth
proof (intro allI impI)
  fix i j assume i: "i < length (map f xs)" and j: "j < length (map f xs)" and "i \<noteq> j"
  have ord: "f (xs ! a) \<noteq> f (xs ! b)" if "a < b" "b < length xs" for a b
  proof -
    have "xs ! a \<in> set (take b xs)" using that by (auto simp: in_set_conv_nth intro!: exI [of _ a])
    with assms that show ?thesis by auto
  qed
  from \<open>i \<noteq> j\<close> consider "i < j" | "j < i" by linarith
  then show "map f xs ! i \<noteq> map f xs ! j" using ord [of i j] ord [of j i] i j by cases auto
qed

lemma f64_lt_not_nan: "f64_lt x y \<Longrightarrow> \<not> is_nan x \<and> \<not> is_nan y"
  by (simp add: f64_lt_def)

lemma f64_le_refl: "\<not> is_nan x \<Longrightarrow> f64_le x x"
  by (simp add: f64_le_def)

lemma f64_le_of_not_lt: "\<not> is_nan x \<Longrightarrow> \<not> is_nan y \<Longrightarrow> \<not> f64_lt x y \<Longrightarrow> f64_le y x"
  by (auto simp: f64_le_def f64_lt_def)

lemma in_ceiling_self: "is_positive c \<Longrightarrow> in_ceiling c c"
  using f64_lt_not_nan [of f64_zero c] by (simp add: in_ceiling_def is_positive_def f64_le_refl)

text \<open>The parts of a valid robot file.\<close>

lemma validate_robot_parts:
  assumes "validate_robot r = Inr ()"
  shows "i < length (rf_joints r) \<Longrightarrow> validate_joint (rf_joints r) i (rf_joints r ! i)
      [bu_gripper_node (rf_bus r), bu_timing_dummy_node (rf_bus r), bu_host_node (rf_bus r)] = Inr ()"
    and "validate_homing (length (rf_joints r)) (rf_homing r) = Inr ()"
    and "validate_io (rf_io r) = Inr ()" and "validate_bus r = Inr ()" and "validate_protocol r = Inr ()"
    and "validate_motion r = Inr ()" and "validate_shutdown r = Inr ()"
    and "f64_lt f64_zero (rn_tick_dt_s (rf_robot r))" and "f64_lt (rn_tick_dt_s (rf_robot r)) f64_one"
    and "rf_joints r \<noteq> []" and "length (rn_park_pose_rad (rf_robot r)) = length (rf_joints r)"
  using assms by (simp_all add: validate_robot_def Let_def config_simps)

text \<open>The validation of the robot file does not read the name of the fitted tool.\<close>

lemma validate_any_tool:
  "validate_robot (r\<lparr>rf_robot := (rf_robot r)\<lparr>rn_active_tool := name\<rparr>\<rparr>) = validate_robot r" (is "validate_robot ?r = _")
proof -
  have park: "safe_park_q ?r = safe_park_q r" "park_band ?r = park_band r"
    by (simp_all add: safe_park_q_def park_band_def parks_on_endstop_def fun_eq_iff Let_def cong: if_cong option.case_cong)
  have "validate_bus ?r = validate_bus r" "validate_protocol ?r = validate_protocol r" "validate_defaults ?r = validate_defaults r"
    "validate_timing ?r = validate_timing r" "validate_limits ?r = validate_limits r" "validate_motion ?r = validate_motion r"
    "validate_shutdown ?r = validate_shutdown r" "validate_sim ?r = validate_sim r"
    by (simp_all add: validate_bus_def validate_protocol_def tick_rate_hz_def validate_defaults_def validate_timing_def
      validate_limits_def validate_motion_def validate_shutdown_def park validate_sim_def Let_def cong: if_cong option.case_cong)
  then show ?thesis by (simp add: validate_robot_def Let_def)
qed

lemma validate_joint_node:
  assumes "validate_joint js i j reserved = Inr ()"
  shows "unat (jg_node_id j) < 16" and "jg_node_id j \<notin> set reserved"
    and "\<forall>q \<in> set (take i js). jg_node_id q \<noteq> jg_node_id j" and "\<forall>q \<in> set (take i js). jf_name q \<noteq> jf_name j"
  using assms by (auto simp: validate_joint_def Let_def config_simps for_all_result_Inr)

lemma validate_joint_ceiling:
  assumes "validate_joint js i j reserved = Inr ()"
  shows "is_positive (jf_velocity_rad_s j)" and "is_positive (jf_acceleration_rad_s2 j)"
    and "is_positive (jf_jerk_rad_s3 j)" and "is_positive (jf_torque_rate_nm_s j)"
    and "validate_mode_block p j (jf_exec j) = Inr ()" and "validate_mode_block p j (jf_jog j) = Inr ()"
    and "validate_mode_block p j (jf_stream j) = Inr ()"
proof -
  have any: "validate_mode_block p' j block = Inr () \<Longrightarrow> validate_mode_block p j block = Inr ()" for p' block
    by (auto simp: validate_mode_block_def config_simps split: option.splits)
  show "is_positive (jf_velocity_rad_s j)" "is_positive (jf_acceleration_rad_s2 j)"
    "is_positive (jf_jerk_rad_s3 j)" "is_positive (jf_torque_rate_nm_s j)"
    using assms by (simp_all add: validate_joint_def Let_def config_simps)
  have "\<exists>p1 p2 p3. validate_mode_block p1 j (jf_exec j) = Inr () \<and> validate_mode_block p2 j (jf_jog j) = Inr ()
      \<and> validate_mode_block p3 j (jf_stream j) = Inr ()"
    using assms by (simp add: validate_joint_def Let_def in_order_Inr bind_result_eq_Inr) blast
  then show "validate_mode_block p j (jf_exec j) = Inr ()" "validate_mode_block p j (jf_jog j) = Inr ()"
    "validate_mode_block p j (jf_stream j) = Inr ()"
    by (blast intro: any)+
qed

lemma joint_nodes_distinct:
  assumes "validate_robot r = Inr ()"
  shows "distinct (map jg_node_id (rf_joints r))"
  by (rule distinct_by_prefix) (use validate_joint_node(3) [OF validate_robot_parts(1) [OF assms]] in blast)

lemma joint_nodes_usable:
  assumes "validate_robot r = Inr ()" and "j \<in> set (rf_joints r)"
  shows "unat (jg_node_id j) < 16"
    and "jg_node_id j \<notin> {bu_gripper_node (rf_bus r), bu_timing_dummy_node (rf_bus r), bu_host_node (rf_bus r)}"
proof -
  from assms(2) obtain i where "i < length (rf_joints r)" "j = rf_joints r ! i" by (auto simp: in_set_conv_nth)
  from validate_robot_parts(1) [OF assms(1) this(1)] this(2)
  have "validate_joint (rf_joints r) i j [bu_gripper_node (rf_bus r), bu_timing_dummy_node (rf_bus r), bu_host_node (rf_bus r)] = Inr ()"
    by simp
  from validate_joint_node(1,2) [OF this]
  show "unat (jg_node_id j) < 16"
    "jg_node_id j \<notin> {bu_gripper_node (rf_bus r), bu_timing_dummy_node (rf_bus r), bu_host_node (rf_bus r)}" by simp_all
qed

section \<open>The homing sequence\<close>

text \<open>The valid moves and steps, without the places their errors would name.\<close>

definition moves_ok :: "nat \<Rightarrow> pre_move list \<Rightarrow> bool" where
  "moves_ok n ms \<longleftrightarrow> (\<forall>m \<in> set ms. (\<forall>j. fst (move_joint_duration m) = Some j \<longrightarrow> j < n) \<and> \<not> f64_le (snd (move_joint_duration m)) f64_zero)"

lemma validate_moves_Inr [config_simps]: "validate_moves ms n prefix = Inr u \<longleftrightarrow> moves_ok n ms"
proof -
  have "validate_moves ms n prefix = Inr u \<longleftrightarrow> (\<forall>k < length ms. (\<forall>j. fst (move_joint_duration (ms ! k)) = Some j \<longrightarrow> j < n)
      \<and> \<not> f64_le (snd (move_joint_duration (ms ! k))) f64_zero)"
    unfolding validate_moves_def all_enumerate_result
    by (auto simp: Let_def split_def refuse_if_Inr in_order_Inr not_le split: option.splits)
  then show ?thesis by (simp add: moves_ok_def all_set_conv_all_nth)
qed

definition step_ok :: "nat \<Rightarrow> sequence_step \<Rightarrow> bool" where
  "step_ok n s \<longleftrightarrow> \<not> empty_step s \<and> moves_ok n (sq_pre_moves s) \<and> moves_ok n (sq_post_moves s)
     \<and> (\<forall>h. sq_home s = Some h \<longrightarrow> (hg_joints h \<noteq> [] \<or> hg_gripper h \<noteq> None) \<and> (\<forall>j \<in> set (hg_joints h). j < n))
     \<and> (\<forall>m \<in> set (sq_move_to s). mt_joint m < n \<and> \<not> f64_le (mt_duration_s m) f64_zero)"

lemma validate_step_Inr [config_simps]: "validate_step n i s = Inr u \<longleftrightarrow> step_ok n s"
  by (cases "sq_home s")
     (auto simp: validate_step_def Let_def step_ok_def config_simps all_set_conv_all_nth [of "sq_move_to s"] not_le)

lemma home_joints_ok: "step_ok n s \<Longrightarrow> j \<in> set (home_joints s) \<Longrightarrow> j < n"
  by (cases "sq_home s") (auto simp: step_ok_def home_joints_def)

lemma update_nth: "i < length xs \<Longrightarrow> xs[a := x] ! i = (if i = a then x else xs ! i)"
  by (cases "i = a") auto

lemma referenced_flags:
  assumes "i < n"
  shows "length (referenced n steps) = n" and "referenced n steps ! i \<longleftrightarrow> (\<exists>s \<in> set steps. i \<in> set (home_joints s))"
proof -
  have one: "length (fold (\<lambda>j flags. flags[j := True]) js flags) = length flags
      \<and> (i < length flags \<longrightarrow> fold (\<lambda>j flags. flags[j := True]) js flags ! i = (flags ! i \<or> i \<in> set js))" for js and flags :: "bool list"
    by (induction js arbitrary: flags) (auto simp: update_nth)
  have all: "length flags = n \<Longrightarrow> length (fold (\<lambda>s flags. fold (\<lambda>j flags. flags[j := True]) (home_joints s) flags) steps flags) = n
      \<and> fold (\<lambda>s flags. fold (\<lambda>j flags. flags[j := True]) (home_joints s) flags) steps flags ! i
        = (flags ! i \<or> (\<exists>s \<in> set steps. i \<in> set (home_joints s)))" for flags :: "bool list"
    using assms one by (induction steps arbitrary: flags) auto
  show "length (referenced n steps) = n" "referenced n steps ! i \<longleftrightarrow> (\<exists>s \<in> set steps. i \<in> set (home_joints s))"
    unfolding referenced_def using all [of "replicate n False"] assms by auto
qed

lemma validate_homing_Inr:
  "validate_homing n h = Inr () \<longleftrightarrow> length (hc_joints h) = n
     \<and> (\<forall>i < n. validate_joint_homing (indexed ''homing.joints'' i) (hc_joints h ! i) = Inr ())
     \<and> (\<forall>s \<in> set (hc_sequence h). step_ok n s)
     \<and> (\<forall>i < n. \<exists>s \<in> set (hc_sequence h). i \<in> set (home_joints s))
     \<and> moves_ok n (hc_post_moves h)
     \<and> (hc_reference_check_nm h \<noteq> [] \<longrightarrow> length (hc_reference_check_nm h) = n)
     \<and> (\<forall>v \<in> set (hc_reference_check_nm h). is_finite v \<and> \<not> f64_le v f64_zero)"
proof -
  have flags: "(\<forall>i \<in> {0..<n}. referenced n (hc_sequence h) ! i) \<longleftrightarrow> (\<forall>i < n. \<exists>s \<in> set (hc_sequence h). i \<in> set (home_joints s))"
    by (auto simp: referenced_flags(2))
  have steps: "(\<forall>i < length (hc_sequence h). step_ok n (hc_sequence h ! i)) \<longleftrightarrow> (\<forall>s \<in> set (hc_sequence h). step_ok n s)"
    by (simp add: all_set_conv_all_nth)
  show ?thesis
    unfolding validate_homing_def in_order_Inr
    by (simp add: config_simps filter_empty_conv flags [simplified] steps) blast
qed

text \<open>Stripping a step for a tool without a drive.\<close>

lemma strip_step_ok:
  assumes "step_ok n s" and "\<not> empty_step (strip_step s)"
  shows "step_ok n (strip_step s)"
  using assms by (auto simp: step_ok_def strip_step_def strip_moves_def moves_ok_def split: option.splits if_splits)

lemma strip_home_joints: "home_joints (strip_step s) = home_joints s"
  by (auto simp: home_joints_def strip_step_def split: option.splits)

lemma home_joints_nonempty: "j \<in> set (home_joints s) \<Longrightarrow> \<not> empty_step s"
  by (auto simp: home_joints_def empty_step_def split: option.splits)

definition gripper_work :: "homing_config \<Rightarrow> bool" where
  "gripper_work h \<longleftrightarrow> (\<exists>m \<in> set (hc_post_moves h). is_gripper_move m)
     \<or> (\<exists>s \<in> set (hc_sequence h). (\<exists>m \<in> set (sq_pre_moves s) \<union> set (sq_post_moves s). is_gripper_move m)
          \<or> (\<exists>g. sq_home s = Some g \<and> hg_gripper g \<noteq> None))"

lemma for_tool_driven: "\<not> (\<exists>g. tool = Some g \<and> tl_driver g = None) \<Longrightarrow> for_tool h tool = h"
  by (auto simp: for_tool_def split: option.splits)

lemma for_tool_valid:
  assumes "validate_homing n h = Inr ()"
  shows "validate_homing n (for_tool h tool) = Inr ()"
proof (cases "\<exists>g. tool = Some g \<and> tl_driver g = None")
  case True
  then obtain g where g: "tool = Some g" "tl_driver g = None" by auto
  let ?steps = "filter (\<lambda>s. \<not> empty_step s) (map strip_step (hc_sequence h))"
  have ft: "for_tool h tool = h\<lparr>hc_sequence := ?steps, hc_post_moves := strip_moves (hc_post_moves h)\<rparr>"
    using g by (simp add: for_tool_def)
  have ok: "\<forall>s \<in> set ?steps. step_ok n s" using assms by (auto simp: validate_homing_Inr intro: strip_step_ok)
  have every: "\<forall>i < n. \<exists>s \<in> set ?steps. i \<in> set (home_joints s)"
  proof (intro allI impI)
    fix i assume "i < n"
    with assms have "\<exists>s \<in> set (hc_sequence h). i \<in> set (home_joints s)" by (simp add: validate_homing_Inr)
    then obtain s where "s \<in> set (hc_sequence h)" "i \<in> set (home_joints (strip_step s))" by (auto simp: strip_home_joints)
    with home_joints_nonempty [of i "strip_step s"] show "\<exists>s \<in> set ?steps. i \<in> set (home_joints s)" by auto
  qed
  have "moves_ok n (strip_moves (hc_post_moves h))" using assms by (auto simp: validate_homing_Inr moves_ok_def strip_moves_def)
  with assms ok every show ?thesis unfolding ft validate_homing_Inr by simp
qed (simp add: assms for_tool_driven)

section \<open>Digital lines and tools\<close>

lemma validate_lines_Cons:
  "validate_lines grp i (l # ls) seen = Inr out \<longleftrightarrow>
     \<not> blank (il_name l) \<and> il_offset l \<notin> set RESERVED_OFFSETS \<and> il_name l \<notin> fst ` set seen \<and> il_offset l \<notin> snd ` set seen
     \<and> validate_lines grp (Suc i) ls (seen @ [(il_name l, il_offset l)]) = Inr out"
  by (simp add: Let_def bind_result_eq_Inr config_simps split_def image_iff) metis

lemma validate_lines_seen:
  "validate_lines grp i ls seen = Inr out \<Longrightarrow> out = seen @ map (\<lambda>l. (il_name l, il_offset l)) ls"
  by (induction ls arbitrary: i seen) (fastforce simp: validate_lines_Cons simp del: validate_lines.simps(2))+

lemma validate_lines_each:
  "validate_lines grp i ls seen = Inr out \<Longrightarrow> l \<in> set ls \<Longrightarrow> il_offset l \<notin> set RESERVED_OFFSETS \<and> \<not> blank (il_name l)"
  by (induction ls arbitrary: i seen) (auto simp: validate_lines_Cons simp del: validate_lines.simps(2))

lemma validate_lines_distinct:
  "validate_lines grp i ls seen = Inr out \<Longrightarrow> distinct (map fst seen) \<and> distinct (map snd seen) \<Longrightarrow>
     distinct (map fst out) \<and> distinct (map snd out)"
proof (induction ls arbitrary: i seen)
  case (Cons l ls)
  from Cons.prems(1) [unfolded validate_lines_Cons] Cons.prems(2)
  have "distinct (map fst (seen @ [(il_name l, il_offset l)])) \<and> distinct (map snd (seen @ [(il_name l, il_offset l)]))"
    and "validate_lines grp (Suc i) ls (seen @ [(il_name l, il_offset l)]) = Inr out" by simp_all
  then show ?case by (rule Cons.IH [rotated])
qed simp

text \<open>The lines a validated file declares.\<close>

lemma io_lines_disjoint:
  assumes "validate_io c = Inr ()"
  shows "status_slots c \<le> 64 \<and> distinct (map il_offset (ic_inputs c @ ic_outputs c)) \<and> distinct (map il_name (ic_inputs c @ ic_outputs c))
    \<and> (\<forall>l \<in> set (ic_inputs c @ ic_outputs c). il_offset l \<notin> {5, 6})"
proof -
  from assms obtain seen out where n: "length (ic_inputs c) + length (ic_outputs c) \<le> 63"
    and i: "validate_lines ''inputs'' 0 (ic_inputs c) [] = Inr seen" and j: "validate_lines ''outputs'' 0 (ic_outputs c) seen = Inr out"
    by (auto simp: validate_io_def bind_result_eq_Inr config_simps MAX_IO_LINES_def not_less)
  have out: "map fst out = map il_name (ic_inputs c @ ic_outputs c)" "map snd out = map il_offset (ic_inputs c @ ic_outputs c)"
    using validate_lines_seen [OF i] validate_lines_seen [OF j] by simp_all
  have "distinct (map fst out) \<and> distinct (map snd out)"
    by (rule validate_lines_distinct [OF j validate_lines_distinct [OF i]]) simp
  with validate_lines_each [OF i] validate_lines_each [OF j] n show ?thesis
    unfolding out by (auto simp: status_slots_def RESERVED_OFFSETS_def)
qed

text \<open>A drive's tool id names one tool.\<close>

lemma tool_id_unique:
  assumes "validate_bundle b = Inr ()" and "tid \<noteq> 0"
  shows "tool_by_can_id b tid = Some t \<longleftrightarrow> t \<in> set (cb_tools b) \<and> tl_can_tool_id t = Some tid"
proof
  assume "tool_by_can_id b tid = Some t"
  with assms(2) show "t \<in> set (cb_tools b) \<and> tl_can_tool_id t = Some tid"
    by (auto simp: tool_by_can_id_def find_Some_iff in_set_conv_nth)
next
  assume t: "t \<in> set (cb_tools b) \<and> tl_can_tool_id t = Some tid"
  then have "find (\<lambda>g. tl_can_tool_id g = Some tid) (cb_tools b) \<noteq> None" by (auto simp: find_None_iff)
  then obtain i where i: "i < length (cb_tools b)" "tl_can_tool_id (cb_tools b ! i) = Some tid"
    "find (\<lambda>g. tl_can_tool_id g = Some tid) (cb_tools b) = Some (cb_tools b ! i)" by (auto simp: find_Some_iff)
  from t obtain k where k: "k < length (cb_tools b)" "cb_tools b ! k = t" by (auto simp: in_set_conv_nth)
  have fresh: "\<forall>i < length (cb_tools b). tl_can_tool_id (cb_tools b ! i) = Some tid \<longrightarrow>
      (\<forall>q \<in> set (take i (cb_tools b)). tl_can_tool_id q \<noteq> Some tid)"
    using assms(1) by (auto simp: validate_bundle_def config_simps split: option.splits)
  have ord: "\<not> a < c" if "a < length (cb_tools b)" "c < length (cb_tools b)" "tl_can_tool_id (cb_tools b ! a) = Some tid"
    "tl_can_tool_id (cb_tools b ! c) = Some tid" for a c
  proof
    assume "a < c"
    then have "cb_tools b ! a \<in> set (take c (cb_tools b))" using that(2) by (auto simp: in_set_conv_nth intro!: exI [of _ a])
    moreover have "\<forall>q \<in> set (take c (cb_tools b)). tl_can_tool_id q \<noteq> Some tid" using fresh that(2,4) by blast
    ultimately show False using that(3) by blast
  qed
  from t k(2) have kt: "tl_can_tool_id (cb_tools b ! k) = Some tid" by simp
  from ord [OF i(1) k(1) i(2) kt] ord [OF k(1) i(1) kt i(2)] have "i = k" by (meson nat_neq_iff)
  with i(3) k(2) have "find (\<lambda>g. tl_can_tool_id g = Some tid) (cb_tools b) = Some t" by (simp only:)
  then show "tool_by_can_id b tid = Some t" unfolding tool_by_can_id_def using assms(2) by (simp only: if_True not_False_eq_True)
qed

end
