(* ===== verification/Config_Props.thy ===== *)
theory Config_Props
  imports Config_Rules Exec_Props
begin

text \<open>
  The properties of a validated configuration (no mode exceeds a joint's ceiling, the retreat pose
  is within its band, the homing sequence stays valid for every tool) and a small valid
  configuration they are evaluated on.
\<close>

section \<open>A valid configuration\<close>

text \<open>Half a second a tick, ones elsewhere: the quotients the checks form are of powers of two.\<close>

lemma floor_log2_pow: "floor_log2 (2 ^ n) = n"
  by (induction n) (simp_all add: floor_log2.simps)

lemma mag_of_units_pow:
  assumes "b + 52 \<le> a"
  shows "mag_of_units (2 ^ a) (2 ^ b) = min ((a - b - 51) * 2 ^ 52) (2047 * 2 ^ 52)"
proof -
  have q: "(2 :: nat) ^ a div 2 ^ b = 2 ^ (a - b)" using assms by (simp add: power_diff)
  have d: "(2 :: nat) ^ b * 2 ^ (a - b - 52) = 2 ^ (a - 52)" using assms by (simp flip: power_add)
  have "(2 :: nat) ^ a = 2 ^ (52 + (a - 52))" using assms by simp
  also have "\<dots> = 2 ^ 52 * 2 ^ (a - 52)" by (rule power_add)
  finally have "round_half_even (2 ^ a) (2 ^ (a - 52)) = 2 ^ 52" by (simp add: round_half_even_def Let_def)
  moreover have "a - b - 51 = Suc (a - b - 52)" using assms by simp
  ultimately show ?thesis by (simp only: mag_of_units_def Let_def q floor_log2_pow d mult_Suc add.commute)
qed

lemma units_sample:
  "units_of_mag (f64_mag f64_one) = 2 ^ 1074" "units_of_mag (f64_mag f64_half) = 2 ^ 1073" "units_of_mag (f64_mag f64_two) = 2 ^ 1075"
proof -
  have m: "f64_mag f64_one = Suc 1022 * 2 ^ 52" "f64_mag f64_half = Suc 1021 * 2 ^ 52" "f64_mag f64_two = Suc 1023 * 2 ^ 52"
    by (simp_all add: f64_field_defs f64_one_def f64_half_def f64_two_def)
  have u: "units_of_mag ((Suc k) * 2 ^ 52) = 2 ^ (52 + k)" for k
    unfolding units_of_mag_def by (simp add: power_add)
  show "units_of_mag (f64_mag f64_one) = 2 ^ 1074" "units_of_mag (f64_mag f64_half) = 2 ^ 1073" "units_of_mag (f64_mag f64_two) = 2 ^ 1075"
    unfolding m u by simp_all
qed

lemma class_sample [simp]:
  "\<not> is_nan f64_one" "\<not> is_nan f64_half" "\<not> is_nan f64_two" "is_finite f64_one" "is_finite f64_half" "is_finite f64_two"
  "\<not> f64_neg_sign f64_one" "\<not> f64_neg_sign f64_half" "\<not> f64_neg_sign f64_two"
  "f64_mag f64_one \<noteq> 0" "f64_mag f64_half \<noteq> 0" "f64_mag f64_two \<noteq> 0"
  by (simp_all add: is_nan_def is_finite_def f64_field_defs f64_one_def f64_half_def f64_two_def)


text \<open>Quotients of powers of two.\<close>

lemma div_sample [simp]:
  "f64_div f64_one f64_half = f64_two" "f64_div f64_half f64_half = f64_one" "f64_div f64_two f64_two = f64_one"
  "f64_of_nat 2 = f64_two" "f64_round_away f64_one = f64_one" "f64_round_away f64_two = f64_two"
proof -
  have r: "f64_round False (2 ^ a) (2 ^ b) = of_nat ((a - b - 51) * 2 ^ 52)" if "b + 52 \<le> a" "a - b - 51 \<le> 2047" for a b
    using that mag_of_units_pow [OF that(1)] by (simp add: f64_round_def f64_of_sign_mag_def)
  have d: "f64_div x y = f64_round False (units_of_mag (f64_mag x) * 2 ^ 1074) (units_of_mag (f64_mag y))"
    if "\<not> is_nan x" "\<not> is_nan y" "is_finite x" "is_finite y" "\<not> f64_neg_sign x" "\<not> f64_neg_sign y" "f64_mag y \<noteq> 0" for x y
    using that by (simp add: f64_div_def Let_def)
  have pw: "(2 :: nat) ^ m * 2 ^ n = 2 ^ (m + n)" for m n by (simp add: power_add)
  have a: "f64_div f64_one f64_half = f64_round False (2 ^ (1074 + 1074)) (2 ^ 1073)"
    using d [of f64_one f64_half] by (simp only: units_sample pw class_sample simp_thms)
  have b: "f64_div f64_half f64_half = f64_round False (2 ^ (1073 + 1074)) (2 ^ 1073)"
    using d [of f64_half f64_half] by (simp only: units_sample pw class_sample simp_thms)
  have c: "f64_div f64_two f64_two = f64_round False (2 ^ (1075 + 1074)) (2 ^ 1075)"
    using d [of f64_two f64_two] by (simp only: units_sample pw class_sample simp_thms)
  show "f64_div f64_one f64_half = f64_two" unfolding a by (subst r) (simp_all add: f64_two_def)
  show "f64_div f64_half f64_half = f64_one" unfolding b by (subst r) (simp_all add: f64_one_def)
  show "f64_div f64_two f64_two = f64_one" unfolding c by (subst r) (simp_all add: f64_one_def)
  have two: "(2 :: nat) * 2 ^ 1074 = 2 ^ 1075" by (simp flip: power_Suc)
  have e: "f64_of_nat 2 = f64_round False (2 ^ 1075) (2 ^ 0)" by (simp only: f64_of_nat_def two power_0)
  show "f64_of_nat 2 = f64_two" unfolding e by (subst r) (simp_all add: f64_two_def)
  have n1: "((2 :: nat) * 2 ^ 1074 + 2 ^ 1074) div (2 * 2 ^ 1074) * 2 ^ 1074 = 2 ^ 1074" by simp
  have n2: "((2 :: nat) * 2 ^ 1075 + 2 ^ 1074) div (2 * 2 ^ 1074) * 2 ^ 1074 = 2 ^ 1075" by simp
  have f: "f64_round_away f64_one = f64_round False (2 ^ 1074) (2 ^ 0)"
    unfolding f64_round_away_def units_sample n1 by simp
  show "f64_round_away f64_one = f64_one" unfolding f by (subst r) (simp_all add: f64_one_def)
  have g: "f64_round_away f64_two = f64_round False (2 ^ 1075) (2 ^ 0)"
    unfolding f64_round_away_def units_sample n2 by simp
  show "f64_round_away f64_two = f64_two" unfolding g by (subst r) (simp_all add: f64_two_def)
qed


lemma order_sample [simp]:
  "f64_lt f64_zero f64_one" "f64_lt f64_zero f64_half" "f64_lt f64_half f64_one" "\<not> f64_lt f64_one f64_zero" "\<not> f64_lt f64_one f64_one"
  "\<not> f64_le f64_one f64_zero" "f64_le f64_one f64_one" "\<not> f64_le f64_one f64_half" "\<not> f64_lt f64_two f64_one" "\<not> f64_lt f64_half f64_zero"
  "f64_le f64_zero f64_one" "f64_le f64_one MAX_OPEN_RETRY_S" "\<not> f64_lt f64_zero f64_minus_one" "\<not> f64_lt f64_one f64_zero"
  "\<not> f64_le f64_one f64_minus_one" "\<not> f64_lt f64_one f64_minus_one" "\<not> f64_lt f64_two f64_one" "is_finite f64_zero" "\<not> f64_lt f64_zero f64_zero" "f64_le f64_zero f64_zero"
  "\<not> f64_lt F64_1E_9 (f64_abs (f64_sub f64_one f64_one))" "f64_lt f64_one F64_2_POW_64" "f64_lt f64_zero F64_2_POW_64" "\<not> is_nan f64_minus_one" "\<not> is_nan f64_zero"
  by (simp_all add: f64_run f64_half_def f64_two_def MAX_OPEN_RETRY_S_def F64_1E_9_def F64_2_POW_64_def)

definition sample_gains :: gains where
  "sample_gains = \<lparr>ga_kpp = f64_one, ga_kpv = f64_one, ga_kiv = f64_one, ga_kpiq = f64_one, ga_kiiq = f64_one, ga_kp = f64_one, ga_kd = f64_one\<rparr>"

definition sample_joint :: "node_id \<Rightarrow> joint_file" where
  "sample_joint n =
     \<lparr>jg_node_id = n, jg_encoder_bits = 14, jg_gear_ratio = f64_one, jg_hard_min_rad = f64_minus_one, jg_hard_max_rad = f64_one,
      jg_velocity_limit_ticks_s = f64_one, jg_ilim_ma = f64_one, jf_name = [n], jf_driver_type = Drv_Stepfoc, jf_kt_nm_a = f64_one,
      jf_voltage_limit_mv = 0, jf_phase_resistance_ohm = None, jf_phase_inductance_mh = None, jf_watchdog_timeout_ms = 100,
      jf_dynamics_gear_ratio = None, jf_gear_efficiency = f64_one, jf_dir = 0, jf_sector_master_position_ticks = 0,
      jf_sector_home_offset_rad = f64_zero, jf_gains = sample_gains, jf_ripple = [], jf_velocity_window = Some 20, jf_continuous = False,
      jf_soft_min_rad = f64_minus_one, jf_soft_max_rad = f64_one, jf_velocity_rad_s = f64_one, jf_acceleration_rad_s2 = f64_one,
      jf_jerk_rad_s3 = f64_one, jf_torque_rate_nm_s = f64_one, jf_exec = None,
      jf_jog = Some \<lparr>ml_velocity_rad_s = f64_one, ml_acceleration_rad_s2 = f64_one, ml_jerk_rad_s3 = None, ml_torque_rate_nm_s = Some f64_one\<rparr>,
      jf_stream = None\<rparr>"

definition sample_homing :: joint_homing where
  "sample_homing = \<lparr>jh_strategy = Strat_Hall, jh_speed_ticks_s = f64_one, jh_direction = 1, jh_current_ma = f64_one, jh_timeout_s = f64_one,
     jh_backoff_s = f64_zero, jh_two_pass = False, jh_two_pass_max_diff_ticks = 0, jh_release = None, jh_post_home = None,
     jh_home_offset_rad = f64_one, jh_home_offset_gripper_dependent = False\<rparr>"

definition sample_sequence :: homing_config where
  "sample_sequence = \<lparr>hc_joints = replicate 6 sample_homing,
     hc_sequence = [\<lparr>sq_pre_moves = [], sq_home = Some \<lparr>hg_joints = [], hg_gripper = Some GH_Firmware\<rparr>, sq_move_to = [], sq_post_moves = []\<rparr>,
       \<lparr>sq_pre_moves = [], sq_home = Some \<lparr>hg_joints = [5, 4, 3, 2, 1, 0], hg_gripper = Some GH_Motor\<rparr>,
        sq_move_to = [\<lparr>mt_joint = 1, mt_position_rad = f64_zero, mt_duration_s = f64_one\<rparr>], sq_post_moves = [PM_Idle 0 f64_one]\<rparr>],
     hc_post_moves = [], hc_reference_check_nm = []\<rparr>"

definition sample_robot :: robot_file where
  "sample_robot =
     \<lparr>rf_gravity_correction = [], rf_gravity_scale = replicate 6 f64_one,
      rf_robot = \<lparr>rn_name = [0x50], rn_tick_dt_s = f64_half, rn_gravity_m_s2 = f64_one, rn_park_pose_rad = replicate 6 f64_zero,
        rn_active_tool = [0x46], rn_kt_source = Kt_Auto\<rparr>,
      rf_joints = map sample_joint [0, 1, 2, 3, 4, 5], rf_homing = sample_sequence,
      rf_bus = \<lparr>bu_interface = [0x63], bu_bitrate = 1000000, bu_restart_ms = 100, bu_txqueuelen = 100, bu_sndbuf_bytes = 0, bu_gripper_node = 6,
        bu_timing_dummy_node = 13, bu_host_node = 14, bu_stale_warn_s = f64_half, bu_lost_s = f64_one, bu_rx_frames_per_tick_cap = 32,
        bu_boot_config_repeats = 2, bu_config_resend_offsets_s = [f64_one], bu_open_retry_s = f64_one, bu_config_pace_s = f64_zero,
        bu_watchdog_action = WD_Idle, bu_kt_timeout_s = f64_one, bu_kt_retries = 1, bu_kt_rounds = 1, bu_scan_rounds = 1, bu_scan_wait_s = f64_one\<rparr>,
      rf_protocol = \<lparr>pr_command_port = 5001, pr_status_port = 5002, pr_status_multicast_group = [0x32, 0x33, 0x39, 0x2E, 0x31, 0x2E, 0x31, 0x2E, 0x31],
        pr_status_rate_hz = 2\<rparr>,
      rf_io = \<lparr>ic_inputs = [\<lparr>il_name = [0x41], il_offset = 7\<rparr>], ic_outputs = [\<lparr>il_name = [0x42], il_offset = 8\<rparr>]\<rparr>,
      rf_jog = \<lparr>jd_speed_pct = f64_one, jd_accel_time_s = f64_one, jd_profile = Jog_Scurve, jd_jerk_factor = f64_one, jd_control_mode = Ctl_Pid\<rparr>,
      rf_stream = \<lparr>sd_command_timeout_s = f64_one, sd_lowpass_cutoff_hz = f64_zero, sd_success_window_s = f64_one, sd_fault_latch_s = f64_one,
        sd_servo_grace_s = f64_one\<rparr>,
      rf_timing = None, rf_limits = \<lparr>le_tau_ext_margin_nm = f64_zero, le_tau_ext_window_s = f64_one\<rparr>,
      rf_shutdown = \<lparr>sdn_safe_park = True, sdn_tolerance_rad = f64_one, sdn_timeout_s = f64_one, sdn_velocity_limit_rad_s = f64_one,
        sdn_safe_park_q = None, sdn_endstop_joints = [1]\<rparr>,
      rf_motion = \<lparr>mo_jog_l_linear_max_m_s = f64_one, mo_planned_linear_max_m_s = f64_one, mo_jog_l_angular_max_rad_s = f64_one,
        mo_cart_linear_accel_max_m_s2 = f64_one, mo_cart_angular_accel_max_rad_s2 = f64_one, mo_cart_linear_jerk_max_m_s3 = f64_one,
        mo_cart_angular_jerk_max_rad_s3 = f64_one, mo_cart_step_m = f64_one, mo_cart_step_rad = f64_one, mo_path_step_m = f64_one,
        mo_joint_step_rad = Some f64_one, mo_move_l_max_joint_step_rad = f64_one, mo_dls_lambda = f64_one, mo_settle_tolerance_rad = f64_one,
        mo_settle_timeout_s = f64_one, mo_execution_override_transition_s = f64_one, mo_path_rot_weight_m_per_rad = f64_one,
        mo_singularity_cond_max = f64_one, mo_singularity_sigma_min = f64_one\<rparr>,
      rf_sim = \<lparr>sm_motor_jm_kg_m2 = replicate 6 f64_one, sm_viscous_nm_s = replicate 6 f64_one, sm_coulomb_nm = replicate 6 f64_one,
        sm_powered_support_nm = replicate 6 f64_one, sm_arm_lateral_stiffness_nm_rad = f64_one, sm_arm_lateral_damping_nm_s = f64_one,
        sm_transmission_stiffness_nm_rad = replicate 6 f64_one, sm_transmission_damping_ratio = f64_one\<rparr>\<rparr>"

lemma sample_joint_sel:
  "jg_node_id (sample_joint n) = n" "jf_name (sample_joint n) = [n]" "jg_hard_min_rad (sample_joint n) = f64_minus_one"
  "jg_hard_max_rad (sample_joint n) = f64_one" "jf_soft_min_rad (sample_joint n) = f64_minus_one" "jf_soft_max_rad (sample_joint n) = f64_one"
  "jf_continuous (sample_joint n) = False" "jf_dynamics_gear_ratio (sample_joint n) = None"
  by (simp_all add: sample_joint_def)

lemma sample_joint_valid:
  assumes "unat n < 16" and "n \<notin> set reserved" and "\<forall>q \<in> set (take i js). jg_node_id q \<noteq> n \<and> jf_name q \<noteq> [n]"
  shows "validate_joint js i (sample_joint n) reserved = Inr ()"
  using assms
  by (auto simp: validate_joint_def Let_def sample_joint_def config_simps for_all_result_Inr is_positive_def validate_mode_block_def
      in_ceiling_def MAX_RIPPLE_HARMONICS_def bind_result_eq_Inr)

lemma sample_homing_valid: "validate_joint_homing prefix sample_homing = Inr ()"
  by (simp add: validate_joint_homing_def Let_def sample_homing_def config_simps)

lemma six: "(6 :: nat) = Suc (Suc (Suc (Suc (Suc (Suc 0)))))"
  by simp

lemma less_six: "(\<forall>i < 6. P i) \<longleftrightarrow> P 0 \<and> P 1 \<and> P 2 \<and> P 3 \<and> P 4 \<and> P (5 :: nat)"
  by (simp add: six All_less_Suc numeral_eq_Suc) blast

lemma sample_sequence_valid: "validate_homing 6 sample_sequence = Inr ()"
  by (simp add: validate_homing_Inr sample_sequence_def sample_homing_valid step_ok_def moves_ok_def empty_step_def less_six home_joints_def)


lemma sample_joints_valid:
  "for_all_result (\<lambda>(i, j). validate_joint (map sample_joint [0, 1, 2, 3, 4, 5]) i j [6, 13, 14])
     (enumerate 0 (map sample_joint [0, 1, 2, 3, 4, 5])) = Inr ()"
  by (simp add: sample_joint_valid sample_joint_sel)

lemma sample_bus_valid: "validate_bus sample_robot = Inr ()"
  by (simp add: validate_bus_def Let_def sample_robot_def config_simps is_positive_def)

lemma sample_protocol_valid: "validate_protocol sample_robot = Inr ()"
  by (simp add: validate_protocol_def Let_def sample_robot_def config_simps tick_rate_hz_def parse_ipv4_def is_multicast_def parse_octet_def)

lemma sample_io_valid: "validate_io (rf_io sample_robot) = Inr ()"
  by (simp add: validate_io_def sample_robot_def in_order_def refuse_if_def MAX_IO_LINES_def RESERVED_OFFSETS_def Let_def)

lemma sample_park: "safe_park_q sample_robot = [f64_zero, f64_one, f64_zero, f64_zero, f64_zero, f64_zero]"
  by (simp add: safe_park_q_def sample_robot_def sample_sequence_def sample_homing_def Let_def six)

lemmas validation_run = in_order_def refuse_if_def refuse_each_def Let_def is_positive_def finite_nonneg_def sample_joint_sel

lemma sample_shutdown_valid: "validate_shutdown sample_robot = Inr ()"
  unfolding validate_shutdown_def sample_park
  by (simp add: sample_robot_def park_band_def parks_on_endstop_def sample_sequence_def sample_homing_def validation_run)

lemma sample_rest_valid:
  "validate_defaults sample_robot = Inr ()" "validate_timing sample_robot = Inr ()" "validate_limits sample_robot = Inr ()"
  "validate_motion sample_robot = Inr ()" "validate_sim sample_robot = Inr ()"
  by (simp_all add: validate_defaults_def validate_timing_def validate_limits_def validate_motion_def validate_sim_def sample_robot_def
      MOTION_KEYS_def motion_as_array_def six validation_run)

lemma sample_robot_sel:
  "rf_joints sample_robot = map sample_joint [0, 1, 2, 3, 4, 5]" "rf_homing sample_robot = sample_sequence"
  "rn_tick_dt_s (rf_robot sample_robot) = f64_half" "rn_park_pose_rad (rf_robot sample_robot) = replicate 6 f64_zero"
  "bu_gripper_node (rf_bus sample_robot) = 6" "bu_timing_dummy_node (rf_bus sample_robot) = 13" "bu_host_node (rf_bus sample_robot) = 14"
  "rf_gravity_correction sample_robot = []" "rf_gravity_scale sample_robot = replicate 6 f64_one"
  "bu_config_pace_s (rf_bus sample_robot) = f64_zero" "bu_kt_timeout_s (rf_bus sample_robot) = f64_one" "bu_scan_wait_s (rf_bus sample_robot) = f64_one"
  by (simp_all add: sample_robot_def)

lemma sample_robot_valid: "validate_robot sample_robot = Inr ()"
  using sample_joints_valid sample_sequence_valid sample_bus_valid sample_protocol_valid sample_io_valid sample_shutdown_valid sample_rest_valid
  by (simp add: validate_robot_def sample_robot_sel in_order_def refuse_if_def Let_def)
     (simp add: sample_sequence_def six validation_run)


text \<open>A passive tool, and a bundle with it fitted.\<close>

definition sample_tool :: tool_config where
  "sample_tool = \<lparr>tl_name = [0x46], tl_urdf_variant = None, tl_driver = None, tl_can_tool_id = None, tl_homing = None,
     tl_arm_joint_home_offsets = [(5, f64_zero)],
     tl_kinematics = \<lparr>tk_d_m = f64_zero, tk_a_m = f64_zero, tk_alpha_rad = f64_zero, tk_mass_kg = f64_zero, tk_com_m = replicate 3 f64_zero,
       tk_inertia_kg_m2 = replicate 6 f64_zero\<rparr>\<rparr>"

definition sample_bundle :: config_bundle where
  "sample_bundle = \<lparr>cb_robot = sample_robot, cb_tools = [sample_tool], cb_installation_shapes = []\<rparr>"

lemma sample_bundle_loads: "load_parsed sample_robot [sample_tool] [] None = Inr sample_bundle"
proof -
  have "validate_tool sample_tool = Inr ()" by (simp add: validate_tool_def sample_tool_def validation_run)
  moreover have "validate_bundle sample_bundle = Inr ()"
    by (simp add: validate_bundle_def sample_bundle_def active_tool_def validation_run)
       (simp add: sample_tool_def sample_robot_def)
  ultimately show ?thesis by (simp add: load_parsed_def sample_robot_valid Let_def flip: sample_bundle_def)
qed

lemma sample_endstop: "sdn_endstop_joints (rf_shutdown sample_robot) = [1]"
  by (simp add: sample_robot_def)

section \<open>Limits\<close>

text \<open>
  No mode can ask a joint for more than it survives. On a validated configuration the
  limits that EXEC, JOG and STREAM run under, with every omitted block and every omitted field
  resolved, are positive numbers that do not exceed the joint's hardware ceiling.
\<close>

lemma mode_limits_within_ceiling:
  assumes "validate_robot r = Inr ()" and "j \<in> set (rf_joints r)"
  shows "in_ceiling (jf_velocity_rad_s j) (rs_velocity_rad_s (for_mode j mode))
    \<and> in_ceiling (jf_acceleration_rad_s2 j) (rs_acceleration_rad_s2 (for_mode j mode))
    \<and> (\<exists>v. rs_jerk_rad_s3 (for_mode j mode) = Some v \<and> in_ceiling (jf_jerk_rad_s3 j) v)
    \<and> (\<exists>v. rs_torque_rate_nm_s (for_mode j mode) = Some v \<and> in_ceiling (jf_torque_rate_nm_s j) v)"
proof -
  from assms(2) obtain i where i: "i < length (rf_joints r)" "j = rf_joints r ! i" by (auto simp: in_set_conv_nth)
  note v = validate_joint_ceiling [OF validate_robot_parts(1) [OF assms(1) i(1)], folded i(2)]
  define block where "block = (case mode of Lim_Exec \<Rightarrow> jf_exec j | Lim_Jog \<Rightarrow> jf_jog j | Lim_Stream \<Rightarrow> jf_stream j)"
  have "validate_mode_block [] j block = Inr ()" using v(5,6,7) [of "[]"] by (simp add: block_def split: limit_mode.splits)
  then show ?thesis
    unfolding for_mode_def block_def [symmetric] using v(1-4) [THEN in_ceiling_self]
    by (cases block) (auto simp: validate_mode_block_def config_simps split: option.splits)
qed

lemma fold_update_length: "(\<And>j q. length (f j q) = length q) \<Longrightarrow> length (fold f js q) = length q"
  by (induction js arbitrary: q) simp_all

text \<open>
  The arm is never told to retreat out of its range. On a validated configuration the pose
  the shutdown retreat drives to has one entry per joint; a joint parked on its endstop is sent
  to its own home offset, which lies between its hard limits and is not the tool's to change,
  and every other joint to a finite position between its soft limits.
\<close>

lemma retreat_pose_within_limits:
  assumes "validate_robot r = Inr ()" and "i < length (rf_joints r)"
    and "\<not> is_nan (fst (park_band r i (rf_joints r ! i)))" and "\<not> is_nan (snd (park_band r i (rf_joints r ! i)))"
  shows "length (safe_park_q r) = length (rf_joints r) \<and> is_finite (safe_park_q r ! i)
    \<and> f64_le (fst (park_band r i (rf_joints r ! i))) (safe_park_q r ! i)
    \<and> f64_le (safe_park_q r ! i) (snd (park_band r i (rf_joints r ! i)))
    \<and> (parks_on_endstop r i \<longrightarrow> safe_park_q r ! i = jh_home_offset_rad (hc_joints (rf_homing r) ! i)
        \<and> \<not> jf_continuous (rf_joints r ! i) \<and> \<not> jh_home_offset_gripper_dependent (hc_joints (rf_homing r) ! i))"
proof -
  let ?q = "safe_park_q r" and ?homes = "hc_joints (rf_homing r)"
  have s: "validate_shutdown r = Inr ()" by (rule validate_robot_parts(7) [OF assms(1)])
  have len: "length ?q = length (rf_joints r)" using s by (simp add: validate_shutdown_def Let_def config_simps)
  have homes: "length ?homes = length (rf_joints r)"
    using validate_robot_parts(2) [OF assms(1)] by (simp add: validate_homing_def config_simps)
  have band: "is_finite (?q ! i) \<and> \<not> f64_lt (?q ! i) (fst (park_band r i (rf_joints r ! i)))
      \<and> \<not> f64_lt (snd (park_band r i (rf_joints r ! i))) (?q ! i)"
  proof -
    obtain lo hi where b: "park_band r i (rf_joints r ! i) = (lo, hi)" by (cases "park_band r i (rf_joints r ! i)")
    with s assms(2) len show ?thesis by (fastforce simp: validate_shutdown_def Let_def config_simps)
  qed
  then have nn: "\<not> is_nan (?q ! i)" by (simp add: is_finite_def is_nan_def)
  define step where "step = (\<lambda>(j :: u8) q. if unat j < length q \<and> unat j < length ?homes
      then q[unat j := jh_home_offset_rad (?homes ! unat j)] else q)"
  have q: "?q = fold step (sdn_endstop_joints (rf_shutdown r))
      (case sdn_safe_park_q (rf_shutdown r) of Some q \<Rightarrow> q | None \<Rightarrow> rn_park_pose_rad (rf_robot r))"
    by (simp add: safe_park_q_def step_def Let_def)
  have fold_at: "i < length q \<Longrightarrow> (q ! i = v \<or> (\<exists>j \<in> set js. unat j = i)) \<Longrightarrow> v = jh_home_offset_rad (?homes ! i) \<Longrightarrow>
      fold step js q ! i = v" for q js v
  proof (induction js arbitrary: q)
    case (Cons j js)
    have "i < length (step j q)" using Cons.prems(1) by (simp add: step_def)
    moreover have "step j q ! i = v \<or> (\<exists>j \<in> set js. unat j = i)"
      using Cons.prems homes assms(2) by (auto simp: step_def nth_list_update)
    ultimately show ?case using Cons.IH [of "step j q"] Cons.prems(3) by simp
  qed auto
  have "length (fold step js q) = length q" for js q by (rule fold_update_length) (simp add: step_def)
  then have "parks_on_endstop r i \<Longrightarrow> ?q ! i = jh_home_offset_rad (?homes ! i)"
    using len assms(2) unfolding q parks_on_endstop_def by (intro fold_at) auto
  moreover have "parks_on_endstop r i \<Longrightarrow> \<not> jf_continuous (rf_joints r ! i) \<and> \<not> jh_home_offset_gripper_dependent (?homes ! i)"
    using s by (auto simp: parks_on_endstop_def validate_shutdown_def Let_def config_simps for_all_result_Inr split: if_splits)
  ultimately show ?thesis
    using len band nn assms(3,4) by (auto intro: f64_le_of_not_lt)
qed

section \<open>One sequence for every tool\<close>

text \<open>
  C27. One homing sequence serves every tool. Where the file's sequence is valid, so is the one a
  tool runs, which references every joint of the arm; for a tool without a drive no gripper move
  and no gripper homing is left in it, and for any other tool it is the sequence of the file.
\<close>

theorem homing_for_tool_valid:
  assumes "validate_homing n h = Inr ()"
  shows "validate_homing n (for_tool h tool) = Inr ()
    \<and> (\<forall>i < n. \<exists>s \<in> set (hc_sequence (for_tool h tool)). i \<in> set (home_joints s))
    \<and> (case tool of
         Some g \<Rightarrow> if tl_driver g = None then \<not> gripper_work (for_tool h tool) else for_tool h tool = h
       | None \<Rightarrow> for_tool h tool = h)"
proof -
  have "\<not> gripper_work (for_tool h (Some g))" if "tl_driver g = None" for g
    using that by (auto simp: for_tool_def gripper_work_def strip_step_def strip_moves_def split: option.splits if_splits)
  with for_tool_valid [OF assms, of tool] for_tool_driven [of tool h] show ?thesis
    by (auto simp: validate_homing_Inr split: option.splits)
qed

theorem homing_for_tool_valid_witness:
  "\<not> gripper_work (for_tool sample_sequence (Some sample_tool)) \<and> gripper_work sample_sequence"
  using homing_for_tool_valid [OF sample_sequence_valid, of "Some sample_tool"]
  by (simp add: sample_tool_def gripper_work_def sample_sequence_def)

end
