(* ===== verification/Boot.thy ===== *)
theory Boot
  imports Config Hw_Props Core_Props Homing_Props
begin

text \<open>
  The start of the runtime from a configuration: \<open>NodeConfig::arm\<close> and \<open>gripper\<close>,
  \<open>HardwareBus::boot_configure\<close> on a \<open>RobotConfig\<close>, \<open>JointConversion::from_config\<close>,
  \<open>ShutdownPark::from_config\<close>, \<open>HomingSystem::new\<close> and \<open>RtCore::new\<close>, each read off the
  records of theory \<open>Config\<close> into the state the component theories run on. A panic is
  \<open>None\<close>: \<open>Duration::from_secs_f64\<close> panics on a negative, NaN or overflowing number of
  seconds, and \<open>ExecPlayback::new\<close> asserts a finite positive transition time.
\<close>

section \<open>The bus\<close>

definition arm_node_config :: "joint_file \<Rightarrow> watchdog_action \<Rightarrow> node_config" where
  "arm_node_config j wd =
     \<lparr>nc_node = jg_node_id j, nc_watchdog_ms = jf_watchdog_timeout_ms j, nc_watchdog_action = wd,
      nc_velocity_limit_ticks_s = jg_velocity_limit_ticks_s j, nc_ilim_ma = jg_ilim_ma j, nc_voltage_limit_mv = jf_voltage_limit_mv j,
      nc_gains = jf_gains j, nc_ripple = ripple_slots (jf_ripple j), nc_velocity_window = jf_velocity_window j\<rparr>"

definition gripper_node_config :: "node_id \<Rightarrow> gripper_driver_config \<Rightarrow> watchdog_action \<Rightarrow> node_config" where
  "gripper_node_config node d wd =
     \<lparr>nc_node = node, nc_watchdog_ms = gd_watchdog_timeout_ms d, nc_watchdog_action = wd,
      nc_velocity_limit_ticks_s = gd_velocity_limit_ticks_s d, nc_ilim_ma = gd_ilim_ma d, nc_voltage_limit_mv = gd_voltage_limit_mv d,
      nc_gains = gd_gains d, nc_ripple = ripple_slots [], nc_velocity_window = None\<rparr>"

definition hw_view :: "robot_file \<Rightarrow> tool_config option \<Rightarrow> hw_config" where
  "hw_view r tool =
     (let b = rf_bus r in
      \<lparr>hk_joints = map (\<lambda>j. arm_node_config j (bu_watchdog_action b)) (rf_joints r), hk_gripper_node = bu_gripper_node b,
       hk_timing_dummy_node = bu_timing_dummy_node b,
       hk_gripper_driver = map_option (\<lambda>d. gripper_node_config (bu_gripper_node b) d (bu_watchdog_action b))
         (Option.bind tool tl_driver),
       hk_rx_frames_per_tick_cap = unat (bu_rx_frames_per_tick_cap b), hk_stale_warn_ticks = config_ticks r (bu_stale_warn_s b),
       hk_lost_ticks = config_ticks r (bu_lost_s b), hk_kt_auto = (rn_kt_source (rf_robot r) = Kt_Auto),
       hk_kt_retries = unat (bu_kt_retries b), hk_kt_rounds = unat (bu_kt_rounds b), hk_scan_rounds = unat (bu_scan_rounds b)\<rparr>)"

definition duration_ok :: "f64 \<Rightarrow> bool" where
  "duration_ok secs \<longleftrightarrow> \<not> is_nan secs \<and> \<not> f64_lt secs f64_zero \<and> f64_lt secs F64_2_POW_64"

text \<open>
  \<open>boot_configure\<close>: the pacing is converted before anything is sent, the fetch timeout and
  the scan wait after the load.
\<close>

definition hw_boot :: "hw_env \<Rightarrow> robot_file \<Rightarrow> tool_config option \<Rightarrow> u8 \<Rightarrow> hw_bus \<Rightarrow> (unit bus_result \<times> hw_bus) option" where
  "hw_boot en r tool repeats b =
     (if \<not> duration_ok (bu_config_pace_s (rf_bus r)) then None
      else case boot_configure en (hw_view r tool) repeats b of
        (Inl e, b') \<Rightarrow> Some (Inl e, b')
      | (Inr _, b') \<Rightarrow>
          if duration_ok (bu_kt_timeout_s (rf_bus r)) \<and> duration_ok (bu_scan_wait_s (rf_bus r)) then Some (Inr (), b') else None)"

section \<open>The core\<close>

definition conversion_from_config :: "joint_file \<Rightarrow> joint_conversion" where
  "conversion_from_config j =
     new_conversion (of_nat (jg_encoder_bits j)) (jg_gear_ratio j) (jf_dir j) (jf_sector_master_position_ticks j)
       (jf_sector_home_offset_rad j)"

definition torque_cal_of :: "joint_file \<Rightarrow> torque_cal" where
  "torque_cal_of j = \<lparr>tc_gear_ratio = jg_gear_ratio j, tc_gear_efficiency = jf_gear_efficiency j, tc_kt_nm_a = jf_kt_nm_a j,
     tc_dir = jf_dir j\<rparr>"

definition core_config_view :: "robot_file \<Rightarrow> robot_config" where
  "core_config_view r =
     \<lparr>rb_tick_dt_s = rn_tick_dt_s (rf_robot r), rb_node_of = map jg_node_id (rf_joints r),
      rb_gripper_node = bu_gripper_node (rf_bus r),
      rb_jog_pack = (case jd_control_mode (rf_jog r) of Ctl_Pid \<Rightarrow> Pack_Pid | Ctl_Pd \<Rightarrow> Pack_Pd),
      rb_gravity_scale = rf_gravity_scale r, rb_torque_cal = map torque_cal_of (rf_joints r),
      rb_kt_auto = (rn_kt_source (rf_robot r) = Kt_Auto), rb_n_io_inputs = length (ic_inputs (rf_io r)),
      rb_n_io_outputs = length (ic_outputs (rf_io r)), rb_boot_config_repeats = bu_boot_config_repeats (rf_bus r),
      rb_config_resend_offsets_s = bu_config_resend_offsets_s (rf_bus r), rb_lost_s = bu_lost_s (rf_bus r),
      rb_tau_ext_margin_nm = le_tau_ext_margin_nm (rf_limits r), rb_tau_ext_window_s = le_tau_ext_window_s (rf_limits r),
      rb_command_timeout_s = sd_command_timeout_s (rf_stream r), rb_success_window_s = sd_success_window_s (rf_stream r),
      rb_lowpass_cutoff_hz = sd_lowpass_cutoff_hz (rf_stream r), rb_reference_check_nm = hc_reference_check_nm (rf_homing r)\<rparr>"

text \<open>The retreat's targets and bounds, in arrays of one entry per joint.\<close>

definition fill :: "f64 \<Rightarrow> f64 list \<Rightarrow> f64 list" where
  "fill d vs = take MAX_JOINTS (vs @ replicate MAX_JOINTS d)"

definition park_from_config :: "robot_file \<Rightarrow> shutdown_park" where
  "park_from_config r =
     (let cfg = rf_shutdown r; js = rf_joints r in
      \<lparr>pk_enabled = sdn_safe_park cfg, pk_tolerance_rad = sdn_tolerance_rad cfg,
       pk_timeout_ticks = max (config_ticks r (sdn_timeout_s cfg)) 1, pk_target = fill f64_zero (safe_park_q r),
       pk_speed_fractions = fill f64_one
         (map (\<lambda>j. f64_min (f64_div (sdn_velocity_limit_rad_s cfg) (rs_velocity_rad_s (for_mode j Lim_Stream))) f64_one) js),
       pk_saved_scale = (f64_one, f64_one), pk_running = False,
       pk_soft_bounds = (fill f64_zero (map jf_soft_min_rad js), fill f64_zero (map jf_soft_max_rad js)),
       pk_hard_bounds = (fill f64_zero (map (fst \<circ> travel_rad) js), fill f64_zero (map (snd \<circ> travel_rad) js))\<rparr>)"

definition homing_from_bundle :: "config_bundle \<Rightarrow> homing_system" where
  "homing_from_bundle b =
     (let r = cb_robot b; dt = rn_tick_dt_s (rf_robot r); tool = active_tool b; driver = Option.bind tool tl_driver;
          gripper_params = Option.bind tool (\<lambda>g. Option.bind (tl_driver g) (\<lambda>d. map_option (\<lambda>h.
            homer_params_from_config (bu_gripper_node (rf_bus r)) h (jh_timeout_s h) (gd_velocity_limit_ticks_s d) (gd_ilim_ma d) dt)
            (tl_homing g)));
          eff_offset = map (\<lambda>i. case effective_home_offset b i of Some q \<Rightarrow> q
            | None \<Rightarrow> jh_home_offset_rad (hc_joints (rf_homing r) ! i)) [0..<MAX_JOINTS]
      in new_homing_system dt (map joint_config.truncate (rf_joints r)) (hc_joints (rf_homing r)) (for_tool (rf_homing r) tool)
           gripper_params (driver \<noteq> None) (case driver of Some d \<Rightarrow> gd_gear_r_m d | None \<Rightarrow> f64_zero) eff_offset
           (bu_gripper_node (rf_bus r)))"

text \<open>The core of the last step of \<open>RtCore::new\<close>, with its constants.\<close>

definition core_from_bundle :: "config_bundle \<Rightarrow> exec_playback \<Rightarrow> rt_config \<times> rt_core" where
  "core_from_bundle b exec =
     (let r = cb_robot b; dt = rn_tick_dt_s (rf_robot r); tool = active_tool b; driver = Option.bind tool tl_driver;
          k = rt_config_of (core_config_view r);
          max_step = map (\<lambda>j. case rs_torque_rate_nm_s (for_mode j Lim_Exec) of
            None \<Rightarrow> f64_inf | Some rate \<Rightarrow> f64_mul rate dt) (rf_joints r)
      in (k, new_core k (map conversion_from_config (rf_joints r)) exec (homing_from_bundle b)
            (new_gripper_settle dt (case driver of Some d \<Rightarrow> gd_settle d | None \<Rightarrow> default_settle_timings))
            max_step (park_from_config r) (driver \<noteq> None) (Option.bind tool tl_can_tool_id)))"

datatype core_error = CE_JointCount nat | CE_Bus bus_error

definition rt_core_new ::
  "hw_env \<Rightarrow> config_bundle \<Rightarrow> ring_shared \<Rightarrow> spec_settle \<Rightarrow> hw_bus \<Rightarrow> (core_error + (rt_config \<times> rt_core) \<times> hw_bus) option" where
  "rt_core_new en b samples policy bus =
     (let r = cb_robot b in
      if length (rf_joints r) \<noteq> MAX_JOINTS then Some (Inl (CE_JointCount (length (rf_joints r))))
      else case hw_boot en r (active_tool b) (bu_boot_config_repeats (rf_bus r)) bus of
        None \<Rightarrow> None
      | Some (Inl e, bus) \<Rightarrow> Some (Inl (CE_Bus e))
      | Some (Inr _, bus) \<Rightarrow>
          map_option (\<lambda>exec. Inr (core_from_bundle b exec, bus))
            (new_exec samples policy (rn_tick_dt_s (rf_robot r)) (mo_execution_override_transition_s (rf_motion r))
               (map (\<lambda>j. rs_acceleration_rad_s2 (for_mode j Lim_Exec)) (rf_joints r))))"

end
