(* ===== verification/Boot_Props.thy ===== *)
theory Boot_Props
  imports Boot Config_Props
begin

text \<open>
  A validated configuration starts the runtime: the bus is loaded, drive by drive, with what the
  file says, and the core comes up in a state its invariants hold in.
\<close>

section \<open>Polling leaves the configured bus alone\<close>

definition keeps_setup :: "hw_bus \<Rightarrow> hw_bus \<Rightarrow> bool" where
  "keeps_setup b b' \<longleftrightarrow> hb_joint_nodes b' = hb_joint_nodes b \<and> hb_node_configs b' = hb_node_configs b \<and> hb_configured b' = hb_configured b
     \<and> hb_silent b' = hb_silent b \<and> hb_joints_sent b' = hb_joints_sent b \<and> hb_gripper_node b' = hb_gripper_node b
     \<and> (\<exists>fs. hb_sent b' = hb_sent b @ fs \<and> (\<forall>f \<in> set fs. cf_rtr f))"

lemma setup_refl [simp]: "keeps_setup b b"
  by (simp add: keeps_setup_def)

lemma setup_trans: "keeps_setup b b' \<Longrightarrow> keeps_setup b' b'' \<Longrightarrow> keeps_setup b b''"
  unfolding keeps_setup_def by (clarsimp, metis Un_iff)

lemma setup_send: "cf_rtr f \<Longrightarrow> hw_send en f b = (x, b') \<Longrightarrow> keeps_setup b b'"
  by (auto simp: hw_send_def Let_def keeps_setup_def split: if_splits)

lemma keeps_collect_loop: "keeps_setup b (collect_loop rx b)"
  by (induction rx b rule: collect_loop.induct) (auto simp: keeps_setup_def Let_def split: sum.splits)

lemma keeps_collect: "keeps_setup b (collect_for en b)"
  by (rule setup_trans [OF _ keeps_collect_loop [of "b\<lparr>hb_waits := Suc (hb_waits b)\<rparr>" "he_replies en (hb_waits b)", folded collect_for_def]])
     (simp add: keeps_setup_def)

lemma poll_is_rtr: "cf_rtr (encode_poll node kind)"
  by (simp add: encode_poll_def rtr_frame_def)

lemma keeps_ask_retrying: "cf_rtr f \<Longrightarrow> keeps_setup b (ask_retrying en answered f n b)"
proof (induction n arbitrary: b)
  case (Suc n)
  obtain x b1 where send: "hw_send en f b = (x, b1)" by fastforce
  note k1 = setup_send [OF Suc.prems send]
  note k2 = setup_trans [OF k1 keeps_collect [of b1 en]]
  show ?case
    using k1 k2 setup_trans [OF k2 Suc.IH [OF Suc.prems]] by (simp add: send Let_def split: sum.splits)
qed simp

lemma keeps_ask_once: "keeps_setup b (ask_once en (encode_poll node kind) b)"
proof -
  obtain x b1 where send: "hw_send en (encode_poll node kind) b = (x, b1)" by fastforce
  note k1 = setup_send [OF poll_is_rtr send]
  show ?thesis using k1 setup_trans [OF k1 keeps_collect [of b1 en]] by (simp add: ask_once_def send split: sum.splits)
qed

lemma keeps_fold: "(\<And>x b. keeps_setup b (f x b)) \<Longrightarrow> keeps_setup b (fold f xs b)"
  by (induction xs arbitrary: b) (auto intro: setup_trans)

lemma keeps_funpow: "(\<And>b. keeps_setup b (f b)) \<Longrightarrow> keeps_setup b ((f ^^ n) b)"
  by (induction n) (auto intro: setup_trans)

lemma keeps_fetch_kt: "keeps_setup b (fetch_kt en k b)"
  unfolding fetch_kt_def Let_def by (intro keeps_funpow keeps_fold) (simp add: keeps_ask_retrying poll_is_rtr)

lemma keeps_probe_telemetry: "keeps_setup b (probe_telemetry en k b)"
proof -
  have poll: "keeps_setup c (c\<lparr>hb_poll := p\<rparr>)" for c p by (simp add: keeps_setup_def)
  show ?thesis
    unfolding probe_telemetry_def probe_targets_def split_def
    by (rule keeps_fold) (rule setup_trans [OF keeps_ask_retrying [OF poll_is_rtr] poll])
qed

lemma keeps_bus_scan: "keeps_setup b (bus_scan en k b)"
  unfolding bus_scan_def by (intro keeps_funpow keeps_fold keeps_ask_once)

lemma keeps_seed: "keeps_setup b (seed_encoders en b)"
  unfolding seed_encoders_def by (intro keeps_fold keeps_ask_once)

lemma send_all_accepted:
  assumes "\<forall>i. he_write en i = Wr_Ok"
  obtains b' where "send_all en fs b = (Inr (), b')" and "hb_sent b' = hb_sent b @ fs" and "hb_joint_nodes b' = hb_joint_nodes b"
    and "hb_node_configs b' = hb_node_configs b" and "hb_configured b' = hb_configured b" and "hb_silent b' = hb_silent b"
    and "hb_joints_sent b' = hb_joints_sent b" and "hb_gripper_node b' = hb_gripper_node b"
proof -
  have "\<exists>b'. send_all en fs b = (Inr (), b') \<and> hb_sent b' = hb_sent b @ fs \<and> hb_joint_nodes b' = hb_joint_nodes b
      \<and> hb_node_configs b' = hb_node_configs b \<and> hb_configured b' = hb_configured b \<and> hb_silent b' = hb_silent b
      \<and> hb_joints_sent b' = hb_joints_sent b \<and> hb_gripper_node b' = hb_gripper_node b"
    using assms
  proof (induction fs arbitrary: b)
    case (Cons f fs)
    define b1 where "b1 = snd (hw_send en f b)"
    have b1: "hw_send en f b = (Inr (), b1)" "hb_sent b1 = hb_sent b @ [f]" "hb_joint_nodes b1 = hb_joint_nodes b"
      "hb_node_configs b1 = hb_node_configs b" "hb_configured b1 = hb_configured b" "hb_silent b1 = hb_silent b"
      "hb_joints_sent b1 = hb_joints_sent b" "hb_gripper_node b1 = hb_gripper_node b"
      using Cons.prems by (simp_all add: b1_def hw_send_def Let_def)
    from Cons.IH [OF Cons.prems, of b1] b1 show ?case by auto
  qed simp
  then show thesis using that by blast
qed

text \<open>The load of \<open>boot_configure\<close>: accepted by the socket, it is followed by polls only.\<close>

lemma boot_configure_loads:
  assumes "\<forall>i. he_write en i = Wr_Ok"
  obtains b' polls where "boot_configure en k repeats b = (Inr (), b')"
    and "hb_sent b' = hb_sent b @ plan_frames (boot_config_plan (hb_node_configs (boot_install k b)) repeats) @ polls"
    and "\<forall>f \<in> set polls. cf_rtr f" and "hb_joint_nodes b' = map nc_node (hk_joints k)"
    and "hb_node_configs b' = hb_node_configs (boot_install k b)" and "hb_configured b'" and "hb_silent b' = hb_silent b"
    and "hb_joints_sent b' = hb_joints_sent b" and "hb_gripper_node b' = hk_gripper_node k"
proof -
  let ?b = "boot_install k b"
  let ?fs = "plan_frames (boot_config_plan (hb_node_configs ?b) repeats)"
  obtain b1 where b1: "send_all en ?fs ?b = (Inr (), b1)" "hb_sent b1 = hb_sent ?b @ ?fs" "hb_joint_nodes b1 = hb_joint_nodes ?b"
    "hb_node_configs b1 = hb_node_configs ?b" "hb_configured b1 = hb_configured ?b" "hb_silent b1 = hb_silent ?b"
    "hb_joints_sent b1 = hb_joints_sent ?b" "hb_gripper_node b1 = hb_gripper_node ?b" by (rule send_all_accepted [OF assms])
  define b2 where "b2 = (if hk_kt_auto k then fetch_kt en k b1 else b1)"
  define b3 where "b3 = seed_encoders en (bus_scan en k (probe_telemetry en k b2))"
  have "keeps_setup b1 b2" by (simp add: b2_def keeps_fetch_kt)
  then have keep: "keeps_setup b1 b3"
    unfolding b3_def by (blast intro: setup_trans keeps_seed keeps_bus_scan keeps_probe_telemetry)
  have res: "boot_configure en k repeats b = (Inr (), b3)" by (simp add: boot_configure_def Let_def b1(1) b2_def b3_def)
  from keep obtain polls where "hb_sent b3 = hb_sent b1 @ polls" "\<forall>f \<in> set polls. cf_rtr f" by (auto simp: keeps_setup_def)
  moreover have "hb_joint_nodes ?b = map nc_node (hk_joints k)" "hb_configured ?b" "hb_silent ?b = hb_silent b"
    "hb_joints_sent ?b = hb_joints_sent b" "hb_sent ?b = hb_sent b" "hb_gripper_node ?b = hk_gripper_node k"
    by (simp_all add: boot_install_def Let_def)
  ultimately show thesis using that [OF res] keep b1 by (simp add: keeps_setup_def)
qed

section \<open>The start of the runtime\<close>

lemma small_is_finite:
  assumes "f64_lt f64_zero x" and "f64_lt x f64_one"
  shows "is_finite x"
proof -
  have one: "f64_key f64_one = 0x3FF0000000000000" and zero: "f64_key f64_zero = 0"
    by (simp_all add: f64_key_def f64_field_defs f64_const_defs)
  have "f64_key x < 0x3FF0000000000000" "0 < f64_key x" using assms unfolding f64_lt_def one zero by simp_all
  then have "f64_mag x < 2 ^ 62" by (simp add: f64_key_def split: if_splits)
  then show ?thesis by (simp add: is_finite_def f64_exp_def)
qed

lemma cmd_frame_data: "\<not> cf_rtr (cmd_frame node cmd payload)"
  by (simp add: cmd_frame_def data_frame_def)

lemma node_load_data: "\<forall>f \<in> set (node_load c). \<not> cf_rtr f"
proof -
  have "\<not> cf_rtr (config_frame kind c)" for kind
    by (cases kind) (simp_all add: config_encoders cmd_frame_data)
  then show ?thesis
    by (auto simp: node_load_def extra_frames_def ripple_frames_def encode_ripple_def encode_velocity_window_def cmd_frame_data
        split: option.splits)
qed

text \<open>What a loaded bundle is: its parts passed their validations, and only the tool's name may differ from the file.\<close>

lemma load_parsed_parts:
  assumes "load_parsed robot tools shapes fitted = Inr b"
  shows "validate_robot robot = Inr ()" and "validate_bundle b = Inr ()" and "cb_tools b = tools" and "cb_installation_shapes b = shapes"
    and "\<forall>t \<in> set tools. validate_tool t = Inr ()"
    and "\<exists>name. cb_robot b = robot\<lparr>rf_robot := (rf_robot robot)\<lparr>rn_active_tool := name\<rparr>\<rparr>"
proof -
  have same: "\<exists>name. robot = robot\<lparr>rf_robot := (rf_robot robot)\<lparr>rn_active_tool := name\<rparr>\<rparr>"
    by (rule exI [of _ "rn_active_tool (rf_robot robot)"]) simp
  from assms show "validate_robot robot = Inr ()" "validate_bundle b = Inr ()" "cb_tools b = tools" "cb_installation_shapes b = shapes"
    "\<forall>t \<in> set tools. validate_tool t = Inr ()" by (auto simp: load_parsed_def bind_result_eq_Inr Let_def for_all_result_Inr)
  from assms same show "\<exists>name. cb_robot b = robot\<lparr>rf_robot := (rf_robot robot)\<lparr>rn_active_tool := name\<rparr>\<rparr>"
    by (auto simp: load_parsed_def bind_result_eq_Inr Let_def split: option.splits)
qed

text \<open>The nodes the bus loads: the joints, and the gripper's drive where the tool has one.\<close>

lemma hw_view_nodes:
  fixes bus :: hw_bus and tool :: "tool_config option"
  assumes "validate_robot r = Inr ()"
  defines "configs \<equiv> hb_node_configs (boot_install (hw_view r tool) bus)"
  shows "distinct (map nc_node configs)" and "\<forall>d \<in> set configs. unat (nc_node d) < 16"
    and "j \<in> set (rf_joints r) \<Longrightarrow> arm_node_config j (bu_watchdog_action (rf_bus r)) \<in> set configs"
proof -
  have node: "nc_node (arm_node_config j wd) = jg_node_id j" for j wd by (simp add: arm_node_config_def)
  have gnode: "unat (bu_gripper_node (rf_bus r)) < 16"
    using validate_robot_parts(4) [OF assms(1)] by (simp add: validate_bus_def Let_def config_simps)
  have configs: "configs = map (\<lambda>j. arm_node_config j (bu_watchdog_action (rf_bus r))) (rf_joints r)
      @ (case Option.bind tool tl_driver of Some d \<Rightarrow> [gripper_node_config (bu_gripper_node (rf_bus r)) d (bu_watchdog_action (rf_bus r))] | None \<Rightarrow> [])"
    by (simp add: configs_def boot_install_def hw_view_def Let_def gripper_node_config_def split: option.splits)
  have arms: "map (nc_node \<circ> (\<lambda>j. arm_node_config j (bu_watchdog_action (rf_bus r)))) (rf_joints r) = map jg_node_id (rf_joints r)"
    by (simp add: node)
  show "distinct (map nc_node configs)"
    using joint_nodes_distinct [OF assms(1)] joint_nodes_usable(2) [OF assms(1)]
    by (cases "Option.bind tool tl_driver") (fastforce simp: configs arms node gripper_node_config_def)+
  show "\<forall>d \<in> set configs. unat (nc_node d) < 16"
    using joint_nodes_usable(1) [OF assms(1)] gnode by (auto simp: configs node gripper_node_config_def split: option.splits)
  show "j \<in> set (rf_joints r) \<Longrightarrow> arm_node_config j (bu_watchdog_action (rf_bus r)) \<in> set configs" by (simp add: configs)
qed

lemma hw_boot_loads:
  assumes "validate_robot r = Inr ()" and "\<forall>i. he_write en i = Wr_Ok"
    and "duration_ok (bu_config_pace_s (rf_bus r))" and "duration_ok (bu_kt_timeout_s (rf_bus r))" and "duration_ok (bu_scan_wait_s (rf_bus r))"
  obtains bus' loaded where "hw_boot en r tool repeats bus = Some (Inr (), bus')" and "hb_sent bus' = hb_sent bus @ loaded"
    and "hb_joint_nodes bus' = map jg_node_id (rf_joints r)" and "hb_configured bus'" and "hb_silent bus' = hb_silent bus"
    and "hb_joints_sent bus' = hb_joints_sent bus"
    and "\<And>j. j \<in> set (rf_joints r) \<Longrightarrow> filter (\<lambda>f. frame_node f = jg_node_id j \<and> \<not> cf_rtr f) loaded
      = concat (replicate (unat repeats) (node_load (arm_node_config j (bu_watchdog_action (rf_bus r)))))"
proof -
  let ?configs = "hb_node_configs (boot_install (hw_view r tool) bus)"
  let ?plan = "plan_frames (boot_config_plan ?configs repeats)"
  obtain bus' polls where b: "boot_configure en (hw_view r tool) repeats bus = (Inr (), bus')" "hb_sent bus' = hb_sent bus @ ?plan @ polls"
    "\<forall>f \<in> set polls. cf_rtr f" "hb_joint_nodes bus' = map nc_node (hk_joints (hw_view r tool))" "hb_configured bus'"
    "hb_silent bus' = hb_silent bus" "hb_joints_sent bus' = hb_joints_sent bus" by (rule boot_configure_loads [OF assms(2)])
  have load: "filter (\<lambda>f. frame_node f = jg_node_id j \<and> \<not> cf_rtr f) (?plan @ polls)
      = concat (replicate (unat repeats) (node_load (arm_node_config j (bu_watchdog_action (rf_bus r)))))" if "j \<in> set (rf_joints r)" for j
  proof -
    let ?c = "arm_node_config j (bu_watchdog_action (rf_bus r))"
    have n: "nc_node ?c = jg_node_id j" by (simp add: arm_node_config_def)
    from boot_load_per_node [OF hw_view_nodes(1,2) [OF assms(1)] hw_view_nodes(3) [OF assms(1) that], of tool bus repeats]
    have plan: "filter (\<lambda>f. frame_node f = jg_node_id j) ?plan = concat (replicate (unat repeats) (node_load ?c))" by (simp add: n)
    have "filter (\<lambda>f. frame_node f = jg_node_id j \<and> \<not> cf_rtr f) xs = filter (\<lambda>f. \<not> cf_rtr f) (filter (\<lambda>f. frame_node f = jg_node_id j) xs)" for xs
      by (simp add: conj_commute)
    moreover have "filter (\<lambda>f. \<not> cf_rtr f) (concat (replicate m (node_load ?c))) = concat (replicate m (node_load ?c))" for m
      using node_load_data [of ?c] by (intro filter_True) auto
    moreover have "filter (\<lambda>f. frame_node f = jg_node_id j \<and> \<not> cf_rtr f) polls = []" using b(3) by (simp add: filter_empty_conv)
    ultimately show ?thesis unfolding filter_append by (simp only: plan append_Nil2)
  qed
  have "hb_joint_nodes bus' = map jg_node_id (rf_joints r)" by (simp add: b(4) hw_view_def Let_def arm_node_config_def)
  then show thesis
    using that [of bus' "?plan @ polls"] b load assms(3-5) by (simp add: hw_boot_def)
qed

lemma homing_from_bundle_steps:
  assumes "validate_homing MAX_JOINTS (rf_homing (cb_robot b)) = Inr ()" and "i < MAX_JOINTS"
  shows "\<exists>s \<in> set (hy_steps (homing_from_bundle b)). sp_home_joints s ! i"
proof -
  let ?h = "for_tool (rf_homing (cb_robot b)) (active_tool b)"
  have "validate_homing MAX_JOINTS ?h = Inr ()" by (rule for_tool_valid [OF assms(1)])
  with assms(2) have "\<exists>s \<in> set (hc_sequence ?h). i \<in> set (home_joints s)" by (simp add: validate_homing_Inr)
  then obtain s where s: "s \<in> set (hc_sequence ?h)" "i \<in> set (home_joints s)" by blast
  have "hy_steps (homing_from_bundle b) = map (plan_step (rn_tick_dt_s (rf_robot (cb_robot b)))) (hc_sequence ?h)"
    by (simp add: homing_from_bundle_def new_homing_system_def plan_sequence_def Let_def)
  moreover have "sp_home_joints (plan_step dt s) ! i" for dt
    using s(2) assms(2) by (cases "sq_home s") (simp_all add: plan_step_def home_joints_def)
  ultimately show ?thesis using s(1) by auto
qed

lemma core_from_bundle_initial:
  assumes "length (rf_joints (cb_robot b)) = MAX_JOINTS" and "core_from_bundle b exec = (k, c)"
  shows "core_initial k c" and "rc_homing c = homing_from_bundle b"
proof -
  have cal: "length (kf_torque_cal (rt_config_of (core_config_view (cb_robot b)))) = MAX_JOINTS"
    using assms(1) by (simp add: rt_config_of_def core_config_view_def Let_def)
  have conv: "length (map conversion_from_config (rf_joints (cb_robot b))) = MAX_JOINTS" using assms(1) by simp
  show "core_initial k c"
    using assms(2) cal conv unfolding core_initial_def core_from_bundle_def Let_def prod.inject by blast
  show "rc_homing c = homing_from_bundle b"
    using assms(2) by (auto simp: core_from_bundle_def Let_def new_core_def)
qed



section \<open>What validation does not read\<close>

lemma validate_any_waits:
  "validate_robot (r\<lparr>rf_bus := (rf_bus r)\<lparr>bu_kt_timeout_s := t, bu_scan_wait_s := w\<rparr>\<rparr>) = validate_robot r" (is "validate_robot ?r = _")
proof -
  have park: "safe_park_q ?r = safe_park_q r" "park_band ?r = park_band r"
    by (simp_all add: safe_park_q_def park_band_def parks_on_endstop_def fun_eq_iff Let_def cong: if_cong option.case_cong)
  have "validate_bus ?r = validate_bus r" "validate_protocol ?r = validate_protocol r" "validate_defaults ?r = validate_defaults r"
    "validate_timing ?r = validate_timing r" "validate_limits ?r = validate_limits r" "validate_motion ?r = validate_motion r"
    "validate_shutdown ?r = validate_shutdown r" "validate_sim ?r = validate_sim r"
    by (simp_all add: validate_bus_def validate_protocol_def tick_rate_hz_def validate_defaults_def validate_timing_def
      validate_limits_def validate_motion_def validate_shutdown_def park validate_sim_def Let_def cong: if_cong option.case_cong)
  then show ?thesis by (simp add: validate_robot_def Let_def)
qed



text \<open>A NaN freshness window passes too, and is no ticks at all.\<close>

lemma nan_window_accepted:
  assumes "validate_bus r = Inr ()"
  defines "r' \<equiv> r\<lparr>rf_bus := (rf_bus r)\<lparr>bu_lost_s := f64_nan\<rparr>\<rparr>"
  shows "validate_bus r' = Inr ()" and "config_ticks r' (bu_lost_s (rf_bus r')) = 0"
proof -
  have nan: "is_nan f64_nan" by (simp add: f64_run)
  then have "f64_div f64_nan dt = f64_nan" for dt by (simp add: f64_div_def Let_def)
  with nan assms(1) show "validate_bus r' = Inr ()" "config_ticks r' (bu_lost_s (rf_bus r')) = 0"
    by (simp_all add: r'_def validate_bus_def Let_def config_simps f64_round_away_def f64_cmp_defs config_ticks_def ticks_of_def f64_round_to_nat_def)
qed

end
