(* ===== verification/Client.thy ===== *)
theory Client
  imports Server_Handlers
begin

text \<open>
  The client's transport core, \<open>par6-client/src/core.rs\<close>: request ids and idempotency keys, the
  chunked datagrams of a command, the roundtrip with its attempts, the four ways a command is
  sent, the two receiver tasks (\<open>reply_rx\<close>, \<open>status_rx\<close>), the completion log and the wait for a
  queued command. Tasks share the state behind locks, and each locked section is one operation
  here. A call that awaits takes the world's part as its \<open>client_env\<close>: what the socket answers
  to each datagram, and what arrives during each wait. Datagrams received are given decoded (the
  codecs of replies and STATUS are not modelled); what cannot be decoded is an event of its own.
\<close>

section \<open>Data\<close>

definition PROTO_VERSION :: u8 where "PROTO_VERSION = 7"
definition MIN_MTU :: nat where "MIN_MTU = 64"
definition CHUNK_OVERHEAD :: nat where "CHUNK_OVERHEAD = 32"

text \<open>
  The texts of \<open>ClientError\<close> are left out. \<open>Cl_Failed\<close> is the \<open>Robot\<close> error of code 0 that a wait
  makes up for a command that failed without a detail.
\<close>

datatype client_error =
    Cl_Unreachable
  | Cl_Robot wire_error
  | Cl_Failed nat
  | Cl_Decode decode_error
  | Cl_Io
  | Cl_Closed
  | Cl_Invalid
  | Cl_SessionChanged nat
  | Cl_ProtocolMismatch u8 u8

datatype ack = Confirmed | Unconfirmed

type_synonym completion = "bool \<times> wire_error option \<times> u8 option"

text \<open>What the client's machinery reads of a STATUS frame.\<close>

record client_status =
  ct_proto_version :: u8
  ct_session_id :: u64
  ct_seq :: u64
  ct_completed_index :: int
  ct_accepted_index :: int
  ct_error :: "wire_error option"

text \<open>
  \<open>Inner\<close> and \<open>Completions\<close>. A oneshot channel is its sender's place (a request's id in
  \<open>cn_pending\<close>, a waiter's number under its index in \<open>cn_waiters\<close>) and what was sent through it
  (\<open>cn_answers\<close>, \<open>cn_told\<close>); a sender dropped without sending closes it. \<open>cn_sent\<close> is every
  datagram handed to the command socket.
\<close>

record client =
  cn_mtu :: nat
  cn_retries :: nat
  cn_pending :: "u32 list"
  cn_answers :: "u32 \<rightharpoonup> reply"
  cn_log :: "nat \<rightharpoonup> completion"
  cn_order :: "nat list"
  cn_waiters :: "(nat \<times> nat) list"
  cn_told :: "nat \<rightharpoonup> completion"
  cn_next_waiter :: nat
  cn_req_id :: u32
  cn_transfer_id :: u32
  cn_key_state :: u64
  cn_status :: "client_status option"
  cn_last_seq :: "(u64 \<times> u64) option"
  cn_seq_gaps :: u64
  cn_last_command_index :: int
  cn_skew :: "u8 option"
  cn_closed :: bool
  cn_sent :: "bytes list"
  cn_waits :: nat

definition connect :: "nat \<Rightarrow> nat \<Rightarrow> u64 \<Rightarrow> client_error + client" where
  "connect mtu retries seed =
     (if mtu < MIN_MTU then Inl Cl_Invalid
      else Inr \<lparr>cn_mtu = mtu, cn_retries = retries, cn_pending = [], cn_answers = Map.empty, cn_log = Map.empty, cn_order = [],
        cn_waiters = [], cn_told = Map.empty, cn_next_waiter = 0, cn_req_id = (ucast seed :: u32) OR 1, cn_transfer_id = ucast seed,
        cn_key_state = seed OR 1, cn_status = None, cn_last_seq = None, cn_seq_gaps = 0, cn_last_command_index = -1, cn_skew = None,
        cn_closed = False, cn_sent = [], cn_waits = 0\<rparr>)"

definition close_client :: "client \<Rightarrow> client" where
  "close_client c = (if cn_closed c then c else c\<lparr>cn_pending := [], cn_waiters := [], cn_closed := True\<rparr>)"

definition last_command_index :: "client \<Rightarrow> nat option" where
  "last_command_index c = (if 0 \<le> cn_last_command_index c then Some (nat (cn_last_command_index c)) else None)"

section \<open>Ids and keys\<close>

text \<open>The loop over \<open>fetch_add\<close>; \<open>None\<close> is the fuel spent.\<close>

fun next_req_id_loop :: "nat \<Rightarrow> client \<Rightarrow> (u32 \<times> client) option" where
  "next_req_id_loop 0 c = None"
| "next_req_id_loop (Suc fuel) c =
     (let i = cn_req_id c; c = c\<lparr>cn_req_id := i + 1\<rparr>
      in if i \<noteq> 0 \<and> i \<notin> set (cn_pending c) then Some (i, c) else next_req_id_loop fuel c)"

text \<open>Every pending id and zero are passed over at most once in a turn of the counter.\<close>

definition next_req_id :: "client \<Rightarrow> (u32 \<times> client) option" where
  "next_req_id c = next_req_id_loop (length (cn_pending c) + 2) c"

definition xorshift :: "u64 \<Rightarrow> u64" where
  "xorshift x =
     (let n = x XOR push_bit 13 x; n = n XOR drop_bit 7 n
      in n XOR push_bit 17 n)"

definition fresh_key :: "client \<Rightarrow> u64 \<times> client" where
  "fresh_key c = (let n = xorshift (cn_key_state c) in (n, c\<lparr>cn_key_state := n\<rparr>))"

text \<open>A command's datagrams. The chunk size is positive, so the splitter does not panic.\<close>

definition datagrams :: "bytes \<Rightarrow> u32 \<Rightarrow> client \<Rightarrow> bytes list \<times> client" where
  "datagrams data req_id c =
     (if length data \<le> cn_mtu c then ([data], c)
      else (case split_into_chunks req_id (cn_transfer_id c) data (max (cn_mtu c - CHUNK_OVERHEAD) 1) of
              Some cs \<Rightarrow> map encode_chunk cs
            | None \<Rightarrow> [], c\<lparr>cn_transfer_id := cn_transfer_id c + 1\<rparr>))"

section \<open>The receivers\<close>

definition record_completion :: "nat \<Rightarrow> completion \<Rightarrow> client \<Rightarrow> client" where
  "record_completion index fin c =
     (let order = (if cn_log c index = None then cn_order c @ [index] else cn_order c);
          drops = length order - COMPLETIONS_KEPT;
          log = fold (\<lambda>old m. m(old := None)) (take drops order) ((cn_log c)(index \<mapsto> fin));
          told = map snd (filter (\<lambda>w. fst w = index) (cn_waiters c))
      in c\<lparr>cn_log := log, cn_order := drop drops order, cn_waiters := filter (\<lambda>w. fst w \<noteq> index) (cn_waiters c),
           cn_told := fold (\<lambda>w m. m(w \<mapsto> fin)) told (cn_told c)\<rparr>)"

primrec reply_req_id :: "reply \<Rightarrow> u32 option" where
  "reply_req_id (Rp_Ok q index) = Some q"
| "reply_req_id (Rp_Error q e) = Some q"
| "reply_req_id (Rp_Response q r) = Some q"
| "reply_req_id (Rp_Complete index ok detail vd) = None"

text \<open>One datagram of \<open>reply_rx\<close>. An error nobody waits on is only logged.\<close>

definition on_reply :: "reply \<Rightarrow> client \<Rightarrow> client" where
  "on_reply rp c = (case rp of
       Rp_Complete index ok detail vd \<Rightarrow> record_completion index (ok, detail, vd) c
     | _ \<Rightarrow> (case reply_req_id rp of
          Some q \<Rightarrow> if q \<in> set (cn_pending c)
            then c\<lparr>cn_pending := filter (\<lambda>i. i \<noteq> q) (cn_pending c), cn_answers := (cn_answers c)(q \<mapsto> rp)\<rparr> else c
        | None \<Rightarrow> c))"

definition note_skew :: "u8 option \<Rightarrow> bool \<Rightarrow> client \<Rightarrow> client" where
  "note_skew daemon readable c =
     (let c = (if readable then c\<lparr>cn_skew := None\<rparr> else c) in
      case daemon of
        Some v \<Rightarrow> if v \<noteq> PROTO_VERSION \<and> \<not> readable then c\<lparr>cn_skew := Some v\<rparr> else c
      | None \<Rightarrow> c)"

definition seq_successor :: "u64 \<Rightarrow> u64" where
  "seq_successor w = (if w = - 1 then w else w + 1)"

text \<open>One datagram of \<open>status_rx\<close>: an unreadable one is seen by the version peeked from it.\<close>

datatype status_datagram = SD_Frame client_status | SD_Unreadable "u8 option"

definition on_status_frame :: "client_status \<Rightarrow> client \<Rightarrow> client" where
  "on_status_frame st c =
     (let c = note_skew (Some (ct_proto_version st)) True c;
          stale = (case cn_last_seq c of Some (session, prev) \<Rightarrow> session = ct_session_id st \<and> ct_seq st \<le> prev | None \<Rightarrow> False);
          restarted = (case cn_last_seq c of Some (session, prev) \<Rightarrow> session \<noteq> ct_session_id st | None \<Rightarrow> False);
          gap = (case cn_last_seq c of
            Some (session, prev) \<Rightarrow> if \<not> restarted \<and> seq_successor prev < ct_seq st then ct_seq st - prev - 1 else 0 | None \<Rightarrow> 0)
      in if stale then c
         else let c = c\<lparr>cn_seq_gaps := cn_seq_gaps c + gap, cn_last_seq := Some (ct_session_id st, ct_seq st), cn_status := Some st\<rparr>
              in if restarted then c\<lparr>cn_log := Map.empty, cn_order := [], cn_waiters := []\<rparr> else c)"

definition on_status_datagram :: "status_datagram \<Rightarrow> client \<Rightarrow> client" where
  "on_status_datagram d c = (case d of SD_Frame st \<Rightarrow> on_status_frame st c | SD_Unreadable v \<Rightarrow> note_skew v False c)"

text \<open>What can happen to the client while a call awaits.\<close>

datatype arrival = Ar_Reply reply | Ar_Undecodable | Ar_Status status_datagram | Ar_Close

primrec on_arrival :: "arrival \<Rightarrow> client \<Rightarrow> client" where
  "on_arrival (Ar_Reply rp) c = (if cn_closed c then c else on_reply rp c)"
| "on_arrival Ar_Undecodable c = c"
| "on_arrival (Ar_Status d) c = (if cn_closed c then c else on_status_datagram d c)"
| "on_arrival Ar_Close c = close_client c"

section \<open>Requests\<close>

text \<open>
  The world's part of a call: whether the socket accepts the datagram, what happens while it is
  sent (both by the number of datagrams sent before), and what happens during each wait (by its
  number).
\<close>

record client_env =
  cv_send :: "nat \<Rightarrow> bool"
  cv_meanwhile :: "nat \<Rightarrow> arrival list"
  cv_arrivals :: "nat \<Rightarrow> arrival list"

fun send_each :: "client_env \<Rightarrow> bytes list \<Rightarrow> client \<Rightarrow> (client_error + unit) \<times> client" where
  "send_each en [] c = (Inr (), c)"
| "send_each en (d # ds) c =
     (if cn_closed c then (Inl Cl_Closed, c)
      else let n = length (cn_sent c) in
        if cv_send en n then send_each en ds (fold on_arrival (cv_meanwhile en n) (c\<lparr>cn_sent := cn_sent c @ [d]\<rparr>)) else (Inl Cl_Io, c))"

text \<open>The request's channel, polled after every arrival: answered, closed, or still open when the time is up.\<close>

fun await_reply :: "u32 \<Rightarrow> arrival list \<Rightarrow> client \<Rightarrow> (client_error + reply option) \<times> client" where
  "await_reply q evs c = (case cn_answers c q of
       Some rp \<Rightarrow> (Inr (Some rp), c)
     | None \<Rightarrow> if q \<notin> set (cn_pending c) then (Inl Cl_Closed, c)
         else (case evs of [] \<Rightarrow> (Inr None, c) | e # evs \<Rightarrow> await_reply q evs (on_arrival e c)))"

declare await_reply.simps [simp del]

definition timed_wait :: "client_env \<Rightarrow> u32 \<Rightarrow> client \<Rightarrow> (client_error + reply option) \<times> client" where
  "timed_wait en q c = await_reply q (cv_arrivals en (cn_waits c)) (c\<lparr>cn_waits := Suc (cn_waits c)\<rparr>)"

text \<open>The attempts. The backoff before another one, whose jitter draws a key, still takes the answer.\<close>

fun attempts_loop :: "client_env \<Rightarrow> bytes list \<Rightarrow> u32 \<Rightarrow> nat \<Rightarrow> client \<Rightarrow> (client_error + reply option) \<times> client" where
  "attempts_loop en ds q 0 c = (Inr None, c)"
| "attempts_loop en ds q (Suc left) c =
     (case send_each en ds c of
        (Inl e, c) \<Rightarrow> (Inl e, c)
      | (Inr _, c) \<Rightarrow>
          (case timed_wait en q c of
             (Inr None, c) \<Rightarrow>
               (if left = 0 then (Inr None, c)
                else case timed_wait en q (snd (fresh_key c)) of
                  (Inr None, c) \<Rightarrow> attempts_loop en ds q left c
                | answered \<Rightarrow> answered)
           | answered \<Rightarrow> answered))"

text \<open>The request leaves the pending table however the call ends (\<open>PendingRequest::drop\<close>).\<close>

definition roundtrip :: "client_env \<Rightarrow> bytes list \<Rightarrow> u32 \<Rightarrow> nat \<Rightarrow> client \<Rightarrow> (client_error + reply option) \<times> client" where
  "roundtrip en ds q attempts c =
     (if cn_closed c then (Inl Cl_Closed, c)
      else case attempts_loop en ds q attempts
               (c\<lparr>cn_pending := q # filter (\<lambda>i. i \<noteq> q) (cn_pending c), cn_answers := (cn_answers c)(q := None)\<rparr>) of
        (r, c) \<Rightarrow> (r, c\<lparr>cn_pending := filter (\<lambda>i. i \<noteq> q) (cn_pending c)\<rparr>))"

definition client_encode :: "command \<Rightarrow> u32 \<Rightarrow> client_error + bytes" where
  "client_encode cmd q = (case encode_command cmd q of
       Inl (Validation what) \<Rightarrow> Inl (Cl_Robot (make_error EC_CommValidationError UNATTRIBUTED))
     | Inl e \<Rightarrow> Inl (Cl_Decode e)
     | Inr data \<Rightarrow> Inr data)"

text \<open>A command sent and its reply awaited; \<open>None\<close> is a call that does not return (no request id is free).\<close>

definition call :: "client_env \<Rightarrow> command \<Rightarrow> nat \<Rightarrow> client \<Rightarrow> ((client_error + reply option) \<times> client) option" where
  "call en cmd attempts c = (case next_req_id c of
       None \<Rightarrow> None
     | Some (q, c) \<Rightarrow> Some (case client_encode cmd q of
          Inl e \<Rightarrow> (Inl e, c)
        | Inr data \<Rightarrow> (case datagrams data q c of (ds, c) \<Rightarrow> roundtrip en ds q attempts c)))"

definition query_answer :: "reply option \<Rightarrow> client_error + query_result" where
  "query_answer r = (case r of
       Some (Rp_Error q e) \<Rightarrow> Inl (Cl_Robot e)
     | Some (Rp_Response q res) \<Rightarrow> Inr res
     | _ \<Rightarrow> Inl Cl_Unreachable)"

definition client_query :: "client_env \<Rightarrow> command \<Rightarrow> client \<Rightarrow> ((client_error + query_result) \<times> client) option" where
  "client_query en cmd c = map_option (\<lambda>(r, c). (bind_result r query_answer, c)) (call en cmd (1 + cn_retries c) c)"

definition system_answer :: "reply option \<Rightarrow> client_error + ack" where
  "system_answer r = (case r of None \<Rightarrow> Inr Unconfirmed | Some (Rp_Error q e) \<Rightarrow> Inl (Cl_Robot e) | Some rp \<Rightarrow> Inr Confirmed)"

definition client_system :: "client_env \<Rightarrow> command \<Rightarrow> client \<Rightarrow> ((client_error + ack) \<times> client) option" where
  "client_system en cmd c = map_option (\<lambda>(r, c). (bind_result r system_answer, c)) (call en cmd 1 c)"

definition queued_answer :: "reply option \<Rightarrow> client_error + nat option" where
  "queued_answer r = (case r of
       Some (Rp_Error q e) \<Rightarrow> Inl (Cl_Robot e)
     | Some (Rp_Ok q (Some index)) \<Rightarrow> Inr (Some index)
     | _ \<Rightarrow> Inr None)"

definition client_queued :: "client_env \<Rightarrow> command \<Rightarrow> client \<Rightarrow> ((client_error + nat option) \<times> client) option" where
  "client_queued en cmd c = map_option (\<lambda>(r, c). case bind_result r queued_answer of
       Inr (Some index) \<Rightarrow> (Inr (Some index), c\<lparr>cn_last_command_index := int index\<rparr>)
     | res \<Rightarrow> (res, c)) (call en cmd (1 + cn_retries c) c)"

definition fire :: "client_env \<Rightarrow> command \<Rightarrow> client \<Rightarrow> ((client_error + unit) \<times> client) option" where
  "fire en cmd c =
     (if cn_closed c then Some (Inl Cl_Closed, c)
      else case next_req_id c of
        None \<Rightarrow> None
      | Some (q, c) \<Rightarrow> Some (case client_encode cmd q of
           Inl e \<Rightarrow> (Inl e, c)
         | Inr data \<Rightarrow> if cv_send en (length (cn_sent c)) then (Inr (), c\<lparr>cn_sent := cn_sent c @ [data]\<rparr>) else (Inl Cl_Io, c)))"

section \<open>Waiting for a queued command\<close>

definition protocol_mismatch :: "client \<Rightarrow> (u8 \<times> u8) option" where
  "protocol_mismatch c = map_option (\<lambda>daemon. (daemon, PROTO_VERSION)) (cn_skew c)"

definition blocking_error :: "client_status \<Rightarrow> nat \<Rightarrow> wire_error option" where
  "blocking_error st index = (case ct_error st of
       None \<Rightarrow> None
     | Some e \<Rightarrow> if int index < we_command_index e then None
         else if int index \<le> ct_accepted_index st then Some e else None)"

definition restarted_from :: "client_status option \<Rightarrow> client_status \<Rightarrow> bool" where
  "restarted_from since st = (case since of Some s0 \<Rightarrow> ct_session_id st \<noteq> ct_session_id s0 | None \<Rightarrow> False)"

text \<open>One poll of \<open>wait_status\<close>: an answer, or nothing yet.\<close>

definition poll_status :: "client_status option \<Rightarrow> nat \<Rightarrow> client \<Rightarrow> bool option" where
  "poll_status since index c =
     (if protocol_mismatch c \<noteq> None then Some False
      else if (case cn_status c of Some st \<Rightarrow> restarted_from since st \<or> int index \<le> ct_completed_index st \<or> blocking_error st index \<noteq> None
               | None \<Rightarrow> False) then Some True
      else if cn_closed c then Some False
      else None)"

text \<open>One poll of the waiter's channel: told, closed, or nothing yet.\<close>

definition poll_waiter :: "nat \<Rightarrow> nat \<Rightarrow> client \<Rightarrow> completion option option" where
  "poll_waiter index w c = (case cn_told c w of
       Some fin \<Rightarrow> Some (Some fin)
     | None \<Rightarrow> if (index, w) \<in> set (cn_waiters c) then None else Some None)"

datatype race_winner = Won_Channel "completion option" | Won_Status bool

text \<open>
  \<open>select!\<close> polls its branches in either order. What arrives between two polls, and the order of
  the next one, are the world's; an exhausted list is the timeout of \<open>wait_status\<close>.
\<close>

fun race :: "client_status option \<Rightarrow> nat \<Rightarrow> nat \<Rightarrow> (bool \<times> arrival list) list \<Rightarrow> bool \<Rightarrow> client \<Rightarrow> race_winner \<times> client" where
  "race since index w polls channel_first c = (case (poll_waiter index w c, poll_status since index c) of
       (Some got, None) \<Rightarrow> (Won_Channel got, c)
     | (Some got, Some hit) \<Rightarrow> (if channel_first then Won_Channel got else Won_Status hit, c)
     | (None, Some hit) \<Rightarrow> (Won_Status hit, c)
     | (None, None) \<Rightarrow> (case polls of
          [] \<Rightarrow> (Won_Status False, c)
        | (order, evs) # polls \<Rightarrow> race since index w polls order (fold on_arrival evs c)))"

declare race.simps [simp del]

definition recover_completion :: "client_env \<Rightarrow> nat \<Rightarrow> client \<Rightarrow> (completion option \<times> client) option" where
  "recover_completion en index c = map_option (\<lambda>(r, c). case r of
       Inr (QR_CommandCompletion i True ok detail vd) \<Rightarrow> (Some (ok, detail, vd), record_completion index (ok, detail, vd) c)
     | _ \<Rightarrow> (None, c)) (client_query en (C_CommandCompletion (of_nat index)) c)"

record wait_env =
  wv_polls :: "(bool \<times> arrival list) list"
  wv_channel_first :: bool
  wv_grace :: "arrival list"
  wv_query :: client_env

definition race_completion :: "wait_env \<Rightarrow> nat \<Rightarrow> nat \<Rightarrow> client \<Rightarrow> ((client_error + completion option) \<times> client) option" where
  "race_completion en index w c =
     (let since = cn_status c in
      case race since index w (wv_polls en) (wv_channel_first en) c of
        (Won_Channel (Some fin), c) \<Rightarrow> Some (Inr (Some fin), c)
      | (Won_Channel None, c) \<Rightarrow> Some ((case cn_status c of
            Some st \<Rightarrow> if restarted_from since st then Inl (Cl_SessionChanged index) else Inr None
          | None \<Rightarrow> Inr None), c)
      | (Won_Status False, c) \<Rightarrow> Some ((case protocol_mismatch c of
            Some (daemon, own) \<Rightarrow> Inl (Cl_ProtocolMismatch daemon own) | None \<Rightarrow> Inr None), c)
      | (Won_Status True, c) \<Rightarrow>
          (case (case cn_status c of
                   Some st \<Rightarrow> if restarted_from since st then Some (Cl_SessionChanged index) else map_option Cl_Robot (blocking_error st index)
                 | None \<Rightarrow> None) of
             Some e \<Rightarrow> Some (Inl e, c)
           | None \<Rightarrow>
               (let c = fold on_arrival (wv_grace en) c in
                case poll_waiter index w c of
                  Some (Some fin) \<Rightarrow> Some (Inr (Some fin), c)
                | _ \<Rightarrow> map_option (\<lambda>(r, c). (Inr r, c)) (recover_completion (wv_query en) index c))))"

text \<open>The waiter is registered unless the answer is in, and its entry never outlives the wait.\<close>

definition await_completion :: "wait_env \<Rightarrow> nat \<Rightarrow> client \<Rightarrow> ((client_error + completion option) \<times> client) option" where
  "await_completion en index c = (case cn_log c index of
       Some fin \<Rightarrow> Some (Inr (Some fin), c)
     | None \<Rightarrow>
         (let w = cn_next_waiter c; c = c\<lparr>cn_waiters := cn_waiters c @ [(index, w)], cn_next_waiter := Suc w\<rparr>
          in map_option (\<lambda>(r, c). (r, c\<lparr>cn_waiters := filter (\<lambda>x. x \<noteq> (index, w)) (cn_waiters c)\<rparr>)) (race_completion en index w c)))"

definition completion_result :: "nat \<Rightarrow> completion option \<Rightarrow> client_error + bool" where
  "completion_result index fin = (case fin of
       None \<Rightarrow> Inr False
     | Some (True, _, _) \<Rightarrow> Inr True
     | Some (False, Some detail, _) \<Rightarrow> Inl (Cl_Robot detail)
     | Some (False, None, _) \<Rightarrow> Inl (Cl_Failed index))"

definition wait_command :: "wait_env \<Rightarrow> nat \<Rightarrow> client \<Rightarrow> ((client_error + bool) \<times> client) option" where
  "wait_command en index c = (case cn_log c index of
       Some fin \<Rightarrow> Some (completion_result index (Some fin), c)
     | None \<Rightarrow> map_option (\<lambda>(r, c). (bind_result r (completion_result index), c)) (await_completion en index c))"

definition command_verdict :: "nat \<Rightarrow> client \<Rightarrow> u8 option" where
  "command_verdict index c = Option.bind (cn_log c index) (\<lambda>(_, _, v). v)"

end
