(* ===== verification/Client_Props.thy ===== *)
theory Client_Props
  imports Client Chunk_Props "HOL-Library.Sublist"
begin

text \<open>
  Properties of the client: ids are free when they are taken, a call sends no more than its
  attempts allow and answers with the reply to its own request, the completion log stays
  consistent, and a wait reports success only on a record of it.
\<close>

section \<open>Request ids\<close>

lemma next_req_id_loop_good:
  "next_req_id_loop fuel c = Some (i, c') \<Longrightarrow> i \<noteq> 0 \<and> i \<notin> set (cn_pending c) \<and> (\<exists>v. c' = c\<lparr>cn_req_id := v\<rparr>)"
proof (induction fuel arbitrary: c)
  case (Suc fuel)
  then show ?case by (fastforce simp: Let_def split: if_splits)
qed simp

lemma next_req_id_loop_found:
  "j < fuel \<Longrightarrow> cn_req_id c + of_nat j \<noteq> 0 \<Longrightarrow> cn_req_id c + of_nat j \<notin> set (cn_pending c) \<Longrightarrow> next_req_id_loop fuel c \<noteq> None"
proof (induction fuel arbitrary: c j)
  case (Suc fuel)
  show ?case
  proof (cases j)
    case 0
    with Suc.prems show ?thesis by (simp add: Let_def)
  next
    case (Suc j')
    with Suc.prems Suc.IH [of j' "c\<lparr>cn_req_id := cn_req_id c + 1\<rparr>"] show ?thesis by (simp add: Let_def ac_simps)
  qed
qed simp

text \<open>The ids tried are different ones, more than are taken.\<close>

lemma next_req_id_found:
  assumes "length (cn_pending c) + 2 \<le> 2 ^ 32"
  obtains i c' where "next_req_id c = Some (i, c')" "i \<noteq> 0" "i \<notin> set (cn_pending c)" "\<exists>v. c' = c\<lparr>cn_req_id := v\<rparr>"
proof -
  define n where "n = length (cn_pending c) + 2"
  let ?f = "\<lambda>j. cn_req_id c + of_nat j"
  have "inj_on ?f {..<n}"
  proof (rule inj_onI)
    fix j k assume jk: "j \<in> {..<n}" "k \<in> {..<n}" "?f j = ?f k"
    then have "(of_nat j :: u32) = of_nat k" by simp
    then have "unat (of_nat j :: u32) = unat (of_nat k :: u32)" by simp
    then show "j = k" using jk assms by (simp add: n_def unat_of_nat)
  qed
  then have "card (?f ` {..<n}) = n" by (simp add: card_image)
  moreover have "card (insert 0 (set (cn_pending c))) \<le> Suc (length (cn_pending c))"
    by (metis List.finite_set card_insert_le_m1 card_length diff_Suc_1 le_SucI not_less_eq_eq zero_less_Suc)
  ultimately have "\<not> ?f ` {..<n} \<subseteq> insert 0 (set (cn_pending c))"
    using card_mono [of "insert 0 (set (cn_pending c))" "?f ` {..<n}"] by (auto simp: n_def)
  then obtain j where "j < n" "?f j \<noteq> 0" "?f j \<notin> set (cn_pending c)" by blast
  from next_req_id_loop_found [OF this] obtain i c' where "next_req_id c = Some (i, c')" by (auto simp: next_req_id_def n_def)
  with next_req_id_loop_good that show thesis unfolding next_req_id_def by blast
qed

section \<open>What a call keeps\<close>

text \<open>
  A property of the client that the arrivals of a kind keep, and that looks at neither the
  datagrams sent nor the counters of waits and keys, holds through every wait of a call.
\<close>

locale client_keeps =
  fixes P :: "client \<Rightarrow> bool" and fine :: "arrival \<Rightarrow> bool"
  assumes keeps_arrival: "P c \<Longrightarrow> fine e \<Longrightarrow> P (on_arrival e c)"
    and keeps_counters [simp]: "P (c\<lparr>cn_sent := s\<rparr>) = P c" "P (c\<lparr>cn_waits := n\<rparr>) = P c" "P (c\<lparr>cn_key_state := k\<rparr>) = P c"
begin

lemma keeps_arrivals: "P c \<Longrightarrow> list_all fine evs \<Longrightarrow> P (fold on_arrival evs c)"
  by (induction evs arbitrary: c) (auto intro: keeps_arrival)

definition fine_env :: "client_env \<Rightarrow> bool" where
  "fine_env en \<longleftrightarrow> (\<forall>n. list_all fine (cv_meanwhile en n) \<and> list_all fine (cv_arrivals en n))"

lemma keeps_send: "send_each en ds c = (r, c') \<Longrightarrow> P c \<Longrightarrow> fine_env en \<Longrightarrow> P c'"
proof (induction en ds c rule: send_each.induct)
  case (2 en d ds c)
  then show ?case by (auto simp: Let_def fine_env_def keeps_arrivals split: if_splits)
qed simp

lemma keeps_await: "await_reply q evs c = (r, c') \<Longrightarrow> P c \<Longrightarrow> list_all fine evs \<Longrightarrow> P c'"
proof (induction q evs c rule: await_reply.induct)
  case (1 q evs c)
  then show ?case by (subst (asm) await_reply.simps) (auto simp: keeps_arrival split: option.splits if_splits list.splits)
qed

lemma keeps_wait: "timed_wait en q c = (r, c') \<Longrightarrow> P c \<Longrightarrow> fine_env en \<Longrightarrow> P c'"
  using keeps_await [of q "cv_arrivals en (cn_waits c)" "c\<lparr>cn_waits := Suc (cn_waits c)\<rparr>" r c'] by (simp add: timed_wait_def fine_env_def)

lemma keeps_fresh_key [simp]: "P (snd (fresh_key c)) = P c"
  by (simp add: fresh_key_def Let_def)

lemma keeps_attempts: "attempts_loop en ds q n c = (r, c') \<Longrightarrow> P c \<Longrightarrow> fine_env en \<Longrightarrow> P c'"
proof (induction en ds q n c rule: attempts_loop.induct)
  case (2 en ds q left c)
  obtain r1 c1 where s: "send_each en ds c = (r1, c1)" by (metis prod.exhaust)
  have P1: "P c1" using keeps_send [OF s] 2(3,4) by blast
  obtain r2 c2 where w: "timed_wait en q c1 = (r2, c2)" by (metis prod.exhaust)
  have P2: "P c2" using keeps_wait [OF w P1] 2(4) by blast
  obtain r3 c3 where b: "timed_wait en q (snd (fresh_key c2)) = (r3, c3)" by (metis prod.exhaust)
  have P3: "P c3" using keeps_wait [OF b] P2 2(4) by simp
  from 2 s w b P1 P2 P3 show ?case by (auto split: sum.splits option.splits if_splits)
qed simp

end

section \<open>The datagrams of a call\<close>

lemma arrival_frame [simp]:
  "cn_sent (on_arrival e c) = cn_sent c" "cn_mtu (on_arrival e c) = cn_mtu c" "cn_retries (on_arrival e c) = cn_retries c"
  "cn_next_waiter (on_arrival e c) = cn_next_waiter c"
  by (cases e; auto simp: on_reply_def record_completion_def on_status_datagram_def on_status_frame_def note_skew_def close_client_def Let_def
      split: reply.splits status_datagram.splits option.splits)+

lemma arrivals_frame [simp]:
  "cn_sent (fold on_arrival evs c) = cn_sent c" "cn_next_waiter (fold on_arrival evs c) = cn_next_waiter c"
  by (induction evs arbitrary: c) simp_all

lemma send_each_sent:
  "send_each en ds c = (r, c') \<Longrightarrow> \<exists>k \<le> length ds. cn_sent c' = cn_sent c @ take k ds \<and> (r = Inr () \<longrightarrow> k = length ds)"
proof (induction en ds c rule: send_each.induct)
  case (2 en d ds c)
  show ?case
  proof (cases "cn_closed c \<or> \<not> cv_send en (length (cn_sent c))")
    case True
    with 2(2) show ?thesis by (intro exI [of _ 0]) (auto simp: Let_def split: if_splits)
  next
    case False
    with 2 obtain k where "k \<le> length ds" "cn_sent c' = (cn_sent c @ [d]) @ take k ds" "r = Inr () \<longrightarrow> k = length ds"
      by (auto simp: Let_def)
    then show ?thesis by (intro exI [of _ "Suc k"]) simp
  qed
qed simp

lemma await_sent: "await_reply q evs c = (r, c') \<Longrightarrow> cn_sent c' = cn_sent c"
proof (induction q evs c rule: await_reply.induct)
  case (1 q evs c)
  then show ?case by (subst (asm) await_reply.simps) (auto split: option.splits if_splits list.splits)
qed

lemma wait_sent: "timed_wait en q c = (r, c') \<Longrightarrow> cn_sent c' = cn_sent c"
  using await_sent by (force simp: timed_wait_def)

lemma fresh_key_sent [simp]: "cn_sent (snd (fresh_key c)) = cn_sent c"
  by (simp add: fresh_key_def Let_def)

lemma attempts_sent: "attempts_loop en ds q n c = (r, c') \<Longrightarrow> \<exists>sent. cn_sent c' = cn_sent c @ sent \<and> prefix sent (concat (replicate n ds))"
proof (induction en ds q n c rule: attempts_loop.induct)
  case (2 en ds q left c)
  obtain r1 c1 where s: "send_each en ds c = (r1, c1)" by (metis prod.exhaust)
  from send_each_sent [OF s] obtain k where k: "cn_sent c1 = cn_sent c @ take k ds" "r1 = Inr () \<longrightarrow> k = length ds" by blast
  have pre: "prefix (take k ds) (concat (replicate (Suc left) ds))" by (simp add: take_is_prefix prefix_prefix)
  show ?case
  proof (cases "\<exists>c2 c3. r1 = Inr () \<and> timed_wait en q c1 = (Inr None, c2) \<and> left \<noteq> 0 \<and> timed_wait en q (snd (fresh_key c2)) = (Inr None, c3)")
    case True
    then obtain c2 c3 where w: "r1 = Inr ()" "timed_wait en q c1 = (Inr None, c2)" "left \<noteq> 0"
      "timed_wait en q (snd (fresh_key c2)) = (Inr None, c3)" by blast
    with 2(2) s have "attempts_loop en ds q left c3 = (r, c')" by simp
    with 2(1) s w obtain sent where "cn_sent c' = cn_sent c3 @ sent" "prefix sent (concat (replicate left ds))" by force
    moreover have "cn_sent c3 = cn_sent c @ ds" using wait_sent [OF w(2)] wait_sent [OF w(4)] k w(1) by simp
    ultimately show ?thesis by (intro exI [of _ "ds @ sent"]) simp
  next
    case False
    with 2(2) s have "cn_sent c' = cn_sent c1"
      by (auto dest!: wait_sent split: sum.splits option.splits prod.splits if_splits)
    with k(1) pre show ?thesis by auto
  qed
qed simp

section \<open>The answer of a call\<close>

text \<open>Whatever the request's channel holds arrived as a reply to it.\<close>

definition answered_from :: "arrival set \<Rightarrow> u32 \<Rightarrow> client \<Rightarrow> bool" where
  "answered_from A q c \<longleftrightarrow> (\<forall>rp. cn_answers c q = Some rp \<longrightarrow> Ar_Reply rp \<in> A \<and> reply_req_id rp = Some q)"

interpretation answer: client_keeps "answered_from A q" "\<lambda>e. e \<in> A" for A q
proof unfold_locales
  show "answered_from A q (on_arrival e c)" if "answered_from A q c" "e \<in> A" for c e
    using that by (cases e) (auto simp: answered_from_def on_reply_def record_completion_def on_status_datagram_def on_status_frame_def
        note_skew_def close_client_def Let_def split: reply.splits status_datagram.splits option.splits if_splits)
qed (simp_all add: answered_from_def)

lemma await_answer: "await_reply q evs c = (Inr (Some rp), c') \<Longrightarrow> cn_answers c' q = Some rp"
proof (induction q evs c rule: await_reply.induct)
  case (1 q evs c)
  then show ?case by (subst (asm) await_reply.simps) (auto split: option.splits if_splits list.splits)
qed

lemma attempts_answer: "attempts_loop en ds q n c = (Inr (Some rp), c') \<Longrightarrow> cn_answers c' q = Some rp"
proof (induction en ds q n c rule: attempts_loop.induct)
  case (2 en ds q left c)
  then show ?case by (auto simp: timed_wait_def dest: await_answer split: sum.splits option.splits prod.splits if_splits)
qed simp

definition arrivals_of :: "client_env \<Rightarrow> arrival set" where
  "arrivals_of en = (\<Union>n. set (cv_meanwhile en n) \<union> set (cv_arrivals en n))"

lemma fine_arrivals: "answer.fine_env (arrivals_of en) en"
  unfolding answer.fine_env_def by (auto simp: arrivals_of_def list_all_iff)

lemma roundtrip_answer:
  assumes "roundtrip en ds q n c = (Inr (Some rp), c')"
  shows "Ar_Reply rp \<in> arrivals_of en \<and> reply_req_id rp = Some q"
proof -
  define c0 where "c0 = c\<lparr>cn_pending := q # filter (\<lambda>i. i \<noteq> q) (cn_pending c), cn_answers := (cn_answers c)(q := None)\<rparr>"
  from assms obtain c1 where a: "attempts_loop en ds q n c0 = (Inr (Some rp), c1)"
    by (auto simp: roundtrip_def c0_def split: if_splits prod.splits)
  have "answered_from (arrivals_of en) q c0" by (simp add: c0_def answered_from_def)
  from answer.keeps_attempts [OF a this fine_arrivals] attempts_answer [OF a] show ?thesis by (simp add: answered_from_def)
qed

lemma roundtrip_sent: "roundtrip en ds q n c = (r, c') \<Longrightarrow> \<exists>sent. cn_sent c' = cn_sent c @ sent \<and> prefix sent (concat (replicate n ds))"
  using attempts_sent [of en ds q n] by (fastforce simp: roundtrip_def split: if_splits prod.splits)

lemma roundtrip_released: "roundtrip en ds q n c = (r, c') \<Longrightarrow> \<not> cn_closed c \<Longrightarrow> q \<notin> set (cn_pending c')"
  by (auto simp: roundtrip_def split: prod.splits)

section \<open>Datagrams fit the link\<close>


lemma length_w_uint:
  "length (w_uint (ucast (x :: u16))) \<le> 3" "length (w_uint (ucast (y :: u32))) \<le> 5"
proof -
  have "unat (ucast x :: u64) \<le> 0xFFFF" using unat_lt2p [of x] by (simp add: unat_ucast_up_u16)
  then show "length (w_uint (ucast x)) \<le> 3" by (simp add: w_uint_def)
  have "unat (ucast y :: u64) = unat y" by (rule unat_ucast_up_u32)
  then have "unat (ucast y :: u64) \<le> 0xFFFFFFFF" using unat_lt2p [of y] by simp
  then show "length (w_uint (ucast y)) \<le> 5" by (simp add: w_uint_def)
qed

text \<open>The envelope of a chunk takes no more than the overhead the client sets aside.\<close>

lemma length_encode_chunk: "length (encode_chunk c) \<le> length (ck_data c) + CHUNK_OVERHEAD"
proof -
  have "length (w_array 6) = 1" by (simp add: w_array_def)
  moreover have "length (w_uint (msg_type_val Msg_Chunk)) \<le> 2" by (simp add: w_uint_def)
  moreover have "length (w_bin (ck_data c)) \<le> length (ck_data c) + 5" by (simp add: w_bin_def Let_def)
  ultimately show ?thesis
    using length_w_uint(2) [of "ck_req_id c"] length_w_uint(2) [of "ck_transfer_id c"] length_w_uint(1) [of "ck_index c"] length_w_uint(1) [of "ck_total c"]
    by (simp add: encode_chunk_def CHUNK_OVERHEAD_def)
qed

lemma chunks_of_length: "0 < n \<Longrightarrow> p \<in> set (chunks_of n bs) \<Longrightarrow> length p \<le> n"
proof (induction n bs rule: chunks_of.induct)
  case (1 n bs)
  from 1(3) show ?case by (subst (asm) chunks_of.simps) (use 1(1,2) in \<open>auto split: if_splits\<close>)
qed

lemma datagrams_fit:
  assumes "MIN_MTU \<le> cn_mtu c" and "datagrams data q c = (ds, c')" and "d \<in> set ds"
  shows "length d \<le> cn_mtu c"
proof (cases "length data \<le> cn_mtu c")
  case True
  with assms show ?thesis by (auto simp: datagrams_def)
next
  case False
  define n where "n = cn_mtu c - CHUNK_OVERHEAD"
  have n: "0 < n" "n + CHUNK_OVERHEAD = cn_mtu c" using assms(1) by (simp_all add: n_def MIN_MTU_def CHUNK_OVERHEAD_def)
  from False n(1) assms(2,3) obtain k where d: "d = encode_chunk k" "ck_data k \<in> set (chunks_of n data)"
    by (auto simp: datagrams_def split_into_chunks_def n_def [symmetric] Let_def in_set_enumerate_eq split: if_splits)
  from length_encode_chunk [of k] chunks_of_length [OF n(1) d(2)] n(2) show ?thesis by (simp add: d(1))
qed

text \<open>
  C18. A call is confined to its attempts and its own reply. As long as ids are left, it ends. What
  it hands to the socket is a beginning of its command's datagrams repeated once per attempt, each
  within the link's MTU and every copy the same bytes, so that a retransmission carries the same
  request id and idempotency key; afterwards its entry is gone from the pending table. A reply it
  returns arrived during the call and bears the call's request id, which no other request was
  waiting under when it was taken.
\<close>

theorem call_confined:
  assumes "length (cn_pending c) + 2 \<le> 2 ^ 32" and "MIN_MTU \<le> cn_mtu c"
  shows "\<exists>q r c' sent. call en cmd n c = Some (r, c') \<and> q \<noteq> 0 \<and> q \<notin> set (cn_pending c) \<and> cn_sent c' = cn_sent c @ sent
    \<and> (case client_encode cmd q of
         Inl e \<Rightarrow> r = Inl e \<and> sent = []
       | Inr data \<Rightarrow> (\<exists>ds. ds = fst (datagrams data q c) \<and> prefix sent (concat (replicate n ds)) \<and> (\<forall>d \<in> set ds. length d \<le> cn_mtu c)))
    \<and> (\<not> cn_closed c \<longrightarrow> q \<notin> set (cn_pending c'))
    \<and> (\<forall>rp. r = Inr (Some rp) \<longrightarrow> Ar_Reply rp \<in> arrivals_of en \<and> reply_req_id rp = Some q)"
proof -
  obtain q v where q: "next_req_id c = Some (q, c\<lparr>cn_req_id := v\<rparr>)" "q \<noteq> 0" "q \<notin> set (cn_pending c)"
    using next_req_id_found [OF assms(1)] by metis
  show ?thesis
  proof (cases "client_encode cmd q")
    case (Inl e)
    with q show ?thesis by (intro exI [of _ q] exI [of _ "Inl e"] exI [of _ "c\<lparr>cn_req_id := v\<rparr>"] exI [of _ "[]"]) (simp add: call_def)
  next
    case (Inr data)
    obtain ds c1 where d: "datagrams data q (c\<lparr>cn_req_id := v\<rparr>) = (ds, c1)" by (metis prod.exhaust)
    then have c1: "cn_sent c1 = cn_sent c" "cn_closed c1 = cn_closed c" "ds = fst (datagrams data q c)"
      by (auto simp: datagrams_def split: if_splits)
    obtain r c' where r: "roundtrip en ds q n c1 = (r, c')" by (metis prod.exhaust)
    from roundtrip_sent [OF r] c1 obtain sent where sent: "cn_sent c' = cn_sent c @ sent" "prefix sent (concat (replicate n ds))" by auto
    have "\<forall>d \<in> set ds. length d \<le> cn_mtu c" using datagrams_fit [OF _ d] assms(2) by simp
    moreover have "call en cmd n c = Some (r, c')" using q Inr d r by (simp add: call_def)
    moreover have "\<forall>rp. r = Inr (Some rp) \<longrightarrow> Ar_Reply rp \<in> arrivals_of en \<and> reply_req_id rp = Some q" using roundtrip_answer r by blast
    moreover have "\<not> cn_closed c \<longrightarrow> q \<notin> set (cn_pending c')" using roundtrip_released [OF r] c1 by simp
    ultimately show ?thesis using q sent Inr c1(3) by (intro exI [of _ q] exI [of _ r] exI [of _ c'] exI [of _ sent]) simp
  qed
qed

lemma call_sent:
  assumes "call en cmd n c = Some (r, c')"
  obtains q sent where "cn_sent c' = cn_sent c @ sent" and "case client_encode cmd q of Inl e \<Rightarrow> sent = []
    | Inr data \<Rightarrow> prefix sent (concat (replicate n (fst (datagrams data q c))))"
proof -
  from assms obtain q c0 where q0: "next_req_id c = Some (q, c0)" by (auto simp: call_def split: option.splits)
  with next_req_id_loop_good [of "length (cn_pending c) + 2" c q c0] obtain v where q: "next_req_id c = Some (q, c\<lparr>cn_req_id := v\<rparr>)"
    by (auto simp: next_req_id_def)
  show thesis
  proof (cases "client_encode cmd q")
    case (Inl e)
    with assms q that [of "[]" q] show thesis by (auto simp: call_def)
  next
    case (Inr data)
    obtain ds c1 where d: "datagrams data q (c\<lparr>cn_req_id := v\<rparr>) = (ds, c1)" by (metis prod.exhaust)
    then have "cn_sent c1 = cn_sent c" "ds = fst (datagrams data q c)" by (auto simp: datagrams_def split: if_splits)
    moreover have "roundtrip en ds q n c1 = (r, c')" using assms q Inr d by (simp add: call_def)
    from roundtrip_sent [OF this] obtain sent where "cn_sent c' = cn_sent c1 @ sent" "prefix sent (concat (replicate n ds))" by blast
    ultimately show thesis using that [of sent q] Inr by simp
  qed
qed

lemma client_queued_call:
  assumes "client_queued en cmd c = Some (r, c')"
  obtains r1 c1 where "call en cmd (1 + cn_retries c) c = Some (r1, c1)" and "c' = c1 \<or> (\<exists>i. c' = c1\<lparr>cn_last_command_index := i\<rparr>)"
proof -
  from assms obtain r1 c1 where call: "call en cmd (1 + cn_retries c) c = Some (r1, c1)"
    and res: "(case bind_result r1 queued_answer of Inr (Some index) \<Rightarrow> (Inr (Some index), c1\<lparr>cn_last_command_index := int index\<rparr>)
      | res \<Rightarrow> (res, c1)) = (r, c')" by (auto simp: client_queued_def)
  from res have "c' = c1 \<or> (\<exists>i. c' = c1\<lparr>cn_last_command_index := i\<rparr>)" by (auto split: sum.splits option.splits)
  with call show thesis by (rule that)
qed

section \<open>The completion log\<close>

text \<open>The log's keys are the indexes in the order they were recorded, never too many, and no waiter's number is used twice.\<close>

definition client_inv :: "client \<Rightarrow> bool" where
  "client_inv c \<longleftrightarrow> distinct (cn_order c) \<and> set (cn_order c) = dom (cn_log c) \<and> length (cn_order c) \<le> COMPLETIONS_KEPT
     \<and> (\<forall>(i, w) \<in> set (cn_waiters c). w < cn_next_waiter c) \<and> (\<forall>w \<in> dom (cn_told c). w < cn_next_waiter c)"

lemma waiter_numbers:
  "client_inv c \<Longrightarrow> (i, w) \<in> set (cn_waiters c) \<Longrightarrow> w < cn_next_waiter c"
  "client_inv c \<Longrightarrow> cn_told c w = Some f \<Longrightarrow> w < cn_next_waiter c"
  unfolding client_inv_def by blast+

lemma fold_forget: "fold (\<lambda>old m. m(old := None)) xs m = (\<lambda>x. if x \<in> set xs then None else m x)"
  by (induction xs arbitrary: m) (auto simp: fun_eq_iff)

lemma fold_tell: "fold (\<lambda>w m. m(w \<mapsto> v)) xs m = (\<lambda>x. if x \<in> set xs then Some v else m x)"
  by (induction xs arbitrary: m) (auto simp: fun_eq_iff)

lemma record_completion_inv:
  assumes "client_inv c"
  shows "client_inv (record_completion index fin c)"
proof -
  define order where "order = (if cn_log c index = None then cn_order c @ [index] else cn_order c)"
  define n where "n = length order - COMPLETIONS_KEPT"
  have o: "distinct order" "set order = dom ((cn_log c)(index \<mapsto> fin))"
    using assms by (auto simp: client_inv_def order_def)
  have "set (take n order) \<union> set (drop n order) = set order" by (metis append_take_drop_id set_append)
  moreover have "set (take n order) \<inter> set (drop n order) = {}" by (rule set_take_disj_set_drop_if_distinct [OF o(1)]) simp
  ultimately have "x \<in> set (drop n order) \<longleftrightarrow> x \<notin> set (take n order) \<and> ((cn_log c)(index \<mapsto> fin)) x \<noteq> None" for x
    using o(2) by (metis Int_iff UnE UnI1 UnI2 domD domIff empty_iff)
  then have "set (drop n order) = dom (\<lambda>x. if x \<in> set (take n order) then None else ((cn_log c)(index \<mapsto> fin)) x)" by (auto simp: dom_def)
  moreover have "length (drop n order) \<le> COMPLETIONS_KEPT" by (simp add: n_def)
  moreover have "distinct (drop n order)" using o(1) by simp
  moreover have "\<forall>(i, w) \<in> set (cn_waiters (record_completion index fin c)). w < cn_next_waiter c"
    using waiter_numbers(1) [OF assms] by (auto simp: record_completion_def Let_def)
  moreover have "\<forall>w \<in> dom (cn_told (record_completion index fin c)). w < cn_next_waiter c"
    using waiter_numbers [OF assms] by (auto simp: record_completion_def fold_tell Let_def split: if_splits)
  moreover have "cn_next_waiter (record_completion index fin c) = cn_next_waiter c" "cn_order (record_completion index fin c) = drop n order"
    "cn_log (record_completion index fin c) = (\<lambda>x. if x \<in> set (take n order) then None else ((cn_log c)(index \<mapsto> fin)) x)"
    by (simp_all add: record_completion_def order_def n_def fold_forget Let_def)
  ultimately show ?thesis by (simp only: client_inv_def)
qed

lemma arrival_inv: "client_inv c \<Longrightarrow> client_inv (on_arrival e c)"
proof (cases e)
  case (Ar_Reply rp)
  assume "client_inv c"
  then have "client_inv (on_reply rp c)"
    by (cases rp) (auto simp: on_reply_def record_completion_inv, auto simp: client_inv_def)
  with \<open>client_inv c\<close> Ar_Reply show ?thesis by simp
next
  case (Ar_Status d)
  assume "client_inv c"
  with Ar_Status show ?thesis
    by (auto simp: client_inv_def on_status_datagram_def on_status_frame_def note_skew_def Let_def split: status_datagram.splits option.splits)
qed (auto simp: client_inv_def close_client_def)

interpretation tidy: client_keeps client_inv "\<lambda>_. True"
  by unfold_locales (simp_all add: arrival_inv, simp_all add: client_inv_def)

lemma tidy_env [simp]: "tidy.fine_env en"
  by (simp add: tidy.fine_env_def list_all_iff)

lemma tidy_fields [simp]:
  "client_inv (c\<lparr>cn_pending := p\<rparr>) = client_inv c" "client_inv (c\<lparr>cn_answers := a\<rparr>) = client_inv c" "client_inv (c\<lparr>cn_req_id := r\<rparr>) = client_inv c"
  "client_inv (c\<lparr>cn_transfer_id := t\<rparr>) = client_inv c" "client_inv (c\<lparr>cn_last_command_index := i\<rparr>) = client_inv c"
  by (simp_all add: client_inv_def)

lemma roundtrip_inv: "roundtrip en ds q n c = (r, c') \<Longrightarrow> client_inv c \<Longrightarrow> client_inv c'"
  by (auto simp: roundtrip_def dest!: tidy.keeps_attempts split: if_splits prod.splits)

lemma next_req_id_inv: "next_req_id c = Some (q, c') \<Longrightarrow> client_inv c' = client_inv c"
  using next_req_id_loop_good [of "length (cn_pending c) + 2" c q c'] by (auto simp: next_req_id_def)

lemma call_inv: "call en cmd n c = Some (r, c') \<Longrightarrow> client_inv c \<Longrightarrow> client_inv c'"
  by (auto simp: call_def datagrams_def next_req_id_inv dest!: roundtrip_inv split: option.splits prod.splits sum.splits if_splits)

section \<open>Waiting\<close>

text \<open>A wait's waiter, numbered \<open>w\<close>, is under the index alone and told only what arrived for it.\<close>

definition told_from :: "arrival set \<Rightarrow> nat \<Rightarrow> nat \<Rightarrow> client \<Rightarrow> bool" where
  "told_from A index w c \<longleftrightarrow> (\<forall>i. (i, w) \<in> set (cn_waiters c) \<longrightarrow> i = index)
     \<and> (\<forall>ok detail vd. cn_told c w = Some (ok, detail, vd) \<longrightarrow> Ar_Reply (Rp_Complete index ok detail vd) \<in> A)"

lemma record_told:
  assumes "told_from A index w c" and "i = index \<Longrightarrow> Ar_Reply (Rp_Complete index ok detail vd) \<in> A"
  shows "told_from A index w (record_completion i (ok, detail, vd) c)"
  using assms by (auto simp: told_from_def record_completion_def fold_tell Let_def split: if_splits)

interpretation told: client_keeps "told_from A index w" "\<lambda>e. e \<in> A" for A index w
proof unfold_locales
  show "told_from A index w (on_arrival e c)" if "told_from A index w c" "e \<in> A" for c e
  proof (cases e)
    case (Ar_Reply rp)
    have "told_from A index w (on_reply rp c)"
    proof (cases rp)
      case (Rp_Complete i ok detail vd)
      have "told_from A index w (record_completion i (ok, detail, vd) c)"
        by (rule record_told) (use that Ar_Reply Rp_Complete in auto)
      with Rp_Complete show ?thesis by (simp add: on_reply_def)
    qed (use that in \<open>auto simp: on_reply_def told_from_def\<close>)
    with that Ar_Reply show ?thesis by simp
  next
    case (Ar_Status d)
    with that show ?thesis
      by (auto simp: told_from_def on_status_datagram_def on_status_frame_def note_skew_def Let_def split: status_datagram.splits option.splits)
  qed (use that in \<open>auto simp: told_from_def close_client_def\<close>)
qed (simp_all add: told_from_def)

lemma race_told:
  "race since index w polls first c = (r, c') \<Longrightarrow> told_from A index w c \<Longrightarrow> \<forall>(b, evs) \<in> set polls. set evs \<subseteq> A
   \<Longrightarrow> told_from A index w c' \<and> (\<forall>fin. r = Won_Channel (Some fin) \<longrightarrow> cn_told c' w = Some fin)"
proof (induction polls arbitrary: first c)
  case Nil
  then show ?case by (subst (asm) race.simps) (auto simp: poll_waiter_def split: option.splits if_splits)
next
  case (Cons p polls)
  obtain b evs where p: "p = (b, evs)" by (cases p)
  have next_told: "told_from A index w (fold on_arrival evs c)"
    using Cons.prems p by (intro told.keeps_arrivals) (auto simp: list_all_iff)
  from Cons.prems(1) show ?case
    by (subst (asm) race.simps) (use Cons.IH [OF _ next_told] Cons.prems p in \<open>auto simp: poll_waiter_def split: option.splits if_splits\<close>)
qed

text \<open>The record a recovery query gives.\<close>

lemma query_from_arrivals:
  assumes "client_query en cmd c = Some (Inr res, c')"
  shows "\<exists>q. Ar_Reply (Rp_Response q res) \<in> arrivals_of en"
proof -
  from assms obtain n r where r: "call en cmd n c = Some (r, c')" "bind_result r query_answer = Inr res"
    by (auto simp: client_query_def)
  then obtain rp where rp: "r = Inr rp" "query_answer rp = Inr res" by (auto simp: bind_result_eq_Inr)
  then obtain q where q: "rp = Some (Rp_Response q res)" by (auto simp: query_answer_def split: option.splits reply.splits)
  with r rp obtain ds q' c0 where "roundtrip en ds q' n c0 = (Inr (Some (Rp_Response q res)), c')"
    by (auto simp: call_def split: option.splits prod.splits sum.splits)
  from roundtrip_answer [OF this] show ?thesis by blast
qed

definition wait_arrivals :: "wait_env \<Rightarrow> arrival set" where
  "wait_arrivals en = (\<Union>(b, evs) \<in> set (wv_polls en). set evs) \<union> set (wv_grace en)"

text \<open>Where a completion a wait may report comes from.\<close>

definition evidence :: "wait_env \<Rightarrow> nat \<Rightarrow> completion \<Rightarrow> bool" where
  "evidence en index fin \<longleftrightarrow> (case fin of (ok, detail, vd) \<Rightarrow> Ar_Reply (Rp_Complete index ok detail vd) \<in> wait_arrivals en
     \<or> (\<exists>q i. Ar_Reply (Rp_Response q (QR_CommandCompletion i True ok detail vd)) \<in> arrivals_of (wv_query en)))"

lemma recover_reported:
  assumes "recover_completion (wv_query en) index c = Some (Some fin, c')"
  shows "evidence en index fin"
proof -
  obtain ok detail vd where fin: "fin = (ok, detail, vd)" by (cases fin)
  from assms obtain r c1 where r: "client_query (wv_query en) (C_CommandCompletion (of_nat index)) c = Some (r, c1)"
    and res: "(case r of Inr (QR_CommandCompletion i True ok detail vd) \<Rightarrow> (Some (ok, detail, vd), record_completion index (ok, detail, vd) c1)
      | _ \<Rightarrow> (None, c1)) = (Some fin, c')" by (auto simp: recover_completion_def)
  from res obtain i where "r = Inr (QR_CommandCompletion i True ok detail vd)"
    by (auto simp: fin split: sum.splits query_result.splits bool.splits)
  with query_from_arrivals r show ?thesis by (fastforce simp: evidence_def fin)
qed

lemma race_completion_reported:
  assumes "race_completion en index w c = Some (Inr (Some fin), c')" and "told_from (wait_arrivals en) index w c"
  shows "evidence en index fin"
proof -
  obtain r c1 where r: "race (cn_status c) index w (wv_polls en) (wv_channel_first en) c = (r, c1)" by (metis prod.exhaust)
  have "\<forall>(b, evs) \<in> set (wv_polls en). set evs \<subseteq> wait_arrivals en" by (auto simp: wait_arrivals_def)
  from race_told [OF r assms(2) this] have t: "told_from (wait_arrivals en) index w c1" "\<And>fin. r = Won_Channel (Some fin) \<Longrightarrow> cn_told c1 w = Some fin"
    by auto
  define c2 where "c2 = fold on_arrival (wv_grace en) c1"
  have t2: "told_from (wait_arrivals en) index w c2"
    unfolding c2_def by (rule told.keeps_arrivals [OF t(1)]) (auto simp: list_all_iff wait_arrivals_def)
  have told: "evidence en index f" if "told_from (wait_arrivals en) index w d" "cn_told d w = Some f" for d f
    using that by (cases f) (auto simp: told_from_def evidence_def)
  show ?thesis
  proof (cases r)
    case (Won_Channel got)
    with assms(1) r have "got = Some fin" "c' = c1" by (auto simp: race_completion_def Let_def split: option.splits if_splits)
    with told [OF t(1) t(2)] Won_Channel show ?thesis by blast
  next
    case (Won_Status hit)
    have hit: hit
    proof (rule ccontr)
      assume "\<not> hit"
      with Won_Status assms(1) r show False by (auto simp: race_completion_def Let_def split: option.splits)
    qed
    with assms(1) r Won_Status have "poll_waiter index w c2 = Some (Some fin) \<or> (\<exists>c'. recover_completion (wv_query en) index c2 = Some (Some fin, c'))"
      by (auto simp: race_completion_def Let_def c2_def [symmetric] split: option.splits if_splits)
    then show ?thesis
    proof
      assume "poll_waiter index w c2 = Some (Some fin)"
      then have "cn_told c2 w = Some fin" by (auto simp: poll_waiter_def split: option.splits if_splits)
      with told [OF t2] show ?thesis .
    qed (use recover_reported in blast)
  qed
qed

lemma wait_reported:
  assumes "client_inv c" and "wait_command en index c = Some (Inr True, c')"
  shows "(\<exists>detail vd. cn_log c index = Some (True, detail, vd)) \<or> (\<exists>detail vd. evidence en index (True, detail, vd))"
proof (cases "cn_log c index")
  case (Some fin)
  with assms(2) have "completion_result index (Some fin) = Inr True" by (simp add: wait_command_def)
  with Some show ?thesis by (cases fin) (auto simp: completion_result_def split: bool.splits option.splits)
next
  case None
  define w where "w = cn_next_waiter c"
  define c0 where "c0 = c\<lparr>cn_waiters := cn_waiters c @ [(index, w)], cn_next_waiter := Suc w\<rparr>"
  from None assms(2) obtain r c1 where r: "race_completion en index w c0 = Some (r, c1)" "bind_result r (completion_result index) = Inr True"
    by (auto simp: wait_command_def await_completion_def w_def c0_def Let_def)
  from r(2) obtain detail vd where "r = Inr (Some (True, detail, vd))"
    by (auto simp: bind_result_eq_Inr completion_result_def split: option.splits prod.splits bool.splits)
  moreover have "told_from (wait_arrivals en) index w c0" using assms(1) by (fastforce simp: told_from_def client_inv_def c0_def w_def)
  ultimately show ?thesis using race_completion_reported r(1) by blast
qed

section \<open>Every state of a client\<close>

text \<open>One call at a time, between them what arrives. A pending table that other tasks share is what \<open>call_confined\<close> is about.\<close>

inductive client_step :: "client \<Rightarrow> client \<Rightarrow> bool" where
  cl_arrival: "client_step c (on_arrival e c)"
| cl_query: "client_query en cmd c = Some (result, c') \<Longrightarrow> client_step c c'"
| cl_system: "client_system en cmd c = Some (ack, c') \<Longrightarrow> client_step c c'"
| cl_queued: "client_queued en cmd c = Some (index, c') \<Longrightarrow> client_step c c'"
| cl_fire: "fire en cmd c = Some (sent, c') \<Longrightarrow> client_step c c'"
| cl_wait: "wait_command wen i c = Some (told, c') \<Longrightarrow> client_step c c'"

definition client_initial :: "client \<Rightarrow> bool" where
  "client_initial c \<longleftrightarrow> (\<exists>mtu retries seed. connect mtu retries seed = Inr c)"

lemma query_inv: "client_query en cmd c = Some (r, c') \<Longrightarrow> client_inv c \<Longrightarrow> client_inv c'"
  by (auto simp: client_query_def dest: call_inv)

lemma queued_inv: "client_queued en cmd c = Some (r, c') \<Longrightarrow> client_inv c \<Longrightarrow> client_inv c'"
  by (erule client_queued_call) (auto dest: call_inv)

lemma race_inv: "race since index w polls first c = (r, c') \<Longrightarrow> client_inv c \<Longrightarrow> client_inv c'"
proof (induction polls arbitrary: first c)
  case Nil
  then show ?case by (subst (asm) race.simps) (auto split: option.splits if_splits)
next
  case (Cons p polls)
  have keep: "client_inv (fold on_arrival evs c)" for evs using Cons.prems(2) by (intro tidy.keeps_arrivals) (simp_all add: list_all_iff)
  from Cons.prems(1) show ?case
    by (subst (asm) race.simps) (use Cons.IH [OF _ keep] Cons.prems(2) in \<open>auto split: option.splits if_splits prod.splits\<close>)
qed

lemma recover_inv:
  assumes "recover_completion en index c = Some (r, c')" and "client_inv c"
  shows "client_inv c'"
proof -
  from assms(1) obtain r1 c1 where q: "client_query en (C_CommandCompletion (of_nat index)) c = Some (r1, c1)"
    and res: "(case r1 of Inr (QR_CommandCompletion i True ok detail vd) \<Rightarrow> (Some (ok, detail, vd), record_completion index (ok, detail, vd) c1)
      | _ \<Rightarrow> (None, c1)) = (r, c')" by (auto simp: recover_completion_def)
  from res have "c' = c1 \<or> (\<exists>fin. c' = record_completion index fin c1)"
    by (auto split: sum.splits query_result.splits bool.splits)
  with query_inv [OF q assms(2)] record_completion_inv show ?thesis by blast
qed

lemma race_completion_inv:
  assumes "race_completion en index w c = Some (r, c')" and "client_inv c"
  shows "client_inv c'"
proof -
  obtain r1 c1 where r: "race (cn_status c) index w (wv_polls en) (wv_channel_first en) c = (r1, c1)" by (metis prod.exhaust)
  have c1: "client_inv c1" by (rule race_inv [OF r assms(2)])
  then have c2: "client_inv (fold on_arrival (wv_grace en) c1)" by (rule tidy.keeps_arrivals) (simp add: list_all_iff)
  have "client_inv c3" if "recover_completion (wv_query en) index (fold on_arrival (wv_grace en) c1) = Some (x, c3)" for x c3
    by (rule recover_inv [OF that c2])
  with assms(1) r c1 c2 show ?thesis
    by (cases r1) (auto simp: race_completion_def Let_def split: option.splits if_splits bool.splits)
qed

lemma wait_inv:
  assumes w: "wait_command en index c = Some (r, c')" and inv: "client_inv c"
  shows "client_inv c'"
proof (cases "cn_log c index")
  case (Some fin)
  with w inv show ?thesis by (simp add: wait_command_def)
next
  case None
  define c0 where "c0 = c\<lparr>cn_waiters := cn_waiters c @ [(index, cn_next_waiter c)], cn_next_waiter := Suc (cn_next_waiter c)\<rparr>"
  have "\<And>i w. (i, w) \<in> set (cn_waiters c) \<Longrightarrow> w < Suc (cn_next_waiter c)" "\<And>w f. cn_told c w = Some f \<Longrightarrow> w < Suc (cn_next_waiter c)"
    using waiter_numbers [OF inv] by (blast intro: less_SucI)+
  with inv have c0: "client_inv c0" by (auto simp: client_inv_def c0_def)
  from None w obtain r1 c1 where r: "race_completion en index (cn_next_waiter c) c0 = Some (r1, c1)"
    "c' = c1\<lparr>cn_waiters := filter (\<lambda>x. x \<noteq> (index, cn_next_waiter c)) (cn_waiters c1)\<rparr>"
    by (auto simp: wait_command_def await_completion_def c0_def Let_def)
  from race_completion_inv [OF r(1) c0] show ?thesis by (auto simp: r(2) client_inv_def)
qed

interpretation client_machine: inductive_invariant client_initial client_step client_inv
proof unfold_locales
  show "client_initial c \<Longrightarrow> client_inv c" for c
    by (auto simp: client_initial_def connect_def client_inv_def split: if_splits)
  show "client_inv c'" if "client_inv c" "client_step c c'" for c c'
    using that(2,1)
  proof (induction rule: client_step.induct)
    case (cl_fire en cmd c r c')
    then show ?case by (auto simp: fire_def next_req_id_inv split: if_splits option.splits prod.splits sum.splits)
  qed (auto simp: client_system_def arrival_inv dest: query_inv queued_inv wait_inv call_inv)
qed

section \<open>Properties of waits\<close>


section \<open>Witnesses\<close>

definition sample_client :: client where
  "sample_client = \<lparr>cn_mtu = 1400, cn_retries = 2, cn_pending = [], cn_answers = Map.empty, cn_log = Map.empty, cn_order = [],
     cn_waiters = [], cn_told = Map.empty, cn_next_waiter = 0, cn_req_id = 1, cn_transfer_id = 0, cn_key_state = 1, cn_status = None,
     cn_last_seq = None, cn_seq_gaps = 0, cn_last_command_index = -1, cn_skew = None, cn_closed = False, cn_sent = [], cn_waits = 0\<rparr>"

lemma sample_client_connects: "connect 1400 2 0 = Inr sample_client"
  by (simp add: connect_def MIN_MTU_def sample_client_def)

definition silent_env :: client_env where
  "silent_env = \<lparr>cv_send = \<lambda>_. True, cv_meanwhile = \<lambda>_. [], cv_arrivals = \<lambda>_. []\<rparr>"

definition sample_wait :: wait_env where
  "sample_wait = \<lparr>wv_polls = [(True, [Ar_Reply (Rp_Complete 4 True None None)])], wv_channel_first = True, wv_grace = [], wv_query = silent_env\<rparr>"

theorem call_confined_witness: "\<exists>q r c'. call silent_env C_Ping 3 sample_client = Some (r, c') \<and> q \<noteq> 0 \<and> q \<notin> set (cn_pending c')"
  using call_confined [of sample_client silent_env C_Ping 3] by (auto simp: sample_client_def MIN_MTU_def)

lemma sample_wait_done: "\<exists>c'. wait_command sample_wait 4 sample_client = Some (Inr True, c')"
  by (simp add: wait_command_def await_completion_def race_completion_def race.simps poll_waiter_def poll_status_def protocol_mismatch_def
      sample_client_def sample_wait_def on_reply_def record_completion_def completion_result_def COMPLETIONS_KEPT_def Let_def)


end
