(* ===== verification/Session.thy ===== *)
theory Session
  imports Client_Props Server_Acks
begin

text \<open>
  The client and the server together: what the attempts of one call come to on the server's side.
\<close>

lemma sent_copies: "prefix sent (concat (replicate n [data])) \<Longrightarrow> d \<in> set sent \<Longrightarrow> d = data"
  by (auto dest!: set_mono_prefix)

lemma client_encode_decodes:
  assumes "client_encode cmd q = Inr data" and "command_wf cmd" and "shape_params_fit cmd"
  shows "decode_command data = Inr (q, cmd)"
proof -
  from assms(1) have "encode_command cmd q = Inr data" by (auto simp: client_encode_def split: sum.splits decode_error.splits)
  with decode_encode_command assms(2,3) show ?thesis by blast
qed


section \<open>Witness\<close>

lemma sample_offset_valid: "command_wf sample_offset" "shape_params_fit sample_offset" "validate sample_offset = Inr ()"
  by (simp_all add: sample_offset_def check_eval float_eval result_simps)

lemma length_w_uint_any: "length (w_uint v) \<le> 9"
  by (simp add: w_uint_def)

lemma sample_offset_short: "client_encode sample_offset q = Inr data \<Longrightarrow> length data \<le> 1400"
proof -
  assume "client_encode sample_offset q = Inr data"
  then have "encode_command sample_offset q = Inr data" by (auto simp: client_encode_def split: sum.splits decode_error.splits)
  then show ?thesis using length_w_uint_any [of "ucast q"] length_w_uint_any [of 5] length_w_uint_any [of "cmd_type_val T_SetTcpOffset"]
    by (auto simp: encode_command_def bind_result_eq_Inr sample_offset_def w_f64_def w_array_def Let_def)
qed

lemma silent_wait: "cn_answers c q = None \<Longrightarrow> q \<in> set (cn_pending c) \<Longrightarrow> timed_wait silent_env q c = (Inr None, c\<lparr>cn_waits := Suc (cn_waits c)\<rparr>)"
  by (simp add: timed_wait_def await_reply.simps silent_env_def)

lemma silent_attempts:
  "cn_answers c q = None \<Longrightarrow> q \<in> set (cn_pending c) \<Longrightarrow> \<not> cn_closed c
   \<Longrightarrow> \<exists>c'. attempts_loop silent_env [d] q n c = (Inr None, c') \<and> cn_sent c' = cn_sent c @ replicate n d"
proof (induction n arbitrary: c)
  case (Suc n)
  define c1 where "c1 = c\<lparr>cn_sent := cn_sent c @ [d]\<rparr>"
  define c2 where "c2 = snd (fresh_key (c1\<lparr>cn_waits := Suc (cn_waits c1)\<rparr>))"
  define c3 where "c3 = c2\<lparr>cn_waits := Suc (cn_waits c2)\<rparr>"
  have send: "send_each silent_env [d] c = (Inr (), c1)" using Suc.prems by (simp add: silent_env_def c1_def Let_def)
  have w1: "timed_wait silent_env q c1 = (Inr None, c1\<lparr>cn_waits := Suc (cn_waits c1)\<rparr>)" using Suc.prems by (intro silent_wait) (simp_all add: c1_def)
  have w2: "timed_wait silent_env q c2 = (Inr None, c3)" using Suc.prems
    unfolding c3_def by (intro silent_wait) (simp_all add: c2_def c1_def fresh_key_def Let_def)
  have c3: "cn_answers c3 q = None" "q \<in> set (cn_pending c3)" "\<not> cn_closed c3" "cn_sent c3 = cn_sent c @ [d]"
    using Suc.prems by (simp_all add: c3_def c2_def c1_def fresh_key_def Let_def)
  from w1 w2 have waits: "snd (timed_wait silent_env q c1) = c1\<lparr>cn_waits := Suc (cn_waits c1)\<rparr>"
    "timed_wait silent_env q (snd (fresh_key (c1\<lparr>cn_waits := Suc (cn_waits c1)\<rparr>))) = (Inr None, c3)" by (simp_all add: c2_def)
  have sent1: "cn_sent c1 = cn_sent c @ [d]" by (simp add: c1_def)
  from Suc.IH [OF c3(1-3)] c3(4) send w1 waits sent1 show ?case by (auto simp del: send_each.simps)
qed simp

lemma sample_call:
  obtains data c' where "client_encode sample_offset 1 = Inr data" "client_queued silent_env sample_offset sample_client = Some (Inr None, c')"
    "cn_sent c' = cn_sent sample_client @ replicate 3 data"
proof -
  obtain data where d: "client_encode sample_offset 1 = Inr data"
    using encode_command_valid [OF sample_offset_valid(3), of 1] by (auto simp: client_encode_def)
  define c0 where "c0 = sample_client\<lparr>cn_req_id := 2, cn_pending := [1]\<rparr>"
  obtain c1 where c1: "attempts_loop silent_env [data] 1 3 c0 = (Inr None, c1)" "cn_sent c1 = replicate 3 data"
    using silent_attempts [of c0 1 data 3] by (auto simp: c0_def sample_client_def)
  have id: "next_req_id sample_client = Some (1, sample_client\<lparr>cn_req_id := 2\<rparr>)"
    by (simp add: next_req_id_def sample_client_def Let_def)
  have "roundtrip silent_env [data] 1 3 (sample_client\<lparr>cn_req_id := 2\<rparr>) = (Inr None, c1\<lparr>cn_pending := filter (\<lambda>i. i \<noteq> 1) (cn_pending c1)\<rparr>)"
    using c1(1) by (simp add: roundtrip_def c0_def sample_client_def)
  moreover have "datagrams data 1 (sample_client\<lparr>cn_req_id := 2\<rparr>) = ([data], sample_client\<lparr>cn_req_id := 2\<rparr>)"
    using sample_offset_short [OF d] by (simp add: datagrams_def sample_client_def)
  moreover have three: "1 + cn_retries sample_client = 3" by (simp add: sample_client_def)
  ultimately have "call silent_env sample_offset (1 + cn_retries sample_client) sample_client
      = Some (Inr None, c1\<lparr>cn_pending := filter (\<lambda>i. i \<noteq> 1) (cn_pending c1)\<rparr>)" unfolding three using id d by (simp add: call_def)
  then have "client_queued silent_env sample_offset sample_client = Some (Inr None, c1\<lparr>cn_pending := filter (\<lambda>i. i \<noteq> 1) (cn_pending c1)\<rparr>)"
    by (simp add: client_queued_def queued_answer_def)
  with d c1(2) that show thesis by (simp add: sample_client_def)
qed


end
