(* ===== verification/Spec2Isabelle.thy ===== *)
theory Spec2Isabelle
  imports Command_Props Chunk_Props Error_Latch Ring_Concurrent Snapshot Gripper Exec_Props
    Convert Dispatch Gpio Homing_Props Core_Props Can_Props Hw_Props Server_Props Plane
    Server_Acks Config_Props Boot_Props Client_Props Session
begin

text \<open>
  A verification development of the \<open>par6\<close> robot controller (the crates under
  \<open>src/crates/\<close>).

  \<^bold>\<open>The program.\<close> A real-time loop (\<open>par6-rt\<close>) drives a six-joint arm and a gripper over a CAN
  bus (\<open>par6-bus\<close>). Every tick it reads the drives, checks for faults, takes at most one
  command, computes one command per joint for the current mode and sends them. A daemon
  (\<open>par6d\<close>, \<open>par6-server\<close>) receives commands over UDP in the protocol of \<open>par6-proto\<close>, plans
  motion with \<open>par6-motion\<close> and \<open>par6-kin\<close>, and hands the loop its samples through a lock-free
  ring, its commands through a queue, and gets its state back through a triple buffer.

  \<^bold>\<open>Theories.\<close>
  \<^item> \<open>Par6_Prelude\<close>, \<open>Reachability\<close>, \<open>F64\<close>: machine words, the result type, big-endian
    bytes; reachable states and the locale \<open>inductive_invariant\<close>; IEEE binary64 as 64-bit
    patterns with correctly rounded operations computed through the integers, so that NaN,
    infinities, signed zeros and rounding are those of the program.
  \<^item> \<open>Wire\<close>, \<open>Enums\<close>, \<open>Command_Types\<close>, \<open>Command_Validate\<close>, \<open>Command_Codec\<close>,
    \<open>Command_Roundtrip\<close>, \<open>Command_Props\<close>: \<open>par6-proto\<close> \<open>wire.rs\<close>, \<open>enums.rs\<close>,
    \<open>command.rs\<close>. The MessagePack writers and reader, every command with its checks and its
    encoding. What is accepted for sending decodes to itself; what is decoded from any bytes
    is well-formed and in range.
  \<^item> \<open>Chunk\<close>, \<open>Chunk_Props\<close>: \<open>chunk.rs\<close>. Reassembly in any order, its memory bound, expiry.
  \<^item> \<open>Error_Latch\<close>: \<open>par6-rt\<close> \<open>errors.rs\<close>. Hard errors stay until a clear has settled.
  \<^item> \<open>Ring\<close>, \<open>Ring_Props\<close>, \<open>Ring_Concurrent\<close>: \<open>ring.rs\<close>, as operations on a queue and as
    single memory accesses of two threads.
  \<^item> \<open>Snapshot\<close>: \<open>snapshot.rs\<close>, the triple buffer, with payloads copied word by word.
  \<^item> \<open>Gripper\<close>: \<open>gripper_gate.rs\<close> and \<open>gripper_settle.rs\<close>.
  \<^item> \<open>Exec\<close>, \<open>Exec_Props\<close>: \<open>exec.rs\<close> with the settle policy of \<open>adapters.rs\<close>.
  \<^item> \<open>Convert\<close>, \<open>Dispatch\<close>, \<open>Gpio\<close>, \<open>Bus_Types\<close>: \<open>spectral/convert.rs\<close>, \<open>dispatch.rs\<close>, the
    debouncing of \<open>gpio.rs\<close>, the data of \<open>types.rs\<close> and the calls of the \<open>DriverBus\<close> trait.
  \<^item> \<open>Homing\<close>, \<open>Homing_Sequence\<close>, \<open>Homing_Props\<close>: \<open>homing.rs\<close>, the machine of one joint and
    the sequence that runs them; both end whatever the drives report.
  \<^item> \<open>Core_State\<close>, \<open>Core_Modes\<close>, \<open>Core_Tick\<close>, \<open>Core_Dispatch\<close>, \<open>Core_Frames\<close>, \<open>Core_Props\<close>:
    \<open>core.rs\<close>, the loop that composes all of the above: construction, the mode table and
    every command, the measurement pipeline, all fault checks and the reaction, the frames of
    every mode, and the operations between ticks.
  \<^item> \<open>Can_Codec\<close>, \<open>Can_Props\<close>: \<open>spectral/codec.rs\<close> and \<open>node_config.rs\<close>, the CAN frames in both
    directions, and the law a drive takes from a motion frame (\<open>sim/driver.rs\<close>).
  \<^item> \<open>Bus_Sched\<close>, \<open>Bus_Hw\<close>, \<open>Hw_Props\<close>: \<open>hw/sched.rs\<close> and \<open>hw/mod.rs\<close>, the poll schedule, the
    freshness clock, the boot configuration and every operation of the hardware bus.
  \<^item> \<open>Server_Rules\<close>, \<open>Server\<close>, \<open>Server_Handlers\<close>: \<open>par6-server\<close>'s \<open>gating.rs\<close>, \<open>session.rs\<close>,
    \<open>faults.rs\<close>, \<open>config.rs\<close> and \<open>server.rs\<close>, the queue engine and every handler of the event
    loop. \<open>Server_Book\<close> is the specification of the queue as a ledger of command indexes,
    \<open>Server_Sim\<close> and \<open>Server_Refine\<close> prove that every handler implements its steps,
    \<open>Server_Props\<close> states what follows for the server. \<open>Server_Frame\<close> proves, for any relation
    that fits its locale, what all handlers that accept nothing keep; \<open>Server_Props\<close> uses it for
    the motion a latched e-stop forbids, \<open>Server_Acks\<close> for the acknowledgements of queued
    commands and the window that recognises retransmissions.
  \<^item> \<open>Plane\<close>: \<open>plane.rs\<close>, the planner's thread over an arbitrary planner.
  \<^item> \<open>Config\<close>, \<open>Config_Rules\<close>, \<open>Config_Props\<close>: \<open>par6-config\<close> \<open>robot.rs\<close>, \<open>homing.rs\<close>, \<open>io.rs\<close>,
    \<open>gripper.rs\<close> and the bundle of \<open>lib.rs\<close>: the parsed tables, every validation with the field
    its error names, and the resolutions; what a passed validation says.
  \<^item> \<open>Boot\<close>, \<open>Boot_Props\<close>: the construction of the bus, the homing system and the core from a
    configuration (\<open>RtCore::new\<close>, \<open>HomingSystem::new\<close>, \<open>boot_configure\<close>), with its panics; a
    validated configuration starts the arm it describes, except for two waits nothing validates.
  \<^item> \<open>Client\<close>, \<open>Client_Props\<close>: \<open>par6-client\<close> \<open>core.rs\<close>, the roundtrips, the receivers, the
    completion log and the wait for a queued command.
  \<^item> \<open>Session\<close>: client and server together, the retransmissions of one call.
  \<^item> This theory: the path of a stop request from the core to the drives.

  \<^bold>\<open>Conventions.\<close> A struct is a record, an enum a datatype, a method a function that returns the
  updated record. \<open>Result\<close> is a sum with the error on the left. \<open>u8\<close> to \<open>u64\<close> are words;
  counters that only count elements or ticks of one run and cannot reach their width are
  \<open>nat\<close>. Error texts, logging and the profiler are left out. The bus and the motion engines
  are other components behind traits: a call to them is recorded in the order the code makes
  it, and what they answer during a tick is a field of the record \<open>env\<close>, an argument of every
  definition that asks, so that the theorems hold whatever they answer; \<open>hw_env\<close> is the same for
  the CAN socket, \<open>client_env\<close> and \<open>wait_env\<close> for what a client's calls await, \<open>server_env\<close> for the clock, the snapshots and the real-time side of the server. \<open>is_silent\<close> is the
  last \<open>set_silent\<close>. The offline preview's \<open>set_homed(false)\<close> is not a step of the loop.

  \<^bold>\<open>Bounds and fuel.\<close> The skipper of nested values recurses to the depth bound of the source;
  the bisection of the playback clock runs the source's sixteen rounds; the client's search for a
  free request id has fuel for one id more than can be taken, which is proved enough. No other definition
  has fuel. Termination of homing is proved with explicit tick bounds computed from the
  configuration. The concurrent models are sequentially consistent: each shared variable of
  the source is accessed with acquire and release orderings that order the slot accesses it
  covers; the ring's counters are assumed not to pass \<open>2 ^ 64\<close> publishes in one run.

  \<^bold>\<open>Interfaces.\<close> The locales state what one component needs of another and are interpreted on
  the model's own definitions: \<open>inductive_invariant\<close> (every reachability proof), and those
  of the error list, the ring, the codec and the wire enums in their theories. \<open>server_frame\<close> is what a relation
  between server states needs to survive the handlers, \<open>client_keeps\<close> what a property of a client
  needs to hold through its waits. The ledger of the
  server is its abstract specification; \<open>server_machine\<close> carries the simulation to all its
  reachable states.

  \<^bold>\<open>Not modelled.\<close> Kinematics, collision checking and trajectory generation (\<open>par6-kin\<close>,
  \<open>par6-motion\<close>) compute with C++ and linear-algebra libraries outside the repository; the
  simulated bus is a physics stand-in for the drives; socket and thread set-up, logging,
  configuration loading through serde, client wrappers and Python bindings are I/O and glue around
  those. Of the server, the socket set-up, the status link,
  the log and the rendering of texts are left out; a wire error keeps its code and index, a
  query that copies sensor readings is an opaque answer, a STATUS frame keeps the fields the
  server decides, and the size check of a configuration bundle is not made. A handler reads the clock once.
  Of the configuration, TOML parsing, the defaults serde fills in and the merge of overlays are left out: the
  model starts from the parsed tables. Of the clients, the transport core is modelled with
  replies and STATUS frames given decoded; the method wrappers, the socket set-up and the Python
  bindings are left out.
\<close>

section \<open>From a stop request to the drives\<close>

text \<open>The node a frame is addressed to and the law it installs there.\<close>

definition drive_order :: "can_frame \<Rightarrow> node_id \<times> drive_mode option" where
  "drive_order f = (case unpack_can_id (cf_id f) of (n, cmd, err) \<Rightarrow>
     (n, Option.bind (from_raw cmd) (\<lambda>k. on_motion_frame k (frame_payload f))))"

lemma send_accepted: "he_write w (hb_writes b) = Wr_Ok \<Longrightarrow>
    \<exists>b'. hw_send w f b = (Inr (), b') \<and> hb_sent b' = hb_sent b @ [f]"
  by (simp add: hw_send_def Let_def)

lemma zero_current_frame:
  assumes "unat node < 16"
  shows "\<exists>f. encode_joint_command node (jc_current 0) = Inr (Some f) \<and> drive_order f = (node, Some (DM_Current (f64_of_i16 0)))"
  using node_four_bits [OF assms]
  by (simp add: encode_joint_command_def drive_order_def jc_current_def Let_def unpack_pack_can_id or_zero_def
      on_motion_frame_def unpack_pack_i16 del: raw.simps)

lemma zero_current_loop:
  assumes "\<forall>i. he_write w i = Wr_Ok" and "\<forall>n \<in> set nodes. unat n < 16" and "length cs = length nodes" and "set cs \<subseteq> {jc_current 0}"
  shows "\<exists>fs b'. send_joints_loop w (zip nodes cs) b = (Inr (), b') \<and> hb_sent b' = hb_sent b @ fs
    \<and> map drive_order fs = map (\<lambda>n. (n, Some (DM_Current (f64_of_i16 0)))) nodes"
  using assms
proof (induction nodes arbitrary: b cs)
  case (Cons n nodes)
  then obtain cs' where cs: "cs = jc_current 0 # cs'" "length cs' = length nodes" "set cs' \<subseteq> {jc_current 0}" by (cases cs) auto
  from Cons.prems(2) zero_current_frame [of n] obtain f where f: "encode_joint_command n (jc_current 0) = Inr (Some f)"
    "drive_order f = (n, Some (DM_Current (f64_of_i16 0)))" by auto
  from Cons.prems(1) send_accepted [of w b f] obtain b1 where b1: "hw_send w f b = (Inr (), b1)" "hb_sent b1 = hb_sent b @ [f]" by blast
  from Cons.IH [OF Cons.prems(1) _ cs(2,3), of b1] Cons.prems(2) obtain fs b' where
    "send_joints_loop w (zip nodes cs') b1 = (Inr (), b')" "hb_sent b' = hb_sent b1 @ fs"
    "map drive_order fs = map (\<lambda>n. (n, Some (DM_Current (f64_of_i16 0)))) nodes" by auto
  with f b1 cs show ?case by (intro exI [of _ "f # fs"] exI [of _ b']) simp
qed simp

text \<open>
  C2. From the request to the wire. From every state the core can reach, a SAFETY_STOP request
  makes the core hand the bus one batch of joint commands in the same tick, and a configured
  hardware bus whose socket accepts its frames turns that batch into one frame per joint, in
  joint order, each of which makes its own drive drop to a torque command of zero.
\<close>

theorem safety_stop_limps_drives:
  assumes "reachable (core_initial k) (core_step k) c" and "en_command en = Some (Rt_SetMode M_SafetyStop)"
    and "ensure_ready b = Inr ()" and "\<not> hb_joints_sent b" and "\<forall>i. he_write w i = Wr_Ok"
    and "length (hb_joint_nodes b) = MAX_JOINTS" and "\<forall>n \<in> set (hb_joint_nodes b). unat n < 16"
  shows "\<exists>cs fs b'. filter (\<lambda>call. \<exists>cs. call = On_bus (Call_send_joint_commands cs)) (rc_calls (core_tick k en c))
      = [On_bus (Call_send_joint_commands cs)]
    \<and> send_joint_commands w cs b = (Inr (), b') \<and> hb_sent b' = hb_sent b @ fs
    \<and> map drive_order fs = map (\<lambda>n. (n, Some (DM_Current (f64_of_i16 0)))) (hb_joint_nodes b)"
proof -
  have inv: "core_inv c" by (rule core_machine.reachable_inv [OF assms(1)])
  from tick_protected(4) [OF inv stop_request_mode [OF inv assms(2)]]
  have "protective_sends (jc_current 0) (rc_calls (core_tick k en c))" by simp
  then obtain g where sent: "filter transmits (rc_calls (core_tick k en c)) =
      [On_bus (Call_send_joint_commands (replicate MAX_JOINTS (jc_current 0))), On_bus (Call_send_gripper g), On_bus Call_poll_step]"
    by (auto simp: protective_sends_def)
  have "filter (\<lambda>call. \<exists>cs. call = On_bus (Call_send_joint_commands cs)) calls
      = filter (\<lambda>call. \<exists>cs. call = On_bus (Call_send_joint_commands cs)) (filter transmits calls)" for calls
    unfolding filter_filter by (rule filter_cong) auto
  note one = this [of "rc_calls (core_tick k en c)", unfolded sent]
  from zero_current_loop [OF assms(5,7), of "replicate MAX_JOINTS (jc_current 0)" "b\<lparr>hb_joints_sent := True\<rparr>"] assms(6)
  obtain fs b' where "send_joints_loop w (zip (hb_joint_nodes b) (replicate MAX_JOINTS (jc_current 0))) (b\<lparr>hb_joints_sent := True\<rparr>) = (Inr (), b')"
    "hb_sent b' = hb_sent b @ fs" "map drive_order fs = map (\<lambda>n. (n, Some (DM_Current (f64_of_i16 0)))) (hb_joint_nodes b)"
    by (auto simp: MAX_JOINTS_def)
  with assms(3,4,6) have "send_joint_commands w (replicate MAX_JOINTS (jc_current 0)) b = (Inr (), b')"
    by (simp add: send_joint_commands_def when_ready_def)
  with \<open>hb_sent b' = hb_sent b @ fs\<close> \<open>map drive_order fs = _\<close> one show ?thesis by auto
qed

definition sample_bus :: hw_bus where
  "sample_bus = open_bus\<lparr>hb_configured := True, hb_joint_nodes := map of_nat [0..<MAX_JOINTS]\<rparr>"

theorem safety_stop_limps_drives_witness:
  "\<exists>cs fs b'. send_joint_commands \<lparr>he_write = \<lambda>_. Wr_Ok, he_pending = [], he_replies = \<lambda>_. []\<rparr> cs sample_bus = (Inr (), b')
    \<and> hb_sent b' = fs \<and> map drive_order fs = map (\<lambda>n. (n, Some (DM_Current (f64_of_i16 0)))) (map of_nat [0..<MAX_JOINTS])"
proof -
  have nodes: "hb_joint_nodes sample_bus = map of_nat [0..<MAX_JOINTS]" "hb_sent sample_bus = []" "\<not> hb_joints_sent sample_bus"
    "ensure_ready sample_bus = Inr ()" by (simp_all add: sample_bus_def open_bus_def ensure_ready_def)
  have small: "unat n < 16" if "n \<in> set (hb_joint_nodes sample_bus)" for n
    using that by (auto simp: nodes MAX_JOINTS_def upt_rec)
  show ?thesis
    using safety_stop_limps_drives [OF sample_reachable, where b = sample_bus
        and en = "sample_env\<lparr>en_command := Some (Rt_SetMode M_SafetyStop)\<rparr>"
        and w = "\<lparr>he_write = \<lambda>_. Wr_Ok, he_pending = [], he_replies = \<lambda>_. []\<rparr>"] nodes small
    by auto
qed

end
